(* ===== verification/Go_Prelude.thy ===== *)
theory Go_Prelude
  imports Complex_Main "HOL-Library.Sublist" "HOL-Library.AList"
begin

text \<open>
  Shared vocabulary of the development: the part of Go's value model and of its standard library
  that the chatbot, IVR and messaging code relies on.

  \<^item> A Go \<open>string\<close> is a byte sequence, so it is a HOL \<open>string\<close> (a list of 8-bit characters).
  \<^item> \<open>any\<close> is the dynamic type of values decoded from JSON (plus the \<open>int\<close> loop indices the
    template engine stores itself). A \<open>map[string]any\<close> is an association list; the order of the
    list is the order in which the runtime happens to iterate over the map, so a theorem about all
    lists is a theorem about all iteration orders.
  \<^item> \<open>None\<close> of an option-valued operation means that the Go call does not return a value: it
    panics (slice bounds out of range) or runs forever.
  \<^item> Library conversions whose result the code only passes on (Unicode lower-casing, printing and
    parsing of non-integral floats, \<open>%v\<close> on containers, \<open>json.Marshal\<close>) are fields of the
    parameter record \<open>go_rt\<close>.
\<close>

named_theorems go_str \<open>facts on byte strings\<close>
named_theorems go_len \<open>length bounds of what a matcher leaves over\<close>

section \<open>Searching lists\<close>

lemma find_append:
  "find P (xs @ ys) = (case find P xs of None \<Rightarrow> find P ys | Some x \<Rightarrow> Some x)"
  by (induction xs) auto

lemma find_filter_conj: "find P (filter Q xs) = find (\<lambda>x. Q x \<and> P x) xs"
  by (induction xs) auto

lemma find_rev_filter_conj: "find P (rev (filter Q xs)) = find (\<lambda>x. Q x \<and> P x) (rev xs)"
  by (simp only: rev_filter find_filter_conj)

section \<open>Dynamic values\<close>

datatype any =
    NilV
  | BoolV bool
  | StrV string
  | IntV int
  | FloatV rat
  | ArrV "any list"
  | ObjV "(string \<times> any) list"

type_synonym obj = "(string \<times> any) list"

text \<open>Reading a missing key of a \<open>map[string]any\<close> yields the zero value \<open>nil\<close>.\<close>

definition obj_get :: "obj \<Rightarrow> string \<Rightarrow> any" where
  "obj_get m k = (case map_of m k of None \<Rightarrow> NilV | Some v \<Rightarrow> v)"

definition obj_set :: "string \<Rightarrow> any \<Rightarrow> obj \<Rightarrow> obj" where
  "obj_set k v m = AList.update k v m"

lemma map_of_obj_set [simp]: "map_of (obj_set k v m) = (map_of m)(k \<mapsto> v)"
  by (simp add: obj_set_def update_conv')

lemma obj_get_set [simp]: "obj_get (obj_set k v m) k' = (if k' = k then v else obj_get m k')"
  by (simp add: obj_get_def)

lemma obj_get_Nil [simp]: "obj_get [] k = NilV"
  by (simp add: obj_get_def)

lemma keys_obj_set [simp]: "fst ` set (obj_set k v m) = insert k (fst ` set m)"
  by (simp add: obj_set_def dom_update)

lemma distinct_obj_set: "distinct (map fst m) \<Longrightarrow> distinct (map fst (obj_set k v m))"
  by (simp add: obj_set_def distinct_update)

text \<open>\<open>maps.Copy(dst, src)\<close>: every entry of \<open>src\<close> is written to \<open>dst\<close>.\<close>

definition maps_Copy :: "obj \<Rightarrow> obj \<Rightarrow> obj" where
  "maps_Copy dst src = fold (\<lambda>(k, v). obj_set k v) src dst"

lemma map_of_fold_obj_set:
  "map_of (fold (\<lambda>(k, v). obj_set k v) src dst) k =
     (case map_of (rev src) k of None \<Rightarrow> map_of dst k | Some v \<Rightarrow> Some v)"
proof (induction src arbitrary: dst)
  case (Cons p src)
  then show ?case
    by (cases p) (auto simp: map_add_def split: option.splits)
qed simp

text \<open>Type assertions \<open>v, ok := x.(T)\<close>.\<close>

fun as_str :: "any \<Rightarrow> string option" where
  "as_str (StrV s) = Some s"
| "as_str _ = None"

fun as_bool :: "any \<Rightarrow> bool option" where
  "as_bool (BoolV b) = Some b"
| "as_bool _ = None"

fun as_arr :: "any \<Rightarrow> any list option" where
  "as_arr (ArrV xs) = Some xs"
| "as_arr _ = None"

fun as_obj :: "any \<Rightarrow> obj option" where
  "as_obj (ObjV m) = Some m"
| "as_obj _ = None"

fun as_float :: "any \<Rightarrow> rat option" where
  "as_float (FloatV x) = Some x"
| "as_float _ = None"

lemma as_str_iff [simp]: "as_str v = Some s \<longleftrightarrow> v = StrV s"
  by (cases v) auto

lemma as_arr_iff [simp]: "as_arr v = Some s \<longleftrightarrow> v = ArrV s"
  by (cases v) auto

lemma as_obj_iff [simp]: "as_obj v = Some s \<longleftrightarrow> v = ObjV s"
  by (cases v) auto

lemma as_bool_iff [simp]: "as_bool v = Some s \<longleftrightarrow> v = BoolV s"
  by (cases v) auto

text \<open>\<open>v, _ := x.(T)\<close> with the zero value of \<open>T\<close> on failure.\<close>

definition str_or :: "any \<Rightarrow> string" where
  "str_or v = (case as_str v of None \<Rightarrow> [] | Some s \<Rightarrow> s)"

definition bool_or :: "any \<Rightarrow> bool" where
  "bool_or v = (case as_bool v of None \<Rightarrow> False | Some b \<Rightarrow> b)"

definition arr_or :: "any \<Rightarrow> any list" where
  "arr_or v = (case as_arr v of None \<Rightarrow> [] | Some xs \<Rightarrow> xs)"

definition obj_or :: "any \<Rightarrow> obj" where
  "obj_or v = (case as_obj v of None \<Rightarrow> [] | Some m \<Rightarrow> m)"

definition float_or :: "any \<Rightarrow> rat" where
  "float_or v = (case as_float v of None \<Rightarrow> 0 | Some x \<Rightarrow> x)"

lemma any_or_simps [simp]:
  "str_or (StrV s) = s" "str_or NilV = []"
  "bool_or (BoolV b) = b" "bool_or NilV = False"
  "arr_or (ArrV xs) = xs" "arr_or NilV = []"
  "obj_or (ObjV m) = m" "obj_or NilV = []"
  "float_or (FloatV x) = x" "float_or NilV = 0"
  by (simp_all add: str_or_def bool_or_def arr_or_def obj_or_def float_or_def)

text \<open>A \<open>models.JSONB\<close> column: \<open>None\<close> is the nil map, which reads as an empty one.\<close>

type_synonym jsonb = "obj option"

definition jsonb :: "jsonb \<Rightarrow> obj" where
  "jsonb d = (case d of None \<Rightarrow> [] | Some m \<Rightarrow> m)"

lemma jsonb_simps [simp]: "jsonb None = []" "jsonb (Some m) = m"
  by (simp_all add: jsonb_def)

section \<open>Bytes\<close>

abbreviation byte :: "char \<Rightarrow> nat" where
  "byte \<equiv> of_char"

definition is_digit :: "char \<Rightarrow> bool" where
  "is_digit c \<longleftrightarrow> 48 \<le> byte c \<and> byte c \<le> 57"

definition is_alpha_us :: "char \<Rightarrow> bool" where
  "is_alpha_us c \<longleftrightarrow> 65 \<le> byte c \<and> byte c \<le> 90 \<or> 97 \<le> byte c \<and> byte c \<le> 122 \<or> byte c = 95"

text \<open>RE2's \<open>\w\<close> and \<open>\s\<close> classes (ASCII only).\<close>

definition is_word :: "char \<Rightarrow> bool" where
  "is_word c \<longleftrightarrow> is_alpha_us c \<or> is_digit c"

definition is_re_space :: "char \<Rightarrow> bool" where
  "is_re_space c \<longleftrightarrow> byte c \<in> {9, 10, 12, 13, 32}"

lemma is_word_not_space [simp]: "is_word c \<Longrightarrow> \<not> is_re_space c"
  by (auto simp: is_word_def is_alpha_us_def is_digit_def is_re_space_def)

section \<open>Package strings\<close>

text \<open>UTF-8 encodings of the runes for which \<open>unicode.IsSpace\<close> holds.\<close>

definition utf8_spaces :: "string list" where
  "utf8_spaces =
     [[CHR 0x09], [CHR 0x0A], [CHR 0x0B], [CHR 0x0C], [CHR 0x0D], [CHR 0x20],
      [CHR 0xC2, CHR 0x85], [CHR 0xC2, CHR 0xA0], [CHR 0xE1, CHR 0x9A, CHR 0x80],
      [CHR 0xE2, CHR 0x80, CHR 0x80], [CHR 0xE2, CHR 0x80, CHR 0x81],
      [CHR 0xE2, CHR 0x80, CHR 0x82], [CHR 0xE2, CHR 0x80, CHR 0x83],
      [CHR 0xE2, CHR 0x80, CHR 0x84], [CHR 0xE2, CHR 0x80, CHR 0x85],
      [CHR 0xE2, CHR 0x80, CHR 0x86], [CHR 0xE2, CHR 0x80, CHR 0x87],
      [CHR 0xE2, CHR 0x80, CHR 0x88], [CHR 0xE2, CHR 0x80, CHR 0x89],
      [CHR 0xE2, CHR 0x80, CHR 0x8A], [CHR 0xE2, CHR 0x80, CHR 0xA8],
      [CHR 0xE2, CHR 0x80, CHR 0xA9], [CHR 0xE2, CHR 0x80, CHR 0xAF],
      [CHR 0xE2, CHR 0x81, CHR 0x9F], [CHR 0xE3, CHR 0x80, CHR 0x80]]"

function strip :: "string list \<Rightarrow> string \<Rightarrow> string" where
  "strip encs s =
     (case find (\<lambda>p. p \<noteq> [] \<and> prefix p s) encs of
        None \<Rightarrow> s
      | Some p \<Rightarrow> strip encs (drop (length p) s))"
  by pat_completeness auto
termination
  by (relation "measure (\<lambda>(encs, s). length s)")
     (auto simp: find_Some_iff prefix_def)

declare strip.simps [simp del]

definition TrimSpace :: "string \<Rightarrow> string" where
  "TrimSpace s = rev (strip (map rev utf8_spaces) (rev (strip utf8_spaces s)))"

lemma strip_stop: "(\<And>p. p \<in> set encs \<Longrightarrow> p \<noteq> [] \<Longrightarrow> \<not> prefix p s) \<Longrightarrow> strip encs s = s"
proof -
  assume "\<And>p. p \<in> set encs \<Longrightarrow> p \<noteq> [] \<Longrightarrow> \<not> prefix p s"
  then have "find (\<lambda>p. p \<noteq> [] \<and> prefix p s) encs = None"
    by (auto simp: find_None_iff)
  then show ?thesis
    by (subst strip.simps) simp
qed

text \<open>\<open>strings.Cut\<close>: split around the first occurrence of a separator.\<close>

fun strings_Cut :: "string \<Rightarrow> string \<Rightarrow> (string \<times> string) option" where
  "strings_Cut sep [] = (if sep = [] then Some ([], []) else None)"
| "strings_Cut sep (c # cs) =
     (if prefix sep (c # cs) then Some ([], drop (length sep) (c # cs))
      else map_option (\<lambda>(a, b). (c # a, b)) (strings_Cut sep cs))"

lemma Cut_Some: "strings_Cut sep s = Some (a, b) \<Longrightarrow> s = a @ sep @ b"
  by (induction sep s arbitrary: a b rule: strings_Cut.induct)
     (auto simp: prefix_def split: if_splits)

lemma Cut_length [go_len]:
  assumes "strings_Cut sep s = Some (a, b)"
  shows "length s = length a + length sep + length b"
  using Cut_Some [OF assms] by simp

lemma Cut_None_iff: "strings_Cut sep s = None \<longleftrightarrow> \<not> sublist sep s"
proof (induction sep s rule: strings_Cut.induct)
  case (2 sep c cs)
  then show ?case
    by (cases "prefix sep (c # cs)") (auto simp: sublist_Cons_right prefix_imp_sublist)
qed auto

text \<open>The occurrence found is the leftmost one: nothing before it matches.\<close>

lemma Cut_leftmost:
  "strings_Cut sep s = Some (a, b) \<Longrightarrow> sep \<noteq> [] \<Longrightarrow> \<not> sublist sep (a @ butlast sep)"
proof (induction sep s arbitrary: a b rule: strings_Cut.induct)
  case (1 sep)
  then show ?case by (simp split: if_splits)
next
  case (2 sep c cs)
  show ?case
  proof (cases "prefix sep (c # cs)")
    case True
    then have "length (a @ butlast sep) < length sep"
      using 2 by (cases sep) auto
    then show ?thesis
      using sublist_length_le leD by blast
  next
    case False
    with 2 obtain a' where a': "strings_Cut sep cs = Some (a', b)" "a = c # a'"
      by auto
    have "\<not> prefix sep (a @ butlast sep)"
    proof
      assume p: "prefix sep (a @ butlast sep)"
      have "sep = butlast sep @ [last sep]"
        using 2 by simp
      then have "c # cs = (a @ butlast sep) @ ([last sep] @ b)"
        using Cut_Some [OF a'(1)] a'(2) by (metis append.assoc append_Cons)
      then have "prefix (a @ butlast sep) (c # cs)"
        by (metis prefixI)
      with p False show False
        using prefix_order.trans by blast
    qed
    with a' 2 False show ?thesis
      by (auto simp: sublist_Cons_right)
  qed
qed

definition strings_Contains :: "string \<Rightarrow> string \<Rightarrow> bool" where
  "strings_Contains s sub \<longleftrightarrow> strings_Cut sub s \<noteq> None"

lemma strings_Contains_iff: "strings_Contains s sub \<longleftrightarrow> sublist sub s"
  by (auto simp: strings_Contains_def Cut_None_iff)

text \<open>\<open>strings.ReplaceAll\<close> for a non-empty pattern, left to right without overlaps.\<close>

function ReplaceAll :: "string \<Rightarrow> string \<Rightarrow> string \<Rightarrow> string" where
  "ReplaceAll s old new =
     (case strings_Cut old s of
        None \<Rightarrow> s
      | Some (a, b) \<Rightarrow> if old = [] then s else a @ new @ ReplaceAll b old new)"
  by pat_completeness auto
termination
  by (relation "measure (\<lambda>(s, old, new). length s)") (auto dest!: Cut_length)

declare ReplaceAll.simps [simp del]

lemma ReplaceAll_absent: "\<not> sublist old s \<Longrightarrow> ReplaceAll s old new = s"
  by (subst ReplaceAll.simps) (simp add: Cut_None_iff [THEN iffD2])

section \<open>Package strconv\<close>

definition digit_char :: "nat \<Rightarrow> char" where
  "digit_char n = char_of (48 + n)"

fun show_nat :: "nat \<Rightarrow> string" where
  "show_nat n = (if n < 10 then [digit_char n] else show_nat (n div 10) @ [digit_char (n mod 10)])"

declare show_nat.simps [simp del]

definition Itoa :: "int \<Rightarrow> string" where
  "Itoa i = (if i < 0 then ''-'' @ show_nat (nat (- i)) else show_nat (nat i))"

definition digits_val :: "string \<Rightarrow> nat" where
  "digits_val s = foldl (\<lambda>a c. 10 * a + (byte c - 48)) 0 s"

text \<open>\<open>strconv.Atoi\<close>: an optional sign, then digits, and the value must fit an \<open>int\<close> (64 bit).\<close>

definition Atoi :: "string \<Rightarrow> int option" where
  "Atoi s =
     (let (neg, ds) = (case s of [] \<Rightarrow> (False, [])
                       | c # cs \<Rightarrow> if c = CHR ''-'' then (True, cs)
                                  else if c = CHR ''+'' then (False, cs) else (False, s));
          v = (if neg then - int (digits_val ds) else int (digits_val ds))
      in if ds \<noteq> [] \<and> list_all is_digit ds \<and> - (2 ^ 63) \<le> v \<and> v < 2 ^ 63 then Some v else None)"

lemma byte_digit_char [simp]: "n < 10 \<Longrightarrow> byte (digit_char n) = 48 + n"
  by (simp add: digit_char_def)

lemma is_digit_digit_char [simp]: "n < 10 \<Longrightarrow> is_digit (digit_char n)"
  by (simp add: is_digit_def)

lemma show_nat_digits: "list_all is_digit (show_nat n) \<and> show_nat n \<noteq> []"
proof (induction n rule: show_nat.induct)
  case (1 n)
  then show ?case
    by (cases "n < 10") (simp_all add: show_nat.simps [of n])
qed

lemma digits_val_snoc: "digits_val (s @ [c]) = 10 * digits_val s + (byte c - 48)"
  by (simp add: digits_val_def)

lemma digits_val_show_nat: "digits_val (show_nat n) = n"
proof (induction n rule: show_nat.induct)
  case (1 n)
  show ?case
  proof (cases "n < 10")
    case True
    then show ?thesis by (simp add: show_nat.simps [of n] digits_val_def)
  next
    case False
    with 1 have "digits_val (show_nat (n div 10)) = n div 10" by simp
    with False show ?thesis
      by (simp add: show_nat.simps [of n] digits_val_snoc)
  qed
qed

lemma digit_not_sign: "is_digit c \<Longrightarrow> c \<noteq> CHR ''-'' \<and> c \<noteq> CHR ''+''"
  by (auto simp: is_digit_def)

lemma Atoi_show_nat: "int n < 2 ^ 63 \<Longrightarrow> Atoi (show_nat n) = Some (int n)"
proof -
  assume n: "int n < 2 ^ 63"
  obtain c cs where s: "show_nat n = c # cs" and c: "is_digit c"
    using show_nat_digits [of n] by (cases "show_nat n") auto
  show ?thesis
    using n show_nat_digits [of n] digits_val_show_nat [of n] digit_not_sign [OF c]
    by (simp add: Atoi_def s Let_def)
qed

text \<open>Printing an \<open>int\<close> and reading it back is the identity on the 64-bit range.\<close>

lemma Atoi_Itoa: "- (2 ^ 63) \<le> i \<Longrightarrow> i < 2 ^ 63 \<Longrightarrow> Atoi (Itoa i) = Some i"
proof (cases "i < 0")
  case True
  assume "- (2 ^ 63) \<le> i"
  with True show ?thesis
    using show_nat_digits [of "nat (- i)"] digits_val_show_nat [of "nat (- i)"]
    by (simp add: Itoa_def Atoi_def)
next
  case False
  assume "i < 2 ^ 63"
  with False show ?thesis
    using Atoi_show_nat [of "nat i"] by (simp add: Itoa_def)
qed

section \<open>Library conversions that stay parameters\<close>

text \<open>
  A \<open>float64\<close> produced by \<open>strconv.ParseFloat\<close>; JSON numbers are finite, so \<open>FloatV\<close> carries the
  rational value alone.
\<close>

datatype float64 = Fin rat | PosInf | NegInf | NaN

fun flt_less :: "float64 \<Rightarrow> float64 \<Rightarrow> bool" where
  "flt_less NaN _ = False"
| "flt_less _ NaN = False"
| "flt_less (Fin x) (Fin y) = (x < y)"
| "flt_less NegInf y = (y \<noteq> NegInf)"
| "flt_less x PosInf = (x \<noteq> PosInf)"
| "flt_less _ _ = False"

record go_rt =
  strings_ToLower :: "string \<Rightarrow> string"
  strconv_ParseFloat :: "string \<Rightarrow> float64 option"
  strconv_FormatFloat :: "rat \<Rightarrow> string"
  fmt_other :: "any \<Rightarrow> string"
  json_Marshal :: "any \<Rightarrow> string option"

text \<open>\<open>fmt.Sprintf("%v", v)\<close>; non-integral numbers and containers go through \<open>fmt_other\<close>.\<close>

definition Sprint_v :: "go_rt \<Rightarrow> any \<Rightarrow> string" where
  "Sprint_v rt v =
     (case v of
        NilV \<Rightarrow> ''<nil>''
      | BoolV b \<Rightarrow> (if b then ''true'' else ''false'')
      | StrV s \<Rightarrow> s
      | IntV i \<Rightarrow> Itoa i
      | _ \<Rightarrow> fmt_other rt v)"

text \<open>\<open>float64(int64(v)) == v\<close>: the value is integral and in the range of \<open>int64\<close>.\<close>

definition float_is_int :: "rat \<Rightarrow> bool" where
  "float_is_int x \<longleftrightarrow> of_int \<lfloor>x\<rfloor> = x \<and> - (2 ^ 63) \<le> x \<and> x < 2 ^ 63"

text \<open>\<open>int(v)\<close> of a float truncates towards zero.\<close>

definition float_to_int :: "rat \<Rightarrow> int" where
  "float_to_int x = (if x < 0 then \<lceil>x\<rceil> else \<lfloor>x\<rfloor>)"

section \<open>Identifiers\<close>

text \<open>\<open>uuid.Nil.String()\<close>.\<close>

definition uuid_Nil :: string where
  "uuid_Nil = ''00000000-0000-0000-0000-000000000000''"

end
