(* ===== verification/Flow_Graph.thy ===== *)
theory Flow_Graph
  imports Go_Prelude
begin

text \<open>
  \<open>internal/flowgraph/flowgraph.go\<close>: the v2 flow graph shared by the chatbot engine and the IVR
  engine. The data types, the runtime indexes built by \<open>BuildMaps\<close>, edge resolution, the decoding
  of a graph from JSON (struct tags), and the interface \<open>flow_router\<close> under which the engines use
  a graph. A node type is a string newtype, so it is a string here.
\<close>

section \<open>Data types\<close>

record position =
  pos_X :: rat
  pos_Y :: rat

record edge =
  From :: string
  To :: string
  Condition :: string

record node =
  node_ID :: string
  node_Type :: string
  node_Label :: string
  node_Position :: position
  node_Config :: jsonb

record graph =
  Version :: int
  Nodes :: "node list"
  Edges :: "edge list"
  EntryNode :: string
  nodeMap :: "string \<rightharpoonup> node"
  edgeMap :: "string \<Rightarrow> edge list"

abbreviation cfg :: "node \<Rightarrow> obj" where
  "cfg n \<equiv> jsonb (node_Config n)"

section \<open>Indexes and traversal\<close>

definition BuildMaps :: "graph \<Rightarrow> graph" where
  "BuildMaps g =
     g\<lparr>nodeMap := fold (\<lambda>n m. m(node_ID n \<mapsto> n)) (Nodes g) Map.empty,
       edgeMap := fold (\<lambda>e m. m(From e := m (From e) @ [e])) (Edges g) (\<lambda>_. [])\<rparr>"

definition Node :: "graph \<Rightarrow> string \<Rightarrow> node option" where
  "Node g i = nodeMap g i"

definition OutgoingEdges :: "graph \<Rightarrow> string \<Rightarrow> edge list" where
  "OutgoingEdges g fromID = edgeMap g fromID"

fun resolve_loop :: "string \<Rightarrow> string \<Rightarrow> edge list \<Rightarrow> string" where
  "resolve_loop outcome def [] = def"
| "resolve_loop outcome def (e # es) =
     (if Condition e = outcome then To e
      else resolve_loop outcome (if Condition e = ''default'' then To e else def) es)"

definition ResolveEdge :: "graph \<Rightarrow> string \<Rightarrow> string \<Rightarrow> string" where
  "ResolveEdge g fromID outcome = resolve_loop outcome '''' (edgeMap g fromID)"

section \<open>Facts on the indexes\<close>

lemma BuildMaps_sel [simp]:
  "Version (BuildMaps g) = Version g" "Nodes (BuildMaps g) = Nodes g"
  "Edges (BuildMaps g) = Edges g" "EntryNode (BuildMaps g) = EntryNode g"
  by (simp_all add: BuildMaps_def)

lemma fold_node_index:
  "fold (\<lambda>n m. m(node_ID n \<mapsto> n)) ns m i =
     (case find (\<lambda>n. node_ID n = i) (rev ns) of None \<Rightarrow> m i | Some n \<Rightarrow> Some n)"
  by (induction ns arbitrary: m) (auto simp: find_append split: option.splits)

lemma fold_edge_index:
  "fold (\<lambda>e m. m(From e := m (From e) @ [e])) es m i = m i @ filter (\<lambda>e. From e = i) es"
  by (induction es arbitrary: m) auto

lemma Node_BuildMaps: "Node (BuildMaps g) i = find (\<lambda>n. node_ID n = i) (rev (Nodes g))"
  by (simp add: Node_def BuildMaps_def fold_node_index split: option.splits)

lemma OutgoingEdges_BuildMaps:
  "OutgoingEdges (BuildMaps g) i = filter (\<lambda>e. From e = i) (Edges g)"
  by (simp add: OutgoingEdges_def BuildMaps_def fold_edge_index)

lemma Node_Some_ID: "Node (BuildMaps g) i = Some n \<Longrightarrow> n \<in> set (Nodes g) \<and> node_ID n = i"
  by (auto simp: Node_BuildMaps find_Some_iff nth_mem rev_nth)

lemma Node_defined_iff: "Node (BuildMaps g) i \<noteq> None \<longleftrightarrow> i \<in> node_ID ` set (Nodes g)"
  by (auto simp: Node_BuildMaps find_None_iff)

lemma resolve_loop_target:
  "resolve_loop oc d es \<in> insert d (To ` {e \<in> set es. Condition e = oc \<or> Condition e = ''default''})"
  by (induction oc d es rule: resolve_loop.induct) auto

lemma resolve_loop_eq:
  "resolve_loop oc d es =
     (case find (\<lambda>e. Condition e = oc) es of
        Some e \<Rightarrow> To e
      | None \<Rightarrow> (case find (\<lambda>e. Condition e = ''default'') (rev es) of Some e \<Rightarrow> To e | None \<Rightarrow> d))"
  by (induction oc d es rule: resolve_loop.induct) (auto simp: find_append split: option.splits)

text \<open>
  Declarative reading of edge resolution: the first edge with the exact condition; failing that,
  the last \<open>default\<close> edge; failing that, no target.
\<close>

definition route_spec :: "edge list \<Rightarrow> string \<Rightarrow> string \<Rightarrow> string" where
  "route_spec es i oc =
     (case find (\<lambda>e. From e = i \<and> Condition e = oc) es of
        Some e \<Rightarrow> To e
      | None \<Rightarrow> (case find (\<lambda>e. From e = i \<and> Condition e = ''default'') (rev es) of
                  Some e \<Rightarrow> To e | None \<Rightarrow> ''''))"

lemma ResolveEdge_BuildMaps:
  "ResolveEdge (BuildMaps g) i oc = resolve_loop oc '''' (filter (\<lambda>e. From e = i) (Edges g))"
  by (simp add: ResolveEdge_def BuildMaps_def fold_edge_index)

lemma ResolveEdge_route: "ResolveEdge (BuildMaps g) i oc = route_spec (Edges g) i oc"
  unfolding ResolveEdge_BuildMaps resolve_loop_eq route_spec_def find_filter_conj find_rev_filter_conj
  by (rule refl)

text \<open>
  Edge resolution over the indexes built by \<open>BuildMaps\<close> is the declarative reading over the
  edge list of the graph: the first edge with the exact condition, else the last \<open>default\<close> edge
  of the node, else nothing; and a node lookup finds the last node declared with the id.
\<close>
theorem edge_resolution_reference:
  "ResolveEdge (BuildMaps g) i oc = route_spec (Edges g) i oc \<and>
   Node (BuildMaps g) i = find (\<lambda>n. node_ID n = i) (rev (Nodes g)) \<and>
   OutgoingEdges (BuildMaps g) i = filter (\<lambda>e. From e = i) (Edges g)"
  by (simp add: ResolveEdge_route Node_BuildMaps OutgoingEdges_BuildMaps)

section \<open>Closed graphs\<close>

text \<open>Every edge with a target leads to a node of the graph, and the indexes are built.\<close>

definition indexed :: "graph \<Rightarrow> bool" where
  "indexed g \<longleftrightarrow> nodeMap g = nodeMap (BuildMaps g) \<and> edgeMap g = edgeMap (BuildMaps g)"

definition graph_closed :: "graph \<Rightarrow> bool" where
  "graph_closed g \<longleftrightarrow>
     indexed g \<and> (\<forall>e \<in> set (Edges g). To e \<noteq> '''' \<longrightarrow> To e \<in> node_ID ` set (Nodes g))"

lemma indexed_BuildMaps [simp]: "indexed (BuildMaps g)"
  by (simp add: indexed_def BuildMaps_def)

lemma indexed_Node: "indexed g \<Longrightarrow> Node g i = Node (BuildMaps g) i"
  by (simp add: indexed_def Node_def)

lemma indexed_ResolveEdge: "indexed g \<Longrightarrow> ResolveEdge g i oc = ResolveEdge (BuildMaps g) i oc"
  by (simp add: indexed_def ResolveEdge_def)

lemma ResolveEdge_target:
  assumes "indexed g" and "ResolveEdge g i oc \<noteq> ''''"
  shows "\<exists>e \<in> set (Edges g). From e = i \<and> To e = ResolveEdge g i oc \<and>
           (Condition e = oc \<or> Condition e = ''default'')"
  using resolve_loop_target [of oc "''''" "filter (\<lambda>e. From e = i) (Edges g)"] assms
  by (auto simp: indexed_ResolveEdge ResolveEdge_BuildMaps)

section \<open>The interface of the engines\<close>

text \<open>
  What an engine relies on: \<open>lookup\<close> finds a node, \<open>route\<close> picks the next one (the empty string
  ends the flow), and in a graph that satisfies \<open>invar\<close> a chosen target exists.
\<close>

locale flow_router =
  fixes lookup :: "'g \<Rightarrow> string \<Rightarrow> 'n option"
    and route :: "'g \<Rightarrow> string \<Rightarrow> string \<Rightarrow> string"
    and invar :: "'g \<Rightarrow> bool"
  assumes route_closed: "invar g \<Longrightarrow> route g i oc \<noteq> '''' \<Longrightarrow> lookup g (route g i oc) \<noteq> None"
begin

text \<open>Following any sequence of outcomes from a node never leaves the graph.\<close>

lemma walk_closed:
  assumes "invar g" and "lookup g i \<noteq> None"
    and "foldl (\<lambda>j oc. if j = '''' then '''' else route g j oc) i ocs \<noteq> ''''"
  shows "lookup g (foldl (\<lambda>j oc. if j = '''' then '''' else route g j oc) i ocs) \<noteq> None"
  using assms
proof (induction ocs rule: rev_induct)
  case (snoc oc ocs)
  let ?w = "\<lambda>j oc. if j = [] then [] else route g j oc"
  from snoc.prems(3) have "foldl ?w i ocs \<noteq> []" and "route g (foldl ?w i ocs) oc \<noteq> []"
    by (auto split: if_splits)
  then show ?case
    using route_closed [OF assms(1)] by simp
qed simp

end

lemma closed_target_defined:
  assumes "graph_closed g" and "ResolveEdge g i oc \<noteq> ''''"
  shows "Node g (ResolveEdge g i oc) \<noteq> None"
proof -
  have ix: "indexed g"
    using assms(1) by (simp add: graph_closed_def)
  obtain e where "e \<in> set (Edges g)" "To e = ResolveEdge g i oc"
    using ResolveEdge_target [OF ix assms(2)] by blast
  then have "ResolveEdge g i oc \<in> node_ID ` set (Nodes g)"
    using assms by (metis graph_closed_def)
  then show ?thesis
    using Node_defined_iff [of g] indexed_Node [OF ix] by simp
qed

interpretation fg: flow_router Node ResolveEdge graph_closed
  by unfold_locales (rule closed_target_defined)

section \<open>Decoding a graph\<close>

text \<open>
  \<open>json.Marshal\<close> of a JSONB value followed by \<open>json.Unmarshal\<close> into the structs above. A number
  read back into a dynamic value is a float; a JSON \<open>null\<close> or a missing key leaves the zero value;
  an exact key wins over a key that differs in letter case only; any other type is an error.
\<close>

fun json_norm :: "any \<Rightarrow> any" where
  "json_norm (IntV i) = FloatV (of_int i)"
| "json_norm (ArrV xs) = ArrV (map json_norm xs)"
| "json_norm (ObjV m) = ObjV (map (\<lambda>(k, v). (k, json_norm v)) m)"
| "json_norm v = v"

definition ascii_lower :: "string \<Rightarrow> string" where
  "ascii_lower s = map (\<lambda>c. if 65 \<le> byte c \<and> byte c \<le> 90 then char_of (byte c + 32) else c) s"

definition json_field :: "obj \<Rightarrow> string \<Rightarrow> any" where
  "json_field m k =
     (case map_of m k of
        Some v \<Rightarrow> v
      | None \<Rightarrow> (case find (\<lambda>(k', v). ascii_lower k' = k) (rev m) of
                  Some (_, v) \<Rightarrow> v | None \<Rightarrow> NilV))"

fun dec_string :: "any \<Rightarrow> string option" where
  "dec_string NilV = Some ''''"
| "dec_string (StrV s) = Some s"
| "dec_string _ = None"

fun dec_int :: "any \<Rightarrow> int option" where
  "dec_int NilV = Some 0"
| "dec_int (IntV i) = Some i"
| "dec_int (FloatV x) = (if float_is_int x then Some \<lfloor>x\<rfloor> else None)"
| "dec_int _ = None"

fun dec_float :: "any \<Rightarrow> rat option" where
  "dec_float NilV = Some 0"
| "dec_float (IntV i) = Some (of_int i)"
| "dec_float (FloatV x) = Some x"
| "dec_float _ = None"

fun dec_map :: "any \<Rightarrow> jsonb option" where
  "dec_map NilV = Some None"
| "dec_map (ObjV m) = Some (Some (map (\<lambda>(k, v). (k, json_norm v)) m))"
| "dec_map _ = None"

fun dec_list :: "(any \<Rightarrow> 'a option) \<Rightarrow> any \<Rightarrow> 'a list option" where
  "dec_list d NilV = Some []"
| "dec_list d (ArrV xs) = those (map d xs)"
| "dec_list d _ = None"

fun dec_struct :: "(obj \<Rightarrow> 'a option) \<Rightarrow> any \<Rightarrow> 'a option" where
  "dec_struct d NilV = d []"
| "dec_struct d (ObjV m) = d m"
| "dec_struct d _ = None"

definition dec_position :: "obj \<Rightarrow> position option" where
  "dec_position m =
     Option.bind (dec_float (json_field m ''x'')) (\<lambda>x.
     Option.bind (dec_float (json_field m ''y'')) (\<lambda>y.
       Some \<lparr>pos_X = x, pos_Y = y\<rparr>))"

definition dec_edge :: "obj \<Rightarrow> edge option" where
  "dec_edge m =
     Option.bind (dec_string (json_field m ''from'')) (\<lambda>f.
     Option.bind (dec_string (json_field m ''to'')) (\<lambda>t.
     Option.bind (dec_string (json_field m ''condition'')) (\<lambda>c.
       Some \<lparr>From = f, To = t, Condition = c\<rparr>)))"

definition dec_node :: "obj \<Rightarrow> node option" where
  "dec_node m =
     Option.bind (dec_string (json_field m ''id'')) (\<lambda>i.
     Option.bind (dec_string (json_field m ''type'')) (\<lambda>t.
     Option.bind (dec_string (json_field m ''label'')) (\<lambda>l.
     Option.bind (dec_struct dec_position (json_field m ''position'')) (\<lambda>p.
     Option.bind (dec_map (json_field m ''config'')) (\<lambda>c.
       Some \<lparr>node_ID = i, node_Type = t, node_Label = l, node_Position = p, node_Config = c\<rparr>)))))"

definition dec_graph :: "obj \<Rightarrow> graph option" where
  "dec_graph m =
     Option.bind (dec_int (json_field m ''version'')) (\<lambda>v.
     Option.bind (dec_list (dec_struct dec_node) (json_field m ''nodes'')) (\<lambda>ns.
     Option.bind (dec_list (dec_struct dec_edge) (json_field m ''edges'')) (\<lambda>es.
     Option.bind (dec_string (json_field m ''entry_node'')) (\<lambda>en.
       Some \<lparr>Version = v, Nodes = ns, Edges = es, EntryNode = en,
             nodeMap = Map.empty, edgeMap = (\<lambda>_. [])\<rparr>))))"

end
