(* ===== verification/Template_Engine.thy ===== *)
theory Template_Engine
  imports Go_Prelude
begin

text \<open>
  \<open>internal/handlers/template_engine.go\<close>: \<open>{{for}}\<close> loops, \<open>{{if}}\<close> blocks and \<open>{{variable}}\<close>
  substitution over dynamic data. The four regular expressions of the file are written as
  matchers \<open>string \<Rightarrow> ('groups \<times> string) option\<close> at the head of the string; their leftmost-first
  reading is deterministic because neighbouring character classes are disjoint.
\<close>

section \<open>Matchers\<close>

type_synonym 'm matcher = "string \<Rightarrow> ('m \<times> string) option"

definition expect :: "string \<Rightarrow> string \<Rightarrow> string option" where
  "expect p s = (if prefix p s then Some (drop (length p) s) else None)"

lemma expect_length [go_len]: "expect p s = Some r \<Longrightarrow> length s = length p + length r"
  by (auto simp: expect_def prefix_def split: if_splits)

lemma expect_append: "expect p s = Some r \<longleftrightarrow> s = p @ r"
  by (auto simp: expect_def prefix_def)

text \<open>\<open>\s+\<close> and \<open>\w+\<close>.\<close>

definition spaces1 :: "string \<Rightarrow> string option" where
  "spaces1 s = (if s \<noteq> [] \<and> is_re_space (hd s) then Some (dropWhile is_re_space s) else None)"

definition word1 :: "string matcher" where
  "word1 s = (if s \<noteq> [] \<and> is_word (hd s) then Some (takeWhile is_word s, dropWhile is_word s) else None)"

lemma length_dropWhile_hd: "s \<noteq> [] \<Longrightarrow> P (hd s) \<Longrightarrow> length (dropWhile P s) < length s"
  by (cases s) (auto simp: le_imp_less_Suc length_dropWhile_le)

lemma spaces1_length [go_len]: "spaces1 s = Some r \<Longrightarrow> length r < length s"
  by (auto simp: spaces1_def length_dropWhile_hd split: if_splits)

lemma word1_length [go_len]: "word1 s = Some (w, r) \<Longrightarrow> length r < length s"
  by (auto simp: word1_def length_dropWhile_hd split: if_splits)

text \<open>\<open>(?:\.\w+)*\<close> and the whole \<open>\w+(?:\.\w+)*\<close>.\<close>

function dotted_tail :: "string \<Rightarrow> string \<times> string" where
  "dotted_tail s =
     (case s of
        [] \<Rightarrow> ([], s)
      | c # cs \<Rightarrow>
          if c = CHR ''.'' then
            (case word1 cs of
               None \<Rightarrow> ([], s)
             | Some (w, r) \<Rightarrow> (let (t, r') = dotted_tail r in (CHR ''.'' # w @ t, r')))
          else ([], s))"
  by pat_completeness auto
termination
  by (relation "measure length") (auto dest!: word1_length)

declare dotted_tail.simps [simp del]

definition dotted :: "string matcher" where
  "dotted s =
     (case word1 s of None \<Rightarrow> None
      | Some (w, r) \<Rightarrow> (let (t, r') = dotted_tail r in Some (w @ t, r')))"

text \<open>\<open>[a-zA-Z_][a-zA-Z0-9_]*\<close> and \<open>(?:\.ident|\[\d+\])*\<close> of \<open>variablePattern\<close>.\<close>

definition ident :: "string matcher" where
  "ident s = (if s \<noteq> [] \<and> is_alpha_us (hd s) then Some (takeWhile is_word s, dropWhile is_word s) else None)"

definition index1 :: "string matcher" where
  "index1 s =
     (if s \<noteq> [] \<and> is_digit (hd s) then
        (case expect '']'' (dropWhile is_digit s) of
           None \<Rightarrow> None
         | Some r \<Rightarrow> Some (takeWhile is_digit s, r))
      else None)"

lemma ident_length [go_len]: "ident s = Some (w, r) \<Longrightarrow> length r < length s"
  by (auto simp: ident_def is_word_def length_dropWhile_hd split: if_splits)

lemma index1_length [go_len]: "index1 s = Some (w, r) \<Longrightarrow> length r < length s"
  by (auto simp: index1_def split: if_splits option.splits
           dest!: expect_length intro: order.strict_trans2 [OF _ length_dropWhile_le])
     (metis Suc_le_eq length_dropWhile_le)

function var_tail :: "string \<Rightarrow> string \<times> string" where
  "var_tail s =
     (case s of
        [] \<Rightarrow> ([], s)
      | c # cs \<Rightarrow>
          if c = CHR ''.'' then
            (case ident cs of
               None \<Rightarrow> ([], s)
             | Some (w, r) \<Rightarrow> (let (t, r') = var_tail r in (CHR ''.'' # w @ t, r')))
          else if c = CHR ''['' then
            (case index1 cs of
               None \<Rightarrow> ([], s)
             | Some (d, r) \<Rightarrow> (let (t, r') = var_tail r in (CHR ''['' # d @ CHR '']'' # t, r')))
          else ([], s))"
  by pat_completeness auto
termination
  by (relation "measure length") (auto dest!: ident_length index1_length)

declare var_tail.simps [simp del]

definition match_variable :: "string matcher" where
  "match_variable s =
     Option.bind (expect ''{{'' s) (\<lambda>s1.
     Option.bind (ident (dropWhile is_re_space s1)) (\<lambda>(i, s2).
     (let (t, s3) = var_tail s2 in
      Option.bind (expect ''}}'' (dropWhile is_re_space s3)) (\<lambda>s4. Some (i @ t, s4)))))"

definition match_for :: "(string \<times> string \<times> string) matcher" where
  "match_for s =
     Option.bind (expect ''{{for'' s) (\<lambda>s1.
     Option.bind (spaces1 s1) (\<lambda>s2.
     Option.bind (word1 s2) (\<lambda>(item, s3).
     Option.bind (spaces1 s3) (\<lambda>s4.
     Option.bind (expect ''in'' s4) (\<lambda>s5.
     Option.bind (spaces1 s5) (\<lambda>s6.
     Option.bind (dotted s6) (\<lambda>(path, s7).
     Option.bind (expect ''}}'' s7) (\<lambda>s8.
     Option.bind (strings_Cut ''{{endfor}}'' s8) (\<lambda>(body, rest).
       Some ((item, path, body), rest))))))))))"

text \<open>
  \<open>\{\{if\s+([^}]+)\}\}([\s\S]*?)\{\{endif\}\}\<close>: \<open>\s+\<close> leaves one character to the condition
  when only white space precedes the closing braces.
\<close>

definition match_if :: "(string \<times> string) matcher" where
  "match_if s =
     Option.bind (expect ''{{if'' s) (\<lambda>s1.
     (let t = takeWhile (\<lambda>c. c \<noteq> CHR ''}'') s1;
          cond = (if dropWhile is_re_space t \<noteq> [] then dropWhile is_re_space t else [last t])
      in if t \<noteq> [] \<and> is_re_space (hd t) \<and> 2 \<le> length t then
           Option.bind (expect ''}}'' (dropWhile (\<lambda>c. c \<noteq> CHR ''}'') s1)) (\<lambda>s2.
           Option.bind (strings_Cut ''{{endif}}'' s2) (\<lambda>(body, rest).
             Some ((cond, body), rest)))
         else None))"

text \<open>\<open>^(\w+(?:\.\w+)*)\s*(==|!=|>=|<=|>|<)?\s*(.*)$\<close>, where the dot does not match a newline.\<close>

definition condition_ops :: "string list" where
  "condition_ops = [''=='', ''!='', ''>='', ''<='', ''>'', ''<'']"

definition match_condition :: "string \<Rightarrow> (string \<times> string \<times> string) option" where
  "match_condition s =
     Option.bind (dotted s) (\<lambda>(var, r).
     (let r1 = dropWhile is_re_space r;
          op = (case find (\<lambda>p. prefix p r1) condition_ops of None \<Rightarrow> [] | Some p \<Rightarrow> p);
          r2 = dropWhile is_re_space (drop (length op) r1)
      in if CHR 0x0A \<in> set r2 then None else Some (var, op, r2)))"

text \<open>\<open>FindStringSubmatchIndex\<close>: the leftmost match, with the text before and after it.\<close>

fun regex_find :: "'m matcher \<Rightarrow> string \<Rightarrow> (string \<times> 'm \<times> string) option" where
  "regex_find f [] = (case f [] of None \<Rightarrow> None | Some (m, r) \<Rightarrow> Some ([], m, r))"
| "regex_find f (c # cs) =
     (case f (c # cs) of
        Some (m, r) \<Rightarrow> Some ([], m, r)
      | None \<Rightarrow> map_option (\<lambda>(a, m, r). (c # a, m, r)) (regex_find f cs))"

text \<open>\<open>ReplaceAllStringFunc\<close> for a pattern that never matches the empty string.\<close>

function ReplaceAllStringFunc ::
    "'m matcher \<Rightarrow> (string \<Rightarrow> string option) \<Rightarrow> string \<Rightarrow> string option" where
  "ReplaceAllStringFunc f g s =
     (case f s of
        Some (m, r) \<Rightarrow>
          if length r < length s then
            Option.bind (g (take (length s - length r) s)) (\<lambda>o1.
            Option.bind (ReplaceAllStringFunc f g r) (\<lambda>o2. Some (o1 @ o2)))
          else None
      | None \<Rightarrow>
          (case s of
             [] \<Rightarrow> Some []
           | c # cs \<Rightarrow> map_option (Cons c) (ReplaceAllStringFunc f g cs)))"
  by pat_completeness auto
termination
  by (relation "measure (\<lambda>(f, g, s). length s)") auto

declare ReplaceAllStringFunc.simps [simp del]

section \<open>Nested lookups\<close>

fun splitPath_loop :: "string \<Rightarrow> string \<Rightarrow> string list" where
  "splitPath_loop [] cur = (if cur \<noteq> [] then [cur] else [])"
| "splitPath_loop (c # cs) cur =
     (if c = CHR ''.'' then
        (if cur \<noteq> [] then cur # splitPath_loop cs [] else splitPath_loop cs cur)
      else if c = CHR ''['' then
        (if cur \<noteq> [] then
           (case dropWhile (\<lambda>d. d \<noteq> CHR '']'') cs of
              [] \<Rightarrow> [cur @ CHR ''['' # takeWhile (\<lambda>d. d \<noteq> CHR '']'') cs]
            | _ # _ \<Rightarrow>
                splitPath_loop (drop (length (takeWhile (\<lambda>d. d \<noteq> CHR '']'') cs) + 1) cs)
                  (cur @ CHR ''['' # takeWhile (\<lambda>d. d \<noteq> CHR '']'') cs @ [CHR '']'']))
         else splitPath_loop cs cur)
      else splitPath_loop cs (cur @ [c]))"

definition splitPath :: "string \<Rightarrow> string list" where
  "splitPath path = splitPath_loop path []"

text \<open>One path component; \<open>None\<close> is the slice-bounds panic of \<open>part[idx+1 : len(part)-1]\<close>.\<close>

definition nested_part :: "any \<Rightarrow> string \<Rightarrow> any option" where
  "nested_part cur part =
     (case strings_Cut ''['' part of
        Some (field, rest) \<Rightarrow>
          if rest = [] then None
          else
            (case Atoi (butlast rest) of
               None \<Rightarrow> Some NilV
             | Some index \<Rightarrow>
                 (let base = (if field \<noteq> [] then map_option (\<lambda>m. obj_get m field) (as_obj cur)
                              else Some cur)
                  in case base of
                       Some (ArrV arr) \<Rightarrow>
                         (if 0 \<le> index \<and> index < int (length arr) then Some (arr ! nat index)
                          else Some NilV)
                     | _ \<Rightarrow> Some NilV))
      | None \<Rightarrow>
          (case as_obj cur of Some m \<Rightarrow> Some (obj_get m part) | None \<Rightarrow> Some NilV))"

fun nested_walk :: "any \<Rightarrow> string list \<Rightarrow> any option" where
  "nested_walk cur [] = Some cur"
| "nested_walk cur (p # ps) =
     (if cur = NilV then Some NilV
      else Option.bind (nested_part cur p) (\<lambda>v. nested_walk v ps))"

definition getNestedValue :: "jsonb \<Rightarrow> string \<Rightarrow> any option" where
  "getNestedValue data path =
     (case data of
        None \<Rightarrow> Some NilV
      | Some m \<Rightarrow> if path = [] then Some NilV else nested_walk (ObjV m) (splitPath path))"

section \<open>Values\<close>

definition isTruthy :: "any \<Rightarrow> bool" where
  "isTruthy v =
     (case v of
        NilV \<Rightarrow> False
      | BoolV b \<Rightarrow> b
      | StrV s \<Rightarrow> s \<noteq> [] \<and> s \<noteq> ''false'' \<and> s \<noteq> ''0''
      | IntV i \<Rightarrow> i \<noteq> 0
      | FloatV x \<Rightarrow> x \<noteq> 0
      | ArrV xs \<Rightarrow> xs \<noteq> []
      | ObjV m \<Rightarrow> m \<noteq> [])"

definition compareEqual :: "go_rt \<Rightarrow> any \<Rightarrow> string \<Rightarrow> bool" where
  "compareEqual rt v cmp =
     (case v of
        NilV \<Rightarrow> cmp = [] \<or> cmp = ''null'' \<or> cmp = ''nil''
      | StrV s \<Rightarrow> s = cmp
      | FloatV x \<Rightarrow> (if float_is_int x then Itoa \<lfloor>x\<rfloor> = cmp else Sprint_v rt v = cmp)
      | _ \<Rightarrow> Sprint_v rt v = cmp)"

definition compareNumeric :: "go_rt \<Rightarrow> any \<Rightarrow> string \<Rightarrow> int" where
  "compareNumeric rt v cmp =
     (let num = (case v of
                   IntV i \<Rightarrow> Some (Fin (of_int i))
                 | FloatV x \<Rightarrow> Some (Fin x)
                 | StrV s \<Rightarrow> strconv_ParseFloat rt s
                 | _ \<Rightarrow> None)
      in case num of
           None \<Rightarrow> 0
         | Some a \<Rightarrow>
             (case strconv_ParseFloat rt cmp of
                None \<Rightarrow> 0
              | Some b \<Rightarrow> if flt_less a b then -1 else if flt_less b a then 1 else 0))"

definition formatValue :: "go_rt \<Rightarrow> any \<Rightarrow> string" where
  "formatValue rt v =
     (case v of
        NilV \<Rightarrow> []
      | StrV s \<Rightarrow> s
      | IntV i \<Rightarrow> Itoa i
      | FloatV x \<Rightarrow> (if float_is_int x then Itoa \<lfloor>x\<rfloor> else strconv_FormatFloat rt x)
      | BoolV b \<Rightarrow> (if b then ''true'' else ''false'')
      | _ \<Rightarrow> Sprint_v rt v)"

definition unquote :: "string \<Rightarrow> string" where
  "unquote s =
     (if 2 \<le> length s \<and>
         (hd s = CHR 39 \<and> last s = CHR 39 \<or> hd s = CHR 34 \<and> last s = CHR 34)
      then butlast (tl s) else s)"

definition evaluateCondition :: "go_rt \<Rightarrow> string \<Rightarrow> obj \<Rightarrow> bool option" where
  "evaluateCondition rt condition data =
     (case match_condition (TrimSpace condition) of
        None \<Rightarrow> Some False
      | Some (varPath, operator, rhs) \<Rightarrow>
          Option.bind (getNestedValue (Some data) varPath) (\<lambda>value.
            (let compareValue = unquote (TrimSpace rhs) in
             Some (if operator = [] then isTruthy value
                   else if operator = ''=='' then compareEqual rt value compareValue
                   else if operator = ''!='' then \<not> compareEqual rt value compareValue
                   else if operator = ''>'' then compareNumeric rt value compareValue > 0
                   else if operator = ''<'' then compareNumeric rt value compareValue < 0
                   else if operator = ''>='' then compareNumeric rt value compareValue \<ge> 0
                   else if operator = ''<='' then compareNumeric rt value compareValue \<le> 0
                   else False))))"

section \<open>The three passes\<close>

definition if_output :: "go_rt \<Rightarrow> obj \<Rightarrow> string \<Rightarrow> string \<Rightarrow> string option" where
  "if_output rt data cond body =
     (let (ifPart, elsePart) = (case strings_Cut ''{{else}}'' body of
                                  None \<Rightarrow> (body, [])
                                | Some (a, b) \<Rightarrow> (a, b))
      in map_option (\<lambda>c. if c then ifPart else elsePart)
           (evaluateCondition rt (TrimSpace cond) data))"

lemma if_output_length: "if_output rt data cond body = Some out \<Longrightarrow> length out \<le> length body"
  by (auto simp: if_output_def split: option.splits prod.splits if_splits dest!: Cut_length)

lemma match_if_length [go_len]:
  assumes "match_if s = Some ((c, b), r)"
  shows "length b + length r < length s"
proof -
  let ?P = "\<lambda>c. c \<noteq> CHR ''}''"
  from assms obtain s1 s2 where *: "expect ''{{if'' s = Some s1"
      "expect ''}}'' (dropWhile ?P s1) = Some s2" "strings_Cut ''{{endif}}'' s2 = Some (b, r)"
    by (auto simp: match_if_def Let_def bind_eq_Some_conv split: if_splits)
  show ?thesis
    using expect_length [OF *(1)] expect_length [OF *(2)] Cut_length [OF *(3)]
      length_dropWhile_le [of ?P s1]
    by simp
qed

lemma regex_find_append:
  "regex_find f s = Some (a, m, r) \<Longrightarrow> \<exists>t. s = a @ t \<and> f t = Some (m, r)"
proof (induction f s arbitrary: a rule: regex_find.induct)
  case (1 f)
  then show ?case by (auto split: option.splits)
next
  case (2 f c cs)
  then show ?case
    by (cases "f (c # cs)") auto
qed

definition if_step :: "go_rt \<Rightarrow> obj \<Rightarrow> string \<Rightarrow> string option option" where
  "if_step rt data s =
     (case regex_find match_if s of
        None \<Rightarrow> None
      | Some (before, (cond, body), after) \<Rightarrow>
          Some (map_option (\<lambda>out. before @ out @ after) (if_output rt data cond body)))"

lemma if_step_shrinks: "if_step rt data s = Some (Some s') \<Longrightarrow> length s' < length s"
  by (auto simp: if_step_def split: option.splits
           dest!: regex_find_append match_if_length if_output_length)

function processConditionals :: "go_rt \<Rightarrow> obj \<Rightarrow> string \<Rightarrow> string option" where
  "processConditionals rt data s =
     (case if_step rt data s of
        None \<Rightarrow> Some s
      | Some None \<Rightarrow> None
      | Some (Some s') \<Rightarrow> processConditionals rt data s')"
  by pat_completeness auto
termination
  by (relation "measure (\<lambda>(rt, data, s). length s)") (auto dest: if_step_shrinks)

declare processConditionals.simps [simp del]

definition var_subst :: "go_rt \<Rightarrow> obj \<Rightarrow> string \<Rightarrow> string option" where
  "var_subst rt data mtch =
     (let path = TrimSpace (take (length mtch - 4) (drop 2 mtch)) in
      if prefix ''json:'' path then
        map_option
          (\<lambda>value. if value = NilV then ''null''
                    else (case json_Marshal rt value of None \<Rightarrow> ''null'' | Some b \<Rightarrow> b))
          (getNestedValue (Some data) (TrimSpace (drop 5 path)))
      else map_option (formatValue rt) (getNestedValue (Some data) path))"

definition processVariables :: "go_rt \<Rightarrow> obj \<Rightarrow> string \<Rightarrow> string option" where
  "processVariables rt data template = ReplaceAllStringFunc match_variable (var_subst rt data) template"

definition maxLoopIterations :: nat where
  "maxLoopIterations = 50"

definition loop_iteration :: "go_rt \<Rightarrow> obj \<Rightarrow> string \<Rightarrow> string \<Rightarrow> nat \<times> any \<Rightarrow> string option" where
  "loop_iteration rt data itemVar body = (\<lambda>(i, v).
     (let loopData = obj_set (itemVar @ ''_index'') (IntV (int i)) (obj_set itemVar v data) in
      Option.bind (processConditionals rt loopData body) (processVariables rt loopData)))"

definition for_output :: "go_rt \<Rightarrow> obj \<Rightarrow> string \<Rightarrow> string \<Rightarrow> string \<Rightarrow> string option" where
  "for_output rt data itemVar arrayPath body =
     Option.bind (getNestedValue (Some data) arrayPath) (\<lambda>arrayValue.
       (case as_arr arrayValue of
          None \<Rightarrow> Some []
        | Some arr \<Rightarrow>
            map_option concat
              (those (map (loop_iteration rt data itemVar body)
                        (enumerate 0 (take maxLoopIterations arr))))))"

definition for_step :: "go_rt \<Rightarrow> obj \<Rightarrow> string \<Rightarrow> string option option" where
  "for_step rt data s =
     (case regex_find match_for s of
        None \<Rightarrow> None
      | Some (before, (itemVar, arrayPath, body), after) \<Rightarrow>
          Some (map_option (\<lambda>out. before @ out @ after) (for_output rt data itemVar arrayPath body)))"

text \<open>The loop rescans its own output, so it need not end: \<open>None\<close> covers that.\<close>

partial_function (option) processForLoops :: "go_rt \<Rightarrow> obj \<Rightarrow> string \<Rightarrow> string option" where
  "processForLoops rt data s =
     (case for_step rt data s of
        None \<Rightarrow> Some s
      | Some r \<Rightarrow> Option.bind r (\<lambda>s'. processForLoops rt data s'))"

declare processForLoops.simps [code]

definition processTemplate :: "go_rt \<Rightarrow> string \<Rightarrow> jsonb \<Rightarrow> string option" where
  "processTemplate rt template data =
     Option.bind (processForLoops rt (jsonb data) template) (\<lambda>r1.
     Option.bind (processConditionals rt (jsonb data) r1) (\<lambda>r2.
       processVariables rt (jsonb data) r2))"

fun extractResponseMapping :: "jsonb \<Rightarrow> (string \<times> string) list \<Rightarrow> obj option" where
  "extractResponseMapping resp [] = Some []"
| "extractResponseMapping resp ((varName, jsonPath) # ms) =
     Option.bind (getNestedValue resp jsonPath) (\<lambda>value.
     Option.bind (extractResponseMapping resp ms) (\<lambda>result.
       Some (if value \<noteq> NilV then (varName, value) # result else result)))"

end
