(* ===== verification/Template_Facts.thy ===== *)
theory Template_Facts
  imports Template_Engine
begin

text \<open>
  Properties of the template engine: which passes always return, what they leave unchanged, what
  a lookup along a path means, and the inputs on which the engine panics or never returns.
\<close>

section \<open>Paths that cannot panic\<close>

text \<open>Every opening bracket of a path is closed later on.\<close>

definition brackets_closed :: "string \<Rightarrow> bool" where
  "brackets_closed s \<longleftrightarrow> (\<forall>pre suf. s = pre @ CHR ''['' # suf \<longrightarrow> CHR '']'' \<in> set suf)"

lemma brackets_closed_Nil [simp]: "brackets_closed []"
  by (simp add: brackets_closed_def)

lemma brackets_closed_none: "CHR ''['' \<notin> set s \<Longrightarrow> brackets_closed s"
  by (auto simp: brackets_closed_def)

lemma brackets_closed_suffix: "brackets_closed (a @ b) \<Longrightarrow> brackets_closed b"
  unfolding brackets_closed_def by (metis append.assoc)

lemma brackets_closed_append: "CHR ''['' \<notin> set a \<Longrightarrow> brackets_closed b \<Longrightarrow> brackets_closed (a @ b)"
  unfolding brackets_closed_def by (auto simp: append_eq_append_conv2 append_eq_Cons_conv)

lemma brackets_closed_index:
  "list_all is_digit d \<Longrightarrow> brackets_closed t \<Longrightarrow> brackets_closed (CHR ''['' # d @ CHR '']'' # t)"
proof -
  assume d: "list_all is_digit d" and t: "brackets_closed t"
  have "CHR ''['' \<notin> set (d @ [CHR '']''])"
    using d by (auto simp: list_all_iff is_digit_def)
  from brackets_closed_append [OF this t] have "brackets_closed (d @ CHR '']'' # t)"
    by simp
  then show ?thesis
    unfolding brackets_closed_def by (auto simp: Cons_eq_append_conv)
qed

lemma splitPath_loop_safe:
  "brackets_closed s \<Longrightarrow> (cur \<noteq> [] \<Longrightarrow> last cur \<noteq> CHR ''['') \<Longrightarrow> p \<in> set (splitPath_loop s cur) \<Longrightarrow>
     p \<noteq> [] \<and> last p \<noteq> CHR ''[''"
proof (induction s cur rule: splitPath_loop.induct)
  case (1 cur)
  then show ?case by (auto split: if_splits)
next
  case (2 c cs cur)
  let ?P = "\<lambda>d. d \<noteq> CHR '']''"
  have cs: "brackets_closed cs"
    using brackets_closed_suffix [of "[c]" cs] "2.prems"(1) by simp
  consider (dot) "c = CHR ''.''" | (brk) "c = CHR ''[''" "cur \<noteq> []" | (skip) "c = CHR ''[''" "cur = []"
    | (plain) "c \<noteq> CHR ''.''" "c \<noteq> CHR ''[''"
    by blast
  then show ?case
  proof cases
    case dot
    then show ?thesis using "2.IH"(1,2) "2.prems"(2,3) cs by (auto split: if_splits)
  next
    case brk
    have "CHR '']'' \<in> set cs"
      using "2.prems"(1) brk by (auto simp: brackets_closed_def)
    then have "dropWhile ?P cs \<noteq> []"
      by auto
    then obtain x r where r: "dropWhile ?P cs = x # r"
      by (cases "dropWhile ?P cs") auto
    have "cs = (takeWhile ?P cs @ [x]) @ r"
      using takeWhile_dropWhile_id [of ?P cs] r by simp
    moreover have "drop (length (takeWhile ?P cs) + 1) cs = r"
      using r by (metis Suc_eq_plus1 drop_Suc dropWhile_eq_drop list.sel(3) tl_drop)
    ultimately have "brackets_closed (drop (length (takeWhile ?P cs) + 1) cs)"
      using brackets_closed_suffix cs by metis
    then show ?thesis
      using "2.IH"(3) [OF _ brk r] "2.prems"(3) brk r by simp
  next
    case skip
    then show ?thesis using "2.IH"(4) "2.prems"(3) cs by auto
  next
    case plain
    then show ?thesis using "2.IH"(5) "2.prems"(3) cs by auto
  qed
qed

lemma nested_part_total: "p \<noteq> [] \<Longrightarrow> last p \<noteq> CHR ''['' \<Longrightarrow> nested_part cur p \<noteq> None"
  by (auto simp: nested_part_def Let_def dest!: Cut_Some split: option.splits any.splits if_splits)

lemma nested_walk_total:
  "\<forall>p \<in> set ps. p \<noteq> [] \<and> last p \<noteq> CHR ''['' \<Longrightarrow> nested_walk cur ps \<noteq> None"
proof (induction ps arbitrary: cur)
  case (Cons p ps)
  then show ?case
    using nested_part_total [of p cur] by (auto simp: bind_eq_None_conv)
qed simp

lemma getNestedValue_total: "brackets_closed path \<Longrightarrow> getNestedValue data path \<noteq> None"
  using nested_walk_total [of "splitPath path"] splitPath_loop_safe [of path "[]"]
  by (auto simp: getNestedValue_def splitPath_def split: option.splits)

section \<open>What the matchers accept\<close>

lemma word1_append: "word1 s = Some (w, r) \<Longrightarrow> s = w @ r \<and> w \<noteq> [] \<and> list_all is_word w"
  by (cases s) (auto simp: word1_def list_all_iff dest: set_takeWhileD split: if_splits)

lemma alpha_is_word: "is_alpha_us c \<Longrightarrow> is_word c"
  by (simp add: is_word_def)

lemma ident_append: "ident s = Some (w, r) \<Longrightarrow> s = w @ r \<and> w \<noteq> [] \<and> list_all is_word w \<and> is_alpha_us (hd w)"
  by (cases s) (auto simp: ident_def list_all_iff alpha_is_word dest: set_takeWhileD split: if_splits)

lemma index1_append: "index1 s = Some (w, r) \<Longrightarrow> s = w @ CHR '']'' # r \<and> w \<noteq> [] \<and> list_all is_digit w"
  by (cases s)
     (auto simp: index1_def expect_append list_all_iff dest: set_takeWhileD split: if_splits option.splits,
      metis takeWhile_dropWhile_id)

definition path_char :: "char \<Rightarrow> bool" where
  "path_char c \<longleftrightarrow> is_word c \<or> c \<in> {CHR ''.'', CHR ''['', CHR '']''}"

lemma dotted_tail_step:
  "word1 cs = Some (w, q) \<Longrightarrow> dotted_tail q = (t, r) \<Longrightarrow> dotted_tail (CHR ''.'' # cs) = (CHR ''.'' # w @ t, r)"
  by (subst dotted_tail.simps) simp

lemma var_tail_dot:
  "ident cs = Some (w, q) \<Longrightarrow> var_tail q = (t, r) \<Longrightarrow> var_tail (CHR ''.'' # cs) = (CHR ''.'' # w @ t, r)"
  by (subst var_tail.simps) simp

lemma var_tail_index:
  "index1 cs = Some (d, q) \<Longrightarrow> var_tail q = (t, r) \<Longrightarrow>
     var_tail (CHR ''['' # cs) = (CHR ''['' # d @ CHR '']'' # t, r)"
  by (subst var_tail.simps) simp

lemma dotted_tail_append:
  "dotted_tail s = (t, r) \<Longrightarrow> s = t @ r \<and> list_all (\<lambda>c. is_word c \<or> c = CHR ''.'') t"
proof (induction s arbitrary: t r rule: length_induct)
  case (1 s)
  show ?case
  proof (cases "\<exists>cs w q. s = CHR ''.'' # cs \<and> word1 cs = Some (w, q)")
    case True
    then obtain cs w q where s: "s = CHR ''.'' # cs" and w: "word1 cs = Some (w, q)" by blast
    obtain t' r' where t': "dotted_tail q = (t', r')" by (cases "dotted_tail q")
    have "q = t' @ r' \<and> list_all (\<lambda>c. is_word c \<or> c = CHR ''.'') t'"
      using 1(1) [rule_format, OF _ t'] word1_length [OF w] s by simp
    then show ?thesis
      using 1(2) s dotted_tail_step [OF w t'] word1_append [OF w] by (auto simp: list_all_iff)
  next
    case False
    then have "dotted_tail s = ([], s)"
      by (auto simp: dotted_tail.simps [of s] split: list.splits option.splits)
    then show ?thesis using 1(2) by simp
  qed
qed

lemma dotted_append:
  "dotted s = Some (t, r) \<Longrightarrow> s = t @ r \<and> list_all (\<lambda>c. is_word c \<or> c = CHR ''.'') t"
  by (auto simp: dotted_def list_all_iff dest!: word1_append dotted_tail_append
           split: option.splits prod.splits)

lemma var_tail_append:
  "var_tail s = (t, r) \<Longrightarrow>
     s = t @ r \<and> list_all path_char t \<and> brackets_closed t \<and>
     (t \<noteq> [] \<longrightarrow> is_word (last t) \<or> last t = CHR '']'')"
proof (induction s arbitrary: t r rule: length_induct)
  case (1 s)
  have nb: "list_all is_word w \<Longrightarrow> CHR ''['' \<notin> set (CHR ''.'' # w)" for w
    by (auto simp: list_all_iff is_word_def is_alpha_us_def is_digit_def)
  consider (id) cs w q where "s = CHR ''.'' # cs" "ident cs = Some (w, q)"
    | (ix) cs d q where "s = CHR ''['' # cs" "index1 cs = Some (d, q)"
    | (stop) "var_tail s = ([], s)"
    using var_tail.simps [of s] by (cases s) (auto split: if_splits option.splits)
  then show ?case
  proof cases
    case id
    obtain t' r' where t': "var_tail q = (t', r')" by (cases "var_tail q")
    have IH: "q = t' @ r' \<and> list_all path_char t' \<and> brackets_closed t' \<and>
        (t' \<noteq> [] \<longrightarrow> is_word (last t') \<or> last t' = CHR '']'')"
      using 1(1) [rule_format, OF _ t'] ident_length [OF id(2)] id(1) by simp
    have t: "t = CHR ''.'' # w @ t'" "r = r'"
      using 1(2) id(1) var_tail_dot [OF id(2) t'] by simp_all
    have w: "cs = w @ q" "w \<noteq> []" "list_all is_word w"
      using ident_append [OF id(2)] by simp_all
    then have "is_word (last w)"
      by (simp add: list_all_iff)
    then show ?thesis
      using IH t w id(1) nb [OF w(3)] brackets_closed_append [of "CHR ''.'' # w" t']
      by (auto simp: list_all_iff path_char_def last_append)
  next
    case ix
    obtain t' r' where t': "var_tail q = (t', r')" by (cases "var_tail q")
    have IH: "q = t' @ r' \<and> list_all path_char t' \<and> brackets_closed t' \<and>
        (t' \<noteq> [] \<longrightarrow> is_word (last t') \<or> last t' = CHR '']'')"
      using 1(1) [rule_format, OF _ t'] index1_length [OF ix(2)] ix(1) by simp
    have t: "t = CHR ''['' # d @ CHR '']'' # t'" "r = r'"
      using 1(2) ix(1) var_tail_index [OF ix(2) t'] by simp_all
    show ?thesis
      using IH t ix(1) index1_append [OF ix(2)] brackets_closed_index [of d t']
      by (auto simp: list_all_iff path_char_def is_word_def)
  next
    case stop
    then show ?thesis using 1(2) by simp
  qed
qed

section \<open>Trimming\<close>

text \<open>A byte that neither starts nor ends the encoding of a space.\<close>

definition solid :: "char \<Rightarrow> bool" where
  "solid c \<longleftrightarrow> c \<notin> hd ` set utf8_spaces \<and> c \<notin> last ` set utf8_spaces"

lemma solid_ascii: "32 < byte c \<Longrightarrow> byte c < 128 \<Longrightarrow> solid c"
  by (auto simp: solid_def utf8_spaces_def)

lemma re_space_cases:
  "is_re_space c \<longleftrightarrow> c = CHR 0x09 \<or> c = CHR 0x0A \<or> c = CHR 0x0C \<or> c = CHR 0x0D \<or> c = CHR 0x20"
  unfolding is_re_space_def of_char_eq_iff [where 'a = nat, symmetric] by simp

lemma strip_step:
  "find (\<lambda>p. p \<noteq> [] \<and> prefix p s) encs = Some p \<Longrightarrow> strip encs s = strip encs (drop (length p) s)"
  by (subst strip.simps) simp

lemma find_re_space:
  "is_re_space c \<Longrightarrow> find (\<lambda>p. p \<noteq> [] \<and> prefix p (c # s)) utf8_spaces = Some [c]"
  unfolding re_space_cases utf8_spaces_def by (elim disjE) simp_all

lemma find_re_space_rev:
  "is_re_space c \<Longrightarrow> find (\<lambda>p. p \<noteq> [] \<and> prefix p (c # s)) (map rev utf8_spaces) = Some [c]"
  unfolding re_space_cases utf8_spaces_def by (elim disjE) simp_all

lemma strip_re_spaces:
  "list_all is_re_space w \<Longrightarrow>
     strip utf8_spaces (w @ s) = strip utf8_spaces s \<and>
     strip (map rev utf8_spaces) (w @ s) = strip (map rev utf8_spaces) s"
proof (induction w)
  case (Cons c w)
  then have "is_re_space c" by simp
  from find_re_space [OF this, THEN strip_step] find_re_space_rev [OF this, THEN strip_step] Cons
  show ?case by simp
qed simp

lemma strip_solid:
  assumes "s \<noteq> []" and "solid (hd s)"
  shows "strip utf8_spaces s = s" and "strip (map rev utf8_spaces) s = s"
  using assms
  by (auto intro!: strip_stop simp: solid_def prefix_def hd_rev [symmetric] rev_is_Nil_conv image_iff)
     (metis hd_append2)+

lemma TrimSpace_padded:
  assumes "list_all is_re_space a" "list_all is_re_space b"
    and "s \<noteq> []" "solid (hd s)" "solid (last s)"
  shows "TrimSpace (a @ s @ b) = s"
proof -
  have "strip utf8_spaces (a @ s @ b) = s @ b"
    using strip_re_spaces [OF assms(1)] strip_solid(1) [of "s @ b"] assms(3,4) by simp
  moreover have "strip (map rev utf8_spaces) (rev b @ rev s) = rev s"
    using strip_re_spaces [of "rev b" "rev s"] strip_solid(2) [of "rev s"] assms
    by (simp add: list_all_rev hd_rev)
  ultimately show ?thesis
    by (simp add: TrimSpace_def)
qed

section \<open>Variables\<close>

lemma is_word_solid: "is_word c \<Longrightarrow> solid c"
  by (rule solid_ascii) (auto simp: is_word_def is_alpha_us_def is_digit_def)

lemma match_variable_shape:
  assumes "match_variable s = Some (g, r)"
  shows "\<exists>w1 w2. s = ''{{'' @ w1 @ g @ w2 @ ''}}'' @ r \<and> list_all is_re_space w1 \<and>
           list_all is_re_space w2 \<and> g \<noteq> [] \<and> is_alpha_us (hd g) \<and> list_all path_char g \<and>
           brackets_closed g \<and> solid (last g)"
proof -
  from assms obtain s1 i s2 where m12:
      "expect ''{{'' s = Some s1" "ident (dropWhile is_re_space s1) = Some (i, s2)"
      "(let (t, s3) = var_tail s2 in
        Option.bind (expect ''}}'' (dropWhile is_re_space s3)) (\<lambda>s4. Some (i @ t, s4))) = Some (g, r)"
    by (auto simp: match_variable_def bind_eq_Some_conv)
  obtain t s3 where m3: "var_tail s2 = (t, s3)" by (cases "var_tail s2")
  have m4: "expect ''}}'' (dropWhile is_re_space s3) = Some r" "g = i @ t"
    using m12(3) by (auto simp: m3 bind_eq_Some_conv)
  note m = m12(1,2) m3 m4
  note i = ident_append [OF m(2)] and t = var_tail_append [OF m(3)]
  have "s1 = takeWhile is_re_space s1 @ i @ t @ takeWhile is_re_space s3 @ ''}}'' @ r"
    using m(4) i t takeWhile_dropWhile_id [of is_re_space s1] takeWhile_dropWhile_id [of is_re_space s3]
    by (metis append.assoc expect_append)
  moreover have "list_all is_re_space (takeWhile is_re_space u)" for u
    by (auto simp: list_all_iff dest: set_takeWhileD)
  moreover have "CHR ''['' \<notin> set i"
    using i by (auto simp: list_all_iff is_word_def is_alpha_us_def is_digit_def)
  then have "brackets_closed g"
    using t m(5) by (simp add: brackets_closed_append)
  moreover have "solid (last g)"
    using i t m(5) by (cases "t = []") (auto simp: list_all_iff is_word_solid solid_ascii)
  moreover have "list_all path_char g"
    using i t m(5) by (auto simp: list_all_iff path_char_def)
  ultimately show ?thesis
    using m(1,5) i by (intro exI conjI) (auto simp: expect_append)
qed

lemma match_variable_length [go_len]: "match_variable s = Some (g, r) \<Longrightarrow> length r < length s"
  using match_variable_shape by fastforce

text \<open>
  What the replacement function computes: the looked-up value, formatted. The \<open>json:\<close> branch of the
  code is unreachable, because no match of the pattern contains a colon.
\<close>

lemma take_front: "take (length (x @ r) - length r) (x @ r) = x"
  by simp

lemma var_subst_match:
  assumes "match_variable s = Some (g, r)"
  shows "var_subst rt data (take (length s - length r) s) =
           map_option (formatValue rt) (getNestedValue (Some data) g)"
proof -
  obtain w1 w2 where sh: "s = ''{{'' @ w1 @ g @ w2 @ ''}}'' @ r" "list_all is_re_space w1"
      "list_all is_re_space w2" "g \<noteq> []" "is_alpha_us (hd g)" "list_all path_char g" "solid (last g)"
    using match_variable_shape [OF assms] by blast
  have "solid (hd g)"
    using sh(5) by (intro is_word_solid) (simp add: is_word_def)
  then have "TrimSpace (w1 @ g @ w2) = g"
    using sh by (intro TrimSpace_padded)
  moreover have "s = (''{{'' @ (w1 @ g @ w2) @ ''}}'') @ r"
    using sh(1) by simp
  then have "take (length s - length r) s = ''{{'' @ (w1 @ g @ w2) @ ''}}''"
    by (metis take_front)
  moreover have "\<not> prefix ''json:'' g"
    using sh(6) by (auto simp: prefix_def list_all_iff path_char_def is_word_def is_alpha_us_def is_digit_def)
  ultimately show ?thesis
    by (simp add: var_subst_def Let_def)
qed

lemma ReplaceAllStringFunc_total:
  assumes "\<And>t m r. f t = Some (m, r) \<Longrightarrow> length r < length t \<and> g (take (length t - length r) t) \<noteq> None"
  shows "ReplaceAllStringFunc f g s \<noteq> None"
proof (induction s rule: length_induct)
  case (1 s)
  show ?case
  proof (cases "f s")
    case None
    then show ?thesis
      using 1 by (subst ReplaceAllStringFunc.simps) (auto split: list.splits)
  next
    case (Some mr)
    then obtain m r where f: "f s = Some (m, r)" by (cases mr) auto
    with assms [OF f] 1 show ?thesis
      by (subst ReplaceAllStringFunc.simps) (auto simp: bind_eq_None_conv)
  qed
qed

lemma ReplaceAllStringFunc_nomatch:
  assumes "regex_find f s = None"
  shows "ReplaceAllStringFunc f g s = Some s"
  using assms
proof (induction s)
  case Nil
  then show ?case by (subst ReplaceAllStringFunc.simps) (auto split: option.splits)
next
  case (Cons c cs)
  then show ?case by (subst ReplaceAllStringFunc.simps) (auto split: option.splits)
qed

lemma processVariables_Some: "processVariables rt data s \<noteq> None"
  unfolding processVariables_def
proof (rule ReplaceAllStringFunc_total)
  fix t m r
  assume m: "match_variable t = Some (m, r)"
  then have "brackets_closed m"
    using match_variable_shape by blast
  then show "length r < length t \<and> var_subst rt data (take (length t - length r) t) \<noteq> None"
    using var_subst_match [OF m, of rt data] getNestedValue_total [of m "Some data"] match_variable_length [OF m]
    by auto
qed

section \<open>Conditionals\<close>

lemma evaluateCondition_Some: "evaluateCondition rt cond data \<noteq> None"
proof (cases "match_condition (TrimSpace cond)")
  case (Some m)
  then obtain v op rhs where m: "match_condition (TrimSpace cond) = Some (v, op, rhs)"
    by (cases m) auto
  then obtain q where "dotted (TrimSpace cond) = Some (v, q)"
    by (auto simp: match_condition_def Let_def bind_eq_Some_conv split: if_splits)
  then have "CHR ''['' \<notin> set v"
    using dotted_append [of "TrimSpace cond" v q]
    by (auto simp: list_all_iff is_word_def is_alpha_us_def is_digit_def)
  then show ?thesis
    using m getNestedValue_total [OF brackets_closed_none, of v "Some data"]
    by (auto simp: evaluateCondition_def bind_eq_None_conv Let_def)
qed (simp add: evaluateCondition_def)

lemma if_output_Some [simp]: "if_output rt data cond body \<noteq> None"
  using evaluateCondition_Some by (auto simp: if_output_def split: prod.splits)

lemma processConditionals_result:
  "\<exists>out. processConditionals rt data s = Some out \<and> regex_find match_if out = None \<and>
     length out \<le> length s"
proof (induction rt data s rule: processConditionals.induct)
  case (1 rt data s)
  show ?case
  proof (cases "if_step rt data s")
    case None
    then show ?thesis
      by (subst processConditionals.simps) (auto simp: if_step_def split: option.splits)
  next
    case (Some r)
    then obtain s' where s': "if_step rt data s = Some (Some s')"
      by (cases r) (auto simp: if_step_def split: option.splits)
    then have "r = Some s'"
      using Some by simp
    from 1 [OF Some this] if_step_shrinks [OF s'] s' show ?thesis
      by (subst processConditionals.simps) auto
  qed
qed

section \<open>Text without braces\<close>

text \<open>All three block patterns start with two opening braces.\<close>

definition braced :: "'m matcher \<Rightarrow> bool" where
  "braced f \<longleftrightarrow> (\<forall>s. \<not> prefix ''{{'' s \<longrightarrow> f s = None)"

lemma expect_open: "\<not> prefix ''{{'' s \<Longrightarrow> expect (''{{'' @ p) s = None"
  by (auto simp: expect_def prefix_def)

lemma braced_matchers [simp]: "braced match_variable" "braced match_for" "braced match_if"
  unfolding braced_def match_variable_def match_for_def match_if_def
  using expect_open [of _ "[]"] expect_open [of _ "''for''"] expect_open [of _ "''if''"] by auto

lemma braced_skip: "braced f \<Longrightarrow> c \<noteq> CHR ''{'' \<Longrightarrow> f (c # s) = None"
  by (auto simp: braced_def prefix_def)

lemma regex_find_no_braces: "braced f \<Longrightarrow> \<not> sublist ''{{'' s \<Longrightarrow> regex_find f s = None"
proof (induction s)
  case Nil
  then show ?case by (simp add: braced_def)
next
  case (Cons c cs)
  then have "\<not> prefix ''{{'' (c # cs)" and "\<not> sublist ''{{'' cs"
    by (auto simp: sublist_Cons_right)
  then show ?case
    using Cons by (simp add: braced_def)
qed

lemma regex_find_skip:
  "braced f \<Longrightarrow> CHR ''{'' \<notin> set pre \<Longrightarrow>
     regex_find f (pre @ s) = map_option (\<lambda>(a, m, r). (pre @ a, m, r)) (regex_find f s)"
  by (induction pre) (auto simp: braced_skip option.map_comp comp_def option.map_ident id_def
      intro!: map_option_cong split: prod.splits)

lemma ReplaceAllStringFunc_skip:
  "braced f \<Longrightarrow> CHR ''{'' \<notin> set pre \<Longrightarrow>
     ReplaceAllStringFunc f g (pre @ s) = map_option ((@) pre) (ReplaceAllStringFunc f g s)"
proof (induction pre)
  case Nil
  then show ?case by (simp add: option.map_ident)
next
  case (Cons c pre)
  from Cons.prems have "f (c # pre @ s) = None"
    by (intro braced_skip) auto
  with Cons show ?case
    by (simp add: ReplaceAllStringFunc.simps [of f g "c # pre @ s"] option.map_comp comp_def)
qed

lemma no_brace_no_sublist: "CHR ''{'' \<notin> set s \<Longrightarrow> \<not> sublist ''{{'' s"
  by (auto dest: set_mono_sublist)

lemma for_step_None: "regex_find match_for s = None \<Longrightarrow> for_step rt data s = None"
  by (simp add: for_step_def)

lemma processForLoops_stop: "regex_find match_for s = None \<Longrightarrow> processForLoops rt data s = Some s"
  by (subst processForLoops.simps) (simp add: for_step_None)

lemma processForLoops_step:
  "for_step rt data s = Some (Some s') \<Longrightarrow> processForLoops rt data s = processForLoops rt data s'"
  by (simp add: processForLoops.simps [of rt data s])

lemma processConditionals_stop: "regex_find match_if s = None \<Longrightarrow> processConditionals rt data s = Some s"
  by (subst processConditionals.simps) (simp add: if_step_def)

lemma processVariables_stop: "regex_find match_variable s = None \<Longrightarrow> processVariables rt data s = Some s"
  by (simp add: processVariables_def ReplaceAllStringFunc_nomatch)

lemmas template_stop = processForLoops_stop processConditionals_stop processVariables_stop

section \<open>Which templates are rendered\<close>

text \<open>A concrete runtime for the examples: ASCII lower case, integers only.\<close>

definition sample_rt :: go_rt where
  "sample_rt = \<lparr>strings_ToLower = map (\<lambda>c. if 65 \<le> byte c \<and> byte c \<le> 90 then char_of (byte c + 32) else c),
     strconv_ParseFloat = (\<lambda>s. map_option (\<lambda>i. Fin (of_int i)) (Atoi s)),
     strconv_FormatFloat = (\<lambda>x. Itoa (float_to_int x)), fmt_other = (\<lambda>_. ''map[]''),
     json_Marshal = (\<lambda>_. Some ''{}'')\<rparr>"

text \<open>
  The conditional pass always returns (no panic, no endless loop) although it rescans its own
  output: the result is no longer than the input and contains no complete if block any more.
\<close>

theorem conditionals_terminate:
  "\<exists>out. processConditionals rt data s = Some out \<and> regex_find match_if out = None \<and> length out \<le> length s"
  by (rule processConditionals_result)

text \<open>
  The substitution pass never panics: every path the variable pattern accepts can be looked up,
  whatever the data is.
\<close>

theorem variables_never_panic: "\<exists>out. processVariables rt data s = Some out"
  using processVariables_Some by blast

text \<open>A template without a pair of opening braces is returned unchanged.\<close>

theorem template_plain_text: "\<not> sublist ''{{'' s \<Longrightarrow> processTemplate rt s data = Some s"
  by (simp add: processTemplate_def template_stop regex_find_no_braces)

theorem template_plain_text_witness:
  "\<not> sublist ''{{'' ''Hi {x}'' \<and> processTemplate sample_rt ''Hi {x}'' None = Some ''Hi {x}''"
proof -
  have "\<not> sublist ''{{'' ''Hi {x}''" by (simp add: sublist_Cons_right)
  then show ?thesis using template_plain_text [of "''Hi {x}''" sample_rt None] by simp
qed

lemma processTemplate_after_loops:
  "processForLoops rt (jsonb data) s \<noteq> None \<Longrightarrow> processTemplate rt s data \<noteq> None"
proof -
  assume "processForLoops rt (jsonb data) s \<noteq> None"
  then obtain r1 where "processForLoops rt (jsonb data) s = Some r1" by blast
  moreover obtain r2 where "processConditionals rt (jsonb data) r1 = Some r2"
    using processConditionals_result by blast
  ultimately show ?thesis
    using processVariables_Some [of rt "jsonb data" r2] by (simp add: processTemplate_def)
qed

text \<open>Data in which no path leads to a non-empty array.\<close>

definition no_arrays :: "obj \<Rightarrow> bool" where
  "no_arrays data \<longleftrightarrow> (\<forall>path arr. getNestedValue (Some data) path = Some (ArrV arr) \<longrightarrow> arr = [])"

lemma match_for_shape:
  assumes "match_for s = Some ((item, path, body), r)"
  shows "brackets_closed path" and "length r < length s"
proof -
  from assms obtain s1 s2 s3 s4 s5 s6 s7 s8 where m:
      "expect ''{{for'' s = Some s1" "spaces1 s1 = Some s2" "word1 s2 = Some (item, s3)"
      "spaces1 s3 = Some s4" "expect ''in'' s4 = Some s5" "spaces1 s5 = Some s6"
      "dotted s6 = Some (path, s7)" "expect ''}}'' s7 = Some s8"
      "strings_Cut ''{{endfor}}'' s8 = Some (body, r)"
    by (auto simp: match_for_def bind_eq_Some_conv)
  from dotted_append [OF m(7)] show "brackets_closed path"
    by (intro brackets_closed_none) (auto simp: list_all_iff is_word_def is_alpha_us_def is_digit_def)
  from m dotted_append [OF m(7)] show "length r < length s"
    by (auto dest!: expect_length spaces1_length word1_length Cut_length)
qed

lemma for_output_no_arrays:
  assumes "no_arrays data" and "brackets_closed path"
  shows "for_output rt data item path body = Some []"
proof -
  obtain v where v: "getNestedValue (Some data) path = Some v"
    using getNestedValue_total [OF assms(2)] by blast
  moreover have "as_arr v = None \<or> v = ArrV []"
    using assms(1) v by (cases v) (auto simp: no_arrays_def)
  ultimately show ?thesis
    by (auto simp: for_output_def)
qed

lemma processForLoops_no_arrays:
  assumes "no_arrays data"
  shows "processForLoops rt data s \<noteq> None"
proof (induction s rule: length_induct)
  case (1 s)
  show ?case
  proof (cases "regex_find match_for s")
    case None
    then show ?thesis by (simp add: processForLoops_stop)
  next
    case (Some m)
    then obtain a item path body r where m: "regex_find match_for s = Some (a, (item, path, body), r)"
      by (cases m) auto
    from regex_find_append [OF m]
    obtain t where t: "s = a @ t" "match_for t = Some ((item, path, body), r)" by auto
    have "for_step rt data s = Some (Some (a @ r))"
      using m for_output_no_arrays [OF assms match_for_shape(1) [OF t(2)]] by (simp add: for_step_def)
    then have "processForLoops rt data s = processForLoops rt data (a @ r)"
      by (rule processForLoops_step)
    moreover have "length (a @ r) < length s"
      using t match_for_shape(2) [OF t(2)] by simp
    ultimately show ?thesis
      using 1 by metis
  qed
qed

text \<open>
  Rendering returns for every template whenever no path of the data leads to a non-empty array
  (all loops are then dropped), in particular for the string-valued data of a conversation.
\<close>

theorem template_returns_without_arrays:
  "no_arrays (jsonb data) \<Longrightarrow> \<exists>out. processTemplate rt s data = Some out"
  using processTemplate_after_loops processForLoops_no_arrays by blast

fun scalar :: "any \<Rightarrow> bool" where
  "scalar (ArrV _) = False"
| "scalar (ObjV _) = False"
| "scalar _ = True"

lemma nested_part_scalar: "scalar cur \<Longrightarrow> nested_part cur p = Some v \<Longrightarrow> v = NilV"
  by (cases cur) (auto simp: nested_part_def Let_def split: option.splits if_splits any.splits)

lemma nested_walk_scalar: "scalar cur \<Longrightarrow> nested_walk cur ps = Some v \<Longrightarrow> scalar v"
proof (induction ps arbitrary: cur)
  case (Cons p ps)
  show ?case
  proof (cases "cur = NilV")
    case False
    with Cons.prems obtain w where "nested_part cur p = Some w" "nested_walk w ps = Some v"
      by (auto simp: bind_eq_Some_conv)
    moreover from this have "w = NilV"
      using nested_part_scalar [OF Cons.prems(1)] by blast
    ultimately show ?thesis
      using Cons.IH [of w] by simp
  qed (use Cons.prems in auto)
qed simp

lemma nested_part_flat:
  "(\<And>k. scalar (obj_get d k)) \<Longrightarrow> nested_part (ObjV d) p = Some v \<Longrightarrow> scalar v"
  by (auto simp: nested_part_def Let_def split: option.splits if_splits any.splits)
     (metis scalar.simps(1))

text \<open>Session data that holds scalars only (texts, numbers, flags) has no arrays.\<close>

lemma no_arrays_flat:
  assumes "\<And>k. scalar (obj_get d k)"
  shows "no_arrays d"
  unfolding no_arrays_def
proof (intro allI impI)
  fix path arr
  assume "getNestedValue (Some d) path = Some (ArrV arr)"
  then have "nested_walk (ObjV d) (splitPath path) = Some (ArrV arr)"
    by (auto simp: getNestedValue_def split: if_splits)
  then have "\<exists>v. scalar v \<and> nested_walk v (tl (splitPath path)) = Some (ArrV arr)"
    using nested_part_flat [OF assms] by (cases "splitPath path") (auto simp: bind_eq_Some_conv)
  then show "arr = []"
    using nested_walk_scalar by force
qed

theorem template_returns_without_arrays_witness:
  "no_arrays [(''name'', StrV ''{{for'')] \<and>
   (\<exists>out. processTemplate sample_rt ''{{for i in name}}{{i}}{{endfor}}'' (Some [(''name'', StrV ''{{for'')]) = Some out)"
proof -
  have "no_arrays [(''name'', StrV ''{{for'')]"
    by (rule no_arrays_flat) (auto simp: obj_get_def)
  then show ?thesis
    using template_returns_without_arrays [of "Some [(''name'', StrV ''{{for'')]"] by simp
qed

section \<open>What a rendered block is\<close>

lemma ident_word:
  assumes "x \<noteq> []" "list_all is_word x" "is_alpha_us (hd x)" "\<not> is_word c"
  shows "ident (x @ c # s) = Some (x, c # s)"
proof -
  have "takeWhile is_word (x @ c # s) = x" and "dropWhile is_word (x @ c # s) = c # s"
    using assms by (simp_all add: list_all_iff takeWhile_append2 dropWhile_append2)
  then show ?thesis
    using assms by (simp add: ident_def hd_append)
qed

lemma match_variable_ident:
  assumes "x \<noteq> []" "list_all is_word x" "is_alpha_us (hd x)"
  shows "match_variable (''{{'' @ x @ ''}}'' @ s) = Some (x, s)"
proof -
  have ns: "\<not> is_re_space (hd x)"
    using assms(3) by (intro is_word_not_space) (simp add: is_word_def)
  then have d: "dropWhile is_re_space (x @ ''}}'' @ s) = x @ ''}}'' @ s"
    using assms(1) by (cases x) auto
  have i: "ident (x @ ''}}'' @ s) = Some (x, ''}}'' @ s)"
    using ident_word [OF assms, of "CHR ''}''"] by (simp add: is_word_def is_alpha_us_def is_digit_def)
  have v: "var_tail (''}}'' @ s) = ([], ''}}'' @ s)"
    by (simp add: var_tail.simps)
  show ?thesis
    using d i v by (simp add: match_variable_def expect_def is_re_space_def)
qed

definition plain_key :: "string \<Rightarrow> bool" where
  "plain_key k \<longleftrightarrow> k \<noteq> [] \<and> CHR ''.'' \<notin> set k \<and> CHR ''['' \<notin> set k"

lemma splitPath_loop_plain:
  "CHR ''.'' \<notin> set k \<Longrightarrow> CHR ''['' \<notin> set k \<Longrightarrow> splitPath_loop (k @ s) cur = splitPath_loop s (cur @ k)"
  by (induction k arbitrary: cur) auto

lemma splitPath_plain: "plain_key k \<Longrightarrow> splitPath k = [k]"
  using splitPath_loop_plain [of k "[]" "[]"] by (simp add: splitPath_def plain_key_def)

lemma nested_part_plain:
  "plain_key k \<Longrightarrow> nested_part cur k = Some (case cur of ObjV m \<Rightarrow> obj_get m k | _ \<Rightarrow> NilV)"
proof -
  assume "plain_key k"
  then have "strings_Cut ''['' k = None"
    by (auto simp: Cut_None_iff plain_key_def dest: set_mono_sublist)
  then show ?thesis
    by (cases cur) (auto simp: nested_part_def)
qed

lemma getNestedValue_plain: "plain_key k \<Longrightarrow> getNestedValue (Some d) k = Some (obj_get d k)"
  by (simp add: getNestedValue_def splitPath_plain nested_part_plain, simp add: plain_key_def)

lemma word_plain_key: "x \<noteq> [] \<Longrightarrow> list_all is_word x \<Longrightarrow> plain_key x"
  by (auto simp: plain_key_def list_all_iff is_word_def is_alpha_us_def is_digit_def)

lemma render_variable:
  assumes "x \<noteq> []" and "list_all is_word x" and "is_alpha_us (hd x)"
    and "CHR ''{'' \<notin> set pre" and "CHR ''{'' \<notin> set post"
  shows "processVariables rt d (pre @ ''{{'' @ x @ ''}}'' @ post) =
           Some (pre @ formatValue rt (obj_get d x) @ post)"
proof -
  note m = match_variable_ident [OF assms(1-3), of post]
  have "var_subst rt d (take (length (''{{'' @ x @ ''}}'' @ post) - length post) (''{{'' @ x @ ''}}'' @ post)) =
      Some (formatValue rt (obj_get d x))"
    using var_subst_match [OF m, of rt d] getNestedValue_plain [OF word_plain_key [OF assms(1,2)]] by simp
  moreover have "ReplaceAllStringFunc match_variable (var_subst rt d) post = Some post"
    using assms(5) by (simp add: ReplaceAllStringFunc_nomatch regex_find_no_braces no_brace_no_sublist)
  ultimately have "ReplaceAllStringFunc match_variable (var_subst rt d) (''{{'' @ x @ ''}}'' @ post) =
      Some (formatValue rt (obj_get d x) @ post)"
    using m by (subst ReplaceAllStringFunc.simps) simp
  then show ?thesis
    using ReplaceAllStringFunc_skip [OF braced_matchers(1) assms(4)] by (simp add: processVariables_def)
qed

text \<open>
  Substitution of one variable: the placeholder is replaced by the formatted value of the key and
  the text around it is kept, for any identifier and any surrounding text free of opening braces.
\<close>

theorem variable_rendered:
  assumes "x \<noteq> []" and "list_all is_word x" and "is_alpha_us (hd x)"
    and "CHR ''{'' \<notin> set pre" and "CHR ''{'' \<notin> set post"
  shows "processVariables rt d (pre @ ''{{'' @ x @ ''}}'' @ post) =
           Some (pre @ formatValue rt (obj_get d x) @ post)"
  using assms by (rule render_variable)

theorem variable_rendered_witness:
  "processVariables sample_rt [(''name'', StrV ''Amina'')] (''Hi '' @ ''{{'' @ ''name'' @ ''}}'' @ ''!'') =
     Some (''Hi '' @ formatValue sample_rt (obj_get [(''name'', StrV ''Amina'')] ''name'') @ ''!'')"
  by (rule variable_rendered) (simp_all add: is_word_def is_alpha_us_def is_digit_def)

lemma Cut_skip:
  "CHR ''{'' \<notin> set a \<Longrightarrow>
     strings_Cut (CHR ''{'' # sep) (a @ t) = map_option (\<lambda>(x, y). (a @ x, y)) (strings_Cut (CHR ''{'' # sep) t)"
  by (induction a) (auto simp: option.map_comp comp_def option.map_ident id_def
      intro!: map_option_cong split: prod.splits)

lemma Cut_here: "sep \<noteq> [] \<Longrightarrow> strings_Cut sep (sep @ t) = Some ([], t)"
  by (cases sep) auto

lemma takeWhile_stop: "\<forall>x \<in> set w. P x \<Longrightarrow> \<not> P c \<Longrightarrow> takeWhile P (w @ c # t) = w"
  by (induction w) auto

lemma dropWhile_stop: "\<forall>x \<in> set w. P x \<Longrightarrow> \<not> P c \<Longrightarrow> dropWhile P (w @ c # t) = c # t"
  by (induction w) auto

lemma match_if_at:
  assumes "cond \<noteq> []" "\<not> is_re_space (hd cond)" "CHR ''}'' \<notin> set cond"
    and "CHR ''{'' \<notin> set a" and "CHR ''{'' \<notin> set b"
  shows "match_if (''{{if '' @ cond @ ''}}'' @ (a @ ''{{else}}'' @ b) @ ''{{endif}}'' @ s) =
           Some ((cond, a @ ''{{else}}'' @ b), s)"
proof -
  let ?P = "\<lambda>c. c \<noteq> CHR ''}''"
  let ?t = "(a @ ''{{else}}'' @ b) @ ''{{endif}}'' @ s"
  have all: "\<forall>x \<in> set (CHR '' '' # cond). ?P x"
    using assms(3) by auto
  have tk: "takeWhile ?P (CHR '' '' # cond @ ''}}'' @ ?t) = CHR '' '' # cond"
    and dr: "dropWhile ?P (CHR '' '' # cond @ ''}}'' @ ?t) = ''}}'' @ ?t"
    using takeWhile_stop [OF all, of "CHR ''}''" "CHR ''}'' # ?t"]
      dropWhile_stop [OF all, of "CHR ''}''" "CHR ''}'' # ?t"] by simp_all
  have sp: "is_re_space (CHR '' '')"
    by (simp add: is_re_space_def)
  then have dc: "dropWhile is_re_space (CHR '' '' # cond) = cond"
    using assms(1,2) by (cases cond) auto
  have "strings_Cut ''{{endif}}'' (b @ ''{{endif}}'' @ s) = Some (b, s)"
    using Cut_skip [OF assms(5)] Cut_here [of "''{{endif}}''" s] by simp
  then have cut: "strings_Cut ''{{endif}}'' ?t = Some (a @ ''{{else}}'' @ b, s)"
    using Cut_skip [OF assms(4)] by simp
  have e1: "expect ''{{if'' (''{{if '' @ cond @ ''}}'' @ ?t) = Some (CHR '' '' # cond @ ''}}'' @ ?t)"
    and e2: "expect ''}}'' (''}}'' @ ?t) = Some ?t"
    by (simp_all add: expect_def)
  show ?thesis
    unfolding match_if_def e1 bind.bind_lunit Let_def tk dr dc e2 cut
    using assms(1) sp by (cases cond) auto
qed

text \<open>
  An if/else block is replaced by exactly one of its branches, chosen by the condition, and the
  surrounding text is kept (branches and surrounding text free of opening braces).
\<close>

theorem if_block_selects_branch:
  assumes "cond \<noteq> []" and "\<not> is_re_space (hd cond)" and "CHR ''}'' \<notin> set cond"
    and "CHR ''{'' \<notin> set pre" and "CHR ''{'' \<notin> set a" and "CHR ''{'' \<notin> set b" and "CHR ''{'' \<notin> set post"
  shows "processConditionals rt d (pre @ ''{{if '' @ cond @ ''}}'' @ (a @ ''{{else}}'' @ b) @ ''{{endif}}'' @ post) =
     map_option (\<lambda>c. pre @ (if c then a else b) @ post) (evaluateCondition rt (TrimSpace cond) d)"
proof -
  let ?s = "''{{if '' @ cond @ ''}}'' @ (a @ ''{{else}}'' @ b) @ ''{{endif}}'' @ post"
  have "regex_find match_if ?s = Some ([], (cond, a @ ''{{else}}'' @ b), post)"
    using match_if_at [OF assms(1-3,5,6), of post] by simp
  then have f: "regex_find match_if (pre @ ?s) = Some (pre, (cond, a @ ''{{else}}'' @ b), post)"
    using regex_find_skip [OF braced_matchers(3) assms(4), of ?s] by simp
  have cut: "strings_Cut ''{{else}}'' (a @ ''{{else}}'' @ b) = Some (a, b)"
    using Cut_skip [OF assms(5)] Cut_here [of "''{{else}}''" b] by simp
  obtain c where c: "evaluateCondition rt (TrimSpace cond) d = Some c"
    using evaluateCondition_Some by blast
  have "if_step rt d (pre @ ?s) = Some (Some (pre @ (if c then a else b) @ post))"
    unfolding if_step_def f if_output_def option.case prod.case cut c Let_def by simp
  moreover have "CHR ''{'' \<notin> set (pre @ (if c then a else b) @ post)"
    using assms by simp
  then have "processConditionals rt d (pre @ (if c then a else b) @ post) = Some (pre @ (if c then a else b) @ post)"
    by (intro processConditionals_stop regex_find_no_braces no_brace_no_sublist) simp_all
  ultimately show ?thesis
    using c by (subst processConditionals.simps) simp
qed

theorem if_block_selects_branch_witness:
  "processConditionals sample_rt [(''tier'', StrV ''gold'')]
     (''A'' @ ''{{if '' @ ''tier == gold'' @ ''}}'' @ (''x'' @ ''{{else}}'' @ ''y'') @ ''{{endif}}'' @ ''B'') =
   map_option (\<lambda>c. ''A'' @ (if c then ''x'' else ''y'') @ ''B'')
     (evaluateCondition sample_rt (TrimSpace ''tier == gold'') [(''tier'', StrV ''gold'')])"
  by (rule if_block_selects_branch) (simp_all add: is_re_space_def)

lemma match_variable_json:
  assumes "list_all is_word v"
  shows "match_variable (''{{json:'' @ v @ ''}}'') = None"
  using assms
  by (simp add: match_variable_def expect_def ident_def is_re_space_def is_word_def is_alpha_us_def
      is_digit_def var_tail.simps)

text \<open>
  The documented JSON directive has no effect: a template that asks for a value as JSON is sent out
  literally, for every variable name and all data, because the variable pattern admits no colon.
\<close>

theorem json_directive_inert:
  assumes "list_all is_word v"
  shows "processTemplate rt (''{{json:'' @ v @ ''}}'') data = Some (''{{json:'' @ v @ ''}}'')"
proof -
  have nb: "CHR ''{'' \<notin> set (''json:'' @ v @ ''}}'')"
    using assms by (auto simp: list_all_iff is_word_def is_alpha_us_def is_digit_def)
  have tail: "regex_find f (CHR ''{'' # ''json:'' @ v @ ''}}'') = None" if "braced f" for f :: "'m matcher"
    using that regex_find_no_braces [OF that no_brace_no_sublist [OF nb]]
    by (simp add: braced_def prefix_def)
  have "match_for (''{{json:'' @ v @ ''}}'') = None" "match_if (''{{json:'' @ v @ ''}}'') = None"
    by (simp_all add: match_for_def match_if_def expect_def)
  then show ?thesis
    using tail [OF braced_matchers(1)] tail [OF braced_matchers(2)] tail [OF braced_matchers(3)]
      match_variable_json [OF assms]
    by (simp add: processTemplate_def template_stop)
qed

theorem json_directive_inert_witness:
  "list_all is_word ''photo'' \<and>
   processTemplate sample_rt (''{{json:'' @ ''photo'' @ ''}}'') (Some [(''photo'', ArrV [])]) =
     Some (''{{json:'' @ ''photo'' @ ''}}'')"
proof -
  have w: "list_all is_word ''photo''" by (simp add: is_word_def is_alpha_us_def)
  show ?thesis using w json_directive_inert [OF w] by blast
qed

section \<open>Loops that never return\<close>

text \<open>A loop block, and an array whose only element is the text of that block.\<close>

definition echo_loop :: string where
  "echo_loop = ''{{for i in xs}}{{i}}{{endfor}}''"

definition echo_data :: obj where
  "echo_data = [(''xs'', ArrV [StrV echo_loop])]"

lemma echo_step: "for_step rt echo_data echo_loop = Some (Some echo_loop)"
proof -
  have f: "regex_find match_for echo_loop = Some ([], (''i'', ''xs'', ''{{i}}''), [])"
    by code_simp
  have l: "getNestedValue (Some echo_data) ''xs'' = Some (ArrV [StrV echo_loop])"
    using getNestedValue_plain [of "''xs''" echo_data] by (simp add: plain_key_def echo_data_def obj_get_def)
  let ?d = "obj_set ''i_index'' (IntV 0) (obj_set ''i'' (StrV echo_loop) echo_data)"
  have "processConditionals rt ?d ''{{i}}'' = Some ''{{i}}''"
    by (rule processConditionals_stop) code_simp
  moreover have "processVariables rt ?d ([] @ ''{{'' @ ''i'' @ ''}}'' @ []) =
      Some ([] @ formatValue rt (obj_get ?d ''i'') @ [])"
    by (rule render_variable) (simp_all add: is_word_def is_alpha_us_def)
  ultimately have "loop_iteration rt echo_data ''i'' ''{{i}}'' (0, StrV echo_loop) = Some echo_loop"
    by (simp add: loop_iteration_def formatValue_def)
  then have "for_output rt echo_data ''i'' ''xs'' ''{{i}}'' = Some echo_loop"
    by (simp add: for_output_def l maxLoopIterations_def)
  then show ?thesis
    by (simp add: for_step_def f)
qed

text \<open>
  A loop step that reproduces the text it was applied to is repeated forever: there is no result.
\<close>

lemma processForLoops_fixpoint:
  assumes "for_step rt data s = Some (Some s)"
  shows "processForLoops rt data s = None"
proof (rule ccontr)
  assume "processForLoops rt data s \<noteq> None"
  then obtain r where ret: "processForLoops rt data s = Some r" by blast
  have "(rt, data, s) \<noteq> (rt, data, s)"
    by (rule processForLoops.raw_induct [where P = "\<lambda>a b c r. (a, b, c) \<noteq> (rt, data, s)", OF _ ret])
       (use assms in \<open>fastforce split: option.splits\<close>)
  then show False by simp
qed

text \<open>
  The loop pass rescans its own output, so data can make it run forever: with an array element that
  repeats the text of the loop block (array elements come from API responses and form submissions), the
  template has no result.
\<close>

theorem loop_output_rescanned_forever: "processTemplate rt echo_loop (Some echo_data) = None"
  by (simp add: processTemplate_def processForLoops_fixpoint [OF echo_step])

section \<open>Lookups along a path\<close>

fun join_path :: "string list \<Rightarrow> string" where
  "join_path [] = []"
| "join_path [k] = k"
| "join_path (k # ks) = k @ CHR ''.'' # join_path ks"

text \<open>The meaning of a dotted path: one field access per key, \<open>nil\<close> on anything that is no object.\<close>

fun field_access :: "any \<Rightarrow> string \<Rightarrow> any" where
  "field_access (ObjV m) k = obj_get m k"
| "field_access _ k = NilV"

lemma splitPath_loop_join:
  "list_all plain_key (k # ks) \<Longrightarrow> splitPath_loop (join_path (k # ks)) [] = k # ks"
proof (induction ks arbitrary: k)
  case Nil
  then show ?case
    using splitPath_loop_plain [of k "[]" "[]"] by (simp add: plain_key_def)
next
  case (Cons k' ks)
  then show ?case
    using splitPath_loop_plain [of k "CHR ''.'' # join_path (k' # ks)" "[]"] by (simp add: plain_key_def)
qed

lemma join_path_nonempty: "list_all plain_key (k # ks) \<Longrightarrow> join_path (k # ks) \<noteq> []"
  by (cases ks) (auto simp: plain_key_def)

lemma foldl_access_Nil: "foldl field_access NilV ks = NilV"
  by (induction ks) auto

lemma nested_walk_access:
  "list_all plain_key ks \<Longrightarrow> nested_walk cur ks = Some (foldl field_access cur ks)"
proof (induction ks arbitrary: cur)
  case (Cons k ks)
  have "nested_part cur k = Some (field_access cur k)"
    using nested_part_plain [of k cur] Cons.prems by (cases cur) auto
  with Cons show ?case by (auto simp: foldl_access_Nil)
qed simp

text \<open>
  A dotted path is resolved as one field access per component: the byte-level splitter recovers
  exactly the components, and a missing or non-object value anywhere gives nil.
\<close>

theorem nested_lookup_dotted:
  assumes "list_all plain_key (k # ks)"
  shows "getNestedValue (Some d) (join_path (k # ks)) = Some (foldl field_access (ObjV d) (k # ks))"
  using nested_walk_access [OF assms] splitPath_loop_join [OF assms] join_path_nonempty [OF assms]
  by (simp add: getNestedValue_def splitPath_def del: nested_walk.simps)

theorem nested_lookup_dotted_witness:
  "list_all plain_key [''user'', ''city''] \<and>
   getNestedValue (Some [(''user'', ObjV [(''city'', StrV ''Fes'')])]) (join_path [''user'', ''city'']) =
     Some (foldl field_access (ObjV [(''user'', ObjV [(''city'', StrV ''Fes'')])]) [''user'', ''city''])"
proof -
  have p: "list_all plain_key [''user'', ''city'']" by (simp add: plain_key_def)
  show ?thesis using p nested_lookup_dotted [OF p] by blast
qed

lemma digit_not_bracket: "is_digit c \<Longrightarrow> c \<noteq> CHR '']'' \<and> c \<noteq> CHR ''[''"
  by (auto simp: is_digit_def)

lemma splitPath_index:
  assumes "plain_key f" and "list_all is_digit ds"
  shows "splitPath (f @ CHR ''['' # ds @ '']'') = [f @ CHR ''['' # ds @ '']'']"
proof -
  let ?P = "\<lambda>d. d \<noteq> CHR '']''"
  have all: "\<forall>x \<in> set ds. ?P x"
    using assms(2) digit_not_bracket by (auto simp: list_all_iff)
  have "takeWhile ?P (ds @ '']'') = ds" and "dropWhile ?P (ds @ '']'') = '']''"
    using takeWhile_stop [OF all, of "CHR '']''" "[]"] dropWhile_stop [OF all, of "CHR '']''" "[]"] by simp_all
  then show ?thesis
    using splitPath_loop_plain [of f "CHR ''['' # ds @ '']''" "[]"] assms(1)
    by (simp add: splitPath_def plain_key_def)
qed

lemma Cut_bracket: "CHR ''['' \<notin> set f \<Longrightarrow> strings_Cut ''['' (f @ CHR ''['' # t) = Some (f, t)"
  by (induction f) auto

text \<open>
  An indexed path reads the element at that position of the array stored under the field, and
  gives nil when the field is no array or the index is out of range: no read past the end.
\<close>

theorem nested_lookup_index:
  assumes "plain_key f" and "int i < 2 ^ 63"
  shows "getNestedValue (Some d) (f @ ''['' @ show_nat i @ '']'') =
     Some (case obj_get d f of ArrV arr \<Rightarrow> if i < length arr then arr ! i else NilV | _ \<Rightarrow> NilV)"
proof -
  have ds: "list_all is_digit (show_nat i)"
    using show_nat_digits by blast
  have "strings_Cut ''['' (f @ CHR ''['' # show_nat i @ '']'') = Some (f, show_nat i @ '']'')"
    using assms(1) Cut_bracket by (simp add: plain_key_def)
  then have "nested_part (ObjV d) (f @ CHR ''['' # show_nat i @ '']'') =
      Some (case obj_get d f of ArrV arr \<Rightarrow> if i < length arr then arr ! i else NilV | _ \<Rightarrow> NilV)"
    using assms Atoi_show_nat [OF assms(2)]
    by (auto simp: nested_part_def plain_key_def split: any.splits)
  then show ?thesis
    using splitPath_index [OF assms(1) ds] by (simp add: getNestedValue_def)
qed

theorem nested_lookup_index_witness:
  "getNestedValue (Some [(''xs'', ArrV [StrV ''a'', StrV ''b''])]) (''xs'' @ ''['' @ show_nat 1 @ '']'') =
     Some (case obj_get [(''xs'', ArrV [StrV ''a'', StrV ''b''])] ''xs'' of
             ArrV arr \<Rightarrow> if 1 < length arr then arr ! 1 else NilV | _ \<Rightarrow> NilV)"
  by (rule nested_lookup_index) (simp_all add: plain_key_def)

text \<open>
  A response mapping whose path ends in an unclosed opening bracket panics (slice bounds out of
  range) on every API response, while every path whose brackets are closed can be looked up.
\<close>

theorem response_mapping_unclosed_panics:
  assumes "plain_key f" and "brackets_closed path"
  shows "extractResponseMapping (Some resp) [(v, f @ ''['')] = None \<and>
         extractResponseMapping (Some resp) [(v, path)] \<noteq> None"
proof
  have "splitPath (f @ ''['') = [f @ ''['']"
    using splitPath_loop_plain [of f "''[''" "[]"] assms(1) by (simp add: splitPath_def plain_key_def)
  moreover have "nested_part (ObjV resp) (f @ ''['') = None"
    using Cut_bracket [of f "[]"] assms(1) by (simp add: nested_part_def plain_key_def)
  ultimately show "extractResponseMapping (Some resp) [(v, f @ ''['')] = None"
    by (simp add: getNestedValue_def)
  show "extractResponseMapping (Some resp) [(v, path)] \<noteq> None"
    using getNestedValue_total [OF assms(2), of "Some resp"] by auto
qed

theorem response_mapping_unclosed_panics_witness:
  "extractResponseMapping (Some [(''items'', ArrV [])]) [(''x'', ''items'' @ ''['')] = None \<and>
   extractResponseMapping (Some [(''items'', ArrV [])]) [(''x'', ''items[0].id'')] \<noteq> None"
proof -
  have "brackets_closed ''items[0].id''"
    unfolding brackets_closed_def by (auto simp: Cons_eq_append_conv)
  then show ?thesis
    using response_mapping_unclosed_panics [of "''items''" "''items[0].id''"] by (simp add: plain_key_def)
qed

end
