(* ===== verification/Schedules.thy ===== *)
theory Schedules
  imports Template_Facts
begin

text \<open>
  The three weekly schedules of the program: \<open>evaluateTimingSchedule\<close> of the chatbot's timing node
  (\<open>chatbot_graph_runner.go\<close>), \<open>executeTiming\<close> of the IVR (\<open>calling/ivr.go\<close>) and
  \<open>isWithinBusinessHours\<close> of the inbound processor (\<open>chatbot_processor.go\<close>). The first two parse
  times of day and compare minutes; the third compares the texts.
\<close>

section \<open>The clock and times of day\<close>

record clock =
  clk_UnixNano :: int
  clk_Weekday :: nat
  clk_Hour :: nat
  clk_Minute :: nat

definition clock_ok :: "clock \<Rightarrow> bool" where
  "clock_ok t \<longleftrightarrow> clk_Weekday t < 7 \<and> clk_Hour t < 24 \<and> clk_Minute t < 60"

text \<open>\<open>strings.ToLower(now.Weekday().String())\<close>.\<close>

definition weekday_lower :: "clock \<Rightarrow> string" where
  "weekday_lower t =
     [''sunday'', ''monday'', ''tuesday'', ''wednesday'', ''thursday'', ''friday'', ''saturday'']
       ! (clk_Weekday t mod 7)"

definition minutes_of :: "nat \<times> nat \<Rightarrow> nat" where
  "minutes_of = (\<lambda>(h, m). h * 60 + m)"

text \<open>
  \<open>time.Parse("15:04", s)\<close>: an hour of one or two digits below 24, a colon, a minute of exactly
  two digits below 60, and nothing after it.
\<close>

definition parse_hour :: "string \<Rightarrow> (nat \<times> string) option" where
  "parse_hour s =
     (case s of
        [] \<Rightarrow> None
      | [c] \<Rightarrow> (if is_digit c then Some (digits_val [c], []) else None)
      | c # d # r \<Rightarrow>
          if \<not> is_digit c then None
          else if is_digit d then Some (digits_val [c, d], r)
          else Some (digits_val [c], d # r))"

definition parse_minute :: "string \<Rightarrow> nat option" where
  "parse_minute s =
     (case s of
        [a, b] \<Rightarrow> (if is_digit a \<and> is_digit b then Some (digits_val [a, b]) else None)
      | _ \<Rightarrow> None)"

definition time_Parse_1504 :: "string \<Rightarrow> (nat \<times> nat) option" where
  "time_Parse_1504 s =
     Option.bind (parse_hour s) (\<lambda>(h, r).
       if 24 \<le> h then None
       else Option.bind (expect '':'' r) (\<lambda>r'.
         Option.bind (parse_minute r') (\<lambda>m.
           if 60 \<le> m then None else Some (h, m))))"

text \<open>\<open>now.Format("15:04")\<close>.\<close>

definition two_digits :: "nat \<Rightarrow> string" where
  "two_digits n = [digit_char (n div 10), digit_char (n mod 10)]"

definition Format_1504 :: "nat \<times> nat \<Rightarrow> string" where
  "Format_1504 = (\<lambda>(h, m). two_digits h @ '':'' @ two_digits m)"

section \<open>The timing nodes\<close>

text \<open>What a matching, enabled entry decides.\<close>

definition timing_entry :: "clock \<Rightarrow> obj \<Rightarrow> string" where
  "timing_entry now entry =
     (if \<not> bool_or (obj_get entry ''enabled'') then ''out_of_hours''
      else
        (case (time_Parse_1504 (str_or (obj_get entry ''start_time'')),
               time_Parse_1504 (str_or (obj_get entry ''end_time''))) of
           (Some startTime, Some endTime) \<Rightarrow>
             (let nowMinutes = minutes_of (clk_Hour now, clk_Minute now) in
              if minutes_of startTime \<le> nowMinutes \<and> nowMinutes < minutes_of endTime
              then ''in_hours'' else ''out_of_hours'')
         | _ \<Rightarrow> ''out_of_hours''))"

fun evaluateTimingSchedule :: "go_rt \<Rightarrow> clock \<Rightarrow> any list \<Rightarrow> string" where
  "evaluateTimingSchedule rt now [] = ''out_of_hours''"
| "evaluateTimingSchedule rt now (item # schedule) =
     (case as_obj item of
        None \<Rightarrow> evaluateTimingSchedule rt now schedule
      | Some entry \<Rightarrow>
          if strings_ToLower rt (str_or (obj_get entry ''day'')) \<noteq> weekday_lower now
          then evaluateTimingSchedule rt now schedule
          else timing_entry now entry)"

section \<open>Business hours\<close>

text \<open>Byte-wise string order, as Go compares strings.\<close>

fun str_le :: "string \<Rightarrow> string \<Rightarrow> bool" where
  "str_le [] _ = True"
| "str_le (_ # _) [] = False"
| "str_le (a # s) (b # t) = (byte a < byte b \<or> byte a = byte b \<and> str_le s t)"

fun isWithinBusinessHours :: "clock \<Rightarrow> any list \<Rightarrow> bool" where
  "isWithinBusinessHours now [] = False"
| "isWithinBusinessHours now (bh # rest) =
     (case as_obj bh of
        None \<Rightarrow> isWithinBusinessHours now rest
      | Some bhMap \<Rightarrow>
          (case as_float (obj_get bhMap ''day'') of
             None \<Rightarrow> isWithinBusinessHours now rest
           | Some day \<Rightarrow>
               if float_to_int day \<noteq> int (clk_Weekday now) then isWithinBusinessHours now rest
               else if \<not> bool_or (obj_get bhMap ''enabled'') then False
               else
                 (case (as_str (obj_get bhMap ''start_time''), as_str (obj_get bhMap ''end_time'')) of
                    (Some startTime, Some endTime) \<Rightarrow>
                      (let currentTime = Format_1504 (clk_Hour now, clk_Minute now) in
                       str_le startTime currentTime \<and> str_le currentTime endTime)
                  | _ \<Rightarrow> isWithinBusinessHours now rest)))"

section \<open>Facts\<close>

lemma digits_val_two: "digits_val [a, b] = 10 * (byte a - 48) + (byte b - 48)"
  by (simp add: digits_val_def)

lemma two_digits_val: "n < 100 \<Longrightarrow> digits_val (two_digits n) = n"
  by (simp add: two_digits_def digits_val_two)

lemma Parse_Format: "h < 24 \<Longrightarrow> m < 60 \<Longrightarrow> time_Parse_1504 (Format_1504 (h, m)) = Some (h, m)"
  by (simp add: time_Parse_1504_def Format_1504_def parse_hour_def parse_minute_def two_digits_def
      expect_def digits_val_two)

lemma time_Parse_range: "time_Parse_1504 s = Some (h, m) \<Longrightarrow> h < 24 \<and> m < 60"
  by (auto simp: time_Parse_1504_def bind_eq_Some_conv split: if_splits prod.splits)

lemma lex_base:
  fixes a b c d k :: nat
  assumes "b < k" "d < k"
  shows "k * a + b < k * c + d \<longleftrightarrow> a < c \<or> a = c \<and> b < d"
proof -
  have *: "k * x + y < k * x' + y'" if "x < x'" "y < k" for x y x' y' :: nat
  proof -
    from that(1) have "k * Suc x \<le> k * x'" by (simp only: mult_le_mono2 Suc_leI)
    with that(2) show ?thesis by simp
  qed
  from *[of a c b d] *[of c a d b] assms show ?thesis
    by (cases a c rule: linorder_cases) auto
qed

lemma str_le_two_digits:
  "m < 100 \<Longrightarrow> n < 100 \<Longrightarrow>
     str_le (two_digits m @ s) (two_digits n @ t) \<longleftrightarrow> m < n \<or> m = n \<and> str_le s t"
proof -
  assume "m < 100" "n < 100"
  then have b: "byte (digit_char (m div 10)) = 48 + m div 10" "byte (digit_char (m mod 10)) = 48 + m mod 10"
      "byte (digit_char (n div 10)) = 48 + n div 10" "byte (digit_char (n mod 10)) = 48 + n mod 10"
    by simp_all
  have "str_le (two_digits m @ s) (two_digits n @ t) \<longleftrightarrow>
      m div 10 < n div 10 \<or> m div 10 = n div 10 \<and> (m mod 10 < n mod 10 \<or> m mod 10 = n mod 10 \<and> str_le s t)"
    unfolding two_digits_def append_Cons append_Nil str_le.simps b by simp
  moreover have "m < n \<longleftrightarrow> m div 10 < n div 10 \<or> m div 10 = n div 10 \<and> m mod 10 < n mod 10"
    using lex_base [of "m mod 10" 10 "n mod 10" "m div 10" "n div 10"] by simp
  moreover have "m = n \<longleftrightarrow> m div 10 = n div 10 \<and> m mod 10 = n mod 10"
    by (metis div_mult_mod_eq)
  ultimately show ?thesis
    by blast
qed

text \<open>On zero-padded times the order of the texts is the order of the minutes.\<close>

lemma str_le_Format:
  assumes "h < 24" "m < 60" "h' < 24" "m' < 60"
  shows "str_le (Format_1504 (h, m)) (Format_1504 (h', m')) \<longleftrightarrow> minutes_of (h, m) \<le> minutes_of (h', m')"
proof -
  have "str_le (Format_1504 (h, m)) (Format_1504 (h', m')) \<longleftrightarrow> h < h' \<or> h = h' \<and> m \<le> m'"
    using assms str_le_two_digits [of m m' "[]" "[]"]
    by (auto simp: Format_1504_def str_le_two_digits le_less)
  moreover have "minutes_of (h', m') < minutes_of (h, m) \<longleftrightarrow> h' < h \<or> h' = h \<and> m' < m"
    using lex_base [of m' 60 m h' h] assms by (simp add: minutes_of_def mult.commute)
  ultimately show ?thesis
    by (cases h h' rule: linorder_cases) (auto simp: not_less [symmetric])
qed

text \<open>The schedule is decided by its first entry for the day.\<close>

definition day_entry :: "go_rt \<Rightarrow> clock \<Rightarrow> any list \<Rightarrow> obj option" where
  "day_entry rt now schedule =
     find (\<lambda>e. strings_ToLower rt (str_or (obj_get e ''day'')) = weekday_lower now)
       (List.map_filter as_obj schedule)"

lemma evaluateTimingSchedule_day:
  "evaluateTimingSchedule rt now schedule =
     (case day_entry rt now schedule of None \<Rightarrow> ''out_of_hours'' | Some e \<Rightarrow> timing_entry now e)"
  by (induction rt now schedule rule: evaluateTimingSchedule.induct)
     (auto simp: day_entry_def map_filter_simps split: option.splits)

section \<open>Properties\<close>

text \<open>
  The timing node answers \<open>in_hours\<close> exactly when the first schedule entry of the day is
  enabled, both its times parse and the present minute lies in the half-open interval they span;
  a day that is not listed, a disabled day and a malformed time are \<open>out_of_hours\<close>.
\<close>
theorem timing_in_hours_iff:
  "evaluateTimingSchedule rt now schedule = ''in_hours'' \<longleftrightarrow>
     (\<exists>e a b. day_entry rt now schedule = Some e \<and> obj_get e ''enabled'' = BoolV True \<and>
        time_Parse_1504 (str_or (obj_get e ''start_time'')) = Some a \<and>
        time_Parse_1504 (str_or (obj_get e ''end_time'')) = Some b \<and>
        minutes_of a \<le> minutes_of (clk_Hour now, clk_Minute now) \<and>
        minutes_of (clk_Hour now, clk_Minute now) < minutes_of b)"
proof -
  have "bool_or v \<longleftrightarrow> v = BoolV True" for v
    by (cases v) (auto simp: bool_or_def)
  then show ?thesis
    by (auto simp: evaluateTimingSchedule_day timing_entry_def Let_def split: option.splits)
qed

text \<open>
  On zero-padded opening times the textual comparison of the business-hours check is the
  comparison of the minutes of the day, both ends included.
\<close>
theorem business_hours_padded:
  assumes "clock_ok now" "h1 < 24" "m1 < 60" "h2 < 24" "m2 < 60"
    and "obj_get e ''day'' = FloatV (of_nat (clk_Weekday now))" "obj_get e ''enabled'' = BoolV True"
    and "obj_get e ''start_time'' = StrV (Format_1504 (h1, m1))"
    and "obj_get e ''end_time'' = StrV (Format_1504 (h2, m2))"
  shows "isWithinBusinessHours now (ObjV e # rest) \<longleftrightarrow>
           minutes_of (h1, m1) \<le> minutes_of (clk_Hour now, clk_Minute now) \<and>
           minutes_of (clk_Hour now, clk_Minute now) \<le> minutes_of (h2, m2)"
  using assms str_le_Format [of h1 m1 "clk_Hour now" "clk_Minute now"]
    str_le_Format [of "clk_Hour now" "clk_Minute now" h2 m2]
  by (simp add: clock_ok_def float_to_int_def Let_def)

definition noon_monday :: clock where
  "noon_monday = \<lparr>clk_UnixNano = 0, clk_Weekday = 1, clk_Hour = 12, clk_Minute = 30\<rparr>"

definition hours_entry :: "any \<Rightarrow> string \<Rightarrow> string \<Rightarrow> obj" where
  "hours_entry day a b =
     [(''day'', day), (''enabled'', BoolV True), (''start_time'', StrV a), (''end_time'', StrV b)]"

theorem business_hours_padded_witness:
  "isWithinBusinessHours noon_monday [ObjV (hours_entry (FloatV 1) ''09:00'' ''18:00'')]"
proof -
  have "Format_1504 (9, 0) = ''09:00''" "Format_1504 (18, 0) = ''18:00''"
    by code_simp+
  then show ?thesis
    using business_hours_padded [of noon_monday 9 0 18 0 "hours_entry (FloatV 1) ''09:00'' ''18:00''" "[]"]
    by (simp add: noon_monday_def clock_ok_def hours_entry_def obj_get_def minutes_of_def)
qed

text \<open>
  With opening hours from \<open>9:00\<close> to \<open>18:00\<close>, written without the leading zero as
  \<open>time.Parse\<close> accepts it, the business-hours check reports closed at every minute between nine and six,
  while the timing node reports the same interval as open.
\<close>
theorem business_hours_unpadded_closed:
  assumes "clock_ok now" "9 \<le> clk_Hour now" "clk_Hour now < 18"
    and "strings_ToLower rt day = weekday_lower now"
  shows "\<not> isWithinBusinessHours now [ObjV (hours_entry (FloatV (of_nat (clk_Weekday now))) ''9:00'' ''18:00'')] \<and>
         evaluateTimingSchedule rt now [ObjV (hours_entry (StrV day) ''9:00'' ''18:00'')] = ''in_hours''"
proof -
  have t: "time_Parse_1504 ''9:00'' = Some (9, 0)" "time_Parse_1504 ''18:00'' = Some (18, 0)"
    by code_simp+
  have "clk_Hour now div 10 < 10"
    using assms(3) by simp
  then have "\<not> str_le ''9:00'' (Format_1504 (clk_Hour now, clk_Minute now))"
    using assms(3) by (simp add: Format_1504_def two_digits_def)
  moreover have "minutes_of (9, 0) \<le> minutes_of (clk_Hour now, clk_Minute now)"
      "minutes_of (clk_Hour now, clk_Minute now) < minutes_of (18, 0)"
    using assms by (auto simp: minutes_of_def clock_ok_def)
  ultimately show ?thesis
    using assms(4) t
    by (simp add: hours_entry_def obj_get_def float_to_int_def timing_entry_def Let_def)
qed

theorem business_hours_unpadded_closed_witness:
  "\<not> isWithinBusinessHours noon_monday [ObjV (hours_entry (FloatV 1) ''9:00'' ''18:00'')] \<and>
   evaluateTimingSchedule sample_rt noon_monday
     [ObjV (hours_entry (StrV ''Monday'') ''9:00'' ''18:00'')] = ''in_hours''"
proof -
  have "strings_ToLower sample_rt ''Monday'' = weekday_lower noon_monday"
    by code_simp
  moreover have "clock_ok noon_monday" "clk_Hour noon_monday = 12" "clk_Weekday noon_monday = 1"
    by (simp_all add: noon_monday_def clock_ok_def)
  ultimately show ?thesis
    using business_hours_unpadded_closed [of noon_monday sample_rt "''Monday''"]
    by (simp del: isWithinBusinessHours.simps evaluateTimingSchedule.simps)
qed

end
