(* ===== verification/Template_Params.thy ===== *)
theory Template_Params
  imports Template_Facts
begin

text \<open>
  \<open>internal/templateutil/templateutil.go\<close>: the parameters of WhatsApp message templates, written
  \<open>{{1}}\<close> or \<open>{{name}}\<close>. Extraction of the names, the two validations made before a template is
  submitted, resolution of the values and substitution into the content.
\<close>

section \<open>Extraction\<close>

abbreviation no_close :: "char \<Rightarrow> bool" where
  "no_close c \<equiv> c \<noteq> CHR ''}''"

definition ParameterPattern :: "string matcher" where
  "ParameterPattern s =
     Option.bind (expect ''{{'' s) (\<lambda>s1.
       if takeWhile no_close s1 = [] then None
       else map_option (\<lambda>r. (takeWhile no_close s1, r)) (expect ''}}'' (dropWhile no_close s1)))"

text \<open>\<open>FindAllStringSubmatch\<close>, first group only, for a pattern that never matches the empty string.\<close>

function FindAllStringSubmatch :: "'m matcher \<Rightarrow> string \<Rightarrow> 'm list" where
  "FindAllStringSubmatch f s =
     (case f s of
        Some (m, r) \<Rightarrow> if length r < length s then m # FindAllStringSubmatch f r else []
      | None \<Rightarrow> (case s of [] \<Rightarrow> [] | c # cs \<Rightarrow> FindAllStringSubmatch f cs))"
  by pat_completeness auto
termination
  by (relation "measure (\<lambda>(f, s). length s)") auto

declare FindAllStringSubmatch.simps [simp del]

fun ext_loop :: "(string \<Rightarrow> bool) \<Rightarrow> string list \<Rightarrow> string list" where
  "ext_loop seen [] = []"
| "ext_loop seen (m # ms) =
     (let name = TrimSpace m in
      if name \<noteq> [] \<and> \<not> seen name then name # ext_loop (seen(name := True)) ms
      else ext_loop seen ms)"

definition ExtParamNames :: "string \<Rightarrow> string list" where
  "ExtParamNames content = ext_loop (\<lambda>_. False) (FindAllStringSubmatch ParameterPattern content)"

section \<open>Validation\<close>

definition isPositionalParam :: "string \<Rightarrow> bool" where
  "isPositionalParam name \<longleftrightarrow> list_all is_digit name \<and> name \<noteq> []"

datatype param_error = TooManyHeaderParams nat | MixedParams

definition ValidateHeaderParamCount :: "string \<Rightarrow> param_error option" where
  "ValidateHeaderParamCount content =
     (let names = ExtParamNames content in
      if length names > 1 then Some (TooManyHeaderParams (length names)) else None)"

fun mixed_loop :: "bool \<Rightarrow> bool \<Rightarrow> string list \<Rightarrow> param_error option" where
  "mixed_loop hasPositional hasNamed [] = None"
| "mixed_loop hasPositional hasNamed (n # ns) =
     (let hp = (hasPositional \<or> isPositionalParam n);
          hn = (hasNamed \<or> \<not> isPositionalParam n)
      in if hp \<and> hn then Some MixedParams else mixed_loop hp hn ns)"

definition ValidateNoMixedParams :: "string \<Rightarrow> param_error option" where
  "ValidateNoMixedParams content =
     (let names = ExtParamNames content in
      if names = [] then None else mixed_loop False False names)"

section \<open>Resolution and substitution\<close>

text \<open>The value of the \<open>i\<close>-th name: its own key first, then its position counted from one.\<close>

definition param_value :: "(string \<times> 'v) list \<Rightarrow> nat \<times> string \<Rightarrow> 'v option" where
  "param_value params = (\<lambda>(i, name).
     (case map_of params name of
        Some v \<Rightarrow> Some v
      | None \<Rightarrow> map_of params (Itoa (int i + 1))))"

definition ResolveParamsFromMap :: "string list \<Rightarrow> (string \<times> string) list \<Rightarrow> string list" where
  "ResolveParamsFromMap paramNames params =
     (if paramNames = [] \<or> params = [] then []
      else map (\<lambda>p. case param_value params p of Some v \<Rightarrow> v | None \<Rightarrow> [])
             (enumerate 0 paramNames))"

definition ResolveParams :: "go_rt \<Rightarrow> string \<Rightarrow> obj \<Rightarrow> string list" where
  "ResolveParams rt bodyContent params =
     (let paramNames = ExtParamNames bodyContent in
      if params = [] \<or> paramNames = [] then []
      else map (\<lambda>p. case param_value params p of Some v \<Rightarrow> Sprint_v rt v | None \<Rightarrow> [])
             (enumerate 0 paramNames))"

definition placeholder :: "string \<Rightarrow> string" where
  "placeholder name = ''{{'' @ name @ ''}}''"

definition ReplaceWithStringParams :: "string \<Rightarrow> (string \<times> string) list \<Rightarrow> string" where
  "ReplaceWithStringParams content params =
     (if content = [] \<or> params = [] then content
      else fold (\<lambda>(i, name) result.
                   case param_value params (i, name) of
                     Some val \<Rightarrow> ReplaceAll result (placeholder name) val
                   | None \<Rightarrow> result)
             (enumerate 0 (ExtParamNames content)) content)"

definition ReplaceWithJSONBParams :: "go_rt \<Rightarrow> string \<Rightarrow> string \<Rightarrow> obj \<Rightarrow> string" where
  "ReplaceWithJSONBParams rt bodyContent content params =
     (if params = [] then content
      else fold (\<lambda>(i, name) c.
                   (let val = (case param_value params (i, name) of
                                 Some v \<Rightarrow> Sprint_v rt v | None \<Rightarrow> [])
                    in ReplaceAll (ReplaceAll c (placeholder name) val)
                         (placeholder (Itoa (int i + 1))) val))
             (enumerate 0 (ExtParamNames bodyContent)) content)"

section \<open>Facts on extraction\<close>

text \<open>Reference reading: trim, drop the empty names, keep first occurrences.\<close>

definition first_occurrences :: "'a list \<Rightarrow> 'a list" where
  "first_occurrences xs = rev (remdups (rev xs))"

lemma first_occurrences_Cons:
  "first_occurrences (x # xs) = x # filter (\<lambda>y. y \<noteq> x) (first_occurrences xs)"
proof -
  have snoc: "remdups (ys @ [x]) = filter (\<lambda>y. y \<noteq> x) (remdups ys) @ [x]" for ys :: "'a list"
    by (induction ys) auto
  show ?thesis
    by (simp add: first_occurrences_def snoc rev_filter)
qed

lemma ext_loop_reference:
  "ext_loop seen ms =
     filter (\<lambda>n. \<not> seen n) (first_occurrences (filter (\<lambda>n. n \<noteq> []) (map TrimSpace ms)))"
proof (induction ms arbitrary: seen)
  case Nil
  then show ?case by (simp add: first_occurrences_def)
next
  case (Cons m ms)
  let ?f = "first_occurrences (filter (\<lambda>n. n \<noteq> []) (map TrimSpace ms))"
  have eq: "filter (\<lambda>n. \<not> seen n \<and> n \<noteq> t) ?f = filter (\<lambda>n. \<not> seen n) ?f" if "seen t" for t
    using that by (intro filter_cong) auto
  have "filter (\<lambda>n. \<not> (seen(t := True)) n) ?f = filter (\<lambda>n. \<not> seen n \<and> n \<noteq> t) ?f" for t
    by (intro filter_cong) auto
  then show ?case
    by (auto simp: Let_def Cons.IH first_occurrences_Cons eq conj_commute)
qed

lemma ExtParamNames_reference:
  "ExtParamNames content =
     first_occurrences (filter (\<lambda>n. n \<noteq> [])
       (map TrimSpace (FindAllStringSubmatch ParameterPattern content)))"
  by (simp add: ExtParamNames_def ext_loop_reference)

lemma mixed_loop_iff:
  "\<not> (hp \<and> hn) \<Longrightarrow>
     mixed_loop hp hn ns = None \<longleftrightarrow>
       \<not> ((hp \<or> list_ex isPositionalParam ns) \<and> (hn \<or> list_ex (\<lambda>n. \<not> isPositionalParam n) ns))"
  by (induction hp hn ns rule: mixed_loop.induct) (auto simp: Let_def)

section \<open>Contents with one placeholder\<close>

lemma Pattern_no_brace: "CHR ''{'' \<notin> set s \<Longrightarrow> ParameterPattern s = None"
  by (auto simp: ParameterPattern_def expect_def prefix_def)

lemma FindAll_no_brace:
  "CHR ''{'' \<notin> set s \<Longrightarrow> FindAllStringSubmatch ParameterPattern s = []"
proof (induction s)
  case Nil
  then show ?case
    using Pattern_no_brace [OF Nil] by (subst FindAllStringSubmatch.simps) simp
next
  case (Cons c s)
  then show ?case
    using Pattern_no_brace [OF Cons.prems] by (subst FindAllStringSubmatch.simps) simp
qed

lemma Pattern_placeholder:
  "m \<noteq> [] \<Longrightarrow> CHR ''}'' \<notin> set m \<Longrightarrow> ParameterPattern (placeholder m @ post) = Some (m, post)"
proof -
  assume m: "m \<noteq> []" "CHR ''}'' \<notin> set m"
  have t: "takeWhile no_close (m @ ''}}'' @ post) = m"
    using m(2) by (subst takeWhile_append2) auto
  have d: "dropWhile no_close (m @ ''}}'' @ post) = ''}}'' @ post"
    using m(2) by (subst dropWhile_append2) auto
  show ?thesis
    using m(1) t d by (simp add: ParameterPattern_def placeholder_def expect_def)
qed

lemma Pattern_other_char: "c \<noteq> CHR ''{'' \<Longrightarrow> ParameterPattern (c # s) = None"
  by (auto simp: ParameterPattern_def expect_def)

lemma FindAll_skip:
  "CHR ''{'' \<notin> set pre \<Longrightarrow>
     FindAllStringSubmatch ParameterPattern (pre @ s) = FindAllStringSubmatch ParameterPattern s"
proof (induction pre)
  case (Cons c pre)
  then have "ParameterPattern (c # pre @ s) = None"
    by (intro Pattern_other_char) auto
  with Cons show ?case
    by (subst FindAllStringSubmatch.simps) simp
qed simp

lemma FindAll_one:
  assumes "m \<noteq> []" "CHR ''}'' \<notin> set m" "CHR ''{'' \<notin> set pre" "CHR ''{'' \<notin> set post"
  shows "FindAllStringSubmatch ParameterPattern (pre @ placeholder m @ post) = [m]"
proof -
  have "FindAllStringSubmatch ParameterPattern (placeholder m @ post) = [m]"
    by (subst FindAllStringSubmatch.simps)
       (simp add: Pattern_placeholder assms FindAll_no_brace, simp add: placeholder_def)
  then show ?thesis
    using FindAll_skip [OF assms(3)] by simp
qed

section \<open>Properties\<close>

lemma ExtParamNames_one:
  assumes "TrimSpace m = n" "n \<noteq> []" "m \<noteq> []" "CHR ''}'' \<notin> set m"
    and "CHR ''{'' \<notin> set pre" "CHR ''{'' \<notin> set post"
  shows "ExtParamNames (pre @ placeholder m @ post) = [n]"
  using FindAll_one [OF assms(3-6)] assms(1,2) by (simp add: ExtParamNames_def)

lemma word_no_braces: "list_all is_word s \<Longrightarrow> CHR ''}'' \<notin> set s \<and> CHR ''{'' \<notin> set s"
  by (auto simp: list_all_iff is_word_def is_alpha_us_def is_digit_def)

lemma TrimSpace_word:
  assumes "list_all is_word s" "s \<noteq> []" "list_all is_re_space a" "list_all is_re_space b"
  shows "TrimSpace (a @ s @ b) = s"
  using assms
  by (intro TrimSpace_padded) (auto simp: list_all_iff intro!: is_word_solid)

lemma ReplaceAll_first:
  "strings_Cut old s = Some (a, b) \<Longrightarrow> old \<noteq> [] \<Longrightarrow> ReplaceAll s old new = a @ new @ ReplaceAll b old new"
  by (subst ReplaceAll.simps) simp

lemma Cut_before_sep: "hd sep \<notin> set pre \<Longrightarrow> sep \<noteq> [] \<Longrightarrow> strings_Cut sep (pre @ sep @ post) = Some (pre, post)"
proof (induction pre)
  case Nil
  then show ?case by (cases sep) auto
next
  case (Cons c pre)
  then show ?case by (cases sep) auto
qed

lemma no_brace_no_placeholder: "CHR ''{'' \<notin> set s \<Longrightarrow> \<not> sublist (placeholder n) s"
  by (auto simp: sublist_def placeholder_def)

lemma ReplaceAll_placeholder:
  assumes "CHR ''{'' \<notin> set pre" "CHR ''{'' \<notin> set post"
  shows "ReplaceAll (pre @ placeholder n @ post) (placeholder n) v = pre @ v @ post"
proof -
  have "strings_Cut (placeholder n) (pre @ placeholder n @ post) = Some (pre, post)"
    using assms by (intro Cut_before_sep) (auto simp: placeholder_def)
  then have "ReplaceAll (pre @ placeholder n @ post) (placeholder n) v
               = pre @ v @ ReplaceAll post (placeholder n) v"
    by (rule ReplaceAll_first) (simp add: placeholder_def)
  then show ?thesis
    using ReplaceAll_absent [OF no_brace_no_placeholder [OF assms(2)]] by simp
qed

lemma only_spaced_placeholder:
  assumes "list_all is_word name" "name \<noteq> []" "CHR ''{'' \<notin> set pre" "CHR ''{'' \<notin> set post"
  shows "\<not> sublist (placeholder name) (pre @ placeholder ('' '' @ name @ '' '') @ post)"
proof
  let ?m = "'' '' @ name @ '' ''"
  assume "sublist (placeholder name) (pre @ placeholder ?m @ post)"
  then obtain x y where e: "pre @ placeholder ?m @ post = x @ placeholder name @ y"
    by (auto simp: sublist_def)
  let ?P = "\<lambda>c. c \<noteq> CHR ''{''"
  have "count_list (pre @ placeholder ?m @ post) (CHR ''{'') = 2"
    using assms word_no_braces [OF assms(1)] by (simp add: placeholder_def count_list_0_iff)
  then have "count_list x (CHR ''{'') = 0"
    unfolding e using word_no_braces [OF assms(1)] by (simp add: placeholder_def count_list_0_iff)
  then have x: "CHR ''{'' \<notin> set x"
    by (simp add: count_list_0_iff)
  have "dropWhile ?P (x @ placeholder name @ y) = placeholder name @ y"
    using x by (subst dropWhile_append2) (auto simp: placeholder_def)
  moreover have "dropWhile ?P (pre @ placeholder ?m @ post) = placeholder ?m @ post"
    using assms(3) by (subst dropWhile_append2) (auto simp: placeholder_def)
  ultimately have "placeholder ?m @ post = placeholder name @ y"
    using e by simp
  then have "hd name = CHR '' ''"
    using assms(2) by (cases name) (auto simp: placeholder_def)
  then show False
    using assms(1,2) by (cases name) (auto simp: is_word_def is_alpha_us_def is_digit_def)
qed

text \<open>
  Parameter names are extracted in order of first occurrence, trimmed, without duplicates and
  without empty names: the loop with its \<open>seen\<close> map computes the reference reading of the matches.
\<close>
theorem ext_param_names_first_occurrences:
  "ExtParamNames content =
     first_occurrences (filter (\<lambda>n. n \<noteq> [])
       (map TrimSpace (FindAllStringSubmatch ParameterPattern content))) \<and>
   distinct (ExtParamNames content) \<and> [] \<notin> set (ExtParamNames content)"
  by (simp add: ExtParamNames_reference) (auto simp: first_occurrences_def)

text \<open>
  The mixed-parameter validation accepts a content exactly when its parameters are all
  positional or all named.
\<close>
theorem no_mixed_params_iff:
  "ValidateNoMixedParams content = None \<longleftrightarrow>
     list_all isPositionalParam (ExtParamNames content) \<or>
     list_all (\<lambda>n. \<not> isPositionalParam n) (ExtParamNames content)"
  using mixed_loop_iff [of False False "ExtParamNames content"]
  by (auto simp: ValidateNoMixedParams_def Let_def list_all_iff list_ex_iff)

text \<open>
  For a body with one placeholder, the text stored for the conversation
  (\<open>ReplaceWithJSONBParams\<close>) is the body with the placeholder replaced by the value that is sent
  to Meta (\<open>ResolveParams\<close>), whether the value is found under the name or under position 1, and
  with the empty string when it is missing.
\<close>
theorem stored_text_matches_sent_param:
  assumes "list_all is_word name" "name \<noteq> []" "params \<noteq> []"
    and "CHR ''{'' \<notin> set pre" "CHR ''{'' \<notin> set post"
    and "CHR ''{'' \<notin> set (concat (ResolveParams rt (pre @ placeholder name @ post) params))"
  shows "ReplaceWithJSONBParams rt (pre @ placeholder name @ post) (pre @ placeholder name @ post) params
           = pre @ hd (ResolveParams rt (pre @ placeholder name @ post) params) @ post \<and>
         length (ResolveParams rt (pre @ placeholder name @ post) params) = 1"
proof -
  let ?c = "pre @ placeholder name @ post"
  let ?v = "case param_value params (0, name) of Some v \<Rightarrow> Sprint_v rt v | None \<Rightarrow> []"
  have names: "ExtParamNames ?c = [name]"
    using assms word_no_braces [OF assms(1)] TrimSpace_word [OF assms(1,2), of "[]" "[]"]
    by (intro ExtParamNames_one) auto
  then have r: "ResolveParams rt ?c params = [?v]"
    using assms(3) by (simp add: ResolveParams_def Let_def)
  have "CHR ''{'' \<notin> set (pre @ ?v @ post)"
    using assms(4-6) r by auto
  then have "ReplaceAll (pre @ ?v @ post) (placeholder (Itoa 1)) ?v = pre @ ?v @ post"
    using ReplaceAll_absent [OF no_brace_no_placeholder] by blast
  then show ?thesis
    using names r assms(3) ReplaceAll_placeholder [OF assms(4,5)]
    by (simp add: ReplaceWithJSONBParams_def Let_def)
qed

theorem stored_text_matches_sent_param_witness:
  "ReplaceWithJSONBParams sample_rt ''Hi {{name}}!'' ''Hi {{name}}!'' [(''1'', StrV ''Amal'')] = ''Hi Amal!''"
proof -
  have r: "ResolveParams sample_rt ''Hi {{name}}!'' [(''1'', StrV ''Amal'')] = [''Amal'']"
    by code_simp
  have "placeholder ''name'' = ''{{name}}''"
    by (simp add: placeholder_def)
  then show ?thesis
    using stored_text_matches_sent_param [of "''name''" "[(''1'', StrV ''Amal'')]" "''Hi ''" "''!''" sample_rt] r
    by (simp add: is_word_def is_alpha_us_def)
qed

text \<open>
  A placeholder written with spaces, \<open>{{ name }}\<close>, is announced as the parameter \<open>name\<close> and
  its value is resolved, but the substitution looks for \<open>{{name}}\<close> only: the content is returned
  unchanged, whatever the parameters.
\<close>
theorem spaced_placeholder_never_replaced:
  assumes "list_all is_word name" "name \<noteq> []" "CHR ''{'' \<notin> set pre" "CHR ''{'' \<notin> set post"
  shows "ExtParamNames (pre @ placeholder ('' '' @ name @ '' '') @ post) = [name] \<and>
         ReplaceWithStringParams (pre @ placeholder ('' '' @ name @ '' '') @ post) params =
           pre @ placeholder ('' '' @ name @ '' '') @ post"
proof -
  let ?m = "'' '' @ name @ '' ''"
  let ?c = "pre @ placeholder ?m @ post"
  have names: "ExtParamNames ?c = [name]"
    using assms word_no_braces [OF assms(1)] TrimSpace_word [OF assms(1,2), of "'' ''" "'' ''"]
    by (intro ExtParamNames_one) (auto simp: is_re_space_def)
  have "\<not> sublist (placeholder name) ?c"
    using only_spaced_placeholder [OF assms] by blast
  then show ?thesis
    using names ReplaceAll_absent
    by (auto simp: ReplaceWithStringParams_def split: option.splits)
qed

theorem spaced_placeholder_never_replaced_witness:
  "ReplaceWithStringParams ''Hi {{ name }}!'' [(''name'', ''Amal'')] = ''Hi {{ name }}!''"
  using spaced_placeholder_never_replaced [of "''name''" "''Hi ''" "''!''" "[(''name'', ''Amal'')]"]
  by (simp add: is_word_def is_alpha_us_def placeholder_def)

end
