(* ===== verification/Chat_State.thy ===== *)
theory Chat_State
  imports Flow_Graph Schedules Template_Params "HOL-Library.Monad_Syntax"
begin

text \<open>
  The state of the chatbot engine and its surroundings: the session row (\<open>models/chatbot.go\<close>), the
  per-inbound context \<open>chatNodeCtx\<close>, parsing of a chat graph (\<open>chatbot_graph_types.go\<close>), the
  configuration readers, and the calls that leave the engine.

  Calls that leave the engine are events appended to a trace. Their results come from the record
  \<open>chat_env\<close>: WhatsApp delivery and the database (through \<open>SendOutgoingMessage\<close> and gorm), HTTP,
  the LLM providers, the clock, and the packages expr-lang, google/uuid and regexp. Each result
  may depend on the whole trace so far, so no theorem relies on a service answering the same way
  twice.
\<close>

section \<open>Rows\<close>

record session =
  sess_ID :: string
  OrganizationID :: string
  ContactID :: string
  WhatsAppAccount :: string
  PhoneNumber :: string
  Status :: string
  CurrentFlowID :: "string option"
  CurrentStep :: string
  StepRetries :: int
  SessionData :: jsonb
  LastActivityAt :: int
  CompletedAt :: "int option"

abbreviation SessionStatusCompleted :: string where
  "SessionStatusCompleted \<equiv> ''completed''"

record chatbot_flow =
  flow_ID :: string
  flow_Name :: string
  flow_IsEnabled :: bool
  flow_WhatsAppAccount :: string
  flow_TriggerKeywords :: "string list"
  flow_Graph :: jsonb

record ai_config =
  ai_Enabled :: bool
  ai_Provider :: string
  ai_APIKey :: string

section \<open>Events\<close>

type_synonym wa_button = "string \<times> string"

datatype outgoing =
    OutText string
  | OutInteractive string string "wa_button list"
  | OutCTA string string string
  | OutFlow string string string string string string

record http_request =
  req_Method :: string
  req_URL :: string
  req_Body :: "string option"
  req_Headers :: "(string \<times> string) list"

datatype event =
    Outgoing outgoing
  | LogMessage string string
  | HttpDo http_request
  | AIGenerate string
  | TransferToTeam string string
  | TransferToQueue
  | TransferChatbotDisabled
  | TransferFromKeyword
  | SaveSession session
  | CreateSession session
  | TouchSession string
  | ExitFlow string
  | FallbackPending
  | LogIncoming string string
  | ReadClock

record http_response =
  resp_StatusCode :: int
  resp_Body :: string
  resp_ReadError :: "string option"

record chat_env =
  env_rt :: go_rt
  env_contact_name :: "string option"
  env_send :: "event list \<Rightarrow> outgoing \<Rightarrow> string option"
  env_save :: "event list \<Rightarrow> session \<Rightarrow> string option"
  env_now :: "event list \<Rightarrow> clock"
  env_http :: "event list \<Rightarrow> http_request \<Rightarrow> string + http_response"
  env_NewRequest :: "string \<Rightarrow> string \<Rightarrow> string option"
  env_ToUpper :: "string \<Rightarrow> string"
  env_json :: "string \<Rightarrow> jsonb option"
  env_settings :: "event list \<Rightarrow> string + ai_config"
  env_ai :: "event list \<Rightarrow> string \<Rightarrow> string + string"
  env_flow :: "event list \<Rightarrow> string \<Rightarrow> string + chatbot_flow"
  env_waflow :: "event list \<Rightarrow> string \<Rightarrow> (any list \<times> jsonb) option"
  env_expr :: "string \<Rightarrow> obj \<Rightarrow> string + any"
  env_regexp :: "string \<Rightarrow> (string \<Rightarrow> bool) option"
  env_uuid :: "string \<Rightarrow> string option"

section \<open>The context of one inbound message\<close>

record chatNodeCtx =
  ctx_session :: session
  userInput :: string
  buttonID :: string
  flowResponseData :: obj
  consumed :: bool
  trace :: "event list"

record nodeOutcome =
  outcome :: string
  yield :: bool

definition advance :: "string \<Rightarrow> nodeOutcome" where
  "advance oc = \<lparr>outcome = oc, yield = False\<rparr>"

definition stay :: nodeOutcome where
  "stay = \<lparr>outcome = [], yield = True\<rparr>"

datatype graph_error = BadJSON | BadVersion int | MissingEntry | EntryNotFound string

datatype chat_error =
    ParseGraph graph_error
  | NoGraph
  | NodeNotFound string
  | SendFailed string string
  | NoButtons string
  | NoBody string
  | NotImplemented string
  | GotoLoad string
  | GotoNoGraph
  | GotoParse graph_error
  | SaveFailed string
  | Runaway

type_synonym 'a chat = "((chat_error + 'a) \<times> chatNodeCtx) option"

definition data_of :: "chatNodeCtx \<Rightarrow> obj" where
  "data_of st = jsonb (SessionData (ctx_session st))"

definition upd_session :: "(session \<Rightarrow> session) \<Rightarrow> chatNodeCtx \<Rightarrow> chatNodeCtx" where
  "upd_session f st = st\<lparr>ctx_session := f (ctx_session st)\<rparr>"

definition emit :: "event \<Rightarrow> chatNodeCtx \<Rightarrow> chatNodeCtx" where
  "emit e st = st\<lparr>trace := trace st @ [e]\<rparr>"

text \<open>\<open>session.SessionData[k] = v\<close>, on a map that is allocated first when it is nil.\<close>

definition set_data :: "string \<Rightarrow> any \<Rightarrow> session \<Rightarrow> session" where
  "set_data k v s = s\<lparr>SessionData := Some (obj_set k v (jsonb (SessionData s)))\<rparr>"

definition tmpl :: "chat_env \<Rightarrow> string \<Rightarrow> chatNodeCtx \<Rightarrow> string option" where
  "tmpl env s st = processTemplate (env_rt env) s (SessionData (ctx_session st))"

section \<open>Configuration readers\<close>

fun stringFromConfig :: "obj \<Rightarrow> string list \<Rightarrow> string" where
  "stringFromConfig c [] = []"
| "stringFromConfig c (k # ks) =
     (case as_str (obj_get c k) of
        Some v \<Rightarrow> (if v \<noteq> [] then v else stringFromConfig c ks)
      | None \<Rightarrow> stringFromConfig c ks)"

declare stringFromConfig.simps [simp del]

definition intFromConfig :: "obj \<Rightarrow> string \<Rightarrow> int \<Rightarrow> int" where
  "intFromConfig c k def =
     (case obj_get c k of FloatV x \<Rightarrow> float_to_int x | IntV i \<Rightarrow> i | _ \<Rightarrow> def)"

definition buttonsFromConfig :: "obj \<Rightarrow> obj list" where
  "buttonsFromConfig c =
     (case as_arr (obj_get c ''buttons'') of
        None \<Rightarrow> []
      | Some raw \<Rightarrow> List.map_filter as_obj raw)"

section \<open>Parsing a chat graph\<close>

definition parseChatGraph :: "jsonb \<Rightarrow> graph_error + graph option" where
  "parseChatGraph raw =
     (case raw of
        None \<Rightarrow> Inr None
      | Some m \<Rightarrow>
          (case dec_graph m of
             None \<Rightarrow> Inl BadJSON
           | Some g \<Rightarrow>
               if Version g \<noteq> 2 then Inl (BadVersion (Version g))
               else if EntryNode g = [] then Inl MissingEntry
               else
                 (let g' = BuildMaps g in
                  if Node g' (EntryNode g') = None then Inl (EntryNotFound (EntryNode g'))
                  else Inr (Some g'))))"

lemma parseChatGraph_ok:
  assumes "parseChatGraph raw = Inr (Some g)"
  shows "indexed g \<and> Version g = 2 \<and> EntryNode g \<noteq> [] \<and> Node g (EntryNode g) \<noteq> None"
  using assms by (auto simp: parseChatGraph_def Let_def split: option.splits if_splits)

lemma parseChatGraph_nil: "parseChatGraph raw = Inr None \<longleftrightarrow> raw = None"
  by (auto simp: parseChatGraph_def Let_def split: option.splits)

section \<open>Sending\<close>

text \<open>\<open>SendOutgoingMessage\<close> with \<open>ChatbotSendOptions\<close>: an event, and the error it reports if any.\<close>

definition SendOutgoing :: "chat_env \<Rightarrow> outgoing \<Rightarrow> chatNodeCtx \<Rightarrow> string option \<times> chatNodeCtx" where
  "SendOutgoing env m st = (env_send env (trace st) m, emit (Outgoing m) st)"

definition sendAndSaveTextMessage ::
    "chat_env \<Rightarrow> string \<Rightarrow> chatNodeCtx \<Rightarrow> string option \<times> chatNodeCtx" where
  "sendAndSaveTextMessage env message = SendOutgoing env (OutText message)"

definition sendAndSaveCTAURLButton ::
    "chat_env \<Rightarrow> string \<Rightarrow> string \<Rightarrow> string \<Rightarrow> chatNodeCtx \<Rightarrow> string option \<times> chatNodeCtx" where
  "sendAndSaveCTAURLButton env bodyText buttonText url = SendOutgoing env (OutCTA bodyText buttonText url)"

definition sendAndSaveFlowMessage ::
    "chat_env \<Rightarrow> string \<Rightarrow> string \<Rightarrow> string \<Rightarrow> string \<Rightarrow> string \<Rightarrow> string \<Rightarrow> chatNodeCtx
       \<Rightarrow> string option \<times> chatNodeCtx" where
  "sendAndSaveFlowMessage env flowID header body cta token screen =
     SendOutgoing env (OutFlow flowID header body cta token screen)"

definition logSessionMessage :: "string \<Rightarrow> string \<Rightarrow> chatNodeCtx \<Rightarrow> chatNodeCtx" where
  "logSessionMessage message stepName = emit (LogMessage message stepName)"

text \<open>Reply buttons and call-to-action buttons of one configured list.\<close>

definition btn_type :: "obj \<Rightarrow> string" where
  "btn_type b = str_or (obj_get b ''type'')"

definition reply_buttons :: "obj list \<Rightarrow> obj list" where
  "reply_buttons bs = filter (\<lambda>b. btn_type b \<noteq> ''url'' \<and> btn_type b \<noteq> ''phone'') bs"

definition cta_button :: "obj \<Rightarrow> obj option" where
  "cta_button b =
     (if btn_type b = ''url'' then Some b
      else if btn_type b = ''phone'' \<and> str_or (obj_get b ''phone_number'') \<noteq> [] then
        Some [(''title'', obj_get b ''title''), (''url'', StrV (''tel:'' @ str_or (obj_get b ''phone_number'')))]
      else None)"

definition cta_buttons :: "obj list \<Rightarrow> obj list" where
  "cta_buttons bs = List.map_filter cta_button bs"

definition wa_button :: "nat \<times> obj \<Rightarrow> wa_button option" where
  "wa_button = (\<lambda>(i, b).
     (let bid = str_or (obj_get b ''id''); title = str_or (obj_get b ''title'') in
      if title = [] then None
      else Some (if bid = [] then ''btn_'' @ Itoa (int i + 1) else bid, title)))"

definition wa_buttons :: "obj list \<Rightarrow> wa_button list" where
  "wa_buttons bs = List.map_filter wa_button (enumerate 0 (take 10 bs))"

definition interactive_type :: "wa_button list \<Rightarrow> string" where
  "interactive_type bs = (if 3 < length bs then ''list'' else ''button'')"

fun send_ctas ::
    "chat_env \<Rightarrow> string \<Rightarrow> (nat \<times> obj) list \<Rightarrow> chatNodeCtx \<Rightarrow> string option \<times> chatNodeCtx" where
  "send_ctas env bodyText [] st = (None, st)"
| "send_ctas env bodyText ((i, b) # bs) st =
     (let title = str_or (obj_get b ''title''); url = str_or (obj_get b ''url'') in
      if title \<noteq> [] \<and> url \<noteq> [] then
        (case sendAndSaveCTAURLButton env (if i > 0 then title else bodyText) title url st of
           (Some err, st') \<Rightarrow> (Some err, st')
         | (None, st') \<Rightarrow> send_ctas env bodyText bs st')
      else send_ctas env bodyText bs st)"

definition sendAndSaveInteractiveButtons ::
    "chat_env \<Rightarrow> string \<Rightarrow> obj list \<Rightarrow> chatNodeCtx \<Rightarrow> string option \<times> chatNodeCtx" where
  "sendAndSaveInteractiveButtons env bodyText buttons st =
     (let replies = reply_buttons buttons;
          ctas = (if replies \<noteq> [] then [] else take 2 (cta_buttons buttons));
          ws = wa_buttons replies;
          (err, st1) = (if ws \<noteq> [] then SendOutgoing env (OutInteractive (interactive_type ws) bodyText ws) st
                        else (None, st))
      in case err of
           Some e \<Rightarrow> (Some e, st1)
         | None \<Rightarrow>
             (case send_ctas env bodyText (enumerate 0 ctas) st1 of
                (Some e, st2) \<Rightarrow> (Some e, st2)
              | (None, st2) \<Rightarrow>
                  if replies = [] \<and> ctas = [] then sendAndSaveTextMessage env bodyText st2
                  else (None, st2)))"

end
