(* ===== verification/Chat_Nodes.thy ===== *)
theory Chat_Nodes
  imports Chat_State
begin

text \<open>
  The node executors of \<open>chatbot_graph_runner.go\<close>, one definition per executor, and the calls they
  make (\<open>executeConfiguredAPI\<close>, \<open>evaluateConditionExpression\<close>). An executor maps the context to
  an outcome or an error and the new context; \<open>None\<close> is a template that panics or loops.

  The button node writes rendered titles back into the decoded graph; the run ends at that node in
  every case, so nobody reads them again and the model renders a copy.
\<close>

section \<open>Results\<close>

definition ok :: "'a \<Rightarrow> chatNodeCtx \<Rightarrow> 'a chat" where
  "ok x st = Some (Inr x, st)"

definition fail :: "chat_error \<Rightarrow> chatNodeCtx \<Rightarrow> 'a chat" where
  "fail e st = Some (Inl e, st)"

text \<open>Send a text; log it and go on with an outcome, or report the failed send.\<close>

definition say :: "chat_env \<Rightarrow> string \<Rightarrow> string \<Rightarrow> string \<Rightarrow> nodeOutcome \<Rightarrow> chatNodeCtx \<Rightarrow> nodeOutcome chat" where
  "say env what text nid oc st =
     (case sendAndSaveTextMessage env text st of
        (Some err, st') \<Rightarrow> fail (SendFailed what err) st'
      | (None, st') \<Rightarrow> ok oc (logSessionMessage text nid st'))"

definition ensure_data :: "chatNodeCtx \<Rightarrow> chatNodeCtx" where
  "ensure_data = upd_session (\<lambda>s. s\<lparr>SessionData := Some (jsonb (SessionData s))\<rparr>)"

definition store :: "string \<Rightarrow> any \<Rightarrow> chatNodeCtx \<Rightarrow> chatNodeCtx" where
  "store k v = upd_session (set_data k v)"

section \<open>Messages and buttons\<close>

definition execChatMessage :: "chat_env \<Rightarrow> node \<Rightarrow> chatNodeCtx \<Rightarrow> nodeOutcome chat" where
  "execChatMessage env node st =
     (let text = stringFromConfig (cfg node) [''message'', ''text''] in
      if text = [] then ok (advance ''default'') st
      else do {
        t \<leftarrow> tmpl env text st;
        say env ''send message'' t (node_ID node) (advance ''default'') st
      })"

fun template_button :: "chat_env \<Rightarrow> chatNodeCtx \<Rightarrow> string list \<Rightarrow> obj \<Rightarrow> obj option" where
  "template_button env st [] b = Some b"
| "template_button env st (key # keys) b =
     (case as_str (obj_get b key) of
        Some s \<Rightarrow>
          if s \<noteq> [] then do { t \<leftarrow> tmpl env s st; template_button env st keys (obj_set key (StrV t) b) }
          else template_button env st keys b
      | None \<Rightarrow> template_button env st keys b)"

definition execChatButtons :: "chat_env \<Rightarrow> node \<Rightarrow> chatNodeCtx \<Rightarrow> nodeOutcome chat" where
  "execChatButtons env node st =
     (if \<not> consumed st \<and> buttonID st \<noteq> [] then
        (let storeAs = stringFromConfig (cfg node) [''store_as''];
             value = (if userInput st = [] then buttonID st else userInput st);
             st1 = st\<lparr>consumed := True\<rparr>
         in ok (advance (''button:'' @ buttonID st))
              (if storeAs \<noteq> [] then store storeAs (StrV value) st1 else st1))
      else
        (let raw = stringFromConfig (cfg node) [''body'', ''message'', ''text''];
             buttons = buttonsFromConfig (cfg node)
         in do {
           body \<leftarrow> tmpl env (if raw = [] then node_Label node else raw) st;
           if buttons = [] then fail (NoButtons (node_ID node)) st
           else do {
             bs \<leftarrow> those (map (template_button env st [''title'', ''url'', ''phone_number'']) buttons);
             (case sendAndSaveInteractiveButtons env body bs st of
                (Some err, st') \<Rightarrow> fail (SendFailed ''send buttons'' err) st'
              | (None, st') \<Rightarrow> ok stay (logSessionMessage body (node_ID node) st'))
           }
         }))"

section \<open>Prompts\<close>

definition set_retries :: "int \<Rightarrow> chatNodeCtx \<Rightarrow> chatNodeCtx" where
  "set_retries n = upd_session (\<lambda>s. s\<lparr>StepRetries := n\<rparr>)"

definition handleChatPromptInvalid :: "chat_env \<Rightarrow> node \<Rightarrow> chatNodeCtx \<Rightarrow> nodeOutcome chat" where
  "handleChatPromptInvalid env node st =
     (let retries = StepRetries (ctx_session st) + 1;
          st1 = set_retries retries st;
          configured = stringFromConfig (cfg node) [''validation_error'']
      in if intFromConfig (cfg node) ''max_retries'' 3 \<le> retries then
           ok (advance ''max_retries'') (set_retries 0 st1)
         else do {
           errorMsg \<leftarrow> tmpl env (if configured = [] then ''Invalid input. Please try again.'' else configured) st1;
           say env ''send validation error'' errorMsg (node_ID node) stay st1
         })"

definition prompt_rejects :: "chat_env \<Rightarrow> node \<Rightarrow> string \<Rightarrow> bool" where
  "prompt_rejects env node input =
     (let validationRegex = stringFromConfig (cfg node) [''validation_regex''] in
      validationRegex \<noteq> [] \<and>
      (case env_regexp env validationRegex of None \<Rightarrow> False | Some re \<Rightarrow> \<not> re input))"

definition execChatPrompt :: "chat_env \<Rightarrow> node \<Rightarrow> chatNodeCtx \<Rightarrow> nodeOutcome chat" where
  "execChatPrompt env node st =
     (let body = stringFromConfig (cfg node) [''body'', ''message'', ''text''];
          storeAs = stringFromConfig (cfg node) [''store_as''];
          input = userInput st;
          st1 = st\<lparr>consumed := True\<rparr>
      in if \<not> consumed st \<and> userInput st = [] then
           (if body = [] then fail (NoBody (node_ID node)) st
            else do {
              rendered \<leftarrow> tmpl env body st;
              say env ''send prompt'' rendered (node_ID node) stay st
            })
         else if consumed st then ok stay st
         else if prompt_rejects env node input then handleChatPromptInvalid env node st1
         else ok (advance ''default'')
                (set_retries 0 (if storeAs \<noteq> [] then store storeAs (StrV input) st1 else st1)))"

section \<open>HTTP calls\<close>

fun template_headers :: "(string \<Rightarrow> string option) \<Rightarrow> obj \<Rightarrow> (string \<times> string) list option" where
  "template_headers rv [] = Some []"
| "template_headers rv ((key, value) # hs) =
     (case as_str value of
        Some s \<Rightarrow> do { v \<leftarrow> rv s; r \<leftarrow> template_headers rv hs; Some ((key, v) # r) }
      | None \<Rightarrow> template_headers rv hs)"

definition executeConfiguredAPI ::
    "chat_env \<Rightarrow> obj \<Rightarrow> (string \<Rightarrow> string option) \<Rightarrow> chatNodeCtx
       \<Rightarrow> ((string + string \<times> int) \<times> chatNodeCtx) option" where
  "executeConfiguredAPI env apiConfig replaceVar st =
     (let rawURL = str_or (obj_get apiConfig ''url'');
          rawMethod = str_or (obj_get apiConfig ''method'');
          method = (if rawMethod = [] then ''GET'' else env_ToUpper env rawMethod);
          rawBody = str_or (obj_get apiConfig ''body'')
      in if rawURL = [] then Some (Inl ''API URL is required'', st)
         else do {
           apiURL \<leftarrow> replaceVar rawURL;
           body \<leftarrow> (if rawBody = [] then Some None else map_option Some (replaceVar rawBody));
           (case env_NewRequest env method apiURL of
              Some err \<Rightarrow> Some (Inl err, st)
            | None \<Rightarrow> do {
                hs \<leftarrow> template_headers replaceVar (obj_or (obj_get apiConfig ''headers''));
                let req = \<lparr>req_Method = method, req_URL = apiURL, req_Body = body,
                           req_Headers = [(''Content-Type'', ''application/json''),
                                          (''Accept'', ''application/json'')] @ hs\<rparr>;
                Some (case env_http env (trace st) req of
                        Inl err \<Rightarrow> Inl err
                      | Inr resp \<Rightarrow>
                          (case resp_ReadError resp of
                             Some err \<Rightarrow> Inl err
                           | None \<Rightarrow> Inr (take (1024 * 1024) (resp_Body resp), resp_StatusCode resp)),
                      emit (HttpDo req) st)
              })
         })"

text \<open>The entries of \<open>response_mapping\<close> whose path is a string.\<close>

definition mapping_strings :: "obj \<Rightarrow> (string \<times> string) list" where
  "mapping_strings m = List.map_filter (\<lambda>(k, v). map_option (Pair k) (as_str v)) m"

definition apply_mapping :: "chat_env \<Rightarrow> node \<Rightarrow> string \<Rightarrow> chatNodeCtx \<Rightarrow> chatNodeCtx option" where
  "apply_mapping env node respBody st =
     (let mapping = obj_or (obj_get (cfg node) ''response_mapping'') in
      if mapping = [] then Some st
      else
        (case env_json env respBody of
           None \<Rightarrow> Some st
         | Some jsonResp \<Rightarrow> do {
             extracted \<leftarrow> extractResponseMapping jsonResp (mapping_strings mapping);
             Some (upd_session (\<lambda>s. s\<lparr>SessionData := Some (maps_Copy (jsonb (SessionData s)) extracted)\<rparr>) st)
           }))"

definition seed_phone :: "chatNodeCtx \<Rightarrow> chatNodeCtx" where
  "seed_phone st = store ''phone_number'' (StrV (PhoneNumber (ctx_session st))) st"

definition execChatAPICall :: "chat_env \<Rightarrow> node \<Rightarrow> chatNodeCtx \<Rightarrow> nodeOutcome chat" where
  "execChatAPICall env node st =
     (let st1 = seed_phone st in do {
        (r, st2) \<leftarrow> executeConfiguredAPI env (cfg node) (\<lambda>s. tmpl env s st1) st1;
        (case r of
           Inl err \<Rightarrow> ok (advance ''http:non2xx'') st2
         | Inr (respBody, statusCode) \<Rightarrow>
             if statusCode < 200 \<or> 300 \<le> statusCode then ok (advance ''http:non2xx'') st2
             else do {
               st3 \<leftarrow> apply_mapping env node respBody st2;
               (let t = stringFromConfig (cfg node) [''message_template''] in
                if t = [] then ok (advance ''http:2xx'') st3
                else do {
                  rendered \<leftarrow> tmpl env t st3;
                  ok (advance ''http:2xx'')
                    (if rendered = [] then st3
                     else (case sendAndSaveTextMessage env rendered st3 of
                             (Some err, st4) \<Rightarrow> st4
                           | (None, st4) \<Rightarrow> logSessionMessage rendered (node_ID node) st4))
                })
             })
      })"

definition execChatWebhook :: "chat_env \<Rightarrow> node \<Rightarrow> chatNodeCtx \<Rightarrow> nodeOutcome chat" where
  "execChatWebhook env node st =
     (let st1 = seed_phone st in do {
        (r, st2) \<leftarrow> executeConfiguredAPI env (cfg node) (\<lambda>s. tmpl env s st1) st1;
        ok (advance ''default'') st2
      })"

section \<open>Branches and variables\<close>

definition evaluateConditionExpression :: "chat_env \<Rightarrow> string \<Rightarrow> obj \<Rightarrow> string + bool" where
  "evaluateConditionExpression env expression data =
     (case env_expr env expression data of
        Inl err \<Rightarrow> Inl err
      | Inr v \<Rightarrow> Inr (case v of
                       BoolV b \<Rightarrow> b
                     | NilV \<Rightarrow> False
                     | StrV s \<Rightarrow> s \<noteq> [] \<and> strings_ToLower (env_rt env) s \<noteq> ''false''
                     | FloatV x \<Rightarrow> x \<noteq> 0
                     | IntV i \<Rightarrow> i \<noteq> 0
                     | _ \<Rightarrow> True))"

definition execChatCondition :: "chat_env \<Rightarrow> node \<Rightarrow> chatNodeCtx \<Rightarrow> nodeOutcome chat" where
  "execChatCondition env node st =
     (let expression = stringFromConfig (cfg node) [''expression''] in
      if expression = [] then ok (advance ''false'') st
      else
        (case evaluateConditionExpression env expression (data_of st) of
           Inl err \<Rightarrow> ok (advance ''false'') st
         | Inr matched \<Rightarrow> ok (advance (if matched then ''true'' else ''false'')) st))"

definition execChatTiming :: "chat_env \<Rightarrow> node \<Rightarrow> chatNodeCtx \<Rightarrow> nodeOutcome chat" where
  "execChatTiming env node st =
     ok (advance (evaluateTimingSchedule (env_rt env) (env_now env (trace st))
                    (arr_or (obj_get (cfg node) ''schedule''))))
       (emit ReadClock st)"

fun set_variables :: "chat_env \<Rightarrow> obj \<Rightarrow> chatNodeCtx \<Rightarrow> chatNodeCtx option" where
  "set_variables env [] st = Some st"
| "set_variables env ((name, raw) # as) st =
     (if name = [] then set_variables env as st
      else
        (case as_str raw of
           None \<Rightarrow> set_variables env as (store name raw st)
         | Some t \<Rightarrow> do {
             v \<leftarrow> tmpl env t st;
             set_variables env as (store name (StrV v) st)
           }))"

definition execChatSetVariable :: "chat_env \<Rightarrow> node \<Rightarrow> chatNodeCtx \<Rightarrow> nodeOutcome chat" where
  "execChatSetVariable env node st =
     (let assignments = obj_or (obj_get (cfg node) ''set'') in
      if assignments = [] then ok (advance ''default'') st
      else do {
        st' \<leftarrow> set_variables env assignments (ensure_data st);
        ok (advance ''default'') st'
      })"

section \<open>AI, transfer, goto, WhatsApp flows, end\<close>

definition execChatAIResponse :: "chat_env \<Rightarrow> node \<Rightarrow> chatNodeCtx \<Rightarrow> nodeOutcome chat" where
  "execChatAIResponse env node st =
     (case env_settings env (trace st) of
        Inl err \<Rightarrow> ok (advance ''default'') st
      | Inr ai \<Rightarrow>
          if \<not> ai_Enabled ai \<or> ai_Provider ai = [] \<or> ai_APIKey ai = [] then ok (advance ''default'') st
          else
            (let t = stringFromConfig (cfg node) [''prompt_template'', ''prompt''] in do {
               (userMessage, st1) \<leftarrow>
                 (if t = [] then Some (userInput st, st)
                  else map_option (\<lambda>m. (m, ensure_data st)) (tmpl env t st));
               (case env_ai env (trace st1) userMessage of
                  Inl err \<Rightarrow> ok (advance ''default'') (emit (AIGenerate userMessage) st1)
                | Inr answer \<Rightarrow>
                    if answer = [] then ok (advance ''default'') (emit (AIGenerate userMessage) st1)
                    else say env ''send ai response'' answer (node_ID node) (advance ''default'')
                           (emit (AIGenerate userMessage) st1))
             }))"

definition complete :: "chatNodeCtx \<Rightarrow> chatNodeCtx" where
  "complete = upd_session (\<lambda>s. s\<lparr>Status := SessionStatusCompleted\<rparr>)"

definition execChatTransfer :: "chat_env \<Rightarrow> node \<Rightarrow> chatNodeCtx \<Rightarrow> nodeOutcome chat" where
  "execChatTransfer env node st =
     (let body = stringFromConfig (cfg node) [''body'', ''message'', ''text''];
          rawNotes = stringFromConfig (cfg node) [''notes''];
          teamIDStr = stringFromConfig (cfg node) [''team_id'']
      in do {
        st1 \<leftarrow> (if body = [] then Some st
               else do {
                 message \<leftarrow> tmpl env body st;
                 Some (case sendAndSaveTextMessage env message st of
                         (Some err, st') \<Rightarrow> st'
                       | (None, st') \<Rightarrow> logSessionMessage message (node_ID node) st')
               });
        notes \<leftarrow> (if rawNotes = [] then Some [] else tmpl env rawNotes st1);
        ok stay
          (complete
             (emit (if teamIDStr \<noteq> [] \<and> teamIDStr \<noteq> ''_general'' then
                      (case env_uuid env teamIDStr of
                         Some parsed \<Rightarrow> TransferToTeam parsed notes
                       | None \<Rightarrow> TransferToQueue)
                    else TransferToQueue) st1))
      })"

definition append_path :: "any \<Rightarrow> chatNodeCtx \<Rightarrow> chatNodeCtx" where
  "append_path entry st =
     store ''__path__'' (ArrV (arr_or (obj_get (data_of st) ''__path__'') @ [entry])) st"

definition execChatGotoFlow :: "chat_env \<Rightarrow> node \<Rightarrow> chatNodeCtx \<Rightarrow> nodeOutcome chat" where
  "execChatGotoFlow env node st =
     (let targetIDStr = stringFromConfig (cfg node) [''flow_id''] in
      if targetIDStr = [] then ok (advance []) st
      else
        (case env_uuid env targetIDStr of
           None \<Rightarrow> ok (advance []) st
         | Some targetID \<Rightarrow>
             (case env_flow env (trace st) targetID of
                Inl err \<Rightarrow> ok (advance []) st
              | Inr target \<Rightarrow>
                  if \<not> flow_IsEnabled target then ok (advance []) st
                  else if flow_WhatsAppAccount target \<noteq> WhatsAppAccount (ctx_session st) then ok (advance []) st
                  else if flow_Graph target = None then ok (advance []) st
                  else
                    ok (advance ''goto'')
                      (upd_session (\<lambda>s. s\<lparr>CurrentFlowID := Some (flow_ID target)\<rparr>)
                        (append_path (ObjV [(''action'', StrV ''goto_flow''), (''flow'', StrV (flow_Name target)),
                                            (''flow_id'', StrV (flow_ID target))]) st)))))"

definition screen_id :: "any list \<Rightarrow> string" where
  "screen_id screens =
     (case screens of
        [] \<Rightarrow> []
      | s # _ \<Rightarrow> (case as_obj s of None \<Rightarrow> [] | Some m \<Rightarrow> str_or (obj_get m ''id'')))"

definition first_screen :: "(any list \<times> jsonb) option \<Rightarrow> string" where
  "first_screen row =
     (case row of
        None \<Rightarrow> []
      | Some (screens, flowJSON) \<Rightarrow>
          if screen_id screens \<noteq> [] then screen_id screens
          else screen_id (arr_or (obj_get (jsonb flowJSON) ''screens'')))"

definition execChatWhatsAppFlow :: "chat_env \<Rightarrow> node \<Rightarrow> chatNodeCtx \<Rightarrow> nodeOutcome chat" where
  "execChatWhatsAppFlow env node st =
     (if \<not> consumed st \<and> flowResponseData st \<noteq> [] then
        ok (advance ''default'')
          (upd_session (\<lambda>s. s\<lparr>SessionData := Some (maps_Copy (jsonb (SessionData s)) (flowResponseData st))\<rparr>)
            (st\<lparr>consumed := True\<rparr>))
      else
        (let flowID = stringFromConfig (cfg node) [''flow_id''] in
         if flowID = [] then ok (advance ''default'') st
         else do {
           body \<leftarrow> tmpl env (stringFromConfig (cfg node) [''body'', ''message'', ''text'']) st;
           header \<leftarrow> tmpl env (stringFromConfig (cfg node) [''header'']) st;
           cta \<leftarrow> tmpl env (stringFromConfig (cfg node) [''cta'']) st;
           (let token = ''chatbot_'' @ sess_ID (ctx_session st) @ ''_'' @ node_ID node @ ''_'' @
                        Itoa (clk_UnixNano (env_now env (trace st)))
            in case sendAndSaveFlowMessage env flowID header body cta token
                      (first_screen (env_waflow env (trace st) flowID)) (emit ReadClock st) of
                 (Some err, st') \<Rightarrow> fail (SendFailed ''send whatsapp_flow'' err) st'
               | (None, st') \<Rightarrow> ok stay (logSessionMessage body (node_ID node) st'))
         }))"

definition execChatEnd :: "chat_env \<Rightarrow> node \<Rightarrow> chatNodeCtx \<Rightarrow> nodeOutcome chat" where
  "execChatEnd env node st =
     (let msg = stringFromConfig (cfg node) [''message''] in
      if msg = [] then ok (advance []) st
      else do {
        t \<leftarrow> tmpl env msg st;
        say env ''send end message'' t (node_ID node) (advance []) st
      })"

section \<open>Dispatch\<close>

definition executeChatNode :: "chat_env \<Rightarrow> node \<Rightarrow> chatNodeCtx \<Rightarrow> nodeOutcome chat" where
  "executeChatNode env node st =
     (let t = node_Type node in
      if t = ''start'' then ok (advance ''default'') st
      else if t = ''message'' then execChatMessage env node st
      else if t = ''buttons'' then execChatButtons env node st
      else if t = ''prompt'' then execChatPrompt env node st
      else if t = ''api_call'' then execChatAPICall env node st
      else if t = ''condition'' then execChatCondition env node st
      else if t = ''timing'' then execChatTiming env node st
      else if t = ''set_variable'' then execChatSetVariable env node st
      else if t = ''ai_response'' then execChatAIResponse env node st
      else if t = ''transfer'' then execChatTransfer env node st
      else if t = ''webhook'' then execChatWebhook env node st
      else if t = ''goto_flow'' then execChatGotoFlow env node st
      else if t = ''whatsapp_flow'' then execChatWhatsAppFlow env node st
      else if t = ''end'' then execChatEnd env node st
      else fail (NotImplemented t) st)"

end
