(* ===== verification/Chat_Runner.thy ===== *)
theory Chat_Runner
  imports Chat_Nodes
begin

text \<open>
  \<open>runChatGraph\<close> of \<open>chatbot_graph_runner.go\<close>: the loop that drives a session through its graph for
  one inbound message, with its bound of 100 nodes, the skip conditions, the switch to another
  flow, and the persistence of the session. The loop of Go is the recursion \<open>chat_loop\<close> on the
  number of iterations left.
\<close>

section \<open>The runner\<close>

definition maxChatGraphIterations :: nat where
  "maxChatGraphIterations = 100"

definition persistChatSession :: "chat_env \<Rightarrow> chatNodeCtx \<Rightarrow> string option \<times> chatNodeCtx" where
  "persistChatSession env st =
     (let st1 = emit ReadClock
                  (upd_session (\<lambda>s. s\<lparr>LastActivityAt := clk_UnixNano (env_now env (trace st))\<rparr>) st);
          s = ctx_session st1;
          st2 = (if Status s = SessionStatusCompleted \<and> CompletedAt s = None
                 then emit ReadClock
                        (upd_session (\<lambda>s. s\<lparr>CompletedAt := Some (clk_UnixNano (env_now env (trace st1)))\<rparr>) st1)
                 else st1)
      in (env_save env (trace st2) (ctx_session st2), emit (SaveSession (ctx_session st2)) st2))"

text \<open>Return with the result of the save, or with an error after a save whose result is dropped.\<close>

definition persist_done :: "chat_env \<Rightarrow> chatNodeCtx \<Rightarrow> unit chat" where
  "persist_done env st =
     (case persistChatSession env st of
        (Some err, st') \<Rightarrow> fail (SaveFailed err) st'
      | (None, st') \<Rightarrow> ok () st')"

definition persist_fail :: "chat_env \<Rightarrow> chat_error \<Rightarrow> chatNodeCtx \<Rightarrow> unit chat" where
  "persist_fail env e st = fail e (snd (persistChatSession env st))"

definition appendChatPath :: "node \<Rightarrow> string \<Rightarrow> chatNodeCtx \<Rightarrow> chatNodeCtx" where
  "appendChatPath node oc =
     append_path (ObjV [(''node'', StrV (node_ID node)), (''type'', StrV (node_Type node)),
                        (''label'', StrV (node_Label node)), (''outcome'', StrV oc)])"

definition goto_step :: "string \<Rightarrow> chatNodeCtx \<Rightarrow> chatNodeCtx" where
  "goto_step i = upd_session (\<lambda>s. s\<lparr>CurrentStep := i\<rparr>)"

definition skips :: "chat_env \<Rightarrow> node \<Rightarrow> chatNodeCtx \<Rightarrow> bool" where
  "skips env node st =
     (let expression = stringFromConfig (cfg node) [''skip_condition''] in
      expression \<noteq> [] \<and> evaluateConditionExpression env expression (data_of st) = Inr True)"

text \<open>One iteration: either the run returns, or it goes on with a flow, a graph and a context.\<close>

datatype chat_next = Return "unit chat" | Continue chatbot_flow graph chatNodeCtx

definition follow :: "chat_env \<Rightarrow> chatbot_flow \<Rightarrow> graph \<Rightarrow> string \<Rightarrow> string \<Rightarrow> chatNodeCtx \<Rightarrow> chat_next" where
  "follow env flow g i oc st =
     (let next = ResolveEdge g i oc in
      if next = [] then Return (persist_done env (complete st))
      else Continue flow g (goto_step next st))"

definition switch_flow :: "chat_env \<Rightarrow> string \<Rightarrow> chatNodeCtx \<Rightarrow> chat_next" where
  "switch_flow env fid st =
     (case env_flow env (trace st) fid of
        Inl err \<Rightarrow> Return (persist_fail env (GotoLoad err) st)
      | Inr newFlow \<Rightarrow>
          if flow_Graph newFlow = None then Return (persist_fail env GotoNoGraph st)
          else
            (case parseChatGraph (flow_Graph newFlow) of
               Inl err \<Rightarrow> Return (persist_fail env (GotoParse err) st)
             | Inr None \<Rightarrow> Return None
             | Inr (Some newGraph) \<Rightarrow> Continue newFlow newGraph (goto_step (EntryNode newGraph) st)))"

definition chat_iteration :: "chat_env \<Rightarrow> chatbot_flow \<Rightarrow> graph \<Rightarrow> chatNodeCtx \<Rightarrow> chat_next" where
  "chat_iteration env flow g st =
     (case Node g (CurrentStep (ctx_session st)) of
        None \<Rightarrow> Return (fail (NodeNotFound (CurrentStep (ctx_session st))) st)
      | Some node \<Rightarrow>
          if skips env node st then
            follow env flow g (node_ID node) ''default'' (appendChatPath node ''skipped'' st)
          else
            (case executeChatNode env node st of
               None \<Rightarrow> Return None
             | Some (Inl err, st1) \<Rightarrow> Return (persist_fail env err st1)
             | Some (Inr res, st1) \<Rightarrow>
                 (let st2 = appendChatPath node (outcome res) st1 in
                  if yield res then Return (persist_done env st2)
                  else
                    (case CurrentFlowID (ctx_session st2) of
                       Some fid \<Rightarrow>
                         if fid \<noteq> flow_ID flow then switch_flow env fid st2
                         else follow env flow g (node_ID node) (outcome res) st2
                     | None \<Rightarrow> follow env flow g (node_ID node) (outcome res) st2))))"

primrec chat_loop :: "nat \<Rightarrow> chat_env \<Rightarrow> chatbot_flow \<Rightarrow> graph \<Rightarrow> chatNodeCtx \<Rightarrow> unit chat" where
  "chat_loop 0 env flow g st = persist_fail env Runaway st"
| "chat_loop (Suc n) env flow g st =
     (case chat_iteration env flow g st of
        Return r \<Rightarrow> r
      | Continue flow' g' st' \<Rightarrow> chat_loop n env flow' g' st')"

definition seed_session :: "chat_env \<Rightarrow> session \<Rightarrow> session" where
  "seed_session env s =
     (let s1 = set_data ''phone_number'' (StrV (PhoneNumber s)) s in
      case env_contact_name env of
        None \<Rightarrow> s1
      | Some name \<Rightarrow> set_data ''contact_name'' (StrV name) s1)"

definition runChatGraph ::
    "chat_env \<Rightarrow> session \<Rightarrow> chatbot_flow \<Rightarrow> string \<Rightarrow> string \<Rightarrow> obj \<Rightarrow> event list \<Rightarrow> unit chat" where
  "runChatGraph env s flow input button formData tr =
     (let st = \<lparr>ctx_session = s, userInput = input, buttonID = button, flowResponseData = formData,
                consumed = False, trace = tr\<rparr>
      in case parseChatGraph (flow_Graph flow) of
           Inl err \<Rightarrow> fail (ParseGraph err) st
         | Inr None \<Rightarrow> fail NoGraph st
         | Inr (Some g) \<Rightarrow>
             (let st1 = upd_session (seed_session env) st in
              chat_loop maxChatGraphIterations env flow g
                (if CurrentStep s = [] then
                   (goto_step (EntryNode g) st1)\<lparr>userInput := [], buttonID := []\<rparr>
                 else st1)))"

end
