(* ===== verification/Chat_Facts.thy ===== *)
theory Chat_Facts
  imports Chat_Runner
begin

text \<open>
  Properties of the chatbot engine. A small calculus \<open>ends P r\<close> (every value that \<open>r\<close> can return
  satisfies \<open>P\<close>) carries the facts that hold of all executors; the loop lifts them to a run.
\<close>

named_theorems chat_ends \<open>rules for the results of chat operations\<close>

section \<open>Result calculus\<close>

definition ends :: "((chat_error + 'a) \<Rightarrow> chatNodeCtx \<Rightarrow> bool) \<Rightarrow> 'a chat \<Rightarrow> bool" where
  "ends P r \<longleftrightarrow> (\<forall>x st. r = Some (x, st) \<longrightarrow> P x st)"

lemma endsD: "ends P r \<Longrightarrow> r = Some (x, st) \<Longrightarrow> P x st"
  by (simp add: ends_def)

lemma ends_None [simp]: "ends P None"
  by (simp add: ends_def)

lemma ends_Some [simp]: "ends P (Some (x, st)) \<longleftrightarrow> P x st"
  by (simp add: ends_def)

lemma ends_ok [simp]: "ends P (ok v st) \<longleftrightarrow> P (Inr v) st"
  by (simp add: ok_def)

lemma ends_fail [simp]: "ends P (fail e st) \<longleftrightarrow> P (Inl e) st"
  by (simp add: fail_def)

lemma ends_bind [chat_ends]: "(\<And>v. m = Some v \<Longrightarrow> ends P (f v)) \<Longrightarrow> ends P (Option.bind m f)"
  by (cases m) auto

lemma ends_if [chat_ends]: "(b \<Longrightarrow> ends P r) \<Longrightarrow> (\<not> b \<Longrightarrow> ends P r') \<Longrightarrow> ends P (if b then r else r')"
  by simp

lemma ends_say:
  assumes "\<And>err. P (Inl (SendFailed what err)) (emit (Outgoing (OutText text)) st)"
    and "P (Inr oc) (emit (LogMessage text nid) (emit (Outgoing (OutText text)) st))"
  shows "ends P (say env what text nid oc st)"
  using assms
  by (auto simp: say_def sendAndSaveTextMessage_def SendOutgoing_def logSessionMessage_def split: option.splits)

section \<open>What an executor leaves alone\<close>

definition is_save :: "event \<Rightarrow> bool" where
  "is_save e = (case e of SaveSession _ \<Rightarrow> True | _ \<Rightarrow> False)"

definition same_identity :: "session \<Rightarrow> session \<Rightarrow> bool" where
  "same_identity s s' \<longleftrightarrow>
     sess_ID s' = sess_ID s \<and> OrganizationID s' = OrganizationID s \<and> ContactID s' = ContactID s \<and>
     WhatsAppAccount s' = WhatsAppAccount s \<and> PhoneNumber s' = PhoneNumber s"

definition keeps :: "chatNodeCtx \<Rightarrow> chatNodeCtx \<Rightarrow> bool" where
  "keeps st st' \<longleftrightarrow>
     same_identity (ctx_session st) (ctx_session st') \<and>
     CurrentStep (ctx_session st') = CurrentStep (ctx_session st) \<and>
     CompletedAt (ctx_session st') = CompletedAt (ctx_session st) \<and>
     CurrentFlowID (ctx_session st') = CurrentFlowID (ctx_session st) \<and>
     (consumed st \<longrightarrow> consumed st') \<and>
     (\<exists>es. trace st' = trace st @ es \<and> list_all (\<lambda>e. \<not> is_save e) es)"

lemma keeps_refl [simp]: "keeps st st"
  by (simp add: keeps_def same_identity_def)

lemma keeps_trans: "keeps st st' \<Longrightarrow> keeps st' st'' \<Longrightarrow> keeps st st''"
  by (force simp: keeps_def same_identity_def)

lemma keeps_emit: "keeps st st' \<Longrightarrow> \<not> is_save e \<Longrightarrow> keeps st (emit e st')"
  by (auto simp: keeps_def emit_def)

lemma keeps_store [simp]: "keeps st (store k v st') \<longleftrightarrow> keeps st st'"
  by (simp add: keeps_def store_def upd_session_def set_data_def same_identity_def)

lemma keeps_simps [simp]:
  "keeps st (ensure_data st') \<longleftrightarrow> keeps st st'"
  "keeps st (set_retries n st') \<longleftrightarrow> keeps st st'"
  "keeps st (complete st') \<longleftrightarrow> keeps st st'"
  "keeps st (upd_session (\<lambda>s. s\<lparr>SessionData := f s\<rparr>) st') \<longleftrightarrow> keeps st st'"
  "keeps st (append_path p st') \<longleftrightarrow> keeps st st'"
  by (simp_all add: keeps_def upd_session_def ensure_data_def set_retries_def complete_def append_path_def
      store_def set_data_def same_identity_def)

lemma keeps_consume: "keeps st st' \<Longrightarrow> keeps st (st'\<lparr>consumed := True\<rparr>)"
  by (simp add: keeps_def)

lemma is_save_simps [simp]:
  "\<not> is_save (Outgoing m)" "\<not> is_save (LogMessage a b)" "\<not> is_save (HttpDo q)"
  "\<not> is_save (AIGenerate u)" "\<not> is_save (TransferToTeam t n)" "\<not> is_save TransferToQueue"
  "\<not> is_save ReadClock" "is_save (SaveSession s)"
  by (simp_all add: is_save_def)

lemmas keeps_intros = keeps_emit keeps_consume keeps_refl

lemma keeps_say: "keeps st0 st \<Longrightarrow> ends (\<lambda>x. keeps st0) (say env what text nid oc st)"
  by (intro ends_say) (auto intro!: keeps_intros)

lemma send_ctas_keeps: "keeps st0 st \<Longrightarrow> keeps st0 (snd (send_ctas env body bs st))"
proof (induction env body bs st rule: send_ctas.induct)
  case (2 env body i b bs st)
  then show ?case
    by (auto simp: Let_def sendAndSaveCTAURLButton_def SendOutgoing_def keeps_emit split: option.splits)
qed simp

text \<open>The four ways in which a list of buttons is sent.\<close>

lemma sendButtons_eq:
  "sendAndSaveInteractiveButtons env body bs st =
     (let replies = reply_buttons bs; ws = wa_buttons replies in
      if replies \<noteq> [] then
        (if ws \<noteq> [] then SendOutgoing env (OutInteractive (interactive_type ws) body ws) st else (None, st))
      else if cta_buttons bs \<noteq> [] then send_ctas env body (enumerate 0 (take 2 (cta_buttons bs))) st
      else sendAndSaveTextMessage env body st)"
proof -
  have "wa_buttons [] = []"
    by (simp add: wa_buttons_def map_filter_simps)
  then show ?thesis
    by (cases "reply_buttons bs = []"; cases "cta_buttons bs = []"; cases "wa_buttons (reply_buttons bs) = []")
       (simp_all add: sendAndSaveInteractiveButtons_def Let_def SendOutgoing_def split: option.split prod.split)
qed

lemma sendButtons_keeps: "keeps st0 st \<Longrightarrow> keeps st0 (snd (sendAndSaveInteractiveButtons env body bs st))"
  using send_ctas_keeps [of st0 st env body "enumerate 0 (take 2 (cta_buttons bs))"]
  by (simp add: sendButtons_eq Let_def SendOutgoing_def sendAndSaveTextMessage_def keeps_emit)

section \<open>All executors keep the frame\<close>

lemma message_keeps: "ends (\<lambda>x. keeps st) (execChatMessage env n st)"
  by (auto simp: execChatMessage_def Let_def intro!: chat_ends keeps_say)

lemma buttons_keeps: "ends (\<lambda>x. keeps st) (execChatButtons env n st)"
proof -
  have "ends (\<lambda>x. keeps st)
          (case sendAndSaveInteractiveButtons env body bs st of
             (Some err, st') \<Rightarrow> fail (SendFailed w err) st'
           | (None, st') \<Rightarrow> ok v (logSessionMessage body i st'))" for body bs w i and v :: nodeOutcome
    using sendButtons_keeps [of st st env body bs]
    by (cases "sendAndSaveInteractiveButtons env body bs st")
       (simp add: logSessionMessage_def keeps_emit split: option.split)
  then show ?thesis
    by (simp add: execChatButtons_def Let_def ends_bind keeps_consume)
qed

lemma invalid_keeps: "keeps st0 st \<Longrightarrow> ends (\<lambda>x. keeps st0) (handleChatPromptInvalid env n st)"
  by (auto simp: handleChatPromptInvalid_def Let_def intro!: chat_ends keeps_say)

lemma prompt_keeps: "ends (\<lambda>x. keeps st) (execChatPrompt env n st)"
  by (auto simp: execChatPrompt_def Let_def intro!: chat_ends keeps_say invalid_keeps keeps_intros)

lemma api_keeps:
  "executeConfiguredAPI env c rv st = Some (r, st') \<Longrightarrow> keeps st0 st \<Longrightarrow> keeps st0 st'"
  by (auto simp: executeConfiguredAPI_def Let_def bind_eq_Some_conv keeps_emit split: if_splits option.splits)

lemma mapping_keeps: "apply_mapping env n b st = Some st' \<Longrightarrow> keeps st0 st \<Longrightarrow> keeps st0 st'"
  by (auto simp: apply_mapping_def Let_def bind_eq_Some_conv split: if_splits option.splits)

lemma seed_phone_keeps [simp]: "keeps st (seed_phone st)"
  by (simp add: seed_phone_def)

lemma api_call_keeps: "ends (\<lambda>x. keeps st) (execChatAPICall env n st)"
  by (auto simp: execChatAPICall_def Let_def sendAndSaveTextMessage_def SendOutgoing_def logSessionMessage_def
      split: sum.split option.split
      intro!: chat_ends keeps_emit dest!: api_keeps [where ?st0.0 = st] mapping_keeps [where ?st0.0 = st])

lemma webhook_keeps: "ends (\<lambda>x. keeps st) (execChatWebhook env n st)"
  by (auto simp: execChatWebhook_def Let_def intro!: chat_ends dest!: api_keeps [where ?st0.0 = st])

lemma condition_keeps: "ends (\<lambda>x. keeps st) (execChatCondition env n st)"
  by (auto simp: execChatCondition_def Let_def split: sum.split intro!: chat_ends)

lemma timing_keeps: "ends (\<lambda>x. keeps st) (execChatTiming env n st)"
  by (simp add: execChatTiming_def keeps_emit)

lemma set_variables_keeps: "set_variables env as st = Some st' \<Longrightarrow> keeps st0 st \<Longrightarrow> keeps st0 st'"
  by (induction env as st rule: set_variables.induct)
     (auto simp: bind_eq_Some_conv split: if_splits option.splits)

lemma setvar_keeps: "ends (\<lambda>x. keeps st) (execChatSetVariable env n st)"
  by (auto simp: execChatSetVariable_def Let_def intro!: chat_ends dest!: set_variables_keeps [where ?st0.0 = st])

lemma ai_keeps: "ends (\<lambda>x. keeps st) (execChatAIResponse env n st)"
proof -
  have "ends (\<lambda>x. keeps st)
          (case env_ai env (trace st1) u of
             Inl err \<Rightarrow> ok (advance ''default'') (emit (AIGenerate u) st1)
           | Inr answer \<Rightarrow>
               if answer = [] then ok (advance ''default'') (emit (AIGenerate u) st1)
               else say env ''send ai response'' answer (node_ID n) (advance ''default'')
                      (emit (AIGenerate u) st1))" if "keeps st st1" for st1 u
    using that keeps_say [of st "emit (AIGenerate u) st1"] by (simp add: keeps_emit split: sum.split)
  then show ?thesis
    by (auto simp: execChatAIResponse_def Let_def split: sum.split if_splits intro!: chat_ends)
qed

lemma transfer_keeps: "ends (\<lambda>x. keeps st) (execChatTransfer env n st)"
proof -
  have body: "keeps st (case sendAndSaveTextMessage env m st of
        (Some err, st') \<Rightarrow> st' | (None, st') \<Rightarrow> logSessionMessage m i st')" for m i
    by (simp add: sendAndSaveTextMessage_def SendOutgoing_def logSessionMessage_def keeps_emit split: option.split)
  show ?thesis
    unfolding execChatTransfer_def Let_def
    by (intro ends_bind)
       (auto simp: bind_eq_Some_conv body split: option.splits if_splits intro!: keeps_emit)
qed

text \<open>The one executor that moves the session to another flow, and the flows it accepts.\<close>

definition set_flow :: "string \<Rightarrow> chatNodeCtx \<Rightarrow> chatNodeCtx" where
  "set_flow f = upd_session (\<lambda>s. s\<lparr>CurrentFlowID := Some f\<rparr>)"

definition goto_target :: "chat_env \<Rightarrow> string \<Rightarrow> chatbot_flow \<Rightarrow> bool" where
  "goto_target env account f \<longleftrightarrow>
     (\<exists>tr i. env_flow env tr i = Inr f) \<and> flow_IsEnabled f \<and> flow_WhatsAppAccount f = account \<and>
     flow_Graph f \<noteq> None"

definition moves :: "chat_env \<Rightarrow> chatNodeCtx \<Rightarrow> chatNodeCtx \<Rightarrow> bool" where
  "moves env st st' \<longleftrightarrow>
     keeps st st' \<or>
     (\<exists>f. goto_target env (WhatsAppAccount (ctx_session st)) f \<and> keeps (set_flow (flow_ID f) st) st')"

lemma moves_keeps: "ends (\<lambda>x. keeps st) r \<Longrightarrow> ends (\<lambda>x. moves env st) r"
  by (simp add: ends_def moves_def)

lemma moves_refl [simp]: "moves env st st"
  by (simp add: moves_def)

lemma moves_goto:
  assumes "goto_target env (WhatsAppAccount (ctx_session st)) f"
  shows "moves env st (upd_session (\<lambda>s. s\<lparr>CurrentFlowID := Some (flow_ID f)\<rparr>) (append_path p st))"
proof -
  have "keeps (set_flow (flow_ID f) st) (upd_session (\<lambda>s. s\<lparr>CurrentFlowID := Some (flow_ID f)\<rparr>) (append_path p st))"
    by (simp add: keeps_def set_flow_def upd_session_def append_path_def store_def set_data_def same_identity_def)
  with assms show ?thesis
    unfolding moves_def by blast
qed

lemma goto_moves: "ends (\<lambda>x. moves env st) (execChatGotoFlow env n st)"
  by (auto simp: execChatGotoFlow_def Let_def goto_target_def split: option.split sum.split
      intro!: moves_goto exI)

lemma waflow_keeps: "ends (\<lambda>x. keeps st) (execChatWhatsAppFlow env n st)"
proof -
  have "ends (\<lambda>x. keeps st)
          (case sendAndSaveFlowMessage env f h body c t scr (emit ReadClock st) of
             (Some err, st') \<Rightarrow> fail (SendFailed w err) st'
           | (None, st') \<Rightarrow> ok v (logSessionMessage body i st'))" for f h body c t scr w i and v :: nodeOutcome
    by (simp add: sendAndSaveFlowMessage_def SendOutgoing_def logSessionMessage_def keeps_emit split: option.split)
  then show ?thesis
    by (simp add: execChatWhatsAppFlow_def Let_def ends_bind keeps_consume)
qed

lemma end_keeps: "ends (\<lambda>x. keeps st) (execChatEnd env n st)"
  by (auto simp: execChatEnd_def Let_def intro!: chat_ends keeps_say)

lemmas executors_move =
  goto_moves
  message_keeps [THEN moves_keeps] buttons_keeps [THEN moves_keeps] prompt_keeps [THEN moves_keeps]
  api_call_keeps [THEN moves_keeps] webhook_keeps [THEN moves_keeps] condition_keeps [THEN moves_keeps]
  timing_keeps [THEN moves_keeps] setvar_keeps [THEN moves_keeps] ai_keeps [THEN moves_keeps]
  transfer_keeps [THEN moves_keeps] waflow_keeps [THEN moves_keeps] end_keeps [THEN moves_keeps]

lemma executeChatNode_moves: "ends (\<lambda>x. moves env st) (executeChatNode env n st)"
  by (simp add: executeChatNode_def Let_def executors_move)

text \<open>Executors report delivery and configuration errors only.\<close>

fun unsaved :: "chat_error + 'a \<Rightarrow> bool" where
  "unsaved (Inl (ParseGraph e)) = True"
| "unsaved (Inl NoGraph) = True"
| "unsaved (Inl (NodeNotFound i)) = True"
| "unsaved _ = False"

lemma say_errors: "ends (\<lambda>x _. \<not> unsaved x) (say env what text nid oc st)"
  by (intro ends_say) auto

lemmas exec_defs =
  execChatMessage_def execChatButtons_def execChatPrompt_def handleChatPromptInvalid_def execChatAPICall_def
  execChatWebhook_def execChatCondition_def execChatTiming_def execChatSetVariable_def execChatAIResponse_def
  execChatTransfer_def execChatGotoFlow_def execChatWhatsAppFlow_def execChatEnd_def

lemma executor_errors:
  "ends (\<lambda>x _. \<not> unsaved x) (execChatMessage env n st)"
  "ends (\<lambda>x _. \<not> unsaved x) (execChatButtons env n st)"
  "ends (\<lambda>x _. \<not> unsaved x) (execChatPrompt env n st)"
  "ends (\<lambda>x _. \<not> unsaved x) (execChatAPICall env n st)"
  "ends (\<lambda>x _. \<not> unsaved x) (execChatWebhook env n st)"
  "ends (\<lambda>x _. \<not> unsaved x) (execChatCondition env n st)"
  "ends (\<lambda>x _. \<not> unsaved x) (execChatTiming env n st)"
  "ends (\<lambda>x _. \<not> unsaved x) (execChatSetVariable env n st)"
  "ends (\<lambda>x _. \<not> unsaved x) (execChatAIResponse env n st)"
  "ends (\<lambda>x _. \<not> unsaved x) (execChatTransfer env n st)"
  "ends (\<lambda>x _. \<not> unsaved x) (execChatGotoFlow env n st)"
  "ends (\<lambda>x _. \<not> unsaved x) (execChatWhatsAppFlow env n st)"
  "ends (\<lambda>x _. \<not> unsaved x) (execChatEnd env n st)"
  by (simp_all add: exec_defs Let_def say_errors ends_bind split: option.split sum.split prod.split)

lemma executeChatNode_errors: "ends (\<lambda>x _. \<not> unsaved x) (executeChatNode env n st)"
  by (simp add: executeChatNode_def Let_def executor_errors)

end
