(* ===== verification/Chat_Properties.thy ===== *)
theory Chat_Properties
  imports Chat_Facts
begin

text \<open>
  Properties of whole runs of the chatbot engine: what a run leaves in the database, which nodes
  and flows it can reach, how many nodes it executes, and the behaviour of prompts and buttons.
\<close>

section \<open>Invariants of the loop\<close>

definition step_ok ::
    "(chatbot_flow \<Rightarrow> graph \<Rightarrow> chatNodeCtx \<Rightarrow> bool) \<Rightarrow> (chat_error + unit \<Rightarrow> chatNodeCtx \<Rightarrow> bool) \<Rightarrow> chat_next \<Rightarrow> bool" where
  "step_ok I P nx = (case nx of Return r \<Rightarrow> ends P r | Continue flow g st \<Rightarrow> I flow g st)"

lemma step_ok_simps [simp]:
  "step_ok I P (Return r) \<longleftrightarrow> ends P r" "step_ok I P (Continue flow g st) \<longleftrightarrow> I flow g st"
  by (simp_all add: step_ok_def)

lemma chat_loop_ends:
  assumes "I flow g st"
    and "\<And>flow g st. I flow g st \<Longrightarrow> ends P (persist_fail env Runaway st)"
    and "\<And>flow g st. I flow g st \<Longrightarrow> step_ok I P (chat_iteration env flow g st)"
  shows "ends P (chat_loop n env flow g st)"
  using assms(1)
proof (induction n arbitrary: flow g st)
  case 0
  then show ?case using assms(2) by simp
next
  case (Suc n)
  then show ?case
    using assms(3) [OF Suc.prems] by (cases "chat_iteration env flow g st") auto
qed

text \<open>Every way in which one iteration can end.\<close>

lemma iteration_cases:
  obtains (missing) "Node g (CurrentStep (ctx_session st)) = None"
      "chat_iteration env flow g st = Return (fail (NodeNotFound (CurrentStep (ctx_session st))) st)"
    | (skipped) n where "Node g (CurrentStep (ctx_session st)) = Some n"
      "chat_iteration env flow g st = follow env flow g (node_ID n) ''default'' (appendChatPath n ''skipped'' st)"
    | (stuck) "chat_iteration env flow g st = Return None"
    | (error) n e st1 where "Node g (CurrentStep (ctx_session st)) = Some n"
      "executeChatNode env n st = Some (Inl e, st1)" "chat_iteration env flow g st = Return (persist_fail env e st1)"
    | (yielded) n res st1 where "Node g (CurrentStep (ctx_session st)) = Some n"
      "executeChatNode env n st = Some (Inr res, st1)" "yield res"
      "chat_iteration env flow g st = Return (persist_done env (appendChatPath n (outcome res) st1))"
    | (switched) n res st1 fid where "Node g (CurrentStep (ctx_session st)) = Some n"
      "executeChatNode env n st = Some (Inr res, st1)" "\<not> yield res"
      "CurrentFlowID (ctx_session st1) = Some fid" "fid \<noteq> flow_ID flow"
      "chat_iteration env flow g st = switch_flow env fid (appendChatPath n (outcome res) st1)"
    | (followed) n res st1 where "Node g (CurrentStep (ctx_session st)) = Some n"
      "executeChatNode env n st = Some (Inr res, st1)" "\<not> yield res"
      "chat_iteration env flow g st = follow env flow g (node_ID n) (outcome res) (appendChatPath n (outcome res) st1)"
proof -
  have fl: "CurrentFlowID (ctx_session (appendChatPath n oc st1)) = CurrentFlowID (ctx_session st1)" for n oc st1
    by (simp add: appendChatPath_def append_path_def store_def upd_session_def set_data_def)
  show thesis
  proof (cases "Node g (CurrentStep (ctx_session st))")
    case None
    with missing show ?thesis by (simp add: chat_iteration_def)
  next
    case (Some n)
    note node = Some
    show ?thesis
    proof (cases "skips env n st")
      case True
      with node skipped show ?thesis by (simp add: chat_iteration_def)
    next
      case noskip: False
      show ?thesis
      proof (cases "executeChatNode env n st")
        case None
        with node noskip stuck show ?thesis by (simp add: chat_iteration_def)
      next
        case (Some r)
        obtain x st1 where r: "r = (x, st1)" by (cases r)
        show ?thesis
        proof (cases x)
          case (Inl e)
          with node noskip Some r error [OF node] show ?thesis by (simp add: chat_iteration_def)
        next
          case (Inr res)
          show ?thesis
            using node noskip Some r Inr yielded [OF node, of res st1] switched [OF node, of res st1]
              followed [OF node, of res st1]
            by (cases "yield res"; cases "CurrentFlowID (ctx_session st1)";
                cases "CurrentFlowID (ctx_session st1) = Some (flow_ID flow)")
               (auto simp: chat_iteration_def Let_def fl)
        qed
      qed
    qed
  qed
qed

section \<open>Persistence\<close>

lemma persist_state:
  "same_identity (ctx_session st) (ctx_session (snd (persistChatSession env st)))"
  "filter is_save (trace (snd (persistChatSession env st))) =
     filter is_save (trace st) @ [SaveSession (ctx_session (snd (persistChatSession env st)))]"
  "Status (ctx_session (snd (persistChatSession env st))) = Status (ctx_session st)"
  "CurrentFlowID (ctx_session (snd (persistChatSession env st))) = CurrentFlowID (ctx_session st)"
  "Status (ctx_session st) = SessionStatusCompleted \<Longrightarrow>
     CompletedAt (ctx_session (snd (persistChatSession env st))) \<noteq> None"
  by (auto simp: persistChatSession_def Let_def emit_def upd_session_def same_identity_def)

lemma ends_persist_fail: "ends P (persist_fail env e st) \<longleftrightarrow> P (Inl e) (snd (persistChatSession env st))"
  by (simp add: persist_fail_def)

lemma ends_persist_done:
  "ends P (persist_done env st) \<longleftrightarrow>
     (case persistChatSession env st of
        (Some err, st') \<Rightarrow> P (Inl (SaveFailed err)) st' | (None, st') \<Rightarrow> P (Inr ()) st')"
  by (auto simp: persist_done_def split: option.split prod.split)


definition unrecorded :: "session \<Rightarrow> chatNodeCtx \<Rightarrow> bool" where
  "unrecorded s st \<longleftrightarrow> same_identity s (ctx_session st) \<and> filter is_save (trace st) = []"



lemma unrecorded_path [simp]: "unrecorded s (appendChatPath n oc st) \<longleftrightarrow> unrecorded s st"
  by (simp add: unrecorded_def appendChatPath_def append_path_def store_def upd_session_def set_data_def
      same_identity_def)

lemma unrecorded_simps [simp]:
  "unrecorded s (goto_step i st) \<longleftrightarrow> unrecorded s st"
  "unrecorded s (complete st) \<longleftrightarrow> unrecorded s st"
  by (simp_all add: unrecorded_def goto_step_def complete_def upd_session_def same_identity_def)








section \<open>Where a run can go\<close>

text \<open>Every graph that the flow store can return is closed.\<close>

definition flows_closed :: "chat_env \<Rightarrow> bool" where
  "flows_closed env \<longleftrightarrow>
     (\<forall>tr i f g. env_flow env tr i = Inr f \<longrightarrow> parseChatGraph (flow_Graph f) = Inr (Some g) \<longrightarrow> graph_closed g)"

definition on_graph :: "graph \<Rightarrow> chatNodeCtx \<Rightarrow> bool" where
  "on_graph g st \<longleftrightarrow> graph_closed g \<and> Node g (CurrentStep (ctx_session st)) \<noteq> None"

definition not_lost :: "chat_error + unit \<Rightarrow> chatNodeCtx \<Rightarrow> bool" where
  "not_lost x st \<longleftrightarrow> (\<forall>i. x \<noteq> Inl (NodeNotFound i))"

lemma not_lost_persist:
  "ends not_lost (persist_done env st)"
  "\<not> unsaved (Inl e :: chat_error + unit) \<Longrightarrow> ends not_lost (persist_fail env e st)"
  by (auto simp: ends_persist_done ends_persist_fail not_lost_def split: option.split prod.split)

lemma CurrentStep_simps [simp]:
  "CurrentStep (ctx_session (goto_step i st)) = i"
  "CurrentStep (ctx_session (complete st)) = CurrentStep (ctx_session st)"
  by (simp_all add: goto_step_def complete_def upd_session_def)

lemma not_lost_follow: "graph_closed g \<Longrightarrow> step_ok (\<lambda>_. on_graph) not_lost (follow env flow g i oc st)"
  by (auto simp: follow_def Let_def not_lost_persist on_graph_def dest: fg.route_closed)

lemma not_lost_switch: "flows_closed env \<Longrightarrow> step_ok (\<lambda>_. on_graph) not_lost (switch_flow env fid st)"
  using parseChatGraph_ok
  by (auto simp: switch_flow_def not_lost_persist flows_closed_def on_graph_def split: sum.split option.split)

lemma not_lost_iteration:
  assumes "flows_closed env" "on_graph g st"
  shows "step_ok (\<lambda>_. on_graph) not_lost (chat_iteration env flow g st)"
proof (cases rule: iteration_cases [where env = env and flow = flow and g = g and st = st])
  case (error n e st1)
  then have "\<not> unsaved (Inl e :: chat_error + nodeOutcome)"
    using endsD [OF executeChatNode_errors] by blast
  then have "\<not> unsaved (Inl e :: chat_error + unit)"
    by (cases e) auto
  then show ?thesis using error by (simp add: not_lost_persist)
qed (use assms in \<open>auto simp: on_graph_def not_lost_follow not_lost_switch not_lost_persist\<close>)

lemma not_lost_loop:
  "flows_closed env \<Longrightarrow> on_graph g st \<Longrightarrow> ends not_lost (chat_loop n env flow g st)"
  by (rule chat_loop_ends [where I = "\<lambda>_. on_graph"]) (auto simp: not_lost_persist not_lost_iteration)

text \<open>The flow a session may end in: the one it came with, or an admissible goto target.\<close>

definition flow_admissible :: "chat_env \<Rightarrow> session \<Rightarrow> chatNodeCtx \<Rightarrow> bool" where
  "flow_admissible env s st \<longleftrightarrow>
     WhatsAppAccount (ctx_session st) = WhatsAppAccount s \<and>
     (CurrentFlowID (ctx_session st) = CurrentFlowID s \<or>
      (\<exists>f. goto_target env (WhatsAppAccount s) f \<and> CurrentFlowID (ctx_session st) = Some (flow_ID f)))"

lemma admissible_moves: "flow_admissible env s st \<Longrightarrow> moves env st st' \<Longrightarrow> flow_admissible env s st'"
  by (auto simp: flow_admissible_def moves_def keeps_def same_identity_def set_flow_def upd_session_def)

lemma admissible_simps [simp]:
  "flow_admissible env s (goto_step i st) \<longleftrightarrow> flow_admissible env s st"
  "flow_admissible env s (complete st) \<longleftrightarrow> flow_admissible env s st"
  "flow_admissible env s (appendChatPath n oc st) \<longleftrightarrow> flow_admissible env s st"
  by (simp_all add: flow_admissible_def goto_step_def complete_def appendChatPath_def append_path_def store_def
      set_data_def upd_session_def)

lemma admissible_persist: "flow_admissible env s (snd (persistChatSession env st)) \<longleftrightarrow> flow_admissible env s st"
  using persist_state(1,4) [where env = env and st = st] by (simp add: flow_admissible_def same_identity_def)

lemma admissible_returns:
  "flow_admissible env s st \<Longrightarrow> ends (\<lambda>_. flow_admissible env s) (persist_done env st)"
  "flow_admissible env s st \<Longrightarrow> ends (\<lambda>_. flow_admissible env s) (persist_fail env e st)"
  using admissible_persist [of env s st]
  by (cases "persistChatSession env st"; simp add: ends_persist_done ends_persist_fail split: option.split)+

lemma admissible_iteration:
  assumes "flow_admissible env s st"
  shows "step_ok (\<lambda>_ _. flow_admissible env s) (\<lambda>_. flow_admissible env s) (chat_iteration env flow g st)"
proof -
  have follow: "step_ok (\<lambda>_ _. flow_admissible env s) (\<lambda>_. flow_admissible env s) (follow env flow g i oc st')"
    if "flow_admissible env s st'" for i oc st'
    using that by (simp add: follow_def Let_def admissible_returns)
  have switch: "step_ok (\<lambda>_ _. flow_admissible env s) (\<lambda>_. flow_admissible env s) (switch_flow env i st')"
    if "flow_admissible env s st'" for i st'
    using that by (auto simp: switch_flow_def admissible_returns split: sum.split option.split)
  have exec: "flow_admissible env s st1" if "executeChatNode env n st = Some (x, st1)" for n x st1
    using that assms endsD [OF executeChatNode_moves] admissible_moves by blast
  show ?thesis
    by (cases rule: iteration_cases [where env = env and flow = flow and g = g and st = st])
       (auto simp: assms follow switch admissible_returns dest: exec)
qed

section \<open>The entry of a run\<close>

definition entry_state :: "chat_env \<Rightarrow> session \<Rightarrow> graph \<Rightarrow> string \<Rightarrow> string \<Rightarrow> obj \<Rightarrow> event list \<Rightarrow> chatNodeCtx" where
  "entry_state env s g input button formData tr =
     (let st1 = \<lparr>ctx_session = seed_session env s, userInput = input, buttonID = button,
                 flowResponseData = formData, consumed = False, trace = tr\<rparr>
      in if CurrentStep s = [] then (goto_step (EntryNode g) st1)\<lparr>userInput := [], buttonID := []\<rparr> else st1)"

lemma run_loop:
  "parseChatGraph (flow_Graph flow) = Inr (Some g) \<Longrightarrow>
     runChatGraph env s flow input button formData tr =
       chat_loop maxChatGraphIterations env flow g (entry_state env s g input button formData tr)"
  by (simp add: runChatGraph_def entry_state_def upd_session_def Let_def)

lemma seed_session_simps [simp]:
  "sess_ID (seed_session env s) = sess_ID s" "OrganizationID (seed_session env s) = OrganizationID s"
  "ContactID (seed_session env s) = ContactID s"
  "WhatsAppAccount (seed_session env s) = WhatsAppAccount s" "PhoneNumber (seed_session env s) = PhoneNumber s"
  "CurrentStep (seed_session env s) = CurrentStep s" "CurrentFlowID (seed_session env s) = CurrentFlowID s"
  "Status (seed_session env s) = Status s" "StepRetries (seed_session env s) = StepRetries s"
  by (simp_all add: seed_session_def set_data_def Let_def split: option.split)

lemma entry_state_simps:
  "same_identity s (ctx_session (entry_state env s g input button formData tr))"
  "trace (entry_state env s g input button formData tr) = tr"
  "CurrentFlowID (ctx_session (entry_state env s g input button formData tr)) = CurrentFlowID s"
  "CurrentStep (ctx_session (entry_state env s g input button formData tr)) =
     (if CurrentStep s = [] then EntryNode g else CurrentStep s)"
  by (simp_all add: entry_state_def goto_step_def upd_session_def same_identity_def Let_def)

lemma run_ends:
  assumes "\<And>e. P (Inl (ParseGraph e)) \<lparr>ctx_session = s, userInput = i, buttonID = b, flowResponseData = f,
                consumed = False, trace = tr\<rparr>"
    and "P (Inl NoGraph) \<lparr>ctx_session = s, userInput = i, buttonID = b, flowResponseData = f,
                consumed = False, trace = tr\<rparr>"
    and "\<And>g. parseChatGraph (flow_Graph flow) = Inr (Some g) \<Longrightarrow>
           ends P (chat_loop maxChatGraphIterations env flow g (entry_state env s g i b f tr))"
  shows "ends P (runChatGraph env s flow i b f tr)"
proof (cases "parseChatGraph (flow_Graph flow)")
  case (Inl e)
  then show ?thesis using assms(1) by (simp add: runChatGraph_def Let_def)
next
  case (Inr og)
  then show ?thesis
    using assms(2,3) by (cases og) (simp_all add: run_loop, simp add: runChatGraph_def Let_def)
qed

section \<open>Sample surroundings\<close>

definition sample_env :: chat_env where
  "sample_env =
     \<lparr>env_rt = sample_rt, env_contact_name = Some ''Amal'',
      env_send = (\<lambda>_ _. None), env_save = (\<lambda>_ _. None),
      env_now = (\<lambda>tr. noon_monday\<lparr>clk_UnixNano := int (length tr)\<rparr>),
      env_http = (\<lambda>_ _. Inl ''connection refused''), env_NewRequest = (\<lambda>_ _. None), env_ToUpper = id,
      env_json = (\<lambda>_. None), env_settings = (\<lambda>_. Inl ''no settings''), env_ai = (\<lambda>_ _. Inl ''no model''),
      env_flow = (\<lambda>_ _. Inl ''record not found''), env_waflow = (\<lambda>_ _. None),
      env_expr = (\<lambda>_ _. Inl ''no expression''), env_regexp = (\<lambda>_. Some (list_all is_digit)),
      env_uuid = (\<lambda>s. Some s)\<rparr>"

definition sample_session :: session where
  "sample_session =
     \<lparr>sess_ID = ''s1'', OrganizationID = ''o1'', ContactID = ''k1'', WhatsAppAccount = ''main'', PhoneNumber = ''212600000000'',
      Status = ''active'', CurrentFlowID = Some ''f1'', CurrentStep = [], StepRetries = 0, SessionData = None,
      LastActivityAt = 0, CompletedAt = None\<rparr>"

definition node_json :: "string \<Rightarrow> string \<Rightarrow> obj \<Rightarrow> any" where
  "node_json i t c = ObjV [(''id'', StrV i), (''type'', StrV t), (''config'', ObjV c)]"

definition edge_json :: "string \<Rightarrow> string \<Rightarrow> string \<Rightarrow> any" where
  "edge_json a b c = ObjV [(''from'', StrV a), (''to'', StrV b), (''condition'', StrV c)]"

definition flow_of :: "string \<Rightarrow> any list \<Rightarrow> any list \<Rightarrow> chatbot_flow" where
  "flow_of entry ns es =
     \<lparr>flow_ID = ''f1'', flow_Name = ''Orders'', flow_IsEnabled = True, flow_WhatsAppAccount = ''main'',
      flow_TriggerKeywords = [''order''],
      flow_Graph = Some [(''version'', IntV 2), (''nodes'', ArrV ns), (''edges'', ArrV es),
                         (''entry_node'', StrV entry)]\<rparr>"

text \<open>Ask for the name, then for the size, then thank.\<close>

definition order_flow :: chatbot_flow where
  "order_flow = flow_of ''name''
     [node_json ''name'' ''prompt'' [(''body'', StrV ''Your name?''), (''store_as'', StrV ''name'')],
      node_json ''size'' ''prompt'' [(''body'', StrV ''Your size?''), (''store_as'', StrV ''size'')],
      node_json ''bye'' ''end'' [(''message'', StrV ''Thank you {{name}}'')]]
     [edge_json ''name'' ''size'' ''default'', edge_json ''size'' ''bye'' ''default'']"

lemma parsed_closed:
  assumes "parseChatGraph raw = Inr (Some g)"
    and "list_all (\<lambda>e. To e = [] \<or> To e \<in> set (map node_ID (Nodes g))) (Edges g)"
  shows "graph_closed g"
  using assms(2) parseChatGraph_ok [OF assms(1)]
  by (auto simp: graph_closed_def list_all_iff)

lemma order_flow_closed: "\<exists>g. parseChatGraph (flow_Graph order_flow) = Inr (Some g) \<and> graph_closed g"
proof -
  have "case parseChatGraph (flow_Graph order_flow) of
          Inr (Some g) \<Rightarrow> list_all (\<lambda>e. To e = [] \<or> To e \<in> set (map node_ID (Nodes g))) (Edges g)
        | _ \<Rightarrow> False"
    by code_simp
  then show ?thesis
    using parsed_closed by (auto split: sum.splits option.splits)
qed

section \<open>Properties\<close>



text \<open>
  C20. In closed graphs a run never stops at a missing node: when the graph of the flow and every
  graph of the flow store are closed (each edge leads to an existing node) and the session is new
  or stands at a node of the graph, no run reports \<open>node not found\<close>.
\<close>
theorem closed_graph_never_lost:
  assumes "flows_closed env" "parseChatGraph (flow_Graph flow) = Inr (Some g)" "graph_closed g"
    and "CurrentStep s = [] \<or> Node g (CurrentStep s) \<noteq> None"
  shows "runChatGraph env s flow input button formData tr \<noteq> Some (Inl (NodeNotFound i), st)"
proof -
  have "on_graph g (entry_state env s g input button formData tr)"
    using assms(3,4) parseChatGraph_ok [OF assms(2)] by (auto simp: on_graph_def entry_state_simps)
  then have "ends not_lost (runChatGraph env s flow input button formData tr)"
    using run_loop [OF assms(2)] not_lost_loop [OF assms(1)] by simp
  then show ?thesis
    by (auto simp: ends_def not_lost_def)
qed

theorem closed_graph_never_lost_witness:
  "\<nexists>i st. runChatGraph (sample_env\<lparr>env_flow := \<lambda>_ _. Inr order_flow\<rparr>) sample_session order_flow
            ''order'' [] [] [] = Some (Inl (NodeNotFound i), st)"
proof -
  obtain g where g: "parseChatGraph (flow_Graph order_flow) = Inr (Some g)" "graph_closed g"
    using order_flow_closed by blast
  then have "flows_closed (sample_env\<lparr>env_flow := \<lambda>_ _. Inr order_flow\<rparr>)"
    by (simp add: flows_closed_def)
  from closed_graph_never_lost [OF this g, of sample_session] show ?thesis
    by (simp add: sample_session_def)
qed

text \<open>
  C22. A run leaves the session in the flow it came with or in a flow that the flow store returned,
  that is enabled, has a v2 graph and belongs to the session's own WhatsApp account: no chain of
  goto nodes crosses accounts or enters a disabled flow.
\<close>
theorem run_stays_in_account:
  assumes "runChatGraph env s flow input button formData tr = Some (x, st)"
  shows "CurrentFlowID (ctx_session st) = CurrentFlowID s \<or>
         (\<exists>f. goto_target env (WhatsAppAccount s) f \<and> CurrentFlowID (ctx_session st) = Some (flow_ID f))"
proof -
  have "ends (\<lambda>_. flow_admissible env s) (runChatGraph env s flow input button formData tr)"
  proof (rule run_ends)
    show "ends (\<lambda>_. flow_admissible env s)
            (chat_loop maxChatGraphIterations env flow g (entry_state env s g input button formData tr))" for g
    proof (rule chat_loop_ends [where I = "\<lambda>_ _. flow_admissible env s"])
      show "flow_admissible env s (entry_state env s g input button formData tr)"
        using entry_state_simps(1) [of s env g input button formData tr]
        by (simp add: flow_admissible_def entry_state_simps(3) same_identity_def)
    qed (simp_all add: admissible_returns admissible_iteration)
  qed (simp_all add: flow_admissible_def)
  from endsD [OF this assms] show ?thesis
    by (simp add: flow_admissible_def)
qed

text \<open>A flow that hands over to another one at once.\<close>

definition jump_flow :: chatbot_flow where
  "jump_flow = (flow_of ''j'' [node_json ''j'' ''goto_flow'' [(''flow_id'', StrV ''f2'')]] [])\<lparr>flow_ID := ''f1''\<rparr>"

definition jump_env :: chat_env where
  "jump_env = sample_env\<lparr>env_flow := \<lambda>_ i. if i = ''f2'' then Inr (order_flow\<lparr>flow_ID := ''f2''\<rparr>) else Inl ''not found''\<rparr>"

theorem run_stays_in_account_witness:
  "\<exists>x st f. runChatGraph jump_env sample_session jump_flow ''go'' [] [] [] = Some (x, st) \<and>
     CurrentFlowID (ctx_session st) = Some ''f2'' \<and> goto_target jump_env ''main'' f \<and> flow_ID f = ''f2''"
proof -
  have "case runChatGraph jump_env sample_session jump_flow ''go'' [] [] [] of
          Some (x, st) \<Rightarrow> CurrentFlowID (ctx_session st) = Some ''f2'' | None \<Rightarrow> False"
    by code_simp
  then obtain x st where r: "runChatGraph jump_env sample_session jump_flow ''go'' [] [] [] = Some (x, st)"
      and c: "CurrentFlowID (ctx_session st) = Some ''f2''"
    by (auto split: option.splits)
  then show ?thesis
    using run_stays_in_account [OF r] by (auto simp: sample_session_def)
qed

end
