(* ===== verification/Chat_Dialogue.thy ===== *)
theory Chat_Dialogue
  imports Chat_Properties
begin

text \<open>
  Properties of the dialogue itself: how often a run can send, the bound on the loop, prompts with
  their retries, and interactive buttons.
\<close>

section \<open>Counting messages\<close>

definition is_out :: "event \<Rightarrow> bool" where
  "is_out e = (case e of Outgoing _ \<Rightarrow> True | _ \<Rightarrow> False)"

definition outs :: "chatNodeCtx \<Rightarrow> nat" where
  "outs st = length (filter is_out (trace st))"

lemma is_out_simps [simp]:
  "is_out (Outgoing m)" "\<not> is_out (LogMessage a b)" "\<not> is_out (HttpDo q)" "\<not> is_out (AIGenerate u)"
  "\<not> is_out (TransferToTeam t n)" "\<not> is_out TransferToQueue" "\<not> is_out ReadClock" "\<not> is_out (SaveSession s)"
  by (simp_all add: is_out_def)

lemma outs_emit [simp]: "outs (emit e st) = outs st + (if is_out e then 1 else 0)"
  by (simp add: outs_def emit_def)

lemma outs_simps [simp]:
  "outs (upd_session f st) = outs st" "outs (st\<lparr>consumed := b\<rparr>) = outs st"
  "outs (st\<lparr>userInput := i, buttonID := j\<rparr>) = outs st"
  "outs (store k v st) = outs st" "outs (ensure_data st) = outs st" "outs (set_retries n st) = outs st"
  "outs (complete st) = outs st" "outs (append_path p st) = outs st" "outs (seed_phone st) = outs st"
  "outs (appendChatPath nd oc st) = outs st" "outs (goto_step i st) = outs st"
  by (simp_all add: outs_def upd_session_def store_def ensure_data_def set_retries_def complete_def append_path_def
      seed_phone_def appendChatPath_def goto_step_def)

lemma outs_log [simp]: "outs (logSessionMessage m i st) = outs st"
  by (simp add: logSessionMessage_def)

lemma outs_send [simp]: "outs (snd (SendOutgoing env m st)) = outs st + 1"
  by (simp add: SendOutgoing_def)

text \<open>At most one message when the run goes on, at most two when it stops at the node.\<close>

definition sends_little :: "nat \<Rightarrow> chat_error + nodeOutcome \<Rightarrow> chatNodeCtx \<Rightarrow> bool" where
  "sends_little k x st \<longleftrightarrow> outs st \<le> k + 1 \<or> outs st \<le> k + 2 \<and> (\<forall>r. x = Inr r \<longrightarrow> yield r)"

lemma little_one: "outs st \<le> k + 1 \<Longrightarrow> sends_little k x st"
  by (simp add: sends_little_def)

lemma little_say: "outs st = k \<Longrightarrow> ends (sends_little k) (say env what text nid oc st)"
  by (intro ends_say) (auto simp: sends_little_def)

lemma send_ctas_outs: "outs (snd (send_ctas env body bs st)) \<le> outs st + length bs"
proof (induction env body bs st rule: send_ctas.induct)
  case (2 env body i b bs st)
  show ?case
    using 2 [OF refl refl]
    by (auto simp: Let_def sendAndSaveCTAURLButton_def SendOutgoing_def split: option.split)
qed simp

lemma sendButtons_outs: "outs (snd (sendAndSaveInteractiveButtons env body bs st)) \<le> outs st + 2"
proof -
  have "length (enumerate 0 (take 2 (cta_buttons bs))) \<le> 2"
    by simp
  then have "outs (snd (send_ctas env body (enumerate 0 (take 2 (cta_buttons bs))) st)) \<le> outs st + 2"
    using send_ctas_outs [of env body "enumerate 0 (take 2 (cta_buttons bs))" st] by linarith
  then show ?thesis
    by (simp add: sendButtons_eq Let_def sendAndSaveTextMessage_def)
qed

lemma api_outs: "executeConfiguredAPI env c rv st = Some (r, st') \<Longrightarrow> outs st' = outs st"
  by (auto simp: executeConfiguredAPI_def Let_def bind_eq_Some_conv split: if_splits option.splits)

lemma mapping_outs: "apply_mapping env n b st = Some st' \<Longrightarrow> outs st' = outs st"
  by (auto simp: apply_mapping_def Let_def bind_eq_Some_conv split: if_splits option.splits)

lemma set_variables_outs: "set_variables env as st = Some st' \<Longrightarrow> outs st' = outs st"
  by (induction env as st rule: set_variables.induct)
     (auto simp: bind_eq_Some_conv split: if_splits option.splits)

lemma little_buttons: "ends (sends_little (outs st)) (execChatButtons env n st)"
proof -
  have "ends (sends_little (outs st))
          (case sendAndSaveInteractiveButtons env body bs st of
             (Some err, st') \<Rightarrow> fail (SendFailed w err) st'
           | (None, st') \<Rightarrow> ok stay (logSessionMessage body i st'))" for body bs w i
    using sendButtons_outs [of env body bs st]
    by (cases "sendAndSaveInteractiveButtons env body bs st")
       (simp add: sends_little_def stay_def split: option.split)
  then show ?thesis
    by (simp add: execChatButtons_def Let_def ends_bind little_one)
qed

lemma little_ai: "ends (sends_little (outs st)) (execChatAIResponse env n st)"
proof -
  have "ends (sends_little (outs st))
          (case env_ai env (trace st1) u of
             Inl err \<Rightarrow> ok (advance ''default'') (emit (AIGenerate u) st1)
           | Inr answer \<Rightarrow>
               if answer = [] then ok (advance ''default'') (emit (AIGenerate u) st1)
               else say env ''send ai response'' answer (node_ID n) (advance ''default'')
                      (emit (AIGenerate u) st1))" if "outs st1 = outs st" for st1 u
    using that by (simp add: little_say sends_little_def split: sum.split)
  then show ?thesis
    by (auto simp: execChatAIResponse_def Let_def sends_little_def split: sum.split if_splits intro!: ends_bind)
qed

lemma little_transfer: "ends (sends_little (outs st)) (execChatTransfer env n st)"
proof -
  have body: "outs (case sendAndSaveTextMessage env m st of
        (Some err, st') \<Rightarrow> st' | (None, st') \<Rightarrow> logSessionMessage m i st') = outs st + 1" for m i
    by (simp add: sendAndSaveTextMessage_def SendOutgoing_def split: option.split)
  show ?thesis
    unfolding execChatTransfer_def Let_def
    by (intro ends_bind) (auto simp: bind_eq_Some_conv body sends_little_def split: option.splits if_splits)
qed

lemma little_api_call: "ends (sends_little (outs st)) (execChatAPICall env n st)"
  by (auto simp: execChatAPICall_def Let_def sendAndSaveTextMessage_def SendOutgoing_def sends_little_def
      split: sum.split option.split intro!: ends_bind dest!: api_outs mapping_outs)

lemma little_rest:
  "ends (sends_little (outs st)) (execChatMessage env n st)"
  "ends (sends_little (outs st)) (execChatPrompt env n st)"
  "ends (sends_little (outs st)) (execChatCondition env n st)"
  "ends (sends_little (outs st)) (execChatTiming env n st)"
  "ends (sends_little (outs st)) (execChatGotoFlow env n st)"
  "ends (sends_little (outs st)) (execChatEnd env n st)"
  by (auto simp: execChatMessage_def execChatPrompt_def handleChatPromptInvalid_def execChatCondition_def
      execChatTiming_def execChatGotoFlow_def execChatEnd_def Let_def
      split: option.split sum.split intro!: ends_bind little_say little_one)

lemma little_webhook: "ends (sends_little (outs st)) (execChatWebhook env n st)"
  by (auto simp: execChatWebhook_def Let_def sends_little_def intro!: ends_bind dest!: api_outs)

lemma little_setvar: "ends (sends_little (outs st)) (execChatSetVariable env n st)"
  by (auto simp: execChatSetVariable_def Let_def sends_little_def intro!: ends_bind dest!: set_variables_outs)

lemma little_waflow: "ends (sends_little (outs st)) (execChatWhatsAppFlow env n st)"
  by (auto simp: execChatWhatsAppFlow_def Let_def sends_little_def sendAndSaveFlowMessage_def SendOutgoing_def
      split: option.split intro!: ends_bind)

lemmas executors_send_little =
  little_buttons little_ai little_transfer little_api_call little_rest little_webhook little_setvar little_waflow

lemma executeChatNode_outs: "ends (sends_little (outs st)) (executeChatNode env n st)"
  by (simp add: executeChatNode_def Let_def executors_send_little little_one)

lemma outs_persist [simp]: "outs (snd (persistChatSession env st)) = outs st"
  by (simp add: persistChatSession_def Let_def)

lemma outs_returns:
  "ends (\<lambda>_ st'. outs st' \<le> k) (persist_done env st) \<longleftrightarrow> outs st \<le> k"
  "ends (\<lambda>_ st'. outs st' \<le> k) (persist_fail env e st) \<longleftrightarrow> outs st \<le> k"
  using outs_persist [of env st]
  by (cases "persistChatSession env st"; simp add: ends_persist_done ends_persist_fail split: option.split)+

lemma outs_iteration:
  "step_ok (\<lambda>_ _ st'. outs st' \<le> outs st + 1) (\<lambda>_ st'. outs st' \<le> outs st + 2) (chat_iteration env flow g st)"
proof -
  have follow: "step_ok (\<lambda>_ _ st'. outs st' \<le> outs st + 1) (\<lambda>_ st'. outs st' \<le> outs st + 2) (follow env flow g i oc st')"
    if "outs st' \<le> outs st + 1" for i oc st'
    using that by (simp add: follow_def Let_def outs_returns)
  have switch: "step_ok (\<lambda>_ _ st'. outs st' \<le> outs st + 1) (\<lambda>_ st'. outs st' \<le> outs st + 2) (switch_flow env i st')"
    if "outs st' \<le> outs st + 1" for i st'
    using that by (auto simp: switch_flow_def outs_returns split: sum.split option.split)
  have exec: "sends_little (outs st) x st1" if "executeChatNode env n st = Some (x, st1)" for n x st1
    using that endsD [OF executeChatNode_outs] by blast
  show ?thesis
    by (cases rule: iteration_cases [where env = env and flow = flow and g = g and st = st])
       (auto simp: outs_returns sends_little_def intro!: follow [simplified] switch [simplified] dest!: exec)
qed

lemma outs_loop: "ends (\<lambda>_ st'. outs st' \<le> outs st + n + 1) (chat_loop n env flow g st)"
proof (induction n arbitrary: flow g st)
  case 0
  then show ?case by (simp add: outs_returns)
next
  case (Suc n)
  show ?case
  proof (cases "chat_iteration env flow g st")
    case (Return r)
    then show ?thesis
      using outs_iteration [of st env flow g] by (auto simp: ends_def)
  next
    case (Continue f' g' st')
    then have "outs st' \<le> outs st + 1"
      using outs_iteration [of st env flow g] by simp
    then show ?thesis
      using Suc.IH [of st' f' g'] Continue by (auto simp: ends_def)
  qed
qed

section \<open>Properties\<close>

text \<open>
  One inbound message makes a chat graph send at most 101 messages, whatever its nodes, edges
  and jumps between flows: at most one per executed node, and one more for a last node that sends
  two call-to-action buttons.
\<close>
theorem run_message_bound:
  assumes "runChatGraph env s flow input button formData [] = Some (x, st)"
  shows "length (filter is_out (trace st)) \<le> 101"
proof -
  have "ends (\<lambda>_ st'. outs st' \<le> 101) (runChatGraph env s flow input button formData [])"
  proof (rule run_ends)
    show "ends (\<lambda>_ st'. outs st' \<le> 101)
            (chat_loop maxChatGraphIterations env flow g (entry_state env s g input button formData []))" for g
      using outs_loop [of "entry_state env s g input button formData []" maxChatGraphIterations env flow g]
      by (simp add: maxChatGraphIterations_def outs_def entry_state_simps)
  qed (simp_all add: outs_def)
  from endsD [OF this assms] show ?thesis
    by (simp add: outs_def)
qed

theorem run_message_bound_witness:
  "\<exists>x st. runChatGraph sample_env sample_session order_flow ''order'' [] [] [] = Some (x, st) \<and>
     length (filter is_out (trace st)) \<le> 101"
proof -
  have "runChatGraph sample_env sample_session order_flow ''order'' [] [] [] \<noteq> None"
    by code_simp
  then obtain x st where r: "runChatGraph sample_env sample_session order_flow ''order'' [] [] [] = Some (x, st)"
    by auto
  then show ?thesis
    using run_message_bound [OF r] by blast
qed

subsection \<open>Prompts\<close>

text \<open>
  A rejected answer is counted and answered with exactly one validation message while fewer
  than \<open>max_retries\<close> answers in a row were rejected; the answer that reaches the limit sends
  nothing, resets the counter and leaves by the \<open>max_retries\<close> edge. An accepted answer resets
  the counter and is stored under \<open>store_as\<close>.
\<close>
theorem prompt_answer_handling:
  assumes "\<not> consumed st" "userInput st \<noteq> []" "execChatPrompt env n st = Some (Inr res, st')"
    and "limit = intFromConfig (cfg n) ''max_retries'' 3"
    and "retries = StepRetries (ctx_session st) + 1"
  shows "if \<not> prompt_rejects env n (userInput st) then
           res = advance ''default'' \<and> StepRetries (ctx_session st') = 0 \<and> outs st' = outs st \<and>
           (let v = stringFromConfig (cfg n) [''store_as''] in
            v \<noteq> [] \<longrightarrow> obj_get (data_of st') v = StrV (userInput st))
         else if limit \<le> retries then
           res = advance ''max_retries'' \<and> StepRetries (ctx_session st') = 0 \<and> outs st' = outs st
         else res = stay \<and> StepRetries (ctx_session st') = retries \<and> retries < limit \<and> outs st' = outs st + 1"
proof -
  have retries: "StepRetries (ctx_session (set_retries k s)) = k" for k s
    by (simp add: set_retries_def upd_session_def)
  have emits: "ctx_session (emit e s) = ctx_session s" for e s
    by (simp add: emit_def)
  have stored: "obj_get (data_of (set_retries 0 (store k v s))) k = v" for k v s
    by (simp add: data_of_def set_retries_def store_def upd_session_def set_data_def)
  show ?thesis
  proof (cases "prompt_rejects env n (userInput st)")
    case False
    with assms show ?thesis
      by (auto simp: execChatPrompt_def Let_def ok_def retries stored split: if_splits)
  next
    case rejected: True
    with assms(1-3) have h: "handleChatPromptInvalid env n (st\<lparr>consumed := True\<rparr>) = Some (Inr res, st')"
      by (simp add: execChatPrompt_def Let_def)
    show ?thesis
    proof (cases "limit \<le> retries")
      case True
      with h rejected assms(4,5) show ?thesis
        by (auto simp: handleChatPromptInvalid_def Let_def ok_def retries)
    next
      case False
      with h assms(4,5) obtain t where
        "say env ''send validation error'' t (node_ID n) stay (set_retries retries (st\<lparr>consumed := True\<rparr>)) = Some (Inr res, st')"
        by (auto simp: handleChatPromptInvalid_def Let_def bind_eq_Some_conv)
      with False rejected show ?thesis
        by (auto simp: say_def sendAndSaveTextMessage_def SendOutgoing_def ok_def fail_def retries emits
            logSessionMessage_def split: option.splits)
    qed
  qed
qed

definition size_node :: node where
  "size_node = \<lparr>node_ID = ''size'', node_Type = ''prompt'', node_Label = [], node_Position = \<lparr>pos_X = 0, pos_Y = 0\<rparr>,
     node_Config = Some [(''body'', StrV ''Your size?''), (''store_as'', StrV ''size''),
                         (''validation_regex'', StrV ''^[0-9]+$'')]\<rparr>"

definition inbound :: "string \<Rightarrow> chatNodeCtx" where
  "inbound t = \<lparr>ctx_session = sample_session, userInput = t, buttonID = [], flowResponseData = [],
     consumed = False, trace = []\<rparr>"

theorem prompt_answer_handling_witness:
  "\<exists>res st'. execChatPrompt sample_env size_node (inbound ''big'') = Some (Inr res, st') \<and>
     prompt_rejects sample_env size_node ''big'' \<and> res = stay \<and> StepRetries (ctx_session st') = 1 \<and> outs st' = 1"
proof -
  have "case execChatPrompt sample_env size_node (inbound ''big'') of Some (Inr _, _) \<Rightarrow> True | _ \<Rightarrow> False"
    by code_simp
  then obtain res st' where r: "execChatPrompt sample_env size_node (inbound ''big'') = Some (Inr res, st')"
    by (auto split: option.splits sum.splits)
  have "\<not> consumed (inbound ''big'')" "userInput (inbound ''big'') = ''big''"
    "StepRetries (ctx_session (inbound ''big'')) = 0" "outs (inbound ''big'') = 0"
    by (simp_all add: inbound_def sample_session_def outs_def)
  moreover have "intFromConfig (cfg size_node) ''max_retries'' 3 = 3" "prompt_rejects sample_env size_node ''big''"
    by code_simp+
  ultimately show ?thesis
    using prompt_answer_handling [OF _ _ r refl refl] r by auto
qed

text \<open>
  The iterations of a run that resumes at a prompt whose answer is accepted and whose next node is
  a prompt again.
\<close>

lemma prompt_iteration_accept:
  assumes "Node g (CurrentStep (ctx_session st)) = Some n" "node_Type n = ''prompt''"
    and "stringFromConfig (cfg n) [''skip_condition''] = []"
    and "\<not> consumed st" "userInput st \<noteq> []" "\<not> prompt_rejects env n (userInput st)"
    and "CurrentFlowID (ctx_session st) = Some (flow_ID flow)"
    and "ResolveEdge g (node_ID n) ''default'' = b" "b \<noteq> []"
  shows "\<exists>st'. chat_iteration env flow g st = Continue flow g st' \<and> CurrentStep (ctx_session st') = b \<and>
           consumed st' \<and> trace st' = trace st \<and> StepRetries (ctx_session st') = 0"
  using assms
  by (simp add: chat_iteration_def skips_def Let_def executeChatNode_def execChatPrompt_def ok_def advance_def
      follow_def appendChatPath_def append_path_def store_def set_retries_def upd_session_def set_data_def goto_step_def)

lemma prompt_iteration_consumed:
  assumes "Node g (CurrentStep (ctx_session st)) = Some n" "node_Type n = ''prompt''"
    and "stringFromConfig (cfg n) [''skip_condition''] = []" "consumed st"
  shows "chat_iteration env flow g st = Return (persist_done env (appendChatPath n [] st))"
  using assms
  by (simp add: chat_iteration_def skips_def Let_def executeChatNode_def execChatPrompt_def ok_def stay_def)

lemma persist_done_state: "\<exists>x. persist_done env st = Some (x, snd (persistChatSession env st))"
  by (cases "persistChatSession env st") (auto simp: persist_done_def ok_def fail_def split: option.split)

lemma persist_step: "CurrentStep (ctx_session (snd (persistChatSession env st))) = CurrentStep (ctx_session st)"
  by (simp add: persistChatSession_def Let_def emit_def upd_session_def)

lemma path_step: "CurrentStep (ctx_session (appendChatPath n oc st)) = CurrentStep (ctx_session st)"
  by (simp add: appendChatPath_def append_path_def store_def set_data_def upd_session_def)

lemma chained_prompt_run:
  assumes "parseChatGraph (flow_Graph flow) = Inr (Some g)" "CurrentFlowID s = Some (flow_ID flow)"
    and "CurrentStep s = a" "a \<noteq> []" "Node g a = Some n1" "Node g b = Some n2" "b \<noteq> []"
    and "node_Type n1 = ''prompt''" "node_Type n2 = ''prompt''"
    and "ResolveEdge g (node_ID n1) ''default'' = b"
    and "stringFromConfig (cfg n1) [''skip_condition''] = []" "stringFromConfig (cfg n2) [''skip_condition''] = []"
    and "input \<noteq> []" "\<not> prompt_rejects env n1 input"
  shows "\<exists>x st. runChatGraph env s flow input button formData [] = Some (x, st) \<and>
           CurrentStep (ctx_session st) = b \<and> filter is_out (trace st) = []"
proof -
  let ?st = "entry_state env s g input button formData []"
  have st: "\<not> consumed ?st" "userInput ?st = input" "CurrentStep (ctx_session ?st) = a" "trace ?st = []"
      "CurrentFlowID (ctx_session ?st) = Some (flow_ID flow)"
    using assms(2-4) by (simp_all add: entry_state_def Let_def)
  obtain st1 where i1: "chat_iteration env flow g ?st = Continue flow g st1" "CurrentStep (ctx_session st1) = b"
      "consumed st1" "trace st1 = []"
    using prompt_iteration_accept [of g ?st n1 env flow b] assms st by auto
  have i2: "chat_iteration env flow g st1 = Return (persist_done env (appendChatPath n2 [] st1))"
    using prompt_iteration_consumed [of g st1 n2] assms i1 by simp
  obtain k where k: "maxChatGraphIterations = Suc (Suc k)"
    using that [of 98] by (simp add: maxChatGraphIterations_def)
  have run: "runChatGraph env s flow input button formData [] = persist_done env (appendChatPath n2 [] st1)"
    unfolding run_loop [OF assms(1)] k using i1(1) i2 by simp
  have "outs (snd (persistChatSession env (appendChatPath n2 [] st1))) = 0"
    using i1(4) by (simp, simp add: outs_def)
  with persist_done_state [of env "appendChatPath n2 [] st1"] i1(2) show ?thesis
    unfolding run by (auto simp: persist_step path_step outs_def)
qed

text \<open>
  A prompt that follows another prompt is never asked. When a session resumes at a prompt
  with an accepted answer and the next node is a prompt as well, the run stops at the second
  prompt without sending anything, so the customer's next message is taken as its answer although
  the question was never put.
\<close>
theorem chained_prompt_never_asked:
  assumes "parseChatGraph (flow_Graph flow) = Inr (Some g)" "CurrentFlowID s = Some (flow_ID flow)"
    and "CurrentStep s = a" "a \<noteq> []" "Node g a = Some n1" "Node g b = Some n2" "b \<noteq> []"
    and "node_Type n1 = ''prompt''" "node_Type n2 = ''prompt''"
    and "ResolveEdge g (node_ID n1) ''default'' = b"
    and "stringFromConfig (cfg n1) [''skip_condition''] = []" "stringFromConfig (cfg n2) [''skip_condition''] = []"
    and "input \<noteq> []" "\<not> prompt_rejects env n1 input"
  shows "\<exists>x st. runChatGraph env s flow input button formData [] = Some (x, st) \<and>
           CurrentStep (ctx_session st) = b \<and> filter is_out (trace st) = []"
  by (rule chained_prompt_run [OF assms])

theorem chained_prompt_never_asked_witness:
  "\<exists>x st. runChatGraph sample_env (sample_session\<lparr>CurrentStep := ''name''\<rparr>) order_flow ''Amal'' [] [] [] = Some (x, st) \<and>
     CurrentStep (ctx_session st) = ''size'' \<and> filter is_out (trace st) = []"
proof -
  have "case parseChatGraph (flow_Graph order_flow) of
          Inr (Some g) \<Rightarrow>
            (case (Node g ''name'', Node g ''size'') of
               (Some n1, Some n2) \<Rightarrow>
                 node_Type n1 = ''prompt'' \<and> node_Type n2 = ''prompt'' \<and>
                 ResolveEdge g (node_ID n1) ''default'' = ''size'' \<and>
                 stringFromConfig (cfg n1) [''skip_condition''] = [] \<and>
                 stringFromConfig (cfg n2) [''skip_condition''] = [] \<and> \<not> prompt_rejects sample_env n1 ''Amal''
             | _ \<Rightarrow> False)
        | _ \<Rightarrow> False"
    by code_simp
  then obtain g n1 n2 where "parseChatGraph (flow_Graph order_flow) = Inr (Some g)"
      "Node g ''name'' = Some n1" "Node g ''size'' = Some n2" "node_Type n1 = ''prompt''" "node_Type n2 = ''prompt''"
      "ResolveEdge g (node_ID n1) ''default'' = ''size''" "stringFromConfig (cfg n1) [''skip_condition''] = []"
      "stringFromConfig (cfg n2) [''skip_condition''] = []" "\<not> prompt_rejects sample_env n1 ''Amal''"
    by (auto split: sum.splits option.splits)
  then show ?thesis
    by (intro chained_prompt_never_asked [where g = g and a = "''name''" and ?n1.0 = n1 and ?n2.0 = n2])
       (simp_all add: sample_session_def order_flow_def flow_of_def)
qed

subsection \<open>The bound of the loop\<close>

definition chat_path :: "chatNodeCtx \<Rightarrow> any list" where
  "chat_path st = arr_or (obj_get (data_of st) ''__path__'')"

lemma chat_path_simps [simp]:
  "length (chat_path (appendChatPath n oc st)) = length (chat_path st) + 1"
  "chat_path (goto_step i st) = chat_path st"
  "chat_path (snd (persistChatSession env st)) = chat_path st"
  by (simp_all add: chat_path_def data_of_def appendChatPath_def append_path_def store_def set_data_def upd_session_def
      goto_step_def persistChatSession_def emit_def Let_def)

















subsection \<open>Interactive buttons\<close>

text \<open>What WhatsApp accepts: one to ten titled reply buttons, a list from the fourth on.\<close>

fun deliverable :: "outgoing \<Rightarrow> bool" where
  "deliverable (OutInteractive t body ws) \<longleftrightarrow>
     ws \<noteq> [] \<and> length ws \<le> 10 \<and> list_all (\<lambda>(i, title). i \<noteq> [] \<and> title \<noteq> []) ws \<and>
     t = (if 3 < length ws then ''list'' else ''button'')"
| "deliverable (OutCTA body title url) \<longleftrightarrow> title \<noteq> [] \<and> url \<noteq> []"
| "deliverable _ \<longleftrightarrow> True"

lemma enumerate_snd: "(i, b) \<in> set (enumerate k xs) \<Longrightarrow> b \<in> set xs"
  by (induction xs arbitrary: k) auto

lemma length_map_filter: "length (List.map_filter f xs) \<le> length xs"
  by (induction xs) (auto simp: map_filter_simps split: option.split)

lemma wa_buttons_deliverable: "ws = wa_buttons bs \<Longrightarrow> ws \<noteq> [] \<Longrightarrow> deliverable (OutInteractive (interactive_type ws) body ws)"
proof -
  assume ws: "ws = wa_buttons bs" "ws \<noteq> []"
  have "length ws \<le> 10"
    unfolding ws(1) wa_buttons_def using length_map_filter [of wa_button "enumerate 0 (take 10 bs)"] by simp
  moreover have "list_all (\<lambda>(i, title). i \<noteq> [] \<and> title \<noteq> []) ws"
    unfolding ws(1) wa_buttons_def
    by (auto simp: list_all_iff List.map_filter_def wa_button_def Let_def split: if_splits)
  ultimately show ?thesis
    using ws(2) by (simp add: interactive_type_def)
qed

lemma send_ctas_trace:
  "\<exists>es. trace (snd (send_ctas env body bs st)) = trace st @ map Outgoing es \<and>
     list_all (\<lambda>m. deliverable m \<and> (\<exists>b t u. m = OutCTA b t u)) es \<and> length es \<le> length bs"
proof (induction env body bs st rule: send_ctas.induct)
  case (1 env body st)
  then show ?case by (intro exI [of _ "[]"]) simp
next
  case (2 env body i b bs st)
  let ?t = "str_or (obj_get b ''title'')" and ?u = "str_or (obj_get b ''url'')"
  let ?m = "OutCTA (if i > 0 then ?t else body) ?t ?u"
  show ?case
  proof (cases "?t \<noteq> [] \<and> ?u \<noteq> []")
    case False
    then have e: "send_ctas env body ((i, b) # bs) st = send_ctas env body bs st"
      by (auto simp: Let_def)
    from 2(2) [OF refl refl False] show ?thesis
      unfolding e by force
  next
    case True
    show ?thesis
    proof (cases "env_send env (trace st) ?m")
      case (Some err)
      with True show ?thesis
        by (intro exI [of _ "[?m]"]) (simp add: Let_def sendAndSaveCTAURLButton_def SendOutgoing_def emit_def)
    next
      case None
      with True have e: "send_ctas env body ((i, b) # bs) st = send_ctas env body bs (emit (Outgoing ?m) st)"
        by (simp add: Let_def sendAndSaveCTAURLButton_def SendOutgoing_def)
      have "\<exists>es. trace (snd (send_ctas env body bs (emit (Outgoing ?m) st))) = trace (emit (Outgoing ?m) st) @ map Outgoing es \<and>
         list_all (\<lambda>m. deliverable m \<and> (\<exists>b t u. m = OutCTA b t u)) es \<and> length es \<le> length bs"
        using 2(1) [OF refl refl True, of None "emit (Outgoing ?m) st"] None
        by (simp add: sendAndSaveCTAURLButton_def SendOutgoing_def)
      then obtain es where "trace (snd (send_ctas env body bs (emit (Outgoing ?m) st))) = trace st @ map Outgoing (?m # es)"
          "list_all (\<lambda>m. deliverable m \<and> (\<exists>b t u. m = OutCTA b t u)) es" "length es \<le> length bs"
        by (auto simp: emit_def)
      with True show ?thesis
        unfolding e by (intro exI [of _ "?m # es"]) simp
    qed
  qed
qed

text \<open>
  Whatever buttons are configured, what is sent is acceptable to WhatsApp: reply buttons go
  out as one message with one to ten titled buttons (a list when there are more than three), and
  call-to-action buttons as at most two messages; the two kinds are never mixed.
\<close>
theorem buttons_sent_deliverable:
  "\<exists>es. trace (snd (sendAndSaveInteractiveButtons env body bs st)) = trace st @ map Outgoing es \<and>
     list_all deliverable es \<and> length es \<le> 2 \<and>
     (length es \<le> 1 \<or> list_all (\<lambda>m. \<exists>b t u. m = OutCTA b t u) es)"
proof -
  consider (reply) "reply_buttons bs \<noteq> []" "wa_buttons (reply_buttons bs) \<noteq> []"
    | (none) "reply_buttons bs \<noteq> []" "wa_buttons (reply_buttons bs) = []"
    | (cta) "reply_buttons bs = []" "cta_buttons bs \<noteq> []"
    | (plain) "reply_buttons bs = []" "cta_buttons bs = []"
    by blast
  then show ?thesis
  proof cases
    case reply
    let ?ws = "wa_buttons (reply_buttons bs)"
    show ?thesis
      using reply wa_buttons_deliverable [OF refl reply(2), of body]
      by (intro exI [of _ "[OutInteractive (interactive_type ?ws) body ?ws]"])
         (simp add: sendButtons_eq Let_def SendOutgoing_def emit_def)
  next
    case none
    then show ?thesis
      by (intro exI [of _ "[]"]) (simp add: sendButtons_eq Let_def)
  next
    case cta
    from send_ctas_trace [of env body "enumerate 0 (take 2 (cta_buttons bs))" st]
    obtain es where "trace (snd (send_ctas env body (enumerate 0 (take 2 (cta_buttons bs))) st)) = trace st @ map Outgoing es"
      "list_all (\<lambda>m. deliverable m \<and> (\<exists>b t u. m = OutCTA b t u)) es" "length es \<le> 2"
      by auto
    with cta show ?thesis
      by (intro exI [of _ es]) (auto simp: sendButtons_eq Let_def list_all_iff)
  next
    case plain
    then show ?thesis
      by (intro exI [of _ "[OutText body]"])
         (simp add: sendButtons_eq Let_def sendAndSaveTextMessage_def SendOutgoing_def emit_def)
  qed
qed

text \<open>
  A button node whose reply buttons all lack a title sends nothing at all, not even its body,
  and reports success: the fallback to a plain text covers only an empty list of buttons.
\<close>
theorem untitled_buttons_send_nothing:
  assumes "reply_buttons bs \<noteq> []" "list_all (\<lambda>b. str_or (obj_get b ''title'') = []) (reply_buttons bs)"
  shows "sendAndSaveInteractiveButtons env body bs st = (None, st)"
proof -
  have "wa_buttons (reply_buttons bs) = []"
    using assms(2)
    by (auto simp: wa_buttons_def List.map_filter_def filter_empty_conv wa_button_def Let_def list_all_iff
        dest!: enumerate_snd in_set_takeD split: if_splits)
  with assms(1) show ?thesis
    by (simp add: sendButtons_eq Let_def)
qed

theorem untitled_buttons_send_nothing_witness:
  "sendAndSaveInteractiveButtons sample_env ''Choose'' [[(''id'', StrV ''yes'')]] (inbound ''x'') = (None, inbound ''x'')"
proof -
  have "reply_buttons [[(''id'', StrV ''yes'')]] = [[(''id'', StrV ''yes'')]]"
    by code_simp
  then show ?thesis
    using untitled_buttons_send_nothing [of "[[(''id'', StrV ''yes'')]]" sample_env "''Choose''" "inbound ''x''"]
    by (simp add: obj_get_def)
qed

end
