(* ===== verification/Flow_Migration.thy ===== *)
theory Flow_Migration
  imports Chat_Dialogue
begin

text \<open>
  \<open>chatbot_flow_migration.go\<close>: conversion of the legacy step tables into v2 flow graphs, and the
  backfill over the flow rows at start-up. The properties tie the conversion to the engine: what
  it produces is accepted by \<open>parseChatGraph\<close> and closed, so no migrated session gets lost.
\<close>

section \<open>Legacy rows\<close>

record flow_step =
  StepName :: string
  StepOrder :: int
  step_Message :: string
  MessageType :: string
  ApiConfig :: jsonb
  step_Buttons :: "any list"
  TransferConfig :: jsonb
  InputType :: string
  InputConfig :: jsonb
  ValidationRegex :: string
  ValidationError :: string
  StoreAs :: string
  NextStep :: string
  ConditionalNext :: jsonb
  SkipCondition :: string
  MaxRetries :: int

section \<open>Nodes\<close>

definition v2SupportedMessageType :: "string \<Rightarrow> bool" where
  "v2SupportedMessageType mt \<longleftrightarrow>
     mt \<in> {''text'', ''buttons'', ''end'', ''condition'', ''timing'', ''goto_flow'', ''api_fetch'',
           ''whatsapp_flow'', ''transfer''}"

definition textStepCapturesInput :: "flow_step \<Rightarrow> bool" where
  "textStepCapturesInput step \<longleftrightarrow>
     InputType step \<noteq> [] \<and> InputType step \<noteq> ''none'' \<or> StoreAs step \<noteq> [] \<or> ValidationRegex step \<noteq> []"

definition messageTypeToNodeTypeGo :: "string \<Rightarrow> string" where
  "messageTypeToNodeTypeGo mt =
     (if mt = ''text'' then ''message'' else if mt = ''api_fetch'' then ''api_call'' else mt)"

definition node_type_of :: "flow_step \<Rightarrow> string" where
  "node_type_of step =
     (if MessageType step = ''text'' \<and> textStepCapturesInput step then ''prompt''
      else messageTypeToNodeTypeGo (MessageType step))"

definition extractCanvasPositions :: "jsonb \<Rightarrow> (string \<times> rat \<times> rat) list" where
  "extractCanvasPositions raw =
     (case as_obj (obj_get (jsonb raw) ''node_positions'') of
        None \<Rightarrow> []
      | Some positions \<Rightarrow>
          List.map_filter (\<lambda>(name, p). map_option (\<lambda>m. (name, float_or (obj_get m ''x''), float_or (obj_get m ''y'')))
                                         (as_obj p)) positions)"

definition getStringFromJSONB :: "jsonb \<Rightarrow> string \<Rightarrow> string" where
  "getStringFromJSONB j key = str_or (obj_get (jsonb j) key)"

text \<open>An entry that is written only when its text is not empty.\<close>

definition opt_str :: "string \<Rightarrow> string \<Rightarrow> obj" where
  "opt_str k v = (if v \<noteq> [] then [(k, StrV v)] else [])"

definition first_str :: "jsonb \<Rightarrow> string \<Rightarrow> string \<Rightarrow> string" where
  "first_str j k1 k2 = (if getStringFromJSONB j k1 = [] then getStringFromJSONB j k2 else getStringFromJSONB j k1)"

definition obj_field :: "jsonb \<Rightarrow> string \<Rightarrow> any" where
  "obj_field j k = ObjV (obj_or (obj_get (jsonb j) k))"

definition buildNodeConfig :: "string \<Rightarrow> flow_step \<Rightarrow> obj" where
  "buildNodeConfig nodeType step =
     (if nodeType = ''message'' then [(''message'', StrV (step_Message step))]
      else if nodeType = ''prompt'' then
        [(''body'', StrV (step_Message step))] @ opt_str ''validation_regex'' (ValidationRegex step) @
        opt_str ''validation_error'' (ValidationError step) @ opt_str ''store_as'' (StoreAs step) @
        (if 0 < MaxRetries step then [(''max_retries'', IntV (MaxRetries step))] else [])
      else if nodeType = ''buttons'' then
        [(''body'', StrV (step_Message step)), (''buttons'', ArrV (step_Buttons step))] @
        opt_str ''store_as'' (StoreAs step)
      else if nodeType = ''end'' then opt_str ''message'' (step_Message step)
      else if nodeType = ''condition'' then [(''expression'', StrV (getStringFromJSONB (InputConfig step) ''expression''))]
      else if nodeType = ''timing'' then
        [(''schedule'', ArrV (arr_or (obj_get (jsonb (InputConfig step)) ''schedule'')))]
      else if nodeType = ''goto_flow'' then [(''flow_id'', StrV (getStringFromJSONB (InputConfig step) ''flow_id''))]
      else if nodeType = ''api_call'' then
        (let ac = ApiConfig step; method = getStringFromJSONB ac ''method'' in
         [(''url'', StrV (getStringFromJSONB ac ''url'')),
          (''method'', StrV (if method = [] then ''GET'' else method)),
          (''headers'', obj_field ac ''headers''), (''body'', StrV (getStringFromJSONB ac ''body'')),
          (''response_mapping'', obj_field ac ''response_mapping'')] @
         opt_str ''fallback_message'' (getStringFromJSONB ac ''fallback_message'') @
         opt_str ''message_template'' (step_Message step))
      else if nodeType = ''whatsapp_flow'' then
        (let ic = InputConfig step in
         [(''flow_id'', StrV (first_str ic ''whatsapp_flow_id'' ''flow_id'')),
          (''header'', StrV (first_str ic ''flow_header'' ''header'')),
          (''cta'', StrV (first_str ic ''flow_cta'' ''cta''))] @ opt_str ''body'' (step_Message step))
      else if nodeType = ''transfer'' then
        opt_str ''team_id'' (getStringFromJSONB (TransferConfig step) ''team_id'') @
        opt_str ''notes'' (getStringFromJSONB (TransferConfig step) ''notes'') @
        opt_str ''body'' (step_Message step)
      else [])"

definition node_obj :: "string \<Rightarrow> string \<Rightarrow> string \<Rightarrow> any \<Rightarrow> any \<Rightarrow> obj \<Rightarrow> any" where
  "node_obj i t l x y c =
     ObjV [(''id'', StrV i), (''type'', StrV t), (''label'', StrV l),
           (''position'', ObjV [(''x'', x), (''y'', y)]), (''config'', ObjV c)]"

definition step_node :: "(string \<times> rat \<times> rat) list \<Rightarrow> nat \<times> flow_step \<Rightarrow> any" where
  "step_node positions = (\<lambda>(i, step).
     (let (x, y) = (case map_of positions (StepName step) of Some p \<Rightarrow> p | None \<Rightarrow> (300, of_nat (i * 150)))
      in node_obj (StepName step) (node_type_of step) (StepName step) (FloatV x) (FloatV y)
           (buildNodeConfig (node_type_of step) step)))"

section \<open>Edges\<close>

definition edge_obj :: "string \<Rightarrow> string \<Rightarrow> string \<Rightarrow> any" where
  "edge_obj f t c = ObjV [(''from'', StrV f), (''to'', StrV t), (''condition'', StrV c)]"

type_synonym edge_triple = "string \<times> string \<times> string"

definition buttonsEdges :: "flow_step \<Rightarrow> string \<Rightarrow> string set \<Rightarrow> edge_triple list" where
  "buttonsEdges step nextSequential stepNames =
     (let targets = filter (\<lambda>(b, t). t \<noteq> []) (map (\<lambda>(b, t). (b, str_or t)) (jsonb (ConditionalNext step)));
          mapped = set (map fst targets);
          ids = filter (\<lambda>i. i \<noteq> [] \<and> i \<notin> mapped)
                  (map (\<lambda>m. str_or (obj_get m ''id'')) (List.map_filter as_obj (step_Buttons step)))
      in map (\<lambda>(b, t). (StepName step, t, ''button:'' @ b)) (filter (\<lambda>(b, t). t \<in> stepNames) targets) @
         (if nextSequential \<noteq> [] \<and> nextSequential \<in> stepNames
          then map (\<lambda>i. (StepName step, nextSequential, ''button:'' @ i)) ids else []))"

definition branchEdges :: "flow_step \<Rightarrow> string list \<Rightarrow> string set \<Rightarrow> edge_triple list" where
  "branchEdges step handles stepNames =
     List.map_filter
       (\<lambda>h. let target = str_or (obj_get (jsonb (ConditionalNext step)) h) in
            if target \<noteq> [] \<and> target \<in> stepNames then Some (StepName step, target, h) else None) handles"

definition stepEdges :: "flow_step \<Rightarrow> string \<Rightarrow> string set \<Rightarrow> edge_triple list" where
  "stepEdges step nextSequential stepNames =
     (let mt = MessageType step in
      if mt = ''buttons'' then buttonsEdges step nextSequential stepNames
      else if mt = ''condition'' then branchEdges step [''true'', ''false''] stepNames
      else if mt = ''timing'' then branchEdges step [''in_hours'', ''out_of_hours''] stepNames
      else if mt = ''transfer'' \<or> mt = ''end'' \<or> mt = ''goto_flow'' then []
      else
        (let target = (if NextStep step = [] then nextSequential else NextStep step) in
         if target \<noteq> [] \<and> target \<in> stepNames then [(StepName step, target, ''default'')] else []))"

fun buildEdges :: "flow_step list \<Rightarrow> string set \<Rightarrow> edge_triple list" where
  "buildEdges [] stepNames = []"
| "buildEdges (step # rest) stepNames =
     stepEdges step (case rest of [] \<Rightarrow> [] | s # _ \<Rightarrow> StepName s) stepNames @ buildEdges rest stepNames"

section \<open>The conversion\<close>

definition startID :: string where
  "startID = ''__start__''"

definition stepsToGraph :: "flow_step list \<Rightarrow> jsonb \<Rightarrow> jsonb" where
  "stepsToGraph steps canvasLayout =
     (if steps = [] \<or> \<not> list_all (\<lambda>s. v2SupportedMessageType (MessageType s)) steps then None
      else
        (let sorted = sort_key StepOrder steps;
             positions = extractCanvasPositions canvasLayout;
             stepNames = set (map StepName sorted);
             nodes = map (step_node positions) (enumerate 0 sorted);
             edges = buildEdges sorted stepNames
         in Some [(''version'', IntV 2),
                  (''nodes'', ArrV (node_obj startID ''start'' ''Start'' (IntV 100) (IntV 100) [] # nodes)),
                  (''edges'', ArrV (map (\<lambda>(f, t, c). edge_obj f t c)
                                      ((startID, StepName (hd sorted), ''default'') # edges))),
                  (''entry_node'', StrV startID)]))"

section \<open>Decoding what was written\<close>

lemma those_map: "(\<And>x. x \<in> set xs \<Longrightarrow> d x = Some (f x)) \<Longrightarrow> those (map d xs) = Some (map f xs)"
  by (induction xs) auto

definition mk_edge :: "edge_triple \<Rightarrow> edge" where
  "mk_edge = (\<lambda>(f, t, c). \<lparr>From = f, To = t, Condition = c\<rparr>)"

lemma dec_edge_obj: "dec_struct dec_edge (edge_obj f t c) = Some (mk_edge (f, t, c))"
  by (simp add: edge_obj_def dec_edge_def json_field_def mk_edge_def)

lemma dec_node_obj:
  assumes "dec_float x = Some x'" "dec_float y = Some y'"
  shows "dec_struct dec_node (node_obj i t l x y c) =
           Some \<lparr>node_ID = i, node_Type = t, node_Label = l, node_Position = \<lparr>pos_X = x', pos_Y = y'\<rparr>,
                 node_Config = Some (map (\<lambda>(k, v). (k, json_norm v)) c)\<rparr>"
  using assms by (simp add: node_obj_def dec_node_def dec_position_def json_field_def)

definition start_node :: node where
  "start_node = \<lparr>node_ID = startID, node_Type = ''start'', node_Label = ''Start'',
     node_Position = \<lparr>pos_X = 100, pos_Y = 100\<rparr>, node_Config = Some []\<rparr>"

definition mk_node :: "(string \<times> rat \<times> rat) list \<Rightarrow> nat \<times> flow_step \<Rightarrow> node" where
  "mk_node positions = (\<lambda>(i, step).
     (let (x, y) = (case map_of positions (StepName step) of Some p \<Rightarrow> p | None \<Rightarrow> (300, of_nat (i * 150)))
      in \<lparr>node_ID = StepName step, node_Type = node_type_of step, node_Label = StepName step,
          node_Position = \<lparr>pos_X = x, pos_Y = y\<rparr>,
          node_Config = Some (map (\<lambda>(k, v). (k, json_norm v)) (buildNodeConfig (node_type_of step) step))\<rparr>))"

lemma dec_step_node: "dec_struct dec_node (step_node positions p) = Some (mk_node positions p)"
  by (cases p) (simp add: step_node_def mk_node_def dec_node_obj split: prod.split)

lemma dec_start_node:
  "dec_struct dec_node (node_obj startID ''start'' ''Start'' (IntV 100) (IntV 100) []) = Some start_node"
  by (simp add: dec_node_obj start_node_def)

text \<open>The graph that the engine reads back.\<close>

definition migrated :: "flow_step list \<Rightarrow> jsonb \<Rightarrow> graph" where
  "migrated steps layout =
     (let sorted = sort_key StepOrder steps in
      \<lparr>Version = 2,
       Nodes = start_node # map (mk_node (extractCanvasPositions layout)) (enumerate 0 sorted),
       Edges = map mk_edge ((startID, StepName (hd sorted), ''default'') # buildEdges sorted (set (map StepName sorted))),
       EntryNode = startID, nodeMap = Map.empty, edgeMap = (\<lambda>_. [])\<rparr>)"

lemma dec_migrated: "stepsToGraph steps layout = Some raw \<Longrightarrow> dec_graph raw = Some (migrated steps layout)"
proof -
  assume "stepsToGraph steps layout = Some raw"
  then have raw: "raw = [(''version'', IntV 2),
      (''nodes'', ArrV (node_obj startID ''start'' ''Start'' (IntV 100) (IntV 100) [] #
         map (step_node (extractCanvasPositions layout)) (enumerate 0 (sort_key StepOrder steps)))),
      (''edges'', ArrV (map (\<lambda>(f, t, c). edge_obj f t c) ((startID, StepName (hd (sort_key StepOrder steps)), ''default'') #
         buildEdges (sort_key StepOrder steps) (set (map StepName (sort_key StepOrder steps)))))),
      (''entry_node'', StrV startID)]"
    by (simp add: stepsToGraph_def Let_def split: if_splits)
  have ns: "those (map (dec_struct dec_node) (map (step_node ps) xs)) = Some (map (mk_node ps) xs)" for ps xs
    unfolding map_map by (rule those_map) (simp add: dec_step_node)
  have es: "those (map (dec_struct dec_edge) (map (\<lambda>(f, t, c). edge_obj f t c) xs)) = Some (map mk_edge xs)" for xs
    unfolding map_map by (rule those_map) (auto simp: dec_edge_obj)
  have nodes: "dec_list (dec_struct dec_node) (ArrV (node_obj startID ''start'' ''Start'' (IntV 100) (IntV 100) [] #
         map (step_node ps) xs)) = Some (start_node # map (mk_node ps) xs)" for ps xs
    using ns by (simp add: dec_start_node)
  have edges: "dec_list (dec_struct dec_edge) (ArrV (map (\<lambda>(f, t, c). edge_obj f t c) xs)) = Some (map mk_edge xs)" for xs
    using es by simp
  have "json_field raw ''version'' = IntV 2" "json_field raw ''entry_node'' = StrV startID"
    by (simp_all add: raw json_field_def)
  moreover have "dec_list (dec_struct dec_node) (json_field raw ''nodes'') = Some (Nodes (migrated steps layout))"
    using nodes by (simp add: raw json_field_def migrated_def Let_def del: dec_list.simps)
  moreover have "dec_list (dec_struct dec_edge) (json_field raw ''edges'') = Some (Edges (migrated steps layout))"
    using edges by (simp add: raw json_field_def migrated_def Let_def del: dec_list.simps list.map)
  ultimately show ?thesis
    by (simp add: dec_graph_def migrated_def Let_def)
qed

section \<open>Closedness\<close>

lemma stepEdges_closed: "(f, t, c) \<in> set (stepEdges step nx names) \<Longrightarrow> f = StepName step \<and> t \<in> names"
  by (auto simp: stepEdges_def buttonsEdges_def branchEdges_def List.map_filter_def Let_def split: if_splits)

lemma buildEdges_closed: "(f, t, c) \<in> set (buildEdges steps names) \<Longrightarrow> f \<in> StepName ` set steps \<and> t \<in> names"
  by (induction steps names rule: buildEdges.induct) (auto dest: stepEdges_closed)

lemma sort_key_hd: "steps \<noteq> [] \<Longrightarrow> hd (sort_key k steps) \<in> set steps"
  by (metis hd_in_set set_empty set_sort)

lemma migrated_IDs: "node_ID ` set (Nodes (migrated steps layout)) = insert startID (StepName ` set steps)"
proof -
  have "node_ID (mk_node ps p) = StepName (snd p)" for ps p
    by (cases p) (simp add: mk_node_def split: prod.split)
  then have "node_ID ` mk_node ps ` set (enumerate 0 xs) = StepName ` set xs" for ps and xs :: "flow_step list"
    by (simp add: image_image) (metis image_image map_snd_enumerate set_map)
  then show ?thesis
    by (simp add: migrated_def Let_def start_node_def)
qed

lemma migrated_closed:
  assumes "steps \<noteq> []"
  shows "graph_closed (BuildMaps (migrated steps layout))"
proof -
  have "To e \<in> insert startID (StepName ` set steps)" if "e \<in> set (Edges (migrated steps layout))" for e
    using that sort_key_hd [OF assms, of StepOrder] buildEdges_closed
    by (auto simp: migrated_def Let_def mk_edge_def)
  then show ?thesis
    using migrated_IDs [of steps layout] by (auto simp: graph_closed_def)
qed

lemma parse_migrated:
  assumes "stepsToGraph steps layout = Some raw"
  shows "parseChatGraph (Some raw) = Inr (Some (BuildMaps (migrated steps layout)))"
    and "steps \<noteq> []"
proof -
  show ne: "steps \<noteq> []"
    using assms by (auto simp: stepsToGraph_def)
  have "EntryNode (migrated steps layout) \<in> node_ID ` set (Nodes (migrated steps layout))"
    using migrated_IDs [of steps layout] by (simp add: migrated_def Let_def)
  then have "Node (BuildMaps (migrated steps layout)) (EntryNode (migrated steps layout)) \<noteq> None"
    using Node_defined_iff [of "migrated steps layout"] by simp
  moreover have "Version (migrated steps layout) = 2" "EntryNode (migrated steps layout) = startID"
    by (simp_all add: migrated_def Let_def)
  ultimately show "parseChatGraph (Some raw) = Inr (Some (BuildMaps (migrated steps layout)))"
    using dec_migrated [OF assms] by (simp add: parseChatGraph_def Let_def startID_def)
qed

section \<open>What migrated nodes carry\<close>

lemma map_of_norm: "map_of (map (\<lambda>(k, v). (k, json_norm v)) c) k = map_option json_norm (map_of c k)"
  by (induction c) auto

lemma map_of_opt_str [simp]: "map_of (opt_str k v) k' = (if k' = k \<and> v \<noteq> [] then Some (StrV v) else None)"
  by (simp add: opt_str_def)

lemma config_no_skip: "map_of (buildNodeConfig t step) ''skip_condition'' = None"
  by (simp add: buildNodeConfig_def Let_def map_add_def)

lemma stringFromConfig_one:
  "stringFromConfig c [k] = str_or (obj_get c k)"
  by (cases "obj_get c k") (simp_all add: stringFromConfig.simps str_or_def)

lemma migrated_no_skip:
  "n \<in> set (Nodes (migrated steps layout)) \<Longrightarrow> stringFromConfig (cfg n) [''skip_condition''] = []"
  by (auto simp: migrated_def Let_def start_node_def mk_node_def stringFromConfig_one obj_get_def map_of_norm
      config_no_skip split: prod.splits)

section \<open>Properties\<close>

text \<open>
  C25. Every graph the migration writes is accepted by the engine and closed: it parses, its entry
  node exists, it has one node per legacy step besides the start node, and every edge leads to a
  node, whatever the order, names and targets of the steps.
\<close>
theorem migrated_graph_accepted:
  assumes "stepsToGraph steps layout = Some raw"
  shows "\<exists>g. parseChatGraph (Some raw) = Inr (Some g) \<and> graph_closed g \<and> EntryNode g = startID \<and>
           length (Nodes g) = length steps + 1 \<and>
           node_ID ` set (Nodes g) = insert startID (StepName ` set steps)"
  using parse_migrated [OF assms] migrated_closed migrated_IDs [of steps layout]
  by (auto simp: migrated_def Let_def)

definition sample_step :: "string \<Rightarrow> int \<Rightarrow> string \<Rightarrow> string \<Rightarrow> flow_step" where
  "sample_step name order msg as_var =
     \<lparr>StepName = name, StepOrder = order, step_Message = msg, MessageType = ''text'', ApiConfig = None,
      step_Buttons = [], TransferConfig = None, InputType = [], InputConfig = None, ValidationRegex = [],
      ValidationError = [], StoreAs = as_var, NextStep = [], ConditionalNext = None, SkipCondition = ''known'',
      MaxRetries = 3\<rparr>"

definition sample_steps :: "flow_step list" where
  "sample_steps = [sample_step ''size'' 2 ''Your size?'' ''size'', sample_step ''name'' 1 ''Your name?'' ''name'']"

lemma sample_steps_supported: "stepsToGraph sample_steps None \<noteq> None"
  by (simp add: stepsToGraph_def sample_steps_def sample_step_def v2SupportedMessageType_def)

theorem migrated_graph_accepted_witness:
  "\<exists>raw g. stepsToGraph sample_steps None = Some raw \<and> parseChatGraph (Some raw) = Inr (Some g) \<and> graph_closed g"
proof -
  obtain raw where r: "stepsToGraph sample_steps None = Some raw"
    using sample_steps_supported by auto
  show ?thesis
    using migrated_graph_accepted [OF r] r by blast
qed

text \<open>
  The migration drops the skip condition of a legacy step: no node of a migrated graph has
  one, so the engine executes every node it reaches, also where the legacy step was to be skipped.
\<close>
theorem migration_drops_skip_condition:
  assumes "stepsToGraph steps layout = Some raw" "parseChatGraph (Some raw) = Inr (Some g)" "Node g i = Some n"
  shows "\<not> skips env n st"
proof -
  have "n \<in> set (Nodes (migrated steps layout))"
    using assms parse_migrated(1) [OF assms(1)] Node_Some_ID [of "migrated steps layout" i n] by simp
  then show ?thesis
    using migrated_no_skip by (simp add: skips_def)
qed

theorem migration_drops_skip_condition_witness:
  "\<exists>raw g n. stepsToGraph sample_steps None = Some raw \<and> parseChatGraph (Some raw) = Inr (Some g) \<and>
     Node g ''size'' = Some n \<and> \<not> skips sample_env n (inbound ''x'') \<and> SkipCondition (hd sample_steps) = ''known''"
proof -
  obtain raw where r: "stepsToGraph sample_steps None = Some raw"
    using sample_steps_supported by auto
  let ?g = "BuildMaps (migrated sample_steps None)"
  have p: "parseChatGraph (Some raw) = Inr (Some ?g)"
    by (rule parse_migrated(1) [OF r])
  have "''size'' \<in> node_ID ` set (Nodes (migrated sample_steps None))"
    unfolding migrated_IDs by (simp add: sample_steps_def sample_step_def)
  then obtain n where n: "Node ?g ''size'' = Some n"
    using Node_defined_iff [of "migrated sample_steps None" "''size''"] by auto
  show ?thesis
    using migration_drops_skip_condition [OF r p n] r p n by (auto simp: sample_steps_def sample_step_def)
qed

section \<open>Consecutive questions\<close>

lemma stepEdges_from: "p \<in> set (stepEdges step nx names) \<Longrightarrow> fst p = StepName step"
  using stepEdges_closed by (cases p) auto

lemma edges_from_step:
  assumes "StepName a \<notin> StepName ` (set pre \<union> set (b # post))"
  shows "filter (\<lambda>p. fst p = StepName a) (buildEdges (pre @ a # b # post) names) = stepEdges a (StepName b) names"
  using assms
proof (induction pre)
  case Nil
  have "filter (\<lambda>p. fst p = StepName a) (buildEdges (b # post) names) = []"
    using Nil buildEdges_closed [of _ _ _ "b # post" names] by (force simp: filter_empty_conv)
  moreover have "filter (\<lambda>p. fst p = StepName a) (stepEdges a (StepName b) names) = stepEdges a (StepName b) names"
    using stepEdges_from by (simp add: filter_id_conv)
  ultimately show ?case by simp
next
  case (Cons p pre)
  have "filter (\<lambda>p. fst p = StepName a) (stepEdges p nx names) = []" for nx
    using Cons.prems stepEdges_from [of _ p] by (auto simp: filter_empty_conv)
  with Cons show ?case by simp
qed

lemma migrated_node:
  assumes "distinct (map StepName steps)" "startID \<notin> StepName ` set steps" "a \<in> set steps"
  shows "\<exists>n. Node (BuildMaps (migrated steps layout)) (StepName a) = Some n \<and> node_ID n = StepName a \<and>
           node_Type n = node_type_of a \<and> stringFromConfig (cfg n) [''skip_condition''] = [] \<and>
           cfg n = map (\<lambda>(k, v). (k, json_norm v)) (buildNodeConfig (node_type_of a) a)"
proof -
  have "StepName a \<in> node_ID ` set (Nodes (migrated steps layout))"
    unfolding migrated_IDs using assms(3) by simp
  then obtain n where n: "Node (BuildMaps (migrated steps layout)) (StepName a) = Some n"
    using Node_defined_iff [of "migrated steps layout" "StepName a"] by auto
  then have mem: "n \<in> set (Nodes (migrated steps layout))" and nid: "node_ID n = StepName a"
    using Node_Some_ID by blast+
  have "n \<noteq> start_node"
    using nid assms(2,3) by (auto simp: start_node_def)
  with mem obtain i s where s: "n = mk_node (extractCanvasPositions layout) (i, s)"
      "(i, s) \<in> set (enumerate 0 (sort_key StepOrder steps))"
    by (auto simp: migrated_def Let_def)
  then have "s \<in> set steps"
    using enumerate_snd by fastforce
  moreover have "StepName s = StepName a"
    using nid s(1) by (simp add: mk_node_def split: prod.splits)
  ultimately have "s = a"
    using assms(1,3) by (auto simp: distinct_map inj_on_def)
  then show ?thesis
    using n nid s(1) migrated_no_skip [OF mem] by (auto simp: mk_node_def split: prod.splits)
qed

lemma migrated_default_edge:
  assumes "distinct (map StepName steps)" "startID \<notin> StepName ` set steps"
    and "sort_key StepOrder steps = pre @ a # b # post"
    and "MessageType a = ''text''" "NextStep a = []" "StepName b \<noteq> []"
  shows "ResolveEdge (BuildMaps (migrated steps layout)) (StepName a) ''default'' = StepName b"
proof -
  let ?names = "set (map StepName (sort_key StepOrder steps))"
  have "distinct (map StepName (sort_key StepOrder steps))"
    using assms(1) by (metis distinct_map distinct_sort set_sort)
  then have out: "StepName a \<notin> StepName ` (set pre \<union> set (b # post))"
    unfolding assms(3) by auto
  have a: "a \<in> set steps" "StepName b \<in> ?names"
    using assms(3) set_sort [of StepOrder steps] by (auto simp del: set_sort)
  then have "StepName a \<noteq> startID"
    using assms(2) by (metis imageI)
  then have "filter (\<lambda>e. From e = StepName a) (Edges (migrated steps layout)) =
      map mk_edge (filter (\<lambda>p. fst p = StepName a) (buildEdges (sort_key StepOrder steps) ?names))"
    by (auto simp: migrated_def Let_def mk_edge_def filter_map comp_def case_prod_beta intro!: filter_cong)
  also have "\<dots> = map mk_edge (stepEdges a (StepName b) ?names)"
    using edges_from_step [OF out] assms(3) by simp
  also have "\<dots> = [mk_edge (StepName a, StepName b, ''default'')]"
    using assms(4-6) a(2) by (simp add: stepEdges_def Let_def)
  finally show ?thesis
    by (simp add: ResolveEdge_BuildMaps mk_edge_def)
qed

text \<open>
  A legacy flow that asks two questions in a row loses the second one. When two consecutive
  text steps capture input, the migration turns both into prompts joined by a default edge; a
  session that answers the first question is left at the second without the question being sent.
\<close>
theorem migrated_second_question_never_asked:
  assumes "stepsToGraph steps layout = Some raw" "flow_Graph flow = Some raw"
    and "distinct (map StepName steps)" "startID \<notin> StepName ` set steps"
    and "sort_key StepOrder steps = pre @ a # b # post"
    and "MessageType a = ''text''" "textStepCapturesInput a" "NextStep a = []" "ValidationRegex a = []"
    and "MessageType b = ''text''" "textStepCapturesInput b" "StepName a \<noteq> []" "StepName b \<noteq> []"
    and "CurrentFlowID s = Some (flow_ID flow)" "CurrentStep s = StepName a" "input \<noteq> []"
  shows "\<exists>x st. runChatGraph env s flow input button formData [] = Some (x, st) \<and>
           CurrentStep (ctx_session st) = StepName b \<and> filter is_out (trace st) = []"
proof -
  let ?g = "BuildMaps (migrated steps layout)"
  have ab: "a \<in> set steps" "b \<in> set steps"
    using assms(5) set_sort [of StepOrder steps] by (auto simp del: set_sort)
  obtain n1 where n1: "Node ?g (StepName a) = Some n1" "node_ID n1 = StepName a" "node_Type n1 = ''prompt''"
      "stringFromConfig (cfg n1) [''skip_condition''] = []"
      "cfg n1 = map (\<lambda>(k, v). (k, json_norm v)) (buildNodeConfig ''prompt'' a)"
    using migrated_node [OF assms(3,4) ab(1), of layout] assms(6,7) by (auto simp: node_type_of_def)
  obtain n2 where n2: "Node ?g (StepName b) = Some n2" "node_Type n2 = ''prompt''"
      "stringFromConfig (cfg n2) [''skip_condition''] = []"
    using migrated_node [OF assms(3,4) ab(2), of layout] assms(10,11) by (auto simp: node_type_of_def)
  have "map_of (buildNodeConfig ''prompt'' a) ''validation_regex'' = None"
    using assms(9) by (simp add: buildNodeConfig_def map_add_def)
  then have "\<not> prompt_rejects env n1 input"
    by (simp add: prompt_rejects_def n1(5) stringFromConfig_one obj_get_def map_of_norm)
  moreover have "parseChatGraph (flow_Graph flow) = Inr (Some ?g)"
    using parse_migrated(1) [OF assms(1)] assms(2) by simp
  moreover have "ResolveEdge ?g (node_ID n1) ''default'' = StepName b"
    using migrated_default_edge [OF assms(3-6,8,13)] n1(2) by simp
  ultimately show ?thesis
    using chained_prompt_run [of flow ?g s "StepName a" n1 "StepName b" n2 input env button formData] n1 n2 assms(12-16)
    by blast
qed

theorem migrated_second_question_never_asked_witness:
  "\<exists>raw x st. stepsToGraph sample_steps None = Some raw \<and>
     runChatGraph sample_env (sample_session\<lparr>CurrentStep := ''name''\<rparr>) (order_flow\<lparr>flow_Graph := Some raw\<rparr>) ''Amal'' [] [] []
       = Some (x, st) \<and> CurrentStep (ctx_session st) = ''size'' \<and> filter is_out (trace st) = []"
proof -
  obtain raw where r: "stepsToGraph sample_steps None = Some raw"
    using sample_steps_supported by auto
  let ?a = "sample_step ''name'' 1 ''Your name?'' ''name''" and ?b = "sample_step ''size'' 2 ''Your size?'' ''size''"
  have "sort_key StepOrder sample_steps = [] @ ?a # ?b # []"
    by (simp add: sample_steps_def sample_step_def)
  from migrated_second_question_never_asked [OF r _ _ _ this, of "order_flow\<lparr>flow_Graph := Some raw\<rparr>"
      "sample_session\<lparr>CurrentStep := ''name''\<rparr>" "''Amal''" sample_env "[]" "[]"] r
  show ?thesis
    by (simp add: sample_steps_def sample_step_def startID_def textStepCapturesInput_def sample_session_def
        order_flow_def flow_of_def)
qed

section \<open>The backfill at start-up\<close>

text \<open>
  A row of \<open>chatbot_flows\<close> with its legacy columns. Loading the steps and saving a graph may
  fail; the backfill then stops with the error and keeps what it has written.
\<close>

record legacy_flow =
  lf_ID :: string
  lf_Graph :: jsonb
  lf_Layout :: jsonb
  lf_Deleted :: bool

definition pending :: "legacy_flow \<Rightarrow> bool" where
  "pending r \<longleftrightarrow> (lf_Graph r = None \<or> lf_Graph r = Some []) \<and> \<not> lf_Deleted r"

definition layout_of :: "legacy_flow \<Rightarrow> jsonb" where
  "layout_of r = Some (jsonb (lf_Layout r))"

definition save_graph :: "string \<Rightarrow> obj \<Rightarrow> legacy_flow list \<Rightarrow> legacy_flow list" where
  "save_graph i g rows = map (\<lambda>r. if lf_ID r = i then r\<lparr>lf_Graph := Some g\<rparr> else r) rows"

fun backfill_loop ::
    "(string \<Rightarrow> string + flow_step list) \<Rightarrow> (string \<Rightarrow> string option) \<Rightarrow> legacy_flow list \<Rightarrow> legacy_flow list
       \<Rightarrow> string option \<times> legacy_flow list" where
  "backfill_loop load save [] rows = (None, rows)"
| "backfill_loop load save (p # ps) rows =
     (case load (lf_ID p) of
        Inl err \<Rightarrow> (Some err, rows)
      | Inr steps \<Rightarrow>
          (case stepsToGraph steps (layout_of p) of
             None \<Rightarrow> backfill_loop load save ps rows
           | Some g \<Rightarrow>
               (case save (lf_ID p) of
                  Some err \<Rightarrow> (Some err, rows)
                | None \<Rightarrow> backfill_loop load save ps (save_graph (lf_ID p) g rows))))"

definition BackfillChatbotFlowGraph ::
    "bool \<Rightarrow> (string \<Rightarrow> string + flow_step list) \<Rightarrow> (string \<Rightarrow> string option) \<Rightarrow> legacy_flow list
       \<Rightarrow> string option \<times> legacy_flow list" where
  "BackfillChatbotFlowGraph hasLegacySchema load save rows =
     (if \<not> hasLegacySchema then (None, rows) else backfill_loop load save (filter pending rows) rows)"

text \<open>Without errors the loop rewrites each convertible row it was given, and no other.\<close>

definition converted :: "(string \<Rightarrow> flow_step list) \<Rightarrow> string set \<Rightarrow> legacy_flow \<Rightarrow> legacy_flow" where
  "converted steps ids r =
     (if lf_ID r \<in> ids then
        (case stepsToGraph (steps (lf_ID r)) (layout_of r) of None \<Rightarrow> r | Some g \<Rightarrow> r\<lparr>lf_Graph := Some g\<rparr>)
      else r)"

lemma converted_simps [simp]:
  "lf_ID (converted steps ids r) = lf_ID r" "layout_of (converted steps ids r) = layout_of r"
  "lf_Deleted (converted steps ids r) = lf_Deleted r"
  by (auto simp: converted_def layout_of_def split: option.split)

lemma backfill_loop_converts:
  assumes "\<And>i. load i = Inr (steps i)" "\<And>i. save i = None"
    and "set ps \<subseteq> set rows0" "distinct (map lf_ID rows0)" "distinct (map lf_ID ps)"
    and "rows = map (converted steps fin) rows0" "fin \<inter> lf_ID ` set ps = {}"
  shows "backfill_loop load save ps rows = (None, map (converted steps (fin \<union> lf_ID ` set ps)) rows0)"
  using assms(3,5-7)
proof (induction ps arbitrary: rows fin)
  case Nil
  then show ?case by simp
next
  case (Cons p ps)
  have p: "p \<in> set rows0" using Cons.prems(1) by simp
  have same: "r = p" if "r \<in> set rows0" "lf_ID r = lf_ID p" for r
    using that p assms(4) by (auto simp: distinct_map inj_on_def)
  let ?fin = "insert (lf_ID p) fin"
  have disj: "?fin \<inter> lf_ID ` set ps = {}"
    using Cons.prems(2,4) by auto
  have un: "?fin \<union> lf_ID ` set ps = fin \<union> lf_ID ` set (p # ps)"
    by auto
  show ?case
  proof (cases "stepsToGraph (steps (lf_ID p)) (layout_of p)")
    case None
    have "rows = map (converted steps ?fin) rows0"
      unfolding Cons.prems(3) by (rule map_cong [OF refl]) (auto simp: converted_def None dest: same)
    from Cons.IH [OF _ _ this disj] Cons.prems(1,2) None assms(1) un show ?thesis by simp
  next
    case (Some g)
    have "save_graph (lf_ID p) g rows = map (converted steps ?fin) rows0"
      unfolding Cons.prems(3) save_graph_def map_map comp_def
      by (rule map_cong [OF refl]) (use Cons.prems(4) in \<open>auto simp: converted_def Some dest: same split: option.split\<close>)
    from Cons.IH [OF _ _ this disj] Cons.prems(1,2) Some assms(1,2) un show ?thesis by simp
  qed
qed

lemma stepsToGraph_nonempty: "stepsToGraph steps layout \<noteq> Some []"
  by (simp add: stepsToGraph_def Let_def)

lemma distinct_filter_ids: "distinct (map lf_ID rows) \<Longrightarrow> distinct (map lf_ID (filter P rows))"
  by (rule distinct_map_filter)

lemma backfill_converts:
  assumes "\<And>i. load i = Inr (steps i)" "\<And>i. save i = None" "distinct (map lf_ID rows)"
  shows "BackfillChatbotFlowGraph True load save rows =
           (None, map (converted steps (lf_ID ` set (filter pending rows))) rows)"
proof -
  have "converted steps {} = id"
    by (auto simp: converted_def)
  then show ?thesis
    using backfill_loop_converts [where ps = "filter pending rows" and ?rows0.0 = rows and fin = "{}" and rows = rows,
        OF assms(1,2) _ assms(3) distinct_filter_ids [OF assms(3)]]
    by (simp add: BackfillChatbotFlowGraph_def)
qed

text \<open>
  The backfill is idempotent: when the database answers, a second run at the next start-up
  changes no row. It touches only rows without a graph, and every row it writes gets a graph the
  engine accepts, so a flow with a graph of its own is never overwritten.
\<close>
theorem backfill_idempotent:
  assumes "\<And>i. load i = Inr (steps i)" "\<And>i. save i = None" "distinct (map lf_ID rows)"
  shows "BackfillChatbotFlowGraph True load save (snd (BackfillChatbotFlowGraph True load save rows)) =
           (None, snd (BackfillChatbotFlowGraph True load save rows)) \<and>
         list_all2 (\<lambda>r r'. r' = r \<or>
             pending r \<and> (\<exists>raw g. r' = r\<lparr>lf_Graph := Some raw\<rparr> \<and> parseChatGraph (Some raw) = Inr (Some g)))
           rows (snd (BackfillChatbotFlowGraph True load save rows))"
proof -
  let ?ids = "lf_ID ` set (filter pending rows)"
  let ?rows = "map (converted steps ?ids) rows"
  have r1: "snd (BackfillChatbotFlowGraph True load save rows) = ?rows"
    using backfill_converts [OF assms] by simp
  have "distinct (map lf_ID ?rows)"
    using assms(3) by (simp add: comp_def)
  note r2 = backfill_converts [OF assms(1,2) this]
  have own: "pending r" if "r \<in> set rows" "lf_ID r \<in> ?ids" for r
    using that assms(3) by (auto simp: distinct_map inj_on_def)
  have stuck: "stepsToGraph (steps (lf_ID r)) (layout_of r) = None"
    if "r \<in> set rows" "pending (converted steps ?ids r)" for r
  proof (rule ccontr)
    assume "stepsToGraph (steps (lf_ID r)) (layout_of r) \<noteq> None"
    then obtain g where g: "stepsToGraph (steps (lf_ID r)) (layout_of r) = Some g" by auto
    show False
    proof (cases "pending r")
      case True
      with that(1) g have "converted steps ?ids r = r\<lparr>lf_Graph := Some g\<rparr>"
        by (auto simp: converted_def)
      with that(2) g show False
        using stepsToGraph_nonempty by (auto simp: pending_def)
    next
      case False
      with that(1) own have "converted steps ?ids r = r"
        by (auto simp: converted_def)
      with that(2) False show False by simp
    qed
  qed
  have "converted steps (lf_ID ` set (filter pending ?rows)) r' = r'" if r': "r' \<in> set ?rows" for r'
  proof (cases "lf_ID r' \<in> lf_ID ` set (filter pending ?rows)")
    case True
    then obtain r where r: "r \<in> set rows" "pending (converted steps ?ids r)" "lf_ID r' = lf_ID r"
      by auto
    obtain q where "q \<in> set rows" "r' = converted steps ?ids q"
      using r' by auto
    with r assms(3) have "r' = converted steps ?ids r"
      by (auto simp: distinct_map inj_on_def)
    with stuck [OF r(1,2)] show ?thesis
      by (simp add: converted_def)
  qed (simp add: converted_def)
  then have "map (converted steps (lf_ID ` set (filter pending ?rows))) ?rows = ?rows"
    by (rule map_idI)
  with r1 r2 have "BackfillChatbotFlowGraph True load save (snd (BackfillChatbotFlowGraph True load save rows)) =
           (None, snd (BackfillChatbotFlowGraph True load save rows))"
    by simp
  moreover have "list_all2 (\<lambda>r r'. r' = r \<or>
             pending r \<and> (\<exists>raw g. r' = r\<lparr>lf_Graph := Some raw\<rparr> \<and> parseChatGraph (Some raw) = Inr (Some g)))
           rows ?rows"
    unfolding list_all2_map2
    by (rule list.rel_refl_strong) (use own parse_migrated(1) in \<open>fastforce simp: converted_def split: option.split\<close>)
  ultimately show ?thesis
    using r1 by simp
qed

lemma stepsToGraph_no_layout: "stepsToGraph steps (Some []) = stepsToGraph steps None"
  by (simp add: stepsToGraph_def extractCanvasPositions_def)

theorem backfill_idempotent_witness:
  "\<exists>raw. BackfillChatbotFlowGraph True (\<lambda>_. Inr sample_steps) (\<lambda>_. None)
     [\<lparr>lf_ID = ''f1'', lf_Graph = Some raw, lf_Layout = None, lf_Deleted = False\<rparr>] =
     (None, [\<lparr>lf_ID = ''f1'', lf_Graph = Some raw, lf_Layout = None, lf_Deleted = False\<rparr>]) \<and> raw \<noteq> []"
proof -
  let ?rows = "[\<lparr>lf_ID = ''f1'', lf_Graph = None, lf_Layout = None, lf_Deleted = False\<rparr>]"
  obtain raw where r: "stepsToGraph sample_steps (Some []) = Some raw"
    using sample_steps_supported stepsToGraph_no_layout by auto
  then have "raw \<noteq> []"
    using stepsToGraph_nonempty by auto
  moreover have "snd (BackfillChatbotFlowGraph True (\<lambda>_. Inr sample_steps) (\<lambda>_. None) ?rows) =
      [\<lparr>lf_ID = ''f1'', lf_Graph = Some raw, lf_Layout = None, lf_Deleted = False\<rparr>]"
    using r by (simp add: BackfillChatbotFlowGraph_def pending_def layout_of_def save_graph_def)
  ultimately show ?thesis
    using backfill_idempotent [of "\<lambda>_. Inr sample_steps" "\<lambda>_. sample_steps" "\<lambda>_. None" ?rows] by auto
qed

end
