(* ===== verification/IVR.thy ===== *)
theory IVR
  imports Chat_State
begin

text \<open>
  \<open>internal/calling/ivr.go\<close> and \<open>http_callback.go\<close>: the voice menus, over the same flow graph as
  the chatbot. One definition per node executor, \<open>ivr_step\<close> for one iteration of
  \<open>executeNodeLoop\<close>, and \<open>executeNodeLoop\<close> for the unbounded loop with the tail call through
  \<open>executeGotoFlow\<close> and \<open>runIVRFlow\<close>.

  The caller's keys, the end of a playback, the end of a transfer, the state of the call, the call
  log and the flow store are answers of \<open>ivr_env\<close> that may depend on everything that happened
  before (the trace). RTP players and tracks are left out: they carry no decision of the loop.
\<close>

section \<open>State and surroundings\<close>

type_synonym path_entry = "(string \<times> string) list"

record ivr_flow =
  ivr_ID :: string
  ivr_Name :: string
  ivr_IsActive :: bool
  ivr_Menu :: jsonb

record IVRContext =
  Variables :: "(string \<times> string) list"
  CallerPhone :: string
  CallID :: string
  CurrentNode :: string
  Path :: "path_entry list"

datatype dtmf = Digit char | Closed | Timeout

datatype playback = PlayDone | Interrupted "char option"

datatype ivr_event =
    DrainDTMF
  | PlayFile string
  | AwaitKey
  | Callback http_request
  | SavePath "path_entry list"
  | InitiateTransfer string
  | AwaitTransfer
  | LoadFlow string
  | SetFlow string
  | LoadPath
  | CheckStatus
  | ReadTime
  | MarkSystemHangup
  | TerminateCall

record ivr_env =
  ivr_rt :: go_rt
  AudioDir :: string
  ivr_Join :: "string \<Rightarrow> string \<Rightarrow> string"
  ivr_play :: "ivr_event list \<Rightarrow> string \<Rightarrow> playback"
  ivr_key :: "ivr_event list \<Rightarrow> dtmf"
  ivr_http :: "ivr_event list \<Rightarrow> http_request \<Rightarrow> string + http_response"
  ivr_Canonical :: "string \<Rightarrow> string"
  ivr_transfer :: "ivr_event list \<Rightarrow> string option"
  ivr_flow_by_id :: "ivr_event list \<Rightarrow> string \<Rightarrow> ivr_flow option"
  ivr_uuid :: "string \<Rightarrow> string option"
  ivr_status :: "ivr_event list \<Rightarrow> string"
  ivr_now :: "ivr_event list \<Rightarrow> clock"
  ivr_log_path :: "ivr_event list \<Rightarrow> any"
  ivr_has_log :: bool

record ivr_state =
  ivr_ctx :: IVRContext
  ivr_trace :: "ivr_event list"

definition occurs :: "ivr_event \<Rightarrow> ivr_state \<Rightarrow> ivr_state" where
  "occurs e st = st\<lparr>ivr_trace := ivr_trace st @ [e]\<rparr>"

definition set_var :: "string \<Rightarrow> string \<Rightarrow> ivr_state \<Rightarrow> ivr_state" where
  "set_var k v st = st\<lparr>ivr_ctx := (ivr_ctx st)\<lparr>Variables := AList.update k v (Variables (ivr_ctx st))\<rparr>\<rparr>"

definition add_path :: "path_entry \<Rightarrow> ivr_state \<Rightarrow> ivr_state" where
  "add_path p st = st\<lparr>ivr_ctx := (ivr_ctx st)\<lparr>Path := Path (ivr_ctx st) @ [p]\<rparr>\<rparr>"

definition go_node :: "string \<Rightarrow> ivr_state \<Rightarrow> ivr_state" where
  "go_node i st = st\<lparr>ivr_ctx := (ivr_ctx st)\<lparr>CurrentNode := i\<rparr>\<rparr>"

definition saveIVRPath :: "ivr_state \<Rightarrow> ivr_state" where
  "saveIVRPath st = (if Path (ivr_ctx st) = [] then st else occurs (SavePath (Path (ivr_ctx st))) st)"

section \<open>Helpers\<close>

definition getConfigInt :: "obj \<Rightarrow> string \<Rightarrow> int \<Rightarrow> int" where
  "getConfigInt config key defaultVal =
     (case map_of config key of
        None \<Rightarrow> defaultVal
      | Some (FloatV x) \<Rightarrow> float_to_int x
      | Some (IntV i) \<Rightarrow> i
      | Some _ \<Rightarrow> defaultVal)"

definition interpolateTemplate :: "string \<Rightarrow> (string \<times> string) list \<Rightarrow> string" where
  "interpolateTemplate tpl vars = fold (\<lambda>(k, v) t. ReplaceAll t (''{{'' @ k @ ''}}'') v) vars tpl"

text \<open>The audio file of a node, when audio is configured at all.\<close>

definition audio_path :: "ivr_env \<Rightarrow> node \<Rightarrow> string" where
  "audio_path env node =
     (let audioFile = str_or (obj_get (cfg node) ''audio_file'') in
      if audioFile \<noteq> [] \<and> AudioDir env \<noteq> [] then ivr_Join env (AudioDir env) audioFile else [])"

definition play :: "ivr_env \<Rightarrow> string \<Rightarrow> ivr_state \<Rightarrow> playback \<times> ivr_state" where
  "play env file st = (ivr_play env (ivr_trace st) file, occurs (PlayFile file) st)"

definition waitForDTMF :: "ivr_env \<Rightarrow> ivr_state \<Rightarrow> char option \<times> ivr_state" where
  "waitForDTMF env st =
     (case ivr_key env (ivr_trace st) of Digit d \<Rightarrow> Some d | _ \<Rightarrow> None, occurs AwaitKey st)"

section \<open>Executors\<close>

definition executeGreeting :: "ivr_env \<Rightarrow> node \<Rightarrow> ivr_state \<Rightarrow> string \<times> ivr_state" where
  "executeGreeting env node st =
     (''default'',
      (if str_or (obj_get (cfg node) ''audio_file'') \<noteq> [] \<and> AudioDir env \<noteq> []
       then snd (play env (audio_path env node) (occurs DrainDTMF st)) else st))"

definition menu_digit :: "ivr_env \<Rightarrow> string \<Rightarrow> ivr_state \<Rightarrow> char option \<times> ivr_state" where
  "menu_digit env fullPath st =
     (if fullPath \<noteq> [] then
        (case play env fullPath st of
           (PlayDone, st1) \<Rightarrow> waitForDTMF env st1
         | (Interrupted d, st1) \<Rightarrow> (d, st1))
      else waitForDTMF env st)"

definition menu_digits :: "node \<Rightarrow> string list" where
  "menu_digits node = map fst (obj_or (obj_get (cfg node) ''options''))"

fun menu_attempts :: "ivr_env \<Rightarrow> node \<Rightarrow> nat \<Rightarrow> ivr_state \<Rightarrow> string \<times> ivr_state" where
  "menu_attempts env node 0 st = (''max_retries'', st)"
| "menu_attempts env node (Suc k) st =
     (let validDigits = menu_digits node in
      case menu_digit env (audio_path env node) (occurs DrainDTMF st) of
        (None, st1) \<Rightarrow> menu_attempts env node k st1
      | (Some d, st1) \<Rightarrow>
          if validDigits = [] \<or> [d] \<in> set validDigits then
            (''digit:'' @ [d], set_var ''last_menu_digit'' [d] (set_var (''menu_'' @ node_ID node) [d] st1))
          else menu_attempts env node k st1)"

definition executeMenu :: "ivr_env \<Rightarrow> node \<Rightarrow> ivr_state \<Rightarrow> string \<times> ivr_state" where
  "executeMenu env node st = menu_attempts env node (nat (getConfigInt (cfg node) ''max_retries'' 3)) st"

fun collectDTMFDigits :: "ivr_env \<Rightarrow> string \<Rightarrow> nat \<Rightarrow> ivr_state \<Rightarrow> string \<times> ivr_state" where
  "collectDTMFDigits env terminator 0 st = ([], st)"
| "collectDTMFDigits env terminator (Suc k) st =
     (case ivr_key env (ivr_trace st) of
        Digit d \<Rightarrow>
          if [d] = terminator then ([], occurs AwaitKey st)
          else
            (let (ds, st') = collectDTMFDigits env terminator k (occurs AwaitKey st) in (d # ds, st'))
      | _ \<Rightarrow> ([], occurs AwaitKey st))"

fun gather_attempts :: "ivr_env \<Rightarrow> node \<Rightarrow> string \<Rightarrow> nat \<Rightarrow> nat \<Rightarrow> ivr_state \<Rightarrow> string \<times> ivr_state" where
  "gather_attempts env node terminator maxDigits 0 st = (''max_retries'', st)"
| "gather_attempts env node terminator maxDigits (Suc k) st =
     (case collectDTMFDigits env terminator maxDigits st of
        (collected, st1) \<Rightarrow>
          if collected \<noteq> [] then
            (let storeAs = str_or (obj_get (cfg node) ''store_as'') in
             (''default'', if storeAs \<noteq> [] then set_var storeAs collected st1 else st1))
          else gather_attempts env node terminator maxDigits k st1)"

definition executeGather :: "ivr_env \<Rightarrow> node \<Rightarrow> ivr_state \<Rightarrow> string \<times> ivr_state" where
  "executeGather env node st =
     (let t = str_or (obj_get (cfg node) ''terminator'');
          st1 = occurs DrainDTMF st;
          st2 = (if str_or (obj_get (cfg node) ''audio_file'') \<noteq> [] \<and> AudioDir env \<noteq> []
                 then snd (play env (audio_path env node) st1) else st1)
      in gather_attempts env node (if t = [] then ''#'' else t)
           (nat (getConfigInt (cfg node) ''max_digits'' 10)) (nat (getConfigInt (cfg node) ''max_retries'' 3)) st2)"

text \<open>\<open>executeHTTPCallback\<close> of \<open>http_callback.go\<close>; a bad URL is an error of the request too.\<close>

definition header_get :: "ivr_env \<Rightarrow> (string \<times> string) list \<Rightarrow> string \<Rightarrow> string" where
  "header_get env hs k =
     (case map_of (rev (map (\<lambda>(k, v). (ivr_Canonical env k, v)) hs)) k of None \<Rightarrow> [] | Some v \<Rightarrow> v)"

definition http_callback ::
    "ivr_env \<Rightarrow> string \<Rightarrow> string \<Rightarrow> (string \<times> string) list \<Rightarrow> string \<Rightarrow> ivr_state
       \<Rightarrow> (string + int \<times> string) \<times> ivr_state" where
  "http_callback env url method headers body st =
     (let hs = (if body \<noteq> [] \<and> header_get env headers ''Content-Type'' = []
                then headers @ [(''Content-Type'', ''application/json'')] else headers);
          req = \<lparr>req_Method = method, req_URL = url, req_Body = (if body = [] then None else Some body),
                 req_Headers = hs\<rparr>
      in (case ivr_http env (ivr_trace st) req of
            Inl err \<Rightarrow> Inl err
          | Inr resp \<Rightarrow> (case resp_ReadError resp of
                         Some err \<Rightarrow> Inl err
                       | None \<Rightarrow> Inr (resp_StatusCode resp, take (64 * 1024) (resp_Body resp))),
          occurs (Callback req) st))"

definition executeHTTPCallback :: "ivr_env \<Rightarrow> node \<Rightarrow> ivr_state \<Rightarrow> string \<times> ivr_state" where
  "executeHTTPCallback env node st =
     (let vars = Variables (ivr_ctx st);
          m = str_or (obj_get (cfg node) ''method'');
          headers = List.map_filter (\<lambda>(k, v). map_option (\<lambda>s. (k, interpolateTemplate s vars)) (as_str v))
                      (obj_or (obj_get (cfg node) ''headers''));
          url = interpolateTemplate (str_or (obj_get (cfg node) ''url'')) vars;
          body = interpolateTemplate (str_or (obj_get (cfg node) ''body_template'')) vars;
          storeAs = str_or (obj_get (cfg node) ''response_store_as'')
      in case http_callback env url (if m = [] then ''GET'' else m) headers body st of
           (Inl err, st1) \<Rightarrow> (''http:non2xx'', st1)
         | (Inr (code, respBody), st1) \<Rightarrow>
             (if 200 \<le> code \<and> code < 300 then ''http:2xx'' else ''http:non2xx'',
              if storeAs \<noteq> [] then set_var storeAs respBody st1 else st1))"

definition executeTransfer :: "ivr_env \<Rightarrow> graph \<Rightarrow> node \<Rightarrow> ivr_state \<Rightarrow> string \<times> ivr_state" where
  "executeTransfer env g node st =
     (let teamID = str_or (obj_get (cfg node) ''team_id'');
          st1 = occurs (InitiateTransfer teamID) (saveIVRPath st)
      in if OutgoingEdges g (node_ID node) = [] then ([], st1)
         else (case ivr_transfer env (ivr_trace st1) of
                 None \<Rightarrow> ''completed''
               | Some oc \<Rightarrow> if oc = [] then ''completed'' else oc, occurs AwaitTransfer st1))"

fun timing_loop :: "go_rt \<Rightarrow> clock \<Rightarrow> any list \<Rightarrow> string" where
  "timing_loop rt now [] = ''out_of_hours''"
| "timing_loop rt now (item # rest) =
     (case item of
        ObjV entry \<Rightarrow>
          if strings_ToLower rt (str_or (obj_get entry ''day'')) \<noteq> weekday_lower now then timing_loop rt now rest
          else if \<not> bool_or (obj_get entry ''enabled'') then ''out_of_hours''
          else
            (case time_Parse_1504 (str_or (obj_get entry ''start_time'')) of
               None \<Rightarrow> ''out_of_hours''
             | Some (h1, m1) \<Rightarrow>
                 (case time_Parse_1504 (str_or (obj_get entry ''end_time'')) of
                    None \<Rightarrow> ''out_of_hours''
                  | Some (h2, m2) \<Rightarrow>
                      if h1 * 60 + m1 \<le> clk_Hour now * 60 + clk_Minute now \<and>
                         clk_Hour now * 60 + clk_Minute now < h2 * 60 + m2
                      then ''in_hours'' else ''out_of_hours''))
      | _ \<Rightarrow> timing_loop rt now rest)"

definition executeTiming :: "ivr_env \<Rightarrow> node \<Rightarrow> ivr_state \<Rightarrow> string \<times> ivr_state" where
  "executeTiming env node st =
     (timing_loop (ivr_rt env) (ivr_now env (ivr_trace st)) (arr_or (obj_get (cfg node) ''schedule'')),
      occurs ReadTime st)"

definition executeHangup :: "ivr_env \<Rightarrow> node \<Rightarrow> ivr_state \<Rightarrow> ivr_state" where
  "executeHangup env node st =
     (let st1 = (if str_or (obj_get (cfg node) ''audio_file'') \<noteq> [] \<and> AudioDir env \<noteq> []
                 then snd (play env (audio_path env node) st) else st);
          st2 = (if ivr_has_log env then occurs MarkSystemHangup st1 else st1)
      in occurs TerminateCall (saveIVRPath st2))"

section \<open>Entering a flow\<close>

text \<open>The path kept in the call log: entries of the \<open>steps\<close> array, string values only.\<close>

definition load_path :: "any \<Rightarrow> path_entry list" where
  "load_path v = map (List.map_filter (\<lambda>(k, x). map_option (Pair k) (as_str x))) (List.map_filter as_obj (arr_or v))"

definition fresh_ctx :: "ivr_env \<Rightarrow> ivr_flow \<Rightarrow> graph \<Rightarrow> ivr_state \<Rightarrow> IVRContext" where
  "fresh_ctx env flow g st =
     (let c = ivr_ctx st; old = load_path (ivr_log_path env (ivr_trace st)) in
      \<lparr>Variables = [(''caller_phone'', CallerPhone c), (''call_id'', CallID c)],
       CallerPhone = CallerPhone c, CallID = CallID c, CurrentNode = EntryNode g,
       Path = (if old = [] then [[(''action'', ''flow_start''), (''flow'', ivr_Name flow)]] else old)\<rparr>)"

definition enterIVRFlow :: "ivr_env \<Rightarrow> ivr_flow \<Rightarrow> ivr_state \<Rightarrow> (graph \<times> ivr_state) option" where
  "enterIVRFlow env flow st =
     (case ivr_Menu flow of
        None \<Rightarrow> None
      | Some m \<Rightarrow>
          (case dec_graph m of
             None \<Rightarrow> None
           | Some g \<Rightarrow>
               if Version g \<noteq> 2 \<or> EntryNode g = [] then None
               else Some (BuildMaps g, (occurs LoadPath st)\<lparr>ivr_ctx := fresh_ctx env flow g st\<rparr>)))"

section \<open>The node loop\<close>

datatype ivr_next = Stop ivr_state | Step ivr_flow graph ivr_state

definition base_entry :: "node \<Rightarrow> path_entry" where
  "base_entry node = [(''node'', node_ID node), (''type'', node_Type node), (''label'', node_Label node)]"

definition menu_entry :: "node \<Rightarrow> string \<Rightarrow> path_entry" where
  "menu_entry node oc =
     (if node_Type node = ''menu'' \<and> prefix ''digit:'' oc then
        (let digit = drop 6 oc in
         [(''digit'', digit)] @
         (case as_obj (obj_get (obj_or (obj_get (cfg node) ''options'')) digit) of
            None \<Rightarrow> []
          | Some opt \<Rightarrow> (case as_str (obj_get opt ''label'') of None \<Rightarrow> [] | Some l \<Rightarrow> [(''option_label'', l)])))
      else [])"

definition finish :: "ivr_flow \<Rightarrow> graph \<Rightarrow> node \<Rightarrow> string \<times> ivr_state \<Rightarrow> ivr_next" where
  "finish flow g node = (\<lambda>(oc, st).
     (let st1 = add_path (base_entry node @ menu_entry node oc @ (if oc \<noteq> [] then [(''outcome'', oc)] else [])) st;
          nextID = ResolveEdge g (node_ID node) oc
      in if nextID = [] then Stop (saveIVRPath st1) else Step flow g (go_node nextID st1)))"

definition executeGotoFlow :: "ivr_env \<Rightarrow> node \<Rightarrow> ivr_state \<Rightarrow> ivr_next" where
  "executeGotoFlow env node st =
     (let flowID = str_or (obj_get (cfg node) ''flow_id'') in
      case (if flowID = [] then None else ivr_uuid env flowID) of
        None \<Rightarrow> Stop (saveIVRPath st)
      | Some i \<Rightarrow>
          (case ivr_flow_by_id env (ivr_trace st) i of
             None \<Rightarrow> Stop (saveIVRPath (occurs (LoadFlow i) st))
           | Some target \<Rightarrow>
               if \<not> ivr_IsActive target then Stop (saveIVRPath (occurs (LoadFlow i) st))
               else
                 (let st1 = occurs (SetFlow (ivr_ID target))
                        (saveIVRPath (add_path [(''action'', ''goto_flow''), (''flow'', ivr_Name target)]
                           (occurs (LoadFlow i) st)))
                  in case enterIVRFlow env target st1 of
                       None \<Rightarrow> Stop st1
                     | Some (g, st2) \<Rightarrow> Step target g st2)))"

definition known_types :: "string list" where
  "known_types = [''greeting'', ''menu'', ''gather'', ''http_callback'', ''transfer'', ''goto_flow'', ''timing'', ''hangup'']"

definition ivr_node :: "ivr_env \<Rightarrow> ivr_flow \<Rightarrow> graph \<Rightarrow> node \<Rightarrow> ivr_state \<Rightarrow> ivr_next" where
  "ivr_node env flow g node st =
     (let t = node_Type node; st1 = add_path (base_entry node) st in
      if t = ''greeting'' then finish flow g node (executeGreeting env node st)
      else if t = ''menu'' then finish flow g node (executeMenu env node st)
      else if t = ''gather'' then finish flow g node (executeGather env node st)
      else if t = ''http_callback'' then finish flow g node (executeHTTPCallback env node st)
      else if t = ''transfer'' then
        (case executeTransfer env g node st1 of
           (oc, st2) \<Rightarrow> if oc = [] then Stop st2 else finish flow g node (oc, st2))
      else if t = ''goto_flow'' then executeGotoFlow env node st1
      else if t = ''timing'' then finish flow g node (executeTiming env node st)
      else if t = ''hangup'' then Stop (executeHangup env node st1)
      else Stop st)"

definition ivr_step :: "ivr_env \<Rightarrow> ivr_flow \<Rightarrow> graph \<Rightarrow> ivr_state \<Rightarrow> ivr_next" where
  "ivr_step env flow g st =
     (let st0 = occurs CheckStatus st in
      if ivr_status env (ivr_trace st) \<noteq> ''answered'' then Stop (saveIVRPath st0)
      else
        (case Node g (CurrentNode (ivr_ctx st)) of
           None \<Rightarrow> Stop (saveIVRPath st0)
         | Some node \<Rightarrow> ivr_node env flow g node st0))"

text \<open>The loop has no bound, so \<open>None\<close> is a call that never leaves the menu.\<close>

partial_function (option) executeNodeLoop :: "ivr_env \<Rightarrow> ivr_flow \<Rightarrow> graph \<Rightarrow> ivr_state \<Rightarrow> ivr_state option" where
  "executeNodeLoop env flow g st =
     (case ivr_step env flow g st of
        Stop st' \<Rightarrow> Some st'
      | Step flow' g' st' \<Rightarrow> executeNodeLoop env flow' g' st')"

declare executeNodeLoop.simps [code]

definition runIVRFlow :: "ivr_env \<Rightarrow> ivr_flow \<Rightarrow> ivr_state \<Rightarrow> ivr_state option" where
  "runIVRFlow env flow st =
     (case enterIVRFlow env flow st of
        None \<Rightarrow> Some st
      | Some (g, st1) \<Rightarrow> executeNodeLoop env flow g st1)"

text \<open>The configurations a call can pass through.\<close>

inductive ivr_reach :: "ivr_env \<Rightarrow> ivr_flow \<times> graph \<times> ivr_state \<Rightarrow> ivr_flow \<times> graph \<times> ivr_state \<Rightarrow> bool"
  for env where
  reach_start: "ivr_reach env c c"
| reach_step: "ivr_reach env c (flow, g, st) \<Longrightarrow> ivr_step env flow g st = Step flow' g' st' \<Longrightarrow>
     ivr_reach env c (flow', g', st')"

section \<open>Validation when a menu is saved\<close>

text \<open>\<open>validateFlowGraph\<close> and \<open>toSlice\<close> of \<open>handlers/ivr_flows.go\<close>.\<close>

datatype menu_error =
    UnsupportedVersion
  | MissingNodes
  | NodesNotArray
  | MissingEntryNode
  | NodeMissingID
  | DuplicateID string
  | EntryInvalid string
  | EdgesNotArray
  | EdgeFromUnknown string
  | EdgeToUnknown string
  | TerminalHasEdges string

fun toSlice :: "any \<Rightarrow> any list option" where
  "toSlice (ArrV xs) = Some xs"
| "toSlice NilV = Some []"
| "toSlice _ = None"

definition menu_version :: "any \<Rightarrow> int" where
  "menu_version v = (case v of FloatV x \<Rightarrow> float_to_int x | IntV i \<Rightarrow> i | _ \<Rightarrow> 0)"

fun validate_nodes :: "any list \<Rightarrow> string list \<Rightarrow> string list \<Rightarrow> menu_error + string list \<times> string list" where
  "validate_nodes [] nodeIDs terminals = Inr (nodeIDs, terminals)"
| "validate_nodes (nodeRaw # rest) nodeIDs terminals =
     (case as_obj nodeRaw of
        None \<Rightarrow> validate_nodes rest nodeIDs terminals
      | Some nm \<Rightarrow>
          (let i = str_or (obj_get nm ''id''); t = str_or (obj_get nm ''type'') in
           if i = [] then Inl NodeMissingID
           else if i \<in> set nodeIDs then Inl (DuplicateID i)
           else validate_nodes rest (i # nodeIDs)
                  (if t = ''goto_flow'' \<or> t = ''hangup'' then i # terminals else terminals)))"

fun validate_edges :: "any list \<Rightarrow> string list \<Rightarrow> string list \<Rightarrow> menu_error option" where
  "validate_edges [] nodeIDs terminals = None"
| "validate_edges (edgeRaw # rest) nodeIDs terminals =
     (case as_obj edgeRaw of
        None \<Rightarrow> validate_edges rest nodeIDs terminals
      | Some em \<Rightarrow>
          (let f = str_or (obj_get em ''from''); t = str_or (obj_get em ''to'') in
           if f \<notin> set nodeIDs then Some (EdgeFromUnknown f)
           else if t \<notin> set nodeIDs then Some (EdgeToUnknown t)
           else if f \<in> set terminals then Some (TerminalHasEdges f)
           else validate_edges rest nodeIDs terminals))"

definition validateFlowGraph :: "obj \<Rightarrow> menu_error option" where
  "validateFlowGraph menu =
     (if menu_version (obj_get menu ''version'') \<noteq> 2 then Some UnsupportedVersion
      else
        (case map_of menu ''nodes'' of
           None \<Rightarrow> Some MissingNodes
         | Some nodesRaw \<Rightarrow>
             (case toSlice nodesRaw of
                None \<Rightarrow> Some NodesNotArray
              | Some nodesSlice \<Rightarrow>
                  if nodesSlice = [] then None
                  else
                    (let entryNode = str_or (obj_get menu ''entry_node'') in
                     if entryNode = [] then Some MissingEntryNode
                     else
                       (case validate_nodes nodesSlice [] [] of
                          Inl err \<Rightarrow> Some err
                        | Inr (nodeIDs, terminals) \<Rightarrow>
                            if entryNode \<notin> set nodeIDs then Some (EntryInvalid entryNode)
                            else
                              (case obj_get menu ''edges'' of
                                 NilV \<Rightarrow> None
                               | edgesRaw \<Rightarrow>
                                   (case toSlice edgesRaw of
                                      None \<Rightarrow> Some EdgesNotArray
                                    | Some edgesSlice \<Rightarrow> validate_edges edgesSlice nodeIDs terminals)))))))"

end
