(* ===== verification/IVR_Facts.thy ===== *)
theory IVR_Facts
  imports IVR Chat_Properties
begin

text \<open>
  Properties of the voice menus: what the validation at save time guarantees to the loop, what a
  finished call leaves in the call log, the bounds of key input, and the loop's lack of a bound.
\<close>

section \<open>Validated menus are closed\<close>

lemma validate_nodes_ids:
  "validate_nodes xs ids ts = Inr (ids', ts') \<Longrightarrow> i \<in> set ids' \<Longrightarrow>
     i \<in> set ids \<or> (i \<noteq> [] \<and> (\<exists>m. ObjV m \<in> set xs \<and> obj_get m ''id'' = StrV i))"
proof (induction xs arbitrary: ids ts)
  case (Cons x xs)
  show ?case
  proof (cases "as_obj x")
    case None
    with Cons show ?thesis by auto
  next
    case (Some m)
    let ?i = "str_or (obj_get m ''id'')"
    have id: "?i \<noteq> [] \<Longrightarrow> obj_get m ''id'' = StrV ?i"
      by (cases "obj_get m ''id''") (auto simp: str_or_def)
    from Some Cons.prems(1) obtain ts1 where "validate_nodes xs (?i # ids) ts1 = Inr (ids', ts')" "?i \<noteq> []"
      by (auto simp: Let_def split: if_splits)
    with Cons.IH [of "?i # ids" ts1] Cons.prems(2) id Some show ?thesis
      by auto
  qed
qed simp

lemma validate_edges_ok:
  "validate_edges xs ids ts = None \<Longrightarrow> [] \<notin> set ids \<Longrightarrow> ObjV m \<in> set xs \<Longrightarrow>
     \<exists>t. obj_get m ''to'' = StrV t \<and> t \<in> set ids"
proof (induction xs ids ts rule: validate_edges.induct)
  case (2 x xs ids ts)
  have to_str: "str_or v \<in> set ids \<Longrightarrow> v = StrV (str_or v)" for v
    using "2.prems"(2) by (cases v) (auto simp: str_or_def)
  show ?case
  proof (cases "as_obj x")
    case None
    with 2 show ?thesis by auto
  next
    case (Some em)
    then show ?thesis
      using 2 to_str [of "obj_get em ''to''"] by (auto simp: Let_def split: if_splits)
  qed
qed simp

lemma those_Some: "those xs = Some ys \<Longrightarrow> xs = map Some ys"
  by (induction xs arbitrary: ys) (auto split: option.splits)

lemma dec_list_mem: "dec_list d (ArrV xs) = Some ys \<Longrightarrow> x \<in> set xs \<Longrightarrow> \<exists>y \<in> set ys. d x = Some y"
  by (auto dest!: those_Some) (metis image_iff list.set_map)

lemma dec_list_from: "dec_list d (ArrV xs) = Some ys \<Longrightarrow> y \<in> set ys \<Longrightarrow> \<exists>x \<in> set xs. d x = Some y"
  by (auto dest!: those_Some) (metis image_iff list.set_map)

lemma json_field_get: "obj_get m k = v \<Longrightarrow> v \<noteq> NilV \<Longrightarrow> json_field m k = v"
  by (auto simp: json_field_def obj_get_def split: option.splits)

lemma dec_node_id: "dec_struct dec_node (ObjV m) = Some n \<Longrightarrow> obj_get m ''id'' = StrV i \<Longrightarrow> node_ID n = i"
  by (auto simp: dec_node_def bind_eq_Some_conv json_field_get)

lemma dec_edge_to: "dec_struct dec_edge (ObjV m) = Some e \<Longrightarrow> obj_get m ''to'' = StrV t \<Longrightarrow> To e = t"
  by (auto simp: dec_edge_def bind_eq_Some_conv json_field_get)

lemma dec_struct_cases:
  "dec_struct d x = Some y \<Longrightarrow> x = NilV \<and> d [] = Some y \<or> (\<exists>m. x = ObjV m)"
  by (cases x) auto

lemma dec_edge_null: "dec_edge [] = Some e \<Longrightarrow> To e = []"
  by (auto simp: dec_edge_def json_field_def)

text \<open>The keys of a menu are spelled as the validation reads them.\<close>

definition exact_edges_key :: "obj \<Rightarrow> bool" where
  "exact_edges_key menu \<longleftrightarrow> json_field menu ''edges'' = obj_get menu ''edges''"

lemma validated_menu_closed:
  assumes v: "validateFlowGraph menu = None" and g: "dec_graph menu = Some g"
    and x: "exact_edges_key menu" and ne: "Nodes g \<noteq> []"
  shows "graph_closed (BuildMaps g) \<and> Node (BuildMaps g) (EntryNode g) \<noteq> None"
proof -
  obtain raw where raw: "map_of menu ''nodes'' = Some raw"
    using v by (auto simp: validateFlowGraph_def split: if_splits option.splits)
  have jn: "json_field menu ''nodes'' = raw"
    using raw by (simp add: json_field_def)
  from g have dn: "dec_list (dec_struct dec_node) raw = Some (Nodes g)"
      and de: "dec_list (dec_struct dec_edge) (json_field menu ''edges'') = Some (Edges g)"
      and den: "dec_string (json_field menu ''entry_node'') = Some (EntryNode g)"
    by (auto simp: dec_graph_def bind_eq_Some_conv jn)
  obtain xs where xs1: "raw = ArrV xs"
    using dn ne by (cases raw) auto
  moreover have "xs \<noteq> []"
    using dn ne xs1 by auto
  ultimately have xs: "raw = ArrV xs" "xs \<noteq> []"
    by blast+
  let ?en = "str_or (obj_get menu ''entry_node'')"
  obtain ids ts where vn: "validate_nodes xs [] [] = Inr (ids, ts)" and en: "?en \<noteq> []" "?en \<in> set ids"
    using v raw xs by (auto simp: validateFlowGraph_def Let_def split: if_splits sum.splits prod.splits)
  have ids: "i \<noteq> [] \<and> i \<in> node_ID ` set (Nodes g)" if "i \<in> set ids" for i
  proof -
    from validate_nodes_ids [OF vn that] obtain m where m: "i \<noteq> []" "ObjV m \<in> set xs" "obj_get m ''id'' = StrV i"
      by auto
    from dec_list_mem [OF dn [unfolded xs(1)] m(2)] obtain n where "n \<in> set (Nodes g)" "dec_struct dec_node (ObjV m) = Some n"
      by auto
    with m show ?thesis using dec_node_id by (metis image_eqI)
  qed
  have "obj_get menu ''entry_node'' = StrV ?en"
    using en(1) by (cases "obj_get menu ''entry_node''") (auto simp: str_or_def)
  from json_field_get [OF this] have "json_field menu ''entry_node'' = StrV ?en"
    by simp
  then have entry: "EntryNode g = ?en"
    using den by simp
  have "To e \<in> node_ID ` set (Nodes g)" if e: "e \<in> set (Edges g)" "To e \<noteq> []" for e
  proof -
    let ?raw = "obj_get menu ''edges''"
    have de': "dec_list (dec_struct dec_edge) ?raw = Some (Edges g)"
      using de x by (simp add: exact_edges_key_def)
    then obtain es where es: "?raw = ArrV es"
      using e(1) by (cases ?raw) auto
    have ve: "validate_edges es ids ts = None"
      using v raw xs vn en es by (auto simp: validateFlowGraph_def Let_def split: if_splits)
    from dec_list_from [OF de' [unfolded es] e(1)] obtain y where y: "y \<in> set es" "dec_struct dec_edge y = Some e"
      by auto
    with e(2) obtain m where m: "y = ObjV m"
      using dec_struct_cases [OF y(2)] dec_edge_null by auto
    from validate_edges_ok [OF ve] ids y m obtain t where "obj_get m ''to'' = StrV t" "t \<in> set ids"
      by blast
    with y m show ?thesis using dec_edge_to ids by metis
  qed
  then have "graph_closed (BuildMaps g)"
    by (simp add: graph_closed_def)
  with ids [OF en(2)] entry show ?thesis
    using Node_defined_iff [of g "EntryNode g"] by simp
qed

section \<open>Walking a closed menu\<close>

definition sound_graph :: "graph \<Rightarrow> bool" where
  "sound_graph g \<longleftrightarrow> graph_closed g \<and> Node g (EntryNode g) \<noteq> None"

text \<open>Every menu of the flow store that decodes is closed and has its entry node.\<close>

definition store_sound :: "ivr_env \<Rightarrow> bool" where
  "store_sound env \<longleftrightarrow>
     (\<forall>tr i flow m g. ivr_flow_by_id env tr i = Some flow \<longrightarrow> ivr_Menu flow = Some m \<longrightarrow> dec_graph m = Some g \<longrightarrow>
        sound_graph (BuildMaps g))"

fun on_menu :: "ivr_flow \<times> graph \<times> ivr_state \<Rightarrow> bool" where
  "on_menu (flow, g, st) \<longleftrightarrow> graph_closed g \<and> Node g (CurrentNode (ivr_ctx st)) \<noteq> None"

lemma CurrentNode_go [simp]: "CurrentNode (ivr_ctx (go_node i st)) = i"
  by (simp add: go_node_def)

lemma finish_on_menu:
  "graph_closed g \<Longrightarrow> finish flow g n r = Step flow' g' st' \<Longrightarrow> on_menu (flow', g', st')"
  by (cases r) (auto simp: finish_def Let_def split: if_splits dest: fg.route_closed)

lemma enter_on_menu:
  assumes "enterIVRFlow env flow st = Some (g, st')"
    and "\<And>m g. ivr_Menu flow = Some m \<Longrightarrow> dec_graph m = Some g \<Longrightarrow> sound_graph (BuildMaps g)"
  shows "on_menu (flow, g, st')"
  using assms
  by (auto simp: enterIVRFlow_def fresh_ctx_def Let_def sound_graph_def split: option.splits if_splits)

lemma goto_on_menu:
  "store_sound env \<Longrightarrow> executeGotoFlow env n st = Step flow' g' st' \<Longrightarrow> on_menu (flow', g', st')"
  by (auto simp: executeGotoFlow_def Let_def store_sound_def simp del: on_menu.simps
      split: option.splits if_splits intro!: enter_on_menu)

lemma step_on_menu:
  assumes "store_sound env" "graph_closed g" "ivr_step env flow g st = Step flow' g' st'"
  shows "on_menu (flow', g', st')"
proof -
  obtain n st0 where "ivr_node env flow g n st0 = Step flow' g' st'"
    using assms(3) by (auto simp: ivr_step_def Let_def split: if_splits option.splits)
  then show ?thesis
    using finish_on_menu [OF assms(2)] goto_on_menu [OF assms(1)]
    by (auto simp: ivr_node_def Let_def simp del: on_menu.simps split: if_splits prod.splits)
qed

inductive_cases ivr_reachE: "ivr_reach env c c'"

lemma reach_on_menu: "ivr_reach env c c' \<Longrightarrow> store_sound env \<Longrightarrow> on_menu c \<Longrightarrow> on_menu c'"
proof (induction rule: ivr_reach.induct)
  case (reach_step c flow g st flow' g' st')
  then show ?case using step_on_menu by (metis on_menu.simps)
qed

section \<open>The call log\<close>

definition last_saved :: "ivr_event list \<Rightarrow> path_entry list option" where
  "last_saved tr = fold (\<lambda>e acc. case e of SavePath p \<Rightarrow> Some p | _ \<Rightarrow> acc) tr None"

definition is_SavePath :: "ivr_event \<Rightarrow> bool" where
  "is_SavePath e = (case e of SavePath _ \<Rightarrow> True | _ \<Rightarrow> False)"

lemma last_saved_save [simp]: "last_saved (tr @ [SavePath p]) = Some p"
  by (simp add: last_saved_def)

lemma last_saved_other [simp]: "\<not> is_SavePath e \<Longrightarrow> last_saved (tr @ [e]) = last_saved tr"
  by (cases e) (simp_all add: last_saved_def is_SavePath_def)

lemma is_SavePath_simps [simp]:
  "\<not> is_SavePath DrainDTMF" "\<not> is_SavePath (PlayFile f)" "\<not> is_SavePath AwaitKey" "\<not> is_SavePath (Callback q)"
  "\<not> is_SavePath (InitiateTransfer t)" "\<not> is_SavePath AwaitTransfer" "\<not> is_SavePath (LoadFlow i)"
  "\<not> is_SavePath (SetFlow i)" "\<not> is_SavePath LoadPath" "\<not> is_SavePath CheckStatus" "\<not> is_SavePath ReadTime"
  "\<not> is_SavePath MarkSystemHangup" "\<not> is_SavePath TerminateCall"
  by (simp_all add: is_SavePath_def)

definition logged :: "ivr_state \<Rightarrow> bool" where
  "logged st \<longleftrightarrow> last_saved (ivr_trace st) = Some (Path (ivr_ctx st))"

lemma logged_save: "Path (ivr_ctx st) \<noteq> [] \<Longrightarrow> logged (saveIVRPath st)"
  by (simp add: logged_def saveIVRPath_def occurs_def)

lemma logged_occurs [simp]: "\<not> is_SavePath e \<Longrightarrow> logged (occurs e st) \<longleftrightarrow> logged st"
  by (simp add: logged_def occurs_def)

lemma Path_simps [simp]:
  "Path (ivr_ctx (occurs e st)) = Path (ivr_ctx st)" "Path (ivr_ctx (set_var k v st)) = Path (ivr_ctx st)"
  "Path (ivr_ctx (add_path p st)) = Path (ivr_ctx st) @ [p]" "Path (ivr_ctx (go_node i st)) = Path (ivr_ctx st)"
  "Path (ivr_ctx (saveIVRPath st)) = Path (ivr_ctx st)"
  by (simp_all add: occurs_def set_var_def add_path_def go_node_def saveIVRPath_def)

lemma Path_play [simp]: "Path (ivr_ctx (snd (play env f st))) = Path (ivr_ctx st)"
  by (simp add: play_def)

lemma finish_logged:
  "finish flow g n r = Stop st' \<Longrightarrow> logged st'"
  "finish flow g n r = Step flow' g' st' \<Longrightarrow> Path (ivr_ctx st') \<noteq> []"
  by (cases r; auto simp: finish_def Let_def logged_save split: if_splits)+

lemma enter_path: "enterIVRFlow env flow st = Some (g, st') \<Longrightarrow> Path (ivr_ctx st') \<noteq> []"
  by (auto simp: enterIVRFlow_def fresh_ctx_def Let_def split: option.splits if_splits)

lemma goto_logged:
  "executeGotoFlow env n st = Stop st' \<Longrightarrow> Path (ivr_ctx st) \<noteq> [] \<Longrightarrow> logged st'"
  "executeGotoFlow env n st = Step flow' g' st' \<Longrightarrow> Path (ivr_ctx st') \<noteq> []"
  by (auto simp: executeGotoFlow_def Let_def logged_save split: option.splits if_splits dest: enter_path)

lemma transfer_logged:
  "executeTransfer env g n st = (oc, st') \<Longrightarrow> Path (ivr_ctx st) \<noteq> [] \<Longrightarrow> logged st'"
  by (auto simp: executeTransfer_def Let_def logged_save split: if_splits)

lemma hangup_logged: "Path (ivr_ctx st) \<noteq> [] \<Longrightarrow> logged (executeHangup env n st)"
  by (simp add: executeHangup_def Let_def logged_save)

definition types_known :: "graph \<Rightarrow> bool" where
  "types_known g \<longleftrightarrow> (\<forall>i n. Node g i = Some n \<longrightarrow> node_Type n \<in> set known_types)"

lemma node_logged:
  assumes "node_Type n \<in> set known_types" "Path (ivr_ctx st) \<noteq> []"
  shows "ivr_node env flow g n st = Stop st' \<Longrightarrow> logged st'"
    and "ivr_node env flow g n st = Step flow' g' st' \<Longrightarrow> Path (ivr_ctx st') \<noteq> []"
proof -
  show "ivr_node env flow g n st = Stop st' \<Longrightarrow> logged st'"
    using assms
    by (auto simp: ivr_node_def Let_def known_types_def split: if_splits prod.splits
        intro: finish_logged(1) goto_logged(1) transfer_logged hangup_logged)
  show "ivr_node env flow g n st = Step flow' g' st' \<Longrightarrow> Path (ivr_ctx st') \<noteq> []"
    using finish_logged(2) goto_logged(2)
    by (simp add: ivr_node_def Let_def split: if_splits prod.splits)
qed

lemma step_logged:
  assumes "types_known g" "Path (ivr_ctx st) \<noteq> []"
  shows "ivr_step env flow g st = Stop st' \<Longrightarrow> logged st'"
    and "ivr_step env flow g st = Step flow' g' st' \<Longrightarrow> Path (ivr_ctx st') \<noteq> []"
proof -
  have n: "node_Type n \<in> set known_types" if "Node g i = Some n" for i n
    using assms(1) that by (auto simp: types_known_def)
  have p: "Path (ivr_ctx (occurs CheckStatus st)) \<noteq> []"
    using assms(2) by simp
  show "ivr_step env flow g st = Stop st' \<Longrightarrow> logged st'"
    using node_logged(1) [OF n p] assms(2)
    by (simp add: ivr_step_def Let_def split: if_splits option.splits) (auto simp: logged_save)
  show "ivr_step env flow g st = Step flow' g' st' \<Longrightarrow> Path (ivr_ctx st') \<noteq> []"
    using node_logged(2) [OF n p] by (simp add: ivr_step_def Let_def split: if_splits option.splits)
qed

definition store_typed :: "ivr_env \<Rightarrow> bool" where
  "store_typed env \<longleftrightarrow>
     (\<forall>tr i flow m g. ivr_flow_by_id env tr i = Some flow \<longrightarrow> ivr_Menu flow = Some m \<longrightarrow> dec_graph m = Some g \<longrightarrow>
        types_known (BuildMaps g))"

lemma finish_graph: "finish flow g n r = Step flow' g' st' \<Longrightarrow> g' = g"
  by (cases r) (auto simp: finish_def Let_def split: if_splits)

lemma goto_types: "store_typed env \<Longrightarrow> executeGotoFlow env n st = Step flow' g' st' \<Longrightarrow> types_known g'"
  by (auto simp: executeGotoFlow_def enterIVRFlow_def Let_def store_typed_def split: option.splits if_splits)

lemma step_types:
  assumes "store_typed env" "types_known g" "ivr_step env flow g st = Step flow' g' st'"
  shows "types_known g'"
proof -
  obtain n st0 where "ivr_node env flow g n st0 = Step flow' g' st'"
    using assms(3) by (auto simp: ivr_step_def Let_def split: if_splits option.splits)
  then show ?thesis
    using assms(2) goto_types [OF assms(1)]
    by (auto simp: ivr_node_def Let_def split: if_splits prod.splits dest: finish_graph)
qed

lemma loop_logged:
  "executeNodeLoop env flow g st = Some st' \<Longrightarrow>
     store_typed env \<longrightarrow> types_known g \<longrightarrow> Path (ivr_ctx st) \<noteq> [] \<longrightarrow> logged st'"
proof (erule executeNodeLoop.raw_induct [rotated], intro impI)
  fix loop env flow g st st'
  assume IH: "\<And>env flow g st st'. loop env flow g st = Some st' \<Longrightarrow>
       store_typed env \<longrightarrow> types_known g \<longrightarrow> Path (ivr_ctx st) \<noteq> [] \<longrightarrow> logged st'"
    and r: "(case ivr_step env flow g st of Stop st' \<Rightarrow> Some st' | Step flow' g' st' \<Rightarrow> loop env flow' g' st') = Some st'"
    and store: "store_typed env" and g: "types_known g" and p: "Path (ivr_ctx st) \<noteq> []"
  show "logged st'"
  proof (cases "ivr_step env flow g st")
    case (Stop s)
    then show ?thesis using step_logged(1) [OF g p] r by simp
  next
    case (Step f1 g1 s1)
    then show ?thesis
      using IH [of env f1 g1 s1 st'] r store step_types [OF store g Step] step_logged(2) [OF g p Step] by simp
  qed
qed

section \<open>Keys\<close>

lemma collect_bound:
  "collectDTMFDigits env t k st = (ds, st') \<Longrightarrow> length ds \<le> k \<and> list_all (\<lambda>d. [d] \<noteq> t) ds"
proof (induction env t k st arbitrary: ds rule: collectDTMFDigits.induct)
  case (2 env t k st)
  then show ?case
    by (auto split: dtmf.splits if_splits prod.splits)
qed simp

lemma gather_result:
  "gather_attempts env n t maxd k st = (oc, st') \<Longrightarrow>
     oc = ''max_retries'' \<or>
     oc = ''default'' \<and> (\<exists>ds. ds \<noteq> [] \<and> length ds \<le> maxd \<and> list_all (\<lambda>d. [d] \<noteq> t) ds \<and>
        (str_or (obj_get (cfg n) ''store_as'') \<noteq> [] \<longrightarrow>
           map_of (Variables (ivr_ctx st')) (str_or (obj_get (cfg n) ''store_as'')) = Some ds))"
proof (induction k arbitrary: st)
  case (Suc k)
  obtain ds st1 where c: "collectDTMFDigits env t maxd st = (ds, st1)"
    by (cases "collectDTMFDigits env t maxd st")
  show ?case
  proof (cases "ds = []")
    case True
    with Suc c show ?thesis by simp
  next
    case False
    let ?v = "str_or (obj_get (cfg n) ''store_as'')"
    have "oc = ''default''" "st' = (if ?v \<noteq> [] then set_var ?v ds st1 else st1)"
      using Suc.prems c False by (simp_all add: Let_def)
    with False collect_bound [OF c] show ?thesis
      by (intro disjI2 conjI exI [of _ ds]) (simp_all add: set_var_def update_conv')
  qed
qed simp

lemma menu_result:
  "menu_attempts env n k st = (oc, st') \<Longrightarrow>
     oc = ''max_retries'' \<or>
     (\<exists>d. oc = ''digit:'' @ [d] \<and> (menu_digits n = [] \<or> [d] \<in> set (menu_digits n)) \<and>
        map_of (Variables (ivr_ctx st')) ''last_menu_digit'' = Some [d])"
proof (induction k arbitrary: st)
  case (Suc k)
  obtain od st1 where c: "menu_digit env (audio_path env n) (occurs DrainDTMF st) = (od, st1)"
    by (cases "menu_digit env (audio_path env n) (occurs DrainDTMF st)")
  show ?case
  proof (cases "\<exists>d. od = Some d \<and> (menu_digits n = [] \<or> [d] \<in> set (menu_digits n))")
    case True
    then obtain d where d: "od = Some d" "menu_digits n = [] \<or> [d] \<in> set (menu_digits n)"
      by blast
    with c Suc.prems have "oc = ''digit:'' @ [d]"
        "st' = set_var ''last_menu_digit'' [d] (set_var (''menu_'' @ node_ID n) [d] st1)"
      by (simp_all add: Let_def)
    with d show ?thesis
      by (intro disjI2 exI [of _ d]) (simp add: set_var_def update_conv')
  next
    case False
    with c have "menu_attempts env n (Suc k) st = menu_attempts env n k st1"
      by (cases od) (simp_all add: Let_def)
    with Suc show ?thesis by simp
  qed
qed simp

section \<open>Timing\<close>

lemma timing_loop_eq: "timing_loop rt now schedule = evaluateTimingSchedule rt now schedule"
  by (induction rt now schedule rule: timing_loop.induct)
     (auto simp: timing_entry_def minutes_of_def Let_def split: any.split option.split)

section \<open>Properties\<close>

text \<open>
  C24. A voice menu with at least one node that the validation accepts at save time is safe to walk,
  provided its edges are not spelled with other letter cases (the validation reads the key \<open>edges\<close>
  exactly, the decoder also takes \<open>Edges\<close> when there is no \<open>edges\<close>): when it decodes, its graph is closed
  and has its entry node, and a call that starts in it never stands at a missing node, whatever the
  caller does and whichever flows it jumps to, as long as these have closed graphs with an entry node
  too.
\<close>
theorem validated_menu_never_lost:
  assumes "validateFlowGraph menu = None" "dec_graph menu = Some g" "exact_edges_key menu" "Nodes g \<noteq> []"
    and "store_sound env" "ivr_Menu flow = Some menu" "enterIVRFlow env flow st = Some (g1, st1)"
    and "ivr_reach env (flow, g1, st1) (flow2, g2, st2)"
  shows "graph_closed (BuildMaps g) \<and> Node (BuildMaps g) (EntryNode g) \<noteq> None \<and>
    Node g2 (CurrentNode (ivr_ctx st2)) \<noteq> None"
proof -
  note closed = validated_menu_closed [OF assms(1-4)]
  then have "sound_graph (BuildMaps g)"
    by (simp add: sound_graph_def)
  then have "on_menu (flow, g1, st1)"
    using assms(2,6) by (intro enter_on_menu [OF assms(7)]) auto
  then show ?thesis
    using reach_on_menu [OF assms(8,5)] closed by simp
qed

text \<open>
  Both conditions are needed: the validation accepts an entry node without any node, and an edge to
  nowhere under the key \<open>Edges\<close>.
\<close>

definition empty_menu :: obj where
  "empty_menu = [(''version'', IntV 2), (''entry_node'', StrV ''x''), (''nodes'', ArrV [])]"

definition shouted_menu :: obj where
  "shouted_menu = [(''version'', IntV 2), (''entry_node'', StrV ''m''), (''nodes'', ArrV [node_json ''m'' ''menu'' []]),
     (''Edges'', ArrV [edge_json ''m'' ''gone'' ''digit:1''])]"

lemma validation_accepts_lost_menus:
  "validateFlowGraph empty_menu = None" "map_option (\<lambda>g. (EntryNode g, Nodes g)) (dec_graph empty_menu) = Some (''x'', [])"
  "validateFlowGraph shouted_menu = None"
  "map_option (\<lambda>g. (map To (Edges g), map node_ID (Nodes g))) (dec_graph shouted_menu) = Some ([''gone''], [''m''])"
  by code_simp+

text \<open>
  A call that leaves its menu has its whole path in the call log: when all node types are
  known ones, the last path written before the loop ends is the path at its end, on every way out
  (hang-up, transfer, failed jump, no edge, missing node, call ended by the caller).
\<close>
theorem call_log_complete:
  assumes "store_typed env" "enterIVRFlow env flow st = Some (g, st1)" "types_known g"
    and "runIVRFlow env flow st = Some st'"
  shows "last_saved (ivr_trace st') = Some (Path (ivr_ctx st'))"
  using loop_logged [of env flow g st1 st'] assms enter_path [OF assms(2)]
  by (simp add: runIVRFlow_def logged_def)

text \<open>
  The timing node of the voice menus and the timing node of the chatbot decide alike on every
  schedule and every clock.
\<close>
theorem ivr_timing_equals_chat_timing:
  "executeTiming env node st =
     (evaluateTimingSchedule (ivr_rt env) (ivr_now env (ivr_trace st)) (arr_or (obj_get (cfg node) ''schedule'')),
      occurs ReadTime st)"
  by (simp add: executeTiming_def timing_loop_eq)

text \<open>
  Key input is bounded: a gather node either gives up with \<open>max_retries\<close> or stores a
  non-empty input of at most \<open>max_digits\<close> keys without the terminator; a menu node answers
  \<open>max_retries\<close> or \<open>digit:d\<close> for a configured key \<open>d\<close>, which it also stores. The outcome
  \<open>timeout\<close> that the documentation of \<open>executeMenu\<close> announces never occurs.
\<close>
theorem key_input_bounded:
  "(case executeGather env n st of (oc, st') \<Rightarrow>
      oc = ''max_retries'' \<or>
      oc = ''default'' \<and> (\<exists>ds. ds \<noteq> [] \<and> length ds \<le> nat (getConfigInt (cfg n) ''max_digits'' 10) \<and>
        list_all (\<lambda>d. [d] \<noteq> (if str_or (obj_get (cfg n) ''terminator'') = [] then ''#''
                              else str_or (obj_get (cfg n) ''terminator''))) ds \<and>
        (str_or (obj_get (cfg n) ''store_as'') = [] \<or>
         map_of (Variables (ivr_ctx st')) (str_or (obj_get (cfg n) ''store_as'')) = Some ds))) \<and>
   (case executeMenu env n st of (oc, st') \<Rightarrow>
      oc \<noteq> ''timeout'' \<and>
      (oc = ''max_retries'' \<or>
       (\<exists>d. oc = ''digit:'' @ [d] \<and> (menu_digits n = [] \<or> [d] \<in> set (menu_digits n)) \<and>
          map_of (Variables (ivr_ctx st')) ''last_menu_digit'' = Some [d])))"
proof (rule conjI)
  show "case executeGather env n st of (oc, st') \<Rightarrow>
      oc = ''max_retries'' \<or>
      oc = ''default'' \<and> (\<exists>ds. ds \<noteq> [] \<and> length ds \<le> nat (getConfigInt (cfg n) ''max_digits'' 10) \<and>
        list_all (\<lambda>d. [d] \<noteq> (if str_or (obj_get (cfg n) ''terminator'') = [] then ''#''
                              else str_or (obj_get (cfg n) ''terminator''))) ds \<and>
        (str_or (obj_get (cfg n) ''store_as'') = [] \<or>
         map_of (Variables (ivr_ctx st')) (str_or (obj_get (cfg n) ''store_as'')) = Some ds))"
    by (auto simp only: executeGather_def Let_def split: prod.split dest!: gather_result)
  show "case executeMenu env n st of (oc, st') \<Rightarrow>
      oc \<noteq> ''timeout'' \<and>
      (oc = ''max_retries'' \<or>
       (\<exists>d. oc = ''digit:'' @ [d] \<and> (menu_digits n = [] \<or> [d] \<in> set (menu_digits n)) \<and>
          map_of (Variables (ivr_ctx st')) ''last_menu_digit'' = Some [d]))"
    by (auto simp: executeMenu_def split: prod.split dest!: menu_result)
qed

subsection \<open>A sample menu\<close>

definition sample_ivr :: ivr_env where
  "sample_ivr =
     \<lparr>ivr_rt = sample_rt, AudioDir = [], ivr_Join = (\<lambda>a b. a @ ''/'' @ b), ivr_play = (\<lambda>_ _. PlayDone),
      ivr_key = (\<lambda>_. Digit (CHR ''1'')), ivr_http = (\<lambda>_ _. Inl ''refused''), ivr_Canonical = id,
      ivr_transfer = (\<lambda>_. None), ivr_flow_by_id = (\<lambda>_ _. None), ivr_uuid = Some, ivr_status = (\<lambda>_. ''answered''),
      ivr_now = (\<lambda>_. noon_monday), ivr_log_path = (\<lambda>_. NilV), ivr_has_log = True\<rparr>"

definition sample_menu :: obj where
  "sample_menu =
     [(''version'', IntV 2), (''entry_node'', StrV ''m''),
      (''nodes'', ArrV [node_json ''m'' ''menu'' [(''options'', ObjV [(''1'', ObjV [(''label'', StrV ''Sales'')])])],
                        node_json ''h'' ''hangup'' []]),
      (''edges'', ArrV [edge_json ''m'' ''h'' ''digit:1''])]"

definition sample_ivr_flow :: ivr_flow where
  "sample_ivr_flow = \<lparr>ivr_ID = ''v1'', ivr_Name = ''Main'', ivr_IsActive = True, ivr_Menu = Some sample_menu\<rparr>"

definition sample_call :: ivr_state where
  "sample_call = \<lparr>ivr_ctx = \<lparr>Variables = [], CallerPhone = ''212600000000'', CallID = ''c1'', CurrentNode = [], Path = []\<rparr>,
     ivr_trace = []\<rparr>"

lemma sample_menu_valid:
  "validateFlowGraph sample_menu = None" "exact_edges_key sample_menu"
  by code_simp (simp add: exact_edges_key_def sample_menu_def json_field_def obj_get_def)

lemma sample_menu_decodes:
  "\<exists>g. dec_graph sample_menu = Some g \<and> Nodes g \<noteq> [] \<and> Version g = 2 \<and> EntryNode g = ''m'' \<and> types_known (BuildMaps g)"
proof -
  have "case dec_graph sample_menu of
          Some g \<Rightarrow> Nodes g \<noteq> [] \<and> Version g = 2 \<and> EntryNode g = ''m'' \<and> list_all (\<lambda>n. node_Type n \<in> set known_types) (Nodes g)
        | None \<Rightarrow> False"
    by code_simp
  then show ?thesis
    using Node_Some_ID by (auto simp: types_known_def list_all_iff split: option.splits)
qed

lemma sample_store: "store_sound sample_ivr" "store_typed sample_ivr"
  by (simp_all add: store_sound_def store_typed_def sample_ivr_def)

theorem validated_menu_never_lost_witness:
  "\<exists>g st. enterIVRFlow sample_ivr sample_ivr_flow sample_call = Some (g, st) \<and> Node g (CurrentNode (ivr_ctx st)) \<noteq> None"
proof -
  obtain g where g: "dec_graph sample_menu = Some g" "Nodes g \<noteq> []" "Version g = 2" "EntryNode g = ''m''"
    using sample_menu_decodes by blast
  then obtain st where e: "enterIVRFlow sample_ivr sample_ivr_flow sample_call = Some (BuildMaps g, st)"
    by (simp add: enterIVRFlow_def sample_ivr_flow_def)
  show ?thesis
    using validated_menu_never_lost [OF sample_menu_valid(1) g(1) sample_menu_valid(2) g(2) sample_store(1) _ e reach_start] e
    by (auto simp: sample_ivr_flow_def)
qed

theorem call_log_complete_witness:
  "\<exists>st'. runIVRFlow sample_ivr sample_ivr_flow sample_call = Some st' \<and>
     last_saved (ivr_trace st') = Some (Path (ivr_ctx st')) \<and> length (Path (ivr_ctx st')) = 3"
proof -
  have "case runIVRFlow sample_ivr sample_ivr_flow sample_call of
          Some st' \<Rightarrow> length (Path (ivr_ctx st')) = 3 | None \<Rightarrow> False"
    by code_simp
  then obtain st' where r: "runIVRFlow sample_ivr sample_ivr_flow sample_call = Some st'"
      and l: "length (Path (ivr_ctx st')) = 3"
    by (auto split: option.splits)
  obtain g where g: "dec_graph sample_menu = Some g" "Version g = 2" "EntryNode g = ''m''" "types_known (BuildMaps g)"
    using sample_menu_decodes by blast
  then obtain st where "enterIVRFlow sample_ivr sample_ivr_flow sample_call = Some (BuildMaps g, st)"
    by (simp add: enterIVRFlow_def sample_ivr_flow_def)
  from call_log_complete [OF sample_store(2) this g(4) r] r l show ?thesis
    by blast
qed

subsection \<open>No bound\<close>

text \<open>
  Unlike the chatbot's runner, the voice loop has no bound: a timing node whose edges lead
  back to itself keeps an answered call in the loop forever, without reading a key and without
  ever writing the path.
\<close>
theorem ivr_cycle_never_ends:
  assumes "\<And>tr. ivr_status env tr = ''answered''"
    and "Node g i = Some n" "node_ID n = i" "node_Type n = ''timing''" "i \<noteq> []"
    and "ResolveEdge g i ''in_hours'' = i" "ResolveEdge g i ''out_of_hours'' = i"
    and "CurrentNode (ivr_ctx st) = i"
  shows "executeNodeLoop env flow g st = None"
proof -
  have out: "evaluateTimingSchedule rt now xs = ''in_hours'' \<or> evaluateTimingSchedule rt now xs = ''out_of_hours''" for rt now xs
    by (simp add: evaluateTimingSchedule_day timing_entry_def Let_def split: option.split)
  have step: "\<exists>s'. ivr_step env flow g s = Step flow g s' \<and> CurrentNode (ivr_ctx s') = i"
    if "CurrentNode (ivr_ctx s) = i" for s
    using assms that out [of "ivr_rt env" "ivr_now env (ivr_trace (occurs CheckStatus s))" "arr_or (obj_get (cfg n) ''schedule'')"]
    by (auto simp: ivr_step_def ivr_node_def Let_def finish_def executeTiming_def timing_loop_eq)
  have "e = env \<longrightarrow> f = flow \<longrightarrow> g' = g \<longrightarrow> CurrentNode (ivr_ctx s) \<noteq> i"
    if "executeNodeLoop e f g' s = Some s'" for e f g' s s'
    using that
  proof (rule executeNodeLoop.raw_induct [rotated, where P = "\<lambda>e f g' s s'. e = env \<longrightarrow> f = flow \<longrightarrow> g' = g \<longrightarrow> CurrentNode (ivr_ctx s) \<noteq> i"],
         intro impI notI)
    fix loop e f g' s s'
    assume IH: "\<And>e f g' s s'. loop e f g' s = Some s' \<Longrightarrow> e = env \<longrightarrow> f = flow \<longrightarrow> g' = g \<longrightarrow> CurrentNode (ivr_ctx s) \<noteq> i"
      and r: "(case ivr_step e f g' s of Stop s' \<Rightarrow> Some s' | Step f' g'' s' \<Rightarrow> loop e f' g'' s') = Some s'"
      and eq: "e = env" "f = flow" "g' = g" "CurrentNode (ivr_ctx s) = i"
    from step [OF eq(4)] r eq IH show False by auto
  qed
  with assms(8) show ?thesis
    by (cases "executeNodeLoop env flow g st") auto
qed

definition spin_menu :: obj where
  "spin_menu =
     [(''version'', IntV 2), (''entry_node'', StrV ''t''), (''nodes'', ArrV [node_json ''t'' ''timing'' []]),
      (''edges'', ArrV [edge_json ''t'' ''t'' ''default''])]"

theorem ivr_cycle_never_ends_witness:
  "validateFlowGraph spin_menu = None \<and> runIVRFlow sample_ivr (sample_ivr_flow\<lparr>ivr_Menu := Some spin_menu\<rparr>) sample_call = None"
proof -
  have "case dec_graph spin_menu of
          Some g0 \<Rightarrow> Version g0 = 2 \<and> EntryNode g0 = ''t'' \<and>
            (let g = BuildMaps g0 in
             (case Node g ''t'' of Some n \<Rightarrow> node_ID n = ''t'' \<and> node_Type n = ''timing'' | None \<Rightarrow> False) \<and>
             ResolveEdge g ''t'' ''in_hours'' = ''t'' \<and> ResolveEdge g ''t'' ''out_of_hours'' = ''t'')
        | None \<Rightarrow> False"
    by code_simp
  then obtain g0 n where g: "dec_graph spin_menu = Some g0" "Version g0 = 2" "EntryNode g0 = ''t''"
      "Node (BuildMaps g0) ''t'' = Some n" "node_ID n = ''t''" "node_Type n = ''timing''"
      "ResolveEdge (BuildMaps g0) ''t'' ''in_hours'' = ''t''" "ResolveEdge (BuildMaps g0) ''t'' ''out_of_hours'' = ''t''"
    by (auto simp: Let_def split: option.splits)
  have "executeNodeLoop sample_ivr f (BuildMaps g0) st = None" if "CurrentNode (ivr_ctx st) = ''t''" for f st
    using g that by (intro ivr_cycle_never_ends) (simp_all add: sample_ivr_def)
  moreover have "validateFlowGraph spin_menu = None"
    by code_simp
  ultimately show ?thesis
    using g(1-3) by (simp add: runIVRFlow_def enterIVRFlow_def fresh_ctx_def Let_def)
qed

end
