(* ===== verification/Agent_Rows.thy ===== *)
theory Agent_Rows
  imports Chat_State "HOL-Library.Option_ord"
begin

text \<open>
  The tables behind human hand-over: users, teams, members, agent transfers with their SLA columns,
  contacts and chatbot settings (\<open>models/models.go\<close>, \<open>models/chatbot.go\<close>), held in the record
  \<open>agent_db\<close>, and the updates by primary key that the handlers perform.

  A table is the list of its rows that are not soft-deleted, in the order in which the database
  happens to return them; a theorem about all lists is a theorem about all orders. Instants and
  durations are nanoseconds (integers). A handler's surroundings are the record \<open>agent_io\<close>: the
  clock (\<open>io_now k\<close> is the handler's reading number \<open>k\<close>), which database calls fail
  (\<open>io_err\<close>, by a label that names the call), fresh identifiers, the settings cache, the permission
  check, whether an assigner is configured, the rows locked by other transactions, delivery through
  WhatsApp, and \<open>uuid.Parse\<close>.
\<close>

section \<open>Rows\<close>

record chatbot_settings =
  set_Org :: string
  set_IsEnabled :: bool
  set_AI :: ai_config
  bh_Enabled :: bool
  bh_Hours :: "any list"
  bh_AllowAutomatedOutside :: bool
  bh_OutOfHoursMessage :: string
  aa_AllowQueuePickup :: bool
  aa_AssignToSameAgent :: bool
  sla_Enabled :: bool
  sla_ResponseMinutes :: int
  sla_ResolutionMinutes :: int
  sla_EscalationMinutes :: int
  sla_AutoCloseHours :: int
  sla_AutoCloseMessage :: string
  sla_WarningMessage :: string
  sla_EscalationNotifyIDs :: "string list"
  ci_ReminderEnabled :: bool
  ci_ReminderMinutes :: int
  ci_ReminderMessage :: string
  ci_AutoCloseMinutes :: int
  ci_AutoCloseMessage :: string
  SessionTimeoutMins :: int
  DefaultResponse :: string
  GreetingButtons :: "any list"
  FallbackMessage :: string
  FallbackButtons :: "any list"

record user_row =
  u_ID :: string
  u_Org :: string
  u_IsAvailable :: bool
  u_IsActive :: bool

record team_row =
  tm_ID :: string
  tm_Org :: string
  tm_IsActive :: bool
  tm_AssignmentStrategy :: string
  tm_PerAgentTimeoutSecs :: int

record member_row =
  m_ID :: string
  m_TeamID :: string
  m_UserID :: string
  m_Role :: string
  m_LastAssignedAt :: "int option"

record TeamConfig =
  cfg_Strategy :: string
  cfg_PerAgentTimeoutSecs :: int
  cfg_MemberIDs :: "string list"

record SLATracking =
  ResponseDeadline :: "int option"
  ResolutionDeadline :: "int option"
  EscalationAt :: "int option"
  ExpiresAt :: "int option"
  PickedUpAt :: "int option"
  FirstResponseAt :: "int option"
  EscalationLevel :: int
  EscalatedAt :: "int option"
  Breached :: bool
  BreachedAt :: "int option"

record agent_transfer =
  t_ID :: string
  t_Org :: string
  t_Contact :: string
  t_WhatsAppAccount :: string
  t_PhoneNumber :: string
  t_Status :: string
  t_Source :: string
  t_AgentID :: "string option"
  t_TeamID :: "string option"
  t_TransferredBy :: "string option"
  t_Notes :: string
  t_TransferredAt :: int
  t_ResumedAt :: "int option"
  t_ResumedBy :: "string option"
  t_SLA :: SLATracking

record call_transfer =
  ct_ID :: string
  ct_Org :: string
  ct_CallLogID :: string
  ct_WhatsAppCallID :: string
  ct_CallerPhone :: string
  ct_ContactID :: string
  ct_WhatsAppAccount :: string
  ct_Status :: string
  ct_TeamID :: "string option"
  ct_AgentID :: "string option"
  ct_InitiatingAgentID :: "string option"
  ct_TransferredAt :: int
  ct_ConnectedAt :: "int option"
  ct_CompletedAt :: "int option"
  ct_HoldDuration :: int
  ct_TalkDuration :: int
  ct_TriedAgentIDs :: "string list"

record contact_row =
  c_ID :: string
  c_Org :: string
  c_PhoneNumber :: string
  c_ProfileName :: string
  c_WhatsAppAccount :: string
  c_AssignedUserID :: "string option"
  c_LastInboundAt :: "int option"
  c_ChatbotLastMessageAt :: "int option"
  c_ChatbotReminderSent :: bool
  c_FallbackPendingAt :: "int option"
  c_FallbackAccount :: string
  c_Tags :: "string list"

record message_row =
  msg_Contact :: string
  msg_SentByUser :: "string option"
  msg_Direction :: string
  msg_CreatedAt :: int

text \<open>What leaves the handlers: websocket broadcasts, webhooks and messages to the customer.\<close>

datatype agent_event =
    BroadcastCreated agent_transfer
  | BroadcastResumed agent_transfer
  | BroadcastAssigned agent_transfer
  | BroadcastExpired string
  | BroadcastEscalated string
  | NotifyEscalation string int string
  | Webhook string string
  | CustomerText string string

record agent_db =
  users :: "user_row list"
  teams :: "team_row list"
  members :: "member_row list"
  team_cache :: "string \<Rightarrow> TeamConfig option"
  transfers :: "agent_transfer list"
  call_transfers :: "call_transfer list"
  contacts :: "contact_row list"
  chat_sessions :: "session list"
  messages :: "message_row list"
  outbox :: "agent_event list"

record agent_io =
  io_now :: "nat \<Rightarrow> int"
  io_clock :: clock
  io_err :: "string \<Rightarrow> bool"
  io_new :: string
  io_settings :: "string \<Rightarrow> string \<Rightarrow> chatbot_settings option"
  io_perm :: "string \<Rightarrow> string \<Rightarrow> string \<Rightarrow> string \<Rightarrow> bool"
  io_uuid :: "string \<Rightarrow> string option"
  io_assigner :: bool
  io_locked :: "string \<Rightarrow> bool"
  io_account :: "string \<Rightarrow> string \<Rightarrow> bool"
  io_deliver :: "string \<Rightarrow> string \<Rightarrow> bool"

abbreviation TransferStatusActive :: string where
  "TransferStatusActive \<equiv> ''active''"

abbreviation TransferStatusResumed :: string where
  "TransferStatusResumed \<equiv> ''resumed''"

abbreviation TransferStatusExpired :: string where
  "TransferStatusExpired \<equiv> ''expired''"

definition sec_ns :: int where
  "sec_ns = 1000000000"

definition minutes_ns :: "int \<Rightarrow> int" where
  "minutes_ns m = m * 60 * sec_ns"

definition hours_ns :: "int \<Rightarrow> int" where
  "hours_ns h = h * 3600 * sec_ns"

definition send_out :: "agent_event \<Rightarrow> agent_db \<Rightarrow> agent_db" where
  "send_out e db = db\<lparr>outbox := outbox db @ [e]\<rparr>"

section \<open>Updates by primary key\<close>

definition update_by :: "('a \<Rightarrow> 'k) \<Rightarrow> 'k \<Rightarrow> ('a \<Rightarrow> 'a) \<Rightarrow> 'a list \<Rightarrow> 'a list" where
  "update_by key k f rows = map (\<lambda>r. if key r = k then f r else r) rows"

lemma update_by_simps [simp]:
  "update_by key k f [] = []"
  "update_by key k f (r # rows) = (if key r = k then f r else r) # update_by key k f rows"
  "length (update_by key k f rows) = length rows"
  by (simp_all add: update_by_def)

lemma set_update_by: "set (update_by key k f rows) = (\<lambda>r. if key r = k then f r else r) ` set rows"
  by (simp add: update_by_def)

lemma map_update_by:
  "(\<And>r. h (f r) = h r) \<Longrightarrow> map h (update_by key k f rows) = map h rows"
  by (simp add: update_by_def)

lemma update_by_append: "update_by key k f (xs @ ys) = update_by key k f xs @ update_by key k f ys"
  by (simp add: update_by_def)

lemma update_by_twice:
  "(\<And>r. key (f r) = key r) \<Longrightarrow> update_by key k g (update_by key k f rows) = update_by key k (\<lambda>r. g (f r)) rows"
  by (simp add: update_by_def)

lemma update_by_id: "update_by key k (\<lambda>r. r) rows = rows"
  by (simp add: update_by_def)

lemma update_by_absent: "k \<notin> key ` set rows \<Longrightarrow> update_by key k f rows = rows"
  by (induction rows) auto

text \<open>
  A loop that updates, one primary key at a time, the rows a query returned is one pass over the
  table: the update of a row may use the row of the query (\<open>s\<close>) and the current one.
\<close>

lemma fold_update_by:
  assumes "distinct (map key rows)"
    and "\<And>r. r \<in> set rows \<Longrightarrow> key (g r r) = key r"
  shows "fold (\<lambda>s. update_by key (key s) (g s)) (filter P rows) rows =
           map (\<lambda>r. if P r then g r r else r) rows"
proof -
  have *: "distinct (map key (pre @ rest)) \<Longrightarrow> (\<forall>r \<in> set rest. key (g r r) = key r) \<Longrightarrow>
      fold (\<lambda>s. update_by key (key s) (g s)) (filter P rest) (pre @ rest) =
      pre @ map (\<lambda>r. if P r then g r r else r) rest" for pre rest
  proof (induction rest arbitrary: pre)
    case (Cons r rest)
    have "update_by key (key r) (g r) (pre @ r # rest) = pre @ g r r # rest"
      using Cons.prems by (simp add: update_by_append update_by_absent)
    with Cons.IH [of "pre @ [g r r]"] Cons.IH [of "pre @ [r]"] Cons.prems show ?case
      by auto
  qed simp
  show ?thesis
    using * [of "[]" rows] assms by simp
qed

section \<open>Accessors of single tables\<close>

definition upd_transfers :: "(agent_transfer list \<Rightarrow> agent_transfer list) \<Rightarrow> agent_db \<Rightarrow> agent_db" where
  "upd_transfers f db = db\<lparr>transfers := f (transfers db)\<rparr>"

definition upd_contact :: "string \<Rightarrow> (contact_row \<Rightarrow> contact_row) \<Rightarrow> agent_db \<Rightarrow> agent_db" where
  "upd_contact i f db = db\<lparr>contacts := update_by c_ID i f (contacts db)\<rparr>"

text \<open>\<open>DB.Save(transfer)\<close>: the row with this primary key becomes \<open>transfer\<close>.\<close>

definition save_transfer :: "agent_transfer \<Rightarrow> agent_db \<Rightarrow> agent_db" where
  "save_transfer t = upd_transfers (update_by t_ID (t_ID t) (\<lambda>_. t))"

definition contact_by_id :: "agent_db \<Rightarrow> string \<Rightarrow> contact_row option" where
  "contact_by_id db i = find (\<lambda>c. c_ID c = i) (contacts db)"

lemma table_simps [simp]:
  "transfers (send_out e db) = transfers db"
  "transfers (upd_contact i f db) = transfers db"
  "transfers (upd_transfers h db) = h (transfers db)"
  "transfers (save_transfer t db) = update_by t_ID (t_ID t) (\<lambda>_. t) (transfers db)"
  "messages (send_out e db) = messages db"
  "messages (upd_contact i f db) = messages db"
  "messages (upd_transfers h db) = messages db"
  "contacts (send_out e db) = contacts db"
  "contacts (upd_transfers h db) = contacts db"
  "contacts (save_transfer t db) = contacts db"
  "contacts (upd_contact i f db) = update_by c_ID i f (contacts db)"
  "users (send_out e db) = users db"
  "users (upd_contact i f db) = users db"
  "users (upd_transfers h db) = users db"
  "users (save_transfer t db) = users db"
  "outbox (send_out e db) = outbox db @ [e]"
  "outbox (upd_contact i f db) = outbox db"
  "outbox (upd_transfers h db) = outbox db"
  "outbox (save_transfer t db) = outbox db"
  by (simp_all add: send_out_def upd_contact_def upd_transfers_def save_transfer_def)

end
