(* ===== verification/Assignment.thy ===== *)
theory Assignment
  imports Agent_Rows
begin

text \<open>
  \<open>internal/assignment\<close>: the choice of an agent of a team, by turns (\<open>assignRoundRobin\<close>) or by
  load (\<open>assignLoadBalanced\<close>), over the cached team configuration. The interface
  \<open>agent_choice\<close> is what the transfer handlers rely on; \<open>AssignToTeam\<close> is its interpretation.
\<close>

section \<open>Team configuration\<close>

definition GetTeamConfig :: "agent_io \<Rightarrow> string \<Rightarrow> agent_db \<Rightarrow> TeamConfig option \<times> agent_db" where
  "GetTeamConfig io teamID db =
     (case (if io_err io ''redis_get'' then None else team_cache db teamID) of
        Some conf \<Rightarrow> (Some conf, db)
      | None \<Rightarrow>
          (case (if io_err io ''team'' then None
                 else find (\<lambda>t. tm_ID t = teamID \<and> tm_IsActive t) (teams db)) of
             None \<Rightarrow> (None, db)
           | Some team \<Rightarrow>
               (let memberIDs = map m_UserID (filter (\<lambda>m. m_TeamID m = teamID \<and> m_Role m = ''agent'') (members db));
                    conf = \<lparr>cfg_Strategy = tm_AssignmentStrategy team,
                           cfg_PerAgentTimeoutSecs = tm_PerAgentTimeoutSecs team, cfg_MemberIDs = memberIDs\<rparr>
                in (Some conf,
                    if io_err io ''redis_set'' then db
                    else db\<lparr>team_cache := (team_cache db)(teamID := Some conf)\<rparr>))))"

definition InvalidateTeamCache :: "string \<Rightarrow> agent_db \<Rightarrow> agent_db" where
  "InvalidateTeamCache teamID db = db\<lparr>team_cache := (team_cache db)(teamID := None)\<rparr>"

definition ResolvePerAgentTimeout :: "int \<Rightarrow> int \<Rightarrow> int \<Rightarrow> int" where
  "ResolvePerAgentTimeout teamTimeout unused globalDefault =
     (if teamTimeout > 0 then teamTimeout else if globalDefault > 0 then globalDefault else 15)"

section \<open>Candidates\<close>

definition filterAvailable :: "string list \<Rightarrow> string list \<Rightarrow> agent_db \<Rightarrow> string list" where
  "filterAvailable memberIDs excludeAgentIDs db =
     (if memberIDs = [] then []
      else
        (let candidates = filter (\<lambda>i. i \<notin> set excludeAgentIDs) memberIDs in
         if candidates = [] then []
         else map u_ID (filter (\<lambda>u. u_ID u \<in> set candidates \<and> u_IsAvailable u \<and> u_IsActive u) (users db))))"

definition GetAvailableAgents :: "agent_io \<Rightarrow> string \<Rightarrow> string list \<Rightarrow> agent_db \<Rightarrow> string list \<times> agent_db" where
  "GetAvailableAgents io teamID excludeAgentIDs db =
     (case GetTeamConfig io teamID db of
        (None, db1) \<Rightarrow> ([], db1)
      | (Some conf, db1) \<Rightarrow> (filterAvailable (cfg_MemberIDs conf) excludeAgentIDs db1, db1))"

section \<open>Load counters\<close>

type_synonym load_counter = "agent_db \<Rightarrow> string \<Rightarrow> string list \<Rightarrow> string \<Rightarrow> int"

definition ChatLoadCounter :: load_counter where
  "ChatLoadCounter db orgID agentIDs uid =
     (if uid \<in> set agentIDs
      then int (length (filter (\<lambda>t. t_Org t = orgID \<and> t_AgentID t = Some uid \<and> t_Status t = TransferStatusActive)
                               (transfers db)))
      else 0)"

definition CallLoadCounter :: load_counter where
  "CallLoadCounter db orgID agentIDs uid =
     (if uid \<in> set agentIDs
      then int (length (filter (\<lambda>t. ct_Org t = orgID \<and> ct_AgentID t = Some uid \<and>
                                    ct_Status t \<in> {''waiting'', ''connected''}) (call_transfers db)))
      else 0)"

section \<open>Strategies\<close>

text \<open>\<open>ORDER BY last_assigned_at ASC NULLS FIRST\<close>: \<open>None\<close> is the least element of the option order.\<close>

definition assignRoundRobin ::
    "agent_io \<Rightarrow> string \<Rightarrow> string list \<Rightarrow> string list \<Rightarrow> agent_db \<Rightarrow> string option \<times> agent_db" where
  "assignRoundRobin io teamID memberIDs excludeAgentIDs db =
     (let available = filterAvailable memberIDs excludeAgentIDs db in
      if available = [] then (None, db)
      else
        (case (if io_err io ''members'' then []
               else sort_key m_LastAssignedAt
                      (filter (\<lambda>m. m_TeamID m = teamID \<and> m_UserID m \<in> set available) (members db))) of
           [] \<Rightarrow> (None, db)
         | selected # _ \<Rightarrow>
             (Some (m_UserID selected),
              if io_err io ''touch_member'' then db
              else db\<lparr>members := update_by m_ID (m_ID selected)
                        (\<lambda>m. m\<lparr>m_LastAssignedAt := Some (io_now io 0)\<rparr>) (members db)\<rparr>)))"

fun lowest_load :: "(string \<Rightarrow> int) \<Rightarrow> string list \<Rightarrow> string option \<Rightarrow> int \<Rightarrow> string option" where
  "lowest_load loadMap [] lowestUserID lowestCount = lowestUserID"
| "lowest_load loadMap (uid # rest) lowestUserID lowestCount =
     (let count = loadMap uid in
      if lowestCount < 0 \<or> count < lowestCount then lowest_load loadMap rest (Some uid) count
      else lowest_load loadMap rest lowestUserID lowestCount)"

definition assignLoadBalanced ::
    "string \<Rightarrow> string list \<Rightarrow> string list \<Rightarrow> load_counter \<Rightarrow> agent_db \<Rightarrow> string option" where
  "assignLoadBalanced orgID memberIDs excludeAgentIDs loadCounter db =
     (let available = filterAvailable memberIDs excludeAgentIDs db in
      if available = [] then None
      else lowest_load (loadCounter db orgID available) available None (- 1))"

definition AssignToTeam ::
    "agent_io \<Rightarrow> string \<Rightarrow> string \<Rightarrow> string list \<Rightarrow> load_counter \<Rightarrow> agent_db \<Rightarrow> string option \<times> agent_db" where
  "AssignToTeam io teamID orgID excludeAgentIDs loadCounter db =
     (case GetTeamConfig io teamID db of
        (None, db1) \<Rightarrow> (None, db1)
      | (Some conf, db1) \<Rightarrow>
          if cfg_Strategy conf = ''round_robin'' then
            assignRoundRobin io teamID (cfg_MemberIDs conf) excludeAgentIDs db1
          else if cfg_Strategy conf = ''load_balanced'' then
            (assignLoadBalanced orgID (cfg_MemberIDs conf) excludeAgentIDs loadCounter db1, db1)
          else if cfg_Strategy conf = ''manual'' then (None, db1)
          else assignRoundRobin io teamID (cfg_MemberIDs conf) excludeAgentIDs db1)"

section \<open>The interface of the transfer handlers\<close>

definition at_work :: "agent_db \<Rightarrow> string \<Rightarrow> bool" where
  "at_work db i \<longleftrightarrow> list_ex (\<lambda>u. u_ID u = i \<and> u_IsAvailable u \<and> u_IsActive u) (users db)"

definition same_tables :: "agent_db \<Rightarrow> agent_db \<Rightarrow> bool" where
  "same_tables db db' \<longleftrightarrow>
     transfers db' = transfers db \<and> users db' = users db \<and> teams db' = teams db \<and> contacts db' = contacts db \<and>
     chat_sessions db' = chat_sessions db \<and> messages db' = messages db \<and> outbox db' = outbox db"

locale agent_choice =
  fixes pick :: "agent_db \<Rightarrow> string option \<times> agent_db"
    and excluded :: "string list"
  assumes chosen_ok: "pick db = (Some u, db') \<Longrightarrow> at_work db u \<and> u \<notin> set excluded"
    and rows_kept: "pick db = (r, db') \<Longrightarrow> same_tables db db'"
begin

lemma chosen_at_work_after:
  assumes "pick db = (Some u, db')"
  shows "at_work db' u"
  using chosen_ok [OF assms] rows_kept [OF assms] by (simp add: at_work_def same_tables_def)

lemma choice_keeps_transfers: "transfers (snd (pick db)) = transfers db"
  using rows_kept [of db "fst (pick db)" "snd (pick db)"] by (simp add: same_tables_def)

end

lemma filterAvailable_iff:
  "u \<in> set (filterAvailable memberIDs ex db) \<longleftrightarrow> u \<in> set memberIDs \<and> u \<notin> set ex \<and> at_work db u"
  by (auto simp: filterAvailable_def at_work_def list_ex_iff Let_def filter_empty_conv)

lemma GetTeamConfig_tables: "GetTeamConfig io t db = (r, db') \<Longrightarrow> same_tables db db' \<and> members db' = members db"
  by (auto simp: GetTeamConfig_def same_tables_def Let_def split: option.splits if_splits)

lemma at_work_same: "same_tables db db' \<Longrightarrow> at_work db' = at_work db"
  by (simp add: at_work_def same_tables_def fun_eq_iff)

lemma same_tables_trans: "same_tables a b \<Longrightarrow> same_tables b c \<Longrightarrow> same_tables a c"
  by (simp add: same_tables_def)

lemma sort_key_Cons_min:
  assumes "sort_key f xs = x # rest"
  shows "x \<in> set xs \<and> (\<forall>y \<in> set xs. f x \<le> f y)"
proof -
  have "sorted (map f (x # rest))" "set (x # rest) = set xs"
    using assms sorted_sort_key [of f xs] set_sort [of f xs] by auto
  then show ?thesis
    by auto
qed

lemma assignRoundRobin_cases:
  assumes "assignRoundRobin io teamID memberIDs ex db = (Some u, db')"
  obtains m where "m \<in> set (members db)" "m_TeamID m = teamID" "m_UserID m = u"
    "u \<in> set (filterAvailable memberIDs ex db)"
    "\<And>m'. m' \<in> set (members db) \<Longrightarrow> m_TeamID m' = teamID \<Longrightarrow>
       m_UserID m' \<in> set (filterAvailable memberIDs ex db) \<Longrightarrow> m_LastAssignedAt m \<le> m_LastAssignedAt m'"
    "db' = (if io_err io ''touch_member'' then db
            else db\<lparr>members := update_by m_ID (m_ID m)
                     (\<lambda>m. m\<lparr>m_LastAssignedAt := Some (io_now io 0)\<rparr>) (members db)\<rparr>)"
proof -
  let ?av = "filterAvailable memberIDs ex db"
  let ?q = "filter (\<lambda>m. m_TeamID m = teamID \<and> m_UserID m \<in> set ?av) (members db)"
  from assms obtain m rest where s: "sort_key m_LastAssignedAt ?q = m # rest"
    and u: "u = m_UserID m"
    and db': "db' = (if io_err io ''touch_member'' then db
            else db\<lparr>members := update_by m_ID (m_ID m)
                     (\<lambda>m. m\<lparr>m_LastAssignedAt := Some (io_now io 0)\<rparr>) (members db)\<rparr>)"
    by (auto simp: assignRoundRobin_def Let_def split: if_splits list.splits)
  with sort_key_Cons_min [OF s] show thesis
    by (intro that [of m]) auto
qed

lemma lowest_load_minimal:
  assumes "\<And>x. loadMap x \<ge> 0"
    and "lowest_load loadMap xs best c = Some u"
    and "best = None \<and> c = - 1 \<or> (\<exists>b. best = Some b \<and> c = loadMap b)"
  shows "(u \<in> set xs \<or> best = Some u) \<and> (\<forall>x \<in> set xs. loadMap u \<le> loadMap x) \<and>
         (\<forall>b. best = Some b \<longrightarrow> loadMap u \<le> loadMap b)"
  using assms(2,3)
proof (induction xs arbitrary: best c)
  case (Cons x xs)
  show ?case
  proof (cases "c < 0 \<or> loadMap x < c")
    case True
    then have "lowest_load loadMap xs (Some x) (loadMap x) = Some u"
      using Cons.prems by (simp add: Let_def)
    from Cons.IH [OF this] True Cons.prems show ?thesis
      using assms(1) by (auto simp: not_less [symmetric])
  next
    case False
    then have "lowest_load loadMap xs best c = Some u"
      using Cons.prems by (simp add: Let_def)
    from Cons.IH [OF this] False Cons.prems show ?thesis
      by auto
  qed
qed auto

lemma assignLoadBalanced_minimal:
  assumes "assignLoadBalanced orgID memberIDs ex lc db = Some u"
    and "\<And>x. lc db orgID (filterAvailable memberIDs ex db) x \<ge> 0"
  shows "u \<in> set (filterAvailable memberIDs ex db) \<and>
         (\<forall>x \<in> set (filterAvailable memberIDs ex db).
            lc db orgID (filterAvailable memberIDs ex db) u \<le> lc db orgID (filterAvailable memberIDs ex db) x)"
  using lowest_load_minimal [OF assms(2), of "\<lambda>x. x" "filterAvailable memberIDs ex db" None "- 1" u] assms(1)
  by (simp add: assignLoadBalanced_def Let_def split: if_splits)

lemma lowest_load_in: "lowest_load loadMap xs best c = Some u \<Longrightarrow> u \<in> set xs \<or> best = Some u"
  by (induction xs arbitrary: best c) (auto simp: Let_def split: if_splits)

lemma assignLoadBalanced_in:
  "assignLoadBalanced orgID memberIDs ex lc db = Some u \<Longrightarrow> u \<in> set (filterAvailable memberIDs ex db)"
  by (auto simp: assignLoadBalanced_def Let_def dest: lowest_load_in split: if_splits)

lemma assignRoundRobin_tables:
  "assignRoundRobin io teamID memberIDs ex db = (r, db') \<Longrightarrow> same_tables db db'"
  by (auto simp: assignRoundRobin_def same_tables_def Let_def split: if_splits list.splits)

interpretation team_choice: agent_choice "AssignToTeam io teamID orgID ex lc" ex
  for io teamID orgID ex lc
proof
  fix db u db'
  assume a: "AssignToTeam io teamID orgID ex lc db = (Some u, db')"
  obtain conf db1 where c: "GetTeamConfig io teamID db = (conf, db1)" by fastforce
  with a obtain ids where "u \<in> set (filterAvailable ids ex db1)"
    by (auto simp: AssignToTeam_def elim!: assignRoundRobin_cases dest!: assignLoadBalanced_in
             split: option.splits if_splits)
  then show "at_work db u \<and> u \<notin> set ex"
    using GetTeamConfig_tables [OF c] by (auto simp: filterAvailable_iff at_work_same)
next
  fix db r db'
  assume a: "AssignToTeam io teamID orgID ex lc db = (r, db')"
  obtain conf db1 where c: "GetTeamConfig io teamID db = (conf, db1)" by fastforce
  from a c have "same_tables db1 db'"
    by (auto simp: AssignToTeam_def same_tables_def dest!: assignRoundRobin_tables split: option.splits if_splits)
  with GetTeamConfig_tables [OF c] show "same_tables db db'"
    using same_tables_trans by blast
qed


section \<open>Fairness of the turns\<close>

text \<open>Successive calls of \<open>assignRoundRobin\<close>, each with its own surroundings.\<close>

fun turns :: "string \<Rightarrow> string list \<Rightarrow> string list \<Rightarrow> agent_io list \<Rightarrow> agent_db \<Rightarrow> string option list" where
  "turns teamID ids ex [] db = []"
| "turns teamID ids ex (io # ios) db =
     (let (r, db') = assignRoundRobin io teamID ids ex db in r # turns teamID ids ex ios db')"

definition team_rows :: "string \<Rightarrow> agent_db \<Rightarrow> member_row list" where
  "team_rows teamID db = filter (\<lambda>m. m_TeamID m = teamID) (members db)"

definition eligible :: "string \<Rightarrow> string list \<Rightarrow> string list \<Rightarrow> agent_db \<Rightarrow> string set" where
  "eligible teamID ids ex db = m_UserID ` set (team_rows teamID db) \<inter> set (filterAvailable ids ex db)"

text \<open>The eligible users whose last assignment is before \<open>T\<close>: the ones still waiting for their turn.\<close>

definition waiting :: "int \<Rightarrow> string \<Rightarrow> string list \<Rightarrow> string list \<Rightarrow> agent_db \<Rightarrow> string set" where
  "waiting T teamID ids ex db =
     m_UserID ` {m \<in> set (team_rows teamID db). m_LastAssignedAt m < Some T} \<inter> set (filterAvailable ids ex db)"

definition one_row_each :: "string \<Rightarrow> agent_db \<Rightarrow> bool" where
  "one_row_each teamID db \<longleftrightarrow> distinct (map m_ID (members db)) \<and> distinct (map m_UserID (team_rows teamID db))"

lemma distinct_key_inj: "distinct (map f xs) \<Longrightarrow> x \<in> set xs \<Longrightarrow> y \<in> set xs \<Longrightarrow> f x = f y \<Longrightarrow> x = y"
  by (metis distinct_map inj_on_def)

lemma filterAvailable_members [simp]: "filterAvailable ids ex (db\<lparr>members := ms\<rparr>) = filterAvailable ids ex db"
  by (simp add: filterAvailable_def Let_def)

lemma sort_key_Nil_iff: "sort_key f xs = [] \<longleftrightarrow> xs = []"
  by (metis length_0_conv length_sort)

lemma touched_rows:
  assumes "one_row_each teamID db" "m \<in> set (team_rows teamID db)"
    and db': "db' = db\<lparr>members := update_by m_ID (m_ID m) (\<lambda>m. m\<lparr>m_LastAssignedAt := Some t\<rparr>) (members db)\<rparr>"
  shows "one_row_each teamID db' \<and>
         set (team_rows teamID db') = insert (m\<lparr>m_LastAssignedAt := Some t\<rparr>) (set (team_rows teamID db) - {m})"
proof -
  let ?f = "\<lambda>x. if m_ID x = m_ID m then x\<lparr>m_LastAssignedAt := Some t\<rparr> else x"
  have rows: "team_rows teamID db' = map ?f (team_rows teamID db)"
    by (simp add: team_rows_def db' update_by_def filter_map o_def if_distrib [of m_TeamID] cong: if_cong)
  have same: "x = m" if "x \<in> set (team_rows teamID db)" "m_ID x = m_ID m" for x
    using assms(1,2) that by (auto simp: one_row_each_def team_rows_def dest: distinct_key_inj)
  have "map m_ID (members db') = map m_ID (members db)"
    by (simp add: db' map_update_by)
  moreover have "map m_UserID (team_rows teamID db') = map m_UserID (team_rows teamID db)"
    by (simp add: rows)
  moreover have "set (team_rows teamID db') = insert (m\<lparr>m_LastAssignedAt := Some t\<rparr>) (set (team_rows teamID db) - {m})"
  proof -
    have "set (team_rows teamID db') = (\<lambda>x. if x = m then m\<lparr>m_LastAssignedAt := Some t\<rparr> else x) ` set (team_rows teamID db)"
      unfolding rows list.set_map by (rule image_cong) (auto dest: same)
    with assms(2) show ?thesis
      by auto
  qed
  ultimately show ?thesis
    using assms(1) by (simp add: one_row_each_def)
qed

lemma turn_serves_waiting:
  assumes inv: "one_row_each teamID db"
    and w: "waiting T teamID ids ex db \<noteq> {}"
    and io: "T \<le> io_now io 0" "\<not> io_err io ''members''" "\<not> io_err io ''touch_member''"
  obtains u db' where "assignRoundRobin io teamID ids ex db = (Some u, db')" "u \<in> waiting T teamID ids ex db"
    "waiting T teamID ids ex db' = waiting T teamID ids ex db - {u}" "one_row_each teamID db'"
proof -
  let ?av = "set (filterAvailable ids ex db)"
  from w obtain m0 where m0: "m0 \<in> set (team_rows teamID db)" "m_LastAssignedAt m0 < Some T" "m_UserID m0 \<in> ?av"
    by (auto simp: waiting_def)
  then have "m0 \<in> set (filter (\<lambda>m. m_TeamID m = teamID \<and> m_UserID m \<in> ?av) (members db))"
    by (simp add: team_rows_def)
  then have "sort_key m_LastAssignedAt (filter (\<lambda>m. m_TeamID m = teamID \<and> m_UserID m \<in> ?av) (members db)) \<noteq> []"
    by (auto simp: sort_key_Nil_iff filter_empty_conv)
  moreover have "filterAvailable ids ex db \<noteq> []"
    using m0 by auto
  ultimately obtain u db' where run: "assignRoundRobin io teamID ids ex db = (Some u, db')"
    using io by (auto simp: assignRoundRobin_def Let_def neq_Nil_conv)
  from assignRoundRobin_cases [OF run] obtain m where
    m: "m \<in> set (members db)" "m_TeamID m = teamID" "m_UserID m = u" "u \<in> ?av" and
    least: "\<And>m'. m' \<in> set (members db) \<Longrightarrow> m_TeamID m' = teamID \<Longrightarrow> m_UserID m' \<in> ?av \<Longrightarrow>
              m_LastAssignedAt m \<le> m_LastAssignedAt m'" and
    db': "db' = db\<lparr>members := update_by m_ID (m_ID m)
            (\<lambda>m. m\<lparr>m_LastAssignedAt := Some (io_now io 0)\<rparr>) (members db)\<rparr>"
    using io by (auto split: if_splits)
  have mt: "m \<in> set (team_rows teamID db)"
    using m by (simp add: team_rows_def)
  have late: "m_LastAssignedAt m < Some T"
    using least [of m0] m0 by (auto simp: team_rows_def)
  with m mt late have uw: "u \<in> waiting T teamID ids ex db"
    by (auto simp: waiting_def)
  note t = touched_rows [OF inv mt db']
  have uniq: "x = m" if "x \<in> set (team_rows teamID db)" "m_UserID x = u" for x
    using inv mt m that by (auto simp: one_row_each_def dest: distinct_key_inj)
  let ?S = "{x \<in> set (team_rows teamID db). m_LastAssignedAt x < Some T}"
  have "{x \<in> set (team_rows teamID db'). m_LastAssignedAt x < Some T} = ?S - {m}"
  proof -
    have "m \<noteq> m\<lparr>m_LastAssignedAt := Some (io_now io 0)\<rparr>"
      using io(1) late by (metis member_row.select_convs(5) member_row.surjective member_row.update_convs(5)
          less_option_Some not_less)
    then show ?thesis
      using io(1) unfolding conjunct2 [OF t] by auto
  qed
  moreover have "m_UserID ` (?S - {m}) = m_UserID ` ?S - {u}"
    using uniq m(3) by blast
  moreover have "filterAvailable ids ex db' = filterAvailable ids ex db"
    by (simp add: db')
  ultimately have "waiting T teamID ids ex db' = (m_UserID ` ?S - {u}) \<inter> ?av"
    by (simp only: waiting_def)
  then have w': "waiting T teamID ids ex db' = waiting T teamID ids ex db - {u}"
    by (simp only: waiting_def) blast
  show thesis
    by (rule that [OF run uw w' conjunct1 [OF t]])
qed

lemma turns_distinct:
  assumes "one_row_each teamID db"
    and "\<And>io. io \<in> set ios \<Longrightarrow> T \<le> io_now io 0 \<and> \<not> io_err io ''members'' \<and> \<not> io_err io ''touch_member''"
    and "length ios \<le> card (waiting T teamID ids ex db)"
  shows "distinct (turns teamID ids ex ios db) \<and> set (turns teamID ids ex ios db) \<subseteq> Some ` waiting T teamID ids ex db"
  using assms
proof (induction ios arbitrary: db)
  case (Cons io ios)
  then have "waiting T teamID ids ex db \<noteq> {}"
    by auto
  from turn_serves_waiting [OF Cons.prems(1) this, of io] Cons.prems(2) obtain u db' where
    u: "assignRoundRobin io teamID ids ex db = (Some u, db')" "u \<in> waiting T teamID ids ex db"
       "waiting T teamID ids ex db' = waiting T teamID ids ex db - {u}" "one_row_each teamID db'"
    by (metis list.set_intros(1))
  have "finite (waiting T teamID ids ex db)"
    by (simp add: waiting_def)
  with u Cons.prems(3) have "length ios \<le> card (waiting T teamID ids ex db')"
    by simp
  with Cons.IH [OF u(4)] Cons.prems(2)
  have "distinct (turns teamID ids ex ios db') \<and>
        set (turns teamID ids ex ios db') \<subseteq> Some ` (waiting T teamID ids ex db - {u})"
    by (simp add: u(3))
  with u(1,2) show ?case
    by auto
qed simp

text \<open>
  C26. Round-robin assignment is fair: when a team has \<open>n\<close> eligible agents (available, active, not
  excluded, with one membership row each) and the database answers, \<open>n\<close> consecutive calls of
  \<open>assignRoundRobin\<close> choose every eligible agent exactly once, whatever the earlier assignment times
  were, as long as they lie before the first call.
\<close>
theorem round_robin_serves_everyone:
  assumes "one_row_each teamID db"
    and "\<And>m. m \<in> set (team_rows teamID db) \<Longrightarrow> m_LastAssignedAt m < Some T"
    and "\<And>io. io \<in> set ios \<Longrightarrow> T \<le> io_now io 0 \<and> \<not> io_err io ''members'' \<and> \<not> io_err io ''touch_member''"
    and "length ios = card (eligible teamID ids ex db)"
  shows "distinct (turns teamID ids ex ios db) \<and> set (turns teamID ids ex ios db) = Some ` eligible teamID ids ex db"
proof -
  have w: "waiting T teamID ids ex db = eligible teamID ids ex db"
    using assms(2) by (auto simp: waiting_def eligible_def)
  have d: "distinct (turns teamID ids ex ios db)"
    and sub: "set (turns teamID ids ex ios db) \<subseteq> Some ` eligible teamID ids ex db"
    using turns_distinct [OF assms(1,3), of ios ids ex] assms(4) by (simp_all add: w)
  have "length (turns teamID ids ex ios db) = length ios"
    by (induction ios arbitrary: db) (auto simp: Let_def split: prod.splits)
  with d assms(4) have "card (set (turns teamID ids ex ios db)) = card (Some ` eligible teamID ids ex db)"
    by (simp add: distinct_card card_image)
  with sub have "set (turns teamID ids ex ios db) = Some ` eligible teamID ids ex db"
    by (intro card_subset_eq) (simp_all add: eligible_def)
  with d show ?thesis by simp
qed


text \<open>Concrete tables and surroundings for the witnesses of this and the following theories.\<close>

definition sample_settings :: chatbot_settings where
  "sample_settings = \<lparr>set_Org = ''org'', set_IsEnabled = True,
     set_AI = \<lparr>ai_Enabled = False, ai_Provider = [], ai_APIKey = []\<rparr>,
     bh_Enabled = False, bh_Hours = [], bh_AllowAutomatedOutside = False, bh_OutOfHoursMessage = [],
     aa_AllowQueuePickup = True, aa_AssignToSameAgent = False,
     sla_Enabled = True, sla_ResponseMinutes = 15, sla_ResolutionMinutes = 60, sla_EscalationMinutes = 30,
     sla_AutoCloseHours = 24, sla_AutoCloseMessage = ''bye'', sla_WarningMessage = ''soon'',
     sla_EscalationNotifyIDs = [], ci_ReminderEnabled = True, ci_ReminderMinutes = 30,
     ci_ReminderMessage = ''still there?'', ci_AutoCloseMinutes = 60, ci_AutoCloseMessage = ''closed'',
     SessionTimeoutMins = 30, DefaultResponse = ''hello'', GreetingButtons = [], FallbackMessage = ''sorry?'',
     FallbackButtons = []\<rparr>"

definition sample_io :: "int \<Rightarrow> agent_io" where
  "sample_io t = \<lparr>io_now = (\<lambda>_. t), io_clock = \<lparr>clk_UnixNano = t, clk_Weekday = 1, clk_Hour = 10, clk_Minute = 0\<rparr>,
     io_err = (\<lambda>_. False), io_new = ''t1'', io_settings = (\<lambda>_ _. Some sample_settings),
     io_perm = (\<lambda>u r a org. a = ''pickup''), io_uuid = (\<lambda>s. if s = ''bad'' then None else Some s),
     io_assigner = True, io_locked = (\<lambda>_. False), io_account = (\<lambda>_ _. True), io_deliver = (\<lambda>_ _. True)\<rparr>"

definition sample_agent :: "string \<Rightarrow> user_row" where
  "sample_agent i = \<lparr>u_ID = i, u_Org = ''org'', u_IsAvailable = True, u_IsActive = True\<rparr>"

definition sample_db :: agent_db where
  "sample_db = \<lparr>users = [sample_agent ''ann'', sample_agent ''bob''],
     teams = [\<lparr>tm_ID = ''sales'', tm_Org = ''org'', tm_IsActive = True,
               tm_AssignmentStrategy = ''load_balanced'', tm_PerAgentTimeoutSecs = 0\<rparr>],
     members = [\<lparr>m_ID = ''m1'', m_TeamID = ''sales'', m_UserID = ''ann'', m_Role = ''agent'', m_LastAssignedAt = Some 5\<rparr>,
                \<lparr>m_ID = ''m2'', m_TeamID = ''sales'', m_UserID = ''bob'', m_Role = ''agent'', m_LastAssignedAt = None\<rparr>],
     team_cache = (\<lambda>_. None), transfers = [], call_transfers = [],
     contacts = [\<lparr>c_ID = ''c1'', c_Org = ''org'', c_PhoneNumber = ''212600000000'', c_ProfileName = ''Sara'',
                  c_WhatsAppAccount = ''shop'', c_AssignedUserID = None, c_LastInboundAt = None,
                  c_ChatbotLastMessageAt = None, c_ChatbotReminderSent = False, c_FallbackPendingAt = None,
                  c_FallbackAccount = [], c_Tags = []\<rparr>],
     chat_sessions = [], messages = [], outbox = []\<rparr>"

theorem round_robin_serves_everyone_witness:
  "distinct (turns ''sales'' [''ann'', ''bob''] [] [sample_io 10, sample_io 20] sample_db) \<and>
   set (turns ''sales'' [''ann'', ''bob''] [] [sample_io 10, sample_io 20] sample_db) = {Some ''ann'', Some ''bob''}"
proof -
  have rows: "team_rows ''sales'' sample_db = members sample_db"
    by (simp add: team_rows_def sample_db_def)
  have one: "one_row_each ''sales'' sample_db"
    unfolding one_row_each_def rows by (simp add: sample_db_def)
  have av: "filterAvailable [''ann'', ''bob''] [] sample_db = [''ann'', ''bob'']"
    by code_simp
  have el: "eligible ''sales'' [''ann'', ''bob''] [] sample_db = {''ann'', ''bob''}"
    unfolding eligible_def rows av by (simp add: sample_db_def)
  have before: "m_LastAssignedAt m < Some 10" if "m \<in> set (team_rows ''sales'' sample_db)" for m
    using that unfolding rows by (auto simp: sample_db_def)
  have ios: "10 \<le> io_now io 0 \<and> \<not> io_err io ''members'' \<and> \<not> io_err io ''touch_member''"
    if "io \<in> set [sample_io 10, sample_io 20]" for io
    using that by (auto simp: sample_io_def)
  show ?thesis
    using round_robin_serves_everyone [where ids = "[''ann'', ''bob'']" and ex = "[]" and ios = "[sample_io 10, sample_io 20]",
        OF one before ios] by (simp add: el del: turns.simps)
qed

end
