(* ===== verification/Transfers.thy ===== *)
theory Transfers
  imports Assignment
begin

text \<open>
  \<open>handlers/agent_transfers.go\<close> with the SLA columns that \<open>sla_processor.go\<close> maintains on a
  transfer: creating, resuming, assigning, picking and returning transfers of a contact to a human
  agent; and the one other place that writes a transfer, the takeover by an agent who sends a message
  (\<open>ensureAgentTakeoverTransfer\<close> of \<open>handlers/contacts.go\<close>). A handler takes the authenticated organisation and user, the decoded request and
  the tables, and returns its reply and the new tables. Clock readings of one handler are numbered;
  number 0 is the one of the assigner.
\<close>

datatype api_reply =
    Reply_err nat string
  | Reply_ok string
  | Reply_transfer string agent_transfer
  | Reply_agent string "string option"
  | Reply_none string

type_synonym http_error = "nat \<times> string"

section \<open>SLA columns of one transfer\<close>

definition no_sla :: SLATracking where
  "no_sla = \<lparr>ResponseDeadline = None, ResolutionDeadline = None, EscalationAt = None, ExpiresAt = None,
     PickedUpAt = None, FirstResponseAt = None, EscalationLevel = 0, EscalatedAt = None, Breached = False,
     BreachedAt = None\<rparr>"

definition deadline_if :: "int \<Rightarrow> int \<Rightarrow> int option \<Rightarrow> int option" where
  "deadline_if amount instant old = (if amount > 0 then Some instant else old)"

definition SetSLADeadlines :: "int \<Rightarrow> chatbot_settings \<Rightarrow> agent_transfer \<Rightarrow> agent_transfer" where
  "SetSLADeadlines now settings t =
     (if \<not> sla_Enabled settings then t
      else
        (let s = t_SLA t in
         t\<lparr>t_SLA := s\<lparr>
           ResponseDeadline := deadline_if (sla_ResponseMinutes settings)
             (now + minutes_ns (sla_ResponseMinutes settings)) (ResponseDeadline s),
           ResolutionDeadline := deadline_if (sla_ResolutionMinutes settings)
             (now + minutes_ns (sla_ResolutionMinutes settings)) (ResolutionDeadline s),
           EscalationAt := deadline_if (sla_EscalationMinutes settings)
             (now + minutes_ns (sla_EscalationMinutes settings)) (EscalationAt s),
           ExpiresAt := deadline_if (sla_AutoCloseHours settings)
             (now + hours_ns (sla_AutoCloseHours settings)) (ExpiresAt s)\<rparr>\<rparr>))"

text \<open>\<open>now.After(*deadline)\<close> on an optional deadline.\<close>

definition past :: "int \<Rightarrow> int option \<Rightarrow> bool" where
  "past now d \<longleftrightarrow> (case d of None \<Rightarrow> False | Some t \<Rightarrow> t < now)"

definition UpdateSLAOnPickup :: "int \<Rightarrow> agent_transfer \<Rightarrow> agent_transfer" where
  "UpdateSLAOnPickup now t =
     (let s = (t_SLA t)\<lparr>PickedUpAt := Some now\<rparr> in
      t\<lparr>t_SLA := (if past now (ResponseDeadline s) then s\<lparr>Breached := True, BreachedAt := Some now\<rparr> else s)\<rparr>)"

definition UpdateSLAOnFirstResponse :: "int \<Rightarrow> agent_transfer \<Rightarrow> agent_transfer" where
  "UpdateSLAOnFirstResponse now t =
     (if FirstResponseAt (t_SLA t) \<noteq> None then t
      else t\<lparr>t_SLA := (t_SLA t)\<lparr>FirstResponseAt := Some now\<rparr>\<rparr>)"

section \<open>Queries\<close>

definition active :: "agent_transfer \<Rightarrow> bool" where
  "active t \<longleftrightarrow> t_Status t = TransferStatusActive"

definition active_for :: "string \<Rightarrow> string \<Rightarrow> agent_transfer \<Rightarrow> bool" where
  "active_for orgID contactID t \<longleftrightarrow> t_Org t = orgID \<and> t_Contact t = contactID \<and> active t"

text \<open>The error of \<open>Count\<close> is dropped: a query that fails leaves the count at 0, so the answer is no.\<close>

definition count_fails :: "agent_io \<Rightarrow> string \<Rightarrow> bool" where
  "count_fails io contactID \<longleftrightarrow> io_err io (''count_active:'' @ contactID)"

definition hasActiveAgentTransfer :: "agent_io \<Rightarrow> agent_db \<Rightarrow> string \<Rightarrow> string \<Rightarrow> bool" where
  "hasActiveAgentTransfer io db orgID contactID \<longleftrightarrow>
     \<not> count_fails io contactID \<and> list_ex (active_for orgID contactID) (transfers db)"

definition willChatbotHandle :: "agent_io \<Rightarrow> string \<Rightarrow> string \<Rightarrow> string \<Rightarrow> agent_db \<Rightarrow> bool" where
  "willChatbotHandle io orgID accountName contactID db =
     (if hasActiveAgentTransfer io db orgID contactID then False
      else case io_settings io orgID accountName of None \<Rightarrow> False | Some s \<Rightarrow> set_IsEnabled s)"

definition ClearContactChatbotTracking :: "string \<Rightarrow> agent_db \<Rightarrow> agent_db" where
  "ClearContactChatbotTracking contactID =
     upd_contact contactID (\<lambda>c. c\<lparr>c_ChatbotLastMessageAt := None, c_ChatbotReminderSent := False\<rparr>)"

section \<open>Creating a transfer\<close>

definition cancel_sessions :: "int \<Rightarrow> string \<Rightarrow> string \<Rightarrow> agent_db \<Rightarrow> agent_db" where
  "cancel_sessions now orgID contactID db =
     db\<lparr>chat_sessions := map (\<lambda>s. if OrganizationID s = orgID \<and> ContactID s = contactID \<and> Status s = ''active''
                                  then s\<lparr>Status := ''cancelled'', CompletedAt := Some now\<rparr> else s)
                        (chat_sessions db)\<rparr>"

definition same_agent_on :: "chatbot_settings option \<Rightarrow> bool" where
  "same_agent_on settings \<longleftrightarrow> (case settings of None \<Rightarrow> False | Some s \<Rightarrow> aa_AssignToSameAgent s)"

definition assign_contact :: "agent_io \<Rightarrow> string \<Rightarrow> string option \<Rightarrow> agent_db \<Rightarrow> agent_db" where
  "assign_contact io contactID agent db =
     (if io_err io ''contact'' then db else upd_contact contactID (\<lambda>c. c\<lparr>c_AssignedUserID := agent\<rparr>) db)"

definition saveAndFinalizeTransfer ::
    "agent_io \<Rightarrow> agent_transfer \<Rightarrow> string \<Rightarrow> contact_row \<Rightarrow> chatbot_settings option \<Rightarrow> bool \<Rightarrow> agent_db
       \<Rightarrow> bool \<times> agent_db" where
  "saveAndFinalizeTransfer io t0 orgID contact settings endChatbotSession db =
     (let t1 = (case settings of None \<Rightarrow> t0 | Some s \<Rightarrow> SetSLADeadlines (io_now io 2) s t0);
          t = (if t_AgentID t1 \<noteq> None then UpdateSLAOnPickup (io_now io 3) t1 else t1)
      in if io_err io ''create_transfer'' then (False, db)
         else
           (let db1 = upd_transfers (\<lambda>ts. ts @ [t]) db;
                db2 = (if t_AgentID t \<noteq> None \<and> same_agent_on settings \<and> c_AssignedUserID contact = None
                       then assign_contact io (c_ID contact) (t_AgentID t) db1 else db1);
                db3 = (if endChatbotSession then cancel_sessions (io_now io 4) orgID (c_ID contact) db2 else db2)
            in (True, send_out (BroadcastCreated t) db3)))"

definition new_transfer ::
    "agent_io \<Rightarrow> string \<Rightarrow> string \<Rightarrow> contact_row \<Rightarrow> string \<Rightarrow> string option \<Rightarrow> string option \<Rightarrow> string option \<Rightarrow> string
       \<Rightarrow> agent_transfer" where
  "new_transfer io orgID accountName contact source agent team transferredBy notes =
     \<lparr>t_ID = io_new io, t_Org = orgID, t_Contact = c_ID contact, t_WhatsAppAccount = accountName,
      t_PhoneNumber = c_PhoneNumber contact, t_Status = TransferStatusActive, t_Source = source,
      t_AgentID = agent, t_TeamID = team, t_TransferredBy = transferredBy, t_Notes = notes,
      t_TransferredAt = io_now io 1, t_ResumedAt = None, t_ResumedBy = None, t_SLA = no_sla\<rparr>"

definition out_of_hours :: "agent_io \<Rightarrow> chatbot_settings option \<Rightarrow> bool" where
  "out_of_hours io settings \<longleftrightarrow>
     (case settings of None \<Rightarrow> False
      | Some s \<Rightarrow> bh_Enabled s \<and> bh_Hours s \<noteq> [] \<and> \<not> isWithinBusinessHours (io_clock io) (bh_Hours s))"

definition tell_closed :: "contact_row \<Rightarrow> chatbot_settings option \<Rightarrow> agent_db \<Rightarrow> agent_db" where
  "tell_closed contact settings db =
     (case settings of None \<Rightarrow> db
      | Some s \<Rightarrow> if bh_OutOfHoursMessage s \<noteq> [] then send_out (CustomerText (c_ID contact) (bh_OutOfHoursMessage s)) db
                  else db)"

text \<open>The assigned agent of the contact, when the setting asks for it and the agent is available.\<close>

definition same_agent :: "agent_io \<Rightarrow> chatbot_settings option \<Rightarrow> contact_row \<Rightarrow> agent_db \<Rightarrow> string option" where
  "same_agent io settings contact db =
     (if \<not> same_agent_on settings then None
      else
        (case c_AssignedUserID contact of
           None \<Rightarrow> None
         | Some i \<Rightarrow>
             if io_err io ''find_user'' then None
             else (case find (\<lambda>u. u_ID u = i) (users db) of
                     None \<Rightarrow> None
                   | Some u \<Rightarrow> if u_IsAvailable u then Some i else None)))"

definition createTransferToQueue ::
    "agent_io \<Rightarrow> string \<Rightarrow> string \<Rightarrow> contact_row \<Rightarrow> string \<Rightarrow> agent_db \<Rightarrow> agent_db" where
  "createTransferToQueue io orgID accountName contact source db =
     (if hasActiveAgentTransfer io db orgID (c_ID contact) then db
      else
        (let settings = io_settings io orgID accountName in
         if out_of_hours io settings then tell_closed contact settings db
         else
           snd (saveAndFinalizeTransfer io
                  (new_transfer io orgID accountName contact source None None None []) orgID contact settings False db)))"

definition createTransferFromKeyword ::
    "agent_io \<Rightarrow> string \<Rightarrow> string \<Rightarrow> contact_row \<Rightarrow> agent_db \<Rightarrow> agent_db" where
  "createTransferFromKeyword io orgID accountName contact db =
     (if hasActiveAgentTransfer io db orgID (c_ID contact) then db
      else
        (let settings = io_settings io orgID accountName in
         if out_of_hours io settings then tell_closed contact settings db
         else
           snd (saveAndFinalizeTransfer io
                  (new_transfer io orgID accountName contact ''keyword'' (same_agent io settings contact db) None None [])
                  orgID contact settings True db)))"

definition createTransferToTeam ::
    "agent_io \<Rightarrow> string \<Rightarrow> string \<Rightarrow> contact_row \<Rightarrow> string \<Rightarrow> string \<Rightarrow> string \<Rightarrow> agent_db \<Rightarrow> agent_db" where
  "createTransferToTeam io orgID accountName contact teamID notes source db =
     (if hasActiveAgentTransfer io db orgID (c_ID contact) then db
      else
        (let settings = io_settings io orgID accountName in
         if out_of_hours io settings then tell_closed contact settings db
         else
           (let (agent, db1) = (if io_assigner io then AssignToTeam io teamID orgID [] ChatLoadCounter db else (None, db))
            in snd (saveAndFinalizeTransfer io
                      (new_transfer io orgID accountName contact source agent (Some teamID) None notes)
                      orgID contact settings True db1))))"

record CreateAgentTransferRequest =
  cr_ContactID :: string
  cr_WhatsAppAccount :: string
  cr_AgentID :: "string option"
  cr_TeamID :: "string option"
  cr_Notes :: string
  cr_Source :: string

definition request_team ::
    "agent_io \<Rightarrow> string \<Rightarrow> CreateAgentTransferRequest \<Rightarrow> agent_db \<Rightarrow> http_error + string option" where
  "request_team io orgID req db =
     (case cr_TeamID req of
        None \<Rightarrow> Inr None
      | Some s \<Rightarrow>
          if s = [] then Inr None
          else
            (case io_uuid io s of
               None \<Rightarrow> Inl (400, ''Invalid team_id'')
             | Some i \<Rightarrow>
                 if \<not> io_err io ''find_team'' \<and> list_ex (\<lambda>t. tm_ID t = i \<and> tm_Org t = orgID \<and> tm_IsActive t) (teams db)
                 then Inr (Some i) else Inl (400, ''Team not found or inactive'')))"

text \<open>An agent named in a request: it must parse, exist in the organisation and be available.\<close>

definition named_agent :: "agent_io \<Rightarrow> string \<Rightarrow> string \<Rightarrow> agent_db \<Rightarrow> http_error + string" where
  "named_agent io orgID s db =
     (case io_uuid io s of
        None \<Rightarrow> Inl (400, ''Invalid agent_id'')
      | Some i \<Rightarrow>
          (case (if io_err io ''find_user'' then None
                 else find (\<lambda>u. u_ID u = i \<and> u_Org u = orgID) (users db)) of
             None \<Rightarrow> Inl (404, ''Agent not found'')
           | Some u \<Rightarrow> if u_IsAvailable u then Inr i else Inl (400, ''Agent is currently away'')))"

definition request_agent ::
    "agent_io \<Rightarrow> string \<Rightarrow> CreateAgentTransferRequest \<Rightarrow> string option \<Rightarrow> contact_row \<Rightarrow> chatbot_settings option
       \<Rightarrow> agent_db \<Rightarrow> (http_error + string option) \<times> agent_db" where
  "request_agent io orgID req team contact settings db =
     (case (case cr_AgentID req of Some s \<Rightarrow> s | None \<Rightarrow> []) of
        c # cs \<Rightarrow> (case named_agent io orgID (c # cs) db of Inl e \<Rightarrow> Inl e | Inr i \<Rightarrow> Inr (Some i), db)
      | [] \<Rightarrow>
          (case (team, io_assigner io) of
             (Some t, True) \<Rightarrow>
               (let (agent, db1) = AssignToTeam io t orgID [] ChatLoadCounter db in (Inr agent, db1))
           | _ \<Rightarrow> (Inr (same_agent io settings contact db), db)))"

text \<open>The part of the handler after its request was found valid.\<close>

definition create_for ::
    "agent_io \<Rightarrow> string \<Rightarrow> string \<Rightarrow> CreateAgentTransferRequest \<Rightarrow> contact_row \<Rightarrow> agent_db \<Rightarrow> api_reply \<times> agent_db" where
  "create_for io orgID userID req contact db =
     (let settings = io_settings io orgID (cr_WhatsAppAccount req) in
      case request_team io orgID req db of
        Inl (code, m) \<Rightarrow> (Reply_err code m, db)
      | Inr team \<Rightarrow>
          (case request_agent io orgID req team contact settings db of
             (Inl (code, m), db1) \<Rightarrow> (Reply_err code m, db1)
           | (Inr agent, db1) \<Rightarrow>
               (let source = (if cr_Source req = [] then ''manual'' else cr_Source req);
                    t = new_transfer io orgID (cr_WhatsAppAccount req) contact source agent team (Some userID) (cr_Notes req)
                in case saveAndFinalizeTransfer io t orgID contact settings True db1 of
                     (False, db2) \<Rightarrow> (Reply_err 500 ''Failed to create transfer'', db2)
                   | (True, db2) \<Rightarrow>
                       (Reply_transfer ''Transfer created successfully'' (last (transfers db2)),
                        send_out (Webhook ''transfer.created'' (t_ID t)) db2))))"

definition CreateAgentTransfer ::
    "agent_io \<Rightarrow> (string \<times> string) option \<Rightarrow> CreateAgentTransferRequest option \<Rightarrow> agent_db \<Rightarrow> api_reply \<times> agent_db" where
  "CreateAgentTransfer io auth request db =
     (case auth of
        None \<Rightarrow> (Reply_err 401 ''Unauthorized'', db)
      | Some (orgID, userID) \<Rightarrow>
     (case request of
        None \<Rightarrow> (Reply_err 400 ''Invalid request body'', db)
      | Some req \<Rightarrow>
          if cr_ContactID req = [] then (Reply_err 400 ''contact_id is required'', db)
          else
     (case io_uuid io (cr_ContactID req) of
        None \<Rightarrow> (Reply_err 400 ''Invalid contact_id'', db)
      | Some contactID \<Rightarrow>
     (case (if io_err io ''find_contact'' then None
            else find (\<lambda>c. c_ID c = contactID \<and> c_Org c = orgID) (contacts db)) of
        None \<Rightarrow> (Reply_err 404 ''Contact not found'', db)
      | Some contact \<Rightarrow>
          if hasActiveAgentTransfer io db orgID contactID then
            (Reply_err 409 ''Contact already has an active transfer'', db)
          else create_for io orgID userID req contact db))))"

section \<open>An agent joins the conversation\<close>

text \<open>
  \<open>contacts.go\<close>: an agent's message to a contact pauses the chatbot with a transfer to that agent. The
  row is created directly: no SLA, no pick-up time, no change of contact, session or queue.
\<close>

definition ensureAgentTakeoverTransfer ::
    "agent_io \<Rightarrow> string \<Rightarrow> contact_row \<Rightarrow> string \<Rightarrow> string \<Rightarrow> agent_db \<Rightarrow> agent_db" where
  "ensureAgentTakeoverTransfer io orgID contact accountName agentID db =
     (if hasActiveAgentTransfer io db orgID (c_ID contact) then db
      else if io_err io ''create_transfer'' then db
      else upd_transfers
             (\<lambda>ts. ts @ [new_transfer io orgID accountName contact ''manual'' (Some agentID) None None []]) db)"

section \<open>Resuming the chatbot\<close>

definition find_transfer :: "agent_io \<Rightarrow> string \<Rightarrow> string \<Rightarrow> agent_db \<Rightarrow> agent_transfer option" where
  "find_transfer io i orgID db =
     (if io_err io ''find_transfer'' then None else find (\<lambda>t. t_ID t = i \<and> t_Org t = orgID) (transfers db))"

definition ResumeFromTransfer ::
    "agent_io \<Rightarrow> (string \<times> string) option \<Rightarrow> string \<Rightarrow> agent_db \<Rightarrow> api_reply \<times> agent_db" where
  "ResumeFromTransfer io auth pathID db =
     (case auth of
        None \<Rightarrow> (Reply_err 401 ''Unauthorized'', db)
      | Some (orgID, userID) \<Rightarrow>
     (case io_uuid io pathID of
        None \<Rightarrow> (Reply_err 400 ''Invalid transfer ID'', db)
      | Some i \<Rightarrow>
     (case find_transfer io i orgID db of
        None \<Rightarrow> (Reply_err 404 ''Transfer not found'', db)
      | Some t \<Rightarrow>
          if \<not> active t then (Reply_err 400 ''Transfer is not active'', db)
          else
            (let t' = t\<lparr>t_Status := TransferStatusResumed, t_ResumedAt := Some (io_now io 1), t_ResumedBy := Some userID\<rparr> in
             if io_err io ''save_transfer'' then (Reply_err 500 ''Failed to resume transfer'', db)
             else
               (Reply_ok ''Transfer resumed, chatbot is now active for this contact'',
                send_out (Webhook ''transfer.resumed'' i)
                  (send_out (BroadcastResumed t')
                    (ClearContactChatbotTracking (t_Contact t) (save_transfer t' db))))))))"

section \<open>Assigning a transfer\<close>

record AssignTransferRequest =
  ar_AgentID :: "string option"
  ar_TeamID :: "string option"

definition assign_target ::
    "agent_io \<Rightarrow> string \<Rightarrow> string \<Rightarrow> bool \<Rightarrow> AssignTransferRequest \<Rightarrow> agent_db \<Rightarrow> http_error + string option" where
  "assign_target io orgID userID hasWriteAccess req db =
     (case ar_AgentID req of
        None \<Rightarrow> Inr (if \<not> hasWriteAccess then Some userID else None)
      | Some s \<Rightarrow>
          if s = [] then Inr None
          else if \<not> hasWriteAccess then Inl (403, ''You don't have permission to assign transfers to others'')
          else (case named_agent io orgID s db of Inl e \<Rightarrow> Inl e | Inr i \<Rightarrow> Inr (Some i)))"

definition assign_team ::
    "agent_io \<Rightarrow> string \<Rightarrow> bool \<Rightarrow> AssignTransferRequest \<Rightarrow> string option \<Rightarrow> agent_db \<Rightarrow> http_error + string option" where
  "assign_team io orgID hasWriteAccess req old db =
     (case ar_TeamID req of
        None \<Rightarrow> Inr old
      | Some s \<Rightarrow>
          if \<not> hasWriteAccess then Inl (403, ''You don't have permission to change team assignment'')
          else if s = [] then Inr None
          else
            (case io_uuid io s of
               None \<Rightarrow> Inl (400, ''Invalid team_id'')
             | Some i \<Rightarrow>
                 if \<not> io_err io ''find_team'' \<and> list_ex (\<lambda>t. tm_ID t = i \<and> tm_Org t = orgID) (teams db)
                 then Inr (Some i) else Inl (400, ''Team not found'')))"

text \<open>The contact's relationship manager after an assignment or an unassignment.\<close>

definition settle_contact ::
    "agent_io \<Rightarrow> string \<Rightarrow> agent_transfer \<Rightarrow> string option \<Rightarrow> string option \<Rightarrow> agent_db \<Rightarrow> agent_db" where
  "settle_contact io orgID t previous target db =
     (case contact_by_id db (t_Contact t) of
        None \<Rightarrow> db
      | Some c \<Rightarrow>
          (case target of
             Some i \<Rightarrow>
               if same_agent_on (io_settings io orgID []) \<and> c_AssignedUserID c = None
               then assign_contact io (c_ID c) (Some i) db else db
           | None \<Rightarrow>
               if previous \<noteq> None \<and> c_AssignedUserID c = previous then assign_contact io (c_ID c) None db else db))"

definition AssignAgentTransfer ::
    "agent_io \<Rightarrow> (string \<times> string) option \<Rightarrow> string \<Rightarrow> AssignTransferRequest option \<Rightarrow> agent_db
       \<Rightarrow> api_reply \<times> agent_db" where
  "AssignAgentTransfer io auth pathID request db =
     (case auth of
        None \<Rightarrow> (Reply_err 401 ''Unauthorized'', db)
      | Some (orgID, userID) \<Rightarrow>
     (let hasWriteAccess = io_perm io userID ''transfers'' ''write'' orgID in
      case io_uuid io pathID of
        None \<Rightarrow> (Reply_err 400 ''Invalid transfer ID'', db)
      | Some i \<Rightarrow>
     (case request of
        None \<Rightarrow> (Reply_err 400 ''Invalid request body'', db)
      | Some req \<Rightarrow>
     (case find_transfer io i orgID db of
        None \<Rightarrow> (Reply_err 404 ''Transfer not found'', db)
      | Some t \<Rightarrow>
          if \<not> active t then (Reply_err 400 ''Transfer is not active'', db)
          else
     (case assign_target io orgID userID hasWriteAccess req db of
        Inl (code, m) \<Rightarrow> (Reply_err code m, db)
      | Inr target \<Rightarrow>
     (case assign_team io orgID hasWriteAccess req (t_TeamID t) db of
        Inl (code, m) \<Rightarrow> (Reply_err code m, db)
      | Inr team \<Rightarrow>
          (let t1 = t\<lparr>t_TeamID := team, t_AgentID := target\<rparr>;
               t2 = (if target \<noteq> None \<and> PickedUpAt (t_SLA t1) = None then UpdateSLAOnPickup (io_now io 1) t1 else t1)
           in if io_err io ''save_transfer'' then (Reply_err 500 ''Failed to assign transfer'', db)
              else
                (Reply_agent ''Transfer assigned successfully'' target,
                 send_out (Webhook ''transfer.assigned'' i)
                   (send_out (BroadcastAssigned t2)
                     (settle_contact io orgID t2 (t_AgentID t) target (save_transfer t2 db)))))))))))"

section \<open>Picking the next transfer\<close>

definition user_teams :: "agent_io \<Rightarrow> string \<Rightarrow> agent_db \<Rightarrow> string list" where
  "user_teams io userID db =
     (if io_err io ''memberships'' then [] else map m_TeamID (filter (\<lambda>m. m_UserID m = userID) (members db)))"

definition pick_filter ::
    "agent_io \<Rightarrow> bool \<Rightarrow> string list \<Rightarrow> string \<Rightarrow> http_error + (agent_transfer \<Rightarrow> bool)" where
  "pick_filter io hasFullAccess userTeamIDs teamIDStr =
     (if teamIDStr \<noteq> [] then
        (if teamIDStr = ''general'' then Inr (\<lambda>t. t_TeamID t = None)
         else
           (case io_uuid io teamIDStr of
              None \<Rightarrow> Inr (\<lambda>t. True)
            | Some i \<Rightarrow>
                if \<not> hasFullAccess \<and> i \<notin> set userTeamIDs then Inl (403, ''You are not a member of this team'')
                else Inr (\<lambda>t. t_TeamID t = Some i)))
      else if \<not> hasFullAccess then
        (if userTeamIDs \<noteq> [] then Inr (\<lambda>t. t_TeamID t = None \<or> (\<exists>i \<in> set userTeamIDs. t_TeamID t = Some i))
         else Inr (\<lambda>t. t_TeamID t = None))
      else Inr (\<lambda>t. True))"

definition queue_order :: "agent_io \<Rightarrow> string \<Rightarrow> (agent_transfer \<Rightarrow> bool) \<Rightarrow> agent_db \<Rightarrow> agent_transfer list" where
  "queue_order io orgID allowed db =
     sort_key t_TransferredAt
       (filter (\<lambda>t. t_Org t = orgID \<and> active t \<and> t_AgentID t = None \<and> \<not> io_locked io (t_ID t) \<and> allowed t) (transfers db))"

text \<open>What the transaction writes once a row is chosen; \<open>None\<close> when it was rolled back.\<close>

definition pick_transaction ::
    "agent_io \<Rightarrow> string \<Rightarrow> chatbot_settings option \<Rightarrow> agent_transfer \<Rightarrow> agent_db \<Rightarrow> http_error + agent_transfer \<times> agent_db" where
  "pick_transaction io userID settings t0 db =
     (let t1 = t0\<lparr>t_AgentID := Some userID,
                  t_TransferredBy := (case t_TransferredBy t0 of None \<Rightarrow> Some userID | Some b \<Rightarrow> Some b)\<rparr>;
          t = UpdateSLAOnPickup (io_now io 1) t1;
          db1 = save_transfer t db;
          pin = (same_agent_on settings \<and> \<not> io_err io ''find_contact'' \<and>
                 (case contact_by_id db1 (t_Contact t) of None \<Rightarrow> False | Some c \<Rightarrow> c_AssignedUserID c = None))
      in if io_err io ''save_transfer'' then Inl (500, ''Failed to pick transfer'')
         else if pin \<and> io_err io ''contact'' then Inl (500, ''Failed to update contact assignment'')
         else if io_err io ''commit'' then Inl (500, ''Failed to complete pickup'')
         else Inr (t, if pin then assign_contact io (t_Contact t) (Some userID) db1 else db1))"

definition PickNextTransfer ::
    "agent_io \<Rightarrow> (string \<times> string) option \<Rightarrow> string \<Rightarrow> agent_db \<Rightarrow> api_reply \<times> agent_db" where
  "PickNextTransfer io auth teamIDStr db =
     (case auth of
        None \<Rightarrow> (Reply_err 401 ''Unauthorized'', db)
      | Some (orgID, userID) \<Rightarrow>
     (let hasFullAccess = io_perm io userID ''transfers'' ''write'' orgID;
          hasPickupPermission = io_perm io userID ''transfers'' ''pickup'' orgID;
          settings = io_settings io orgID []
      in if \<not> hasFullAccess \<and> (case settings of None \<Rightarrow> False | Some s \<Rightarrow> \<not> aa_AllowQueuePickup s) then
           (Reply_err 403 ''Queue pickup is not allowed'', db)
         else if \<not> hasFullAccess \<and> \<not> hasPickupPermission then
           (Reply_err 403 ''You don't have permission to pick up transfers'', db)
         else
           (case pick_filter io hasFullAccess (user_teams io userID db) teamIDStr of
              Inl (code, m) \<Rightarrow> (Reply_err code m, db)
            | Inr allowed \<Rightarrow>
                (case (if io_err io ''queue'' then [] else queue_order io orgID allowed db) of
                   [] \<Rightarrow> (Reply_none ''No transfers in queue'', db)
                 | t # _ \<Rightarrow>
                     (case pick_transaction io userID settings t db of
                        Inl (code, m) \<Rightarrow> (Reply_err code m, db)
                      | Inr (t', db') \<Rightarrow>
                          (Reply_transfer ''Transfer picked successfully'' t', send_out (BroadcastAssigned t') db'))))))"

section \<open>Returning transfers to the queue\<close>

text \<open>The contact is the one preloaded with the transfer, in the tables \<open>db0\<close> of the query.\<close>

definition return_one :: "agent_io \<Rightarrow> agent_db \<Rightarrow> agent_transfer \<Rightarrow> agent_db \<Rightarrow> agent_db" where
  "return_one io db0 t db =
     (let t' = t\<lparr>t_AgentID := None\<rparr> in
      if io_err io (''return:'' @ t_ID t) then db
      else
        (let db1 = save_transfer t' db;
             clear = (t_Contact t \<noteq> [] \<and>
                      (case contact_by_id db0 (t_Contact t) of
                         None \<Rightarrow> False
                       | Some c \<Rightarrow> c_AssignedUserID c \<noteq> None \<and> c_AssignedUserID c = t_AgentID t))
         in send_out (BroadcastAssigned t') (if clear then assign_contact io (t_Contact t) None db1 else db1)))"

definition ReturnAgentTransfersToQueue :: "agent_io \<Rightarrow> string \<Rightarrow> string \<Rightarrow> agent_db \<Rightarrow> nat \<times> agent_db" where
  "ReturnAgentTransfersToQueue io userID orgID db =
     (if io_err io ''agent_transfers'' then (0, db)
      else
        (let found = filter (\<lambda>t. t_AgentID t = Some userID \<and> t_Org t = orgID \<and> active t) (transfers db)
         in (length found, fold (return_one io db) found db)))"

end
