(* ===== verification/Inbound.thy ===== *)
theory Inbound
  imports Chat_Dialogue Transfers
begin

text \<open>
  The chatbot part of \<open>processIncomingMessageFull\<close> (\<open>chatbot_processor.go\<close>), from the check for a
  human transfer to the fallback reply: opening hours, media-only messages, the session, keyword
  rules, the running flow, flow triggers, greeting, keyword reply, AI reply and fallback. One
  definition per stage, in the order of the code; a stage that handles the message returns.

  The rows the handler reads (transfers, settings, rules, flows, sessions, the last message sent)
  are answers of \<open>inbound_env\<close>, which may depend on the trace.
\<close>

section \<open>Rows and surroundings\<close>

record keyword_rule =
  Keywords :: "string list"
  MatchType :: string
  CaseSensitive :: bool
  ResponseType :: string
  ResponseContent :: jsonb

record KeywordResponse =
  kr_Body :: string
  kr_Buttons :: "obj list"
  kr_ResponseType :: string

record inbound_env =
  in_chat :: chat_env
  in_transferred :: "event list \<Rightarrow> bool"
  in_settings :: "event list \<Rightarrow> string + chatbot_settings"
  in_rules :: "event list \<Rightarrow> string + keyword_rule list"
  in_flows :: "event list \<Rightarrow> string + chatbot_flow list"
  in_sessions :: "event list \<Rightarrow> session list"
  in_new_id :: "event list \<Rightarrow> string"
  in_last_sent :: "event list \<Rightarrow> (string \<times> int) option"

text \<open>An inbound message after \<open>extractMessageContent\<close>, with its account and contact.\<close>

record inbound_msg =
  im_Org :: string
  im_Contact :: string
  im_Account :: string
  im_From :: string
  im_Type :: string
  im_Text :: string
  im_ButtonID :: string
  im_FlowData :: obj
  im_HasMedia :: bool
  im_BotLastMessageAt :: "int option"

section \<open>Keyword rules and flow triggers\<close>

definition keyword_matches :: "chat_env \<Rightarrow> keyword_rule \<Rightarrow> string \<Rightarrow> string \<Rightarrow> bool" where
  "keyword_matches env rule messageText keyword =
     (let low = strings_ToLower (env_rt env); mt = MatchType rule in
      if mt = ''exact'' then
        (if CaseSensitive rule then messageText = keyword else low messageText = low keyword)
      else if mt = ''contains'' then
        (if CaseSensitive rule then strings_Contains messageText keyword
         else strings_Contains (low messageText) (low keyword))
      else if mt = ''starts_with'' then
        (if CaseSensitive rule then prefix keyword messageText else prefix (low keyword) (low messageText))
      else if mt = ''regex'' then
        (case env_regexp env keyword of None \<Rightarrow> False | Some re \<Rightarrow> re messageText)
      else strings_Contains (low messageText) (low keyword))"

definition rule_response :: "keyword_rule \<Rightarrow> KeywordResponse option" where
  "rule_response rule =
     (let content = jsonb (ResponseContent rule); body = str_or (obj_get content ''body'') in
      if ResponseType rule = ''transfer'' then
        Some \<lparr>kr_Body = body, kr_Buttons = [], kr_ResponseType = ResponseType rule\<rparr>
      else if body \<noteq> [] then
        Some \<lparr>kr_Body = body, kr_Buttons = List.map_filter as_obj (arr_or (obj_get content ''buttons'')),
              kr_ResponseType = ResponseType rule\<rparr>
      else None)"

fun keyword_loop :: "chat_env \<Rightarrow> string \<Rightarrow> keyword_rule \<Rightarrow> string list \<Rightarrow> KeywordResponse option" where
  "keyword_loop env messageText rule [] = None"
| "keyword_loop env messageText rule (k # ks) =
     (case (if keyword_matches env rule messageText k then rule_response rule else None) of
        Some r \<Rightarrow> Some r
      | None \<Rightarrow> keyword_loop env messageText rule ks)"

fun rules_loop :: "chat_env \<Rightarrow> string \<Rightarrow> keyword_rule list \<Rightarrow> KeywordResponse option" where
  "rules_loop env messageText [] = None"
| "rules_loop env messageText (rule # rules) =
     (case keyword_loop env messageText rule (Keywords rule) of
        Some r \<Rightarrow> Some r
      | None \<Rightarrow> rules_loop env messageText rules)"

definition matchKeywordRules :: "inbound_env \<Rightarrow> string \<Rightarrow> event list \<Rightarrow> KeywordResponse option" where
  "matchKeywordRules env messageText tr =
     (case in_rules env tr of Inl err \<Rightarrow> None | Inr rules \<Rightarrow> rules_loop (in_chat env) messageText rules)"

definition matchFlowTrigger :: "inbound_env \<Rightarrow> string \<Rightarrow> event list \<Rightarrow> chatbot_flow option" where
  "matchFlowTrigger env messageText tr =
     (let low = strings_ToLower (env_rt (in_chat env)) in
      case in_flows env tr of
        Inl err \<Rightarrow> None
      | Inr flows \<Rightarrow>
          find (\<lambda>f. list_ex (\<lambda>k. strings_Contains (low messageText) (low k)) (flow_TriggerKeywords f)) flows)"

section \<open>Sessions\<close>

definition getOrCreateSession :: "inbound_env \<Rightarrow> inbound_msg \<Rightarrow> int \<Rightarrow> chatNodeCtx \<Rightarrow> bool \<times> chatNodeCtx" where
  "getOrCreateSession env msg timeoutMins st =
     (let now = clk_UnixNano (env_now (in_chat env) (trace st));
          st1 = emit ReadClock st;
          row = find (\<lambda>s. OrganizationID s = im_Org msg \<and> ContactID s = im_Contact msg \<and>
                          WhatsAppAccount s = im_Account msg \<and> Status s = ''active'' \<and>
                          LastActivityAt s > now - minutes_ns timeoutMins)
                  (in_sessions env (trace st1));
          fresh = \<lparr>sess_ID = in_new_id env (trace st1), OrganizationID = im_Org msg, ContactID = im_Contact msg,
                   WhatsAppAccount = im_Account msg, PhoneNumber = im_From msg, Status = ''active'',
                   CurrentFlowID = None, CurrentStep = [], StepRetries = 0, SessionData = Some [],
                   LastActivityAt = now, CompletedAt = None\<rparr>
      in case row of
           Some s \<Rightarrow> (False, emit (TouchSession (sess_ID s)) (st1\<lparr>ctx_session := s\<lparr>LastActivityAt := now\<rparr>\<rparr>))
         | None \<Rightarrow> (True, emit (CreateSession fresh) (st1\<lparr>ctx_session := fresh\<rparr>)))"

definition exitFlow :: "chatNodeCtx \<Rightarrow> chatNodeCtx" where
  "exitFlow st = emit (ExitFlow (sess_ID (ctx_session st))) st"

section \<open>Replies\<close>

text \<open>Buttons when there are any, a text otherwise; a failed send is only logged.\<close>

definition reply :: "chat_env \<Rightarrow> string \<Rightarrow> obj list \<Rightarrow> chatNodeCtx \<Rightarrow> chatNodeCtx" where
  "reply env body buttons st =
     snd (if buttons \<noteq> [] then sendAndSaveInteractiveButtons env body buttons st
          else sendAndSaveTextMessage env body st)"

definition sendOutOfHoursOnce :: "inbound_env \<Rightarrow> string \<Rightarrow> chatNodeCtx \<Rightarrow> chatNodeCtx" where
  "sendOutOfHoursOnce env message st =
     (if message = [] then st
      else
        (case in_last_sent env (trace st) of
           Some (content, createdAt) \<Rightarrow>
             if content = message \<and>
                clk_UnixNano (env_now (in_chat env) (trace st)) - createdAt < hours_ns 8
             then emit ReadClock st
             else snd (sendAndSaveTextMessage (in_chat env) message (emit ReadClock st))
         | None \<Rightarrow> snd (sendAndSaveTextMessage (in_chat env) message st)))"

text \<open>Whether the hours are enforced and now is outside of them.\<close>

definition check_hours :: "inbound_env \<Rightarrow> chatbot_settings \<Rightarrow> chatNodeCtx \<Rightarrow> bool \<times> chatNodeCtx" where
  "check_hours env settings st =
     (if bh_Enabled settings \<and> bh_Hours settings \<noteq> []
      then (\<not> isWithinBusinessHours (env_now (in_chat env) (trace st)) (bh_Hours settings), emit ReadClock st)
      else (False, st))"

definition ai_ready :: "chatbot_settings \<Rightarrow> bool" where
  "ai_ready settings \<longleftrightarrow>
     ai_Enabled (set_AI settings) \<and> ai_Provider (set_AI settings) \<noteq> [] \<and> ai_APIKey (set_AI settings) \<noteq> []"

text \<open>Ask the model; \<open>Some\<close> when it gave an answer, which was sent.\<close>

definition ai_reply :: "inbound_env \<Rightarrow> string \<Rightarrow> chatNodeCtx \<Rightarrow> bool \<times> chatNodeCtx" where
  "ai_reply env userMessage st =
     (let r = env_ai (in_chat env) (trace st) userMessage; st1 = emit (AIGenerate userMessage) st in
      case r of
        Inl err \<Rightarrow> (False, st1)
      | Inr answer \<Rightarrow>
          if answer = [] then (False, st1)
          else (True, logSessionMessage answer ''ai_response''
                        (snd (sendAndSaveTextMessage (in_chat env) answer st1))))"

section \<open>Stages of the handler\<close>

text \<open>The texts shown to the model for a photo and for a voice note (UTF-8).\<close>

definition image_placeholder :: string where
  "image_placeholder =
     [CHR 0x5B, CHR 0xD8, CHR 0xA7, CHR 0xD9, CHR 0x84, CHR 0xD8, CHR 0xB9, CHR 0xD9, CHR 0x85, CHR 0xD9,
      CHR 0x8A, CHR 0xD9, CHR 0x84, CHR 0x20, CHR 0xD8, CHR 0xB5, CHR 0xD9, CHR 0x8A, CHR 0xD9, CHR 0x81,
      CHR 0xD8, CHR 0xB7, CHR 0x20, CHR 0xD8, CHR 0xB5, CHR 0xD9, CHR 0x88, CHR 0xD8, CHR 0xB1, CHR 0xD8,
      CHR 0xA9, CHR 0x5D]"

definition audio_placeholder :: string where
  "audio_placeholder =
     [CHR 0x5B, CHR 0xD8, CHR 0xA7, CHR 0xD9, CHR 0x84, CHR 0xD8, CHR 0xB9, CHR 0xD9, CHR 0x85, CHR 0xD9,
      CHR 0x8A, CHR 0xD9, CHR 0x84, CHR 0x20, CHR 0xD8, CHR 0xB5, CHR 0xD9, CHR 0x8A, CHR 0xD9, CHR 0x81,
      CHR 0xD8, CHR 0xB7, CHR 0x20, CHR 0xD8, CHR 0xB1, CHR 0xD8, CHR 0xB3, CHR 0xD8, CHR 0xA7, CHR 0xD9,
      CHR 0x84, CHR 0xD8, CHR 0xA9, CHR 0x20, CHR 0xD8, CHR 0xB5, CHR 0xD9, CHR 0x88, CHR 0xD8, CHR 0xAA,
      CHR 0xD9, CHR 0x8A, CHR 0xD8, CHR 0xA9, CHR 0x5D]"

text \<open>A message without text: answered by the multimodal model, or left to the delayed fallback.\<close>

definition media_pending :: "chatbot_settings \<Rightarrow> inbound_msg \<Rightarrow> chatNodeCtx \<Rightarrow> chatNodeCtx" where
  "media_pending settings msg st =
     (if im_Type msg \<in> {''image'', ''video'', ''document'', ''sticker'', ''audio''} \<and> FallbackMessage settings \<noteq> []
      then emit FallbackPending st else st)"

definition stage_media :: "inbound_env \<Rightarrow> chatbot_settings \<Rightarrow> inbound_msg \<Rightarrow> chatNodeCtx \<Rightarrow> chatNodeCtx" where
  "stage_media env settings msg st =
     (if ai_ready settings \<and> im_HasMedia msg then
        (let (_, st1) = getOrCreateSession env msg (SessionTimeoutMins settings) st;
             placeholder = (if im_Type msg = ''audio'' then audio_placeholder else image_placeholder);
             (answered, st2) = ai_reply env placeholder (emit (LogIncoming placeholder ''ai_media'') st1)
         in if answered then st2 else media_pending settings msg st2)
      else media_pending settings msg st)"

definition stage_keyword_transfer ::
    "inbound_env \<Rightarrow> chatbot_settings \<Rightarrow> KeywordResponse \<Rightarrow> chatNodeCtx \<Rightarrow> chatNodeCtx" where
  "stage_keyword_transfer env settings kw st =
     (let (outside, st1) = check_hours env settings st in
      if outside then sendOutOfHoursOnce env (bh_OutOfHoursMessage settings) st1
      else emit TransferFromKeyword
             (if kr_Body kw \<noteq> [] then snd (sendAndSaveTextMessage (in_chat env) (kr_Body kw) st1) else st1))"

definition run_flow :: "inbound_env \<Rightarrow> inbound_msg \<Rightarrow> chatbot_flow \<Rightarrow> chatNodeCtx \<Rightarrow> chatNodeCtx option" where
  "run_flow env msg flow st =
     map_option snd
       (runChatGraph (in_chat env) (ctx_session st) flow (im_Text msg) (im_ButtonID msg) (im_FlowData msg) (trace st))"

definition stage_active_flow :: "inbound_env \<Rightarrow> inbound_msg \<Rightarrow> string \<Rightarrow> chatNodeCtx \<Rightarrow> chatNodeCtx option" where
  "stage_active_flow env msg fid st =
     (case env_flow (in_chat env) (trace st) fid of
        Inl err \<Rightarrow> Some (exitFlow st)
      | Inr flow \<Rightarrow> if flow_Graph flow = None then Some (exitFlow st) else run_flow env msg flow st)"

definition stage_trigger :: "inbound_env \<Rightarrow> inbound_msg \<Rightarrow> chatbot_flow \<Rightarrow> chatNodeCtx \<Rightarrow> chatNodeCtx option" where
  "stage_trigger env msg flow st =
     (if flow_Graph flow = None then Some st
      else run_flow env msg flow
             (upd_session (\<lambda>s. s\<lparr>CurrentFlowID := Some (flow_ID flow), CurrentStep := [], StepRetries := 0,
                SessionData := Some [(''_flow_id'', StrV (flow_ID flow)), (''_flow_name'', StrV (flow_Name flow))]\<rparr>) st))"

definition stage_greeting :: "inbound_env \<Rightarrow> chatbot_settings \<Rightarrow> chatNodeCtx \<Rightarrow> chatNodeCtx" where
  "stage_greeting env settings st =
     logSessionMessage (DefaultResponse settings) ''greeting''
       (reply (in_chat env) (DefaultResponse settings) (List.map_filter as_obj (GreetingButtons settings)) st)"

definition stage_keyword_reply :: "inbound_env \<Rightarrow> KeywordResponse \<Rightarrow> chatNodeCtx \<Rightarrow> chatNodeCtx" where
  "stage_keyword_reply env kw st =
     logSessionMessage (kr_Body kw) ''keyword_response'' (reply (in_chat env) (kr_Body kw) (kr_Buttons kw) st)"

definition stage_fallback ::
    "inbound_env \<Rightarrow> chatbot_settings \<Rightarrow> inbound_msg \<Rightarrow> bool \<Rightarrow> chatNodeCtx \<Rightarrow> chatNodeCtx" where
  "stage_fallback env settings msg isNewSession st =
     (let (recently, st1) =
            (case im_BotLastMessageAt msg of
               None \<Rightarrow> (False, st)
             | Some t \<Rightarrow> (clk_UnixNano (env_now (in_chat env) (trace st)) - t < minutes_ns 15, emit ReadClock st))
      in if FallbackMessage settings \<noteq> [] \<and> \<not> isNewSession \<and> \<not> recently then
           logSessionMessage (FallbackMessage settings) ''fallback_response''
             (reply (in_chat env) (FallbackMessage settings) (List.map_filter as_obj (FallbackButtons settings)) st1)
         else st1)"

definition stage_flow_or_reply ::
    "inbound_env \<Rightarrow> chatbot_settings \<Rightarrow> inbound_msg \<Rightarrow> bool \<Rightarrow> KeywordResponse option \<Rightarrow> chatNodeCtx
       \<Rightarrow> chatNodeCtx option" where
  "stage_flow_or_reply env settings msg isNewSession kw st =
     (case CurrentFlowID (ctx_session st) of
        Some fid \<Rightarrow> stage_active_flow env msg fid st
      | None \<Rightarrow>
          (case matchFlowTrigger env (im_Text msg) (trace st) of
             Some flow \<Rightarrow> stage_trigger env msg flow st
           | None \<Rightarrow>
               if isNewSession \<and> DefaultResponse settings \<noteq> [] then Some (stage_greeting env settings st)
               else
                 (case kw of
                    Some k \<Rightarrow> Some (stage_keyword_reply env k st)
                  | None \<Rightarrow>
                      if ai_ready settings then
                        (let (answered, st1) = ai_reply env (im_Text msg) st in
                         if answered then Some st1 else Some (stage_fallback env settings msg isNewSession st1))
                      else Some (stage_fallback env settings msg isNewSession st))))"

text \<open>A message with text, after the session was found or created.\<close>

definition stage_text ::
    "inbound_env \<Rightarrow> chatbot_settings \<Rightarrow> inbound_msg \<Rightarrow> bool \<Rightarrow> chatNodeCtx \<Rightarrow> chatNodeCtx option" where
  "stage_text env settings msg isNewSession st0 =
     (let st = emit (LogIncoming (im_Text msg) ''keyword_check'') st0;
          kw = matchKeywordRules env (im_Text msg) (trace st)
      in case kw of
           Some k \<Rightarrow>
             if kr_ResponseType k = ''transfer'' then Some (stage_keyword_transfer env settings k st)
             else stage_flow_or_reply env settings msg isNewSession kw st
         | None \<Rightarrow> stage_flow_or_reply env settings msg isNewSession kw st)"

text \<open>
  The chatbot is disabled: \<open>createTransferToQueue\<close> is called. It looks for an active transfer and reads
  the settings once more, and outside enforced hours it sends the out-of-hours text and makes no
  transfer. Its event stands for the call; what it sends follows in the trace. What the transfer calls
  send in the other stages is in the outbox of the tables only (\<open>tell_closed\<close>).
\<close>

definition stage_disabled :: "inbound_env \<Rightarrow> chatNodeCtx \<Rightarrow> chatNodeCtx" where
  "stage_disabled env st =
     (let st1 = emit TransferChatbotDisabled st in
      if in_transferred env (trace st1) then st1
      else
        (case in_settings env (trace st1) of
           Inl err \<Rightarrow> st1
         | Inr settings \<Rightarrow>
             (let (outside, st2) = check_hours env settings st1 in
              if outside \<and> bh_OutOfHoursMessage settings \<noteq> []
              then snd (sendAndSaveTextMessage (in_chat env) (bh_OutOfHoursMessage settings) st2) else st2)))"

definition processInbound :: "inbound_env \<Rightarrow> inbound_msg \<Rightarrow> chatNodeCtx \<Rightarrow> chatNodeCtx option" where
  "processInbound env msg st =
     (if in_transferred env (trace st) then Some st
      else
        (case in_settings env (trace st) of
           Inl err \<Rightarrow> Some st
         | Inr settings \<Rightarrow>
             if \<not> set_IsEnabled settings then Some (stage_disabled env st)
             else
               (let (outside, st1) = check_hours env settings st in
                if outside \<and> \<not> bh_AllowAutomatedOutside settings then
                  Some (sendOutOfHoursOnce env (bh_OutOfHoursMessage settings) st1)
                else if im_Text msg = [] then Some (stage_media env settings msg st1)
                else
                  (let (isNew, st2) = getOrCreateSession env msg (SessionTimeoutMins settings) st1
                   in stage_text env settings msg isNew st2))))"

section \<open>Properties\<close>

lemma check_hours_trace:
  "check_hours env settings st = (b, st') \<Longrightarrow> trace st' = trace st \<or> trace st' = trace st @ [ReadClock]"
  by (auto simp: check_hours_def emit_def split: if_splits)

lemma sendOutOfHoursOnce_trace:
  "\<exists>es. trace (sendOutOfHoursOnce env m st) = trace st @ es \<and> set es \<subseteq> {ReadClock, Outgoing (OutText m)} \<and>
        length (filter (\<lambda>e. e \<noteq> ReadClock) es) \<le> 1"
  by (auto simp: sendOutOfHoursOnce_def sendAndSaveTextMessage_def SendOutgoing_def emit_def split: option.splits if_splits)

lemma stage_disabled_sends:
  assumes "trace (stage_disabled env st) = trace st @ es" "Outgoing m \<in> set es"
  shows "es = [TransferChatbotDisabled, ReadClock, Outgoing m] \<and> \<not> in_transferred env (trace st @ [TransferChatbotDisabled]) \<and>
    (\<exists>s. in_settings env (trace st @ [TransferChatbotDisabled]) = Inr s \<and> m = OutText (bh_OutOfHoursMessage s) \<and>
       fst (check_hours env s (emit TransferChatbotDisabled st)))"
proof -
  let ?st1 = "emit TransferChatbotDisabled st"
  have tr: "trace ?st1 = trace st @ [TransferChatbotDisabled]"
    by (simp add: emit_def)
  have "trace (stage_disabled env st) \<noteq> trace ?st1"
    using assms by (auto simp: tr)
  then have t: "\<not> in_transferred env (trace ?st1)"
    by (auto simp: stage_disabled_def Let_def)
  from assms(1) t obtain s where s: "in_settings env (trace ?st1) = Inr s"
    using \<open>trace (stage_disabled env st) \<noteq> trace ?st1\<close>
    by (cases "in_settings env (trace ?st1)") (auto simp: stage_disabled_def Let_def)
  obtain outside st2 where h: "check_hours env s ?st1 = (outside, st2)"
    by fastforce
  have run: "stage_disabled env st = (if outside \<and> bh_OutOfHoursMessage s \<noteq> []
      then emit (Outgoing (OutText (bh_OutOfHoursMessage s))) st2 else st2)"
    using t s h by (simp add: stage_disabled_def Let_def sendAndSaveTextMessage_def SendOutgoing_def)
  have more: "trace st2 = trace ?st1 @ (if outside then [ReadClock] else []) \<or> trace st2 = trace ?st1 @ [ReadClock]"
    using h by (auto simp: check_hours_def emit_def split: if_splits)
  have out: "outside \<and> bh_OutOfHoursMessage s \<noteq> []"
    using assms run more by (cases "outside \<and> bh_OutOfHoursMessage s \<noteq> []") (auto simp: tr split: if_splits)
  with run more tr assms(1) have "es = [TransferChatbotDisabled, ReadClock, Outgoing (OutText (bh_OutOfHoursMessage s))]"
    by (simp add: emit_def)
  with assms(2) t s h out show ?thesis
    by (simp add: tr)
qed

text \<open>
  C23. When the handler may write to the customer: if handling a message sends anything, the count of
  active transfers found none (or failed, which reads as none) and the chatbot's settings could be
  loaded. If the chatbot is enabled, then outside enforced opening hours (when automation is not
  allowed then) the only message that can be sent is the configured out-of-hours text, at most once,
  and no session, flow or AI call happens. If it is disabled, the only message is the out-of-hours
  text, sent once outside enforced hours in place of the transfer to the queue, and nothing else
  happens.
\<close>
theorem chatbot_speaks_only_when_allowed:
  assumes "processInbound env msg st = Some st'" "trace st' = trace st @ es" "Outgoing m \<in> set es"
  shows "\<not> in_transferred env (trace st) \<and>
    (\<exists>settings. in_settings env (trace st) = Inr settings \<and>
       (set_IsEnabled settings \<and> fst (check_hours env settings st) \<and> \<not> bh_AllowAutomatedOutside settings \<longrightarrow>
          m = OutText (bh_OutOfHoursMessage settings) \<and> set es \<subseteq> {ReadClock, Outgoing m} \<and>
          length (filter (\<lambda>e. e \<noteq> ReadClock) es) \<le> 1) \<and>
       (\<not> set_IsEnabled settings \<longrightarrow>
          es = [TransferChatbotDisabled, ReadClock, Outgoing m] \<and>
          \<not> in_transferred env (trace st @ [TransferChatbotDisabled]) \<and>
          (\<exists>s. in_settings env (trace st @ [TransferChatbotDisabled]) = Inr s \<and> m = OutText (bh_OutOfHoursMessage s) \<and>
             fst (check_hours env s (emit TransferChatbotDisabled st)))))"
proof -
  have "es \<noteq> []"
    using assms(3) by auto
  then have t: "\<not> in_transferred env (trace st)"
    using assms(1,2) by (auto simp: processInbound_def)
  moreover obtain settings where s: "in_settings env (trace st) = Inr settings"
    using assms t by (auto simp: processInbound_def split: sum.splits)
  moreover have "m = OutText (bh_OutOfHoursMessage settings) \<and> set es \<subseteq> {ReadClock, Outgoing m} \<and>
      length (filter (\<lambda>e. e \<noteq> ReadClock) es) \<le> 1"
    if e: "set_IsEnabled settings" and out: "fst (check_hours env settings st)" "\<not> bh_AllowAutomatedOutside settings"
  proof -
    obtain st1 where h: "check_hours env settings st = (True, st1)"
      using out by (metis (full_types) prod.collapse)
    have st': "st' = sendOutOfHoursOnce env (bh_OutOfHoursMessage settings) st1"
      using assms(1) t s e out h by (simp add: processInbound_def)
    obtain es' where es': "trace st' = trace st1 @ es'" "set es' \<subseteq> {ReadClock, Outgoing (OutText (bh_OutOfHoursMessage settings))}"
        "length (filter (\<lambda>e. e \<noteq> ReadClock) es') \<le> 1"
      using sendOutOfHoursOnce_trace st' by blast
    have m: "Outgoing m = Outgoing (OutText (bh_OutOfHoursMessage settings))"
      using check_hours_trace [OF h] es' assms(2,3) by auto
    from check_hours_trace [OF h] es' assms(2) show ?thesis
      unfolding m by (auto simp: m [simplified])
  qed
  moreover have "stage_disabled env st = st'" if "\<not> set_IsEnabled settings"
    using assms(1) t s that by (simp add: processInbound_def)
  ultimately show ?thesis
    using stage_disabled_sends [of env st es m] assms(2,3) by metis
qed

text \<open>
  \<open>matchKeywordRules\<close> returns the reply of the first rule, in the order of the rule list, that has a
  matching keyword and a usable reply (a transfer, or a non-empty body); a rule that matches without
  a usable reply does not stop the search.
\<close>
theorem keyword_rules_first_match:
  "matchKeywordRules env messageText tr =
     (case in_rules env tr of
        Inl err \<Rightarrow> None
      | Inr rules \<Rightarrow>
          (case find (\<lambda>rule. rule_response rule \<noteq> None \<and>
                        (\<exists>k \<in> set (Keywords rule). keyword_matches (in_chat env) rule messageText k)) rules of
             None \<Rightarrow> None
           | Some rule \<Rightarrow> rule_response rule))"
proof -
  have loop: "keyword_loop e messageText rule ks =
      (if \<exists>k \<in> set ks. keyword_matches e rule messageText k then rule_response rule else None)" for e rule ks
    by (induction ks) (auto split: option.splits)
  have "rules_loop e messageText rules =
      (case find (\<lambda>rule. rule_response rule \<noteq> None \<and> (\<exists>k \<in> set (Keywords rule). keyword_matches e rule messageText k)) rules of
         None \<Rightarrow> None | Some rule \<Rightarrow> rule_response rule)" for e rules
    by (induction rules) (auto simp: loop split: option.splits)
  then show ?thesis
    by (simp add: matchKeywordRules_def split: sum.splits)
qed

text \<open>
  A request for a human wins over everything the chatbot is doing: when the text matches a transfer
  keyword within opening hours, the contact is told the configured text (if any) and the transfer
  is requested, even if the session is inside a flow; the flow is not run, no other reply is sent,
  and the session is left as it was.
\<close>
theorem transfer_keyword_wins:
  assumes "\<not> in_transferred env (trace st)" "in_settings env (trace st) = Inr settings" "set_IsEnabled settings"
    and "\<not> bh_Enabled settings" "im_Text msg \<noteq> []"
    and "getOrCreateSession env msg (SessionTimeoutMins settings) st = (isNew, st2)"
    and "matchKeywordRules env (im_Text msg) (trace st2 @ [LogIncoming (im_Text msg) ''keyword_check'']) = Some kw"
    and "kr_ResponseType kw = ''transfer''"
  shows "\<exists>st'. processInbound env msg st = Some st' \<and> ctx_session st' = ctx_session st2 \<and>
    trace st' = trace st2 @ [LogIncoming (im_Text msg) ''keyword_check''] @
      (if kr_Body kw \<noteq> [] then [Outgoing (OutText (kr_Body kw))] else []) @ [TransferFromKeyword]"
  using assms by (simp add: processInbound_def check_hours_def stage_text_def stage_keyword_transfer_def Let_def emit_def
      sendAndSaveTextMessage_def SendOutgoing_def)

text \<open>
  Trigger keywords ignore the WhatsApp account a flow belongs to: whatever accounts the flows of
  the organisation are given, \<open>matchFlowTrigger\<close> starts the same flow, although a running flow refuses
  to go to a flow of another account. A message to one number can start the flow of another.
\<close>
theorem trigger_ignores_account:
  "matchFlowTrigger (env\<lparr>in_flows := \<lambda>t. case in_flows env t of Inl err \<Rightarrow> Inl err
       | Inr flows \<Rightarrow> Inr (map (\<lambda>f. f\<lparr>flow_WhatsAppAccount := account f\<rparr>) flows)\<rparr>) messageText tr =
   map_option (\<lambda>f. f\<lparr>flow_WhatsAppAccount := account f\<rparr>) (matchFlowTrigger env messageText tr)"
proof -
  have "find P (map h xs) = map_option h (find (P \<circ> h) xs)" for P and h :: "chatbot_flow \<Rightarrow> chatbot_flow" and xs
    by (induction xs) auto
  then show ?thesis
    by (simp add: matchFlowTrigger_def o_def Let_def split: sum.splits)
qed

section \<open>Witnesses\<close>

definition human_rule :: keyword_rule where
  "human_rule = \<lparr>Keywords = [''human''], MatchType = ''contains'', CaseSensitive = True, ResponseType = ''transfer'',
     ResponseContent = Some [(''body'', StrV ''one moment'')]\<rparr>"

definition sample_inbound :: "chatbot_settings \<Rightarrow> inbound_env" where
  "sample_inbound settings = \<lparr>in_chat = sample_env, in_transferred = (\<lambda>_. False), in_settings = (\<lambda>_. Inr settings),
     in_rules = (\<lambda>_. Inr [human_rule]), in_flows = (\<lambda>_. Inr []), in_sessions = (\<lambda>_. []), in_new_id = (\<lambda>_. ''s1''),
     in_last_sent = (\<lambda>_. None)\<rparr>"

definition sample_msg :: inbound_msg where
  "sample_msg = \<lparr>im_Org = ''org'', im_Contact = ''c1'', im_Account = ''shop'', im_From = ''212600000000'', im_Type = ''text'',
     im_Text = ''a human please'', im_ButtonID = [], im_FlowData = [], im_HasMedia = False, im_BotLastMessageAt = None\<rparr>"

text \<open>Settings that are closed all week: an entry list without any day.\<close>

definition closed_settings :: chatbot_settings where
  "closed_settings = sample_settings\<lparr>bh_Enabled := True, bh_Hours := [NilV], bh_OutOfHoursMessage := ''we are closed''\<rparr>"

lemma closed_run:
  "map_option trace (processInbound (sample_inbound closed_settings) sample_msg (inbound [])) =
     Some (trace (inbound []) @ [ReadClock, Outgoing (OutText ''we are closed'')])"
  by code_simp

theorem chatbot_speaks_only_when_allowed_witness:
  "\<exists>settings. in_settings (sample_inbound closed_settings) (trace (inbound [])) = Inr settings \<and>
     OutText ''we are closed'' = OutText (bh_OutOfHoursMessage settings)"
proof -
  obtain st' where r: "processInbound (sample_inbound closed_settings) sample_msg (inbound []) = Some st'"
    "trace st' = trace (inbound []) @ [ReadClock, Outgoing (OutText ''we are closed'')]"
    using closed_run by auto
  from chatbot_speaks_only_when_allowed [OF r, of "OutText ''we are closed''"] show ?thesis
    by (auto simp: sample_inbound_def closed_settings_def)
qed

lemma keyword_sample:
  "case getOrCreateSession (sample_inbound sample_settings) sample_msg 30 (inbound []) of
     (isNew, st2) \<Rightarrow>
       matchKeywordRules (sample_inbound sample_settings) ''a human please''
         (trace st2 @ [LogIncoming ''a human please'' ''keyword_check'']) =
       Some \<lparr>kr_Body = ''one moment'', kr_Buttons = [], kr_ResponseType = ''transfer''\<rparr>"
  by code_simp

theorem transfer_keyword_wins_witness:
  "\<exists>st'. processInbound (sample_inbound sample_settings) sample_msg (inbound []) = Some st' \<and> last (trace st') = TransferFromKeyword"
proof -
  obtain isNew st2 where g: "getOrCreateSession (sample_inbound sample_settings) sample_msg 30 (inbound []) = (isNew, st2)"
    by fastforce
  have body_text: "im_Text sample_msg = ''a human please''" and mins: "SessionTimeoutMins sample_settings = 30"
    by (simp_all add: sample_msg_def sample_settings_def)
  have k: "matchKeywordRules (sample_inbound sample_settings) (im_Text sample_msg)
         (trace st2 @ [LogIncoming (im_Text sample_msg) ''keyword_check'']) =
       Some \<lparr>kr_Body = ''one moment'', kr_Buttons = [], kr_ResponseType = ''transfer''\<rparr>"
    using keyword_sample g by (simp add: body_text)
  have "\<exists>st'. processInbound (sample_inbound sample_settings) sample_msg (inbound []) = Some st' \<and> ctx_session st' = ctx_session st2 \<and>
      trace st' = trace st2 @ [LogIncoming (im_Text sample_msg) ''keyword_check''] @
        (if kr_Body \<lparr>kr_Body = ''one moment'', kr_Buttons = [], kr_ResponseType = ''transfer''\<rparr> \<noteq> []
         then [Outgoing (OutText (kr_Body \<lparr>kr_Body = ''one moment'', kr_Buttons = [], kr_ResponseType = ''transfer''\<rparr>))] else []) @
        [TransferFromKeyword]"
    by (rule transfer_keyword_wins [OF _ _ _ _ _ _ k, where settings = sample_settings])
      (simp_all add: g mins body_text, simp_all add: sample_inbound_def sample_settings_def)
  then show ?thesis by auto
qed

end
