(* ===== verification/SLA.thy ===== *)
theory SLA
  imports Transfers
begin

text \<open>
  \<open>handlers/sla_processor.go\<close>: what one tick of the SLA processor does for the settings of an
  organisation. Each loop reads the rows of its query once and then updates by primary key, so its
  body takes the row of the query and the current tables. Messages sent by the processor carry no
  sender, so they never count as an agent's answer and are only recorded in the outbox.
\<close>

section \<open>Activity of agent and customer\<close>

text \<open>
  Errors of these queries are dropped: a failed count is no answer, a failed look at the customer's
  messages leaves the time of the transfer.
\<close>

definition agentRespondedSince :: "agent_io \<Rightarrow> agent_db \<Rightarrow> agent_transfer \<Rightarrow> int \<Rightarrow> bool" where
  "agentRespondedSince io db t since \<longleftrightarrow>
     (case t_AgentID t of
        None \<Rightarrow> False
      | Some i \<Rightarrow> \<not> io_err io (''count_replies:'' @ t_ID t) \<and> list_ex (\<lambda>m. msg_Contact m = t_Contact t \<and> msg_SentByUser m = Some i \<and>
                                msg_Direction m = ''outgoing'' \<and> since < msg_CreatedAt m) (messages db))"

definition customerLastSpokeAt :: "agent_io \<Rightarrow> agent_db \<Rightarrow> agent_transfer \<Rightarrow> int" where
  "customerLastSpokeAt io db t =
     (if io_err io (''last_spoke:'' @ t_ID t) then t_TransferredAt t
      else fold max (map msg_CreatedAt (filter (\<lambda>m. msg_Contact m = t_Contact t \<and> msg_Direction m = ''incoming'') (messages db)))
             (t_TransferredAt t))"

section \<open>Messages and notifications\<close>

definition sendSLATextToCustomer :: "agent_io \<Rightarrow> agent_transfer \<Rightarrow> string \<Rightarrow> agent_db \<Rightarrow> agent_db" where
  "sendSLATextToCustomer io t message db =
     (if \<not> io_account io (t_Org t) (t_WhatsAppAccount t) then db
      else
        (case contact_by_id db (t_Contact t) of
           None \<Rightarrow> db
         | Some c \<Rightarrow> send_out (CustomerText (c_ID c) message) db))"

definition notifyEscalation :: "agent_transfer \<Rightarrow> chatbot_settings \<Rightarrow> int \<Rightarrow> agent_db \<Rightarrow> agent_db" where
  "notifyEscalation t settings level db =
     (if sla_EscalationNotifyIDs settings = [] then db
      else
        (case contact_by_id db (t_Contact t) of
           None \<Rightarrow> db
         | Some c \<Rightarrow> send_out (NotifyEscalation (t_ID t) level (if level \<ge> 2 then ''critical'' else ''warning'')) db))"

definition upd_sla :: "string \<Rightarrow> (SLATracking \<Rightarrow> SLATracking) \<Rightarrow> agent_db \<Rightarrow> agent_db" where
  "upd_sla i f = upd_transfers (update_by t_ID i (\<lambda>r. r\<lparr>t_SLA := f (t_SLA r)\<rparr>))"

text \<open>\<open>UpdateSLAOnFirstResponse\<close> on the row of the query, then the column is written.\<close>

definition record_first_response :: "agent_io \<Rightarrow> agent_transfer \<Rightarrow> agent_db \<Rightarrow> agent_db" where
  "record_first_response io t db =
     (if io_err io (''first_response:'' @ t_ID t) then db
      else upd_sla (t_ID t)
             (\<lambda>s. s\<lparr>FirstResponseAt := FirstResponseAt (t_SLA (UpdateSLAOnFirstResponse (io_now io 5) t))\<rparr>) db)"

section \<open>Closing expired transfers\<close>

definition auto_close_note :: string where
  "auto_close_note = CHR 0x0A # ''[Auto-closed: No agent response within SLA]''"

definition expire_row :: "int \<Rightarrow> agent_transfer \<Rightarrow> agent_transfer \<Rightarrow> agent_transfer" where
  "expire_row now t r =
     r\<lparr>t_Status := TransferStatusExpired, t_ResumedAt := Some now, t_Notes := t_Notes t @ auto_close_note\<rparr>"

definition auto_close_one ::
    "agent_io \<Rightarrow> chatbot_settings \<Rightarrow> int \<Rightarrow> agent_transfer \<Rightarrow> agent_db \<Rightarrow> agent_db" where
  "auto_close_one io settings now t db =
     (let window = hours_ns (sla_AutoCloseHours settings) in
      if (case ExpiresAt (t_SLA t) of None \<Rightarrow> False | Some d \<Rightarrow> agentRespondedSince io db t (d - window)) then
        record_first_response io t
          (if io_err io (''extend:'' @ t_ID t) then db else upd_sla (t_ID t) (\<lambda>s. s\<lparr>ExpiresAt := Some (now + window)\<rparr>) db)
      else
        (let db1 = (if sla_AutoCloseMessage settings \<noteq> [] then sendSLATextToCustomer io t (sla_AutoCloseMessage settings) db
                    else db)
         in if io_err io (''expire:'' @ t_ID t) then db1
            else send_out (BroadcastExpired (t_ID t)) (upd_transfers (update_by t_ID (t_ID t) (expire_row now t)) db1)))"

definition expired :: "string \<Rightarrow> int \<Rightarrow> agent_transfer \<Rightarrow> bool" where
  "expired orgID now t \<longleftrightarrow> t_Org t = orgID \<and> active t \<and> past now (ExpiresAt (t_SLA t))"

definition autoCloseExpiredTransfers :: "agent_io \<Rightarrow> string \<Rightarrow> chatbot_settings \<Rightarrow> int \<Rightarrow> agent_db \<Rightarrow> agent_db" where
  "autoCloseExpiredTransfers io orgID settings now db =
     (if io_err io ''find_expired'' then db
      else fold (auto_close_one io settings now) (filter (expired orgID now) (transfers db)) db)"

section \<open>Escalation\<close>

definition escalate_sla :: "int \<Rightarrow> agent_transfer \<Rightarrow> SLATracking \<Rightarrow> SLATracking" where
  "escalate_sla now t s =
     (let s1 = s\<lparr>EscalationLevel := EscalationLevel (t_SLA t) + 1, EscalatedAt := Some now\<rparr> in
      if \<not> Breached (t_SLA t) \<and> past now (ResponseDeadline (t_SLA t))
      then s1\<lparr>Breached := True, BreachedAt := Some now\<rparr> else s1)"

definition escalate_one ::
    "agent_io \<Rightarrow> chatbot_settings \<Rightarrow> int \<Rightarrow> agent_transfer \<Rightarrow> agent_db \<Rightarrow> agent_db" where
  "escalate_one io settings now t db =
     (if agentRespondedSince io db t (customerLastSpokeAt io db t) then
        record_first_response io t
          (if io_err io (''extend:'' @ t_ID t) then db
           else upd_sla (t_ID t) (\<lambda>s. s\<lparr>EscalationAt := Some (now + minutes_ns (sla_EscalationMinutes settings))\<rparr>) db)
      else if io_err io (''escalate:'' @ t_ID t) then db
      else
        (let newLevel = EscalationLevel (t_SLA t) + 1;
             db1 = upd_sla (t_ID t) (escalate_sla now t) db;
             db2 = send_out (BroadcastEscalated (t_ID t)) (notifyEscalation t settings newLevel db1)
         in if newLevel = 1 \<and> sla_WarningMessage settings \<noteq> []
            then sendSLATextToCustomer io t (sla_WarningMessage settings) db2 else db2))"

definition escalation_due :: "string \<Rightarrow> int \<Rightarrow> agent_transfer \<Rightarrow> bool" where
  "escalation_due orgID now t \<longleftrightarrow>
     t_Org t = orgID \<and> active t \<and> past now (EscalationAt (t_SLA t)) \<and> EscalationLevel (t_SLA t) < 2"

definition escalateTransfers :: "agent_io \<Rightarrow> string \<Rightarrow> chatbot_settings \<Rightarrow> int \<Rightarrow> agent_db \<Rightarrow> agent_db" where
  "escalateTransfers io orgID settings now db =
     (if io_err io ''find_escalations'' then db
      else fold (escalate_one io settings now) (filter (escalation_due orgID now) (transfers db)) db)"

section \<open>Breaches\<close>

definition breach_due :: "string \<Rightarrow> int \<Rightarrow> agent_transfer \<Rightarrow> bool" where
  "breach_due orgID now t \<longleftrightarrow>
     t_Org t = orgID \<and> active t \<and> \<not> Breached (t_SLA t) \<and> past now (ResponseDeadline (t_SLA t)) \<and> t_AgentID t = None"

definition markSLABreached :: "agent_io \<Rightarrow> string \<Rightarrow> int \<Rightarrow> agent_db \<Rightarrow> agent_db" where
  "markSLABreached io orgID now db =
     (if io_err io ''mark_breached'' then db
      else upd_transfers
             (map (\<lambda>t. if breach_due orgID now t
                       then t\<lparr>t_SLA := (t_SLA t)\<lparr>Breached := True, BreachedAt := Some now\<rparr>\<rparr> else t)) db)"

section \<open>Inactive customers of the chatbot\<close>

definition UpdateContactChatbotMessage :: "int \<Rightarrow> string \<Rightarrow> agent_db \<Rightarrow> agent_db" where
  "UpdateContactChatbotMessage now contactID =
     upd_contact contactID (\<lambda>c. c\<lparr>c_ChatbotLastMessageAt := Some now, c_ChatbotReminderSent := False\<rparr>)"

definition sendChatbotReminder :: "agent_io \<Rightarrow> chatbot_settings \<Rightarrow> contact_row \<Rightarrow> agent_db \<Rightarrow> agent_db" where
  "sendChatbotReminder io settings c db =
     (if ci_ReminderMessage settings = [] then db
      else if \<not> io_account io (c_Org c) (c_WhatsAppAccount c) then db
      else if io_err io (''create_message:'' @ c_ID c) then db
      else
        (let db1 = send_out (CustomerText (c_ID c) (ci_ReminderMessage settings)) db in
         if io_err io (''reminder:'' @ c_ID c) then db1
         else upd_contact (c_ID c) (\<lambda>c. c\<lparr>c_ChatbotReminderSent := True\<rparr>) db1))"

definition autoCloseChatbotSession :: "agent_io \<Rightarrow> chatbot_settings \<Rightarrow> contact_row \<Rightarrow> agent_db \<Rightarrow> agent_db" where
  "autoCloseChatbotSession io settings c db =
     (let db1 = (if ci_AutoCloseMessage settings \<noteq> [] \<and> io_account io (c_Org c) (c_WhatsAppAccount c) \<and>
                    \<not> io_err io (''create_message:'' @ c_ID c)
                 then send_out (CustomerText (c_ID c) (ci_AutoCloseMessage settings)) db else db)
      in if io_err io (''close_chat:'' @ c_ID c) then db1 else ClearContactChatbotTracking (c_ID c) db1)"

definition inactivity_one ::
    "agent_io \<Rightarrow> string \<Rightarrow> chatbot_settings \<Rightarrow> int \<Rightarrow> contact_row \<Rightarrow> agent_db \<Rightarrow> agent_db" where
  "inactivity_one io orgID settings now c db =
     (case c_ChatbotLastMessageAt c of
        None \<Rightarrow> db
      | Some lastMsg \<Rightarrow>
          if hasActiveAgentTransfer io db orgID (c_ID c) then db
          else if ci_AutoCloseMinutes settings > 0 \<and> now - lastMsg \<ge> minutes_ns (ci_AutoCloseMinutes settings) then
            autoCloseChatbotSession io settings c db
          else if ci_ReminderMinutes settings > 0 \<and> \<not> c_ChatbotReminderSent c \<and>
                  now - lastMsg \<ge> minutes_ns (ci_ReminderMinutes settings) then
            sendChatbotReminder io settings c db
          else db)"

definition processClientInactivity :: "agent_io \<Rightarrow> string \<Rightarrow> chatbot_settings \<Rightarrow> int \<Rightarrow> agent_db \<Rightarrow> agent_db" where
  "processClientInactivity io orgID settings now db =
     (if io_err io ''find_inactive'' then db
      else fold (inactivity_one io orgID settings now)
             (filter (\<lambda>c. c_Org c = orgID \<and> c_ChatbotLastMessageAt c \<noteq> None) (contacts db)) db)"

section \<open>Lost customers and deferred fallbacks\<close>

definition lostTag :: string where
  "lostTag = [CHR 0xD8, CHR 0xB6, CHR 0xD8, CHR 0xA7, CHR 0xD8, CHR 0xA6, CHR 0xD8, CHR 0xB9] @ '' - Perdu''"

definition convertedTag :: string where
  "convertedTag = [CHR 0xD8, CHR 0xAA, CHR 0xD9, CHR 0x85, CHR 0x20, CHR 0xD8, CHR 0xA7, CHR 0xD9, CHR 0x84,
     CHR 0xD8, CHR 0xA8, CHR 0xD9, CHR 0x8A, CHR 0xD8, CHR 0xB9] @ '' - Converti''"

definition lost :: "string \<Rightarrow> int \<Rightarrow> contact_row \<Rightarrow> bool" where
  "lost orgID now c \<longleftrightarrow>
     c_Org c = orgID \<and> past (now - hours_ns (5 * 24)) (c_LastInboundAt c) \<and>
     lostTag \<notin> set (c_Tags c) \<and> convertedTag \<notin> set (c_Tags c)"

definition tagLostContacts :: "agent_io \<Rightarrow> string \<Rightarrow> int \<Rightarrow> agent_db \<Rightarrow> agent_db" where
  "tagLostContacts io orgID now db =
     (if io_err io ''find_lost'' then db
      else fold (\<lambda>c d. if io_err io (''tag:'' @ c_ID c) then d
                       else upd_contact (c_ID c) (\<lambda>r. r\<lparr>c_Tags := c_Tags c @ [lostTag]\<rparr>) d)
             (take 500 (filter (lost orgID now) (contacts db))) db)"

definition fallback_due :: "string \<Rightarrow> int \<Rightarrow> contact_row \<Rightarrow> bool" where
  "fallback_due orgID now c \<longleftrightarrow>
     c_Org c = orgID \<and>
     (case (c_FallbackPendingAt c, c_LastInboundAt c) of
        (Some queued, Some inbound) \<Rightarrow>
          inbound \<le> now - 90 * sec_ns \<and>
          (case c_ChatbotLastMessageAt c of None \<Rightarrow> True | Some b \<Rightarrow> b < queued)
      | _ \<Rightarrow> False)"

definition clear_fallback :: "string \<Rightarrow> agent_db \<Rightarrow> agent_db" where
  "clear_fallback i = upd_contact i (\<lambda>c. c\<lparr>c_FallbackPendingAt := None\<rparr>)"

definition fallback_one :: "agent_io \<Rightarrow> string \<Rightarrow> chatbot_settings \<Rightarrow> contact_row \<Rightarrow> agent_db \<Rightarrow> agent_db" where
  "fallback_one io orgID settings c db =
     (let acctName = (if c_FallbackAccount c = [] then c_WhatsAppAccount c else c_FallbackAccount c) in
      if hasActiveAgentTransfer io db orgID (c_ID c) then clear_fallback (c_ID c) db
      else if \<not> io_account io orgID acctName then db
      else if io_err io (''create_message:'' @ c_ID c) then db
      else clear_fallback (c_ID c)
             (UpdateContactChatbotMessage (io_now io 6) (c_ID c)
               (send_out (CustomerText (c_ID c) (FallbackMessage settings)) db)))"

definition sendDeferredFallbacks :: "agent_io \<Rightarrow> string \<Rightarrow> chatbot_settings \<Rightarrow> int \<Rightarrow> agent_db \<Rightarrow> agent_db" where
  "sendDeferredFallbacks io orgID settings now db =
     (if FallbackMessage settings = [] then db
      else if io_err io ''find_fallbacks'' then db
      else fold (fallback_one io orgID settings) (take 200 (filter (fallback_due orgID now) (contacts db))) db)"

section \<open>One tick\<close>

definition processOrganizationSLA :: "agent_io \<Rightarrow> int \<Rightarrow> chatbot_settings \<Rightarrow> agent_db \<Rightarrow> agent_db" where
  "processOrganizationSLA io now settings db =
     (let orgID = set_Org settings;
          db1 = (if sla_AutoCloseHours settings > 0 then autoCloseExpiredTransfers io orgID settings now db else db);
          db2 = (if sla_EscalationMinutes settings > 0 then escalateTransfers io orgID settings now db1 else db1);
          db3 = (if sla_ResponseMinutes settings > 0 then markSLABreached io orgID now db2 else db2);
          db4 = (if ci_ReminderEnabled settings then processClientInactivity io orgID settings now db3 else db3);
          db5 = tagLostContacts io orgID now db4
      in sendDeferredFallbacks io orgID settings now db5)"

text \<open>The rows with \<open>sla_enabled\<close>, one after the other; \<open>Inl\<close> when they could not be loaded.\<close>

definition processStaleTransfers :: "agent_io \<Rightarrow> string + chatbot_settings list \<Rightarrow> agent_db \<Rightarrow> agent_db" where
  "processStaleTransfers io rows db =
     (case rows of Inl err \<Rightarrow> db | Inr ss \<Rightarrow> fold (processOrganizationSLA io (io_now io 1)) ss db)"

end
