(* ===== verification/Transfer_Facts.thy ===== *)
theory Transfer_Facts
  imports SLA
begin

text \<open>
  The life of a transfer. \<open>transfer_step\<close> is one complete handler call or processor tick; the
  invariant \<open>transfers_ok\<close> holds in every reachable state of the tables. The loops of the processor
  are shown to be one pass over the table (interface \<open>row_loop\<close>).
\<close>

section \<open>The invariant\<close>

definition row_ok :: "agent_transfer \<Rightarrow> bool" where
  "row_ok t \<longleftrightarrow>
     t_Status t \<in> {TransferStatusActive, TransferStatusResumed, TransferStatusExpired} \<and>
     (t_ResumedAt t = None \<longleftrightarrow> active t) \<and>
     (t_ResumedBy t \<noteq> None \<longleftrightarrow> t_Status t = TransferStatusResumed) \<and>
     (t_AgentID t \<noteq> None \<and> PickedUpAt (t_SLA t) = None \<longrightarrow> t_Source t = ''manual'' \<and> t_TransferredBy t = None) \<and>
     0 \<le> EscalationLevel (t_SLA t) \<and> EscalationLevel (t_SLA t) \<le> 2 \<and>
     (Breached (t_SLA t) \<longleftrightarrow> BreachedAt (t_SLA t) \<noteq> None)"

definition who :: "agent_transfer \<Rightarrow> string \<times> string" where
  "who t = (t_Org t, t_Contact t)"

definition rows_ok :: "agent_db \<Rightarrow> bool" where
  "rows_ok db \<longleftrightarrow> distinct (map t_ID (transfers db)) \<and> list_all row_ok (transfers db)"

definition one_active :: "agent_db \<Rightarrow> bool" where
  "one_active db \<longleftrightarrow> distinct (map who (filter active (transfers db)))"

definition transfers_ok :: "agent_db \<Rightarrow> bool" where
  "transfers_ok db \<longleftrightarrow> rows_ok db \<and> one_active db"

text \<open>
  A step keeps every row, under its identifier and for its contact, and never touches a closed one
  again. That a contact has one active transfer is kept when no count of active transfers failed,
  which is what \<open>counted\<close> says.
\<close>

definition same_transfer :: "agent_transfer \<Rightarrow> agent_transfer \<Rightarrow> bool" where
  "same_transfer r r' \<longleftrightarrow> t_ID r' = t_ID r \<and> who r' = who r \<and> (\<not> active r \<longrightarrow> r' = r)"

definition evolves :: "bool \<Rightarrow> agent_db \<Rightarrow> agent_db \<Rightarrow> bool" where
  "evolves counted db db' \<longleftrightarrow>
     (rows_ok db \<longrightarrow> rows_ok db' \<and> (\<forall>r \<in> set (transfers db). \<exists>r' \<in> set (transfers db'). same_transfer r r') \<and>
       (counted \<and> one_active db \<longrightarrow> one_active db'))"

text \<open>No count of active transfers fails.\<close>

definition counts :: "agent_io \<Rightarrow> bool" where
  "counts io \<longleftrightarrow> (\<forall>c. \<not> count_fails io c)"

definition good_change :: "agent_transfer \<Rightarrow> agent_transfer \<Rightarrow> bool" where
  "good_change r r' \<longleftrightarrow> same_transfer r r' \<and> row_ok r'"

lemma same_transfer_refl [simp]: "same_transfer r r"
  by (simp add: same_transfer_def)

lemma same_transfer_trans: "same_transfer r r' \<Longrightarrow> same_transfer r' r'' \<Longrightarrow> same_transfer r r''"
  by (auto simp: same_transfer_def)

lemma evolves_trans:
  assumes "evolves k a b" "evolves k b c"
  shows "evolves k a c"
  unfolding evolves_def
proof (intro impI)
  assume a: "rows_ok a"
  then have b: "rows_ok b" "\<forall>r \<in> set (transfers a). \<exists>r' \<in> set (transfers b). same_transfer r r'"
    "k \<and> one_active a \<longrightarrow> one_active b"
    using assms(1) by (auto simp: evolves_def)
  then have c: "rows_ok c" "\<forall>r \<in> set (transfers b). \<exists>r' \<in> set (transfers c). same_transfer r r'"
    "k \<and> one_active b \<longrightarrow> one_active c"
    using assms(2) by (auto simp: evolves_def)
  show "rows_ok c \<and> (\<forall>r \<in> set (transfers a). \<exists>r' \<in> set (transfers c). same_transfer r r') \<and>
      (k \<and> one_active a \<longrightarrow> one_active c)"
    using b c by (meson same_transfer_trans)
qed

lemma evolves_same: "transfers db' = transfers db \<Longrightarrow> evolves k db db'"
  by (auto simp: evolves_def rows_ok_def one_active_def intro!: bexI)

lemma distinct_active_map:
  assumes "distinct (map who (filter active ts))"
    and "\<And>r. r \<in> set ts \<Longrightarrow> who (f r) = who r \<and> (active (f r) \<longrightarrow> active r)"
  shows "distinct (map who (filter active (map f ts)))"
  using assms
proof (induction ts)
  case (Cons r ts)
  have "who (f r) \<notin> who ` {x \<in> f ` set ts. active x}" if "active (f r)"
    using Cons.prems that by force
  then show ?case
    using Cons by (auto split: if_splits)
qed simp

lemma evolves_map:
  assumes "transfers db' = map f (transfers db)"
    and "\<And>r. rows_ok db \<Longrightarrow> r \<in> set (transfers db) \<Longrightarrow> good_change r (f r)"
  shows "evolves k db db'"
  unfolding evolves_def
proof (intro impI conjI ballI)
  assume ok: "rows_ok db"
  note change = assms(2) [OF ok]
  have "map t_ID (transfers db') = map t_ID (transfers db)"
    using change by (auto simp: assms(1) good_change_def same_transfer_def)
  moreover have "list_all row_ok (transfers db')"
    using change by (auto simp: assms(1) good_change_def list_all_iff)
  ultimately show "rows_ok db'"
    using ok by (simp add: rows_ok_def)
  show "\<exists>r' \<in> set (transfers db'). same_transfer r r'" if "r \<in> set (transfers db)" for r
    using change [OF that] that by (auto simp: assms(1) good_change_def)
  show "one_active db'" if "k \<and> one_active db"
    unfolding one_active_def assms(1)
  proof (rule distinct_active_map)
    show "distinct (map who (filter active (transfers db)))"
      using that by (simp add: one_active_def)
    show "who (f r) = who r \<and> (active (f r) \<longrightarrow> active r)" if "r \<in> set (transfers db)" for r
      using change [OF that] by (metis good_change_def same_transfer_def)
  qed
qed

lemma evolves_update:
  assumes "t \<in> set (transfers db)" "rows_ok db \<Longrightarrow> good_change t t'"
    and "transfers db' = update_by t_ID (t_ID t') (\<lambda>_. t') (transfers db)"
  shows "evolves k db db'"
proof (rule evolves_map)
  show "transfers db' = map (\<lambda>r. if t_ID r = t_ID t' then t' else r) (transfers db)"
    by (simp add: assms(3) update_by_def)
  fix r assume ok: "rows_ok db" and r: "r \<in> set (transfers db)"
  have "r = t" if "t_ID r = t_ID t'"
    using ok r assms(1) that assms(2) [OF ok]
    by (auto simp: rows_ok_def good_change_def same_transfer_def dest: distinct_key_inj)
  with ok r assms(2) [OF ok] show "good_change r (if t_ID r = t_ID t' then t' else r)"
    by (auto simp: good_change_def rows_ok_def list_all_iff)
qed

lemma hasActive_iff:
  "\<not> count_fails io contactID \<Longrightarrow>
     hasActiveAgentTransfer io db orgID contactID \<longleftrightarrow>
       (\<exists>t \<in> set (transfers db). who t = (orgID, contactID) \<and> active t)"
  by (simp add: hasActiveAgentTransfer_def active_for_def list_ex_iff who_def conj_assoc)

lemma evolves_append:
  assumes "transfers db' = transfers db @ [t]" "row_ok t" "active t"
    and "t_ID t \<notin> t_ID ` set (transfers db)"
    and "\<not> hasActiveAgentTransfer io db (t_Org t) (t_Contact t)" "k \<longrightarrow> \<not> count_fails io (t_Contact t)"
  shows "evolves k db db'"
  using assms(1-4) hasActive_iff [of io "t_Contact t" db "t_Org t"] assms(5,6)
  by (auto simp: evolves_def rows_ok_def one_active_def who_def intro!: bexI)

section \<open>Handlers\<close>

lemmas sla_ops = SetSLADeadlines_def UpdateSLAOnPickup_def UpdateSLAOnFirstResponse_def deadline_if_def Let_def

lemma assign_contact_tables [simp]:
  "transfers (assign_contact io i a db) = transfers db"
  "messages (assign_contact io i a db) = messages db"
  by (simp_all add: assign_contact_def)

lemma other_tables [simp]:
  "transfers (ClearContactChatbotTracking i db) = transfers db"
  "messages (ClearContactChatbotTracking i db) = messages db"
  "transfers (cancel_sessions now orgID i db) = transfers db"
  "transfers (tell_closed c settings db) = transfers db"
  "transfers (settle_contact io orgID t p target db) = transfers db"
  by (simp_all add: ClearContactChatbotTracking_def cancel_sessions_def tell_closed_def settle_contact_def
      split: option.splits)

lemma SetSLADeadlines_keeps [simp]:
  "t_AgentID (SetSLADeadlines now s t) = t_AgentID t" "t_ID (SetSLADeadlines now s t) = t_ID t"
  "active (SetSLADeadlines now s t) = active t" "who (SetSLADeadlines now s t) = who t"
  by (simp_all add: sla_ops active_def who_def)

lemma UpdateSLAOnPickup_keeps [simp]:
  "t_AgentID (UpdateSLAOnPickup now t) = t_AgentID t" "t_ID (UpdateSLAOnPickup now t) = t_ID t"
  "active (UpdateSLAOnPickup now t) = active t" "who (UpdateSLAOnPickup now t) = who t"
  by (simp_all add: sla_ops active_def who_def)

text \<open>The row that \<open>saveAndFinalizeTransfer\<close> stores.\<close>

definition stored_row :: "agent_io \<Rightarrow> agent_transfer \<Rightarrow> chatbot_settings option \<Rightarrow> agent_transfer" where
  "stored_row io t0 settings =
     (let t1 = (case settings of None \<Rightarrow> t0 | Some s \<Rightarrow> SetSLADeadlines (io_now io 2) s t0)
      in if t_AgentID t1 \<noteq> None then UpdateSLAOnPickup (io_now io 3) t1 else t1)"

lemma saveAndFinalize_transfers:
  "saveAndFinalizeTransfer io t0 orgID contact settings e db = (ok, db') \<Longrightarrow>
     transfers db' = transfers db @ (if ok then [stored_row io t0 settings] else [])"
  by (auto simp: saveAndFinalizeTransfer_def stored_row_def Let_def split: if_splits)

lemma stored_new_row:
  fixes io orgID acct c src a tm b n
  defines "t0 \<equiv> new_transfer io orgID acct c src a tm b n"
  shows "row_ok (stored_row io t0 settings)" "active (stored_row io t0 settings)"
    "t_ID (stored_row io t0 settings) = io_new io" "who (stored_row io t0 settings) = (orgID, c_ID c)"
    "t_AgentID (stored_row io t0 settings) = a"
  by (auto simp: t0_def stored_row_def new_transfer_def row_ok_def no_sla_def sla_ops active_def who_def
      split: option.splits)

lemma evolves_create:
  assumes "\<not> hasActiveAgentTransfer io db orgID (c_ID c)" "io_new io \<notin> t_ID ` set (transfers db)"
    and "k \<longrightarrow> counts io" "transfers db1 = transfers db"
    and "saveAndFinalizeTransfer io (new_transfer io orgID acct c src a tm b n) orgID c settings e db1 = (ok, db')"
  shows "evolves k db db'"
proof (cases ok)
  case True
  let ?t = "stored_row io (new_transfer io orgID acct c src a tm b n) settings"
  have "t_Org ?t = orgID" "t_Contact ?t = c_ID c"
    using stored_new_row(4) [of io orgID acct c src a tm b n settings] by (simp_all add: who_def)
  with True show ?thesis
    using saveAndFinalize_transfers [OF assms(5)] assms(1-4)
    by (intro evolves_append [of _ _ ?t io]) (simp_all add: stored_new_row counts_def)
next
  case False
  with saveAndFinalize_transfers [OF assms(5)] assms(4) show ?thesis
    by (simp add: evolves_same)
qed

lemma evolves_create_snd:
  assumes "\<not> hasActiveAgentTransfer io db orgID (c_ID c)" "io_new io \<notin> t_ID ` set (transfers db)"
    and "k \<longrightarrow> counts io" "transfers db1 = transfers db"
  shows "evolves k db (snd (saveAndFinalizeTransfer io (new_transfer io orgID acct c src a tm b n) orgID c settings e db1))"
  by (rule evolves_create [OF assms prod.collapse [symmetric]])

lemma createTransferToQueue_evolves:
  "io_new io \<notin> t_ID ` set (transfers db) \<Longrightarrow> k \<longrightarrow> counts io \<Longrightarrow>
     evolves k db (createTransferToQueue io orgID acct c src db)"
  by (simp add: createTransferToQueue_def Let_def evolves_same evolves_create_snd)

lemma createTransferFromKeyword_evolves:
  "io_new io \<notin> t_ID ` set (transfers db) \<Longrightarrow> k \<longrightarrow> counts io \<Longrightarrow>
     evolves k db (createTransferFromKeyword io orgID acct c db)"
  by (simp add: createTransferFromKeyword_def Let_def evolves_same evolves_create_snd)

lemma createTransferToTeam_evolves:
  "io_new io \<notin> t_ID ` set (transfers db) \<Longrightarrow> k \<longrightarrow> counts io \<Longrightarrow>
     evolves k db (createTransferToTeam io orgID acct c teamID notes src db)"
  using team_choice.choice_keeps_transfers [of io teamID orgID "[]" ChatLoadCounter db]
  by (auto simp: createTransferToTeam_def Let_def evolves_same intro!: evolves_create_snd split: prod.splits)


lemma request_agent_transfers:
  "request_agent io orgID req team contact settings db = (r, db1) \<Longrightarrow> transfers db1 = transfers db"
  using team_choice.choice_keeps_transfers [of io "the team" orgID "[]" ChatLoadCounter db]
  by (auto simp: request_agent_def Let_def split: list.splits option.splits bool.splits prod.splits)

lemma create_for_evolves:
  assumes "io_new io \<notin> t_ID ` set (transfers db)" "k \<longrightarrow> counts io"
    and "\<not> hasActiveAgentTransfer io db orgID (c_ID contact)"
  shows "evolves k db (snd (create_for io orgID userID req contact db))"
proof (cases "request_team io orgID req db")
  case (Inr team)
  let ?s = "io_settings io orgID (cr_WhatsAppAccount req)"
  obtain r db1 where ra: "request_agent io orgID req team contact ?s db = (r, db1)" by fastforce
  note same = request_agent_transfers [OF ra]
  show ?thesis
  proof (cases r)
    case (Inr agent)
    obtain ok db2 where sf: "saveAndFinalizeTransfer io (new_transfer io orgID (cr_WhatsAppAccount req) contact
        (if cr_Source req = [] then ''manual'' else cr_Source req) agent team (Some userID) (cr_Notes req))
        orgID contact ?s True db1 = (ok, db2)" by fastforce
    have "evolves k db db2"
      by (rule evolves_create [OF assms(3,1,2) same sf])
    moreover have "transfers (snd (create_for io orgID userID req contact db)) = transfers db2"
      using sf by (cases ok) (simp_all add: create_for_def \<open>request_team _ _ _ _ = _\<close> ra Inr Let_def)
    ultimately show ?thesis
      using evolves_trans evolves_same by blast
  qed (auto simp: create_for_def \<open>request_team _ _ _ _ = _\<close> ra Let_def same evolves_same split: prod.splits)
qed (auto simp: create_for_def evolves_same split: prod.splits)

lemma CreateAgentTransfer_evolves:
  assumes "io_new io \<notin> t_ID ` set (transfers db)" "k \<longrightarrow> counts io"
  shows "evolves k db (snd (CreateAgentTransfer io auth request db))"
  using create_for_evolves [OF assms]
  by (auto simp: CreateAgentTransfer_def evolves_same find_Some_iff split: option.splits if_splits)

lemma ensureAgentTakeoverTransfer_evolves:
  assumes "io_new io \<notin> t_ID ` set (transfers db)" "k \<longrightarrow> counts io"
  shows "evolves k db (ensureAgentTakeoverTransfer io orgID contact acct agentID db)"
proof (cases "hasActiveAgentTransfer io db orgID (c_ID contact) \<or> io_err io ''create_transfer''")
  case False
  let ?t = "new_transfer io orgID acct contact ''manual'' (Some agentID) None None []"
  have "t_Org ?t = orgID" "t_Contact ?t = c_ID contact" "t_ID ?t = io_new io" "row_ok ?t" "active ?t"
    by (simp_all add: new_transfer_def row_ok_def no_sla_def active_def)
  with False assms show ?thesis
    by (intro evolves_append [of _ _ ?t io]) (simp_all add: ensureAgentTakeoverTransfer_def counts_def)
qed (auto simp: ensureAgentTakeoverTransfer_def evolves_same)

lemma find_transfer_in: "find_transfer io i orgID db = Some t \<Longrightarrow> t \<in> set (transfers db) \<and> t_ID t = i \<and> t_Org t = orgID"
  by (auto simp: find_transfer_def find_Some_iff split: if_splits)

lemma row_in_ok: "rows_ok db \<Longrightarrow> t \<in> set (transfers db) \<Longrightarrow> row_ok t"
  by (simp add: rows_ok_def list_all_iff)

lemma ResumeFromTransfer_evolves: "evolves k db (snd (ResumeFromTransfer io auth i db))"
proof -
  have "evolves k db db'" if "t \<in> set (transfers db)" "active t"
    "transfers db' = update_by t_ID (t_ID t) (\<lambda>_. t\<lparr>t_Status := TransferStatusResumed, t_ResumedAt := Some n, t_ResumedBy := Some u\<rparr>) (transfers db)"
    for t db' n u
    using that by (intro evolves_update [of t _ "t\<lparr>t_Status := TransferStatusResumed, t_ResumedAt := Some n, t_ResumedBy := Some u\<rparr>"])
      (auto simp: good_change_def same_transfer_def who_def row_ok_def active_def dest!: row_in_ok)
  then show ?thesis
    by (auto simp: ResumeFromTransfer_def evolves_same Let_def dest!: find_transfer_in split: option.splits if_splits)
qed

lemma pickup_good_change:
  assumes "row_ok t" "active t" "t1 = t\<lparr>t_TeamID := tm, t_AgentID := a, t_TransferredBy := b\<rparr>"
  shows "good_change t (UpdateSLAOnPickup now t1)"
    and "a = None \<or> PickedUpAt (t_SLA t) \<noteq> None \<Longrightarrow> good_change t t1"
  using assms by (auto simp: good_change_def same_transfer_def who_def row_ok_def active_def sla_ops)

lemma AssignAgentTransfer_evolves: "evolves k db (snd (AssignAgentTransfer io auth i request db))"
proof -
  have "evolves k db db'" if t: "t \<in> set (transfers db)" "active t"
    and t1: "t1 = t\<lparr>t_TeamID := tm, t_AgentID := a\<rparr>"
    and t2: "t2 = (if a \<noteq> None \<and> PickedUpAt (t_SLA t1) = None then UpdateSLAOnPickup n t1 else t1)"
    and db': "transfers db' = update_by t_ID (t_ID t2) (\<lambda>_. t2) (transfers db)" for t t1 t2 db' tm a n
  proof (rule evolves_update [OF t(1) _ db'])
    assume ok: "rows_ok db"
    have "t1 = t\<lparr>t_TeamID := tm, t_AgentID := a, t_TransferredBy := t_TransferredBy t\<rparr>"
      by (simp add: t1)
    note change = pickup_good_change [OF row_in_ok [OF ok t(1)] t(2) this]
    have "PickedUpAt (t_SLA t1) = PickedUpAt (t_SLA t)"
      by (simp add: t1)
    then show "good_change t t2"
      using change(1) [of n] change(2) by (cases "a \<noteq> None \<and> PickedUpAt (t_SLA t1) = None") (simp_all add: t2)
  qed
  note step = this
  show ?thesis
    by (auto simp: AssignAgentTransfer_def Let_def evolves_same dest!: find_transfer_in
        intro!: step [OF _ _ refl refl] split: option.splits prod.splits sum.splits)
qed

lemma queue_order_head:
  assumes "queue_order io orgID allowed db = t # rest"
  shows "t \<in> set (transfers db) \<and> t_Org t = orgID \<and> active t \<and> t_AgentID t = None \<and> allowed t \<and>
    (\<forall>r \<in> set (transfers db). t_Org r = orgID \<and> active r \<and> t_AgentID r = None \<and> \<not> io_locked io (t_ID r) \<and> allowed r \<longrightarrow>
       t_TransferredAt t \<le> t_TransferredAt r)"
  using sort_key_Cons_min [OF assms [unfolded queue_order_def]] by auto

lemma pick_transaction_rows:
  assumes "pick_transaction io userID settings t0 db = Inr (t, db')"
  shows "t = UpdateSLAOnPickup (io_now io 1) (t0\<lparr>t_TeamID := t_TeamID t0, t_AgentID := Some userID,
           t_TransferredBy := (case t_TransferredBy t0 of None \<Rightarrow> Some userID | Some b \<Rightarrow> Some b)\<rparr>) \<and>
         transfers db' = update_by t_ID (t_ID t) (\<lambda>_. t) (transfers db)"
  using assms by (auto simp: pick_transaction_def Let_def split: if_splits)

lemma PickNextTransfer_evolves: "evolves k db (snd (PickNextTransfer io auth teamIDStr db))"
proof -
  have "evolves k db db'" if q: "queue_order io orgID allowed db = t0 # rest"
    and p: "pick_transaction io userID settings t0 db = Inr (t, db1)" and same: "transfers db' = transfers db1"
    for orgID allowed t0 rest userID settings t db1 db'
  proof (rule evolves_update [of t0])
    note h = queue_order_head [OF q] and rows = pick_transaction_rows [OF p]
    show "t0 \<in> set (transfers db)"
      using h by blast
    show "good_change t0 t" if "rows_ok db"
      using pickup_good_change(1) [OF row_in_ok [OF that \<open>t0 \<in> set (transfers db)\<close>] _ refl] h rows by blast
    show "transfers db' = update_by t_ID (t_ID t) (\<lambda>_. t) (transfers db)"
      using rows same by simp
  qed
  note step = this
  show ?thesis
    by (auto simp: PickNextTransfer_def Let_def evolves_same intro: step
        split: option.splits prod.splits sum.splits list.splits if_splits)
qed

section \<open>Loops over the rows of a query\<close>

locale row_loop =
  fixes body :: "agent_transfer \<Rightarrow> agent_db \<Rightarrow> agent_db"
    and change :: "agent_db \<Rightarrow> agent_transfer \<Rightarrow> agent_transfer \<Rightarrow> agent_transfer"
  assumes writes_row: "messages db = messages db0 \<Longrightarrow>
      transfers (body t db) = update_by t_ID (t_ID t) (change db0 t) (transfers db)"
    and reads_messages: "messages (body t db) = messages db"
    and keeps_key: "t_ID (change db0 t r) = t_ID r"
begin

lemma loop_rows:
  "messages db = messages db0 \<Longrightarrow>
     transfers (fold body ts db) = fold (\<lambda>t. update_by t_ID (t_ID t) (change db0 t)) ts (transfers db)"
  by (induction ts arbitrary: db) (simp_all add: writes_row reads_messages)

lemma loop_is_one_pass:
  assumes "distinct (map t_ID (transfers db))"
  shows "transfers (fold body (filter P (transfers db)) db) =
         map (\<lambda>r. if P r then change db r r else r) (transfers db)"
  using fold_update_by [OF assms, of "change db" P] by (simp add: loop_rows keeps_key)

lemma loop_evolves:
  assumes "\<And>r. r \<in> set (transfers db) \<Longrightarrow> row_ok r \<Longrightarrow> P r \<Longrightarrow> active r \<and> good_change r (change db r r)"
  shows "evolves k db (fold body (filter P (transfers db)) db)"
proof (cases "rows_ok db")
  case True
  then have "distinct (map t_ID (transfers db))"
    by (simp add: rows_ok_def)
  from loop_is_one_pass [OF this] show ?thesis
  proof (rule evolves_map)
    fix r assume "rows_ok db" "r \<in> set (transfers db)"
    then show "good_change r (if P r then change db r r else r)"
      using assms row_in_ok by (auto simp: good_change_def)
  qed
qed (simp add: evolves_def)

end

text \<open>The three loops: what each does to its row.\<close>

definition return_row :: "agent_io \<Rightarrow> agent_transfer \<Rightarrow> agent_transfer \<Rightarrow> agent_transfer" where
  "return_row io t r = (if io_err io (''return:'' @ t_ID t) then r else (t\<lparr>t_AgentID := None, t_ID := t_ID r\<rparr>))"

definition first_response_row :: "agent_io \<Rightarrow> agent_transfer \<Rightarrow> agent_transfer \<Rightarrow> agent_transfer" where
  "first_response_row io t r =
     (if io_err io (''first_response:'' @ t_ID t) then r
      else r\<lparr>t_SLA := (t_SLA r)\<lparr>FirstResponseAt := FirstResponseAt (t_SLA (UpdateSLAOnFirstResponse (io_now io 5) t))\<rparr>\<rparr>)"

definition auto_close_row ::
    "agent_io \<Rightarrow> chatbot_settings \<Rightarrow> int \<Rightarrow> agent_db \<Rightarrow> agent_transfer \<Rightarrow> agent_transfer \<Rightarrow> agent_transfer" where
  "auto_close_row io settings now db t r =
     (let window = hours_ns (sla_AutoCloseHours settings) in
      if (case ExpiresAt (t_SLA t) of None \<Rightarrow> False | Some d \<Rightarrow> agentRespondedSince io db t (d - window)) then
        first_response_row io t
          (if io_err io (''extend:'' @ t_ID t) then r else r\<lparr>t_SLA := (t_SLA r)\<lparr>ExpiresAt := Some (now + window)\<rparr>\<rparr>)
      else if io_err io (''expire:'' @ t_ID t) then r
      else expire_row now t r)"

definition escalate_row ::
    "agent_io \<Rightarrow> chatbot_settings \<Rightarrow> int \<Rightarrow> agent_db \<Rightarrow> agent_transfer \<Rightarrow> agent_transfer \<Rightarrow> agent_transfer" where
  "escalate_row io settings now db t r =
     (if agentRespondedSince io db t (customerLastSpokeAt io db t) then
        first_response_row io t
          (if io_err io (''extend:'' @ t_ID t) then r
           else r\<lparr>t_SLA := (t_SLA r)\<lparr>EscalationAt := Some (now + minutes_ns (sla_EscalationMinutes settings))\<rparr>\<rparr>)
      else if io_err io (''escalate:'' @ t_ID t) then r
      else r\<lparr>t_SLA := escalate_sla now t (t_SLA r)\<rparr>)"

lemma update_by_cong: "(\<And>r. key r = k \<Longrightarrow> f r = g r) \<Longrightarrow> update_by key k f rows = update_by key k g rows"
  by (simp add: update_by_def)

lemma notices_tables [simp]:
  "transfers (sendSLATextToCustomer io t m db) = transfers db" "messages (sendSLATextToCustomer io t m db) = messages db"
  "transfers (notifyEscalation t s l db) = transfers db" "messages (notifyEscalation t s l db) = messages db"
  by (simp_all add: sendSLATextToCustomer_def notifyEscalation_def split: option.splits)

lemma upd_sla_tables [simp]:
  "transfers (upd_sla i f db) = update_by t_ID i (\<lambda>r. r\<lparr>t_SLA := f (t_SLA r)\<rparr>) (transfers db)"
  "messages (upd_sla i f db) = messages db"
  by (simp_all add: upd_sla_def)

lemma record_first_response_tables [simp]:
  "transfers (record_first_response io t db) = update_by t_ID (t_ID t) (first_response_row io t) (transfers db)"
  "messages (record_first_response io t db) = messages db"
  by (simp_all add: record_first_response_def first_response_row_def [abs_def] update_by_id)

lemma responded_messages:
  "messages db = messages db0 \<Longrightarrow> agentRespondedSince io db = agentRespondedSince io db0"
  "messages db = messages db0 \<Longrightarrow> customerLastSpokeAt io db = customerLastSpokeAt io db0"
  by (simp_all add: agentRespondedSince_def customerLastSpokeAt_def fun_eq_iff split: option.splits)

interpretation returning: row_loop "return_one io db0" "\<lambda>_. return_row io" for io db0
proof
  fix db and t :: agent_transfer
  show "transfers (return_one io db0 t db) = update_by t_ID (t_ID t) (return_row io t) (transfers db)"
    by (auto simp: return_one_def return_row_def [abs_def] Let_def update_by_id intro!: update_by_cong)
  show "messages (return_one io db0 t db) = messages db"
    by (simp add: return_one_def Let_def save_transfer_def)
qed (simp add: return_row_def)

interpretation closing: row_loop "auto_close_one io settings now" "auto_close_row io settings now" for io settings now
proof
  fix db db0 and t r :: agent_transfer
  show "messages (auto_close_one io settings now t db) = messages db"
    by (simp add: auto_close_one_def Let_def split: option.splits)
  show "t_ID (auto_close_row io settings now db0 t r) = t_ID r"
    by (simp add: auto_close_row_def first_response_row_def expire_row_def Let_def split: option.splits)
  assume "messages db = messages db0"
  from responded_messages(1) [OF this]
  show "transfers (auto_close_one io settings now t db) =
      update_by t_ID (t_ID t) (auto_close_row io settings now db0 t) (transfers db)"
    by (auto simp: auto_close_one_def auto_close_row_def [abs_def] Let_def update_by_id update_by_twice
        split: option.splits)
qed

interpretation escalating: row_loop "escalate_one io settings now" "escalate_row io settings now" for io settings now
proof
  fix db db0 and t r :: agent_transfer
  show "messages (escalate_one io settings now t db) = messages db"
    by (simp add: escalate_one_def Let_def)
  show "t_ID (escalate_row io settings now db0 t r) = t_ID r"
    by (simp add: escalate_row_def first_response_row_def)
  assume "messages db = messages db0"
  from responded_messages [OF this]
  show "transfers (escalate_one io settings now t db) =
      update_by t_ID (t_ID t) (escalate_row io settings now db0 t) (transfers db)"
    by (auto simp: escalate_one_def escalate_row_def [abs_def] Let_def update_by_id update_by_twice)
qed

lemma ReturnAgentTransfersToQueue_evolves: "evolves k db (snd (ReturnAgentTransfersToQueue io userID orgID db))"
proof -
  have "evolves k db (fold (return_one io db)
      (filter (\<lambda>t. t_AgentID t = Some userID \<and> t_Org t = orgID \<and> active t) (transfers db)) db)"
    by (rule returning.loop_evolves) (auto simp: return_row_def good_change_def same_transfer_def who_def row_ok_def active_def)
  then show ?thesis
    by (simp add: ReturnAgentTransfersToQueue_def evolves_same Let_def)
qed

lemma first_response_row_keeps:
  "row_ok r \<Longrightarrow> row_ok (first_response_row io t r)" "active (first_response_row io t r) = active r"
  "who (first_response_row io t r) = who r" "t_ID (first_response_row io t r) = t_ID r"
  by (auto simp: first_response_row_def row_ok_def active_def who_def)

lemma autoCloseExpiredTransfers_evolves: "evolves k db (autoCloseExpiredTransfers io orgID settings now db)"
proof -
  have "good_change r (auto_close_row io settings now db r r)" if "row_ok r" "active r" for r
    using that by (auto simp: good_change_def same_transfer_def auto_close_row_def Let_def first_response_row_keeps
        intro!: first_response_row_keeps(1) split: option.splits)
      (auto simp: row_ok_def active_def who_def expire_row_def)
  then have "evolves k db (fold (auto_close_one io settings now) (filter (expired orgID now) (transfers db)) db)"
    by (intro closing.loop_evolves) (auto simp: expired_def)
  then show ?thesis
    by (simp add: autoCloseExpiredTransfers_def evolves_same)
qed

lemma escalateTransfers_evolves: "evolves k db (escalateTransfers io orgID settings now db)"
proof -
  have "good_change r (escalate_row io settings now db r r)" if "row_ok r" "active r" "EscalationLevel (t_SLA r) < 2" for r
    using that by (auto simp: good_change_def same_transfer_def escalate_row_def first_response_row_keeps
        intro!: first_response_row_keeps(1))
      (auto simp: row_ok_def active_def who_def escalate_sla_def Let_def)
  then have "evolves k db (fold (escalate_one io settings now) (filter (escalation_due orgID now) (transfers db)) db)"
    by (intro escalating.loop_evolves) (auto simp: escalation_due_def)
  then show ?thesis
    by (simp add: escalateTransfers_def evolves_same)
qed

lemma markSLABreached_evolves: "evolves k db (markSLABreached io orgID now db)"
proof (cases "io_err io ''mark_breached''")
  case False
  then have "transfers (markSLABreached io orgID now db) =
      map (\<lambda>t. if breach_due orgID now t
                then t\<lparr>t_SLA := (t_SLA t)\<lparr>Breached := True, BreachedAt := Some now\<rparr>\<rparr> else t) (transfers db)"
    by (simp add: markSLABreached_def)
  then show ?thesis
    by (rule evolves_map) (auto simp: good_change_def same_transfer_def breach_due_def row_ok_def active_def who_def dest: row_in_ok)
qed (simp add: markSLABreached_def evolves_same)

lemma fold_keeps: "(\<And>x d. h (f x d) = h d) \<Longrightarrow> h (fold f xs d) = h d"
  by (induction xs arbitrary: d) auto

lemma contact_passes_keep [simp]:
  "transfers (processClientInactivity io orgID settings now db) = transfers db"
  "transfers (tagLostContacts io orgID now db) = transfers db"
  "transfers (sendDeferredFallbacks io orgID settings now db) = transfers db"
proof -
  have "transfers (inactivity_one io orgID settings now c d) = transfers d" for c d
    by (simp add: inactivity_one_def autoCloseChatbotSession_def sendChatbotReminder_def Let_def split: option.splits)
  then show "transfers (processClientInactivity io orgID settings now db) = transfers db"
    by (simp add: processClientInactivity_def fold_keeps)
  show "transfers (tagLostContacts io orgID now db) = transfers db"
    by (simp add: tagLostContacts_def fold_keeps)
  have "transfers (fallback_one io orgID settings c d) = transfers d" for c d
    by (simp add: fallback_one_def clear_fallback_def UpdateContactChatbotMessage_def Let_def)
  then show "transfers (sendDeferredFallbacks io orgID settings now db) = transfers db"
    by (simp add: sendDeferredFallbacks_def fold_keeps)
qed

lemma evolves_if: "evolves k db a \<Longrightarrow> evolves k a b \<Longrightarrow> evolves k db (if P then b else a)"
  using evolves_trans by auto

lemma processOrganizationSLA_evolves: "evolves k db (processOrganizationSLA io now settings db)"
  unfolding processOrganizationSLA_def Let_def
  by (rule evolves_trans [OF _ evolves_same], rule evolves_trans [OF _ evolves_same], rule evolves_if,
      rule evolves_if, rule evolves_if, rule evolves_if)
    (simp_all add: evolves_same markSLABreached_evolves escalateTransfers_evolves autoCloseExpiredTransfers_evolves)

lemma processStaleTransfers_evolves: "evolves k db (processStaleTransfers io rows db)"
proof -
  have "evolves k d (fold (processOrganizationSLA io now) ss d)" for now ss d
    by (induction ss arbitrary: d) (auto simp: evolves_same intro: evolves_trans processOrganizationSLA_evolves)
  then show ?thesis
    by (simp add: processStaleTransfers_def evolves_same split: sum.splits)
qed

section \<open>The state machine\<close>

text \<open>
  Every handler that writes the transfer table, the processor's tick, and any change of other tables.
  A new identifier is not in use (\<open>uuid.New\<close>). A step may be required to be \<open>counted\<close>: then its counts
  of active transfers do not fail. Every other query and update may fail in any step.
\<close>

inductive transfer_step :: "bool \<Rightarrow> agent_db \<Rightarrow> agent_db \<Rightarrow> bool" for counted where
  step_create: "io_new io \<notin> t_ID ` set (transfers db) \<Longrightarrow> counted \<longrightarrow> counts io \<Longrightarrow>
    transfer_step counted db (snd (CreateAgentTransfer io auth req db))"
| step_queue: "io_new io \<notin> t_ID ` set (transfers db) \<Longrightarrow> counted \<longrightarrow> counts io \<Longrightarrow>
    transfer_step counted db (createTransferToQueue io orgID acct c src db)"
| step_keyword: "io_new io \<notin> t_ID ` set (transfers db) \<Longrightarrow> counted \<longrightarrow> counts io \<Longrightarrow>
    transfer_step counted db (createTransferFromKeyword io orgID acct c db)"
| step_team: "io_new io \<notin> t_ID ` set (transfers db) \<Longrightarrow> counted \<longrightarrow> counts io \<Longrightarrow>
    transfer_step counted db (createTransferToTeam io orgID acct c tid notes src db)"
| step_takeover: "io_new io \<notin> t_ID ` set (transfers db) \<Longrightarrow> counted \<longrightarrow> counts io \<Longrightarrow>
    transfer_step counted db (ensureAgentTakeoverTransfer io orgID c acct agentID db)"
| step_resume: "transfer_step counted db (snd (ResumeFromTransfer io auth i db))"
| step_assign: "transfer_step counted db (snd (AssignAgentTransfer io auth i areq db))"
| step_pick: "transfer_step counted db (snd (PickNextTransfer io auth tid db))"
| step_return: "transfer_step counted db (snd (ReturnAgentTransfersToQueue io userID orgID db))"
| step_tick: "transfer_step counted db (processStaleTransfers io rows db)"
| step_other: "transfers db' = transfers db \<Longrightarrow> transfer_step counted db db'"

inductive transfer_reach :: "bool \<Rightarrow> agent_db \<Rightarrow> bool" for counted where
  reach_empty: "transfers db = [] \<Longrightarrow> transfer_reach counted db"
| reach_next: "transfer_reach counted db \<Longrightarrow> transfer_step counted db db' \<Longrightarrow> transfer_reach counted db'"

lemmas handlers_evolve =
  CreateAgentTransfer_evolves createTransferToQueue_evolves createTransferFromKeyword_evolves
  createTransferToTeam_evolves ensureAgentTakeoverTransfer_evolves ResumeFromTransfer_evolves
  AssignAgentTransfer_evolves PickNextTransfer_evolves
  ReturnAgentTransfersToQueue_evolves processStaleTransfers_evolves evolves_same

lemma transfer_step_evolves: "transfer_step counted db db' \<Longrightarrow> evolves counted db db'"
  by (induction rule: transfer_step.induct) (simp_all add: handlers_evolve)

lemma transfer_steps_evolve: "(transfer_step counted)\<^sup>*\<^sup>* db db' \<Longrightarrow> evolves counted db db'"
  by (induction rule: rtranclp_induct) (auto simp: evolves_same intro: evolves_trans transfer_step_evolves)

lemma transfer_step_any: "transfer_step counted db db' \<Longrightarrow> transfer_step False db db'"
  by (induction rule: transfer_step.induct) (simp_all add: transfer_step.intros)

lemma transfer_reach_any: "transfer_reach counted db \<Longrightarrow> transfer_reach False db"
  by (induction rule: transfer_reach.induct) (auto intro: reach_empty reach_next transfer_step_any)

lemma transfer_reach_rows: "transfer_reach counted db \<Longrightarrow> rows_ok db"
proof (induction rule: transfer_reach.induct)
  case (reach_next db db')
  then show ?case
    using transfer_step_evolves by (auto simp: evolves_def)
qed (simp add: rows_ok_def)

lemma transfer_reach_ok: "transfer_reach True db \<Longrightarrow> transfers_ok db"
proof (induction rule: transfer_reach.induct)
  case (reach_next db db')
  then show ?case
    using transfer_step_evolves [of True] by (auto simp: evolves_def transfers_ok_def)
qed (simp add: transfers_ok_def rows_ok_def one_active_def)

lemma transfer_reach_steps:
  "(transfer_step counted)\<^sup>*\<^sup>* db db' \<Longrightarrow> transfer_reach counted db \<Longrightarrow> transfer_reach counted db'"
  by (induction rule: rtranclp_induct) (auto intro: reach_next)

end
