(* ===== verification/Transfer_Properties.thy ===== *)
theory Transfer_Properties
  imports Transfer_Facts
begin

text \<open>
  Properties of human hand-over: the invariant of the transfer table, the queue, permissions,
  balance of load, and what the SLA processor guarantees and does not guarantee.
\<close>

section \<open>Invariant and history\<close>

lemma at_most_one_active:
  assumes "distinct (map who (filter active ts))"
  shows "length (filter (active_for orgID contactID) ts) \<le> 1"
proof -
  have "filter (active_for orgID contactID) ts =
        filter (\<lambda>t. who t = (orgID, contactID)) (filter active ts)"
    by (auto simp: who_def active_for_def intro: filter_cong)
  moreover have "distinct (map who xs) \<Longrightarrow> length (filter (\<lambda>t. who t = k) xs) \<le> 1" for xs and k :: "string \<times> string"
    by (induction xs) (auto simp: filter_empty_conv image_iff le_Suc_eq)
  ultimately show ?thesis
    using assms by (simp del: filter_filter)
qed

text \<open>
  C2. In every state that the handlers (an agent's takeover by writing to the customer included) and
  the SLA processor can reach, whatever queries and updates fail, transfer identifiers are unique and
  every row is consistent: it is active, resumed (with a time and a user) or expired (with a time and
  no user), the escalation level is 0, 1 or 2, a breach is recorded together with its time, and an
  assigned transfer has a pick-up time unless an agent's message created it (source \<open>manual\<close>,
  transferred by nobody). If moreover no count of active transfers failed on the way (\<open>counted\<close>; the
  code takes a failed count for none), a contact has at most one active transfer. Each handler runs
  as a whole.
\<close>
theorem transfers_invariant:
  assumes "transfer_reach counted db"
  shows "distinct (map t_ID (transfers db)) \<and> list_all row_ok (transfers db) \<and>
         (counted \<longrightarrow> length (filter (active_for orgID contactID) (transfers db)) \<le> 1)"
  using transfer_reach_rows [OF assms] transfer_reach_ok [of db] assms at_most_one_active
  by (cases counted) (auto simp: transfers_ok_def rows_ok_def one_active_def)

text \<open>
  C31. A transfer that was resumed or expired is never changed again: whatever handlers (an agent's
  takeover included) and ticks follow, with whatever failures, its row stays in the table exactly as
  it was closed (it cannot become active again, be reassigned or be escalated).
\<close>
theorem closed_transfers_frozen:
  assumes "transfer_reach counted db" "(transfer_step counted)\<^sup>*\<^sup>* db db'"
    and "t \<in> set (transfers db)" "t_Status t \<noteq> TransferStatusActive"
  shows "t \<in> set (transfers db')"
  using transfer_steps_evolve [OF assms(2)] transfer_reach_rows [OF assms(1)] assms(3,4)
  by (auto simp: evolves_def same_transfer_def active_def)

section \<open>The queue\<close>

lemma PickNextTransfer_reply:
  assumes "PickNextTransfer io (Some (orgID, userID)) tid db = (Reply_transfer m t, db')"
  obtains allowed t0 rest db1 where
    "io_perm io userID ''transfers'' ''write'' orgID \<or> io_perm io userID ''transfers'' ''pickup'' orgID"
    "pick_filter io (io_perm io userID ''transfers'' ''write'' orgID) (user_teams io userID db) tid = Inr allowed"
    "queue_order io orgID allowed db = t0 # rest"
    "pick_transaction io userID (io_settings io orgID []) t0 db = Inr (t, db1)"
  using assms by (auto simp: PickNextTransfer_def Let_def split: if_splits sum.splits list.splits prod.splits)

text \<open>The queues a user may pick from with a given \<open>team_id\<close> argument.\<close>

definition may_pick :: "agent_io \<Rightarrow> string \<Rightarrow> string \<Rightarrow> string \<Rightarrow> agent_db \<Rightarrow> agent_transfer \<Rightarrow> bool" where
  "may_pick io orgID userID tid db t \<longleftrightarrow>
     (io_perm io userID ''transfers'' ''write'' orgID \<or> t_TeamID t = None \<or>
        (\<exists>m \<in> set (members db). m_UserID m = userID \<and> t_TeamID t = Some (m_TeamID m))) \<and>
     (tid = ''general'' \<longrightarrow> t_TeamID t = None) \<and>
     (tid \<noteq> [] \<and> tid \<noteq> ''general'' \<longrightarrow> t_TeamID t = io_uuid io tid)"

lemma pick_filter_may_pick:
  assumes "pick_filter io (io_perm io userID ''transfers'' ''write'' orgID) (user_teams io userID db) tid = Inr allowed"
    and "tid \<in> {[], ''general''} \<or> io_uuid io tid \<noteq> None" "\<not> io_err io ''memberships''"
  shows "allowed = may_pick io orgID userID tid db"
  using assms
  by (auto simp: pick_filter_def may_pick_def user_teams_def fun_eq_iff filter_empty_conv split: if_splits option.splits)

text \<open>
  C21. Picking is first in, first out and stays within the user's queues: when a user picks a transfer
  with no \<open>team_id\<close>, with \<open>general\<close> or with a well-formed team, and the query of the user's teams does
  not fail, the user has the write or the pickup permission, and the transfer was a waiting one
  (active, unassigned) of the organisation, from a queue the user may pick from, that no unlocked
  waiting transfer of these queues precedes. The row returned is the old one with the user as agent,
  the user as the one who transferred it if nobody was, and the pick-up recorded; exactly this row is
  saved, and every other transfer is as before.
\<close>
theorem pick_oldest_permitted:
  assumes "PickNextTransfer io (Some (orgID, userID)) tid db = (Reply_transfer m t, db')"
    and "tid \<in> {[], ''general''} \<or> io_uuid io tid \<noteq> None" "\<not> io_err io ''memberships''"
  shows "(io_perm io userID ''transfers'' ''write'' orgID \<or> io_perm io userID ''transfers'' ''pickup'' orgID) \<and>
    transfers db' = update_by t_ID (t_ID t) (\<lambda>_. t) (transfers db) \<and>
    (\<exists>t0 \<in> set (transfers db).
       t = UpdateSLAOnPickup (io_now io 1) (t0\<lparr>t_AgentID := Some userID,
         t_TransferredBy := (case t_TransferredBy t0 of None \<Rightarrow> Some userID | Some b \<Rightarrow> Some b)\<rparr>) \<and>
       t_Org t0 = orgID \<and> active t0 \<and> t_AgentID t0 = None \<and>
       may_pick io orgID userID tid db t0 \<and>
       (\<forall>r \<in> set (transfers db). t_Org r = orgID \<and> active r \<and> t_AgentID r = None \<and> \<not> io_locked io (t_ID r) \<and>
          may_pick io orgID userID tid db r \<longrightarrow> t_TransferredAt t0 \<le> t_TransferredAt r))"
proof -
  obtain allowed t0 rest db1 where
    p: "io_perm io userID ''transfers'' ''write'' orgID \<or> io_perm io userID ''transfers'' ''pickup'' orgID"
       "pick_filter io (io_perm io userID ''transfers'' ''write'' orgID) (user_teams io userID db) tid = Inr allowed"
       "queue_order io orgID allowed db = t0 # rest"
       "pick_transaction io userID (io_settings io orgID []) t0 db = Inr (t, db1)"
    using PickNextTransfer_reply [OF assms(1)] by blast
  note h = queue_order_head [OF p(3)] and r = pick_transaction_rows [OF p(4)]
  have a: "allowed = may_pick io orgID userID tid db"
    by (rule pick_filter_may_pick [OF p(2) assms(2,3)])
  have "transfers db' = transfers db1"
    using assms(1) p by (auto simp: PickNextTransfer_def Let_def split: if_splits list.splits)
  moreover from r have "t = UpdateSLAOnPickup (io_now io 1) (t0\<lparr>t_AgentID := Some userID,
         t_TransferredBy := (case t_TransferredBy t0 of None \<Rightarrow> Some userID | Some b \<Rightarrow> Some b)\<rparr>)"
    by simp
  ultimately show ?thesis
    using h p(1) r unfolding a by auto
qed

lemma pick_ignores_permissions:
  "queue_order (io\<lparr>io_perm := p\<rparr>) orgID allowed db = queue_order io orgID allowed db"
  "user_teams (io\<lparr>io_perm := p\<rparr>) userID db = user_teams io userID db"
  "pick_transaction (io\<lparr>io_perm := p\<rparr>) userID settings t db = pick_transaction io userID settings t db"
  by (simp_all add: queue_order_def user_teams_def pick_transaction_def assign_contact_def Let_def)

text \<open>
  A malformed \<open>team_id\<close> lifts the restriction to the user's own queues: for a user who may only
  pick up (no write permission), \<open>PickNextTransfer\<close> with a \<open>team_id\<close> that is not a UUID answers exactly
  as it does for a user with full access and no filter, so transfers queued for teams of which the
  user is not a member are handed out.
\<close>
theorem pick_malformed_team_unrestricted:
  assumes "tid \<noteq> []" "tid \<noteq> ''general''" "io_uuid io tid = None"
    and "io_perm io userID ''transfers'' ''pickup'' orgID" "\<not> io_perm io userID ''transfers'' ''write'' orgID"
    and "case io_settings io orgID [] of None \<Rightarrow> True | Some s \<Rightarrow> aa_AllowQueuePickup s"
  shows "PickNextTransfer io (Some (orgID, userID)) tid db =
         PickNextTransfer (io\<lparr>io_perm := \<lambda>_ _ _ _. True\<rparr>) (Some (orgID, userID)) [] db"
  using assms by (simp add: PickNextTransfer_def Let_def pick_filter_def pick_ignores_permissions split: option.splits list.splits)

section \<open>Assigning\<close>

lemma AssignAgentTransfer_reply:
  assumes "AssignAgentTransfer io (Some (orgID, userID)) i (Some req) db = (Reply_agent m target, db')"
  obtains t team t1 where "t \<in> set (transfers db)" "t_Org t = orgID" "active t" "io_uuid io i = Some (t_ID t)"
    "assign_target io orgID userID (io_perm io userID ''transfers'' ''write'' orgID) req db = Inr target"
    "assign_team io orgID (io_perm io userID ''transfers'' ''write'' orgID) req (t_TeamID t) db = Inr team"
    "t1 = (if target \<noteq> None \<and> PickedUpAt (t_SLA t) = None
           then UpdateSLAOnPickup (io_now io 1) (t\<lparr>t_TeamID := team, t_AgentID := target\<rparr>)
           else t\<lparr>t_TeamID := team, t_AgentID := target\<rparr>)"
    "transfers db' = update_by t_ID (t_ID t) (\<lambda>_. t1) (transfers db)"
  using assms
  by (auto simp: AssignAgentTransfer_def Let_def dest!: find_transfer_in
      split: if_splits sum.splits option.splits prod.splits)

text \<open>
  What a user without the write permission can do through the assignment handler: a successful
  call leaves every other transfer alone, keeps the transfer's team, and the only agents that can
  result are the caller or nobody. A team change and a named agent are refused with 403.
\<close>
theorem assign_without_write_permission:
  assumes "\<not> io_perm io userID ''transfers'' ''write'' orgID"
    and "AssignAgentTransfer io (Some (orgID, userID)) i (Some req) db = (Reply_agent m target, db')"
  shows "target \<in> {None, Some userID} \<and> ar_TeamID req = None \<and> ar_AgentID req \<in> {None, Some []} \<and>
    (\<exists>t \<in> set (transfers db). t_Org t = orgID \<and> active t \<and>
       (\<exists>t'. t_TeamID t' = t_TeamID t \<and> t_AgentID t' = target \<and>
          transfers db' = update_by t_ID (t_ID t) (\<lambda>_. t') (transfers db)))"
proof -
  obtain t team t1 where
    t: "t \<in> set (transfers db)" "t_Org t = orgID" "active t"
       "assign_target io orgID userID (io_perm io userID ''transfers'' ''write'' orgID) req db = Inr target"
       "assign_team io orgID (io_perm io userID ''transfers'' ''write'' orgID) req (t_TeamID t) db = Inr team" and
    t1: "t1 = (if target \<noteq> None \<and> PickedUpAt (t_SLA t) = None
           then UpdateSLAOnPickup (io_now io 1) (t\<lparr>t_TeamID := team, t_AgentID := target\<rparr>)
           else t\<lparr>t_TeamID := team, t_AgentID := target\<rparr>)" and
    rows: "transfers db' = update_by t_ID (t_ID t) (\<lambda>_. t1) (transfers db)"
    using AssignAgentTransfer_reply [OF assms(2)] by blast
  have "target \<in> {None, Some userID}" "ar_AgentID req \<in> {None, Some []}"
    using t(4) assms(1) by (auto simp: assign_target_def split: option.splits if_splits)
  moreover have "ar_TeamID req = None" "team = t_TeamID t"
    using t(5) assms(1) by (auto simp: assign_team_def split: option.splits if_splits)
  moreover from this have "t_TeamID t1 = t_TeamID t" "t_AgentID t1 = target"
    by (simp_all add: t1 UpdateSLAOnPickup_def Let_def)
  ultimately show ?thesis
    using t(1-3) rows by blast
qed

text \<open>
  Taking a transfer away from an agent needs no permission: any authenticated user of the
  organisation who sends an empty \<open>agent_id\<close> for an active transfer gets it unassigned, whoever it
  was assigned to.
\<close>
theorem unassign_needs_no_permission:
  assumes "io_uuid io i = Some j" "find_transfer io j orgID db = Some t" "active t"
    and "\<not> io_err io ''save_transfer''" "distinct (map t_ID (transfers db))"
  shows "fst (AssignAgentTransfer io (Some (orgID, userID)) i (Some \<lparr>ar_AgentID = Some [], ar_TeamID = None\<rparr>) db) =
           Reply_agent ''Transfer assigned successfully'' None \<and>
         t\<lparr>t_AgentID := None\<rparr> \<in> set (transfers (snd (AssignAgentTransfer io (Some (orgID, userID)) i
           (Some \<lparr>ar_AgentID = Some [], ar_TeamID = None\<rparr>) db)))"
proof -
  have "t \<in> set (transfers db)"
    using find_transfer_in [OF assms(2)] by simp
  with assms show ?thesis
    by (auto simp: AssignAgentTransfer_def assign_target_def assign_team_def Let_def set_update_by image_iff intro!: bexI [of _ t])
qed

section \<open>Concurrent creation\<close>

lemma create_for_appends:
  assumes "request_team io orgID req db = Inr team"
    and "request_agent io orgID req team contact (io_settings io orgID (cr_WhatsAppAccount req)) db = (Inr agent, db1)"
    and "\<not> io_err io ''create_transfer''"
  obtains t where "transfers (snd (create_for io orgID userID req contact db)) = transfers db @ [t]"
    "t_Org t = orgID" "t_Contact t = c_ID contact" "active t"
proof -
  let ?s = "io_settings io orgID (cr_WhatsAppAccount req)"
  let ?t = "new_transfer io orgID (cr_WhatsAppAccount req) contact
        (if cr_Source req = [] then ''manual'' else cr_Source req) agent team (Some userID) (cr_Notes req)"
  obtain ok db2 where sf: "saveAndFinalizeTransfer io ?t orgID contact ?s True db1 = (ok, db2)" by fastforce
  have "ok"
    using sf assms(3) by (auto simp: saveAndFinalizeTransfer_def Let_def)
  have who: "who (stored_row io ?t ?s) = (orgID, c_ID contact)" "active (stored_row io ?t ?s)"
    by (simp_all add: stored_new_row)
  show thesis
    using that [of "stored_row io ?t ?s"] who saveAndFinalize_transfers [OF sf] request_agent_transfers [OF assms(2)] sf \<open>ok\<close>
    by (simp add: create_for_def assms(1,2) Let_def who_def)
qed

text \<open>
  The check for an existing transfer and its insertion are not one transaction: when two requests
  for the same contact both pass the check before either has inserted, both insert, and the contact
  has two active transfers. The invariant therefore depends on requests for one contact not
  overlapping.
\<close>
theorem concurrent_creation_duplicates:
  assumes "\<not> hasActiveAgentTransfer io1 db orgID (c_ID contact)" "\<not> count_fails io1 (c_ID contact)"
    and "request_team io1 orgID req1 db = Inr team1"
    and "request_agent io1 orgID req1 team1 contact (io_settings io1 orgID (cr_WhatsAppAccount req1)) db = (Inr a1, d1)"
    and "\<not> io_err io1 ''create_transfer''"
    and "db' = snd (create_for io1 orgID u1 req1 contact db)"
    and "request_team io2 orgID req2 db' = Inr team2"
    and "request_agent io2 orgID req2 team2 contact (io_settings io2 orgID (cr_WhatsAppAccount req2)) db' = (Inr a2, d2)"
    and "\<not> io_err io2 ''create_transfer''"
  shows "length (filter (active_for orgID (c_ID contact))
           (transfers (snd (create_for io2 orgID u2 req2 contact db')))) = 2"
proof -
  obtain t where t: "transfers db' = transfers db @ [t]" "t_Org t = orgID" "t_Contact t = c_ID contact" "active t"
    using create_for_appends [OF assms(3,4,5), of u1] assms(6) by metis
  obtain t' where t': "transfers (snd (create_for io2 orgID u2 req2 contact db')) = transfers db' @ [t']"
    "t_Org t' = orgID" "t_Contact t' = c_ID contact" "active t'"
    using create_for_appends [OF assms(7,8,9), of u2] by metis
  have "filter (active_for orgID (c_ID contact)) (transfers db) = []"
    using assms(1,2) by (auto simp: hasActiveAgentTransfer_def list_ex_iff filter_empty_conv)
  with t t' show ?thesis
    by (simp add: active_for_def)
qed


section \<open>Witnesses\<close>

definition sample_contact :: contact_row where
  "sample_contact = hd (contacts sample_db)"

definition queued_db :: agent_db where
  "queued_db = createTransferToQueue (sample_io 10) ''org'' ''shop'' sample_contact ''flow'' sample_db"

definition resumed_db :: agent_db where
  "resumed_db = snd (ResumeFromTransfer (sample_io 20) (Some (''org'', ''ann'')) ''t1'' queued_db)"

lemma sample_counts: "counts (sample_io n)"
  by (simp add: counts_def count_fails_def sample_io_def)

lemma queued_reach: "transfer_reach counted queued_db"
proof -
  have "transfer_reach counted sample_db"
    by (rule reach_empty) (simp add: sample_db_def)
  then show ?thesis
    unfolding queued_db_def by (rule reach_next) (rule step_queue, simp_all add: sample_db_def sample_counts)
qed

lemma resumed_reach: "transfer_reach counted resumed_db"
  unfolding resumed_db_def by (rule reach_next [OF queued_reach step_resume])

definition queued_row :: agent_transfer where
  "queued_row = hd (transfers queued_db)"

lemma queued_rows: "transfers queued_db = [queued_row] \<and> active queued_row \<and> t_AgentID queued_row = None \<and>
    t_ID queued_row = ''t1'' \<and> t_Org queued_row = ''org''"
  by code_simp

lemma resumed_rows: "map t_Status (transfers resumed_db) = [''resumed'']"
  by code_simp

theorem transfers_invariant_witness:
  "map t_ID (transfers queued_db) = [''t1''] \<and>
   length (filter (active_for ''org'' ''c1'') (transfers queued_db)) \<le> 1 \<and>
   list_all row_ok (transfers queued_db)"
  using transfers_invariant [OF queued_reach [of True], of "''org''" "''c1''"] queued_rows by simp

theorem closed_transfers_frozen_witness:
  "hd (transfers resumed_db) \<in>
     set (transfers (processStaleTransfers (sample_io (hours_ns 100)) (Inr [sample_settings]) resumed_db))"
proof (rule closed_transfers_frozen [OF resumed_reach [of True] r_into_rtranclp, OF step_tick])
  show "hd (transfers resumed_db) \<in> set (transfers resumed_db)"
    using resumed_rows by (cases "transfers resumed_db") auto
  show "t_Status (hd (transfers resumed_db)) \<noteq> ''active''"
    using resumed_rows by (cases "transfers resumed_db") auto
qed

lemma picked_by_ann:
  "fst (PickNextTransfer (sample_io 20) (Some (''org'', ''ann'')) [] queued_db) =
     Reply_transfer ''Transfer picked successfully''
       (UpdateSLAOnPickup 20 (queued_row\<lparr>t_AgentID := Some ''ann'', t_TransferredBy := Some ''ann''\<rparr>))"
  by code_simp

theorem pick_oldest_permitted_witness:
  "\<exists>t0 \<in> set (transfers queued_db). t_ID t0 = ''t1'' \<and> may_pick (sample_io 20) ''org'' ''ann'' [] queued_db t0"
proof -
  let ?t = "UpdateSLAOnPickup 20 (queued_row\<lparr>t_AgentID := Some ''ann'', t_TransferredBy := Some ''ann''\<rparr>)"
  have "PickNextTransfer (sample_io 20) (Some (''org'', ''ann'')) [] queued_db =
      (Reply_transfer ''Transfer picked successfully'' ?t, snd (PickNextTransfer (sample_io 20) (Some (''org'', ''ann'')) [] queued_db))"
    by (metis picked_by_ann prod.collapse)
  from pick_oldest_permitted [OF this]
  obtain t0 b where t0: "t0 \<in> set (transfers queued_db)" "may_pick (sample_io 20) ''org'' ''ann'' [] queued_db t0"
      "?t = UpdateSLAOnPickup (io_now (sample_io 20) 1) (t0\<lparr>t_AgentID := Some ''ann'', t_TransferredBy := b\<rparr>)"
    by (fastforce simp: sample_io_def)
  from arg_cong [OF t0(3), of t_ID] queued_rows have "t_ID t0 = ''t1''"
    by simp
  with t0(1,2) show ?thesis by blast
qed

theorem pick_malformed_team_unrestricted_witness:
  "PickNextTransfer (sample_io 20) (Some (''org'', ''ann'')) ''bad'' queued_db =
   PickNextTransfer ((sample_io 20)\<lparr>io_perm := \<lambda>_ _ _ _. True\<rparr>) (Some (''org'', ''ann'')) [] queued_db"
  by (rule pick_malformed_team_unrestricted) (simp_all add: sample_io_def sample_settings_def)

definition self_assign :: AssignTransferRequest where
  "self_assign = \<lparr>ar_AgentID = None, ar_TeamID = None\<rparr>"

lemma ann_takes:
  "fst (AssignAgentTransfer (sample_io 20) (Some (''org'', ''ann'')) ''t1'' (Some self_assign) queued_db) =
     Reply_agent ''Transfer assigned successfully'' (Some ''ann'')"
  by code_simp

theorem assign_without_write_permission_witness:
  "Some ''ann'' \<in> {None, Some ''ann''} \<and> ar_TeamID self_assign = None \<and> (\<exists>t \<in> set (transfers queued_db). t_Org t = ''org'')"
proof -
  have "AssignAgentTransfer (sample_io 20) (Some (''org'', ''ann'')) ''t1'' (Some self_assign) queued_db =
      (Reply_agent ''Transfer assigned successfully'' (Some ''ann''),
       snd (AssignAgentTransfer (sample_io 20) (Some (''org'', ''ann'')) ''t1'' (Some self_assign) queued_db))"
    by (metis ann_takes prod.collapse)
  moreover have "\<not> io_perm (sample_io 20) ''ann'' ''transfers'' ''write'' ''org''"
    by (simp add: sample_io_def)
  ultimately show ?thesis
    using assign_without_write_permission by blast
qed

definition taken_db :: agent_db where
  "taken_db = snd (AssignAgentTransfer (sample_io 20) (Some (''org'', ''ann'')) ''t1'' (Some self_assign) queued_db)"

lemma taken_rows: "map t_AgentID (transfers taken_db) = [Some ''ann''] \<and> map t_ID (transfers taken_db) = [''t1''] \<and>
    list_all active (transfers taken_db) \<and>
    find_transfer (sample_io 30) ''t1'' ''org'' taken_db = Some (hd (transfers taken_db))"
  by code_simp

theorem unassign_needs_no_permission_witness:
  "fst (AssignAgentTransfer (sample_io 30) (Some (''org'', ''eve'')) ''t1''
     (Some \<lparr>ar_AgentID = Some [], ar_TeamID = None\<rparr>) taken_db) = Reply_agent ''Transfer assigned successfully'' None"
proof -
  have "active (hd (transfers taken_db))"
    using taken_rows by (cases "transfers taken_db") auto
  moreover have "distinct (map t_ID (transfers taken_db))"
    using taken_rows by simp
  ultimately show ?thesis
    using unassign_needs_no_permission [of "sample_io 30" "''t1''" "''t1''" "''org''" taken_db "hd (transfers taken_db)" "''eve''"]
      taken_rows by (simp add: sample_io_def)
qed

definition plain_request :: CreateAgentTransferRequest where
  "plain_request = \<lparr>cr_ContactID = ''c1'', cr_WhatsAppAccount = ''shop'', cr_AgentID = None, cr_TeamID = None,
     cr_Notes = [], cr_Source = []\<rparr>"

theorem concurrent_creation_duplicates_witness:
  "length (filter (active_for ''org'' (c_ID sample_contact))
     (transfers (snd (create_for ((sample_io 11)\<lparr>io_new := ''t2''\<rparr>) ''org'' ''bob'' plain_request sample_contact
       (snd (create_for (sample_io 10) ''org'' ''ann'' plain_request sample_contact sample_db)))))) = 2"
  by (rule concurrent_creation_duplicates [where ?io1.0 = "sample_io 10" and db = sample_db and ?req1.0 = plain_request
        and ?a1.0 = None and ?a2.0 = None and ?team1.0 = None and ?team2.0 = None and ?d1.0 = sample_db and ?u1.0 = "''ann''"
        and ?d2.0 = "snd (create_for (sample_io 10) ''org'' ''ann'' plain_request sample_contact sample_db)", OF _ _ _ _ _ refl])
    (simp_all add: plain_request_def sample_io_def sample_contact_def sample_db_def sample_settings_def request_team_def
      request_agent_def same_agent_def same_agent_on_def hasActiveAgentTransfer_def count_fails_def)

end
