(* ===== verification/SLA_Properties.thy ===== *)
theory SLA_Properties
  imports Transfer_Properties
begin

text \<open>
  Load balancing of team transfers and the guarantees of the SLA processor, each over the handlers
  as a whole.
\<close>

section \<open>Balance of load\<close>

definition agent_load :: "agent_db \<Rightarrow> string \<Rightarrow> string \<Rightarrow> int" where
  "agent_load db orgID uid = ChatLoadCounter db orgID [uid] uid"

lemma ChatLoadCounter_load: "uid \<in> set ids \<Longrightarrow> ChatLoadCounter db orgID ids uid = agent_load db orgID uid"
  by (simp add: agent_load_def ChatLoadCounter_def)

lemma agent_load_append:
  "transfers db' = transfers db @ [t] \<Longrightarrow>
   agent_load db' orgID uid =
     agent_load db orgID uid + (if t_Org t = orgID \<and> t_AgentID t = Some uid \<and> active t then 1 else 0)"
  by (simp add: agent_load_def ChatLoadCounter_def active_def)

lemma createTransferToTeam_rows:
  assumes "AssignToTeam io teamID orgID [] ChatLoadCounter db = (agent, db1)"
  shows "transfers (createTransferToTeam io orgID acct c teamID notes src db) = transfers db \<or>
    (\<exists>t. transfers (createTransferToTeam io orgID acct c teamID notes src db) = transfers db @ [t] \<and>
         t_Org t = orgID \<and> active t \<and> t_AgentID t = (if io_assigner io then agent else None))"
proof -
  define a d where "a = (if io_assigner io then agent else None)" and "d = (if io_assigner io then db1 else db)"
  have d: "transfers d = transfers db"
    using team_choice.choice_keeps_transfers [of io teamID orgID "[]" ChatLoadCounter db] assms by (simp add: d_def)
  let ?s = "io_settings io orgID acct"
  let ?t = "new_transfer io orgID acct c src a (Some teamID) None notes"
  obtain ok db2 where sf: "saveAndFinalizeTransfer io ?t orgID c ?s True d = (ok, db2)" by fastforce
  have run: "createTransferToTeam io orgID acct c teamID notes src db =
      (if hasActiveAgentTransfer io db orgID (c_ID c) then db
       else if out_of_hours io ?s then tell_closed c ?s db else db2)"
    using sf assms by (cases "io_assigner io") (simp_all add: createTransferToTeam_def Let_def a_def d_def)
  have "t_Org (stored_row io ?t ?s) = orgID" "active (stored_row io ?t ?s)" "t_AgentID (stored_row io ?t ?s) = a"
    using stored_new_row(4) [of io orgID acct c src a "Some teamID" None "notes" ?s]
    by (simp_all add: stored_new_row who_def)
  with run saveAndFinalize_transfers [OF sf] d show ?thesis
    by (cases ok) (auto simp: a_def)
qed

text \<open>
  C29. Load-balanced teams stay balanced: when the numbers of active transfers of the eligible agents of
  a load-balanced team differ by at most one, they still do after \<open>createTransferToTeam\<close>, because the
  new transfer goes to an agent with the fewest.
\<close>
theorem load_balanced_stays_even:
  assumes "GetTeamConfig io teamID db = (Some conf, db1)" "cfg_Strategy conf = ''load_balanced''"
    and "\<And>x y. x \<in> set (filterAvailable (cfg_MemberIDs conf) [] db) \<Longrightarrow>
               y \<in> set (filterAvailable (cfg_MemberIDs conf) [] db) \<Longrightarrow>
               agent_load db orgID x \<le> agent_load db orgID y + 1"
    and "x \<in> set (filterAvailable (cfg_MemberIDs conf) [] db)" "y \<in> set (filterAvailable (cfg_MemberIDs conf) [] db)"
  shows "agent_load (createTransferToTeam io orgID acct c teamID notes src db) orgID x \<le>
         agent_load (createTransferToTeam io orgID acct c teamID notes src db) orgID y + 1"
proof -
  let ?A = "filterAvailable (cfg_MemberIDs conf) [] db"
  let ?db' = "createTransferToTeam io orgID acct c teamID notes src db"
  have same: "users db1 = users db" "transfers db1 = transfers db"
    using GetTeamConfig_tables [OF assms(1)] by (simp_all add: same_tables_def)
  have A: "filterAvailable (cfg_MemberIDs conf) [] db1 = ?A"
    by (simp add: filterAvailable_def same)
  have run: "AssignToTeam io teamID orgID [] ChatLoadCounter db =
      (assignLoadBalanced orgID (cfg_MemberIDs conf) [] ChatLoadCounter db1, db1)"
    by (simp add: AssignToTeam_def assms(1,2))
  have L: "ChatLoadCounter db1 orgID ?A z = agent_load db orgID z" if "z \<in> set ?A" for z
    using that by (simp add: ChatLoadCounter_load agent_load_def ChatLoadCounter_def same)
  have least: "agent_load db orgID u \<le> agent_load db orgID z"
    if u: "assignLoadBalanced orgID (cfg_MemberIDs conf) [] ChatLoadCounter db1 = Some u" and z: "z \<in> set ?A" for u z
  proof -
    have "\<And>w. 0 \<le> ChatLoadCounter db1 orgID (filterAvailable (cfg_MemberIDs conf) [] db1) w"
      by (simp add: ChatLoadCounter_def)
    from assignLoadBalanced_minimal [OF u this] L z show ?thesis
      unfolding A by metis
  qed
  consider "transfers ?db' = transfers db"
    | t where "transfers ?db' = transfers db @ [t]" "t_Org t = orgID" "active t"
        "t_AgentID t = None \<or> t_AgentID t = assignLoadBalanced orgID (cfg_MemberIDs conf) [] ChatLoadCounter db1"
    using createTransferToTeam_rows [OF run, of acct c "notes" src] by (auto split: if_splits)
  then show ?thesis
  proof cases
    case 1
    then have "agent_load ?db' orgID z = agent_load db orgID z" for z
      by (simp add: agent_load_def ChatLoadCounter_def)
    with assms(3) [OF assms(4,5)] show ?thesis by simp
  next
    case 2
    show ?thesis
      using assms(3) [OF assms(4,5)] least [of x y] assms(4,5) 2(2-4)
      by (auto simp: agent_load_append [OF 2(1)])
  qed
qed

section \<open>The SLA processor\<close>

text \<open>
  \<open>autoCloseExpiredTransfers\<close> equals one pass over the table: exactly the active transfers of the
  organisation whose expiry lies in the past are touched; each of them is extended when its agent
  wrote to the customer within the window, and expired with a note otherwise (\<open>auto_close_row\<close>).
\<close>
theorem auto_close_is_one_pass:
  assumes "transfer_reach counted db" "\<not> io_err io ''find_expired''"
  shows "transfers (autoCloseExpiredTransfers io orgID settings now db) =
         map (\<lambda>t. if expired orgID now t then auto_close_row io settings now db t t else t) (transfers db)"
  using closing.loop_is_one_pass [of db io settings now "expired orgID now"] transfer_reach_rows [OF assms(1)] assms(2)
  by (simp add: autoCloseExpiredTransfers_def rows_ok_def)

text \<open>
  After the processor has handled an organisation with a response time, no overdue waiting transfer
  is left unmarked: every active, unassigned transfer of the organisation whose response deadline
  has passed is recorded as breached.
\<close>
theorem overdue_transfers_marked:
  assumes "sla_ResponseMinutes settings > 0" "\<not> io_err io ''mark_breached''"
    and "t \<in> set (transfers (processOrganizationSLA io now settings db))"
    and "t_Org t = set_Org settings" "active t" "t_AgentID t = None" "past now (ResponseDeadline (t_SLA t))"
  shows "Breached (t_SLA t)"
  using assms by (auto simp: processOrganizationSLA_def Let_def markSLABreached_def breach_due_def active_def split: if_splits)

text \<open>What one pass of the processor does to a transfer that is due for escalation.\<close>

definition same_but_sla :: "agent_transfer \<Rightarrow> agent_transfer \<Rightarrow> bool" where
  "same_but_sla t t' \<longleftrightarrow>
     t_ID t' = t_ID t \<and> t_Org t' = t_Org t \<and> t_Contact t' = t_Contact t \<and> t_Status t' = t_Status t \<and>
     t_AgentID t' = t_AgentID t \<and> t_TransferredAt t' = t_TransferredAt t \<and>
     EscalationAt (t_SLA t') = EscalationAt (t_SLA t) \<and> ExpiresAt (t_SLA t') = ExpiresAt (t_SLA t)"

lemma passes_keep_messages:
  "messages (autoCloseExpiredTransfers io orgID settings now db) = messages db"
  "messages (escalateTransfers io orgID settings now db) = messages db"
  "messages (markSLABreached io orgID now db) = messages db"
  "messages (processClientInactivity io orgID settings now db) = messages db"
  "messages (tagLostContacts io orgID now db) = messages db"
  "messages (sendDeferredFallbacks io orgID settings now db) = messages db"
proof -
  show "messages (autoCloseExpiredTransfers io orgID settings now db) = messages db"
    by (simp add: autoCloseExpiredTransfers_def fold_keeps closing.reads_messages)
  show "messages (escalateTransfers io orgID settings now db) = messages db"
    by (simp add: escalateTransfers_def fold_keeps escalating.reads_messages)
  show "messages (markSLABreached io orgID now db) = messages db"
    by (simp add: markSLABreached_def)
  have "messages (inactivity_one io orgID settings now c d) = messages d" for c d
    by (simp add: inactivity_one_def autoCloseChatbotSession_def sendChatbotReminder_def Let_def split: option.splits)
  then show "messages (processClientInactivity io orgID settings now db) = messages db"
    by (simp add: processClientInactivity_def fold_keeps)
  show "messages (tagLostContacts io orgID now db) = messages db"
    by (simp add: tagLostContacts_def fold_keeps)
  have "messages (fallback_one io orgID settings c d) = messages d" for c d
    by (simp add: fallback_one_def clear_fallback_def UpdateContactChatbotMessage_def Let_def)
  then show "messages (sendDeferredFallbacks io orgID settings now db) = messages db"
    by (simp add: sendDeferredFallbacks_def fold_keeps)
qed

lemma organization_pass_escalates:
  assumes ok: "rows_ok db" and err: "\<And>l. \<not> io_err io l"
    and t: "t \<in> set (transfers db)" "escalation_due (set_Org settings) now t"
      "\<not> agentRespondedSince io db t (customerLastSpokeAt io db t)" "\<not> past now (ExpiresAt (t_SLA t))"
    and on: "sla_EscalationMinutes settings > 0"
  obtains t' where "t' \<in> set (transfers (processOrganizationSLA io now settings db))" "same_but_sla t t'"
    "EscalationLevel (t_SLA t') = EscalationLevel (t_SLA t) + 1"
    "messages (processOrganizationSLA io now settings db) = messages db"
proof -
  let ?org = "set_Org settings"
  define d1 where "d1 = (if sla_AutoCloseHours settings > 0 then autoCloseExpiredTransfers io ?org settings now db else db)"
  define d2 where "d2 = escalateTransfers io ?org settings now d1"
  define d3 where "d3 = (if sla_ResponseMinutes settings > 0 then markSLABreached io ?org now d2 else d2)"
  have ok1: "rows_ok d1"
    using ok autoCloseExpiredTransfers_evolves [of False db io ?org settings now]
    by (auto simp: d1_def evolves_def)
  have m1: "messages d1 = messages db" and m3: "messages d3 = messages db"
    by (simp_all add: d1_def d2_def d3_def passes_keep_messages)
  have "t \<in> set (transfers d1)"
    using t ok closing.loop_is_one_pass [of db io settings now "expired ?org now"] err
    by (auto simp: d1_def autoCloseExpiredTransfers_def rows_ok_def expired_def image_iff)
  moreover have "transfers d2 = map (\<lambda>r. if escalation_due ?org now r then escalate_row io settings now d1 r r else r) (transfers d1)"
    using ok1 err escalating.loop_is_one_pass [of d1 io settings now "escalation_due ?org now"]
    by (simp add: d2_def escalateTransfers_def rows_ok_def)
  ultimately have "t\<lparr>t_SLA := escalate_sla now t (t_SLA t)\<rparr> \<in> set (transfers d2)"
    using t err responded_messages [OF m1] by (force simp: escalate_row_def)
  then have r: "r \<in> set (transfers d2)" if "r = t\<lparr>t_SLA := escalate_sla now t (t_SLA t)\<rparr>" for r
    using that by simp
  define mark where "mark r = (if sla_ResponseMinutes settings > 0 \<and> breach_due ?org now r
      then r\<lparr>t_SLA := (t_SLA r)\<lparr>Breached := True, BreachedAt := Some now\<rparr>\<rparr> else r)" for r
  have "transfers d3 = map mark (transfers d2)"
    using err by (cases "sla_ResponseMinutes settings > 0")
      (simp_all add: d3_def markSLABreached_def mark_def [abs_def] map_idI)
  then have "mark (t\<lparr>t_SLA := escalate_sla now t (t_SLA t)\<rparr>) \<in> set (transfers d3)"
    using r by simp
  moreover have "same_but_sla t (mark (t\<lparr>t_SLA := escalate_sla now t (t_SLA t)\<rparr>))"
    "EscalationLevel (t_SLA (mark (t\<lparr>t_SLA := escalate_sla now t (t_SLA t)\<rparr>))) = EscalationLevel (t_SLA t) + 1"
    by (simp_all add: mark_def same_but_sla_def escalate_sla_def Let_def)
  moreover have "transfers (processOrganizationSLA io now settings db) = transfers d3"
    "messages (processOrganizationSLA io now settings db) = messages d3"
    using on by (simp_all add: processOrganizationSLA_def Let_def d1_def d2_def d3_def passes_keep_messages)
  ultimately show thesis
    using that m3 by metis
qed


text \<open>
  Two settings rows of one organisation escalate twice in one tick: the processor runs once per
  settings row with the SLA enabled (the organisation's default and one per WhatsApp account), not
  once per organisation. A transfer at level 0 that becomes due, whose agent has not answered, is at
  level 2 (critical) after a single tick: the warning period is skipped.
\<close>
theorem settings_rows_escalate_twice:
  assumes "transfer_reach counted db" "\<And>l. \<not> io_err io l"
    and "set_Org s1 = orgID" "set_Org s2 = orgID" "sla_EscalationMinutes s1 > 0" "sla_EscalationMinutes s2 > 0"
    and "t \<in> set (transfers db)" "escalation_due orgID (io_now io 1) t" "EscalationLevel (t_SLA t) = 0"
    and "\<not> agentRespondedSince io db t (customerLastSpokeAt io db t)" "\<not> past (io_now io 1) (ExpiresAt (t_SLA t))"
  shows "\<exists>t' \<in> set (transfers (processStaleTransfers io (Inr [s1, s2]) db)).
           t_ID t' = t_ID t \<and> EscalationLevel (t_SLA t') = 2"
proof -
  let ?now = "io_now io 1"
  let ?d1 = "processOrganizationSLA io ?now s1 db"
  have ok: "rows_ok db"
    by (rule transfer_reach_rows [OF assms(1)])
  obtain t1 where t1: "t1 \<in> set (transfers ?d1)" "same_but_sla t t1"
      "EscalationLevel (t_SLA t1) = EscalationLevel (t_SLA t) + 1" "messages ?d1 = messages db"
    using organization_pass_escalates [OF ok assms(2,7), of s1 ?now] assms by metis
  have ok1: "rows_ok ?d1"
    using ok processOrganizationSLA_evolves [of False db io ?now s1] by (auto simp: evolves_def)
  have "agentRespondedSince io ?d1 t1 = agentRespondedSince io db t" "customerLastSpokeAt io ?d1 t1 = customerLastSpokeAt io db t"
    using t1(2) unfolding responded_messages [OF t1(4)]
    by (simp_all add: same_but_sla_def agentRespondedSince_def customerLastSpokeAt_def fun_eq_iff split: option.splits)
  moreover have "escalation_due orgID ?now t1" "\<not> past ?now (ExpiresAt (t_SLA t1))"
    using t1(2,3) assms(8,9,11) by (simp_all add: escalation_due_def same_but_sla_def active_def)
  ultimately obtain t2 where "t2 \<in> set (transfers (processOrganizationSLA io ?now s2 ?d1))" "same_but_sla t1 t2"
      "EscalationLevel (t_SLA t2) = EscalationLevel (t_SLA t1) + 1"
    using organization_pass_escalates [OF ok1 assms(2) t1(1), of s2 ?now] assms by metis
  with t1 assms(9) show ?thesis
    by (auto simp: processStaleTransfers_def same_but_sla_def intro!: bexI [of _ t2])
qed

section \<open>Transfers without deadlines\<close>

text \<open>What a takeover by an agent's message leaves: assigned, and without any deadline.\<close>

definition no_deadlines :: "agent_transfer \<Rightarrow> bool" where
  "no_deadlines t \<longleftrightarrow> t_AgentID t \<noteq> None \<and> ExpiresAt (t_SLA t) = None \<and> EscalationAt (t_SLA t) = None"

lemma no_deadlines_never_due:
  assumes "no_deadlines t"
  shows "\<not> expired orgID now t" "\<not> escalation_due orgID now t" "\<not> breach_due orgID now t"
  using assms by (auto simp: no_deadlines_def expired_def escalation_due_def breach_due_def past_def)

lemma passes_leave_no_deadlines:
  assumes "rows_ok db" "t \<in> set (transfers db)" "no_deadlines t"
  shows "t \<in> set (transfers (autoCloseExpiredTransfers io orgID settings now db))"
    and "t \<in> set (transfers (escalateTransfers io orgID settings now db))"
    and "t \<in> set (transfers (markSLABreached io orgID now db))"
  using assms closing.loop_is_one_pass [of db io settings now "expired orgID now"]
    escalating.loop_is_one_pass [of db io settings now "escalation_due orgID now"] no_deadlines_never_due [of t orgID now]
  by (auto simp: rows_ok_def autoCloseExpiredTransfers_def escalateTransfers_def markSLABreached_def image_iff
      intro!: bexI [of _ t])

lemma rows_ok_evolves: "evolves False db db' \<Longrightarrow> rows_ok db \<Longrightarrow> rows_ok db'"
  by (simp add: evolves_def)

lemma organization_leaves_no_deadlines:
  assumes ok: "rows_ok db" and t: "t \<in> set (transfers db)" "no_deadlines t"
  shows "t \<in> set (transfers (processOrganizationSLA io now settings db))"
proof -
  let ?org = "set_Org settings"
  define d1 where "d1 = (if sla_AutoCloseHours settings > 0 then autoCloseExpiredTransfers io ?org settings now db else db)"
  define d2 where "d2 = (if sla_EscalationMinutes settings > 0 then escalateTransfers io ?org settings now d1 else d1)"
  define d3 where "d3 = (if sla_ResponseMinutes settings > 0 then markSLABreached io ?org now d2 else d2)"
  have 1: "rows_ok d1" "t \<in> set (transfers d1)"
    using ok t passes_leave_no_deadlines(1) rows_ok_evolves [OF autoCloseExpiredTransfers_evolves ok]
    by (auto simp: d1_def)
  have 2: "rows_ok d2" "t \<in> set (transfers d2)"
    using 1 t passes_leave_no_deadlines(2) rows_ok_evolves [OF escalateTransfers_evolves 1(1)]
    by (auto simp: d2_def)
  have "t \<in> set (transfers d3)"
    using 2 t passes_leave_no_deadlines(3) by (auto simp: d3_def)
  moreover have "transfers (processOrganizationSLA io now settings db) = transfers d3"
    by (simp add: processOrganizationSLA_def Let_def d1_def d2_def d3_def)
  ultimately show ?thesis by simp
qed

lemma tick_leaves_no_deadlines:
  assumes "rows_ok db" "t \<in> set (transfers db)" "no_deadlines t"
  shows "t \<in> set (transfers (processStaleTransfers io rows db))"
proof (cases rows)
  case (Inr ss)
  have "t \<in> set (transfers (fold (processOrganizationSLA io now) ss d))"
    if "rows_ok d" "t \<in> set (transfers d)" for now d
    using that
  proof (induction ss arbitrary: d)
    case (Cons s ss)
    then show ?case
      using organization_leaves_no_deadlines [OF Cons.prems assms(3)] rows_ok_evolves [OF processOrganizationSLA_evolves]
      by simp
  qed simp
  with Inr assms show ?thesis
    by (simp add: processStaleTransfers_def)
qed (simp add: processStaleTransfers_def assms)

lemma ticks_leave_no_deadlines:
  "rows_ok db \<Longrightarrow> t \<in> set (transfers db) \<Longrightarrow> no_deadlines t \<Longrightarrow>
     t \<in> set (transfers (fold (\<lambda>(io, rows). processStaleTransfers io rows) ticks db))"
proof (induction ticks arbitrary: db)
  case (Cons tick ticks)
  then show ?case
    using tick_leaves_no_deadlines [OF Cons.prems] rows_ok_evolves [OF processStaleTransfers_evolves]
    by (cases tick) simp
qed simp

section \<open>Silence during a hand-over\<close>

definition texts_to :: "string \<Rightarrow> agent_event list \<Rightarrow> agent_event list" where
  "texts_to contactID es = filter (\<lambda>e. case e of CustomerText c m \<Rightarrow> c = contactID | _ \<Rightarrow> False) es"

lemma texts_to_simps [simp]:
  "texts_to i [] = []" "texts_to i (es @ fs) = texts_to i es @ texts_to i fs"
  "texts_to i [CustomerText j m] = (if j = i then [CustomerText j m] else [])"
  by (simp_all add: texts_to_def)

lemma chat_passes_outbox [simp]:
  "outbox (ClearContactChatbotTracking i db) = outbox db"
  "outbox (UpdateContactChatbotMessage now i db) = outbox db"
  "outbox (clear_fallback i db) = outbox db"
  by (simp_all add: ClearContactChatbotTracking_def UpdateContactChatbotMessage_def clear_fallback_def)

lemma quiet_fold:
  assumes "\<And>c d. transfers (body c d) = transfers d"
    and "\<And>c d. hasActiveAgentTransfer io d orgID i \<Longrightarrow> texts_to i (outbox (body c d)) = texts_to i (outbox d)"
    and "hasActiveAgentTransfer io db orgID i"
  shows "texts_to i (outbox (fold body cs db)) = texts_to i (outbox db)"
  using assms(3)
proof (induction cs arbitrary: db)
  case (Cons c cs)
  have "hasActiveAgentTransfer io (body c db) orgID i"
    using Cons.prems by (simp add: hasActiveAgentTransfer_def assms(1))
  from Cons.IH [OF this] Cons.prems show ?case
    by (simp add: assms(2))
qed simp

text \<open>
  While a contact is handed over to a human, the processor sends no automatic chatbot text to the
  contact: neither inactivity reminders and closing messages nor deferred media replies.
\<close>
theorem quiet_while_transferred:
  assumes "hasActiveAgentTransfer io db orgID contactID"
  shows "texts_to contactID (outbox (processClientInactivity io orgID settings now db)) = texts_to contactID (outbox db) \<and>
         texts_to contactID (outbox (sendDeferredFallbacks io orgID settings now db)) = texts_to contactID (outbox db)"
proof
  have "transfers (inactivity_one io orgID settings now c d) = transfers d" for c d
    by (simp add: inactivity_one_def autoCloseChatbotSession_def sendChatbotReminder_def Let_def split: option.splits)
  moreover have "texts_to contactID (outbox (inactivity_one io orgID settings now c d)) = texts_to contactID (outbox d)"
    if "hasActiveAgentTransfer io d orgID contactID" for c d
    using that by (auto simp: inactivity_one_def autoCloseChatbotSession_def sendChatbotReminder_def Let_def split: option.splits)
  ultimately show "texts_to contactID (outbox (processClientInactivity io orgID settings now db)) = texts_to contactID (outbox db)"
    unfolding processClientInactivity_def using quiet_fold [of "inactivity_one io orgID settings now", OF _ _ assms] by simp
  have "transfers (fallback_one io orgID settings c d) = transfers d" for c d
    by (simp add: fallback_one_def clear_fallback_def UpdateContactChatbotMessage_def Let_def)
  moreover have "texts_to contactID (outbox (fallback_one io orgID settings c d)) = texts_to contactID (outbox d)"
    if "hasActiveAgentTransfer io d orgID contactID" for c d
    using that by (auto simp: fallback_one_def Let_def)
  ultimately show "texts_to contactID (outbox (sendDeferredFallbacks io orgID settings now db)) = texts_to contactID (outbox db)"
    unfolding sendDeferredFallbacks_def using quiet_fold [of "fallback_one io orgID settings", OF _ _ assms] by simp
qed


section \<open>Witnesses\<close>

theorem load_balanced_stays_even_witness:
  "agent_load (createTransferToTeam (sample_io 10) ''org'' ''shop'' sample_contact ''sales'' [] ''flow'' sample_db) ''org'' ''bob'' \<le>
   agent_load (createTransferToTeam (sample_io 10) ''org'' ''shop'' sample_contact ''sales'' [] ''flow'' sample_db) ''org'' ''ann'' + 1"
proof -
  let ?conf = "\<lparr>cfg_Strategy = ''load_balanced'', cfg_PerAgentTimeoutSecs = 0, cfg_MemberIDs = [''ann'', ''bob'']\<rparr>"
  have "GetTeamConfig (sample_io 10) ''sales'' sample_db =
      (Some ?conf, sample_db\<lparr>team_cache := (team_cache sample_db)(''sales'' := Some ?conf)\<rparr>)"
    by (simp add: GetTeamConfig_def sample_io_def sample_db_def Let_def)
  note even = load_balanced_stays_even [OF this]
  have av: "filterAvailable [''ann'', ''bob''] [] sample_db = [''ann'', ''bob'']"
    by code_simp
  have none: "transfers sample_db = []"
    by (simp add: sample_db_def)
  show ?thesis
    by (rule even) (simp_all add: av agent_load_def ChatLoadCounter_def none)
qed

theorem auto_close_is_one_pass_witness:
  "transfers (autoCloseExpiredTransfers (sample_io 20) ''org'' sample_settings (hours_ns 25) queued_db) =
     map (\<lambda>t. if expired ''org'' (hours_ns 25) t then auto_close_row (sample_io 20) sample_settings (hours_ns 25) queued_db t t else t)
       (transfers queued_db) \<and>
   map t_Status (transfers (autoCloseExpiredTransfers (sample_io 20) ''org'' sample_settings (hours_ns 25) queued_db)) = [''expired'']"
proof
  show "transfers (autoCloseExpiredTransfers (sample_io 20) ''org'' sample_settings (hours_ns 25) queued_db) =
     map (\<lambda>t. if expired ''org'' (hours_ns 25) t then auto_close_row (sample_io 20) sample_settings (hours_ns 25) queued_db t t else t)
       (transfers queued_db)"
    by (rule auto_close_is_one_pass [OF queued_reach [of True]]) (simp add: sample_io_def)
  show "map t_Status (transfers (autoCloseExpiredTransfers (sample_io 20) ''org'' sample_settings (hours_ns 25) queued_db)) = [''expired'']"
    by code_simp
qed

lemma overdue_sample:
  "map (\<lambda>t. (t_Org t, t_Status t, t_AgentID t, past (minutes_ns 20) (ResponseDeadline (t_SLA t))))
     (transfers (processOrganizationSLA (sample_io 20) (minutes_ns 20) sample_settings queued_db)) =
   [(''org'', ''active'', None, True)]"
  by code_simp

theorem overdue_transfers_marked_witness:
  "list_all (\<lambda>t. Breached (t_SLA t))
     (transfers (processOrganizationSLA (sample_io 20) (minutes_ns 20) sample_settings queued_db))"
proof -
  let ?db = "processOrganizationSLA (sample_io 20) (minutes_ns 20) sample_settings queued_db"
  obtain t where t: "transfers ?db = [t]" "t_Org t = ''org''" "active t" "t_AgentID t = None"
      "past (minutes_ns 20) (ResponseDeadline (t_SLA t))"
    using overdue_sample by (auto simp: map_eq_Cons_conv active_def)
  then have "Breached (t_SLA t)"
    by (intro overdue_transfers_marked [where db = queued_db and io = "sample_io 20" and settings = sample_settings and now = "minutes_ns 20"])
      (simp_all add: sample_settings_def sample_io_def)
  with t show ?thesis by simp
qed

lemma due_sample:
  "escalation_due ''org'' (minutes_ns 40) queued_row \<and> EscalationLevel (t_SLA queued_row) = 0 \<and>
   \<not> agentRespondedSince (sample_io (minutes_ns 40)) queued_db queued_row (customerLastSpokeAt (sample_io (minutes_ns 40)) queued_db queued_row) \<and>
   \<not> past (minutes_ns 40) (ExpiresAt (t_SLA queued_row))"
  by code_simp

theorem settings_rows_escalate_twice_witness:
  "\<exists>t' \<in> set (transfers (processStaleTransfers (sample_io (minutes_ns 40)) (Inr [sample_settings, sample_settings]) queued_db)).
     t_ID t' = ''t1'' \<and> EscalationLevel (t_SLA t') = 2"
proof -
  have "\<exists>t' \<in> set (transfers (processStaleTransfers (sample_io (minutes_ns 40)) (Inr [sample_settings, sample_settings]) queued_db)).
     t_ID t' = t_ID queued_row \<and> EscalationLevel (t_SLA t') = 2"
    by (rule settings_rows_escalate_twice [OF queued_reach [of True], where orgID = "''org''"])
      (use due_sample queued_rows in \<open>simp_all add: sample_settings_def sample_io_def\<close>)
  with queued_rows show ?thesis by simp
qed

theorem quiet_while_transferred_witness:
  "texts_to ''c1'' (outbox (processClientInactivity (sample_io 20) ''org'' sample_settings (hours_ns 9) queued_db)) =
   texts_to ''c1'' (outbox queued_db)"
proof -
  have "hasActiveAgentTransfer (sample_io 20) queued_db ''org'' ''c1''"
    by code_simp
  from quiet_while_transferred [OF this] show ?thesis by blast
qed

end
