(* ===== verification/Crypto.thy ===== *)
theory Crypto
  imports Go_Prelude
begin

text \<open>
  \<open>internal/crypto/crypto.go\<close>: secrets are stored as \<open>enc:\<close> followed by the base64 of nonce and
  ciphertext. Base64 (\<open>encoding/base64\<close>, standard alphabet with padding) is modelled; AES-256-GCM
  and the random source are the parameter record \<open>aead\<close>.
\<close>

section \<open>Base64\<close>

definition b64_alphabet :: string where
  "b64_alphabet = ''ABCDEFGHIJKLMNOPQRSTUVWXYZabcdefghijklmnopqrstuvwxyz0123456789+/''"

definition b64_char :: "nat \<Rightarrow> char" where
  "b64_char n = b64_alphabet ! n"

definition b64_val :: "char \<Rightarrow> nat option" where
  "b64_val c = map_of (zip b64_alphabet [0..<64]) c"

fun EncodeToString :: "string \<Rightarrow> string" where
  "EncodeToString [] = []"
| "EncodeToString [a] = [b64_char (byte a div 4), b64_char (byte a mod 4 * 16), CHR ''='', CHR ''='']"
| "EncodeToString [a, b] =
     [b64_char (byte a div 4), b64_char (byte a mod 4 * 16 + byte b div 16), b64_char (byte b mod 16 * 4), CHR ''='']"
| "EncodeToString (a # b # c # rest) =
     b64_char (byte a div 4) # b64_char (byte a mod 4 * 16 + byte b div 16) #
     b64_char (byte b mod 16 * 4 + byte c div 64) # b64_char (byte c mod 64) # EncodeToString rest"

text \<open>One quantum of four characters; line breaks were removed before.\<close>

fun decode_quanta :: "string \<Rightarrow> string option" where
  "decode_quanta [] = Some []"
| "decode_quanta (w # x # y # z # rest) =
     (case (b64_val w, b64_val x) of
        (Some p, Some q) \<Rightarrow>
          if y = CHR ''='' then
            (if z = CHR ''='' \<and> rest = [] then Some [char_of (p * 4 + q div 16)] else None)
          else
            (case b64_val y of
               None \<Rightarrow> None
             | Some r \<Rightarrow>
                 if z = CHR ''='' then
                   (if rest = [] then Some [char_of (p * 4 + q div 16), char_of (q mod 16 * 16 + r div 4)] else None)
                 else
                   (case b64_val z of
                      None \<Rightarrow> None
                    | Some s \<Rightarrow>
                        map_option (\<lambda>bs. char_of (p * 4 + q div 16) # char_of (q mod 16 * 16 + r div 4) #
                                         char_of (r mod 4 * 64 + s) # bs) (decode_quanta rest)))
      | _ \<Rightarrow> None)"
| "decode_quanta _ = None"

definition DecodeString :: "string \<Rightarrow> string option" where
  "DecodeString s = decode_quanta (filter (\<lambda>c. c \<noteq> CHR 0x0A \<and> c \<noteq> CHR 0x0D) s)"

lemma b64_alphabet_all:
  "list_all (\<lambda>n. b64_val (b64_char n) = Some n \<and> b64_char n \<notin> {CHR ''='', CHR 0x0A, CHR 0x0D}) [0..<64]"
  by code_simp

lemma b64_val_char [simp]:
  "n < 64 \<Longrightarrow> b64_val (b64_char n) = Some n"
  "n < 64 \<Longrightarrow> b64_char n \<noteq> CHR ''=''" "n < 64 \<Longrightarrow> b64_char n \<noteq> CHR 0x0A" "n < 64 \<Longrightarrow> b64_char n \<noteq> CHR 0x0D"
  using b64_alphabet_all by (auto simp: list_all_iff)

lemma byte_less [simp]: "byte c < 256"
  by (metis of_char_mod_256 mod_less_divisor zero_less_numeral)

lemma byte_parts [simp]:
  "byte c div 4 < 64" "byte c mod 64 < 64" "byte c mod 4 * 16 < 64" "byte c mod 16 * 4 < 64"
  "byte c mod 4 * 16 + byte d div 16 < 64" "byte c mod 16 * 4 + byte d div 64 < 64"
proof -
  have c: "byte c < 256" "byte d < 256" by simp_all
  then show "byte c div 4 < 64" "byte c mod 64 < 64" "byte c mod 4 * 16 < 64" "byte c mod 16 * 4 < 64"
    by (simp_all add: less_mult_imp_div_less)
  have "byte d div 16 < 16" "byte d div 64 < 4" "byte c mod 4 < 4" "byte c mod 16 < 16"
    using c by (simp_all add: less_mult_imp_div_less)
  then show "byte c mod 4 * 16 + byte d div 16 < 64" "byte c mod 16 * 4 + byte d div 64 < 64"
    by linarith+
qed

lemma byte_join:
  "byte a div 4 * 4 + (byte a mod 4 * 16) div 16 = byte a"
  "byte a div 4 * 4 + (byte a mod 4 * 16 + byte b div 16) div 16 = byte a"
  "(byte a mod 4 * 16 + byte b div 16) mod 16 * 16 + (byte b mod 16 * 4) div 4 = byte b"
  "(byte a mod 4 * 16 + byte b div 16) mod 16 * 16 + (byte b mod 16 * 4 + byte c div 64) div 4 = byte b"
  "(byte b mod 16 * 4 + byte c div 64) mod 4 * 64 + byte c mod 64 = byte c"
proof -
  have "byte b div 16 < 16" "byte c div 64 < 4"
    by (simp_all add: less_mult_imp_div_less)
  then show "byte a div 4 * 4 + (byte a mod 4 * 16) div 16 = byte a"
    "byte a div 4 * 4 + (byte a mod 4 * 16 + byte b div 16) div 16 = byte a"
    "(byte a mod 4 * 16 + byte b div 16) mod 16 * 16 + (byte b mod 16 * 4) div 4 = byte b"
    "(byte a mod 4 * 16 + byte b div 16) mod 16 * 16 + (byte b mod 16 * 4 + byte c div 64) div 4 = byte b"
    "(byte b mod 16 * 4 + byte c div 64) mod 4 * 64 + byte c mod 64 = byte c"
    by simp_all
qed

lemma decode_encode_quanta: "decode_quanta (EncodeToString s) = Some s"
  by (induction s rule: EncodeToString.induct) (simp_all only: EncodeToString.simps decode_quanta.simps
      b64_val_char byte_parts byte_join char_of_char option.case prod.case if_True if_False option.map simp_thms)

lemma encode_no_breaks: "list_all (\<lambda>c. c \<noteq> CHR 0x0A \<and> c \<noteq> CHR 0x0D) (EncodeToString s)"
  by (induction s rule: EncodeToString.induct) simp_all

lemma base64_roundtrip: "DecodeString (EncodeToString s) = Some s"
  using encode_no_breaks [of s] by (simp add: DecodeString_def decode_encode_quanta list_all_iff filter_True)

section \<open>Encryption of values\<close>

record aead =
  gcm_Seal :: "string \<Rightarrow> string \<Rightarrow> string \<Rightarrow> string"
  gcm_Open :: "string \<Rightarrow> string \<Rightarrow> string \<Rightarrow> string option"

definition nonceSize :: nat where
  "nonceSize = 12"

definition enc_prefix :: string where
  "enc_prefix = ''enc:''"

definition deriveKey :: "string \<Rightarrow> string" where
  "deriveKey key = take 32 (key @ replicate 32 (CHR 0x00))"

definition IsEncrypted :: "string \<Rightarrow> bool" where
  "IsEncrypted v \<longleftrightarrow> length enc_prefix \<le> length v \<and> take (length enc_prefix) v = enc_prefix"

text \<open>The last argument is what the random source delivers, \<open>None\<close> when reading it fails.\<close>

definition Encrypt :: "aead \<Rightarrow> string \<Rightarrow> string \<Rightarrow> string option \<Rightarrow> string option" where
  "Encrypt a plaintext key rnd =
     (if key = [] \<or> plaintext = [] then Some plaintext
      else
        (case rnd of
           None \<Rightarrow> None
         | Some nonce \<Rightarrow> Some (enc_prefix @ EncodeToString (nonce @ gcm_Seal a (deriveKey key) nonce plaintext))))"

definition Decrypt :: "aead \<Rightarrow> string \<Rightarrow> string \<Rightarrow> string option" where
  "Decrypt a ciphertext key =
     (if key = [] \<or> ciphertext = [] then Some ciphertext
      else if \<not> IsEncrypted ciphertext then Some ciphertext
      else
        (case DecodeString (drop (length enc_prefix) ciphertext) of
           None \<Rightarrow> None
         | Some data \<Rightarrow>
             if length data < nonceSize then None
             else gcm_Open a (deriveKey key) (take nonceSize data) (drop nonceSize data)))"

definition DecryptFields :: "aead \<Rightarrow> string \<Rightarrow> string list \<Rightarrow> string list" where
  "DecryptFields a key = map (\<lambda>f. case Decrypt a f key of None \<Rightarrow> f | Some dec \<Rightarrow> dec)"

text \<open>
  Fields in order, with what the random source delivers for each. The first error stops the loop; the
  fields encrypted before stay changed, so both results carry the fields.
\<close>

fun EncryptFields :: "aead \<Rightarrow> string \<Rightarrow> (string option \<times> string option) list \<Rightarrow> bool \<times> string option list" where
  "EncryptFields a key [] = (True, [])"
| "EncryptFields a key ((f, rnd) # rest) =
     (case f of
        None \<Rightarrow> map_prod id ((#) None) (EncryptFields a key rest)
      | Some v \<Rightarrow>
          if IsEncrypted v then map_prod id ((#) (Some v)) (EncryptFields a key rest)
          else
            (case Encrypt a v key rnd of
               None \<Rightarrow> (False, Some v # map fst rest)
             | Some enc \<Rightarrow> map_prod id ((#) (Some enc)) (EncryptFields a key rest)))"

text \<open>What the code relies on of AES-GCM: opening what was sealed gives the plaintext back.\<close>

definition authentic :: "aead \<Rightarrow> bool" where
  "authentic a \<longleftrightarrow> (\<forall>k n p. length k = 32 \<longrightarrow> length n = nonceSize \<longrightarrow> gcm_Open a k n (gcm_Seal a k n p) = Some p)"

lemma length_deriveKey [simp]: "length (deriveKey key) = 32"
  by (simp add: deriveKey_def)

lemma IsEncrypted_enc [simp]: "IsEncrypted (enc_prefix @ s)"
  by (simp add: IsEncrypted_def)

lemma Decrypt_Encrypt:
  assumes "authentic a" "Encrypt a v key rnd = Some c" "\<And>n. rnd = Some n \<Longrightarrow> length n = nonceSize" "\<not> IsEncrypted v"
  shows "Decrypt a c key = Some v \<and> (key \<noteq> [] \<and> v \<noteq> [] \<longrightarrow> IsEncrypted c)"
proof (cases "key = [] \<or> v = []")
  case True
  with assms(2) show ?thesis
    by (auto simp: Encrypt_def Decrypt_def)
next
  case False
  with assms(2) obtain n where n: "rnd = Some n"
    and c: "c = enc_prefix @ EncodeToString (n @ gcm_Seal a (deriveKey key) n v)"
    by (auto simp: Encrypt_def split: option.splits)
  have "enc_prefix \<noteq> []"
    by (simp add: enc_prefix_def)
  with False c n assms(1,3) show ?thesis
    by (simp add: Decrypt_def base64_roundtrip authentic_def)
qed

text \<open>
  C35. Secrets survive storage: for a key and values that do not themselves start with the marker
  \<open>enc:\<close>, when \<open>EncryptFields\<close> succeeds, \<open>DecryptFields\<close> gives the original values back (base64 included),
  and encrypting the stored fields again changes nothing, so a struct can be saved repeatedly.
\<close>
theorem fields_roundtrip:
  assumes "authentic a" "EncryptFields a key fs = (True, map Some enc)"
    and "\<And>f rnd. (f, rnd) \<in> set fs \<Longrightarrow> (\<exists>v. f = Some v \<and> \<not> IsEncrypted v) \<and> (\<forall>n. rnd = Some n \<longrightarrow> length n = nonceSize)"
  shows "map Some (DecryptFields a key enc) = map fst fs \<and>
         (key \<noteq> [] \<longrightarrow> EncryptFields a key (map (\<lambda>c. (Some c, None)) enc) = (True, map Some enc))"
  using assms(2,3)
proof (induction fs arbitrary: enc)
  case Nil
  then show ?case by (simp add: DecryptFields_def)
next
  case (Cons p fs)
  obtain f rnd where p: "p = (f, rnd)" by fastforce
  from Cons.prems(2) [of f rnd] obtain v where v: "f = Some v" "\<not> IsEncrypted v"
    "\<And>n. rnd = Some n \<Longrightarrow> length n = nonceSize"
    by (auto simp: p)
  from Cons.prems(1) obtain c enc' where c: "Encrypt a v key rnd = Some c" "enc = c # enc'"
    "EncryptFields a key fs = (True, map Some enc')"
    using v by (cases enc; cases "EncryptFields a key fs") (auto simp: p split: option.splits)
  have IH: "map Some (DecryptFields a key enc') = map fst fs \<and>
      (key \<noteq> [] \<longrightarrow> EncryptFields a key (map (\<lambda>c. (Some c, None)) enc') = (True, map Some enc'))"
    by (rule Cons.IH [OF c(3)]) (use Cons.prems(2) in auto)
  have "Decrypt a c key = Some v \<and> (key \<noteq> [] \<and> v \<noteq> [] \<longrightarrow> IsEncrypted c)"
    by (rule Decrypt_Encrypt [OF assms(1) c(1)]) (use v in auto)
  moreover have "c = []" if "v = []"
    using c(1) that by (simp add: Encrypt_def)
  ultimately show ?case
    using IH v c(2) by (cases "v = []") (auto simp: p DecryptFields_def Encrypt_def)
qed

definition toy_aead :: aead where
  "toy_aead = \<lparr>gcm_Seal = (\<lambda>k n p. rev p), gcm_Open = (\<lambda>k n c. Some (rev c))\<rparr>"

theorem fields_roundtrip_witness:
  "\<exists>enc. EncryptFields toy_aead ''k'' [(Some ''token'', Some ''abcdefghijkl'')] = (True, map Some enc) \<and>
     map Some (DecryptFields toy_aead ''k'' enc) = [Some ''token'']"
proof -
  have a: "authentic toy_aead"
    by (simp add: authentic_def toy_aead_def)
  have run: "EncryptFields toy_aead ''k'' [(Some ''token'', Some ''abcdefghijkl'')] = (True, map Some [''enc:YWJjZGVmZ2hpamtsbmVrb3Q=''])"
    by code_simp
  have "map Some (DecryptFields toy_aead ''k'' [''enc:YWJjZGVmZ2hpamtsbmVrb3Q='']) = map fst [(Some ''token'', Some ''abcdefghijkl'')]"
    by (rule conjunct1 [OF fields_roundtrip [OF a run]]) (auto simp: IsEncrypted_def enc_prefix_def nonceSize_def)
  with run show ?thesis
    by (intro exI [of _ "[''enc:YWJjZGVmZ2hpamtsbmVrb3Q='']"]) (simp del: EncryptFields.simps)
qed

end
