(* ===== verification/Hub.thy ===== *)
theory Hub
  imports Go_Prelude
begin

text \<open>
  \<open>internal/websocket/hub.go\<close>: the registry of live browser connections and the delivery of
  broadcasts. The nested maps are association lists (the iteration order is the list order). Each
  connection has a send channel with room for 256 messages; sending on a closed channel is a panic
  in Go, recorded in \<open>panicked\<close>. \<open>Run\<close> handles one request at a time: \<open>hub_step\<close>.
\<close>

record ws_client =
  ws_id :: nat
  ws_org :: string
  ws_user :: string

record BroadcastMessage =
  bm_OrgID :: string
  bm_UserID :: string
  bm_ContactID :: string
  bm_Data :: "string option"

type_synonym user_map = "(string \<times> ws_client list) list"

record hub =
  clients :: "(string \<times> user_map) list"
  currentContact :: "nat \<Rightarrow> string option"
  sendbuf :: "nat \<Rightarrow> string list"
  sendclosed :: "nat \<Rightarrow> bool"
  bcast :: "BroadcastMessage list"
  panicked :: bool

definition chan_cap :: nat where
  "chan_cap = 256"

section \<open>Registration\<close>

definition registerClient :: "ws_client \<Rightarrow> hub \<Rightarrow> hub" where
  "registerClient c h =
     (let orgClients = (case map_of (clients h) (ws_org c) of None \<Rightarrow> [] | Some us \<Rightarrow> us);
          userClients = (case map_of orgClients (ws_user c) of None \<Rightarrow> [] | Some cs \<Rightarrow> cs);
          userClients' = (if c \<in> set userClients then userClients else userClients @ [c])
      in h\<lparr>clients := AList.update (ws_org c) (AList.update (ws_user c) userClients' orgClients) (clients h)\<rparr>)"

definition unregisterClient :: "ws_client \<Rightarrow> hub \<Rightarrow> hub" where
  "unregisterClient c h =
     (case map_of (clients h) (ws_org c) of
        None \<Rightarrow> h
      | Some orgClients \<Rightarrow>
          (case map_of orgClients (ws_user c) of
             None \<Rightarrow> h
           | Some userClients \<Rightarrow>
               if c \<notin> set userClients then h
               else
                 (let userClients' = filter (\<lambda>x. x \<noteq> c) userClients;
                      orgClients' = (if userClients' = [] then AList.delete (ws_user c) orgClients
                                     else AList.update (ws_user c) userClients' orgClients)
                  in h\<lparr>sendclosed := (sendclosed h)(ws_id c := True),
                       clients := (if orgClients' = [] then AList.delete (ws_org c) (clients h)
                                   else AList.update (ws_org c) orgClients' (clients h))\<rparr>)))"

section \<open>Queries\<close>

definition countClients :: "hub \<Rightarrow> nat" where
  "countClients h = sum_list (map (\<lambda>(org, us). sum_list (map (\<lambda>(u, cs). length cs) us)) (clients h))"

definition IsUserOnline :: "string \<Rightarrow> string \<Rightarrow> hub \<Rightarrow> bool" where
  "IsUserOnline orgID userID h =
     (case map_of (clients h) orgID of
        None \<Rightarrow> False
      | Some us \<Rightarrow> (case map_of us userID of None \<Rightarrow> False | Some cs \<Rightarrow> length cs > 0))"

definition OnlineUserIDs :: "string \<Rightarrow> hub \<Rightarrow> string list" where
  "OnlineUserIDs orgID h =
     (case map_of (clients h) orgID of
        None \<Rightarrow> []
      | Some us \<Rightarrow> map fst (filter (\<lambda>(u, cs). length cs > 0) us))"

definition FilterOnlineUsers :: "string \<Rightarrow> string list \<Rightarrow> hub \<Rightarrow> string list" where
  "FilterOnlineUsers orgID userIDs h =
     (case map_of (clients h) orgID of
        None \<Rightarrow> []
      | Some us \<Rightarrow> filter (\<lambda>uid. case map_of us uid of None \<Rightarrow> False | Some cs \<Rightarrow> length cs > 0) userIDs)"

section \<open>Delivery\<close>

text \<open>\<open>select { case client.send <- data: default: }\<close>\<close>

definition try_send :: "string \<Rightarrow> ws_client \<Rightarrow> hub \<Rightarrow> hub" where
  "try_send data c h =
     (if sendclosed h (ws_id c) then h\<lparr>panicked := True\<rparr>
      else if length (sendbuf h (ws_id c)) < chan_cap
      then h\<lparr>sendbuf := (sendbuf h)(ws_id c := sendbuf h (ws_id c) @ [data])\<rparr>
      else h)"

definition views_contact :: "hub \<Rightarrow> BroadcastMessage \<Rightarrow> ws_client \<Rightarrow> bool" where
  "views_contact h msg c \<longleftrightarrow>
     \<not> (bm_ContactID msg \<noteq> [] \<and> currentContact h (ws_id c) \<noteq> None \<and> currentContact h (ws_id c) \<noteq> Some (bm_ContactID msg))"

definition broadcast_targets :: "hub \<Rightarrow> BroadcastMessage \<Rightarrow> user_map \<Rightarrow> ws_client list" where
  "broadcast_targets h msg orgClients =
     (if bm_UserID msg \<noteq> [] then
        (case map_of orgClients (bm_UserID msg) of None \<Rightarrow> [] | Some cs \<Rightarrow> cs)
      else filter (views_contact h msg) (concat (map snd orgClients)))"

definition broadcastMessage :: "BroadcastMessage \<Rightarrow> hub \<Rightarrow> hub" where
  "broadcastMessage msg h =
     (case map_of (clients h) (bm_OrgID msg) of
        None \<Rightarrow> h
      | Some orgClients \<Rightarrow>
          (case bm_Data msg of
             None \<Rightarrow> h
           | Some data \<Rightarrow> fold (try_send data) (broadcast_targets h msg orgClients) h))"

definition Broadcast :: "BroadcastMessage \<Rightarrow> hub \<Rightarrow> hub" where
  "Broadcast msg h = (if length (bcast h) < chan_cap then h\<lparr>bcast := bcast h @ [msg]\<rparr> else h)"

definition BroadcastToOrg :: "string \<Rightarrow> string option \<Rightarrow> hub \<Rightarrow> hub" where
  "BroadcastToOrg orgID data = Broadcast \<lparr>bm_OrgID = orgID, bm_UserID = [], bm_ContactID = [], bm_Data = data\<rparr>"

definition BroadcastToContact :: "string \<Rightarrow> string \<Rightarrow> string option \<Rightarrow> hub \<Rightarrow> hub" where
  "BroadcastToContact orgID contactID data =
     Broadcast \<lparr>bm_OrgID = orgID, bm_UserID = [], bm_ContactID = contactID, bm_Data = data\<rparr>"

definition BroadcastToUser :: "string \<Rightarrow> string \<Rightarrow> string option \<Rightarrow> hub \<Rightarrow> hub" where
  "BroadcastToUser orgID userID data =
     Broadcast \<lparr>bm_OrgID = orgID, bm_UserID = userID, bm_ContactID = [], bm_Data = data\<rparr>"

definition BroadcastToUsers :: "string \<Rightarrow> string list \<Rightarrow> string option \<Rightarrow> hub \<Rightarrow> hub" where
  "BroadcastToUsers orgID userIDs data = fold (\<lambda>u. BroadcastToUser orgID u data) userIDs"

section \<open>The set of connections\<close>

definition hub_set :: "hub \<Rightarrow> ws_client set" where
  "hub_set h = (\<Union>(org, us) \<in> set (clients h). \<Union>(u, cs) \<in> set us. set cs)"

definition users_ok :: "string \<Rightarrow> user_map \<Rightarrow> bool" where
  "users_ok org us \<longleftrightarrow>
     us \<noteq> [] \<and> distinct (map fst us) \<and>
     (\<forall>(u, cs) \<in> set us. cs \<noteq> [] \<and> distinct cs \<and> (\<forall>c \<in> set cs. ws_org c = org \<and> ws_user c = u))"

definition hub_ok :: "hub \<Rightarrow> bool" where
  "hub_ok h \<longleftrightarrow>
     distinct (map fst (clients h)) \<and> (\<forall>(org, us) \<in> set (clients h). users_ok org us) \<and>
     inj_on ws_id (hub_set h) \<and> (\<forall>c \<in> hub_set h. \<not> sendclosed h (ws_id c)) \<and>
     (\<forall>i. length (sendbuf h i) \<le> chan_cap) \<and> \<not> panicked h"

lemma lookup_set:
  assumes "distinct (map fst (clients h))" "\<forall>(org, us) \<in> set (clients h). users_ok org us"
  shows "c \<in> hub_set h \<longleftrightarrow>
    (\<exists>us cs. map_of (clients h) (ws_org c) = Some us \<and> map_of us (ws_user c) = Some cs \<and> c \<in> set cs)"
proof
  assume "c \<in> hub_set h"
  then obtain org us u cs where m: "(org, us) \<in> set (clients h)" "(u, cs) \<in> set us" "c \<in> set cs"
    by (auto simp: hub_set_def)
  with assms have "users_ok org us"
    by auto
  with m(2,3) have "ws_org c = org" "ws_user c = u" "distinct (map fst us)"
    by (auto simp: users_ok_def)
  with m assms(1) show "\<exists>us cs. map_of (clients h) (ws_org c) = Some us \<and> map_of us (ws_user c) = Some cs \<and> c \<in> set cs"
    by auto
next
  assume "\<exists>us cs. map_of (clients h) (ws_org c) = Some us \<and> map_of us (ws_user c) = Some cs \<and> c \<in> set cs"
  then show "c \<in> hub_set h"
    by (fastforce simp: hub_set_def dest!: map_of_SomeD)
qed

lemma hub_set_iff:
  "hub_ok h \<Longrightarrow> c \<in> hub_set h \<longleftrightarrow>
    (\<exists>us cs. map_of (clients h) (ws_org c) = Some us \<and> map_of us (ws_user c) = Some cs \<and> c \<in> set cs)"
  by (rule lookup_set) (auto simp: hub_ok_def)

lemma map_of_users_ok: "hub_ok h \<Longrightarrow> map_of (clients h) org = Some us \<Longrightarrow> users_ok org us"
  by (auto simp: hub_ok_def dest!: map_of_SomeD)

lemma users_ok_client:
  "users_ok org us \<Longrightarrow> map_of us u = Some cs \<Longrightarrow> distinct cs \<and> cs \<noteq> [] \<and> (\<forall>c \<in> set cs. ws_org c = org \<and> ws_user c = u)"
  by (auto simp: users_ok_def dest!: map_of_SomeD)

text \<open>Updating or deleting an entry keeps what holds of every entry.\<close>

lemma update_entries:
  "(\<forall>(k, v) \<in> set m. P k v) \<Longrightarrow> P k' v' \<Longrightarrow> \<forall>(k, v) \<in> set (AList.update k' v' m). P k v"
  by (induction m) (auto split: if_splits)

lemma delete_entries: "(\<forall>(k, v) \<in> set m. P k v) \<Longrightarrow> \<forall>(k, v) \<in> set (AList.delete k' m). P k v"
  by (induction m) (auto split: if_splits)

lemma AList_update_nonempty [simp]: "AList.update k v m \<noteq> []"
  by (cases m) auto

lemma map_of_delete: "map_of (AList.delete k m) = (map_of m)(k := None)"
  by (simp add: delete_conv')

lemma users_ok_update:
  assumes "us = [] \<or> users_ok org us" "cs \<noteq> []" "distinct cs" "\<forall>c \<in> set cs. ws_org c = org \<and> ws_user c = u"
  shows "users_ok org (AList.update u cs us)"
  unfolding users_ok_def
proof (intro conjI)
  show "distinct (map fst (AList.update u cs us))"
    using assms(1) by (auto simp: users_ok_def intro: distinct_update)
  show "\<forall>(u, cs) \<in> set (AList.update u cs us). cs \<noteq> [] \<and> distinct cs \<and> (\<forall>c \<in> set cs. ws_org c = org \<and> ws_user c = u)"
    using assms by (intro update_entries) (auto simp: users_ok_def)
qed simp

lemma users_ok_delete:
  "users_ok org us \<Longrightarrow> AList.delete u us \<noteq> [] \<Longrightarrow> users_ok org (AList.delete u us)"
  unfolding users_ok_def by (intro conjI delete_entries) (auto simp: distinct_delete)

definition hub_structure :: "(string \<times> user_map) list \<Rightarrow> bool" where
  "hub_structure m \<longleftrightarrow> distinct (map fst m) \<and> (\<forall>(org, us) \<in> set m. users_ok org us)"

lemma hub_ok_structure: "hub_ok h \<Longrightarrow> hub_structure (clients h)"
  by (simp add: hub_ok_def hub_structure_def)

lemma hub_structure_update:
  "hub_structure m \<Longrightarrow> users_ok org us \<Longrightarrow> hub_structure (AList.update org us m)"
  unfolding hub_structure_def by (intro conjI update_entries) (auto intro: distinct_update)

lemma hub_structure_delete: "hub_structure m \<Longrightarrow> hub_structure (AList.delete org m)"
  unfolding hub_structure_def by (intro conjI delete_entries) (auto simp: distinct_delete)

text \<open>The connections of one user, none when the user or the organisation has no entry.\<close>

definition conns :: "(string \<times> user_map) list \<Rightarrow> string \<Rightarrow> string \<Rightarrow> ws_client list" where
  "conns m org u =
     (case map_of m org of None \<Rightarrow> []
      | Some us \<Rightarrow> (case map_of us u of None \<Rightarrow> [] | Some cs \<Rightarrow> cs))"

lemma conns_iff:
  "c \<in> set (conns m org u) \<longleftrightarrow> (\<exists>us cs. map_of m org = Some us \<and> map_of us u = Some cs \<and> c \<in> set cs)"
  unfolding conns_def by (cases "map_of m org"; cases "map_of (the (map_of m org)) u"; simp)

lemma hub_set_conns: "hub_structure (clients h) \<Longrightarrow> c \<in> hub_set h \<longleftrightarrow> c \<in> set (conns (clients h) (ws_org c) (ws_user c))"
  unfolding conns_iff hub_structure_def by (rule lookup_set) auto

lemma hub_structure_users: "hub_structure m \<Longrightarrow> map_of m org = Some us \<Longrightarrow> users_ok org us"
  by (auto simp: hub_structure_def dest!: map_of_SomeD)

lemma conns_ok:
  assumes "hub_structure m"
  shows "distinct (conns m org u)" and "c \<in> set (conns m org u) \<Longrightarrow> ws_org c = org \<and> ws_user c = u"
  using hub_structure_users [OF assms] users_ok_client unfolding conns_def
  by (cases "map_of m org"; cases "map_of (the (map_of m org)) u"; simp; blast)+

lemma registerClient_conns:
  "conns (clients (registerClient c h)) org u =
     (let cs = conns (clients h) org u
      in if org = ws_org c \<and> u = ws_user c \<and> c \<notin> set cs then cs @ [c] else cs)"
  unfolding registerClient_def conns_def Let_def
  by (cases "map_of (clients h) (ws_org c)"; cases "map_of (the (map_of (clients h) (ws_org c))) (ws_user c)")
     (simp_all add: update_conv')

lemma registerClient_structure:
  assumes "hub_structure (clients h)"
  shows "hub_structure (clients (registerClient c h))"
proof -
  define us where "us = (case map_of (clients h) (ws_org c) of None \<Rightarrow> [] | Some us \<Rightarrow> us)"
  define cs where "cs = (case map_of us (ws_user c) of None \<Rightarrow> [] | Some cs \<Rightarrow> cs)"
  have cs: "cs = conns (clients h) (ws_org c) (ws_user c)"
    unfolding cs_def us_def conns_def by (cases "map_of (clients h) (ws_org c)") simp_all
  have us: "us = [] \<or> users_ok (ws_org c) us"
    using hub_structure_users [OF assms] unfolding us_def by (cases "map_of (clients h) (ws_org c)") simp_all
  have mem: "\<And>d. d \<in> set cs \<Longrightarrow> ws_org d = ws_org c \<and> ws_user d = ws_user c" and "distinct cs"
    using conns_ok [OF assms] unfolding cs by blast+
  have "users_ok (ws_org c) (AList.update (ws_user c) (if c \<in> set cs then cs else cs @ [c]) us)"
  proof (rule users_ok_update [OF us])
    show "distinct (if c \<in> set cs then cs else cs @ [c])"
      using \<open>distinct cs\<close> by simp
    show "\<forall>d \<in> set (if c \<in> set cs then cs else cs @ [c]). ws_org d = ws_org c \<and> ws_user d = ws_user c"
    proof
      fix d
      assume "d \<in> set (if c \<in> set cs then cs else cs @ [c])"
      then have "d \<in> set cs \<or> d = c"
        by (cases "c \<in> set cs") auto
      then show "ws_org d = ws_org c \<and> ws_user d = ws_user c"
        using mem by blast
    qed
  qed auto
  moreover have "clients (h\<lparr>clients := m\<rparr>) = m" for m
    by simp
  ultimately show ?thesis
    unfolding registerClient_def Let_def us_def cs_def using hub_structure_update [OF assms] by metis
qed

lemma registerClient_set:
  assumes "hub_structure (clients h)"
  shows "hub_set (registerClient c h) = insert c (hub_set h)"
  using hub_set_conns [OF assms] hub_set_conns [OF registerClient_structure [OF assms]]
  by (auto simp: registerClient_conns Let_def split: if_splits)

lemma registerClient_frame [simp]:
  "sendclosed (registerClient c h) = sendclosed h" "sendbuf (registerClient c h) = sendbuf h"
  "panicked (registerClient c h) = panicked h" "currentContact (registerClient c h) = currentContact h"
  by (simp_all add: registerClient_def Let_def)

lemma hub_ok_iff:
  "hub_ok h \<longleftrightarrow> hub_structure (clients h) \<and> inj_on ws_id (hub_set h) \<and> (\<forall>c \<in> hub_set h. \<not> sendclosed h (ws_id c)) \<and>
     (\<forall>i. length (sendbuf h i) \<le> chan_cap) \<and> \<not> panicked h"
  by (auto simp: hub_ok_def hub_structure_def)

lemma registerClient_ok:
  assumes "hub_ok h" "\<not> sendclosed h (ws_id c)" "\<forall>d \<in> hub_set h. ws_id d = ws_id c \<longrightarrow> d = c"
  shows "hub_ok (registerClient c h)"
  using assms registerClient_set [of h c] registerClient_structure [of h c]
  by (auto simp: hub_ok_iff inj_on_def)


text \<open>The connections a user is left with when one of them goes.\<close>

lemma unregisterClient_found:
  assumes "hub_structure (clients h)" "c \<in> hub_set h"
  obtains us cs where "map_of (clients h) (ws_org c) = Some us" "map_of us (ws_user c) = Some cs" "c \<in> set cs"
    "users_ok (ws_org c) us"
    "unregisterClient c h =
       (let cs' = filter (\<lambda>x. x \<noteq> c) cs;
            us' = (if cs' = [] then AList.delete (ws_user c) us else AList.update (ws_user c) cs' us)
        in h\<lparr>sendclosed := (sendclosed h)(ws_id c := True),
             clients := (if us' = [] then AList.delete (ws_org c) (clients h)
                         else AList.update (ws_org c) us' (clients h))\<rparr>)"
proof -
  obtain us cs where m: "map_of (clients h) (ws_org c) = Some us" "map_of us (ws_user c) = Some cs" "c \<in> set cs"
    using assms by (auto simp: hub_set_conns conns_iff)
  show thesis
    by (rule that [OF m hub_structure_users [OF assms(1) m(1)]]) (simp add: unregisterClient_def m)
qed

lemma unregisterClient_absent:
  assumes "hub_structure (clients h)" "c \<notin> hub_set h"
  shows "unregisterClient c h = h"
  using assms by (auto simp: hub_set_conns conns_iff unregisterClient_def split: option.split)

lemma AList_delete_empty: "AList.delete k m = [] \<Longrightarrow> map_of m k' = (if k' = k then map_of m k else None)"
  by (metis map_of_delete fun_upd_apply map_of.simps(1))

lemma unregisterClient_conns:
  assumes "hub_structure (clients h)"
  shows "conns (clients (unregisterClient c h)) org u = filter (\<lambda>x. x \<noteq> c) (conns (clients h) org u)"
proof (cases "c \<in> hub_set h")
  case True
  obtain us cs where m: "map_of (clients h) (ws_org c) = Some us" "map_of us (ws_user c) = Some cs" "c \<in> set cs"
    and e: "unregisterClient c h =
       (let cs' = filter (\<lambda>x. x \<noteq> c) cs;
            us' = (if cs' = [] then AList.delete (ws_user c) us else AList.update (ws_user c) cs' us)
        in h\<lparr>sendclosed := (sendclosed h)(ws_id c := True),
             clients := (if us' = [] then AList.delete (ws_org c) (clients h)
                         else AList.update (ws_org c) us' (clients h))\<rparr>)"
    by (rule unregisterClient_found [OF assms True])
  have other: "c \<notin> set (conns (clients h) org u)" if "\<not> (org = ws_org c \<and> u = ws_user c)"
    using that conns_ok(2) [OF assms] by blast
  then have "filter (\<lambda>x. x \<noteq> c) (conns (clients h) org u) = conns (clients h) org u" if "\<not> (org = ws_org c \<and> u = ws_user c)"
    using that by (metis (mono_tags, lifting) filter_id_conv)
  then show ?thesis
    using m AList_delete_empty [of "ws_user c" us]
    by (cases "org = ws_org c"; cases "u = ws_user c")
       (auto simp: e Let_def conns_def update_conv' map_of_delete)
next
  case False
  moreover have "c \<notin> set (conns (clients h) org u)"
    using False conns_ok(2) [OF assms] hub_set_conns [OF assms] by blast
  ultimately show ?thesis
    using assms by (simp add: unregisterClient_absent) (metis (mono_tags, lifting) filter_id_conv)
qed

lemma unregisterClient_structure:
  assumes "hub_structure (clients h)"
  shows "hub_structure (clients (unregisterClient c h))"
proof (cases "c \<in> hub_set h")
  case True
  obtain us cs where m: "map_of (clients h) (ws_org c) = Some us" "map_of us (ws_user c) = Some cs" "c \<in> set cs"
    and us: "users_ok (ws_org c) us"
    and e: "unregisterClient c h =
       (let cs' = filter (\<lambda>x. x \<noteq> c) cs;
            us' = (if cs' = [] then AList.delete (ws_user c) us else AList.update (ws_user c) cs' us)
        in h\<lparr>sendclosed := (sendclosed h)(ws_id c := True),
             clients := (if us' = [] then AList.delete (ws_org c) (clients h)
                         else AList.update (ws_org c) us' (clients h))\<rparr>)"
    by (rule unregisterClient_found [OF assms True])
  define cs' where "cs' = filter (\<lambda>x. x \<noteq> c) cs"
  define us' where "us' = (if cs' = [] then AList.delete (ws_user c) us else AList.update (ws_user c) cs' us)"
  have "distinct cs'" "\<forall>d \<in> set cs'. ws_org d = ws_org c \<and> ws_user d = ws_user c"
    unfolding cs'_def using users_ok_client [OF us m(2)] by auto
  then have "us' = [] \<or> users_ok (ws_org c) us'"
    unfolding us'_def using us users_ok_delete users_ok_update by metis
  moreover have "clients (unregisterClient c h) =
    (if us' = [] then AList.delete (ws_org c) (clients h) else AList.update (ws_org c) us' (clients h))"
    unfolding e Let_def us'_def cs'_def by simp
  ultimately show ?thesis
    using assms by (auto simp: hub_structure_update hub_structure_delete)
qed (use assms in \<open>simp add: unregisterClient_absent\<close>)

lemma unregisterClient_set:
  assumes "hub_structure (clients h)"
  shows "hub_set (unregisterClient c h) = hub_set h - {c}"
  using hub_set_conns [OF assms] hub_set_conns [OF unregisterClient_structure [OF assms]]
  by (auto simp: unregisterClient_conns [OF assms])

lemma unregisterClient_frame [simp]:
  "sendbuf (unregisterClient c h) = sendbuf h" "panicked (unregisterClient c h) = panicked h"
  "currentContact (unregisterClient c h) = currentContact h"
  by (auto simp: unregisterClient_def Let_def split: option.split)

lemma unregisterClient_closed:
  "sendclosed (unregisterClient c h) i \<Longrightarrow> sendclosed h i \<or> i = ws_id c"
  by (auto simp: unregisterClient_def Let_def split: option.splits if_splits)

lemma unregisterClient_ok:
  assumes "hub_ok h"
  shows "hub_ok (unregisterClient c h)"
proof (cases "c \<in> hub_set h")
  case True
  then show ?thesis
    using assms unregisterClient_set [of h c] unregisterClient_structure [of h c]
    by (auto simp: hub_ok_iff inj_on_def dest!: unregisterClient_closed)
next
  case False
  then show ?thesis
    using assms by (simp add: unregisterClient_absent hub_ok_structure)
qed

text \<open>Counting the connections.\<close>

lemma distinct_values:
  "distinct (map fst m) \<Longrightarrow> \<forall>(k, v) \<in> set m. distinct v \<and> (\<forall>c \<in> set v. key c = k) \<Longrightarrow>
   distinct (concat (map snd m))"
  by (induction m) force+

definition all_conns :: "(string \<times> user_map) list \<Rightarrow> ws_client list" where
  "all_conns m = concat (map (\<lambda>(org, us). concat (map snd us)) m)"

lemma set_all_conns: "set (all_conns (clients h)) = hub_set h"
  by (force simp: all_conns_def hub_set_def)

lemma users_ok_distinct: "users_ok org us \<Longrightarrow> distinct (concat (map snd us)) \<and> (\<forall>c \<in> set (concat (map snd us)). ws_org c = org)"
  unfolding users_ok_def using distinct_values [of us ws_user] by fastforce

lemma distinct_all_conns:
  assumes "hub_structure m"
  shows "distinct (all_conns m)"
proof -
  let ?m = "map (\<lambda>(org, us). (org, concat (map snd us))) m"
  have "map fst ?m = map fst m" "map snd ?m = map (\<lambda>(org, us). concat (map snd us)) m"
    by auto
  moreover have "distinct (concat (map snd ?m))"
    using assms users_ok_distinct
    by (intro distinct_values [where key = ws_org]) (fastforce simp: hub_structure_def comp_def case_prod_beta)+
  ultimately show ?thesis
    unfolding all_conns_def by metis
qed

lemma countClients_card: "hub_structure (clients h) \<Longrightarrow> countClients h = card (hub_set h)"
  using distinct_card [OF distinct_all_conns, of "clients h"]
  by (simp add: set_all_conns) (simp add: all_conns_def countClients_def length_concat split_beta' comp_def)


section \<open>Delivery reaches the matching connections\<close>

lemma try_send_frame [simp]:
  "clients (try_send d c h) = clients h" "sendclosed (try_send d c h) = sendclosed h"
  "currentContact (try_send d c h) = currentContact h" "bcast (try_send d c h) = bcast h"
  by (simp_all add: try_send_def)

lemma hub_set_frame: "clients h' = clients h \<Longrightarrow> hub_set h' = hub_set h"
  by (simp add: hub_set_def)

definition queued :: "hub \<Rightarrow> nat \<Rightarrow> string \<Rightarrow> string list" where
  "queued h i d = (if length (sendbuf h i) < chan_cap then sendbuf h i @ [d] else sendbuf h i)"

lemma fold_try_send:
  assumes "distinct (map ws_id cs)" "\<forall>c \<in> set cs. \<not> sendclosed h (ws_id c)"
  shows "sendbuf (fold (try_send d) cs h) i = (if i \<in> ws_id ` set cs then queued h i d else sendbuf h i)"
    and "panicked (fold (try_send d) cs h) = panicked h"
    and "clients (fold (try_send d) cs h) = clients h"
    and "sendclosed (fold (try_send d) cs h) = sendclosed h"
  using assms by (induction cs arbitrary: h) (auto simp: try_send_def queued_def)

definition receives :: "hub \<Rightarrow> BroadcastMessage \<Rightarrow> ws_client \<Rightarrow> bool" where
  "receives h msg c \<longleftrightarrow>
     ws_org c = bm_OrgID msg \<and>
     (if bm_UserID msg \<noteq> [] then ws_user c = bm_UserID msg else views_contact h msg c)"

lemma broadcast_targets_ok:
  assumes "hub_structure (clients h)" "map_of (clients h) (bm_OrgID msg) = Some us"
  shows "distinct (broadcast_targets h msg us)"
    and "set (broadcast_targets h msg us) = {c \<in> hub_set h. receives h msg c}"
proof -
  note us = hub_structure_users [OF assms]
  show "distinct (broadcast_targets h msg us)"
    using users_ok_distinct [OF us] users_ok_client [OF us]
    by (cases "map_of us (bm_UserID msg)") (auto simp: broadcast_targets_def)
  have mem: "c \<in> hub_set h \<and> ws_org c = bm_OrgID msg \<longleftrightarrow> c \<in> set (concat (map snd us))" for c
  proof
    assume "c \<in> hub_set h \<and> ws_org c = bm_OrgID msg"
    then obtain cs where "map_of us (ws_user c) = Some cs" "c \<in> set cs"
      using assms by (auto simp: hub_set_conns conns_iff)
    then show "c \<in> set (concat (map snd us))"
      by (force dest: map_of_SomeD)
  next
    assume c: "c \<in> set (concat (map snd us))"
    with assms(2) have "c \<in> hub_set h"
      by (force simp: hub_set_def dest!: map_of_SomeD)
    with c users_ok_distinct [OF us] show "c \<in> hub_set h \<and> ws_org c = bm_OrgID msg"
      by blast
  qed
  have user: "c \<in> hub_set h \<and> ws_org c = bm_OrgID msg \<and> ws_user c = u \<longleftrightarrow> (\<exists>cs. map_of us u = Some cs \<and> c \<in> set cs)" for c u
  proof
    assume "\<exists>cs. map_of us u = Some cs \<and> c \<in> set cs"
    then obtain cs where cs: "map_of us u = Some cs" "c \<in> set cs"
      by blast
    with users_ok_client [OF us] have "ws_org c = bm_OrgID msg" "ws_user c = u"
      by blast+
    with cs assms show "c \<in> hub_set h \<and> ws_org c = bm_OrgID msg \<and> ws_user c = u"
      by (auto simp: hub_set_conns conns_iff)
  qed (use assms in \<open>auto simp: hub_set_conns conns_iff\<close>)
  show "set (broadcast_targets h msg us) = {c \<in> hub_set h. receives h msg c}"
  proof (cases "bm_UserID msg = []")
    case True
    then show ?thesis
      using mem by (auto simp: broadcast_targets_def receives_def)
  next
    case False
    then show ?thesis
      using user [of _ "bm_UserID msg"]
      by (cases "map_of us (bm_UserID msg)") (auto simp: broadcast_targets_def receives_def)
  qed
qed

lemma broadcastMessage_effect:
  assumes "hub_ok h"
  shows "sendbuf (broadcastMessage msg h) i =
      (case bm_Data msg of
         Some d \<Rightarrow> if \<exists>c \<in> hub_set h. ws_id c = i \<and> receives h msg c then queued h i d else sendbuf h i
       | None \<Rightarrow> sendbuf h i)"
    and "panicked (broadcastMessage msg h) = panicked h"
    and "clients (broadcastMessage msg h) = clients h"
    and "sendclosed (broadcastMessage msg h) = sendclosed h"
proof -
  note st = hub_ok_structure [OF assms]
  have "sendbuf (broadcastMessage msg h) i =
      (case bm_Data msg of
         Some d \<Rightarrow> if \<exists>c \<in> hub_set h. ws_id c = i \<and> receives h msg c then queued h i d else sendbuf h i
       | None \<Rightarrow> sendbuf h i)
     \<and> panicked (broadcastMessage msg h) = panicked h \<and> clients (broadcastMessage msg h) = clients h
     \<and> sendclosed (broadcastMessage msg h) = sendclosed h"
  proof (cases "map_of (clients h) (bm_OrgID msg)")
    case None
    then have "\<not> (\<exists>c \<in> hub_set h. receives h msg c)"
      using st by (auto simp: hub_set_conns conns_iff receives_def)
    then show ?thesis
      using None by (auto simp: broadcastMessage_def split: option.split)
  next
    case (Some us)
    note t = broadcast_targets_ok [OF st Some]
    have "distinct (map ws_id (broadcast_targets h msg us))"
      using t assms by (auto simp: distinct_map hub_ok_def inj_on_def)
    moreover have "\<forall>c \<in> set (broadcast_targets h msg us). \<not> sendclosed h (ws_id c)"
      using t(2) assms by (auto simp: hub_ok_def)
    ultimately show ?thesis
      using Some t(2) fold_try_send [of "broadcast_targets h msg us" h]
      by (auto simp: broadcastMessage_def split: option.split)
  qed
  then show "sendbuf (broadcastMessage msg h) i =
      (case bm_Data msg of
         Some d \<Rightarrow> if \<exists>c \<in> hub_set h. ws_id c = i \<and> receives h msg c then queued h i d else sendbuf h i
       | None \<Rightarrow> sendbuf h i)"
    and "panicked (broadcastMessage msg h) = panicked h" and "clients (broadcastMessage msg h) = clients h"
    and "sendclosed (broadcastMessage msg h) = sendclosed h"
    by auto
qed

section \<open>The hub and its connections in operation\<close>

text \<open>
  \<open>handleSetContact\<close> of \<open>client.go\<close>: \<open>payload\<close> is the decoded contact id (\<open>None\<close> when it does not
  decode), \<open>parse\<close> is \<open>uuid.Parse\<close>. \<open>sendPong\<close> answers a ping on the connection's own channel.
\<close>

definition handleSetContact :: "(string \<Rightarrow> string option) \<Rightarrow> ws_client \<Rightarrow> string option \<Rightarrow> hub \<Rightarrow> hub" where
  "handleSetContact parse c payload h =
     (case payload of
        None \<Rightarrow> h
      | Some ContactID \<Rightarrow>
          if ContactID = [] then h\<lparr>currentContact := (currentContact h)(ws_id c := None)\<rparr>
          else (case parse ContactID of
                  None \<Rightarrow> h
                | Some contactID \<Rightarrow> h\<lparr>currentContact := (currentContact h)(ws_id c := Some contactID)\<rparr>))"

definition sendPong :: "string \<Rightarrow> ws_client \<Rightarrow> hub \<Rightarrow> hub" where
  "sendPong pong c h = try_send pong c h"

definition NewHub :: hub where
  "NewHub = \<lparr>clients = [], currentContact = (\<lambda>_. None), sendbuf = (\<lambda>_. []), sendclosed = (\<lambda>_. False),
             bcast = [], panicked = False\<rparr>"

text \<open>
  One step of the hub's \<open>Run\<close> loop or of a connection's pumps. A connection registers once, after it
  authenticated, with a channel of its own (a fresh id).
\<close>

inductive hub_step :: "hub \<Rightarrow> hub \<Rightarrow> bool" where
  connect: "\<not> sendclosed h (ws_id c) \<Longrightarrow> \<forall>d \<in> hub_set h. ws_id d \<noteq> ws_id c \<Longrightarrow> hub_step h (registerClient c h)"
| disconnect: "hub_step h (unregisterClient c h)"
| request: "hub_step h (Broadcast msg h)"
| deliver: "bcast h = msg # rest \<Longrightarrow> hub_step h (broadcastMessage msg (h\<lparr>bcast := rest\<rparr>))"
| set_contact: "hub_step h (handleSetContact parse c payload h)"
| ping: "\<not> sendclosed h (ws_id c) \<Longrightarrow> hub_step h (sendPong pong c h)"
| written: "sendbuf h i = d # ds \<Longrightarrow> hub_step h (h\<lparr>sendbuf := (sendbuf h)(i := ds)\<rparr>)"

lemma hub_ok_frame:
  "hub_ok h \<Longrightarrow> clients h' = clients h \<Longrightarrow> sendclosed h' = sendclosed h \<Longrightarrow> panicked h' = panicked h \<Longrightarrow>
   \<forall>i. length (sendbuf h' i) \<le> chan_cap \<Longrightarrow> hub_ok h'"
  using hub_set_frame [of h' h] by (simp add: hub_ok_iff)

lemma hub_ok_room: "hub_ok h \<Longrightarrow> length (sendbuf h i) \<le> chan_cap"
  by (simp add: hub_ok_def)

lemma hub_step_ok: "hub_step h h' \<Longrightarrow> hub_ok h \<Longrightarrow> hub_ok h'"
proof (induction rule: hub_step.induct)
  case (deliver h msg rest)
  let ?h = "h\<lparr>bcast := rest\<rparr>"
  have ok: "hub_ok ?h"
    by (rule hub_ok_frame [OF deliver.prems]) (use deliver.prems in \<open>auto simp: hub_ok_room\<close>)
  show ?case
    by (rule hub_ok_frame [OF ok])
       (use broadcastMessage_effect [OF ok] hub_ok_room [OF ok] in \<open>auto simp: queued_def split: option.split\<close>)
next
  case (connect h c)
  then show ?case by (auto intro!: registerClient_ok)
next
  case (disconnect h c)
  then show ?case by (rule unregisterClient_ok)
next
  case (written h i d ds)
  then have "length (d # ds) \<le> chan_cap"
    using hub_ok_room by metis
  then show ?case
    using written hub_ok_room by (intro hub_ok_frame [OF written.prems]) (auto simp: hub_ok_room)
qed (rule hub_ok_frame; auto simp: Broadcast_def handleSetContact_def sendPong_def try_send_def hub_ok_room split: option.split)+

lemma hub_reach_ok: "hub_step\<^sup>*\<^sup>* NewHub h \<Longrightarrow> hub_ok h"
proof (induction rule: rtranclp_induct)
  case base
  show ?case by (simp add: NewHub_def hub_ok_def hub_set_def)
next
  case (step h h')
  then show ?case by (blast intro: hub_step_ok)
qed

section \<open>Properties of the hub\<close>

lemma IsUserOnline_iff:
  assumes "hub_structure (clients h)"
  shows "IsUserOnline org u h \<longleftrightarrow> (\<exists>c \<in> hub_set h. ws_org c = org \<and> ws_user c = u)"
proof -
  have "IsUserOnline org u h \<longleftrightarrow> conns (clients h) org u \<noteq> []"
    by (simp add: IsUserOnline_def conns_def split: option.split)
  also have "\<dots> \<longleftrightarrow> (\<exists>c. c \<in> set (conns (clients h) org u))"
    by (cases "conns (clients h) org u") auto
  also have "\<dots> \<longleftrightarrow> (\<exists>c \<in> hub_set h. ws_org c = org \<and> ws_user c = u)"
    using conns_ok(2) [OF assms] hub_set_conns [OF assms] by metis
  finally show ?thesis .
qed

lemma OnlineUserIDs_iff:
  assumes "hub_structure (clients h)"
  shows "distinct (OnlineUserIDs org h)" and "u \<in> set (OnlineUserIDs org h) \<longleftrightarrow> IsUserOnline org u h"
proof -
  have "distinct (OnlineUserIDs org h) \<and> (u \<in> set (OnlineUserIDs org h) \<longleftrightarrow> IsUserOnline org u h)"
  proof (cases "map_of (clients h) org")
    case (Some us)
    with hub_structure_users [OF assms] have distinct: "distinct (map fst us)"
      by (simp add: users_ok_def)
    then have "u \<in> fst ` {x \<in> set us. snd x \<noteq> []} \<longleftrightarrow> (\<exists>cs. map_of us u = Some cs \<and> cs \<noteq> [])"
      by (auto simp: image_iff)
    then show ?thesis
      using Some distinct
      by (cases "map_of us u")
         (simp_all add: OnlineUserIDs_def IsUserOnline_def distinct_map_filter case_prod_beta map_of_eq_None_iff,
          auto simp: image_iff dest: eq_key_imp_eq_value split: option.splits dest!: map_of_SomeD)
  qed (simp add: OnlineUserIDs_def IsUserOnline_def)
  then show "distinct (OnlineUserIDs org h)" "u \<in> set (OnlineUserIDs org h) \<longleftrightarrow> IsUserOnline org u h"
    by auto
qed

lemma FilterOnlineUsers_eq: "FilterOnlineUsers org us h = filter (\<lambda>u. IsUserOnline org u h) us"
  by (simp add: FilterOnlineUsers_def IsUserOnline_def split: option.split)

text \<open>
  C27. In every state the hub can reach, its nested maps of organisations, users and tabs implement a
  plain set of connections: registering inserts, unregistering removes (and leaves no empty map
  behind), \<open>GetClientCount\<close> is the number of connections, a user is online exactly when one of the
  connections is theirs, \<open>OnlineUserIDs\<close> lists each online user of the organisation once and
  \<open>FilterOnlineUsers\<close> keeps the online ones of a list in its order.
\<close>

theorem hub_refines_set:
  assumes "hub_step\<^sup>*\<^sup>* NewHub h"
  shows "hub_set (registerClient c h) = insert c (hub_set h) \<and>
    hub_set (unregisterClient c h) = hub_set h - {c} \<and>
    (hub_set h = {} \<longleftrightarrow> clients h = []) \<and>
    countClients h = card (hub_set h) \<and>
    (IsUserOnline org u h \<longleftrightarrow> (\<exists>c \<in> hub_set h. ws_org c = org \<and> ws_user c = u)) \<and>
    distinct (OnlineUserIDs org h) \<and>
    set (OnlineUserIDs org h) = {u. \<exists>c \<in> hub_set h. ws_org c = org \<and> ws_user c = u} \<and>
    FilterOnlineUsers org us h = filter (\<lambda>u. \<exists>c \<in> hub_set h. ws_org c = org \<and> ws_user c = u) us"
proof (intro conjI)
  note st = hub_ok_structure [OF hub_reach_ok [OF assms]]
  note online = IsUserOnline_iff [OF st]
  show "hub_set h = {} \<longleftrightarrow> clients h = []"
  proof
    assume empty: "hub_set h = {}"
    have False if "(o1, us1) \<in> set (clients h)" for o1 us1
    proof -
      have "users_ok o1 us1"
        using that st by (auto simp: hub_structure_def)
      then obtain c where "c \<in> set (concat (map snd us1))"
        by (cases us1) (fastforce simp: users_ok_def neq_Nil_conv)+
      then show False
        using that empty by (force simp: hub_set_def)
    qed
    then show "clients h = []"
      by (cases "clients h") auto
  qed (simp add: hub_set_def)
  show "FilterOnlineUsers org us h = filter (\<lambda>u. \<exists>c \<in> hub_set h. ws_org c = org \<and> ws_user c = u) us"
    by (simp only: FilterOnlineUsers_eq online)
  show "set (OnlineUserIDs org h) = {u. \<exists>c \<in> hub_set h. ws_org c = org \<and> ws_user c = u}"
    using OnlineUserIDs_iff(2) [OF st] online by blast
qed (use hub_ok_structure [OF hub_reach_ok [OF assms]] in
      \<open>simp_all add: registerClient_set unregisterClient_set countClients_card IsUserOnline_iff OnlineUserIDs_iff\<close>)

definition ana_tab :: ws_client where
  "ana_tab = \<lparr>ws_id = 1, ws_org = ''acme'', ws_user = ''ana''\<rparr>"

definition ben_tab :: ws_client where
  "ben_tab = \<lparr>ws_id = 2, ws_org = ''acme'', ws_user = ''ben''\<rparr>"

definition eve_tab :: ws_client where
  "eve_tab = \<lparr>ws_id = 3, ws_org = ''evil'', ws_user = ''eve''\<rparr>"

lemmas tab_defs = ana_tab_def ben_tab_def eve_tab_def

definition sample_hub :: hub where
  "sample_hub = registerClient eve_tab (registerClient ben_tab (registerClient ana_tab NewHub))"

lemma sample_hub_set: "hub_set sample_hub = {ana_tab, ben_tab, eve_tab}"
  by (auto simp: sample_hub_def registerClient_def NewHub_def tab_defs hub_set_def)

lemma sample_hub_reached: "hub_step\<^sup>*\<^sup>* NewHub sample_hub"
proof -
  have "hub_step NewHub (registerClient ana_tab NewHub)"
    by (rule connect) (auto simp: NewHub_def hub_set_def)
  moreover have "hub_step (registerClient ana_tab NewHub) (registerClient ben_tab (registerClient ana_tab NewHub))"
    by (rule connect) (auto simp: NewHub_def hub_set_def registerClient_def tab_defs)
  moreover have "hub_step (registerClient ben_tab (registerClient ana_tab NewHub)) sample_hub"
    unfolding sample_hub_def by (rule connect) (auto simp: NewHub_def hub_set_def registerClient_def tab_defs)
  ultimately show ?thesis
    by (meson rtranclp.rtrancl_refl rtranclp.rtrancl_into_rtrancl)
qed

theorem hub_refines_set_witness:
  "countClients sample_hub = 3 \<and> hub_set (unregisterClient ana_tab sample_hub) = {ben_tab, eve_tab} \<and>
   FilterOnlineUsers ''acme'' [''eve'', ''ben'', ''zoe''] sample_hub = [''ben'']"
  using hub_refines_set [OF sample_hub_reached, of ana_tab "''acme''" "''ana''" "[''eve'', ''ben'', ''zoe'']"]
  by (auto simp: sample_hub_set tab_defs card_insert_if)

text \<open>
  C28. Delivery of a broadcast from any state the hub can reach: the hub does not panic (it never sends
  on a channel that was closed), and exactly the matching connections get the message, once each, at
  the end of their queue, when they have room for it: those of the message's organisation that belong
  to the addressed user or, for an organisation-wide message about a contact, are not looking at
  another contact. No connection of another organisation receives anything, and one whose buffer is
  full misses the message without blocking the others.
\<close>

theorem broadcast_isolated:
  assumes "hub_step\<^sup>*\<^sup>* NewHub h"
  shows "\<not> panicked (broadcastMessage msg h) \<and>
    sendbuf (broadcastMessage msg h) i =
      (case bm_Data msg of
         None \<Rightarrow> sendbuf h i
       | Some d \<Rightarrow>
           if (\<exists>c \<in> hub_set h. ws_id c = i \<and> receives h msg c) \<and> length (sendbuf h i) < 256
           then sendbuf h i @ [d] else sendbuf h i) \<and>
    (c \<in> hub_set h \<and> ws_org c \<noteq> bm_OrgID msg \<longrightarrow>
       sendbuf (broadcastMessage msg h) (ws_id c) = sendbuf h (ws_id c))"
proof (intro conjI impI)
  note ok = hub_reach_ok [OF assms]
  note eff = broadcastMessage_effect [OF ok]
  show "\<not> panicked (broadcastMessage msg h)"
    using eff(2) ok by (simp add: hub_ok_def)
  show "sendbuf (broadcastMessage msg h) i =
      (case bm_Data msg of
         None \<Rightarrow> sendbuf h i
       | Some d \<Rightarrow>
           if (\<exists>c \<in> hub_set h. ws_id c = i \<and> receives h msg c) \<and> length (sendbuf h i) < 256
           then sendbuf h i @ [d] else sendbuf h i)"
    unfolding eff(1) by (auto simp: queued_def chan_cap_def split: option.split)
  show "sendbuf (broadcastMessage msg h) (ws_id c) = sendbuf h (ws_id c)"
    if "c \<in> hub_set h \<and> ws_org c \<noteq> bm_OrgID msg"
  proof -
    have "\<not> (\<exists>d \<in> hub_set h. ws_id d = ws_id c \<and> receives h msg d)"
      using ok that by (auto simp: hub_ok_def inj_on_def receives_def)
    then show ?thesis
      unfolding eff(1) by (auto split: option.split)
  qed
qed

definition sample_note :: BroadcastMessage where
  "sample_note = \<lparr>bm_OrgID = ''acme'', bm_UserID = [], bm_ContactID = ''k'', bm_Data = Some ''hi''\<rparr>"

theorem broadcast_isolated_witness:
  "sendbuf (broadcastMessage sample_note sample_hub) 1 = [''hi''] \<and>
   sendbuf (broadcastMessage sample_note sample_hub) (ws_id eve_tab) = [] \<and>
   \<not> panicked (broadcastMessage sample_note sample_hub)"
proof -
  have buf: "sendbuf sample_hub i = []" "currentContact sample_hub i = None" for i
    by (simp_all add: sample_hub_def NewHub_def)
  show ?thesis
    using broadcast_isolated [OF sample_hub_reached, of sample_note 1 eve_tab]
    by (auto simp: sample_hub_set buf receives_def views_contact_def sample_note_def tab_defs)
qed

end
