(* ===== verification/Message_Components.thy ===== *)
theory Message_Components
  imports Template_Params "HOL-Library.Multiset" "HOL-Library.List_Lexorder" "HOL-Library.Char_ord"
begin

text \<open>
  \<open>pkg/whatsapp/message.go\<close>: the component list of a template message as Meta's API expects it, built
  from parameter maps. A \<open>map[string]string\<close> is an association list in the order in which the runtime
  iterates over it. \<open>strings.ToUpper\<close> and \<open>strings.ToLower\<close> are the arguments \<open>up\<close> and \<open>low\<close>. Go's
  \<open>sort.Slice\<close> is not stable; \<open>sort_key\<close> is one of the orders it may produce, and they differ only on
  keys that denote the same number.
\<close>

type_synonym params = "(string \<times> string) list"

definition param_at :: "params \<Rightarrow> string \<Rightarrow> string" where
  "param_at m k = (case map_of m k of None \<Rightarrow> [] | Some v \<Rightarrow> v)"

definition sortParamKeys :: "params \<Rightarrow> bool \<Rightarrow> string list" where
  "sortParamKeys m forceLexical =
     (let keys = map fst m in
      if forceLexical then sort keys
      else if list_ex (\<lambda>k. Atoi k = None) keys then sort keys
      else sort_key (\<lambda>k. case Atoi k of None \<Rightarrow> 0 | Some n \<Rightarrow> n) keys)"

definition text_param :: "bool \<Rightarrow> string \<Rightarrow> string \<Rightarrow> any" where
  "text_param named name v =
     ObjV ([(''type'', StrV ''text''), (''text'', StrV v)] @ (if named then [(''parameter_name'', StrV name)] else []))"

definition BodyParamsToComponents :: "params \<Rightarrow> obj list" where
  "BodyParamsToComponents bodyParams =
     (if bodyParams = [] then []
      else
        (let isNamedParams = list_ex (\<lambda>(k, v). Atoi k = None) bodyParams;
             keys = sortParamKeys bodyParams isNamedParams
         in [[(''type'', StrV ''body''),
              (''parameters'', ArrV (map (\<lambda>key. text_param isNamedParams key (param_at bodyParams key)) keys))]]))"

definition HeaderTextParamsComponent :: "string \<Rightarrow> params \<Rightarrow> params \<Rightarrow> nat + obj option" where
  "HeaderTextParamsComponent headerContent params fallback =
     (if \<not> strings_Contains headerContent ''{{'' then Inr None
      else
        (case ExtParamNames headerContent of
           [] \<Rightarrow> Inr None
         | [name] \<Rightarrow>
             (let value = (if param_at params name = [] then param_at fallback name else param_at params name)
              in Inr (Some [(''type'', StrV ''header''), (''parameters'', ArrV [text_param (Atoi name = None) name value])]))
         | names \<Rightarrow> Inl (length names)))"

definition media_header :: "(string \<Rightarrow> string) \<Rightarrow> string \<Rightarrow> string \<Rightarrow> string \<Rightarrow> obj list" where
  "media_header low headerType headerMediaID headerMediaFilename =
     (if headerMediaID = [] then []
      else
        (let mediaType = low headerType;
             mediaObj = [(''id'', StrV headerMediaID)] @
               (if mediaType = ''document'' \<and> headerMediaFilename \<noteq> [] then [(''filename'', StrV headerMediaFilename)] else [])
         in [[(''type'', StrV ''header''),
              (''parameters'', ArrV [ObjV (obj_set mediaType (ObjV mediaObj) [(''type'', StrV mediaType)])])]]))"

definition BuildTemplateComponents ::
    "(string \<Rightarrow> string) \<Rightarrow> (string \<Rightarrow> string) \<Rightarrow> params \<Rightarrow> string \<Rightarrow> string \<Rightarrow> params \<Rightarrow> string \<Rightarrow> string
       \<Rightarrow> nat + obj list" where
  "BuildTemplateComponents up low bodyParams headerType headerContent headerParams headerMediaID headerMediaFilename =
     (let header =
        (if up headerType = ''TEXT'' then
           (case HeaderTextParamsComponent headerContent headerParams bodyParams of
              Inl n \<Rightarrow> Inl n
            | Inr None \<Rightarrow> Inr []
            | Inr (Some c) \<Rightarrow> Inr [c])
         else if up headerType \<in> {''IMAGE'', ''VIDEO'', ''DOCUMENT''} then
           Inr (media_header low headerType headerMediaID headerMediaFilename)
         else Inr [])
      in case header of
           Inl n \<Rightarrow> Inl n
         | Inr components \<Rightarrow> Inr (components @ BodyParamsToComponents bodyParams))"

text \<open>\<open>now i\<close> is the clock (\<open>UnixNano\<close>) when the token of button \<open>i\<close> is made.\<close>

definition flow_button :: "(nat \<Rightarrow> int) \<Rightarrow> nat \<Rightarrow> obj" where
  "flow_button now i =
     [(''type'', StrV ''button''), (''sub_type'', StrV ''flow''), (''index'', StrV (Itoa (int i))),
      (''parameters'', ArrV [ObjV [(''type'', StrV ''action''),
         (''action'', ObjV [(''flow_token'', StrV (''flow_'' @ Itoa (now i)))])]])]"

definition AutoButtonComponents :: "(string \<Rightarrow> string) \<Rightarrow> (nat \<Rightarrow> int) \<Rightarrow> any list \<Rightarrow> obj list" where
  "AutoButtonComponents up now templateButtons =
     concat (map (\<lambda>(i, raw).
       (case as_obj raw of
          None \<Rightarrow> []
        | Some btn \<Rightarrow> if up (str_or (obj_get btn ''type'')) = ''FLOW'' then [flow_button now i] else []))
       (enumerate 0 templateButtons))"

text \<open>The effective type of a button of the template, and whether it is an OTP button.\<close>

definition button_type :: "(string \<Rightarrow> string) \<Rightarrow> any list \<Rightarrow> string \<Rightarrow> string \<times> bool" where
  "button_type up templateButtons index =
     (case find (\<lambda>(i, raw). Itoa (int i) = index) (enumerate 0 templateButtons) of
        None \<Rightarrow> ([], False)
      | Some (i, raw) \<Rightarrow>
          (case as_obj raw of
             None \<Rightarrow> ([], False)
           | Some btn \<Rightarrow>
               (case as_str (obj_get btn ''type'') of
                  None \<Rightarrow> ([], False)
                | Some t \<Rightarrow>
                    if up t = ''OTP'' then
                      (case as_str (obj_get btn ''otp_type'') of None \<Rightarrow> (''OTP'', True) | Some o2 \<Rightarrow> (up o2, True))
                    else (up t, False))))"

definition ButtonURLParamsToComponents :: "(string \<Rightarrow> string) \<Rightarrow> params \<Rightarrow> any list \<Rightarrow> obj list" where
  "ButtonURLParamsToComponents up buttonParams templateButtons =
     (if buttonParams = [] then []
      else
        concat (map (\<lambda>index.
          (case button_type up templateButtons index of
             (t, isOTP) \<Rightarrow>
               if t \<in> {''QUICK_REPLY'', ''FLOW'', ''PHONE_NUMBER'', ''VOICE_CALL'', ''ONE_TAP'', ''ZERO_TAP''} then []
               else if t = ''COPY_CODE'' \<and> \<not> isOTP then
                 [[(''type'', StrV ''button''), (''sub_type'', StrV ''copy_code''), (''index'', StrV index),
                   (''parameters'', ArrV [ObjV [(''type'', StrV ''coupon_code''), (''coupon_code'', StrV (param_at buttonParams index))]])]]
               else
                 [[(''type'', StrV ''button''), (''sub_type'', StrV ''url''), (''index'', StrV index),
                   (''parameters'', ArrV [ObjV [(''type'', StrV ''text''), (''text'', StrV (param_at buttonParams index))]])]]))
          (sortParamKeys buttonParams False)))"

section \<open>Parameters reach their slots\<close>

lemma Itoa_inj: "0 \<le> i \<Longrightarrow> i < 2 ^ 63 \<Longrightarrow> 0 \<le> j \<Longrightarrow> j < 2 ^ 63 \<Longrightarrow> Itoa i = Itoa j \<Longrightarrow> i = j"
  by (metis Atoi_Itoa option.inject order_trans neg_le_0_iff_le zero_le_numeral zero_le_power)

lemma sort_positional:
  assumes "distinct ks" "set ks = (\<lambda>i. Itoa (int i)) ` {1..n}" "int n < 2 ^ 63"
  shows "sort_key (\<lambda>k. case Atoi k of None \<Rightarrow> 0 | Some v \<Rightarrow> v) ks = map (\<lambda>i. Itoa (int i)) [1..<Suc n]"
proof (rule properties_for_sort_key)
  let ?slots = "map (\<lambda>i. Itoa (int i)) [1..<Suc n]"
  have atoi: "Atoi (Itoa (int i)) = Some (int i)" if "i \<le> n" for i
    using that assms(3) by (intro Atoi_Itoa) auto
  have inj: "inj_on (\<lambda>i. Itoa (int i)) {1..n}"
    by (rule inj_onI) (metis atoi atLeastAtMost_iff of_nat_eq_iff option.inject)
  have slots: "distinct ?slots"
    using inj by (simp add: distinct_map atLeastLessThanSuc_atLeastAtMost del: upt_Suc)
  show "mset ?slots = mset ks"
    using assms(1,2) slots
    by (intro set_eq_iff_mset_eq_distinct [THEN iffD1]) (auto simp: atLeastLessThanSuc_atLeastAtMost simp del: upt_Suc)
  show "sorted (map (\<lambda>k. case Atoi k of None \<Rightarrow> 0 | Some v \<Rightarrow> v) ?slots)"
  proof -
    have "map (\<lambda>k. case Atoi k of None \<Rightarrow> 0 | Some v \<Rightarrow> v) ?slots = map int [1..<Suc n]"
      by (auto simp: atoi simp del: upt_Suc)
    moreover have "sorted (map int [1..<Suc n])"
      by (simp add: sorted_map del: upt_Suc)
    ultimately show ?thesis by metis
  qed
  fix k assume "k \<in> set ?slots"
  with assms(2) have k: "k \<in> set ks"
    by (auto simp: atLeastLessThanSuc_atLeastAtMost simp del: upt_Suc)
  have num_inj: "a = b" if "a \<in> set ks" "b \<in> set ks"
    "(case Atoi a of None \<Rightarrow> 0 | Some v \<Rightarrow> v) = (case Atoi b of None \<Rightarrow> 0 | Some v \<Rightarrow> v)" for a b
    using that assms(2) atoi by auto
  have "filter (\<lambda>x. (case Atoi k of None \<Rightarrow> 0 | Some v \<Rightarrow> v) = (case Atoi x of None \<Rightarrow> 0 | Some v \<Rightarrow> v)) xs =
      (if k \<in> set xs then [k] else [])" if "distinct xs" "set xs \<subseteq> set ks" for xs
    using that
  proof (induction xs)
    case (Cons x xs)
    then show ?case
      using num_inj [OF k, of x] by auto
  qed simp
  from this [of ?slots] this [of ks] slots assms(1,2) k
  show "filter (\<lambda>x. (case Atoi k of None \<Rightarrow> 0 | Some v \<Rightarrow> v) = (case Atoi x of None \<Rightarrow> 0 | Some v \<Rightarrow> v)) ?slots =
        filter (\<lambda>x. (case Atoi k of None \<Rightarrow> 0 | Some v \<Rightarrow> v) = (case Atoi x of None \<Rightarrow> 0 | Some v \<Rightarrow> v)) ks"
    by (simp add: atLeastLessThanSuc_atLeastAtMost del: upt_Suc)
qed

text \<open>
  The values of a positional template reach their slots: for parameters keyed \<open>1\<close> to \<open>n\<close>, in whatever
  order the map is iterated, the body component lists the value of \<open>{{1}}\<close> first, then that of \<open>{{2}}\<close>,
  and so on to \<open>{{n}}\<close> (so \<open>{{10}}\<close> does not come before \<open>{{2}}\<close>), without parameter names.
\<close>
theorem positional_params_in_slots:
  assumes "distinct (map fst m)" "fst ` set m = (\<lambda>i. Itoa (int i)) ` {1..n}" "0 < n" "int n < 2 ^ 63"
  shows "BodyParamsToComponents m =
    [[(''type'', StrV ''body''),
      (''parameters'', ArrV (map (\<lambda>i. ObjV [(''type'', StrV ''text''), (''text'', StrV (param_at m (Itoa (int i))))])
                               [1..<Suc n]))]]"
proof -
  have num: "Atoi k \<noteq> None" if "k \<in> fst ` set m" for k
    using that assms(2,4) Atoi_Itoa by auto
  then have "\<not> list_ex (\<lambda>(k, v). Atoi k = None) m" "\<not> list_ex (\<lambda>k. Atoi k = None) (map fst m)"
    by (force simp: list_ex_iff)+
  moreover have "m \<noteq> []"
    using assms(2,3) by auto
  moreover have "sort_key (\<lambda>k. case Atoi k of None \<Rightarrow> 0 | Some v \<Rightarrow> v) (map fst m) = map (\<lambda>i. Itoa (int i)) [1..<Suc n]"
    using assms by (intro sort_positional) auto
  ultimately show ?thesis
    unfolding BodyParamsToComponents_def sortParamKeys_def
    by (simp add: Let_def text_param_def comp_def del: upt_Suc)
qed

theorem positional_params_in_slots_witness:
  "BodyParamsToComponents [(''2'', ''b''), (''1'', ''a'')] =
    [[(''type'', StrV ''body''),
      (''parameters'', ArrV [ObjV [(''type'', StrV ''text''), (''text'', StrV ''a'')],
                             ObjV [(''type'', StrV ''text''), (''text'', StrV ''b'')]])]]"
proof -
  have digits: "Itoa 1 = ''1''" "Itoa 2 = ''2''"
    by code_simp+
  have "{1..2 :: nat} = {1, 2}"
    by auto
  then have keys: "fst ` set [(''2'', ''b''), (''1'', ''a'')] = (\<lambda>i. Itoa (int i)) ` {1..2 :: nat}"
    using digits by auto
  show ?thesis
    using positional_params_in_slots [OF _ keys] digits by (simp add: upt_rec param_at_def)
qed

end
