(* ===== verification/Contacts.thy ===== *)
theory Contacts
  imports Agent_Rows
begin

text \<open>
  \<open>internal/contactutil/contactutil.go\<close>: finding the contact of a phone number. The table holds the
  soft-deleted rows too (\<open>Unscoped\<close>). Between the two lookups and the insert other goroutines may
  have inserted rows of their own, and every query and update may fail (\<open>contact_io\<close>); the code takes a
  failed lookup for a missing row and ignores a failed update.
\<close>

record person =
  p_ID :: string
  p_Org :: string
  p_Phone :: string
  p_Name :: string
  p_Deleted :: bool
  p_OptOut :: bool

record contact_io =
  cio_new :: string
  cio_others :: "person list"
  cio_err :: "string \<Rightarrow> bool"

section \<open>The code\<close>

definition normalize_phone :: "string \<Rightarrow> string" where
  "normalize_phone s = (if s \<noteq> [] \<and> hd s = CHR ''+'' then tl s else s)"

text \<open>\<open>Where("organization_id = ? AND phone_number = ?").First\<close>\<close>

definition person_by_phone :: "string \<Rightarrow> string \<Rightarrow> person list \<Rightarrow> person option" where
  "person_by_phone org phone = find (\<lambda>p. p_Org p = org \<and> p_Phone p = phone)"

definition first_person :: "contact_io \<Rightarrow> string \<Rightarrow> string \<Rightarrow> string \<Rightarrow> person list \<Rightarrow> person option" where
  "first_person io query org phone tbl = (if cio_err io query then None else person_by_phone org phone tbl)"

text \<open>
  A row that was found: restored when it was soft-deleted, renamed when another name came. The second
  update reaches only a row that is live by then. The contact handed out carries both changes, whether
  or not they were written.
\<close>

definition restore_row :: "contact_io \<Rightarrow> person \<Rightarrow> person \<Rightarrow> person" where
  "restore_row io p r = (if p_Deleted p \<and> \<not> cio_err io ''restore'' then r\<lparr>p_Deleted := False\<rparr> else r)"

definition rename_row :: "contact_io \<Rightarrow> string \<Rightarrow> person \<Rightarrow> person \<Rightarrow> person" where
  "rename_row io profileName p r =
     (if profileName \<noteq> [] \<and> p_Name p \<noteq> profileName \<and> \<not> cio_err io ''rename'' \<and> \<not> p_Deleted r
      then r\<lparr>p_Name := profileName\<rparr> else r)"

definition refresh :: "contact_io \<Rightarrow> string \<Rightarrow> person \<Rightarrow> person list \<Rightarrow> person \<times> person list" where
  "refresh io profileName p tbl =
     (p\<lparr>p_Deleted := False, p_Name := (if profileName \<noteq> [] then profileName else p_Name p)\<rparr>,
      update_by p_ID (p_ID p) (\<lambda>r. rename_row io profileName p (restore_row io p r)) tbl)"

definition GetOrCreateContact ::
    "contact_io \<Rightarrow> string \<Rightarrow> string \<Rightarrow> string \<Rightarrow> person list \<Rightarrow> (person \<times> bool) option \<times> person list" where
  "GetOrCreateContact io org phoneNumber profileName tbl =
     (let normalizedPhone = normalize_phone phoneNumber in
      case first_person io ''find'' org normalizedPhone tbl of
        Some p \<Rightarrow> (let (c, tbl') = refresh io profileName p tbl in (Some (c, False), tbl'))
      | None \<Rightarrow>
          (case first_person io ''find_plus'' org (CHR ''+'' # normalizedPhone) tbl of
             Some p \<Rightarrow> (let (c, tbl') = refresh io profileName p tbl in (Some (c, False), tbl'))
           | None \<Rightarrow>
               (let tbl1 = tbl @ cio_others io;
                    fresh = \<lparr>p_ID = cio_new io, p_Org = org, p_Phone = normalizedPhone, p_Name = profileName,
                             p_Deleted = False, p_OptOut = False\<rparr>
                in if \<not> cio_err io ''insert'' then (Some (fresh, True), tbl1 @ [fresh])
                   else
                     (case first_person io ''find_again'' org normalizedPhone tbl1 of
                        None \<Rightarrow> (None, tbl1)
                      | Some p \<Rightarrow> (let (c, tbl') = refresh io [] p tbl1 in (Some (c, False), tbl'))))))"

definition FindContact :: "contact_io \<Rightarrow> string \<Rightarrow> string \<Rightarrow> person list \<Rightarrow> person option" where
  "FindContact io org phoneNumber tbl =
     (let live = filter (\<lambda>p. \<not> p_Deleted p) tbl; normalizedPhone = normalize_phone phoneNumber in
      case first_person io ''find'' org normalizedPhone live of
        Some p \<Rightarrow> Some p
      | None \<Rightarrow> first_person io ''find_plus'' org (CHR ''+'' # normalizedPhone) live)"

section \<open>Facts\<close>

text \<open>No query and no update fails.\<close>

definition contact_healthy :: "contact_io \<Rightarrow> bool" where
  "contact_healthy io \<longleftrightarrow> cio_err io = (\<lambda>_. False)"

lemma first_person_healthy [simp]:
  "contact_healthy io \<Longrightarrow> first_person io query org ph tbl = person_by_phone org ph tbl"
  by (simp add: first_person_def contact_healthy_def)

lemma refresh_keys [simp]:
  "p_ID (rename_row io n p r) = p_ID r" "p_ID (restore_row io p r) = p_ID r"
  "p_Org (rename_row io n p r) = p_Org r" "p_Org (restore_row io p r) = p_Org r"
  "p_Phone (rename_row io n p r) = p_Phone r" "p_Phone (restore_row io p r) = p_Phone r"
  "p_OptOut (rename_row io n p r) = p_OptOut r" "p_OptOut (restore_row io p r) = p_OptOut r"
  by (simp_all add: rename_row_def restore_row_def)

text \<open>One row per number of an organisation, whatever the spelling, and unique identifiers.\<close>

definition people_ok :: "person list \<Rightarrow> bool" where
  "people_ok tbl \<longleftrightarrow> distinct (map p_ID tbl) \<and> distinct (map (\<lambda>p. (p_Org p, normalize_phone (p_Phone p))) tbl)"

lemma people_ok_refresh: "people_ok tbl \<Longrightarrow> people_ok (snd (refresh io n p tbl))"
proof -
  have "map p_ID (snd (refresh io n p tbl)) = map p_ID tbl"
    "map (\<lambda>p. (p_Org p, normalize_phone (p_Phone p))) (snd (refresh io n p tbl)) =
     map (\<lambda>p. (p_Org p, normalize_phone (p_Phone p))) tbl"
    by (simp_all add: refresh_def Let_def map_update_by)
  then show "people_ok tbl \<Longrightarrow> people_ok (snd (refresh io n p tbl))"
    by (simp only: people_ok_def)
qed

lemma normalize_plus [simp]: "normalize_phone (CHR ''+'' # s) = s"
  by (simp add: normalize_phone_def)

text \<open>A number as the platform writes it: digits, so normalising twice changes nothing.\<close>

definition plain_phone :: "string \<Rightarrow> bool" where
  "plain_phone s \<longleftrightarrow> s \<noteq> [] \<and> hd s \<noteq> CHR ''+''"

lemma normalize_plain [simp]: "plain_phone s \<Longrightarrow> normalize_phone s = s"
  by (simp add: plain_phone_def normalize_phone_def)

lemma normalize_eq_plain:
  "plain_phone s \<Longrightarrow> normalize_phone t = s \<longleftrightarrow> t = s \<or> t = CHR ''+'' # s"
  by (cases t) (auto simp: normalize_phone_def plain_phone_def)

lemma person_by_phone_Some:
  "person_by_phone org ph tbl = Some p \<Longrightarrow> p \<in> set tbl \<and> p_Org p = org \<and> p_Phone p = ph"
  by (auto simp: person_by_phone_def find_Some_iff)

lemma person_by_phone_None:
  "person_by_phone org ph tbl = None \<longleftrightarrow> (\<forall>p \<in> set tbl. \<not> (p_Org p = org \<and> p_Phone p = ph))"
  by (auto simp: person_by_phone_def find_None_iff)

text \<open>With one row per number, the lookup finds a row exactly when it is there and live.\<close>

lemma FindContact_iff:
  assumes "contact_healthy io" "people_ok tbl" "plain_phone ph"
  shows "FindContact io org ph tbl = Some p \<longleftrightarrow>
    p \<in> set tbl \<and> \<not> p_Deleted p \<and> p_Org p = org \<and> normalize_phone (p_Phone p) = ph"
proof
  assume "FindContact io org ph tbl = Some p"
  then show "p \<in> set tbl \<and> \<not> p_Deleted p \<and> p_Org p = org \<and> normalize_phone (p_Phone p) = ph"
    using assms(1,3) by (auto simp: FindContact_def Let_def split: option.splits dest!: person_by_phone_Some)
next
  assume p: "p \<in> set tbl \<and> \<not> p_Deleted p \<and> p_Org p = org \<and> normalize_phone (p_Phone p) = ph"
  have uniq: "q = p" if "q \<in> set tbl" "p_Org q = org" "normalize_phone (p_Phone q) = ph" for q
    using that p assms(2) by (auto simp: people_ok_def distinct_map inj_on_def)
  show "FindContact io org ph tbl = Some p"
  proof (cases "person_by_phone org ph (filter (\<lambda>p. \<not> p_Deleted p) tbl)")
    case None
    with p have "p_Phone p = CHR ''+'' # ph"
      using assms(3) by (auto simp: person_by_phone_None normalize_eq_plain)
    with p obtain q where "person_by_phone org (CHR ''+'' # ph) (filter (\<lambda>p. \<not> p_Deleted p) tbl) = Some q"
      by (cases "person_by_phone org (CHR ''+'' # ph) (filter (\<lambda>p. \<not> p_Deleted p) tbl)")
         (auto simp: person_by_phone_None)
    with None uniq [of q] assms(1,3) show ?thesis
      by (auto simp: FindContact_def dest!: person_by_phone_Some)
  next
    case (Some q)
    with uniq [of q] assms(1,3) show ?thesis
      by (auto simp: FindContact_def dest!: person_by_phone_Some)
  qed
qed


lemma refresh_result:
  "contact_healthy io \<Longrightarrow> p \<in> set tbl \<Longrightarrow> fst (refresh io n p tbl) \<in> set (snd (refresh io n p tbl))"
  "p_ID (fst (refresh io n p tbl)) = p_ID p" "p_Org (fst (refresh io n p tbl)) = p_Org p"
  "p_Phone (fst (refresh io n p tbl)) = p_Phone p" "\<not> p_Deleted (fst (refresh io n p tbl))"
proof -
  assume "contact_healthy io" "p \<in> set tbl"
  then have "fst (refresh io n p tbl) = rename_row io n p (restore_row io p p)"
    by (cases p) (simp add: refresh_def rename_row_def restore_row_def contact_healthy_def)
  with \<open>p \<in> set tbl\<close> show "fst (refresh io n p tbl) \<in> set (snd (refresh io n p tbl))"
    by (auto simp: refresh_def set_update_by)
qed (simp_all add: refresh_def)

text \<open>An undisturbed call: it returns the one live row of the number.\<close>

lemma GetOrCreateContact_row:
  assumes "people_ok tbl" "plain_phone ph" "normalize_phone phoneNumber = ph"
    and "contact_healthy io" "cio_others io = []" "cio_new io \<notin> p_ID ` set tbl"
    and "GetOrCreateContact io org phoneNumber name tbl = (r, tbl')"
  obtains c created where "r = Some (c, created)" "people_ok tbl'" "c \<in> set tbl'" "\<not> p_Deleted c" "p_Org c = org"
    "normalize_phone (p_Phone c) = ph"
    "created \<longleftrightarrow> (\<forall>p \<in> set tbl. \<not> (p_Org p = org \<and> normalize_phone (p_Phone p) = ph))"
proof -
  note result = that
  have found: thesis if p: "p \<in> set tbl" "p_Org p = org" "normalize_phone (p_Phone p) = ph"
    and g: "r = Some (fst (refresh io name p tbl), False)" "tbl' = snd (refresh io name p tbl)" for p
  proof (rule result [OF g(1)])
    show "people_ok tbl'"
      using people_ok_refresh [OF assms(1)] g(2) by simp
    show "fst (refresh io name p tbl) \<in> set tbl'" "\<not> p_Deleted (fst (refresh io name p tbl))"
      "p_Org (fst (refresh io name p tbl)) = org" "normalize_phone (p_Phone (fst (refresh io name p tbl))) = ph"
      using refresh_result(1) [OF assms(4) p(1)] p unfolding g(2) by (simp_all add: refresh_result)
    show "False \<longleftrightarrow> (\<forall>p \<in> set tbl. \<not> (p_Org p = org \<and> normalize_phone (p_Phone p) = ph))"
      using p by auto
  qed
  show thesis
  proof (cases "person_by_phone org ph tbl")
    case (Some p)
    have "r = Some (fst (refresh io name p tbl), False)" "tbl' = snd (refresh io name p tbl)"
      using assms(7) unfolding GetOrCreateContact_def Let_def assms(3) first_person_healthy [OF assms(4)] Some
      by (simp_all add: case_prod_beta)
    then show thesis
      using person_by_phone_Some [OF Some] assms(2) by (intro found [of p]) simp_all
  next
    case none: None
    show thesis
    proof (cases "person_by_phone org (CHR ''+'' # ph) tbl")
      case (Some p)
      have "r = Some (fst (refresh io name p tbl), False)" "tbl' = snd (refresh io name p tbl)"
        using assms(7) unfolding GetOrCreateContact_def Let_def assms(3) first_person_healthy [OF assms(4)] none Some
        by (simp_all add: case_prod_beta)
      then show thesis
        using person_by_phone_Some [OF Some] by (intro found [of p]) simp_all
    next
      case None
      with none have new: "\<forall>p \<in> set tbl. \<not> (p_Org p = org \<and> normalize_phone (p_Phone p) = ph)"
        using assms(2) by (auto simp: person_by_phone_None normalize_eq_plain)
      let ?c = "\<lparr>p_ID = cio_new io, p_Org = org, p_Phone = ph, p_Name = name, p_Deleted = False, p_OptOut = False\<rparr>"
      have "r = Some (?c, True)" "tbl' = tbl @ [?c]"
        using assms(3-7) none None contact_healthy_def [of io] by (auto simp: GetOrCreateContact_def Let_def)
      then show thesis
        using result [of ?c True] new assms(1,2,6) by (auto simp: people_ok_def)
    qed
  qed
qed

text \<open>
  C34. Contacts are found again, when no query and no update of these calls fails and nobody inserts a
  contact during the first one: after \<open>GetOrCreateContact\<close> for a number, written with or without a
  leading plus sign, on a table with one row per number, the table still has one row per number,
  \<open>FindContact\<close> returns the contact that was handed out for both spellings, and a second call hands out
  the same contact without creating one. A contact is created only when the organisation had no row
  for the number, a soft-deleted one included (that one is restored).
\<close>
theorem contact_lookup_roundtrip:
  assumes "people_ok tbl" "plain_phone ph" "spelling \<in> {ph, CHR ''+'' # ph}" "again \<in> {ph, CHR ''+'' # ph}"
    and "contact_healthy io" "contact_healthy io2" "cio_others io = []" "cio_new io \<notin> p_ID ` set tbl"
  shows "\<exists>c created tbl'. GetOrCreateContact io org spelling name tbl = (Some (c, created), tbl') \<and>
    people_ok tbl' \<and> FindContact io2 org again tbl' = Some c \<and>
    (\<exists>c2. fst (GetOrCreateContact io2 org again name2 tbl') = Some (c2, False) \<and> p_ID c2 = p_ID c) \<and>
    (created \<longleftrightarrow> (\<forall>p \<in> set tbl. \<not> (p_Org p = org \<and> normalize_phone (p_Phone p) = ph)))"
proof -
  have norm: "normalize_phone spelling = ph" "normalize_phone again = ph"
    using assms(2-4) by auto
  obtain r tbl' where g: "GetOrCreateContact io org spelling name tbl = (r, tbl')"
    by fastforce
  obtain c created where c: "r = Some (c, created)" "people_ok tbl'" "c \<in> set tbl'" "\<not> p_Deleted c" "p_Org c = org"
    "normalize_phone (p_Phone c) = ph"
    "created \<longleftrightarrow> (\<forall>p \<in> set tbl. \<not> (p_Org p = org \<and> normalize_phone (p_Phone p) = ph))"
    by (rule GetOrCreateContact_row [OF assms(1,2) norm(1) assms(5,7,8) g])
  have "FindContact io2 org again tbl' = FindContact io2 org ph tbl'"
    using norm(2) assms(2) by (simp add: FindContact_def)
  then have find: "FindContact io2 org again tbl' = Some c"
    using FindContact_iff [OF assms(6) c(2) assms(2)] c by simp
  have uniq: "q = c" if "q \<in> set tbl'" "p_Org q = org" "normalize_phone (p_Phone q) = ph" for q
    using that c by (auto simp: people_ok_def distinct_map inj_on_def)
  have phone: "p_Phone c = ph \<or> p_Phone c = CHR ''+'' # ph"
    using c(6) assms(2) by (simp add: normalize_eq_plain)
  have "\<exists>c2. fst (GetOrCreateContact io2 org again name2 tbl') = Some (c2, False) \<and> p_ID c2 = p_ID c"
  proof (cases "person_by_phone org ph tbl'")
    case (Some q)
    with uniq [of q] assms(2) have "q = c"
      by (auto dest!: person_by_phone_Some)
    with Some norm(2) assms(6) show ?thesis
      by (auto simp: GetOrCreateContact_def refresh_def Let_def)
  next
    case None
    with phone c(3,5) have "p_Phone c = CHR ''+'' # ph"
      by (auto simp: person_by_phone_None)
    with c(3,5) obtain q where q: "person_by_phone org (CHR ''+'' # ph) tbl' = Some q"
      by (cases "person_by_phone org (CHR ''+'' # ph) tbl'") (auto simp: person_by_phone_None)
    with uniq [of q] have "q = c"
      by (auto dest!: person_by_phone_Some)
    with None q norm(2) assms(6) show ?thesis
      by (auto simp: GetOrCreateContact_def refresh_def Let_def)
  qed
  with g c find show ?thesis by blast
qed

definition old_person :: person where
  "old_person = \<lparr>p_ID = ''p1'', p_Org = ''org'', p_Phone = ''+2126'', p_Name = ''Ann'', p_Deleted = True, p_OptOut = True\<rparr>"

definition next_person :: contact_io where
  "next_person = \<lparr>cio_new = ''p2'', cio_others = [], cio_err = (\<lambda>_. False)\<rparr>"

theorem contact_lookup_roundtrip_witness:
  "\<exists>c tbl'. GetOrCreateContact next_person ''org'' ''2126'' [] [old_person] = (Some (c, False), tbl') \<and>
     FindContact next_person ''org'' ''+2126'' tbl' = Some c"
proof -
  have ok: "people_ok [old_person]" "plain_phone ''2126''"
    by (simp_all add: people_ok_def plain_phone_def)
  have row: "\<not> (\<forall>p \<in> set [old_person]. \<not> (p_Org p = ''org'' \<and> normalize_phone (p_Phone p) = ''2126''))"
    by (simp add: old_person_def)
  obtain c created tbl' where "GetOrCreateContact next_person ''org'' ''2126'' [] [old_person] = (Some (c, created), tbl') \<and>
      FindContact next_person ''org'' ''+2126'' tbl' = Some c"
      "created \<longleftrightarrow> (\<forall>p \<in> set [old_person]. \<not> (p_Org p = ''org'' \<and> normalize_phone (p_Phone p) = ''2126''))"
    using contact_lookup_roundtrip [OF ok, of "''2126''" "''+2126''" next_person next_person "''org''" "[]" "[]"]
    by (force simp: next_person_def old_person_def contact_healthy_def)
  with row show ?thesis by (cases created) simp_all
qed

end
