(* ===== verification/Campaigns.thy ===== *)
theory Campaigns
  imports Message_Components Contacts
begin

text \<open>
  Bulk campaigns: their rows, the job queue of \<open>internal/queue/redis.go\<close> and the worker of
  \<open>internal/worker/worker.go\<close>. The Redis stream is a list of jobs not yet handed to
  a worker and a list of jobs handed out but not acknowledged; \<open>sends\<close> is what was given to Meta's
  API, whose answer is \<open>cp_meta\<close>. Jobs pass through JSON unchanged. Audit entries, statistics for the
  UI and log lines are left out. A failing database statement is \<open>cp_err\<close> of its name; a handler
  runs as a whole.
\<close>

section \<open>Rows\<close>

record bulk_campaign =
  bc_ID :: string
  bc_Org :: string
  bc_WhatsAppAccount :: string
  bc_Name :: string
  bc_TemplateID :: string
  bc_HeaderMediaID :: string
  bc_HeaderMediaFilename :: string
  bc_HeaderMediaMimeType :: string
  bc_HeaderMediaLocalPath :: string
  bc_Status :: string
  bc_TotalRecipients :: int
  bc_SentCount :: int
  bc_DeliveredCount :: int
  bc_ReadCount :: int
  bc_FailedCount :: int
  bc_ScheduledAt :: "int option"
  bc_StartedAt :: "int option"
  bc_CompletedAt :: "int option"

record bulk_recipient =
  br_ID :: string
  br_Campaign :: string
  br_Phone :: string
  br_Name :: string
  br_TemplateParams :: jsonb
  br_HeaderParams :: jsonb
  br_Status :: string
  br_WAID :: string
  br_Error :: string
  br_SentAt :: "int option"
  br_DeliveredAt :: "int option"
  br_ReadAt :: "int option"

record template_row =
  tp_ID :: string
  tp_Org :: string
  tp_WhatsAppAccount :: string
  tp_Name :: string
  tp_Language :: string
  tp_Category :: string
  tp_Status :: string
  tp_HeaderType :: string
  tp_HeaderContent :: string
  tp_BodyContent :: string
  tp_Buttons :: "any list"

record bulk_message =
  gm_ID :: string
  gm_Org :: string
  gm_WhatsAppAccount :: string
  gm_Contact :: string
  gm_WAID :: string
  gm_Status :: string
  gm_Error :: string
  gm_Content :: string
  gm_TemplateName :: string
  gm_TemplateParams :: jsonb
  gm_Metadata :: jsonb
  gm_MediaURL :: string
  gm_MediaMimeType :: string

record wa_account =
  wa_Org :: string
  wa_Name :: string
  wa_IsDefaultOutgoing :: bool

record RecipientJob =
  rj_CampaignID :: string
  rj_RecipientID :: string
  rj_OrganizationID :: string
  rj_PhoneNumber :: string
  rj_RecipientName :: string
  rj_TemplateParams :: jsonb
  rj_HeaderParams :: jsonb

record template_send =
  ts_Account :: string
  ts_Phone :: string
  ts_Template :: string
  ts_Language :: string
  ts_Components :: "obj list"
  ts_Campaign :: string

record camp_db =
  campaigns :: "bulk_campaign list"
  recipients :: "bulk_recipient list"
  templates :: "template_row list"
  accounts :: "wa_account list"
  people :: "person list"
  msgs :: "bulk_message list"
  stream :: "RecipientJob list"
  unacked :: "RecipientJob list"
  sends :: "template_send list"

record camp_io =
  cp_now :: "nat \<Rightarrow> int"
  cp_err :: "string \<Rightarrow> bool"
  cp_new :: "nat \<Rightarrow> string"
  cp_uuid :: "string \<Rightarrow> string option"
  cp_rt :: go_rt
  cp_up :: "string \<Rightarrow> string"
  cp_fold :: "string \<Rightarrow> string \<Rightarrow> bool"
  cp_contact :: contact_io
  cp_enqueued :: nat
  cp_idle :: "RecipientJob \<Rightarrow> bool"
  cp_meta :: "template_send \<Rightarrow> string + string"

section \<open>Table updates\<close>

definition upd_campaign :: "string \<Rightarrow> (bulk_campaign \<Rightarrow> bulk_campaign) \<Rightarrow> camp_db \<Rightarrow> camp_db" where
  "upd_campaign i f db = db\<lparr>campaigns := update_by bc_ID i f (campaigns db)\<rparr>"

definition set_status :: "string \<Rightarrow> string \<Rightarrow> camp_db \<Rightarrow> camp_db" where
  "set_status i s = upd_campaign i (\<lambda>c. c\<lparr>bc_Status := s\<rparr>)"

definition campaign_of :: "camp_db \<Rightarrow> string \<Rightarrow> bulk_campaign option" where
  "campaign_of db i = find (\<lambda>c. bc_ID c = i) (campaigns db)"

definition recipients_in :: "camp_db \<Rightarrow> string \<Rightarrow> string \<Rightarrow> bulk_recipient list" where
  "recipients_in db i s = filter (\<lambda>r. br_Campaign r = i \<and> br_Status r = s) (recipients db)"

definition account_named :: "camp_db \<Rightarrow> string \<Rightarrow> string \<Rightarrow> wa_account option" where
  "account_named db org name = find (\<lambda>a. wa_Name a = name \<and> wa_Org a = org) (accounts db)"

datatype counter = Sent | Delivered | ReadC | Failed

definition bump :: "counter \<Rightarrow> bulk_campaign \<Rightarrow> bulk_campaign" where
  "bump k c =
     (case k of
        Sent \<Rightarrow> c\<lparr>bc_SentCount := bc_SentCount c + 1\<rparr>
      | Delivered \<Rightarrow> c\<lparr>bc_DeliveredCount := bc_DeliveredCount c + 1\<rparr>
      | ReadC \<Rightarrow> c\<lparr>bc_ReadCount := bc_ReadCount c + 1\<rparr>
      | Failed \<Rightarrow> c\<lparr>bc_FailedCount := bc_FailedCount c + 1\<rparr>)"

section \<open>The worker\<close>

definition updateRecipientStatus :: "camp_io \<Rightarrow> string \<Rightarrow> string \<Rightarrow> string \<Rightarrow> string \<Rightarrow> camp_db \<Rightarrow> camp_db" where
  "updateRecipientStatus io recipientID status waMessageID errorMsg db =
     (if cp_err io ''recipient'' then db
      else db\<lparr>recipients := update_by br_ID recipientID
             (\<lambda>r. r\<lparr>br_Status := status, br_WAID := waMessageID,
                    br_SentAt := (if status = ''sent'' then Some (cp_now io 1) else br_SentAt r),
                    br_Error := (if errorMsg \<noteq> [] then errorMsg else br_Error r)\<rparr>) (recipients db)\<rparr>)"

definition incrementCampaignCount :: "camp_io \<Rightarrow> string \<Rightarrow> counter \<Rightarrow> camp_db \<Rightarrow> camp_db" where
  "incrementCampaignCount io campaignID k db = (if cp_err io ''count'' then db else upd_campaign campaignID (bump k) db)"

text \<open>A failed count query leaves \<open>pendingCount\<close> at zero.\<close>

definition checkCampaignCompletion :: "camp_io \<Rightarrow> string \<Rightarrow> camp_db \<Rightarrow> camp_db" where
  "checkCampaignCompletion io campaignID db =
     (let pendingCount = (if cp_err io ''count_pending'' then 0 else length (recipients_in db campaignID ''pending'')) in
      if pendingCount = 0 then
        (case (if cp_err io ''find_campaign'' then None else campaign_of db campaignID) of
           None \<Rightarrow> db
         | Some c \<Rightarrow>
             if bc_Status c \<noteq> ''processing'' \<or> cp_err io ''complete'' then db
             else upd_campaign campaignID (\<lambda>c. c\<lparr>bc_Status := ''completed'', bc_CompletedAt := Some (cp_now io 2)\<rparr>) db)
      else db)"

definition worker_body_params :: "go_rt \<Rightarrow> string \<Rightarrow> obj \<Rightarrow> params" where
  "worker_body_params rt body tparams =
     (let paramNames = ExtParamNames body in
      fold (\<lambda>(i, val) m. AList.update (if i < length paramNames then paramNames ! i else Itoa (int i + 1)) val m)
        (enumerate 0 (ResolveParams rt body tparams)) [])"

definition worker_header_params :: "go_rt \<Rightarrow> template_row \<Rightarrow> jsonb \<Rightarrow> jsonb \<Rightarrow> params" where
  "worker_header_params rt template hparams tparams =
     (if tp_HeaderType template \<noteq> ''TEXT'' then []
      else
        (case ExtParamNames (tp_HeaderContent template) of
           [name] \<Rightarrow>
             (case map_of (jsonb hparams) name of
                Some raw \<Rightarrow> [(name, Sprint_v rt raw)]
              | None \<Rightarrow>
                  (case map_of (jsonb tparams) name of
                     Some raw \<Rightarrow> [(name, Sprint_v rt raw)]
                   | None \<Rightarrow> []))
         | _ \<Rightarrow> []))"

text \<open>The request to Meta, or the text of the error that keeps it from being made.\<close>

definition template_request ::
    "camp_io \<Rightarrow> string \<Rightarrow> template_row \<Rightarrow> RecipientJob \<Rightarrow> string \<Rightarrow> string \<Rightarrow> string + template_send" where
  "template_request io account template job mediaID mediaFilename =
     (case BuildTemplateComponents (cp_up io) (strings_ToLower (cp_rt io))
             (worker_body_params (cp_rt io) (tp_BodyContent template) (jsonb (rj_TemplateParams job)))
             (tp_HeaderType template) (tp_HeaderContent template)
             (worker_header_params (cp_rt io) template (rj_HeaderParams job) (rj_TemplateParams job))
             mediaID mediaFilename of
        Inl n \<Rightarrow> Inl ''failed to build template components''
      | Inr components \<Rightarrow>
          Inr \<lparr>ts_Account = account, ts_Phone = rj_PhoneNumber job, ts_Template = tp_Name template,
               ts_Language = tp_Language template,
               ts_Components = components @ AutoButtonComponents (cp_up io) (cp_now io) (tp_Buttons template),
               ts_Campaign = rj_CampaignID job\<rparr>)"

definition sendTemplateMessage ::
    "camp_io \<Rightarrow> string \<Rightarrow> template_row \<Rightarrow> RecipientJob \<Rightarrow> string \<Rightarrow> string \<Rightarrow> camp_db \<Rightarrow> (string + string) \<times> camp_db" where
  "sendTemplateMessage io account template job mediaID mediaFilename db =
     (case template_request io account template job mediaID mediaFilename of
        Inl e \<Rightarrow> (Inl e, db)
      | Inr req \<Rightarrow> (cp_meta io req, db\<lparr>sends := sends db @ [req]\<rparr>))"

datatype job_result = JobDone | JobErr string | JobPanic

definition job_failed :: "camp_io \<Rightarrow> RecipientJob \<Rightarrow> string \<Rightarrow> camp_db \<Rightarrow> camp_db" where
  "job_failed io job reason db =
     incrementCampaignCount io (rj_CampaignID job) Failed
       (updateRecipientStatus io (rj_RecipientID job) ''failed'' [] reason db)"

definition campaign_message :: "camp_io \<Rightarrow> bulk_campaign \<Rightarrow> template_row \<Rightarrow> RecipientJob \<Rightarrow> string \<Rightarrow> string + string \<Rightarrow> bulk_message" where
  "campaign_message io campaign template job contactID answer =
     \<lparr>gm_ID = cp_new io 0, gm_Org = rj_OrganizationID job, gm_WhatsAppAccount = bc_WhatsAppAccount campaign, gm_Contact = contactID,
      gm_WAID = (case answer of Inl e \<Rightarrow> [] | Inr i \<Rightarrow> i),
      gm_Status = (case answer of Inl e \<Rightarrow> ''failed'' | Inr i \<Rightarrow> ''sent''),
      gm_Error = (case answer of Inl e \<Rightarrow> e | Inr i \<Rightarrow> []),
      gm_Content = ReplaceWithJSONBParams (cp_rt io) (tp_BodyContent template) (tp_BodyContent template)
                     (jsonb (rj_TemplateParams job)),
      gm_TemplateName = tp_Name template, gm_TemplateParams = rj_TemplateParams job,
      gm_Metadata = Some [(''campaign_id'', StrV (rj_CampaignID job)), (''recipient_name'', StrV (rj_RecipientName job))],
      gm_MediaURL = bc_HeaderMediaLocalPath campaign,
      gm_MediaMimeType = (if bc_HeaderMediaLocalPath campaign \<noteq> [] then bc_HeaderMediaMimeType campaign else [])\<rparr>"

text \<open>Sending to a contact that may be written to; the template was preloaded (\<open>None\<close>: its row is gone).\<close>

definition deliver_job ::
    "camp_io \<Rightarrow> bulk_campaign \<Rightarrow> template_row option \<Rightarrow> RecipientJob \<Rightarrow> string \<Rightarrow> camp_db \<Rightarrow> job_result \<times> camp_db" where
  "deliver_job io campaign template job contactID db =
     (case template of
        None \<Rightarrow> (JobPanic, db)
      | Some tp \<Rightarrow>
          (case sendTemplateMessage io (bc_WhatsAppAccount campaign) tp job (bc_HeaderMediaID campaign)
                  (bc_HeaderMediaFilename campaign) db of
             (answer, db1) \<Rightarrow>
               (let db2 = (case answer of
                             Inl e \<Rightarrow> job_failed io job e db1
                           | Inr i \<Rightarrow> incrementCampaignCount io (rj_CampaignID job) Sent
                                       (updateRecipientStatus io (rj_RecipientID job) ''sent'' i [] db1));
                    db3 = (if cp_err io ''create_message'' then db2
                           else db2\<lparr>msgs := msgs db2 @ [campaign_message io campaign tp job contactID answer]\<rparr>)
                in (JobDone, checkCampaignCompletion io (rj_CampaignID job) db3))))"

definition HandleRecipientJob :: "camp_io \<Rightarrow> RecipientJob \<Rightarrow> camp_db \<Rightarrow> job_result \<times> camp_db" where
  "HandleRecipientJob io job db =
     (case (if cp_err io ''load_campaign'' then None else campaign_of db (rj_CampaignID job)) of
        None \<Rightarrow> (JobErr ''failed to load campaign'', db)
      | Some campaign \<Rightarrow>
          if bc_Status campaign = ''paused'' \<or> bc_Status campaign = ''cancelled'' then (JobDone, db)
          else if cp_err io ''account'' \<or> account_named db (rj_OrganizationID job) (bc_WhatsAppAccount campaign) = None then
            (JobDone, job_failed io job ''WhatsApp account not found'' db)
          else
            (case GetOrCreateContact (cp_contact io) (rj_OrganizationID job) (rj_PhoneNumber job) (rj_RecipientName job) (people db) of
               (None, tbl) \<Rightarrow> (JobDone, job_failed io job ''Failed to create contact'' (db\<lparr>people := tbl\<rparr>))
             | (Some (contact, created), tbl) \<Rightarrow>
                 (let db1 = db\<lparr>people := tbl\<rparr>;
                      template = find (\<lambda>t. tp_ID t = bc_TemplateID campaign) (templates db)
                  in if p_OptOut contact \<and> (case template of None \<Rightarrow> False | Some t \<Rightarrow> cp_fold io (tp_Category t) ''MARKETING'')
                     then (JobDone, job_failed io job ''Contact opted out of marketing messages'' db1)
                     else deliver_job io campaign template job (p_ID contact) db1)))"

section \<open>The queue\<close>

text \<open>\<open>pipe.Exec\<close> may fail after some commands were executed: \<open>cp_enqueued\<close> of them.\<close>

definition EnqueueRecipients :: "camp_io \<Rightarrow> RecipientJob list \<Rightarrow> camp_db \<Rightarrow> bool \<times> camp_db" where
  "EnqueueRecipients io jobs db =
     (if jobs = [] then (True, db)
      else if cp_err io ''enqueue'' then (False, db\<lparr>stream := stream db @ take (cp_enqueued io) jobs\<rparr>)
      else (True, db\<lparr>stream := stream db @ jobs\<rparr>))"

text \<open>Handling a job that was handed out: acknowledged unless it failed; \<open>False\<close> when the worker died.\<close>

definition processMessage :: "camp_io \<Rightarrow> RecipientJob \<Rightarrow> camp_db \<Rightarrow> bool \<times> camp_db" where
  "processMessage io job db =
     (case HandleRecipientJob io job db of
        (JobDone, db') \<Rightarrow> (True, if cp_err io ''ack'' then db' else db'\<lparr>unacked := remove1 job (unacked db')\<rparr>)
      | (JobErr e, db') \<Rightarrow> (True, db')
      | (JobPanic, db') \<Rightarrow> (False, db'))"

text \<open>One round of the loop of \<open>Consume\<close>.\<close>

definition consume_next :: "camp_io \<Rightarrow> camp_db \<Rightarrow> bool \<times> camp_db" where
  "consume_next io db =
     (case stream db of
        [] \<Rightarrow> (True, db)
      | job # rest \<Rightarrow> processMessage io job (db\<lparr>stream := rest, unacked := unacked db @ [job]\<rparr>))"

text \<open>
  What a starting worker takes over from crashed ones: at most a hundred jobs that were handed out
  long enough ago. \<open>ios\<close> are the surroundings of the jobs, one after the other; a claim is empty when
  another worker was faster.
\<close>

fun claim_loop :: "(nat \<Rightarrow> camp_io) \<Rightarrow> RecipientJob list \<Rightarrow> camp_db \<Rightarrow> bool \<times> camp_db" where
  "claim_loop ios [] db = (True, db)"
| "claim_loop ios (job # jobs) db =
     (if cp_err (ios 0) ''claim'' then claim_loop (\<lambda>n. ios (Suc n)) jobs db
      else (case processMessage (ios 0) job db of
              (True, db') \<Rightarrow> claim_loop (\<lambda>n. ios (Suc n)) jobs db'
            | (False, db') \<Rightarrow> (False, db')))"

definition claimPendingMessages :: "camp_io \<Rightarrow> (nat \<Rightarrow> camp_io) \<Rightarrow> camp_db \<Rightarrow> bool \<times> camp_db" where
  "claimPendingMessages io ios db =
     (if cp_err io ''pending'' then (True, db) else claim_loop ios (take 100 (filter (cp_idle io) (unacked db))) db)"

end
