(* ===== verification/Campaign_API.thy ===== *)
theory Campaign_API
  imports Campaigns
begin

text \<open>
  The REST operations of \<open>handlers/campaigns.go\<close> that change campaigns and recipients, and the delivery
  reports of \<open>handlers/webhook.go\<close> (\<open>updateMessageStatus\<close>) that change message rows, campaign counters
  and recipients. \<open>auth\<close> is the organisation and user of the request (\<open>getOrgAndUserID\<close>). Answers carry
  the HTTP status and the message; the refusals of the checks before sending are a datatype of their
  own, all with status 400.
\<close>

section \<open>Requests and answers\<close>

record CampaignRequest =
  cq_Name :: string
  cq_WhatsAppAccount :: string
  cq_TemplateID :: string
  cq_HeaderMediaID :: string
  cq_ScheduledAt :: "int option"

record RecipientRequest =
  rq_PhoneNumber :: string
  rq_RecipientName :: string
  rq_TemplateParams :: jsonb
  rq_HeaderParams :: jsonb

datatype send_refusal =
    TemplateGone
  | TemplateNotApproved string string
  | TemplateOfOtherAccount string string string
  | MissingValues nat nat string

datatype camp_reply =
    Fail nat string
  | Refused send_refusal
  | Done string

section \<open>Lookups\<close>

definition resolveWhatsAppAccount :: "camp_io \<Rightarrow> string \<Rightarrow> string \<Rightarrow> camp_db \<Rightarrow> wa_account option" where
  "resolveWhatsAppAccount io orgID accountName db =
     (if accountName \<noteq> [] then
        (if cp_err io ''account'' then None else account_named db orgID accountName)
      else
        (case (if cp_err io ''default_account'' then None
               else find (\<lambda>a. wa_Org a = orgID \<and> wa_IsDefaultOutgoing a) (accounts db)) of
           Some a \<Rightarrow> Some a
         | None \<Rightarrow> (if cp_err io ''any_account'' then None else find (\<lambda>a. wa_Org a = orgID) (accounts db))))"

definition campaign_by :: "camp_io \<Rightarrow> string \<Rightarrow> string \<Rightarrow> camp_db \<Rightarrow> bulk_campaign option" where
  "campaign_by io i orgID db =
     (if cp_err io ''find_campaign'' then None else find (\<lambda>c. bc_ID c = i \<and> bc_Org c = orgID) (campaigns db))"

definition template_by :: "camp_io \<Rightarrow> string \<Rightarrow> string \<Rightarrow> camp_db \<Rightarrow> template_row option" where
  "template_by io i orgID db =
     (if cp_err io ''find_template'' then None else find (\<lambda>t. tp_ID t = i \<and> tp_Org t = orgID) (templates db))"

text \<open>How every operation on one campaign begins: organisation, path parameter, row.\<close>

definition campaign_for ::
    "camp_io \<Rightarrow> (string \<times> string) option \<Rightarrow> string \<Rightarrow> camp_db \<Rightarrow> camp_reply + (string \<times> bulk_campaign)" where
  "campaign_for io auth pathID db =
     (case auth of
        None \<Rightarrow> Inl (Fail 401 ''Unauthorized'')
      | Some (orgID, userID) \<Rightarrow>
     (case cp_uuid io pathID of
        None \<Rightarrow> Inl (Fail 400 ''Invalid campaign ID'')
      | Some i \<Rightarrow>
     (case campaign_by io i orgID db of
        None \<Rightarrow> Inl (Fail 404 ''Campaign not found'')
      | Some c \<Rightarrow> Inr (orgID, c))))"

section \<open>Editing a draft\<close>

definition CreateCampaign ::
    "camp_io \<Rightarrow> (string \<times> string) option \<Rightarrow> CampaignRequest option \<Rightarrow> camp_db \<Rightarrow> camp_reply \<times> camp_db" where
  "CreateCampaign io auth body db =
     (case auth of
        None \<Rightarrow> (Fail 401 ''Unauthorized'', db)
      | Some (orgID, userID) \<Rightarrow>
     (case body of
        None \<Rightarrow> (Fail 400 ''Invalid request body'', db)
      | Some req \<Rightarrow>
     (case cp_uuid io (cq_TemplateID req) of
        None \<Rightarrow> (Fail 400 ''Invalid template ID'', db)
      | Some templateID \<Rightarrow>
     (case template_by io templateID orgID db of
        None \<Rightarrow> (Fail 404 ''Template not found'', db)
      | Some template \<Rightarrow>
          if resolveWhatsAppAccount io orgID (cq_WhatsAppAccount req) db = None then
            (Fail 400 ''WhatsApp account not found'', db)
          else if cp_err io ''create_campaign'' then (Fail 500 ''Failed to create campaign'', db)
          else
            (Done (cp_new io 0),
             db\<lparr>campaigns := campaigns db @
               [\<lparr>bc_ID = cp_new io 0, bc_Org = orgID, bc_WhatsAppAccount = cq_WhatsAppAccount req, bc_Name = cq_Name req,
                 bc_TemplateID = templateID, bc_HeaderMediaID = cq_HeaderMediaID req, bc_HeaderMediaFilename = [],
                 bc_HeaderMediaMimeType = [], bc_HeaderMediaLocalPath = [], bc_Status = ''draft'',
                 bc_TotalRecipients = 0, bc_SentCount = 0, bc_DeliveredCount = 0, bc_ReadCount = 0, bc_FailedCount = 0,
                 bc_ScheduledAt = cq_ScheduledAt req, bc_StartedAt = None, bc_CompletedAt = None\<rparr>]\<rparr>)))))"

definition UpdateCampaign ::
    "camp_io \<Rightarrow> (string \<times> string) option \<Rightarrow> string \<Rightarrow> CampaignRequest option \<Rightarrow> camp_db \<Rightarrow> camp_reply \<times> camp_db" where
  "UpdateCampaign io auth pathID body db =
     (case campaign_for io auth pathID db of
        Inl r \<Rightarrow> (r, db)
      | Inr (orgID, campaign) \<Rightarrow>
          if bc_Status campaign \<noteq> ''draft'' then (Fail 400 ''Can only update draft campaigns'', db)
          else
     (case body of
        None \<Rightarrow> (Fail 400 ''Invalid request body'', db)
      | Some req \<Rightarrow>
          if cq_TemplateID req \<noteq> [] \<and> cp_uuid io (cq_TemplateID req) = None then (Fail 400 ''Invalid template ID'', db)
          else if cp_err io ''update_campaign'' then (Fail 500 ''Failed to update campaign'', db)
          else
            (Done (bc_ID campaign),
             upd_campaign (bc_ID campaign)
               (\<lambda>c. c\<lparr>bc_Name := cq_Name req, bc_ScheduledAt := cq_ScheduledAt req,
                      bc_TemplateID := (case (if cq_TemplateID req \<noteq> [] then cp_uuid io (cq_TemplateID req) else None) of
                                          Some i \<Rightarrow> i | None \<Rightarrow> bc_TemplateID c),
                      bc_WhatsAppAccount :=
                        (if cq_WhatsAppAccount req \<noteq> [] then cq_WhatsAppAccount req else bc_WhatsAppAccount c)\<rparr>) db)))"

definition DeleteCampaign :: "camp_io \<Rightarrow> (string \<times> string) option \<Rightarrow> string \<Rightarrow> camp_db \<Rightarrow> camp_reply \<times> camp_db" where
  "DeleteCampaign io auth pathID db =
     (case campaign_for io auth pathID db of
        Inl r \<Rightarrow> (r, db)
      | Inr (orgID, campaign) \<Rightarrow>
          if bc_Status campaign = ''processing'' \<or> bc_Status campaign = ''queued'' then
            (Fail 400 ''Cannot delete running campaign'', db)
          else if cp_err io ''delete_recipients'' then (Fail 500 ''Failed to delete campaign'', db)
          else
            (let db1 = db\<lparr>recipients := filter (\<lambda>r. br_Campaign r \<noteq> bc_ID campaign) (recipients db)\<rparr> in
             if cp_err io ''delete_campaign'' then (Fail 500 ''Failed to delete campaign'', db1)
             else (Done ''Campaign deleted successfully'',
                   db1\<lparr>campaigns := filter (\<lambda>c. bc_ID c \<noteq> bc_ID campaign) (campaigns db1)\<rparr>)))"

definition new_recipient :: "camp_io \<Rightarrow> string \<Rightarrow> nat \<times> RecipientRequest \<Rightarrow> bulk_recipient" where
  "new_recipient io i = (\<lambda>(n, rec).
     \<lparr>br_ID = cp_new io n, br_Campaign = i, br_Phone = rq_PhoneNumber rec, br_Name = rq_RecipientName rec,
      br_TemplateParams = rq_TemplateParams rec, br_HeaderParams = rq_HeaderParams rec, br_Status = ''pending'',
      br_WAID = [], br_Error = [], br_SentAt = None, br_DeliveredAt = None, br_ReadAt = None\<rparr>)"

text \<open>Creating an empty batch is an error of gorm; a failed count leaves the total at zero.\<close>

definition ImportRecipients ::
    "camp_io \<Rightarrow> (string \<times> string) option \<Rightarrow> string \<Rightarrow> RecipientRequest list option \<Rightarrow> camp_db \<Rightarrow> camp_reply \<times> camp_db" where
  "ImportRecipients io auth pathID body db =
     (case campaign_for io auth pathID db of
        Inl r \<Rightarrow> (r, db)
      | Inr (orgID, campaign) \<Rightarrow>
          if bc_Status campaign \<noteq> ''draft'' then (Fail 400 ''Can only add recipients to draft campaigns'', db)
          else
     (case body of
        None \<Rightarrow> (Fail 400 ''Invalid request body'', db)
      | Some req \<Rightarrow>
          if req = [] \<or> cp_err io ''create_recipients'' then (Fail 500 ''Failed to add recipients'', db)
          else
            (let db1 = db\<lparr>recipients := recipients db @ map (new_recipient io (bc_ID campaign)) (enumerate 0 req)\<rparr>;
                 totalCount = (if cp_err io ''count_recipients'' then 0
                               else length (filter (\<lambda>r. br_Campaign r = bc_ID campaign) (recipients db1)))
             in (Done ''Recipients added successfully'',
                 if cp_err io ''update_total'' then db1
                 else upd_campaign (bc_ID campaign) (\<lambda>c. c\<lparr>bc_TotalRecipients := int totalCount\<rparr>) db1))))"

definition DeleteCampaignRecipient ::
    "camp_io \<Rightarrow> (string \<times> string) option \<Rightarrow> string \<Rightarrow> string \<Rightarrow> camp_db \<Rightarrow> camp_reply \<times> camp_db" where
  "DeleteCampaignRecipient io auth pathID recipientPath db =
     (case auth of
        None \<Rightarrow> (Fail 401 ''Unauthorized'', db)
      | Some (orgID, userID) \<Rightarrow>
     (case cp_uuid io pathID of
        None \<Rightarrow> (Fail 400 ''Invalid campaign ID'', db)
      | Some i \<Rightarrow>
     (case cp_uuid io recipientPath of
        None \<Rightarrow> (Fail 400 ''Invalid recipient ID'', db)
      | Some recipientUUID \<Rightarrow>
     (case campaign_by io i orgID db of
        None \<Rightarrow> (Fail 404 ''Campaign not found'', db)
      | Some campaign \<Rightarrow>
          if bc_Status campaign \<noteq> ''draft'' then (Fail 400 ''Can only delete recipients from draft campaigns'', db)
          else if cp_err io ''delete_recipient'' then (Fail 500 ''Failed to delete recipient'', db)
          else if filter (\<lambda>r. br_ID r = recipientUUID \<and> br_Campaign r = i) (recipients db) = [] then
            (Fail 404 ''Recipient not found'', db)
          else
            (let db1 = db\<lparr>recipients := filter (\<lambda>r. \<not> (br_ID r = recipientUUID \<and> br_Campaign r = i)) (recipients db)\<rparr>
             in (Done ''Recipient deleted successfully'',
                 if cp_err io ''update_total'' then db1
                 else upd_campaign (bc_ID campaign) (\<lambda>c. c\<lparr>bc_TotalRecipients := bc_TotalRecipients c - 1\<rparr>) db1))))))"

section \<open>Starting\<close>

text \<open>The checks before sending: is the message of a recipient incomplete?\<close>

definition incomplete :: "go_rt \<Rightarrow> template_row \<Rightarrow> string list \<Rightarrow> string \<Rightarrow> bulk_recipient \<Rightarrow> bool" where
  "incomplete rt template bodyNames headerName rc =
     (let vals = ResolveParams rt (tp_BodyContent template) (jsonb (br_TemplateParams rc));
          body = (bodyNames \<noteq> [] \<and> (length vals < length bodyNames \<or> list_ex (\<lambda>v. TrimSpace v = []) vals));
          hv0 = obj_get (jsonb (br_HeaderParams rc)) headerName;
          hv = (if hv0 = NilV then obj_get (jsonb (br_TemplateParams rc)) headerName else hv0)
      in body \<or> (headerName \<noteq> [] \<and> TrimSpace (Sprint_v rt hv) = []))"

definition header_variable :: "camp_io \<Rightarrow> template_row \<Rightarrow> string" where
  "header_variable io template =
     (if cp_fold io (tp_HeaderType template) ''TEXT'' then
        (case ExtParamNames (tp_HeaderContent template) of [n] \<Rightarrow> n | _ \<Rightarrow> [])
      else [])"

definition comma_join :: "string list \<Rightarrow> string" where
  "comma_join xs = (case xs of [] \<Rightarrow> [] | x # rest \<Rightarrow> x @ concat (map (\<lambda>y. '', '' @ y) rest))"

definition send_guard :: "camp_io \<Rightarrow> string \<Rightarrow> bulk_campaign \<Rightarrow> bulk_recipient list \<Rightarrow> camp_db \<Rightarrow> send_refusal option" where
  "send_guard io orgID campaign rcs db =
     (if bc_TemplateID campaign = uuid_Nil then None
      else
        (case template_by io (bc_TemplateID campaign) orgID db of
           None \<Rightarrow> Some TemplateGone
         | Some template \<Rightarrow>
             if \<not> cp_fold io (tp_Status template) ''APPROVED'' then
               Some (TemplateNotApproved (tp_Name template) (tp_Status template))
             else if \<not> cp_fold io (tp_WhatsAppAccount template) (bc_WhatsAppAccount campaign) then
               Some (TemplateOfOtherAccount (tp_Name template) (tp_WhatsAppAccount template) (bc_WhatsAppAccount campaign))
             else
               (let bodyNames = ExtParamNames (tp_BodyContent template);
                    headerName = header_variable io template;
                    missing = (if bodyNames \<noteq> [] \<or> headerName \<noteq> [] then
                                 length (filter (incomplete (cp_rt io) template bodyNames headerName) rcs)
                               else 0);
                    varList = comma_join ((if headerName \<noteq> [] then [headerName] else []) @
                                (if comma_join bodyNames \<noteq> [] then [comma_join bodyNames] else []))
                in if missing > 0 then Some (MissingValues missing (length rcs) varList) else None)))"

definition recipient_job :: "string \<Rightarrow> string \<Rightarrow> bulk_recipient \<Rightarrow> RecipientJob" where
  "recipient_job orgID i r =
     \<lparr>rj_CampaignID = i, rj_RecipientID = br_ID r, rj_OrganizationID = orgID, rj_PhoneNumber = br_Phone r,
      rj_RecipientName = br_Name r, rj_TemplateParams = br_TemplateParams r, rj_HeaderParams = br_HeaderParams r\<rparr>"

definition StartCampaign :: "camp_io \<Rightarrow> (string \<times> string) option \<Rightarrow> string \<Rightarrow> camp_db \<Rightarrow> camp_reply \<times> camp_db" where
  "StartCampaign io auth pathID db =
     (case campaign_for io auth pathID db of
        Inl r \<Rightarrow> (r, db)
      | Inr (orgID, campaign) \<Rightarrow>
          if bc_Status campaign \<noteq> ''draft'' \<and> bc_Status campaign \<noteq> ''scheduled'' \<and> bc_Status campaign \<noteq> ''paused'' then
            (Fail 400 ''Campaign cannot be started in current state'', db)
          else if cp_err io ''load_recipients'' then (Fail 500 ''Failed to load recipients'', db)
          else
            (let rcs = recipients_in db (bc_ID campaign) ''pending'' in
             if rcs = [] then (Fail 400 ''Campaign has no pending recipients'', db)
             else
               (case send_guard io orgID campaign rcs db of
                  Some e \<Rightarrow> (Refused e, db)
                | None \<Rightarrow>
                    if cp_err io ''start'' then (Fail 500 ''Failed to start campaign'', db)
                    else
                      (case EnqueueRecipients io (map (recipient_job orgID (bc_ID campaign)) rcs)
                              (upd_campaign (bc_ID campaign)
                                 (\<lambda>c. c\<lparr>bc_Status := ''processing'', bc_StartedAt := Some (cp_now io 0)\<rparr>) db) of
                         (True, db1) \<Rightarrow> (Done ''Campaign started'', db1)
                       | (False, db1) \<Rightarrow>
                           (Fail 500 ''Failed to queue recipients'',
                            if cp_err io ''revert'' then db1 else set_status (bc_ID campaign) ''draft'' db1)))))"

definition PauseCampaign :: "camp_io \<Rightarrow> (string \<times> string) option \<Rightarrow> string \<Rightarrow> camp_db \<Rightarrow> camp_reply \<times> camp_db" where
  "PauseCampaign io auth pathID db =
     (case campaign_for io auth pathID db of
        Inl r \<Rightarrow> (r, db)
      | Inr (orgID, campaign) \<Rightarrow>
          if bc_Status campaign \<noteq> ''processing'' \<and> bc_Status campaign \<noteq> ''queued'' then
            (Fail 400 ''Campaign is not running'', db)
          else if cp_err io ''pause'' then (Fail 500 ''Failed to pause campaign'', db)
          else (Done ''Campaign paused'', set_status (bc_ID campaign) ''paused'' db))"

definition CancelCampaign :: "camp_io \<Rightarrow> (string \<times> string) option \<Rightarrow> string \<Rightarrow> camp_db \<Rightarrow> camp_reply \<times> camp_db" where
  "CancelCampaign io auth pathID db =
     (case campaign_for io auth pathID db of
        Inl r \<Rightarrow> (r, db)
      | Inr (orgID, campaign) \<Rightarrow>
          if bc_Status campaign = ''completed'' \<or> bc_Status campaign = ''cancelled'' then
            (Fail 400 ''Campaign already finished'', db)
          else if cp_err io ''cancel'' then (Fail 500 ''Failed to cancel campaign'', db)
          else (Done ''Campaign cancelled'', set_status (bc_ID campaign) ''cancelled'' db))"

section \<open>Statistics and retrying\<close>

text \<open>\<open>metadata->>'campaign_id'\<close>; a value that is not a string is no identifier.\<close>

definition message_campaign :: "bulk_message \<Rightarrow> string option" where
  "message_campaign m = as_str (obj_get (jsonb (gm_Metadata m)) ''campaign_id'')"

definition messages_in :: "camp_db \<Rightarrow> string \<Rightarrow> string list \<Rightarrow> bulk_message list" where
  "messages_in db i ss = filter (\<lambda>m. message_campaign m = Some i \<and> gm_Status m \<in> set ss) (msgs db)"

definition recalculateCampaignStats :: "camp_io \<Rightarrow> string \<Rightarrow> camp_db \<Rightarrow> camp_db" where
  "recalculateCampaignStats io i db =
     (if cp_err io ''scan_stats'' \<or> cp_err io ''update_stats'' then db
      else upd_campaign i
        (\<lambda>c. c\<lparr>bc_SentCount := int (length (messages_in db i [''sent'', ''delivered'', ''read''])),
               bc_DeliveredCount := int (length (messages_in db i [''delivered'', ''read''])),
               bc_ReadCount := int (length (messages_in db i [''read''])),
               bc_FailedCount := int (length (messages_in db i [''failed'']))\<rparr>) db)"

definition reset_recipients :: "string \<Rightarrow> camp_db \<Rightarrow> camp_db" where
  "reset_recipients i db =
     db\<lparr>recipients := map (\<lambda>r. if br_Campaign r = i \<and> br_Status r = ''failed''
                              then r\<lparr>br_Status := ''pending'', br_Error := []\<rparr> else r) (recipients db)\<rparr>"

definition reset_messages :: "string \<Rightarrow> camp_db \<Rightarrow> camp_db" where
  "reset_messages i db =
     db\<lparr>msgs := map (\<lambda>m. if message_campaign m = Some i \<and> gm_Status m = ''failed''
                        then m\<lparr>gm_Status := ''pending'', gm_Error := []\<rparr> else m) (msgs db)\<rparr>"

definition RetryFailed :: "camp_io \<Rightarrow> (string \<times> string) option \<Rightarrow> string \<Rightarrow> camp_db \<Rightarrow> camp_reply \<times> camp_db" where
  "RetryFailed io auth pathID db =
     (case campaign_for io auth pathID db of
        Inl r \<Rightarrow> (r, db)
      | Inr (orgID, campaign) \<Rightarrow>
          if bc_Status campaign \<noteq> ''completed'' \<and> bc_Status campaign \<noteq> ''paused'' \<and> bc_Status campaign \<noteq> ''failed'' then
            (Fail 400 ''Can only retry failed messages on completed, paused, or failed campaigns'', db)
          else if cp_err io ''load_failed'' then (Fail 500 ''Failed to load failed recipients'', db)
          else
            (let failedRecipients = recipients_in db (bc_ID campaign) ''failed'' in
             if failedRecipients = [] then (Fail 400 ''No failed messages to retry'', db)
             else if cp_err io ''reset_recipients'' then (Fail 500 ''Failed to reset failed recipients'', db)
             else
               (let db1 = reset_recipients (bc_ID campaign) db;
                    db2 = (if cp_err io ''reset_messages'' then db1 else reset_messages (bc_ID campaign) db1);
                    db3 = recalculateCampaignStats io (bc_ID campaign) db2
                in if cp_err io ''update_status'' then (Fail 500 ''Failed to update campaign'', db3)
                   else
                     (case EnqueueRecipients io (map (recipient_job orgID (bc_ID campaign)) failedRecipients)
                             (set_status (bc_ID campaign) ''processing'' db3) of
                        (True, db4) \<Rightarrow> (Done ''Retrying failed messages'', db4)
                      | (False, db4) \<Rightarrow> (Fail 500 ''Failed to queue recipients'', db4)))))"

section \<open>Delivery reports\<close>

record WebhookStatusError =
  we_Code :: int
  we_Title :: string
  we_Message :: string
  we_Details :: string

definition error_text :: "WebhookStatusError \<Rightarrow> string" where
  "error_text e =
     (let t1 = we_Details e;
          t2 = (if t1 = [] then we_Message e else t1)
      in if t2 = [] \<or> t2 = we_Title e then we_Title e else t2)"

definition statusPriority :: "string \<Rightarrow> int" where
  "statusPriority status =
     (if status = ''pending'' then 0
      else if status = ''sent'' then 1
      else if status = ''delivered'' then 2
      else if status = ''read'' then 3
      else if status = ''failed'' then 4
      else -1)"

definition incrementCampaignStat :: "camp_io \<Rightarrow> string \<Rightarrow> string \<Rightarrow> camp_db \<Rightarrow> camp_db" where
  "incrementCampaignStat io campaignID status db =
     (case cp_uuid io campaignID of
        None \<Rightarrow> db
      | Some i \<Rightarrow>
          (case (if status = ''delivered'' then Some Delivered
                 else if status = ''read'' then Some ReadC
                 else if status = ''failed'' then Some Failed
                 else None) of
             None \<Rightarrow> db
           | Some k \<Rightarrow> if cp_err io ''increment'' then db else upd_campaign i (bump k) db))"

text \<open>The text of the first error of a report; \<open>None\<close>: the report has none.\<close>

definition report_error :: "string \<Rightarrow> WebhookStatusError list \<Rightarrow> string option" where
  "report_error newStatus errors =
     (if newStatus = ''failed'' then (case errors of [] \<Rightarrow> None | e # _ \<Rightarrow> Some (error_text e)) else None)"

definition report_recipient :: "camp_io \<Rightarrow> string \<Rightarrow> string option \<Rightarrow> bulk_recipient \<Rightarrow> bulk_recipient" where
  "report_recipient io newStatus errMsg r =
     r\<lparr>br_Status := newStatus,
       br_DeliveredAt := (if newStatus = ''delivered'' then Some (cp_now io 0) else br_DeliveredAt r),
       br_ReadAt := (if newStatus = ''read'' then Some (cp_now io 0) else br_ReadAt r),
       br_Error := (case errMsg of Some e \<Rightarrow> if e \<noteq> [] then e else br_Error r | None \<Rightarrow> br_Error r)\<rparr>"

definition updateMessageStatus ::
    "camp_io \<Rightarrow> string \<Rightarrow> string \<Rightarrow> WebhookStatusError list \<Rightarrow> camp_db \<Rightarrow> camp_db" where
  "updateMessageStatus io whatsappMsgID newStatus errors db =
     (case (if cp_err io ''find_message'' then None else find (\<lambda>m. gm_WAID m = whatsappMsgID) (msgs db)) of
        None \<Rightarrow> db
      | Some m \<Rightarrow>
          if statusPriority newStatus \<le> statusPriority (gm_Status m) \<and> newStatus \<noteq> ''failed'' then db
          else if newStatus \<notin> {''sent'', ''delivered'', ''read'', ''failed''} then db
          else if cp_err io ''update_message'' then db
          else
            (let errMsg = report_error newStatus errors;
                 db1 = db\<lparr>msgs := update_by gm_ID (gm_ID m)
                        (\<lambda>x. x\<lparr>gm_Status := newStatus,
                               gm_Error := (case errMsg of Some e \<Rightarrow> e | None \<Rightarrow> gm_Error x)\<rparr>) (msgs db)\<rparr>
             in case message_campaign m of
                  None \<Rightarrow> db1
                | Some campaignID \<Rightarrow>
                    if campaignID = [] then db1
                    else
                      (let db2 = incrementCampaignStat io campaignID newStatus db1
                       in if cp_err io ''report_recipient'' then db2
                          else db2\<lparr>recipients := update_by br_WAID whatsappMsgID
                                 (report_recipient io newStatus errMsg) (recipients db2)\<rparr>)))"

end
