(* ===== verification/Campaign_Facts.thy ===== *)
theory Campaign_Facts
  imports Campaign_API
begin

text \<open>
  Steps of the campaign tables: \<open>camp_step\<close> is one complete call of an operation, one job of a worker,
  one start of a worker or one delivery report, in any order and with any failures. The lemmas say
  what every operation leaves alone.
\<close>

named_theorems camp_defs

lemmas [camp_defs] =
  CreateCampaign_def UpdateCampaign_def DeleteCampaign_def ImportRecipients_def DeleteCampaignRecipient_def
  StartCampaign_def PauseCampaign_def CancelCampaign_def RetryFailed_def

section \<open>Tables an operation writes\<close>

lemma upd_campaign_tables [simp]:
  "recipients (upd_campaign i f db) = recipients db" "sends (upd_campaign i f db) = sends db"
  "stream (upd_campaign i f db) = stream db" "unacked (upd_campaign i f db) = unacked db"
  "msgs (upd_campaign i f db) = msgs db" "people (upd_campaign i f db) = people db"
  "templates (upd_campaign i f db) = templates db" "accounts (upd_campaign i f db) = accounts db"
  "campaigns (upd_campaign i f db) = update_by bc_ID i f (campaigns db)"
  by (simp_all add: upd_campaign_def)

lemma set_status_tables [simp]:
  "recipients (set_status i s db) = recipients db" "sends (set_status i s db) = sends db"
  "stream (set_status i s db) = stream db" "unacked (set_status i s db) = unacked db"
  "msgs (set_status i s db) = msgs db" "people (set_status i s db) = people db"
  "templates (set_status i s db) = templates db" "accounts (set_status i s db) = accounts db"
  "campaigns (set_status i s db) = update_by bc_ID i (\<lambda>c. c\<lparr>bc_Status := s\<rparr>) (campaigns db)"
  by (simp_all add: set_status_def)

lemma bump_keeps [simp]:
  "bc_ID (bump k c) = bc_ID c" "bc_Status (bump k c) = bc_Status c" "bc_Org (bump k c) = bc_Org c"
  "bc_TotalRecipients (bump k c) = bc_TotalRecipients c" "bc_TemplateID (bump k c) = bc_TemplateID c"
  "bc_WhatsAppAccount (bump k c) = bc_WhatsAppAccount c" "bc_HeaderMediaID (bump k c) = bc_HeaderMediaID c"
  "bc_HeaderMediaFilename (bump k c) = bc_HeaderMediaFilename c" "bc_CompletedAt (bump k c) = bc_CompletedAt c"
  "bc_StartedAt (bump k c) = bc_StartedAt c"
  by (simp_all add: bump_def split: counter.split)

lemma campaign_for_Inr:
  "campaign_for io auth p db = Inr (orgID, c) \<Longrightarrow> c \<in> set (campaigns db) \<and> bc_Org c = orgID"
  by (auto simp: campaign_for_def campaign_by_def find_Some_iff split: option.splits if_splits)

lemma EnqueueRecipients_tables:
  "EnqueueRecipients io jobs db = (ok, db') \<Longrightarrow> \<exists>js. db' = db\<lparr>stream := stream db @ js\<rparr> \<and> set js \<subseteq> set jobs \<and> (ok \<longrightarrow> js = jobs)"
  by (auto simp: EnqueueRecipients_def split: if_splits dest: in_set_takeD)

section \<open>Silent rows\<close>

text \<open>Nothing is sent for campaign \<open>i\<close>, and its cancelled row stays cancelled.\<close>

definition cancelled_row :: "string \<Rightarrow> camp_db \<Rightarrow> bool" where
  "cancelled_row i db \<longleftrightarrow> (\<forall>c \<in> set (campaigns db). bc_ID c = i \<longrightarrow> bc_Status c = ''cancelled'')"

definition sends_of :: "string \<Rightarrow> camp_db \<Rightarrow> template_send list" where
  "sends_of i db = filter (\<lambda>s. ts_Campaign s = i) (sends db)"

definition silent :: "string \<Rightarrow> camp_db \<Rightarrow> camp_db \<Rightarrow> bool" where
  "silent i db db' \<longleftrightarrow> (cancelled_row i db \<longrightarrow> cancelled_row i db' \<and> sends_of i db' = sends_of i db)"

lemma silent_refl [simp]: "silent i db db"
  by (simp add: silent_def)

lemma silent_trans: "silent i a b \<Longrightarrow> silent i b c \<Longrightarrow> silent i a c"
  by (simp add: silent_def)

lemma silent_same: "campaigns b = campaigns a \<Longrightarrow> sends b = sends a \<Longrightarrow> silent i a b"
  by (simp add: silent_def cancelled_row_def sends_of_def)

lemma silent_upd:
  "(\<And>c. bc_ID (f c) = bc_ID c) \<Longrightarrow> j \<noteq> i \<or> (\<forall>c. bc_Status (f c) = bc_Status c) \<Longrightarrow> silent i db (upd_campaign j f db)"
  by (auto simp: silent_def cancelled_row_def sends_of_def set_update_by)

lemma silent_found:
  "campaign_for io auth p db = Inr (orgID, c) \<Longrightarrow> (bc_Status c = ''cancelled'' \<Longrightarrow> db' = db) \<Longrightarrow>
     (bc_ID c \<noteq> i \<Longrightarrow> silent i db db') \<Longrightarrow> silent i db db'"
  using campaign_for_Inr [of io auth p db orgID c] unfolding silent_def cancelled_row_def by blast

lemma silent_Create: "cp_new io 0 \<noteq> i \<Longrightarrow> silent i db (snd (CreateCampaign io auth body db))"
  by (auto simp: CreateCampaign_def silent_def cancelled_row_def sends_of_def split: option.splits)

lemma silent_Update: "silent i db (snd (UpdateCampaign io auth p body db))"
proof (cases "campaign_for io auth p db")
  case (Inr a)
  then obtain orgID c where c: "campaign_for io auth p db = Inr (orgID, c)"
    by (cases a) auto
  show ?thesis
    by (rule silent_found [OF c]; auto simp: UpdateCampaign_def c intro!: silent_upd split: option.splits)
qed (simp add: UpdateCampaign_def)

lemma silent_Delete: "silent i db (snd (DeleteCampaign io auth p db))"
  by (auto simp: DeleteCampaign_def Let_def silent_def cancelled_row_def sends_of_def split: sum.splits)

lemma silent_Import: "silent i db (snd (ImportRecipients io auth p rbody db))"
proof -
  have "silent i db (upd_campaign j (\<lambda>c. c\<lparr>bc_TotalRecipients := n\<rparr>) (db\<lparr>recipients := rs\<rparr>))" for j n rs
    by (rule silent_trans [OF silent_same silent_upd]) simp_all
  then show ?thesis
    by (auto simp: ImportRecipients_def Let_def intro: silent_same split: sum.splits option.splits)
qed

lemma silent_DeleteRecipient: "silent i db (snd (DeleteCampaignRecipient io auth p rp db))"
proof -
  have "silent i db (upd_campaign j (\<lambda>c. c\<lparr>bc_TotalRecipients := bc_TotalRecipients c - 1\<rparr>) (db\<lparr>recipients := rs\<rparr>))" for j rs
    by (rule silent_trans [OF silent_same silent_upd]) simp_all
  then show ?thesis
    by (auto simp: DeleteCampaignRecipient_def Let_def intro: silent_same split: option.splits)
qed

lemma silent_Enqueue:
  "EnqueueRecipients io jobs a = (ok, b) \<Longrightarrow> silent i a b"
  by (auto dest!: EnqueueRecipients_tables intro: silent_same)

text \<open>What starting does, whatever fails: nothing, or a status and jobs of pending recipients.\<close>

lemma Start_result:
  obtains (refused) "snd (StartCampaign io auth p db) = db"
  | (started) orgID c js s where "campaign_for io auth p db = Inr (orgID, c)"
      "bc_Status c = ''draft'' \<or> bc_Status c = ''scheduled'' \<or> bc_Status c = ''paused''"
      "s = ''processing'' \<or> s = ''draft''"
      "set js \<subseteq> recipient_job orgID (bc_ID c) ` set (recipients_in db (bc_ID c) ''pending'')"
      "recipients_in db (bc_ID c) ''pending'' \<noteq> []"
      "snd (StartCampaign io auth p db) =
         (upd_campaign (bc_ID c) (\<lambda>r. r\<lparr>bc_Status := s, bc_StartedAt := Some (cp_now io 0)\<rparr>) db)\<lparr>stream := stream db @ js\<rparr>"
proof (cases "campaign_for io auth p db")
  case (Inl r)
  then show thesis
    by (intro refused) (simp add: StartCampaign_def)
next
  case (Inr a)
  then obtain orgID c where c: "campaign_for io auth p db = Inr (orgID, c)"
    by (cases a) auto
  let ?rcs = "recipients_in db (bc_ID c) ''pending''"
  let ?u = "upd_campaign (bc_ID c) (\<lambda>c. c\<lparr>bc_Status := ''processing'', bc_StartedAt := Some (cp_now io 0)\<rparr>) db"
  obtain ok db1 where q: "EnqueueRecipients io (map (recipient_job orgID (bc_ID c)) ?rcs) ?u = (ok, db1)"
    by fastforce
  then obtain js where js: "db1 = ?u\<lparr>stream := stream db @ js\<rparr>" "set js \<subseteq> recipient_job orgID (bc_ID c) ` set ?rcs"
    using EnqueueRecipients_tables [OF q] by auto
  have revert: "set_status (bc_ID c) ''draft'' db1 =
      (upd_campaign (bc_ID c) (\<lambda>r. r\<lparr>bc_Status := ''draft'', bc_StartedAt := Some (cp_now io 0)\<rparr>) db)\<lparr>stream := stream db @ js\<rparr>"
    by (simp add: js(1) set_status_def upd_campaign_def update_by_def comp_def)
  show thesis
  proof (cases "snd (StartCampaign io auth p db) = db")
    case False
    then have "bc_Status c = ''draft'' \<or> bc_Status c = ''scheduled'' \<or> bc_Status c = ''paused''" "?rcs \<noteq> []"
      "snd (StartCampaign io auth p db) = db1 \<or> snd (StartCampaign io auth p db) = set_status (bc_ID c) ''draft'' db1"
      by (auto simp: StartCampaign_def c Let_def q split: option.splits if_splits bool.splits)
    then show thesis
      using started [OF c, of "''processing''" js] started [OF c, of "''draft''" js] js revert by metis
  qed (rule refused)
qed

lemma silent_Start: "silent i db (snd (StartCampaign io auth p db))"
proof (cases rule: Start_result [of io auth p db])
  case (started orgID c js s)
  show ?thesis
  proof (rule silent_found [OF started(1)])
    show "silent i db (snd (StartCampaign io auth p db))" if "bc_ID c \<noteq> i"
      unfolding started(6) using that by (intro silent_trans [OF silent_upd silent_same]) simp_all
  qed (use started(2) in auto)
qed simp

lemma silent_Pause: "silent i db (snd (PauseCampaign io auth p db))"
proof (cases "campaign_for io auth p db")
  case (Inr a)
  then obtain orgID c where c: "campaign_for io auth p db = Inr (orgID, c)"
    by (cases a) auto
  show ?thesis
    by (rule silent_found [OF c]) (auto simp: PauseCampaign_def c set_status_def intro!: silent_upd)
qed (simp add: PauseCampaign_def)

lemma silent_Cancel: "silent i db (snd (CancelCampaign io auth p db))"
proof (cases "campaign_for io auth p db")
  case (Inr a)
  then obtain orgID c where c: "campaign_for io auth p db = Inr (orgID, c)"
    by (cases a) auto
  show ?thesis
    by (rule silent_found [OF c]) (auto simp: CancelCampaign_def c set_status_def intro!: silent_upd)
qed (simp add: CancelCampaign_def)

lemma reset_tables [simp]:
  "campaigns (reset_recipients j db) = campaigns db" "sends (reset_recipients j db) = sends db"
  "campaigns (reset_messages j db) = campaigns db" "sends (reset_messages j db) = sends db"
  "stream (reset_recipients j db) = stream db" "stream (reset_messages j db) = stream db"
  "unacked (reset_recipients j db) = unacked db" "unacked (reset_messages j db) = unacked db"
  "recipients (reset_messages j db) = recipients db" "msgs (reset_recipients j db) = msgs db"
  by (simp_all add: reset_recipients_def reset_messages_def)

lemma silent_recalculate: "silent i db (recalculateCampaignStats io j db)"
  by (auto simp: recalculateCampaignStats_def intro!: silent_upd)

definition retry_tables :: "camp_io \<Rightarrow> string \<Rightarrow> camp_db \<Rightarrow> camp_db" where
  "retry_tables io i db =
     recalculateCampaignStats io i
       (if cp_err io ''reset_messages'' then reset_recipients i db else reset_messages i (reset_recipients i db))"

lemma Retry_result:
  obtains (refused) "snd (RetryFailed io auth p db) = db"
  | (reset) orgID c where "campaign_for io auth p db = Inr (orgID, c)" "cp_err io ''update_status''"
      "bc_Status c = ''completed'' \<or> bc_Status c = ''paused'' \<or> bc_Status c = ''failed''"
      "snd (RetryFailed io auth p db) = retry_tables io (bc_ID c) db"
  | (retried) orgID c js where "campaign_for io auth p db = Inr (orgID, c)"
      "bc_Status c = ''completed'' \<or> bc_Status c = ''paused'' \<or> bc_Status c = ''failed''"
      "set js \<subseteq> recipient_job orgID (bc_ID c) ` set (recipients_in db (bc_ID c) ''failed'')"
      "snd (RetryFailed io auth p db) =
         (set_status (bc_ID c) ''processing'' (retry_tables io (bc_ID c) db))\<lparr>stream := stream db @ js\<rparr>"
proof (cases "campaign_for io auth p db")
  case (Inl r)
  then show thesis
    by (intro refused) (simp add: RetryFailed_def)
next
  case (Inr a)
  then obtain orgID c where c: "campaign_for io auth p db = Inr (orgID, c)"
    by (cases a) auto
  let ?rcs = "recipients_in db (bc_ID c) ''failed''"
  let ?u = "set_status (bc_ID c) ''processing'' (retry_tables io (bc_ID c) db)"
  obtain ok db1 where q: "EnqueueRecipients io (map (recipient_job orgID (bc_ID c)) ?rcs) ?u = (ok, db1)"
    by fastforce
  have str: "stream (retry_tables io (bc_ID c) db) = stream db"
    by (simp add: retry_tables_def recalculateCampaignStats_def)
  obtain js where js: "db1 = ?u\<lparr>stream := stream db @ js\<rparr>" "set js \<subseteq> recipient_job orgID (bc_ID c) ` set ?rcs"
    using EnqueueRecipients_tables [OF q] by (auto simp: str)
  show thesis
  proof (cases "snd (RetryFailed io auth p db) = db")
    case False
    then have st: "bc_Status c = ''completed'' \<or> bc_Status c = ''paused'' \<or> bc_Status c = ''failed''"
      by (auto simp: RetryFailed_def c split: if_splits)
    from False have "cp_err io ''update_status'' \<and> snd (RetryFailed io auth p db) = retry_tables io (bc_ID c) db \<or>
        snd (RetryFailed io auth p db) = db1"
      using q unfolding RetryFailed_def c sum.case prod.case Let_def retry_tables_def [symmetric]
      by (cases ok) (auto split: if_splits)
    then show thesis
      using reset [OF c _ st] retried [OF c st js(2)] js(1) by auto
  qed (rule refused)
qed

lemma silent_retry_tables: "silent i db (retry_tables io j db)"
  unfolding retry_tables_def by (rule silent_trans [OF silent_same silent_recalculate]) simp_all

lemma silent_Retry: "silent i db (snd (RetryFailed io auth p db))"
proof (cases rule: Retry_result [of io auth p db])
  case (reset orgID c)
  then show ?thesis
    by (simp add: silent_retry_tables)
next
  case (retried orgID c js)
  show ?thesis
  proof (rule silent_found [OF retried(1)])
    show "silent i db (snd (RetryFailed io auth p db))" if "bc_ID c \<noteq> i"
      unfolding retried(4) set_status_def using that
      by (intro silent_trans [OF silent_retry_tables silent_trans [OF silent_upd silent_same]]) simp_all
  qed (use retried(2) in auto)
qed simp

lemma silent_increment: "silent i db (incrementCampaignStat io j st db)"
  by (simp add: incrementCampaignStat_def silent_upd split: option.split)

lemma silent_report: "silent i db (updateMessageStatus io w st errors db)"
proof -
  have inc: "silent i db (incrementCampaignStat io j st2 (db\<lparr>msgs := ms\<rparr>))" for j st2 ms
    by (rule silent_trans [OF silent_same silent_increment]) simp_all
  have "silent i db (incrementCampaignStat io j st2 (db\<lparr>msgs := ms\<rparr>)\<lparr>recipients := rs\<rparr>)" for j st2 ms rs
    by (rule silent_trans [OF inc silent_same]) simp_all
  moreover have "silent i db (db\<lparr>msgs := ms\<rparr>)" for ms
    by (rule silent_same) simp_all
  ultimately show ?thesis
    by (simp add: updateMessageStatus_def Let_def inc split: option.split)
qed

section \<open>The worker\<close>

lemma worker_tables [simp]:
  "campaigns (updateRecipientStatus io r s w e db) = campaigns db"
  "sends (updateRecipientStatus io r s w e db) = sends db"
  "stream (updateRecipientStatus io r s w e db) = stream db"
  "unacked (updateRecipientStatus io r s w e db) = unacked db"
  "people (updateRecipientStatus io r s w e db) = people db"
  "templates (updateRecipientStatus io r s w e db) = templates db"
  "accounts (updateRecipientStatus io r s w e db) = accounts db"
  "msgs (updateRecipientStatus io r s w e db) = msgs db"
  by (simp_all add: updateRecipientStatus_def)

lemma count_tables [simp]:
  "recipients (incrementCampaignCount io j k db) = recipients db"
  "sends (incrementCampaignCount io j k db) = sends db"
  "stream (incrementCampaignCount io j k db) = stream db"
  "unacked (incrementCampaignCount io j k db) = unacked db"
  "people (incrementCampaignCount io j k db) = people db"
  "templates (incrementCampaignCount io j k db) = templates db"
  "accounts (incrementCampaignCount io j k db) = accounts db"
  "msgs (incrementCampaignCount io j k db) = msgs db"
  by (simp_all add: incrementCampaignCount_def)

lemma completion_tables [simp]:
  "recipients (checkCampaignCompletion io j db) = recipients db"
  "sends (checkCampaignCompletion io j db) = sends db"
  "stream (checkCampaignCompletion io j db) = stream db"
  "unacked (checkCampaignCompletion io j db) = unacked db"
  "people (checkCampaignCompletion io j db) = people db"
  "templates (checkCampaignCompletion io j db) = templates db"
  "accounts (checkCampaignCompletion io j db) = accounts db"
  "msgs (checkCampaignCompletion io j db) = msgs db"
  by (simp_all add: checkCampaignCompletion_def Let_def split: option.splits)

lemma silent_job_failed: "silent i db (job_failed io job e db)"
proof -
  have "silent i db (updateRecipientStatus io r s w e db)" for r s w e
    by (rule silent_same) simp_all
  then show ?thesis
    unfolding job_failed_def incrementCampaignCount_def
    by (auto intro: silent_trans [OF _ silent_upd])
qed

lemma campaign_of_Some: "campaign_of db j = Some c \<Longrightarrow> c \<in> set (campaigns db) \<and> bc_ID c = j"
  by (auto simp: campaign_of_def find_Some_iff)

lemma silent_completion: "silent i db (checkCampaignCompletion io j db)"
  by (auto simp: checkCampaignCompletion_def Let_def silent_def cancelled_row_def sends_of_def set_update_by
      dest: campaign_of_Some split: option.splits)

lemma template_request_campaign:
  "template_request io account tp job mid mname = Inr req \<Longrightarrow> ts_Campaign req = rj_CampaignID job"
  by (auto simp: template_request_def split: sum.splits)

lemma silent_deliver:
  assumes "rj_CampaignID job \<noteq> i"
  shows "silent i db (snd (deliver_job io campaign template job contactID db))"
proof (cases template)
  case (Some tp)
  obtain answer db1 where a: "sendTemplateMessage io (bc_WhatsAppAccount campaign) tp job (bc_HeaderMediaID campaign)
      (bc_HeaderMediaFilename campaign) db = (answer, db1)"
    by fastforce
  have 1: "silent i db db1"
    using a assms by (auto simp: sendTemplateMessage_def silent_def cancelled_row_def sends_of_def
        dest: template_request_campaign split: sum.splits)
  have 2: "silent i db1 (case answer of Inl e \<Rightarrow> job_failed io job e db1
      | Inr w \<Rightarrow> incrementCampaignCount io (rj_CampaignID job) Sent (updateRecipientStatus io (rj_RecipientID job) ''sent'' w [] db1))"
  proof (cases answer)
    case (Inr w)
    have "silent i (updateRecipientStatus io r s w e db1) (incrementCampaignCount io j k (updateRecipientStatus io r s w e db1))"
      for r s e j k
      by (simp add: incrementCampaignCount_def silent_upd)
    then have "silent i db1 (incrementCampaignCount io j k (updateRecipientStatus io r s w e db1))" for r s e j k
      by (rule silent_trans [OF silent_same, rotated 2]) simp_all
    with Inr show ?thesis by simp
  qed (simp add: silent_job_failed)
  have 3: "silent i d (checkCampaignCompletion io j d)" "silent i d (checkCampaignCompletion io j (d\<lparr>msgs := ms\<rparr>))" for d j ms
    by (rule silent_completion, rule silent_trans [OF silent_same silent_completion]) simp_all
  show ?thesis
    using silent_trans [OF silent_trans [OF 1 2] 3(1)] silent_trans [OF silent_trans [OF 1 2] 3(2)]
    by (simp add: deliver_job_def Some a Let_def)
qed (simp add: deliver_job_def)

lemma silent_job: "silent i db (snd (HandleRecipientJob io job db))"
proof (cases "rj_CampaignID job = i")
  case True
  show ?thesis
    unfolding silent_def
  proof
    assume "cancelled_row i db"
    then have "campaign_of db (rj_CampaignID job) = Some c \<Longrightarrow> bc_Status c = ''cancelled''" for c
      using True by (auto simp: cancelled_row_def dest: campaign_of_Some)
    then have "snd (HandleRecipientJob io job db) = db"
      by (simp add: HandleRecipientJob_def split: option.split)
    then show "cancelled_row i (snd (HandleRecipientJob io job db)) \<and>
        sends_of i (snd (HandleRecipientJob io job db)) = sends_of i db"
      using \<open>cancelled_row i db\<close> by simp
  qed
next
  case False
  have p: "silent i db (job_failed io job e (db\<lparr>people := tbl\<rparr>))"
    "silent i db (snd (deliver_job io campaign template job contactID (db\<lparr>people := tbl\<rparr>)))"
    for e tbl campaign template contactID
    by (rule silent_trans [OF silent_same silent_job_failed]; simp)
       (rule silent_trans [OF silent_same silent_deliver [OF False]]; simp)
  show ?thesis
    by (simp add: HandleRecipientJob_def p silent_job_failed Let_def split: option.split prod.split)
qed

lemma silent_process: "silent i db (snd (processMessage io job db))"
proof -
  obtain r db1 where h: "HandleRecipientJob io job db = (r, db1)"
    by fastforce
  have "silent i db db1"
    using silent_job [of i db io job] h by simp
  then show ?thesis
    by (cases r) (auto simp: processMessage_def h intro: silent_trans [OF _ silent_same])
qed

lemma silent_consume: "silent i db (snd (consume_next io db))"
proof -
  have "silent i db (snd (processMessage io job (db\<lparr>stream := rest, unacked := u\<rparr>)))" for job rest u
    by (rule silent_trans [OF silent_same silent_process]) simp_all
  then show ?thesis
    by (simp add: consume_next_def split: list.split)
qed

lemma silent_claims: "silent i db (snd (claim_loop ios jobs db))"
proof (induction ios jobs db rule: claim_loop.induct)
  case (2 ios job jobs db)
  show ?case
  proof (cases "processMessage (ios 0) job db")
    case (Pair alive db')
    then have "silent i db db'"
      using silent_process [of i db "ios 0" job] by simp
    with 2 Pair show ?thesis
      by (cases alive) (auto intro: silent_trans)
  qed
qed simp

lemma silent_claim: "silent i db (snd (claimPendingMessages io ios db))"
  by (simp add: claimPendingMessages_def silent_claims)

section \<open>Steps\<close>

text \<open>
  \<open>taken\<close> are identifiers that new campaigns do not get, \<open>good\<close> restricts the surroundings of the steps
  (\<open>\<lambda>_. True\<close>: everything may fail). Other parts of the program write messages, contacts, templates and
  accounts.
\<close>

inductive camp_step :: "(camp_io \<Rightarrow> bool) \<Rightarrow> string set \<Rightarrow> camp_db \<Rightarrow> camp_db \<Rightarrow> bool" for good taken where
  camp_create: "good io \<Longrightarrow> cp_new io 0 \<notin> taken \<union> bc_ID ` set (campaigns db) \<Longrightarrow>
    camp_step good taken db (snd (CreateCampaign io auth body db))"
| camp_update: "good io \<Longrightarrow> camp_step good taken db (snd (UpdateCampaign io auth p body db))"
| camp_delete: "good io \<Longrightarrow> camp_step good taken db (snd (DeleteCampaign io auth p db))"
| camp_import: "good io \<Longrightarrow> camp_step good taken db (snd (ImportRecipients io auth p rbody db))"
| camp_drop: "good io \<Longrightarrow> camp_step good taken db (snd (DeleteCampaignRecipient io auth p rp db))"
| camp_start: "good io \<Longrightarrow> camp_step good taken db (snd (StartCampaign io auth p db))"
| camp_pause: "good io \<Longrightarrow> camp_step good taken db (snd (PauseCampaign io auth p db))"
| camp_cancel: "good io \<Longrightarrow> camp_step good taken db (snd (CancelCampaign io auth p db))"
| camp_retry: "good io \<Longrightarrow> camp_step good taken db (snd (RetryFailed io auth p db))"
| camp_report: "good io \<Longrightarrow> camp_step good taken db (updateMessageStatus io w st errors db)"
| camp_consume: "good io \<Longrightarrow> camp_step good taken db (snd (consume_next io db))"
| camp_claim: "good io \<Longrightarrow> (\<And>k. good (ios k)) \<Longrightarrow> camp_step good taken db (snd (claimPendingMessages io ios db))"
| camp_other: "campaigns db' = campaigns db \<Longrightarrow> recipients db' = recipients db \<Longrightarrow> sends db' = sends db \<Longrightarrow>
    camp_step good taken db db'"

lemmas silent_operations =
  silent_Update silent_Delete silent_Import silent_DeleteRecipient silent_Start silent_Pause silent_Cancel
  silent_Retry silent_report silent_consume silent_claim silent_same

lemma camp_step_silent: "camp_step good taken db db' \<Longrightarrow> i \<in> taken \<Longrightarrow> silent i db db'"
  by (induction rule: camp_step.induct) (auto intro: silent_operations silent_Create)

end
