(* ===== verification/Campaign_Runs.thy ===== *)
theory Campaign_Runs
  imports Campaign_Facts
begin

text \<open>
  Runs of a worker on a healthy system: no statement fails, contacts are found or created. One round of
  \<open>Consume\<close> is described by what it sends, how it marks the recipient and what it counts; a run over a
  list of jobs is their composition.
\<close>

section \<open>One job\<close>

definition quiet :: "camp_io \<Rightarrow> bool" where
  "quiet io \<longleftrightarrow> cp_err io = (\<lambda>_. False) \<and> contact_healthy (cp_contact io) \<and> cio_others (cp_contact io) = []"

fun consume_run :: "(nat \<Rightarrow> camp_io) \<Rightarrow> nat \<Rightarrow> camp_db \<Rightarrow> camp_db" where
  "consume_run ios 0 db = db"
| "consume_run ios (Suc n) db = consume_run (\<lambda>k. ios (Suc k)) n (snd (consume_next (ios 0) db))"

definition request_of :: "camp_io \<Rightarrow> bulk_campaign \<Rightarrow> template_row \<Rightarrow> RecipientJob \<Rightarrow> string + template_send" where
  "request_of io c tp job =
     template_request io (bc_WhatsAppAccount c) tp job (bc_HeaderMediaID c) (bc_HeaderMediaFilename c)"

definition outgoing :: "camp_io \<Rightarrow> bulk_campaign \<Rightarrow> template_row \<Rightarrow> RecipientJob \<Rightarrow> template_send list" where
  "outgoing io c tp job = (case request_of io c tp job of Inl e \<Rightarrow> [] | Inr req \<Rightarrow> [req])"

definition accepted :: "camp_io \<Rightarrow> bulk_campaign \<Rightarrow> template_row \<Rightarrow> RecipientJob \<Rightarrow> bool" where
  "accepted io c tp job =
     (case request_of io c tp job of
        Inl e \<Rightarrow> False
      | Inr req \<Rightarrow> (case cp_meta io req of Inl e \<Rightarrow> False | Inr w \<Rightarrow> True))"

definition rview :: "camp_db \<Rightarrow> (string \<times> string \<times> string) list" where
  "rview db = map (\<lambda>r. (br_ID r, br_Campaign r, br_Status r)) (recipients db)"

definition mark :: "string \<Rightarrow> string \<Rightarrow> (string \<times> string \<times> string) list \<Rightarrow> (string \<times> string \<times> string) list" where
  "mark i s = map (\<lambda>(r, c, s0). (r, c, if r = i then s else s0))"

definition outcome_of :: "bool \<Rightarrow> string" where
  "outcome_of ok = (if ok then ''sent'' else ''failed'')"

text \<open>What sending reads of a campaign row.\<close>

definition same_sending :: "bulk_campaign \<Rightarrow> bulk_campaign \<Rightarrow> bool" where
  "same_sending c c' \<longleftrightarrow> bc_ID c' = bc_ID c \<and> bc_TemplateID c' = bc_TemplateID c \<and>
     bc_WhatsAppAccount c' = bc_WhatsAppAccount c \<and> bc_HeaderMediaID c' = bc_HeaderMediaID c \<and>
     bc_HeaderMediaFilename c' = bc_HeaderMediaFilename c"

definition nobody_out :: "camp_db \<Rightarrow> bool" where
  "nobody_out db \<longleftrightarrow> (\<forall>p \<in> set (people db). \<not> p_OptOut p)"

lemma recipients_in_view:
  "recipients_in db i s = [] \<longleftrightarrow> (\<forall>(r, c, s0) \<in> set (rview db). \<not> (c = i \<and> s0 = s))"
  by (auto simp: recipients_in_def rview_def filter_empty_conv)

lemma refresh_out:
  "(\<forall>p \<in> set tbl. \<not> p_OptOut p) \<Longrightarrow> p \<in> set tbl \<Longrightarrow>
     \<not> p_OptOut (fst (refresh io n p tbl)) \<and> (\<forall>q \<in> set (snd (refresh io n p tbl)). \<not> p_OptOut q)"
  by (auto simp: refresh_def set_update_by)

lemma contact_not_out:
  assumes "\<forall>p \<in> set tbl. \<not> p_OptOut p" "contact_healthy io" "cio_others io = []"
  obtains p created tbl' where "GetOrCreateContact io org ph n tbl = (Some (p, created), tbl')"
    "\<not> p_OptOut p" "\<forall>q \<in> set tbl'. \<not> p_OptOut q"
proof -
  note result = that
  have r: thesis if "GetOrCreateContact io org ph n tbl = (Some (fst (refresh io n p tbl), False), snd (refresh io n p tbl))"
    "p \<in> set tbl" for p
    using result [OF that(1)] refresh_out [OF assms(1) that(2)] by blast
  let ?n = "normalize_phone ph"
  show thesis
  proof (cases "person_by_phone org ?n tbl")
    case (Some p)
    then show thesis
      using person_by_phone_Some [OF Some] assms(2)
      by (intro r [of p]) (simp_all add: GetOrCreateContact_def Let_def case_prod_beta)
  next
    case none: None
    show thesis
    proof (cases "person_by_phone org (CHR ''+'' # ?n) tbl")
      case (Some p)
      then show thesis
        using person_by_phone_Some [OF Some] none assms(2)
        by (intro r [of p]) (simp_all add: GetOrCreateContact_def Let_def case_prod_beta)
    next
      case None
      let ?c = "\<lparr>p_ID = cio_new io, p_Org = org, p_Phone = ?n, p_Name = n, p_Deleted = False, p_OptOut = False\<rparr>"
      have "GetOrCreateContact io org ph n tbl = (Some (?c, True), tbl @ [?c])"
        using none None assms contact_healthy_def [of io] by (simp add: GetOrCreateContact_def Let_def)
      then show thesis
        using result [of ?c True] assms(1) by simp
    qed
  qed
qed

lemma campaign_of_upd:
  "(\<And>c. bc_ID (f c) = bc_ID c) \<Longrightarrow> campaigns db' = update_by bc_ID i f cs \<Longrightarrow>
     campaign_of db' i = map_option f (find (\<lambda>c. bc_ID c = i) cs)"
proof -
  assume f: "\<And>c. bc_ID (f c) = bc_ID c" and db': "campaigns db' = update_by bc_ID i f cs"
  have "find (\<lambda>c. bc_ID c = i) (update_by bc_ID i f cs) = map_option f (find (\<lambda>c. bc_ID c = i) cs)"
    by (induction cs) (auto simp: f)
  with db' show ?thesis by (simp add: campaign_of_def)
qed

text \<open>The bookkeeping after an attempt, on a healthy system.\<close>

definition settle :: "camp_io \<Rightarrow> RecipientJob \<Rightarrow> string + string \<Rightarrow> camp_db \<Rightarrow> camp_db" where
  "settle io job answer db =
     (case answer of
        Inl e \<Rightarrow> job_failed io job e db
      | Inr w \<Rightarrow> incrementCampaignCount io (rj_CampaignID job) Sent
                  (updateRecipientStatus io (rj_RecipientID job) ''sent'' w [] db))"

lemma settle_effect:
  assumes "quiet io" "campaign_of db (rj_CampaignID job) = Some c"
  shows "rview (settle io job answer db) = mark (rj_RecipientID job) (outcome_of (\<not> isl answer)) (rview db)"
    and "campaign_of (settle io job answer db) (rj_CampaignID job) = Some (bump (if isl answer then Failed else Sent) c)"
    and "sends (settle io job answer db) = sends db" "stream (settle io job answer db) = stream db"
    "unacked (settle io job answer db) = unacked db" "people (settle io job answer db) = people db"
    "templates (settle io job answer db) = templates db" "accounts (settle io job answer db) = accounts db"
proof -
  show "rview (settle io job answer db) = mark (rj_RecipientID job) (outcome_of (\<not> isl answer)) (rview db)"
    using assms(1) by (cases answer)
      (auto simp: settle_def job_failed_def rview_def mark_def outcome_of_def quiet_def incrementCampaignCount_def
        updateRecipientStatus_def update_by_def)
  have "campaign_of db' (rj_CampaignID job) = Some (bump k c)"
    if "campaigns db' = update_by bc_ID (rj_CampaignID job) (bump k) (campaigns db)" for db' k
    using campaign_of_upd [OF _ that] assms(2) by (simp add: campaign_of_def)
  then show "campaign_of (settle io job answer db) (rj_CampaignID job) = Some (bump (if isl answer then Failed else Sent) c)"
    using assms(1) by (cases answer) (simp_all add: settle_def job_failed_def incrementCampaignCount_def quiet_def)
qed (simp_all add: settle_def job_failed_def split: sum.split)

lemma completion_effect:
  assumes "quiet io" "campaign_of db i = Some c"
  shows "\<exists>c'. campaign_of (checkCampaignCompletion io i db) i = Some c' \<and> same_sending c c' \<and>
      bc_SentCount c' = bc_SentCount c \<and> bc_FailedCount c' = bc_FailedCount c \<and>
      bc_Status c' = (if recipients_in db i ''pending'' = [] \<and> bc_Status c = ''processing'' then ''completed'' else bc_Status c)"
    and "rview (checkCampaignCompletion io i db) = rview db"
proof -
  let ?f = "\<lambda>c. c\<lparr>bc_Status := ''completed'', bc_CompletedAt := Some (cp_now io 2)\<rparr>"
  have "campaign_of (checkCampaignCompletion io i db) i = Some (?f c)"
    if "recipients_in db i ''pending'' = []" "bc_Status c = ''processing''"
    using that assms campaign_of_upd [of ?f "upd_campaign i ?f db" i "campaigns db"]
    by (simp add: checkCampaignCompletion_def quiet_def campaign_of_def)
  moreover have "checkCampaignCompletion io i db = db"
    if "\<not> (recipients_in db i ''pending'' = [] \<and> bc_Status c = ''processing'')"
    using that assms by (auto simp: checkCampaignCompletion_def quiet_def)
  ultimately show "\<exists>c'. campaign_of (checkCampaignCompletion io i db) i = Some c' \<and> same_sending c c' \<and>
      bc_SentCount c' = bc_SentCount c \<and> bc_FailedCount c' = bc_FailedCount c \<and>
      bc_Status c' = (if recipients_in db i ''pending'' = [] \<and> bc_Status c = ''processing'' then ''completed'' else bc_Status c)"
    using assms(2) by (auto simp: same_sending_def)
qed (simp add: rview_def)

lemma deliver_effect:
  assumes "quiet io" "campaign_of db (rj_CampaignID job) = Some c"
  obtains db' c' where "deliver_job io c (Some tp) job contactID db = (JobDone, db')"
    "campaign_of db' (rj_CampaignID job) = Some c'" "same_sending c c'"
    "rview db' = mark (rj_RecipientID job) (outcome_of (accepted io c tp job)) (rview db)"
    "sends db' = sends db @ outgoing io c tp job" "stream db' = stream db" "unacked db' = unacked db"
    "people db' = people db" "templates db' = templates db" "accounts db' = accounts db"
    "bc_SentCount c' + bc_FailedCount c' = bc_SentCount c + bc_FailedCount c + 1"
    "bc_Status c' = (if recipients_in db' (rj_CampaignID job) ''pending'' = [] \<and> bc_Status c = ''processing''
       then ''completed'' else bc_Status c)"
proof -
  obtain answer db1 where a: "sendTemplateMessage io (bc_WhatsAppAccount c) tp job (bc_HeaderMediaID c)
      (bc_HeaderMediaFilename c) db = (answer, db1)"
    by fastforce
  have s: "db1 = db\<lparr>sends := sends db @ outgoing io c tp job\<rparr>" "isl answer \<longleftrightarrow> \<not> accepted io c tp job"
    using a by (auto simp: sendTemplateMessage_def outgoing_def accepted_def request_of_def split: sum.splits)
  have "campaign_of db1 (rj_CampaignID job) = Some c"
    using assms(2) by (simp add: s campaign_of_def)
  note e = settle_effect [OF assms(1) this, of answer]
  let ?d = "settle io job answer db1"
  let ?m = "?d\<lparr>msgs := msgs ?d @ [campaign_message io c tp job contactID answer]\<rparr>"
  have "campaign_of ?m (rj_CampaignID job) = Some (bump (if isl answer then Failed else Sent) c)"
    using e(2) by (simp add: campaign_of_def)
  note f = completion_effect [OF assms(1) this]
  obtain c' where c': "campaign_of (checkCampaignCompletion io (rj_CampaignID job) ?m) (rj_CampaignID job) = Some c'"
    "same_sending (bump (if isl answer then Failed else Sent) c) c'"
    "bc_SentCount c' + bc_FailedCount c' = bc_SentCount c + bc_FailedCount c + 1"
    "bc_Status c' = (if recipients_in ?m (rj_CampaignID job) ''pending'' = [] \<and> bc_Status c = ''processing''
       then ''completed'' else bc_Status c)"
    using f(1) by (auto simp: bump_def split: if_splits)
  have d: "deliver_job io c (Some tp) job contactID db = (JobDone, checkCampaignCompletion io (rj_CampaignID job) ?m)"
    using assms(1) by (simp add: deliver_job_def a Let_def settle_def quiet_def)
  show thesis
  proof (rule that [OF d c'(1)])
    show "same_sending c c'"
      using c'(2) by (simp add: same_sending_def)
    have "rview ?m = rview ?d"
      by (simp add: rview_def)
    then show "rview (checkCampaignCompletion io (rj_CampaignID job) ?m) =
        mark (rj_RecipientID job) (outcome_of (accepted io c tp job)) (rview db)"
      using f(2) e(1) s by (simp add: rview_def)
    show "bc_Status c' = (if recipients_in (checkCampaignCompletion io (rj_CampaignID job) ?m) (rj_CampaignID job) ''pending'' = []
        \<and> bc_Status c = ''processing'' then ''completed'' else bc_Status c)"
      using c'(4) by (simp add: recipients_in_def)
  qed (use c'(3) e s in simp_all)
qed

section \<open>Rounds\<close>

text \<open>A campaign that is being worked on, by a worker that holds no other job.\<close>

definition healthy :: "string \<Rightarrow> string \<Rightarrow> template_row \<Rightarrow> bulk_campaign \<Rightarrow> camp_db \<Rightarrow> bool" where
  "healthy i org tp c db \<longleftrightarrow>
     campaign_of db i = Some c \<and> (bc_Status c = ''processing'' \<or> bc_Status c = ''completed'') \<and>
     account_named db org (bc_WhatsAppAccount c) \<noteq> None \<and> nobody_out db \<and> unacked db = [] \<and>
     find (\<lambda>t. tp_ID t = bc_TemplateID c) (templates db) = Some tp"

definition job_of :: "string \<Rightarrow> string \<Rightarrow> RecipientJob \<Rightarrow> bool" where
  "job_of i org job \<longleftrightarrow> rj_CampaignID job = i \<and> rj_OrganizationID job = org"

lemma same_sending_requests:
  "same_sending c c' \<Longrightarrow> outgoing io c' tp job = outgoing io c tp job \<and> accepted io c' tp job = accepted io c tp job"
  by (simp add: same_sending_def outgoing_def accepted_def request_of_def)

lemma round_effect:
  assumes "quiet io" "healthy i org tp c db" "stream db = job # rest" "job_of i org job"
  obtains db' c' where "consume_next io db = (True, db')" "healthy i org tp c' db'" "same_sending c c'" "stream db' = rest"
    "rview db' = mark (rj_RecipientID job) (outcome_of (accepted io c tp job)) (rview db)"
    "sends db' = sends db @ outgoing io c tp job"
    "bc_SentCount c' + bc_FailedCount c' = bc_SentCount c + bc_FailedCount c + 1"
    "recipients_in db' i ''pending'' = [] \<Longrightarrow> bc_Status c' = ''completed''"
proof -
  note h = assms(2) [unfolded healthy_def]
  let ?db0 = "db\<lparr>stream := rest, unacked := [job]\<rparr>"
  obtain p created tbl where g: "GetOrCreateContact (cp_contact io) (rj_OrganizationID job) (rj_PhoneNumber job)
      (rj_RecipientName job) (people db) = (Some (p, created), tbl)" "\<not> p_OptOut p" "\<forall>q \<in> set tbl. \<not> p_OptOut q"
    using h assms(1) contact_not_out [of "people db" "cp_contact io"] unfolding nobody_out_def quiet_def by blast
  let ?db1 = "?db0\<lparr>people := tbl\<rparr>"
  have i: "rj_CampaignID job = i" "rj_OrganizationID job = org"
    using assms(4) by (simp_all add: job_of_def)
  have c: "campaign_of ?db1 (rj_CampaignID job) = Some c"
    using h i by (simp add: campaign_of_def)
  obtain db2 c' where d: "deliver_job io c (Some tp) job (p_ID p) ?db1 = (JobDone, db2)"
    "campaign_of db2 (rj_CampaignID job) = Some c'" "same_sending c c'"
    "rview db2 = mark (rj_RecipientID job) (outcome_of (accepted io c tp job)) (rview ?db1)"
    "sends db2 = sends ?db1 @ outgoing io c tp job" "stream db2 = stream ?db1" "unacked db2 = unacked ?db1"
    "people db2 = people ?db1" "templates db2 = templates ?db1" "accounts db2 = accounts ?db1"
    "bc_SentCount c' + bc_FailedCount c' = bc_SentCount c + bc_FailedCount c + 1"
    "bc_Status c' = (if recipients_in db2 (rj_CampaignID job) ''pending'' = [] \<and> bc_Status c = ''processing''
       then ''completed'' else bc_Status c)"
    by (rule deliver_effect [OF assms(1) c, of tp "p_ID p"])
  obtain y where acc: "account_named ?db0 (rj_OrganizationID job) (bc_WhatsAppAccount c) = Some y"
    using h i by (auto simp: account_named_def)
  have load: "campaign_of ?db0 (rj_CampaignID job) = Some c"
    using h i by (simp add: campaign_of_def)
  have err: "\<not> cp_err io n" for n
    using assms(1) by (simp add: quiet_def)
  have active: "bc_Status c \<noteq> ''paused''" "bc_Status c \<noteq> ''cancelled''"
    using h by auto
  have ppl: "people ?db0 = people db" "templates ?db0 = templates db"
    by simp_all
  have tp: "find (\<lambda>t. tp_ID t = bc_TemplateID c) (templates db) = Some tp"
    using h by blast
  have "HandleRecipientJob io job ?db0 = (JobDone, db2)"
    using err active acc g(2) d(1)
    unfolding HandleRecipientJob_def Let_def load ppl g(1) by (simp add: tp)
  then have "consume_next io db = (True, db2\<lparr>unacked := []\<rparr>)"
    using assms(3) h err d(7) by (simp add: consume_next_def processMessage_def)
  then show thesis
  proof (rule that)
    show "healthy i org tp c' (db2\<lparr>unacked := []\<rparr>)"
      using h i d(2,3,8-10,12) g(3) by (auto simp: healthy_def campaign_of_def account_named_def nobody_out_def same_sending_def)
    show "bc_Status c' = ''completed''" if "recipients_in (db2\<lparr>unacked := []\<rparr>) i ''pending'' = []"
      using that h d(12) i by (auto simp: recipients_in_def)
  qed (use d in \<open>simp_all add: rview_def\<close>)
qed

text \<open>A run over the first \<open>length jobs\<close> jobs of the stream.\<close>

definition sent_by :: "(nat \<Rightarrow> camp_io) \<Rightarrow> bulk_campaign \<Rightarrow> template_row \<Rightarrow> RecipientJob list \<Rightarrow> template_send list" where
  "sent_by ios c tp jobs = concat (map (\<lambda>(k, job). outgoing (ios k) c tp job) (enumerate 0 jobs))"

lemma sent_by_Cons:
  "sent_by ios c tp (job # jobs) = outgoing (ios 0) c tp job @ sent_by (\<lambda>k. ios (Suc k)) c tp jobs"
proof -
  have "concat (map (\<lambda>(k, job). outgoing (ios k) c tp job) (enumerate (Suc n) js)) =
      concat (map (\<lambda>(k, job). outgoing (ios (Suc k)) c tp job) (enumerate n js))" for n and js :: "RecipientJob list"
    by (induction js arbitrary: n) simp_all
  then show ?thesis
    by (simp add: sent_by_def)
qed

lemma sent_by_same: "same_sending c c' \<Longrightarrow> sent_by ios c' tp jobs = sent_by ios c tp jobs"
  by (simp add: sent_by_def same_sending_requests)

definition marks ::
    "(nat \<Rightarrow> camp_io) \<Rightarrow> bulk_campaign \<Rightarrow> template_row \<Rightarrow> RecipientJob list \<Rightarrow> (string \<times> string \<times> string) list \<Rightarrow> (string \<times> string \<times> string) list" where
  "marks ios c tp jobs =
     fold (\<lambda>(k, job). mark (rj_RecipientID job) (outcome_of (accepted (ios k) c tp job))) (enumerate 0 jobs)"

lemma marks_Cons:
  "marks ios c tp (job # jobs) v =
     marks (\<lambda>k. ios (Suc k)) c tp jobs (mark (rj_RecipientID job) (outcome_of (accepted (ios 0) c tp job)) v)"
proof -
  have "fold (\<lambda>(k, job). mark (rj_RecipientID job) (outcome_of (accepted (ios k) c tp job))) (enumerate (Suc n) js) v =
      fold (\<lambda>(k, job). mark (rj_RecipientID job) (outcome_of (accepted (ios (Suc k)) c tp job))) (enumerate n js) v"
    for n v and js :: "RecipientJob list"
    by (induction js arbitrary: n v) simp_all
  then show ?thesis
    by (simp add: marks_def)
qed

lemma marks_same: "same_sending c c' \<Longrightarrow> marks ios c' tp jobs = marks ios c tp jobs"
  by (simp add: marks_def same_sending_requests)

lemma run_effect:
  assumes "\<And>k. quiet (ios k)" "healthy i org tp c db" "stream db = jobs @ rest" "list_all (job_of i org) jobs"
  shows "\<exists>c'. healthy i org tp c' (consume_run ios (length jobs) db) \<and> same_sending c c' \<and>
    stream (consume_run ios (length jobs) db) = rest \<and>
    sends (consume_run ios (length jobs) db) = sends db @ sent_by ios c tp jobs \<and>
    rview (consume_run ios (length jobs) db) = marks ios c tp jobs (rview db) \<and>
    bc_SentCount c' + bc_FailedCount c' = bc_SentCount c + bc_FailedCount c + int (length jobs) \<and>
    (jobs \<noteq> [] \<longrightarrow> recipients_in (consume_run ios (length jobs) db) i ''pending'' = [] \<longrightarrow> bc_Status c' = ''completed'')"
  using assms
proof (induction jobs arbitrary: ios c db)
  case Nil
  then show ?case
    by (intro exI [of _ c]) (simp_all add: same_sending_def sent_by_def marks_def)
next
  case (Cons job jobs)
  have job: "stream db = job # (jobs @ rest)" "job_of i org job"
    using Cons.prems by simp_all
  obtain db' c' where r: "consume_next (ios 0) db = (True, db')" "healthy i org tp c' db'" "same_sending c c'"
    "stream db' = jobs @ rest"
    "rview db' = mark (rj_RecipientID job) (outcome_of (accepted (ios 0) c tp job)) (rview db)"
    "sends db' = sends db @ outgoing (ios 0) c tp job"
    "bc_SentCount c' + bc_FailedCount c' = bc_SentCount c + bc_FailedCount c + 1"
    "recipients_in db' i ''pending'' = [] \<Longrightarrow> bc_Status c' = ''completed''"
    using round_effect [OF Cons.prems(1) Cons.prems(2) job] by metis
  let ?ios = "\<lambda>k. ios (Suc k)"
  have run: "consume_run ios (length (job # jobs)) db = consume_run ?ios (length jobs) db'"
    using r(1) by simp
  obtain c2 where i: "healthy i org tp c2 (consume_run ?ios (length jobs) db')" "same_sending c' c2"
    "stream (consume_run ?ios (length jobs) db') = rest"
    "sends (consume_run ?ios (length jobs) db') = sends db' @ sent_by ?ios c' tp jobs"
    "rview (consume_run ?ios (length jobs) db') = marks ?ios c' tp jobs (rview db')"
    "bc_SentCount c2 + bc_FailedCount c2 = bc_SentCount c' + bc_FailedCount c' + int (length jobs)"
    "jobs \<noteq> [] \<longrightarrow> recipients_in (consume_run ?ios (length jobs) db') i ''pending'' = [] \<longrightarrow> bc_Status c2 = ''completed''"
    using Cons.IH [OF Cons.prems(1) r(2,4)] Cons.prems(4) by auto
  have "same_sending c c2"
    using r(3) i(2) by (simp add: same_sending_def)
  moreover have "bc_Status c2 = ''completed''" if "recipients_in (consume_run ?ios (length jobs) db') i ''pending'' = []"
  proof (cases jobs)
    case Nil
    with that r(2,8) i(1) show ?thesis by (simp add: healthy_def)
  qed (use that i(7) in blast)
  ultimately show ?case
    unfolding run using i r
    by (intro exI [of _ c2]) (simp add: sent_by_Cons sent_by_same marks_Cons marks_same)
qed

end
