(* ===== verification/Campaign_Properties.thy ===== *)
theory Campaign_Properties
  imports Campaign_Runs Template_Facts
begin

text \<open>
  What campaigns promise and where they break the promise: a cancelled campaign stays silent, a started
  one reaches every recipient once, and the ways in which jobs are sent twice, never finish or block the
  queue.
\<close>

text \<open>Everything a campaign needs around it.\<close>

definition installed :: "bulk_campaign \<Rightarrow> template_row \<Rightarrow> camp_db \<Rightarrow> bool" where
  "installed c tp db \<longleftrightarrow>
     distinct (map bc_ID (campaigns db)) \<and> campaign_of db (bc_ID c) = Some c \<and>
     account_named db (bc_Org c) (bc_WhatsAppAccount c) \<noteq> None \<and>
     find (\<lambda>t. tp_ID t = bc_TemplateID c) (templates db) = Some tp \<and> stream db = [] \<and> unacked db = []"

definition provided :: "bulk_campaign \<Rightarrow> template_row \<Rightarrow> camp_db \<Rightarrow> bool" where
  "provided c tp db \<longleftrightarrow> installed c tp db \<and> nobody_out db"

section \<open>A small installation\<close>

text \<open>Values for the witnesses: one organisation, one account, one template, two recipients.\<close>

definition demo_io :: camp_io where
  "demo_io = \<lparr>cp_now = (\<lambda>_. 7), cp_err = (\<lambda>_. False), cp_new = (\<lambda>n. ''new'' @ show_nat n), cp_uuid = Some, cp_rt = sample_rt,
     cp_up = (\<lambda>s. s), cp_fold = (=), cp_contact = \<lparr>cio_new = ''p9'', cio_others = [], cio_err = (\<lambda>_. False)\<rparr>,
     cp_enqueued = 0, cp_idle = (\<lambda>_. True), cp_meta = (\<lambda>_. Inr ''wamid'')\<rparr>"

definition demo_campaign :: "string \<Rightarrow> bulk_campaign" where
  "demo_campaign st = \<lparr>bc_ID = ''c1'', bc_Org = ''o1'', bc_WhatsAppAccount = ''main'', bc_Name = ''Sale'', bc_TemplateID = ''t1'',
     bc_HeaderMediaID = [], bc_HeaderMediaFilename = [], bc_HeaderMediaMimeType = [], bc_HeaderMediaLocalPath = [],
     bc_Status = st, bc_TotalRecipients = 2, bc_SentCount = 0, bc_DeliveredCount = 0, bc_ReadCount = 0, bc_FailedCount = 0,
     bc_ScheduledAt = None, bc_StartedAt = None, bc_CompletedAt = None\<rparr>"

definition demo_template :: template_row where
  "demo_template = \<lparr>tp_ID = ''t1'', tp_Org = ''o1'', tp_WhatsAppAccount = ''main'', tp_Name = ''sale'', tp_Language = ''en'',
     tp_Category = ''MARKETING'', tp_Status = ''APPROVED'', tp_HeaderType = [], tp_HeaderContent = [], tp_BodyContent = [],
     tp_Buttons = []\<rparr>"

definition demo_recipient :: "string \<Rightarrow> string \<Rightarrow> bulk_recipient" where
  "demo_recipient i ph = \<lparr>br_ID = i, br_Campaign = ''c1'', br_Phone = ph, br_Name = ''Ann'', br_TemplateParams = None,
     br_HeaderParams = None, br_Status = ''pending'', br_WAID = [], br_Error = [], br_SentAt = None, br_DeliveredAt = None,
     br_ReadAt = None\<rparr>"

definition demo_db :: "string \<Rightarrow> camp_db" where
  "demo_db st = \<lparr>campaigns = [demo_campaign st], recipients = [demo_recipient ''r1'' ''2126'', demo_recipient ''r2'' ''2127''],
     templates = [demo_template], accounts = [\<lparr>wa_Org = ''o1'', wa_Name = ''main'', wa_IsDefaultOutgoing = True\<rparr>],
     people = [], msgs = [], stream = [], unacked = [], sends = []\<rparr>"

lemmas demo_defs = demo_io_def demo_campaign_def demo_template_def demo_recipient_def demo_db_def

lemma demo_provided: "provided (demo_campaign st) demo_template (demo_db st)"
  by (simp add: provided_def installed_def demo_defs campaign_of_def account_named_def nobody_out_def)

lemma demo_quiet: "quiet demo_io"
  by (simp add: quiet_def demo_io_def contact_healthy_def)

section \<open>Starting\<close>

lemma start_done:
  assumes "StartCampaign io auth p db = (Done m, db1)" "cp_uuid io p = Some i" "distinct (map bc_ID (campaigns db))"
    and "campaign_of db i = Some c"
  shows "campaign_for io auth p db = Inr (bc_Org c, c)" "bc_ID c = i"
    "recipients_in db i ''pending'' \<noteq> []" "send_guard io (bc_Org c) c (recipients_in db i ''pending'') db = None"
    "db1 = (upd_campaign i (\<lambda>r. r\<lparr>bc_Status := ''processing'', bc_StartedAt := Some (cp_now io 0)\<rparr>) db)
       \<lparr>stream := stream db @ map (recipient_job (bc_Org c) i) (recipients_in db i ''pending'')\<rparr>"
proof -
  obtain orgID c0 where c0: "campaign_for io auth p db = Inr (orgID, c0)"
    using assms(1) by (auto simp: StartCampaign_def campaign_for_def split: option.splits)
  then have "bc_ID c0 = i" "c0 \<in> set (campaigns db)" "bc_Org c0 = orgID"
    using assms(2) campaign_for_Inr [OF c0]
    by (auto simp: campaign_for_def campaign_by_def find_Some_iff split: option.splits if_splits)
  moreover have "c \<in> set (campaigns db)" "bc_ID c = i"
    using campaign_of_Some [OF assms(4)] by auto
  ultimately have c: "c0 = c"
    using assms(3) by (auto simp: distinct_map inj_on_def)
  then show f: "campaign_for io auth p db = Inr (bc_Org c, c)" "bc_ID c = i"
    using c0 \<open>bc_ID c0 = i\<close> \<open>bc_Org c0 = orgID\<close> by auto
  let ?rcs = "recipients_in db i ''pending''"
  let ?u = "upd_campaign i (\<lambda>c. c\<lparr>bc_Status := ''processing'', bc_StartedAt := Some (cp_now io 0)\<rparr>) db"
  have "?rcs \<noteq> [] \<and> send_guard io (bc_Org c) c ?rcs db = None \<and>
      EnqueueRecipients io (map (recipient_job (bc_Org c) i) ?rcs) ?u = (True, db1)"
    using assms(1) f by (auto simp: StartCampaign_def Let_def split: option.splits if_splits prod.splits bool.splits)
  then show "?rcs \<noteq> []" "send_guard io (bc_Org c) c ?rcs db = None"
    "db1 = ?u\<lparr>stream := stream db @ map (recipient_job (bc_Org c) i) ?rcs\<rparr>"
    by (auto simp: EnqueueRecipients_def split: if_splits)
qed

lemma start_healthy:
  assumes "StartCampaign io auth p db = (Done m, db1)" "cp_uuid io p = Some i" "provided c tp db" "bc_ID c = i"
  shows "healthy i (bc_Org c) tp (c\<lparr>bc_Status := ''processing'', bc_StartedAt := Some (cp_now io 0)\<rparr>) db1"
    "stream db1 = map (recipient_job (bc_Org c) i) (recipients_in db i ''pending'')" "rview db1 = rview db"
    "sends db1 = sends db" "recipients db1 = recipients db" "recipients_in db i ''pending'' \<noteq> []"
proof -
  have p: "distinct (map bc_ID (campaigns db))" "campaign_of db i = Some c"
    using assms(3,4) by (auto simp: provided_def installed_def)
  note d = start_done [OF assms(1,2) p]
  let ?f = "\<lambda>r. r\<lparr>bc_Status := ''processing'', bc_StartedAt := Some (cp_now io 0)\<rparr>"
  have "campaign_of db1 i = Some (?f c)"
    using campaign_of_upd [of ?f db1 i "campaigns db"] p(2) by (simp add: d(5) campaign_of_def)
  then show "healthy i (bc_Org c) tp (c\<lparr>bc_Status := ''processing'', bc_StartedAt := Some (cp_now io 0)\<rparr>) db1"
    using assms(3) by (simp add: healthy_def provided_def installed_def d(5) account_named_def nobody_out_def)
  show "stream db1 = map (recipient_job (bc_Org c) i) (recipients_in db i ''pending'')"
    using assms(3) by (simp add: d(5) provided_def installed_def)
  show "rview db1 = rview db" "sends db1 = sends db" "recipients db1 = recipients db"
    by (simp_all add: d(5) rview_def)
  show "recipients_in db i ''pending'' \<noteq> []"
    by (rule d(3))
qed

lemma jobs_of: "list_all (job_of i org) (map (recipient_job org i) rs)"
  by (auto simp: list_all_iff job_of_def recipient_job_def)

lemma same_sending_started [simp]:
  "same_sending c (c\<lparr>bc_Status := s, bc_StartedAt := t\<rparr>)"
  by (simp add: same_sending_def)

section \<open>Marks of a run\<close>

lemma outcome_not_pending [simp]: "outcome_of b \<noteq> ''pending''" "''pending'' \<noteq> outcome_of b"
  by (simp_all add: outcome_of_def)

lemma marks_pending:
  "(r, c0, ''pending'') \<in> set (marks ios c tp jobs v) \<Longrightarrow>
     (r, c0, ''pending'') \<in> set v \<and> r \<notin> rj_RecipientID ` set jobs"
proof (induction jobs arbitrary: ios v)
  case (Cons job jobs)
  then have "(r, c0, ''pending'') \<in> set (mark (rj_RecipientID job) (outcome_of (accepted (ios 0) c tp job)) v)"
    "r \<notin> rj_RecipientID ` set jobs"
    by (auto simp: marks_Cons)
  then show ?case
    by (auto simp: mark_def split: if_splits)
qed (simp add: marks_def)

lemma marks_others:
  "(r, c0, s) \<in> set v \<Longrightarrow> r \<notin> rj_RecipientID ` set jobs \<Longrightarrow> (r, c0, s) \<in> set (marks ios c tp jobs v)"
proof (induction jobs arbitrary: ios v)
  case (Cons job jobs)
  then show ?case
    by (auto simp: marks_Cons mark_def intro!: Cons.IH image_eqI [of _ _ "(r, c0, s)"])
qed (simp add: marks_def)

lemma marks_outcome:
  assumes "distinct (map rj_RecipientID jobs)" "k < length jobs" "(rj_RecipientID (jobs ! k), c0, s) \<in> set v"
  shows "(rj_RecipientID (jobs ! k), c0, outcome_of (accepted (ios k) c tp (jobs ! k))) \<in> set (marks ios c tp jobs v)"
  using assms
proof (induction jobs arbitrary: ios v k s)
  case (Cons job jobs)
  let ?v = "mark (rj_RecipientID job) (outcome_of (accepted (ios 0) c tp job)) v"
  show ?case
  proof (cases k)
    case 0
    with Cons.prems have "(rj_RecipientID job, c0, outcome_of (accepted (ios 0) c tp job)) \<in> set ?v"
      by (force simp: mark_def intro!: image_eqI [of _ _ "(rj_RecipientID job, c0, s)"])
    with 0 Cons.prems(1) show ?thesis
      by (auto simp: marks_Cons intro!: marks_others)
  next
    case (Suc n)
    with Cons.prems have "rj_RecipientID (jobs ! n) \<noteq> rj_RecipientID job"
      by simp (metis imageI nth_mem)
    with Cons.prems(3) Suc have "(rj_RecipientID (jobs ! n), c0, s) \<in> set ?v"
      by (auto simp: mark_def intro!: image_eqI [of _ _ "(rj_RecipientID (jobs ! n), c0, s)"])
    then show ?thesis
      using Cons.IH [of n s ?v "\<lambda>k. ios (Suc k)"] Cons.prems Suc by (simp add: marks_Cons)
  qed
qed simp

section \<open>Properties\<close>

text \<open>
  C5. Cancelling a campaign silences it for good: once \<open>CancelCampaign\<close> has answered, nothing is handed to
  Meta for that campaign any more, whatever happens next, in any order and with any failures: workers
  go on with the jobs that are still queued or not acknowledged, other campaigns are created,
  edited, started, paused, retried, deleted, and delivery reports come in. As long as its row is there, it
  stays cancelled.
\<close>
theorem cancelled_campaign_silent:
  assumes "CancelCampaign io auth p db = (Done m, db1)" "cp_uuid io p = Some i" "i \<in> taken" "(camp_step (\<lambda>_. True) taken)\<^sup>*\<^sup>* db1 db2"
  shows "sends_of i db2 = sends_of i db1 \<and> (\<forall>c \<in> set (campaigns db2). bc_ID c = i \<longrightarrow> bc_Status c = ''cancelled'')"
proof -
  obtain org c where c: "campaign_for io auth p db = Inr (org, c)"
    using assms(1) by (auto simp: CancelCampaign_def campaign_for_def split: option.splits)
  then have "bc_ID c = i"
    using assms(2) by (auto simp: campaign_for_def campaign_by_def find_Some_iff split: option.splits if_splits)
  with c assms(1) have "db1 = set_status i ''cancelled'' db"
    by (auto simp: CancelCampaign_def split: if_splits)
  then have "cancelled_row i db1"
    by (simp add: cancelled_row_def update_by_def ball_Un)
  moreover have "silent i db1 db2"
    using assms(4)
  proof (induction rule: rtranclp_induct)
    case (step y z)
    from silent_trans [OF step.IH camp_step_silent [OF step.hyps(2) assms(3)]] show ?case .
  qed simp
  ultimately show ?thesis
    by (simp add: silent_def cancelled_row_def)
qed

definition demo_job :: "string \<Rightarrow> string \<Rightarrow> RecipientJob" where
  "demo_job i ph = recipient_job ''o1'' ''c1'' (demo_recipient i ph)"

theorem cancelled_campaign_silent_witness:
  "sends_of ''c1'' (snd (consume_next demo_io
     (snd (CancelCampaign demo_io (Some (''o1'', ''u1'')) ''c1'' (demo_db ''processing''\<lparr>stream := [demo_job ''r1'' ''2126'']\<rparr>))))) = []"
proof -
  let ?db = "demo_db ''processing''\<lparr>stream := [demo_job ''r1'' ''2126'']\<rparr>"
  let ?db1 = "set_status ''c1'' ''cancelled'' ?db"
  have c: "CancelCampaign demo_io (Some (''o1'', ''u1'')) ''c1'' ?db = (Done ''Campaign cancelled'', ?db1)"
    by (simp add: CancelCampaign_def campaign_for_def campaign_by_def demo_defs)
  have s: "(camp_step (\<lambda>_. True) {''c1''})\<^sup>*\<^sup>* ?db1 (snd (consume_next demo_io ?db1))"
    by (rule r_into_rtranclp) (rule camp_consume, rule TrueI)
  show ?thesis
    using cancelled_campaign_silent [OF c _ _ s, of "''c1''"] c
    by (simp add: demo_io_def) (simp add: sends_of_def demo_db_def)
qed

text \<open>
  C6. A started campaign reaches every recipient exactly once: when \<open>StartCampaign\<close> succeeds on a queue
  that is empty and the worker consumes its jobs on a healthy system (no failing statement, the
  account and the template exist, nobody has opted out), then for every pending recipient, in order,
  exactly the request built from its parameters goes to Meta, once; the recipient is marked sent or
  failed after Meta's answer; sent and failed counts grow by the number of recipients; and the
  campaign is completed with no pending recipient and no job left.
\<close>
theorem campaign_reaches_everyone:
  assumes "StartCampaign io auth p db = (Done m, db1)" "cp_uuid io p = Some i" "provided c tp db" "bc_ID c = i"
    and "\<And>k. quiet (ios k)" "distinct (map br_ID (recipients db))"
  shows "\<exists>c2. let rs = recipients_in db i ''pending''; jobs = map (recipient_job (bc_Org c) i) rs;
                 db2 = consume_run ios (length rs) db1 in
    sends db2 = sends db @ sent_by ios c tp jobs \<and>
    (\<forall>k < length rs. (br_ID (rs ! k), i, outcome_of (accepted (ios k) c tp (jobs ! k))) \<in> set (rview db2)) \<and>
    stream db2 = [] \<and> unacked db2 = [] \<and> recipients_in db2 i ''pending'' = [] \<and>
    campaign_of db2 i = Some c2 \<and> bc_Status c2 = ''completed'' \<and>
    bc_SentCount c2 + bc_FailedCount c2 = bc_SentCount c + bc_FailedCount c + int (length rs)"
proof -
  let ?rs = "recipients_in db i ''pending''"
  let ?jobs = "map (recipient_job (bc_Org c) i) ?rs"
  let ?db2 = "consume_run ios (length ?rs) db1"
  note s = start_healthy [OF assms(1-4)]
  have str: "stream db1 = ?jobs @ []"
    using s(2) by simp
  obtain c2 where r: "healthy i (bc_Org c) tp c2 ?db2" "stream ?db2 = []" "sends ?db2 = sends db1 @ sent_by ios c tp ?jobs"
    "rview ?db2 = marks ios c tp ?jobs (rview db1)"
    "bc_SentCount c2 + bc_FailedCount c2 = bc_SentCount c + bc_FailedCount c + int (length ?rs)"
    "recipients_in ?db2 i ''pending'' = [] \<longrightarrow> bc_Status c2 = ''completed''"
    using run_effect [of ios, OF assms(5) s(1) str jobs_of] s(6)
    by (auto simp: sent_by_same [OF same_sending_started] marks_same [OF same_sending_started])
  have ids: "rj_RecipientID ` set ?jobs = br_ID ` set ?rs"
    by (simp add: image_image recipient_job_def)
  have "recipients_in ?db2 i ''pending'' = []"
    unfolding recipients_in_view r(4) s(3)
  proof clarsimp
    fix r assume a: "(r, i, ''pending'') \<in> set (marks ios c tp ?jobs (rview db))"
    from marks_pending [OF this] ids show False
      by (auto simp: rview_def recipients_in_def)
  qed
  moreover have "(br_ID (?rs ! k), i, outcome_of (accepted (ios k) c tp (?jobs ! k))) \<in> set (rview ?db2)"
    if k: "k < length ?rs" for k
  proof -
    have "?rs ! k \<in> set ?rs"
      using k by simp
    then have "(rj_RecipientID (?jobs ! k), i, ''pending'') \<in> set (rview db)"
      using k by (force simp: rview_def recipients_in_def recipient_job_def)
    moreover have "distinct (map rj_RecipientID ?jobs)"
      using assms(6) by (simp add: comp_def recipient_job_def recipients_in_def distinct_map_filter)
    ultimately show ?thesis
      using marks_outcome [of ?jobs k i "''pending''" "rview db" ios c tp] k r(4) s(3) by (simp add: recipient_job_def)
  qed
  ultimately show ?thesis
    using r s(4) by (intro exI [of _ c2]) (simp add: Let_def healthy_def)
qed

lemma no_placeholders [simp]: "ExtParamNames [] = []"
  by code_simp

lemma demo_start:
  "st = ''draft'' \<or> st = ''paused'' \<Longrightarrow>
     \<exists>db1. StartCampaign demo_io (Some (''o1'', ''u1'')) ''c1'' (demo_db st) = (Done ''Campaign started'', db1)"
  by (auto simp: StartCampaign_def campaign_for_def campaign_by_def recipients_in_def send_guard_def template_by_def
      header_variable_def EnqueueRecipients_def demo_defs uuid_Nil_def Let_def)

theorem campaign_reaches_everyone_witness:
  "\<exists>db1. StartCampaign demo_io (Some (''o1'', ''u1'')) ''c1'' (demo_db ''draft'') = (Done ''Campaign started'', db1) \<and>
     recipients_in (consume_run (\<lambda>_. demo_io) 2 db1) ''c1'' ''pending'' = []"
proof -
  obtain db1 where d: "StartCampaign demo_io (Some (''o1'', ''u1'')) ''c1'' (demo_db ''draft'') = (Done ''Campaign started'', db1)"
    using demo_start by blast
  have n: "length (recipients_in (demo_db ''draft'') ''c1'' ''pending'') = 2"
    by (simp add: recipients_in_def demo_defs)
  have "recipients_in (consume_run (\<lambda>_. demo_io) 2 db1) ''c1'' ''pending'' = []"
    using campaign_reaches_everyone [OF d _ demo_provided, of "''c1''" "\<lambda>_. demo_io"] demo_quiet n
    by (simp add: Let_def) (simp add: demo_defs)
  with d show ?thesis by blast
qed

lemma pause_done:
  assumes "PauseCampaign io auth p db = (Done m, db1)" "cp_uuid io p = Some i"
  shows "db1 = set_status i ''paused'' db"
proof -
  obtain org c where c: "campaign_for io auth p db = Inr (org, c)"
    using assms(1) by (auto simp: PauseCampaign_def campaign_for_def split: option.splits)
  then have "bc_ID c = i"
    using assms(2) by (auto simp: campaign_for_def campaign_by_def find_Some_iff split: option.splits if_splits)
  with c assms(1) show ?thesis
    by (auto simp: PauseCampaign_def split: if_splits)
qed

lemma consume_run_add: "consume_run ios (m + n) db = consume_run (\<lambda>k. ios (m + k)) n (consume_run ios m db)"
  by (induction m arbitrary: ios db) simp_all

text \<open>
  C39. Pausing and resuming sends everything twice: a campaign that is started on an empty queue, paused
  before the worker took a job, and started again has its recipients in the queue twice. On a healthy
  system (no failing statement, the account and the template exist, nobody has opted out) the worker,
  which looks at the status of the campaign but never at the recipient's, sends each of them two
  messages: the first half of the jobs sends to everyone, leaves nobody pending and completes the
  campaign, and the second half sends the same again to everyone while the campaign is completed.
\<close>
theorem resume_after_pause_sends_twice:
  assumes "StartCampaign io auth p db = (Done m, db1)" "PauseCampaign io2 auth p db1 = (Done m2, db2)"
    "StartCampaign io3 auth p db2 = (Done m3, db3)"
    and "cp_uuid io p = Some i" "cp_uuid io2 p = Some i" "cp_uuid io3 p = Some i"
    and "provided c tp db" "bc_ID c = i" "\<And>k. quiet (ios k)"
  shows "\<exists>c4. let jobs = map (recipient_job (bc_Org c) i) (recipients_in db i ''pending''); n = length jobs;
             db4 = consume_run ios n db3; db5 = consume_run ios (n + n) db3 in
    sends db4 = sends db @ sent_by ios c tp jobs \<and> recipients_in db4 i ''pending'' = [] \<and>
    campaign_of db4 i = Some c4 \<and> bc_Status c4 = ''completed'' \<and>
    sends db5 = sends db4 @ sent_by (\<lambda>k. ios (n + k)) c tp jobs \<and> stream db5 = []"
proof -
  let ?rs = "recipients_in db i ''pending''"
  let ?jobs = "map (recipient_job (bc_Org c) i) ?rs"
  note s = start_healthy [OF assms(1,4,7,8)]
  have d2: "db2 = set_status i ''paused'' db1"
    by (rule pause_done [OF assms(2,5)])
  let ?c1 = "c\<lparr>bc_Status := ''processing'', bc_StartedAt := Some (cp_now io 0)\<rparr>"
  let ?c2 = "?c1\<lparr>bc_Status := ''paused''\<rparr>"
  have c2: "campaign_of db2 i = Some ?c2"
    using s(1) campaign_of_upd [of "\<lambda>c. c\<lparr>bc_Status := ''paused''\<rparr>" db2 i "campaigns db1"]
    by (simp add: healthy_def d2 campaign_of_def)
  have ids: "map bc_ID (campaigns db1) = map bc_ID (campaigns db)"
    using start_done(5) [OF assms(1,4)] assms(7,8) by (simp add: provided_def installed_def map_update_by)
  have dist: "distinct (map bc_ID (campaigns db2))"
    using assms(7) by (simp add: d2 map_update_by ids provided_def installed_def)
  note t = start_done [OF assms(3,6) dist c2]
  have rs: "recipients_in db2 i ''pending'' = ?rs"
    by (simp add: recipients_in_def d2 s(5))
  let ?f = "\<lambda>r. r\<lparr>bc_Status := ''processing'', bc_StartedAt := Some (cp_now io3 0)\<rparr>"
  have "campaign_of db3 i = Some (?f ?c2)"
    using campaign_of_upd [of ?f db3 i "campaigns db2"] c2 by (simp add: t(5) campaign_of_def)
  then have h: "healthy i (bc_Org c) tp (?f ?c2) db3"
    using s(1) by (simp add: healthy_def t(5) d2 account_named_def nobody_out_def)
  have str: "stream db3 = (?jobs @ ?jobs) @ []"
    by (simp add: t(5) rs) (simp add: d2 s(2))
  have snd: "sends db3 = sends db"
    by (simp add: t(5) d2 s(4))
  have same: "same_sending c (?f ?c2)"
    by (simp add: same_sending_def)
  let ?n = "length ?jobs"
  let ?db4 = "consume_run ios ?n db3"
  have str: "stream db3 = ?jobs @ ?jobs"
    using str by simp
  obtain c4 where first: "healthy i (bc_Org c) tp c4 ?db4" "same_sending (?f ?c2) c4" "stream ?db4 = ?jobs @ []"
    "sends ?db4 = sends db3 @ sent_by ios (?f ?c2) tp ?jobs" "rview ?db4 = marks ios (?f ?c2) tp ?jobs (rview db3)"
    "recipients_in ?db4 i ''pending'' = [] \<longrightarrow> bc_Status c4 = ''completed''"
    using run_effect [of ios, OF assms(9) h str jobs_of] s(6) by auto
  have same4: "same_sending c c4"
    using same first(2) by (simp add: same_sending_def)
  have "recipients db3 = recipients db"
    by (simp add: t(5) d2 s(5))
  then have ids: "rj_RecipientID ` set ?jobs = br_ID ` set ?rs" and v: "rview db3 = rview db"
    by (simp_all add: image_image recipient_job_def rview_def)
  have none: "recipients_in ?db4 i ''pending'' = []"
    unfolding recipients_in_view first(5) v
  proof clarify
    fix r assume a: "(r, i, ''pending'') \<in> set (marks ios (?f ?c2) tp ?jobs (rview db))"
    from marks_pending [OF a] ids show False
      by (auto simp: rview_def recipients_in_def)
  qed
  have second: "stream (consume_run ios (?n + ?n) db3) = [] \<and>
      sends (consume_run ios (?n + ?n) db3) = sends ?db4 @ sent_by (\<lambda>k. ios (?n + k)) c4 tp ?jobs"
    using run_effect [of "\<lambda>k. ios (?n + k)", OF assms(9) first(1,3) jobs_of] unfolding consume_run_add by blast
  show ?thesis
    using first none second unfolding Let_def sent_by_same [OF same] sent_by_same [OF same4] snd
    by (intro exI [of _ c4]) (simp add: healthy_def)
qed

theorem resume_after_pause_sends_twice_witness:
  "\<exists>db1 db2 db3. StartCampaign demo_io (Some (''o1'', ''u1'')) ''c1'' (demo_db ''draft'') = (Done ''Campaign started'', db1) \<and>
     PauseCampaign demo_io (Some (''o1'', ''u1'')) ''c1'' db1 = (Done ''Campaign paused'', db2) \<and>
     StartCampaign demo_io (Some (''o1'', ''u1'')) ''c1'' db2 = (Done ''Campaign started'', db3) \<and>
     map ts_Phone (sends (consume_run (\<lambda>_. demo_io) 4 db3)) = [''2126'', ''2127'', ''2126'', ''2127'']"
proof -
  let ?a = "Some (''o1'', ''u1'')"
  obtain db1 where d1: "StartCampaign demo_io ?a ''c1'' (demo_db ''draft'') = (Done ''Campaign started'', db1)"
    using demo_start by blast
  have c: "campaign_of (demo_db ''draft'') ''c1'' = Some (demo_campaign ''draft'')" "distinct (map bc_ID (campaigns (demo_db ''draft'')))"
    by (simp_all add: campaign_of_def demo_defs)
  have u: "cp_uuid demo_io ''c1'' = Some ''c1''"
    by (simp add: demo_io_def)
  note e1 = start_done(5) [OF d1 u c(2,1)]
  obtain db2 where d2: "PauseCampaign demo_io ?a ''c1'' db1 = (Done ''Campaign paused'', db2)"
    by (simp add: PauseCampaign_def campaign_for_def campaign_by_def e1 demo_defs)
  note e2 = pause_done [OF d2 u]
  obtain db3 where d3: "StartCampaign demo_io ?a ''c1'' db2 = (Done ''Campaign started'', db3)"
    by (simp add: e2 e1 StartCampaign_def campaign_for_def campaign_by_def recipients_in_def send_guard_def template_by_def
        header_variable_def EnqueueRecipients_def demo_defs uuid_Nil_def Let_def)
  have n: "recipients_in (demo_db ''draft'') ''c1'' ''pending'' = [demo_recipient ''r1'' ''2126'', demo_recipient ''r2'' ''2127'']"
    by (simp add: recipients_in_def demo_defs)
  let ?jobs = "map (recipient_job ''o1'' ''c1'') [demo_recipient ''r1'' ''2126'', demo_recipient ''r2'' ''2127'']"
  let ?sent = "sent_by (\<lambda>_. demo_io) (demo_campaign ''draft'') demo_template ?jobs"
  have o: "bc_Org (demo_campaign ''draft'') = ''o1''" "bc_ID (demo_campaign ''draft'') = ''c1''" "sends (demo_db ''draft'') = []"
    by (simp_all add: demo_defs)
  have "sends (consume_run (\<lambda>_. demo_io) 4 db3) = ?sent @ ?sent"
    using resume_after_pause_sends_twice [OF d1 d2 d3 u u u demo_provided o(2) demo_quiet]
    by (auto simp: n o Let_def numeral_eq_Suc)
  moreover have "map ts_Phone (?sent @ ?sent) = [''2126'', ''2127'', ''2126'', ''2127'']"
    by code_simp
  ultimately show ?thesis
    using d1 d2 d3 by auto
qed

end
