(* ===== verification/Campaign_Invariant.thy ===== *)
theory Campaign_Invariant
  imports Campaign_Properties
begin

text \<open>
  The rows of campaigns and recipients in every reachable state: which statuses they take, which time
  stamps go with them, and, as long as two particular statements do not fail, that a completed campaign has
  nobody left to write to.
\<close>

section \<open>The invariant\<close>

definition campaign_typed :: "bulk_campaign \<Rightarrow> bool" where
  "campaign_typed c \<longleftrightarrow>
     bc_Status c \<in> {''draft'', ''processing'', ''paused'', ''completed'', ''cancelled''} \<and>
     (bc_Status c \<in> {''processing'', ''paused'', ''completed''} \<longrightarrow> bc_StartedAt c \<noteq> None) \<and>
     (bc_Status c = ''completed'' \<longrightarrow> bc_CompletedAt c \<noteq> None) \<and>
     0 \<le> bc_SentCount c \<and> 0 \<le> bc_DeliveredCount c \<and> 0 \<le> bc_ReadCount c \<and> 0 \<le> bc_FailedCount c"

definition recipient_typed :: "bulk_recipient \<Rightarrow> bool" where
  "recipient_typed r \<longleftrightarrow> br_Status r \<in> {''pending'', ''sent'', ''delivered'', ''read'', ''failed''}"

text \<open>With \<open>strict\<close>, completed campaigns have no pending recipients.\<close>

definition camp_inv :: "bool \<Rightarrow> camp_db \<Rightarrow> bool" where
  "camp_inv strict db \<longleftrightarrow>
     distinct (map bc_ID (campaigns db)) \<and> (\<forall>c \<in> set (campaigns db). campaign_typed c) \<and>
     (\<forall>r \<in> set (recipients db). recipient_typed r) \<and>
     (strict \<longrightarrow> (\<forall>c \<in> set (campaigns db). bc_Status c = ''completed'' \<longrightarrow>
        (\<forall>r \<in> set (recipients db). br_Campaign r = bc_ID c \<longrightarrow> br_Status r \<noteq> ''pending'')))"

lemma camp_inv_upd:
  assumes "camp_inv s db" "\<And>c. bc_ID (f c) = bc_ID c" "\<And>c. c \<in> set (campaigns db) \<Longrightarrow> bc_ID c = i \<Longrightarrow> campaign_typed (f c)"
    and "s \<Longrightarrow> (\<And>c. c \<in> set (campaigns db) \<Longrightarrow> bc_ID c = i \<Longrightarrow> bc_Status (f c) = ''completed'' \<Longrightarrow> bc_Status c \<noteq> ''completed'' \<Longrightarrow>
        recipients_in db i ''pending'' = [])"
    and "campaigns db' = update_by bc_ID i f (campaigns db)" "recipients db' = recipients db"
  shows "camp_inv s db'"
proof -
  have row: "\<exists>c \<in> set (campaigns db). c' = (if bc_ID c = i then f c else c)" if "c' \<in> set (campaigns db')" for c'
    using that unfolding assms(5) set_update_by by blast
  have "campaign_typed c'" if "c' \<in> set (campaigns db')" for c'
    using row [OF that] assms(1,3) by (auto simp: camp_inv_def)
  moreover have "br_Status r \<noteq> ''pending''"
    if "s" "c' \<in> set (campaigns db')" "bc_Status c' = ''completed''" "r \<in> set (recipients db)" "br_Campaign r = bc_ID c'" for c' r
  proof -
    note t = that
    obtain c where c: "c \<in> set (campaigns db)" "c' = (if bc_ID c = i then f c else c)"
      using row [OF t(2)] by blast
    then have "bc_ID c' = bc_ID c"
      by (simp add: assms(2))
    then show ?thesis
      using c assms(1,4) t by (cases "bc_ID c = i \<and> bc_Status c \<noteq> ''completed''")
        (auto simp: camp_inv_def recipients_in_def filter_empty_conv)
  qed
  ultimately show ?thesis
    using assms(1,2,5,6) by (simp add: camp_inv_def map_update_by)
qed

lemma camp_inv_recipients:
  assumes "camp_inv s db" "campaigns db' = campaigns db"
    and "\<And>r'. r' \<in> set (recipients db') \<Longrightarrow> recipient_typed r' \<and>
      (br_Status r' = ''pending'' \<longrightarrow> (\<exists>r \<in> set (recipients db). br_Campaign r = br_Campaign r' \<and> br_Status r = ''pending'') \<or>
         (\<forall>c \<in> set (campaigns db). bc_ID c = br_Campaign r' \<longrightarrow> bc_Status c \<noteq> ''completed''))"
  shows "camp_inv s db'"
proof -
  have "br_Status r' \<noteq> ''pending''"
    if "s" "c \<in> set (campaigns db)" "bc_Status c = ''completed''" "r' \<in> set (recipients db')" "br_Campaign r' = bc_ID c" for c r'
    using assms(1) assms(3) [OF that(4)] that unfolding camp_inv_def by metis
  then show ?thesis
    using assms by (simp add: camp_inv_def)
qed

section \<open>Every operation keeps it\<close>

definition io_good :: "bool \<Rightarrow> camp_io \<Rightarrow> bool" where
  "io_good strict io \<longleftrightarrow> (strict \<longrightarrow> \<not> cp_err io ''count_pending'' \<and> \<not> cp_err io ''update_status'')"

lemma found_row:
  "camp_inv s db \<Longrightarrow> campaign_for io auth p db = Inr (org, c) \<Longrightarrow> r \<in> set (campaigns db) \<Longrightarrow> bc_ID r = bc_ID c \<Longrightarrow> r = c"
  using campaign_for_Inr by (auto simp: camp_inv_def distinct_map inj_on_def)

lemma found_typed: "camp_inv s db \<Longrightarrow> campaign_for io auth p db = Inr (org, c) \<Longrightarrow> campaign_typed c"
  using campaign_for_Inr by (auto simp: camp_inv_def)

lemma inv_Create:
  "camp_inv s db \<Longrightarrow> cp_new io 0 \<notin> bc_ID ` set (campaigns db) \<Longrightarrow> camp_inv s (snd (CreateCampaign io auth body db))"
  by (auto simp: CreateCampaign_def camp_inv_def campaign_typed_def split: option.splits)

text \<open>An update that keeps the status and the stamps and does not make a count negative.\<close>

definition keeps_row :: "(bulk_campaign \<Rightarrow> bulk_campaign) \<Rightarrow> bool" where
  "keeps_row f \<longleftrightarrow>
     (\<forall>c. bc_ID (f c) = bc_ID c \<and> bc_Status (f c) = bc_Status c \<and> bc_StartedAt (f c) = bc_StartedAt c \<and>
        bc_CompletedAt (f c) = bc_CompletedAt c \<and>
        (campaign_typed c \<longrightarrow> 0 \<le> bc_SentCount (f c) \<and> 0 \<le> bc_DeliveredCount (f c) \<and> 0 \<le> bc_ReadCount (f c) \<and> 0 \<le> bc_FailedCount (f c)))"

lemma inv_fields:
  assumes "camp_inv s db" "keeps_row f"
  shows "camp_inv s (upd_campaign i f db)"
proof (rule camp_inv_upd [OF assms(1), of f i])
  fix c assume "c \<in> set (campaigns db)"
  with assms(1) have "campaign_typed c"
    by (simp add: camp_inv_def)
  with assms(2) show "campaign_typed (f c)"
    by (simp add: keeps_row_def campaign_typed_def)
qed (use assms(2) in \<open>auto simp: keeps_row_def\<close>)

lemma inv_bump: "camp_inv s db \<Longrightarrow> camp_inv s (upd_campaign i (bump k) db)"
  by (rule inv_fields) (auto simp: keeps_row_def bump_def campaign_typed_def split: counter.split)

lemma inv_Update: "camp_inv s db \<Longrightarrow> camp_inv s (snd (UpdateCampaign io auth p body db))"
  by (auto simp: UpdateCampaign_def keeps_row_def campaign_typed_def split: sum.split option.split intro!: inv_fields)

lemma inv_Delete: "camp_inv s db \<Longrightarrow> camp_inv s (snd (DeleteCampaign io auth p db))"
  by (auto simp: DeleteCampaign_def Let_def camp_inv_def distinct_map_filter split: sum.split)

lemma inv_Drop: 
  assumes "camp_inv s db"
  shows "camp_inv s (snd (DeleteCampaignRecipient io auth p rp db))"
proof -
  have "camp_inv s (db\<lparr>recipients := filter P (recipients db)\<rparr>)" for P
    using assms by (auto simp: camp_inv_def)
  then show ?thesis
    using assms by (auto simp: DeleteCampaignRecipient_def Let_def keeps_row_def campaign_typed_def split: option.split intro!: inv_fields)
qed

lemma inv_Import:
  assumes "camp_inv s db"
  shows "camp_inv s (snd (ImportRecipients io auth p rbody db))"
proof (cases "campaign_for io auth p db")
  case (Inr a)
  then obtain org c where c: "campaign_for io auth p db = Inr (org, c)"
    by (cases a) auto
  have old: "recipient_typed r" if "r \<in> set (recipients db)" for r
    using assms that by (simp add: camp_inv_def)
  have "camp_inv s (db\<lparr>recipients := recipients db @ map (new_recipient io (bc_ID c)) (enumerate 0 req)\<rparr>)"
    if "bc_Status c = ''draft''" for req
  proof (rule camp_inv_recipients [OF assms])
    fix r' assume "r' \<in> set (recipients (db\<lparr>recipients := recipients db @ map (new_recipient io (bc_ID c)) (enumerate 0 req)\<rparr>))"
    then consider "r' \<in> set (recipients db)" | "br_Status r' = ''pending''" "br_Campaign r' = bc_ID c"
      by (auto simp: new_recipient_def)
    then show "recipient_typed r' \<and>
      (br_Status r' = ''pending'' \<longrightarrow> (\<exists>r \<in> set (recipients db). br_Campaign r = br_Campaign r' \<and> br_Status r = ''pending'') \<or>
         (\<forall>c \<in> set (campaigns db). bc_ID c = br_Campaign r' \<longrightarrow> bc_Status c \<noteq> ''completed''))"
    proof cases
      case 2
      have "\<forall>c2 \<in> set (campaigns db). bc_ID c2 = bc_ID c \<longrightarrow> bc_Status c2 = ''draft''"
        using found_row [OF assms c] \<open>bc_Status c = ''draft''\<close> by blast
      with 2 show ?thesis
        by (auto simp: recipient_typed_def)
    qed (use old in auto)
  qed simp
  then show ?thesis
    using assms by (auto simp: ImportRecipients_def c Let_def keeps_row_def campaign_typed_def split: option.split intro!: inv_fields)
qed (simp add: ImportRecipients_def assms)

lemma inv_Start:
  assumes "camp_inv s db"
  shows "camp_inv s (snd (StartCampaign io auth p db))"
proof (cases rule: Start_result [of io auth p db])
  case (started org c js st)
  have "camp_inv s (upd_campaign (bc_ID c) (\<lambda>r. r\<lparr>bc_Status := st, bc_StartedAt := Some (cp_now io 0)\<rparr>) db)"
  proof (rule camp_inv_upd [OF assms])
    show "campaign_typed (r\<lparr>bc_Status := st, bc_StartedAt := Some (cp_now io 0)\<rparr>)" if "r \<in> set (campaigns db)" for r
      using assms that started(3) by (auto simp: camp_inv_def campaign_typed_def)
  qed (use started(3) in auto)
  then show ?thesis
    unfolding started(6) by (simp add: camp_inv_def)
qed (simp add: assms)

lemma inv_status:
  assumes "camp_inv s db" "campaign_for io auth p db = Inr (org, c)" "campaign_typed (c\<lparr>bc_Status := st\<rparr>)" "st \<noteq> ''completed''"
  shows "camp_inv s (set_status (bc_ID c) st db)"
proof (rule camp_inv_upd [OF assms(1)])
  show "campaign_typed (r\<lparr>bc_Status := st\<rparr>)" if "r \<in> set (campaigns db)" "bc_ID r = bc_ID c" for r
    using found_row [OF assms(1,2) that] assms(3) by simp
qed (use assms(4) in auto)

lemma inv_Pause:
  assumes "camp_inv s db"
  shows "camp_inv s (snd (PauseCampaign io auth p db))"
proof (cases "campaign_for io auth p db")
  case (Inr a)
  then obtain org c where c: "campaign_for io auth p db = Inr (org, c)"
    by (cases a) auto
  have "campaign_typed (c\<lparr>bc_Status := ''paused''\<rparr>)" if "bc_Status c = ''processing'' \<or> bc_Status c = ''queued''"
    using found_typed [OF assms c] that by (auto simp: campaign_typed_def)
  then show ?thesis
    using inv_status [OF assms c] assms by (auto simp: PauseCampaign_def c)
qed (simp add: PauseCampaign_def assms)

lemma inv_Cancel:
  assumes "camp_inv s db"
  shows "camp_inv s (snd (CancelCampaign io auth p db))"
proof (cases "campaign_for io auth p db")
  case (Inr a)
  then obtain org c where c: "campaign_for io auth p db = Inr (org, c)"
    by (cases a) auto
  have "campaign_typed (c\<lparr>bc_Status := ''cancelled''\<rparr>)"
    using found_typed [OF assms c] by (auto simp: campaign_typed_def)
  then show ?thesis
    using inv_status [OF assms c] assms by (auto simp: CancelCampaign_def c)
qed (simp add: CancelCampaign_def assms)

text \<open>Retrying resets recipients of a campaign that leaves the completed state in the same call.\<close>

lemma recalculate_campaigns:
  obtains f where "campaigns (recalculateCampaignStats io i db) = update_by bc_ID i f (campaigns db)"
    "recipients (recalculateCampaignStats io i db) = recipients db"
    "keeps_row f"
proof (cases "cp_err io ''scan_stats'' \<or> cp_err io ''update_stats''")
  case True
  then show thesis
    by (intro that [of "\<lambda>c. c"]) (simp_all add: recalculateCampaignStats_def keeps_row_def campaign_typed_def update_by_id)
next
  case False
  show thesis
    by (rule that [of "\<lambda>c. c\<lparr>bc_SentCount := int (length (messages_in db i [''sent'', ''delivered'', ''read''])),
               bc_DeliveredCount := int (length (messages_in db i [''delivered'', ''read''])),
               bc_ReadCount := int (length (messages_in db i [''read''])),
               bc_FailedCount := int (length (messages_in db i [''failed'']))\<rparr>"])
      (use False in \<open>simp_all add: recalculateCampaignStats_def keeps_row_def\<close>)
qed

lemma retry_campaigns:
  obtains f where "campaigns (retry_tables io i db) = update_by bc_ID i f (campaigns db)"
    "keeps_row f"
proof -
  let ?m = "if cp_err io ''reset_messages'' then reset_recipients i db else reset_messages i (reset_recipients i db)"
  have m: "campaigns ?m = campaigns db"
    by simp
  show thesis
    by (rule recalculate_campaigns [of io i ?m]) (use that in \<open>simp only: retry_tables_def m\<close>)
qed

lemma retry_recipients:
  "recipients (retry_tables io i db) = recipients (reset_recipients i db)"
proof -
  have "recipients (recalculateCampaignStats io i d) = recipients d" for d
    by (simp add: recalculateCampaignStats_def)
  then show ?thesis
    by (simp add: retry_tables_def)
qed

lemma inv_Retry:
  assumes "camp_inv s db" "io_good s io"
  shows "camp_inv s (snd (RetryFailed io auth p db))"
proof -
  have typed: "\<forall>r \<in> set (recipients (reset_recipients i db)). recipient_typed r" for i
    using assms(1) by (auto simp: camp_inv_def reset_recipients_def recipient_typed_def)
  have finish: "camp_inv s db'"
    if c: "campaign_for io auth p db = Inr (org, c)"
      and ok: "st = ''processing'' \<and> bc_Status c \<in> {''completed'', ''paused'', ''failed''} \<or> \<not> s \<and> st = bc_Status c"
      and f: "campaigns db' = update_by bc_ID (bc_ID c) f (campaigns db)"
        "\<And>r. bc_ID (f r) = bc_ID r" "\<And>r. r = c \<Longrightarrow> bc_Status (f r) = st"
        "\<And>r. bc_StartedAt (f r) = bc_StartedAt r \<and> bc_CompletedAt (f r) = bc_CompletedAt r"
        "\<And>r. campaign_typed r \<Longrightarrow> 0 \<le> bc_SentCount (f r) \<and> 0 \<le> bc_DeliveredCount (f r) \<and> 0 \<le> bc_ReadCount (f r) \<and> 0 \<le> bc_FailedCount (f r)"
      and rs: "recipients db' = recipients (reset_recipients (bc_ID c) db)"
    for org c st f db'
  proof -
    note typed_c = found_typed [OF assms(1) c]
    have fc: "bc_Status (f c) = st" "bc_StartedAt (f c) = bc_StartedAt c" "bc_CompletedAt (f c) = bc_CompletedAt c"
      using f(3,4) by simp_all
    note counts = f(5) [OF typed_c]
    have typed_fc: "campaign_typed (f c)"
      using ok
    proof
      assume "st = ''processing'' \<and> bc_Status c \<in> {''completed'', ''paused'', ''failed''}"
      with typed_c counts show ?thesis
        unfolding campaign_typed_def fc by (elim conjE) (simp; fastforce)
    next
      assume "\<not> s \<and> st = bc_Status c"
      with typed_c counts show ?thesis
        unfolding campaign_typed_def fc by simp
    qed
    have mid: "camp_inv s (db\<lparr>campaigns := update_by bc_ID (bc_ID c) f (campaigns db)\<rparr>)"
    proof (rule camp_inv_upd [OF assms(1)])
      show "campaign_typed (f r)" if "r \<in> set (campaigns db)" "bc_ID r = bc_ID c" for r
        using found_row [OF assms(1) c that] typed_fc by simp
      show "recipients_in db (bc_ID c) ''pending'' = []"
        if "s" "r \<in> set (campaigns db)" "bc_ID r = bc_ID c" "bc_Status (f r) = ''completed''" for r
        using found_row [OF assms(1) c that(2,3)] that(1,4) ok fc(1) by simp
    qed (use f(2) in simp_all)
    have rows: "bc_Status r \<noteq> ''completed''"
      if "s" "r \<in> set (update_by bc_ID (bc_ID c) f (campaigns db))" "bc_ID r = bc_ID c" for r
    proof -
      note t = that
      obtain r0 where "r0 \<in> set (campaigns db)" "r = (if bc_ID r0 = bc_ID c then f r0 else r0)"
        using t(2) unfolding set_update_by by blast
      with t(3) f(2) have "r0 \<in> set (campaigns db)" "bc_ID r0 = bc_ID c" "r = f r0"
        by (auto split: if_splits)
      with found_row [OF assms(1) c] have "r = f c"
        by metis
      with ok t(1) fc(1) show ?thesis
        by auto
    qed
    have "\<not> s \<Longrightarrow> camp_inv s db'"
      using mid typed f(1) rs by (simp add: camp_inv_def)
    moreover have "camp_inv s db'" if "s"
    proof (rule camp_inv_recipients [OF mid])
      fix r' assume r': "r' \<in> set (recipients db')"
      have "br_Status r' = ''pending'' \<longrightarrow>
          (\<exists>r \<in> set (recipients db). br_Campaign r = br_Campaign r' \<and> br_Status r = ''pending'') \<or> br_Campaign r' = bc_ID c"
        using r' unfolding rs by (auto simp: reset_recipients_def)
      then show "recipient_typed r' \<and> (br_Status r' = ''pending'' \<longrightarrow>
          (\<exists>r \<in> set (recipients (db\<lparr>campaigns := update_by bc_ID (bc_ID c) f (campaigns db)\<rparr>)).
             br_Campaign r = br_Campaign r' \<and> br_Status r = ''pending'') \<or>
          (\<forall>c2 \<in> set (campaigns (db\<lparr>campaigns := update_by bc_ID (bc_ID c) f (campaigns db)\<rparr>)).
             bc_ID c2 = br_Campaign r' \<longrightarrow> bc_Status c2 \<noteq> ''completed''))"
        using typed r' rows [OF that] unfolding rs by auto
    qed (simp add: f(1))
    ultimately show ?thesis by blast
  qed
  show ?thesis
  proof (cases rule: Retry_result [of io auth p db])
    case (reset org c)
    obtain f where f: "campaigns (retry_tables io (bc_ID c) db) = update_by bc_ID (bc_ID c) f (campaigns db)"
      "keeps_row f"
      using retry_campaigns [of io "bc_ID c" db] by metis
    have "\<not> s"
      using assms(2) reset(2) by (simp add: io_good_def)
    then show ?thesis
      unfolding reset(4) using f
      by (intro finish [OF reset(1), of "bc_Status c" _ f]) (simp_all add: retry_recipients keeps_row_def)
  next
    case (retried org c js)
    obtain f where f: "campaigns (retry_tables io (bc_ID c) db) = update_by bc_ID (bc_ID c) f (campaigns db)"
      "keeps_row f"
      using retry_campaigns [of io "bc_ID c" db] by metis
    show ?thesis
      unfolding retried(4)
    proof (rule finish [OF retried(1), of "''processing''" _ "\<lambda>r. (f r)\<lparr>bc_Status := ''processing''\<rparr>"])
      show "campaigns ((set_status (bc_ID c) ''processing'' (retry_tables io (bc_ID c) db))\<lparr>stream := stream db @ js\<rparr>) =
          update_by bc_ID (bc_ID c) (\<lambda>r. (f r)\<lparr>bc_Status := ''processing''\<rparr>) (campaigns db)"
        using f(2) by (simp add: f(1) update_by_twice keeps_row_def)
    qed (use retried(2) f in \<open>auto simp: retry_recipients keeps_row_def\<close>)
  qed (simp add: assms(1))
qed

text \<open>Rewriting recipients one by one with a status other than pending.\<close>

lemma inv_settled:
  assumes "camp_inv s db" "\<And>r. br_Campaign (f r) = br_Campaign r" "\<And>r. recipient_typed (f r) \<and> br_Status (f r) \<noteq> ''pending''"
  shows "camp_inv s (db\<lparr>recipients := update_by key k f (recipients db)\<rparr>)"
proof (rule camp_inv_recipients [OF assms(1)])
  fix r' assume "r' \<in> set (recipients (db\<lparr>recipients := update_by key k f (recipients db)\<rparr>))"
  then obtain r where r: "r \<in> set (recipients db)" "r' = (if key r = k then f r else r)"
    by (auto simp: set_update_by)
  moreover have "recipient_typed r"
    using assms(1) r(1) by (simp add: camp_inv_def)
  ultimately show "recipient_typed r' \<and> (br_Status r' = ''pending'' \<longrightarrow>
      (\<exists>r \<in> set (recipients db). br_Campaign r = br_Campaign r' \<and> br_Status r = ''pending'') \<or>
      (\<forall>c \<in> set (campaigns db). bc_ID c = br_Campaign r' \<longrightarrow> bc_Status c \<noteq> ''completed''))"
    using assms(2,3) by (cases "key r = k") auto
qed simp

lemma inv_increment: "camp_inv s db \<Longrightarrow> camp_inv s (incrementCampaignStat io j st db)"
  by (simp add: incrementCampaignStat_def inv_bump split: option.split)

lemma inv_report:
  assumes "camp_inv s db"
  shows "camp_inv s (updateMessageStatus io w st errors db)"
proof -
  have m: "camp_inv s (db\<lparr>msgs := ms\<rparr>)" for ms
    using assms by (simp add: camp_inv_def)
  note i = inv_increment [OF m]
  have "camp_inv s (d\<lparr>recipients := update_by br_WAID w (report_recipient io st2 e) (recipients d)\<rparr>)"
    if "camp_inv s d" "st2 \<in> {''sent'', ''delivered'', ''read'', ''failed''}" for d st2 e
    using that by (intro inv_settled) (auto simp: report_recipient_def recipient_typed_def)
  from this [OF i] m i assms show ?thesis
    by (simp add: updateMessageStatus_def Let_def split: option.split)
qed

lemma inv_recipient:
  "camp_inv s db \<Longrightarrow> st = ''sent'' \<or> st = ''failed'' \<Longrightarrow> camp_inv s (updateRecipientStatus io r st w e db)"
  unfolding updateRecipientStatus_def by (auto simp: recipient_typed_def intro!: inv_settled)

lemma inv_count: "camp_inv s db \<Longrightarrow> camp_inv s (incrementCampaignCount io j k db)"
  by (simp add: incrementCampaignCount_def inv_bump)

lemma inv_failed: "camp_inv s db \<Longrightarrow> camp_inv s (job_failed io job e db)"
  by (simp add: job_failed_def inv_count inv_recipient)

lemma inv_completion:
  assumes "camp_inv s db" "io_good s io"
  shows "camp_inv s (checkCampaignCompletion io j db)"
proof (cases "checkCampaignCompletion io j db = db")
  case False
  let ?f = "\<lambda>c. c\<lparr>bc_Status := ''completed'', bc_CompletedAt := Some (cp_now io 2)\<rparr>"
  from False obtain c where c: "campaign_of db j = Some c" "bc_Status c = ''processing''"
    "cp_err io ''count_pending'' \<or> recipients_in db j ''pending'' = []"
    "checkCampaignCompletion io j db = upd_campaign j ?f db"
    by (auto simp: checkCampaignCompletion_def Let_def split: option.splits if_splits)
  show ?thesis
  proof (rule camp_inv_upd [OF assms(1), of ?f j])
    show "campaign_typed (?f r)" if "r \<in> set (campaigns db)" "bc_ID r = j" for r
    proof -
      have "r = c"
        using that campaign_of_Some [OF c(1)] assms(1) by (auto simp: camp_inv_def distinct_map inj_on_def)
      moreover have "campaign_typed c"
        using assms(1) campaign_of_Some [OF c(1)] by (simp add: camp_inv_def)
      ultimately show ?thesis
        using c(2) by (simp add: campaign_typed_def)
    qed
  qed (use assms(2) c(3,4) in \<open>simp_all add: io_good_def\<close>)
qed (use assms(1) in simp)

lemma inv_job:
  assumes "camp_inv s db" "io_good s io"
  shows "camp_inv s (snd (HandleRecipientJob io job db))"
proof -
  have settled: "camp_inv s (settle io job answer d)" if "camp_inv s d" for answer d
    using that by (cases answer) (simp_all add: settle_def inv_failed inv_count inv_recipient)
  have people: "camp_inv s (db\<lparr>people := tbl\<rparr>)" for tbl
    using assms(1) by (simp add: camp_inv_def)
  have deliver: "camp_inv s (snd (deliver_job io c template job contactID (db\<lparr>people := tbl\<rparr>)))" for c template contactID tbl
  proof (cases template)
    case (Some tp)
    obtain answer db1 where a: "sendTemplateMessage io (bc_WhatsAppAccount c) tp job (bc_HeaderMediaID c)
        (bc_HeaderMediaFilename c) (db\<lparr>people := tbl\<rparr>) = (answer, db1)"
      by fastforce
    then have "camp_inv s db1"
      using assms(1) by (auto simp: sendTemplateMessage_def camp_inv_def split: sum.splits)
    then have "camp_inv s (settle io job answer db1)"
      "camp_inv s (settle io job answer db1\<lparr>msgs := ms\<rparr>)" for ms
      using settled [of db1 answer] by (simp_all add: camp_inv_def)
    then show ?thesis
      using inv_completion [OF _ assms(2)] by (simp add: deliver_job_def Some a Let_def settle_def [symmetric])
  qed (simp add: deliver_job_def people)
  show ?thesis
    by (simp add: HandleRecipientJob_def Let_def assms(1) people inv_failed deliver split: option.split prod.split)
qed

lemma inv_process:
  assumes "camp_inv s db" "io_good s io"
  shows "camp_inv s (snd (processMessage io job db))"
proof -
  obtain r db1 where h: "HandleRecipientJob io job db = (r, db1)"
    by fastforce
  with inv_job [OF assms, of job] have "camp_inv s db1"
    by simp
  then show ?thesis
    by (cases r) (auto simp: processMessage_def h camp_inv_def)
qed

lemma inv_consume: "camp_inv s db \<Longrightarrow> io_good s io \<Longrightarrow> camp_inv s (snd (consume_next io db))"
proof -
  assume a: "camp_inv s db" "io_good s io"
  have "camp_inv s (db\<lparr>stream := rest, unacked := u\<rparr>)" for rest u
    using a(1) by (simp add: camp_inv_def)
  from inv_process [OF this a(2)] a(1) show ?thesis
    by (simp add: consume_next_def split: list.split)
qed

lemma inv_claims: "camp_inv s db \<Longrightarrow> (\<And>k. io_good s (ios k)) \<Longrightarrow> camp_inv s (snd (claim_loop ios jobs db))"
proof (induction ios jobs db rule: claim_loop.induct)
  case (2 ios job jobs db)
  show ?case
  proof (cases "processMessage (ios 0) job db")
    case (Pair alive db')
    then have "camp_inv s db'"
      using inv_process [OF 2(3) 2(4), of 0 job] by simp
    with 2 Pair show ?thesis
      by (cases alive) auto
  qed
qed simp

lemma inv_claim: "camp_inv s db \<Longrightarrow> (\<And>k. io_good s (ios k)) \<Longrightarrow> camp_inv s (snd (claimPendingMessages io ios db))"
  by (simp add: claimPendingMessages_def inv_claims)

lemmas inv_operations =
  inv_Create inv_Update inv_Delete inv_Import inv_Drop inv_Start inv_Pause inv_Cancel inv_Retry inv_report
  inv_consume inv_claim

lemma camp_step_inv:
  "camp_step good taken db db' \<Longrightarrow> (\<And>io. good io \<Longrightarrow> io_good s io) \<Longrightarrow> camp_inv s db \<Longrightarrow> camp_inv s db'"
proof (induction rule: camp_step.induct)
  case (camp_other db' db)
  then show ?case by (simp add: camp_inv_def)
qed (simp_all add: inv_operations)

section \<open>Properties\<close>

lemma camp_steps_inv:
  assumes "(camp_step good taken)\<^sup>*\<^sup>* db db'" "\<And>io. good io \<Longrightarrow> io_good s io" "camp_inv s db"
  shows "camp_inv s db'"
  using assms(1)
proof (induction rule: rtranclp_induct)
  case (step y z)
  show ?case
    by (rule camp_step_inv [OF step.hyps(2) assms(2) step.IH])
qed (rule assms(3))

text \<open>
  C33. The status of a campaign has a type: starting from empty tables, after any sequence of requests, jobs
  and delivery reports with any failures, every campaign is draft, processing, paused, completed or
  cancelled (never scheduled, queued or failed, which the constants and the handlers' conditions also
  know), a campaign that runs or ran has its start time, a completed one its completion time, no counter
  of messages is negative, and every recipient is pending, sent, delivered, read or failed.
\<close>
theorem campaign_rows_typed:
  assumes "(camp_step (\<lambda>_. True) taken)\<^sup>*\<^sup>* db db'" "campaigns db = []" "recipients db = []"
  shows "list_all campaign_typed (campaigns db') \<and> list_all recipient_typed (recipients db') \<and>
    distinct (map bc_ID (campaigns db'))"
proof -
  have "camp_inv False db"
    using assms(2,3) by (simp add: camp_inv_def)
  from camp_steps_inv [OF assms(1) _ this] show ?thesis
    by (simp add: io_good_def camp_inv_def list_all_iff)
qed

definition no_db :: camp_db where
  "no_db = \<lparr>campaigns = [], recipients = [], templates = [demo_template],
     accounts = [\<lparr>wa_Org = ''o1'', wa_Name = ''main'', wa_IsDefaultOutgoing = True\<rparr>],
     people = [], msgs = [], stream = [], unacked = [], sends = []\<rparr>"

definition demo_request :: CampaignRequest where
  "demo_request = \<lparr>cq_Name = ''Sale'', cq_WhatsAppAccount = ''main'', cq_TemplateID = ''t1'', cq_HeaderMediaID = [], cq_ScheduledAt = None\<rparr>"

lemma demo_create_step:
  "good demo_io \<Longrightarrow> (camp_step good {})\<^sup>*\<^sup>* no_db (snd (CreateCampaign demo_io (Some (''o1'', ''u1'')) (Some demo_request) no_db))"
  by (intro r_into_rtranclp camp_create) (simp_all add: no_db_def)

lemma demo_created:
  "campaigns (snd (CreateCampaign demo_io (Some (''o1'', ''u1'')) (Some demo_request) no_db)) \<noteq> []"
  by (simp add: CreateCampaign_def demo_request_def template_by_def resolveWhatsAppAccount_def account_named_def no_db_def demo_defs)

theorem campaign_rows_typed_witness:
  "\<exists>c cs. campaigns (snd (CreateCampaign demo_io (Some (''o1'', ''u1'')) (Some demo_request) no_db)) = c # cs \<and> campaign_typed c"
  using campaign_rows_typed [OF demo_create_step] demo_created
  by (cases "campaigns (snd (CreateCampaign demo_io (Some (''o1'', ''u1'')) (Some demo_request) no_db))") (auto simp: no_db_def)

text \<open>
  C8. Completed means that nobody is left: as long as neither the count of pending recipients nor the status
  update of a retry fails (everything else may), a completed campaign has no pending recipient, in
  every state reachable from empty tables, whatever was retried, imported, deleted or reported.
\<close>
theorem completed_without_pending:
  assumes "(camp_step (\<lambda>io. \<not> cp_err io ''count_pending'' \<and> \<not> cp_err io ''update_status'') taken)\<^sup>*\<^sup>* db db'"
    and "campaigns db = []" "recipients db = []"
  shows "\<forall>c \<in> set (campaigns db'). bc_Status c = ''completed'' \<longrightarrow> recipients_in db' (bc_ID c) ''pending'' = []"
proof -
  have "camp_inv True db"
    using assms(2,3) by (simp add: camp_inv_def)
  from camp_steps_inv [OF assms(1) _ this] show ?thesis
    by (auto simp: io_good_def camp_inv_def recipients_in_def filter_empty_conv)
qed

text \<open>A campaign from its creation to its completion.\<close>

definition demo_recipients :: "RecipientRequest list" where
  "demo_recipients = [\<lparr>rq_PhoneNumber = ''2126'', rq_RecipientName = ''Ann'', rq_TemplateParams = None, rq_HeaderParams = None\<rparr>]"

definition demo_life :: "camp_db list" where
  "demo_life =
     (let a = Some (''o1'', ''u1'');
          d1 = snd (CreateCampaign demo_io a (Some demo_request) no_db);
          d2 = snd (ImportRecipients demo_io a ''new0'' (Some demo_recipients) d1);
          d3 = snd (StartCampaign demo_io a ''new0'' d2);
          d4 = snd (consume_next demo_io d3)
      in [d1, d2, d3, d4])"

lemma demo_life_completes:
  "map bc_ID (campaigns (demo_life ! 3)) = [''new0''] \<and> map bc_Status (campaigns (demo_life ! 3)) = [''completed'']"
  by code_simp

theorem completed_without_pending_witness:
  "\<exists>c \<in> set (campaigns (demo_life ! 3)). bc_Status c = ''completed'' \<and> recipients_in (demo_life ! 3) (bc_ID c) ''pending'' = []"
proof -
  let ?good = "\<lambda>io. \<not> cp_err io ''count_pending'' \<and> \<not> cp_err io ''update_status''"
  have g: "?good demo_io"
    by (simp add: demo_io_def)
  have "(camp_step ?good {})\<^sup>*\<^sup>* no_db (demo_life ! 3)"
    unfolding demo_life_def Let_def
    by (simp only: nth_Cons_numeral nth_Cons_0 numeral_3_eq_3 nth_Cons_Suc)
      (rule rtranclp.rtrancl_into_rtrancl [OF rtranclp.rtrancl_into_rtrancl [OF rtranclp.rtrancl_into_rtrancl [OF
         demo_create_step camp_import] camp_start] camp_consume]; rule g)
  from completed_without_pending [OF this] demo_life_completes show ?thesis
    by (cases "campaigns (demo_life ! 3)") (auto simp: no_db_def)
qed

end
