(* ===== verification/Campaign_Faults.thy ===== *)
theory Campaign_Faults
  imports Campaign_Properties
begin

text \<open>
  Campaigns that do not come to their end: recipients who are refused before sending, templates that
  are gone, jobs nobody acknowledges, variables without a value, reports that are counted again.
\<close>

section \<open>Recipients refused before sending\<close>

text \<open>
  Every recipient is known to the organisation, under either spelling of the number, and the contacts of
  the organisation with that number have opted out. Other contacts do not matter.
\<close>

definition spellings :: "string \<Rightarrow> string set" where
  "spellings ph = {normalize_phone ph, CHR ''+'' # normalize_phone ph}"

definition all_out :: "string \<Rightarrow> RecipientJob list \<Rightarrow> camp_db \<Rightarrow> bool" where
  "all_out org jobs db \<longleftrightarrow>
     (\<forall>job \<in> set jobs. (\<exists>p \<in> set (people db). p_Org p = org \<and> p_Phone p \<in> spellings (rj_PhoneNumber job)) \<and>
        (\<forall>p \<in> set (people db). p_Org p = org \<and> p_Phone p \<in> spellings (rj_PhoneNumber job) \<longrightarrow> p_OptOut p))"

definition oview :: "person list \<Rightarrow> (string \<times> string \<times> bool) list" where
  "oview = map (\<lambda>p. (p_Org p, p_Phone p, p_OptOut p))"

lemma all_out_view:
  "all_out org jobs db \<longleftrightarrow>
     (\<forall>job \<in> set jobs. (\<exists>(o', ph, out) \<in> set (oview (people db)). o' = org \<and> ph \<in> spellings (rj_PhoneNumber job)) \<and>
        (\<forall>(o', ph, out) \<in> set (oview (people db)). o' = org \<and> ph \<in> spellings (rj_PhoneNumber job) \<longrightarrow> out))"
  by (simp add: all_out_def oview_def)

lemma contact_out:
  assumes "contact_healthy io" "\<exists>p \<in> set tbl. p_Org p = org \<and> p_Phone p \<in> spellings ph"
    and "\<forall>p \<in> set tbl. p_Org p = org \<and> p_Phone p \<in> spellings ph \<longrightarrow> p_OptOut p"
  obtains p tbl' where "GetOrCreateContact io org ph n tbl = (Some (p, False), tbl')" "p_OptOut p" "oview tbl' = oview tbl"
proof -
  note result = that
  let ?n = "normalize_phone ph"
  have found: thesis if "p \<in> set tbl" "p_Org p = org" "p_Phone p \<in> spellings ph"
    "GetOrCreateContact io org ph n tbl = (Some (fst (refresh io n p tbl), False), snd (refresh io n p tbl))" for p
  proof (rule result [OF that(4)])
    show "p_OptOut (fst (refresh io n p tbl))"
      using assms(3) that by (simp add: refresh_def)
    show "oview (snd (refresh io n p tbl)) = oview tbl"
      by (simp add: refresh_def oview_def map_update_by)
  qed
  show thesis
  proof (cases "person_by_phone org ?n tbl")
    case (Some p)
    then show thesis
      using person_by_phone_Some [OF Some] assms(1)
      by (intro found [of p]) (simp_all add: GetOrCreateContact_def Let_def case_prod_beta spellings_def)
  next
    case None
    with assms(2) obtain p where p: "person_by_phone org (CHR ''+'' # ?n) tbl = Some p"
      by (cases "person_by_phone org (CHR ''+'' # ?n) tbl") (auto simp: person_by_phone_None spellings_def)
    then show thesis
      using person_by_phone_Some [OF p] None assms(1)
      by (intro found [of p]) (simp_all add: GetOrCreateContact_def Let_def case_prod_beta spellings_def)
  qed
qed

text \<open>A campaign all of whose jobs are refused: the row, its account, a marketing template, nobody else's jobs.\<close>

definition refused_run :: "string \<Rightarrow> string \<Rightarrow> template_row \<Rightarrow> bulk_campaign \<Rightarrow> camp_db \<Rightarrow> bool" where
  "refused_run i org tp c db \<longleftrightarrow>
     campaign_of db i = Some c \<and> bc_Status c = ''processing'' \<and> account_named db org (bc_WhatsAppAccount c) \<noteq> None \<and>
     find (\<lambda>t. tp_ID t = bc_TemplateID c) (templates db) = Some tp \<and> unacked db = []"

lemma refused_round:
  assumes "quiet io" "refused_run i org tp c db" "cp_fold io (tp_Category tp) ''MARKETING''"
    and "stream db = job # rest" "job_of i org job" "all_out org (job # rest) db"
  obtains db' c' where "consume_next io db = (True, db')" "refused_run i org tp c' db'" "stream db' = rest"
    "all_out org rest db'" "sends db' = sends db" "rview db' = mark (rj_RecipientID job) ''failed'' (rview db)"
    "bc_FailedCount c' = bc_FailedCount c + 1"
proof -
  note h = assms(2) [unfolded refused_run_def]
  let ?db0 = "db\<lparr>stream := rest, unacked := [job]\<rparr>"
  have i: "rj_CampaignID job = i" "rj_OrganizationID job = org"
    using assms(5) by (simp_all add: job_of_def)
  have out: "contact_healthy (cp_contact io)"
    "\<exists>p \<in> set (people db). p_Org p = rj_OrganizationID job \<and> p_Phone p \<in> spellings (rj_PhoneNumber job)"
    "\<forall>p \<in> set (people db). p_Org p = rj_OrganizationID job \<and> p_Phone p \<in> spellings (rj_PhoneNumber job) \<longrightarrow> p_OptOut p"
    using assms(1,6) i by (simp_all add: all_out_def quiet_def)
  obtain p tbl where g: "GetOrCreateContact (cp_contact io) (rj_OrganizationID job) (rj_PhoneNumber job)
      (rj_RecipientName job) (people db) = (Some (p, False), tbl)" "p_OptOut p" "oview tbl = oview (people db)"
    by (rule contact_out [OF out])
  obtain y where acc: "account_named ?db0 (rj_OrganizationID job) (bc_WhatsAppAccount c) = Some y"
    using h i by (auto simp: account_named_def)
  have load: "campaign_of ?db0 (rj_CampaignID job) = Some c" and ppl: "people ?db0 = people db" "templates ?db0 = templates db"
    using h i by (simp_all add: campaign_of_def)
  have tp: "find (\<lambda>t. tp_ID t = bc_TemplateID c) (templates db) = Some tp"
    using h by blast
  have st: "bc_Status c = ''processing''"
    using h by blast
  have err: "\<not> cp_err io n" for n
    using assms(1) by (simp add: quiet_def)
  let ?e = "''Contact opted out of marketing messages''"
  let ?db1 = "?db0\<lparr>people := tbl\<rparr>"
  let ?d = "job_failed io job ?e ?db1"
  have "HandleRecipientJob io job ?db0 = (JobDone, ?d)"
    using err st acc g(2) assms(3)
    unfolding HandleRecipientJob_def Let_def load ppl g(1) by (simp add: tp)
  then have run: "consume_next io db = (True, ?d\<lparr>unacked := []\<rparr>)"
    using assms(4) h err by (simp add: consume_next_def processMessage_def job_failed_def)
  have "settle io job (Inl ?e) ?db1 = ?d"
    by (simp add: settle_def)
  moreover have "campaign_of ?db1 (rj_CampaignID job) = Some c"
    using load by (simp add: campaign_of_def)
  ultimately have e: "rview ?d = mark (rj_RecipientID job) ''failed'' (rview db)"
    "campaign_of ?d i = Some (bump Failed c)" "sends ?d = sends db" "stream ?d = rest" "people ?d = tbl"
    "templates ?d = templates db" "accounts ?d = accounts db"
    using settle_effect [OF assms(1), of ?db1 job c "Inl ?e"] i by (simp_all add: outcome_of_def rview_def)
  show thesis
  proof (rule that [OF run])
    show "refused_run i org tp (bump Failed c) (?d\<lparr>unacked := []\<rparr>)"
      using h e by (simp add: refused_run_def campaign_of_def account_named_def)
    show "all_out org rest (?d\<lparr>unacked := []\<rparr>)"
      using assms(6) g(3) e(5) by (simp add: all_out_view)
  qed (use e in \<open>simp_all add: rview_def bump_def\<close>)
qed

lemma refused_jobs:
  assumes "\<And>k. quiet (ios k) \<and> cp_fold (ios k) (tp_Category tp) ''MARKETING''" "refused_run i org tp c db"
    and "stream db = jobs" "list_all (job_of i org) jobs" "all_out org jobs db"
  shows "\<exists>c'. refused_run i org tp c' (consume_run ios (length jobs) db) \<and> stream (consume_run ios (length jobs) db) = [] \<and>
    sends (consume_run ios (length jobs) db) = sends db \<and>
    rview (consume_run ios (length jobs) db) = fold (\<lambda>job. mark (rj_RecipientID job) ''failed'') jobs (rview db) \<and>
    bc_FailedCount c' = bc_FailedCount c + int (length jobs)"
  using assms
proof (induction jobs arbitrary: ios c db)
  case (Cons job jobs)
  obtain db' c' where r: "consume_next (ios 0) db = (True, db')" "refused_run i org tp c' db'" "stream db' = jobs"
    "all_out org jobs db'" "sends db' = sends db" "rview db' = mark (rj_RecipientID job) ''failed'' (rview db)"
    "bc_FailedCount c' = bc_FailedCount c + 1"
    using refused_round [of "ios 0" i org tp c db job jobs] Cons.prems by auto
  show ?case
    using Cons.IH [of "\<lambda>k. ios (Suc k)" c' db'] Cons.prems(1,4) r by auto
next
  case Nil
  then show ?case
    by (intro exI [of _ c]) simp
qed

lemma fold_failed_pending:
  "(r, c0, ''pending'') \<in> set (fold (\<lambda>job. mark (rj_RecipientID job) ''failed'') jobs v) \<Longrightarrow>
     (r, c0, ''pending'') \<in> set v \<and> r \<notin> rj_RecipientID ` set jobs"
proof (induction jobs arbitrary: v)
  case (Cons job jobs)
  then have "(r, c0, ''pending'') \<in> set (mark (rj_RecipientID job) ''failed'' v)" "r \<notin> rj_RecipientID ` set jobs"
    by auto
  then show ?case
    by (auto simp: mark_def split: if_splits)
qed simp

text \<open>
  C40. A campaign whose recipients are all refused never ends: when every recipient of a marketing campaign
  is a contact of the organisation who has opted out, the campaign is started on an empty queue, and
  the worker consumes its jobs without a failing statement (the account and the template exist), the
  worker fails every one of them before sending, nothing is sent, no job is left, no recipient is
  pending, and yet the campaign stays in processing, because only an attempted send looks whether
  the campaign is complete. There it stays: the queue has nothing more for a worker, starting it
  again and retrying the failed recipients are refused.
\<close>
theorem refused_campaign_never_completes:
  assumes "StartCampaign io auth p db = (Done m, db1)" "cp_uuid io p = Some i" "installed c tp db" "bc_ID c = i"
    and "\<And>k. quiet (ios k) \<and> cp_fold (ios k) (tp_Category tp) ''MARKETING''"
    and "all_out (bc_Org c) (map (recipient_job (bc_Org c) i) (recipients_in db i ''pending'')) db"
  shows "\<exists>c2. let rs = recipients_in db i ''pending''; db2 = consume_run ios (length rs) db1 in
    stream db2 = [] \<and> unacked db2 = [] \<and> recipients_in db2 i ''pending'' = [] \<and> sends db2 = sends db \<and>
    campaign_of db2 i = Some c2 \<and> bc_Status c2 = ''processing'' \<and>
    bc_FailedCount c2 = bc_FailedCount c + int (length rs) \<and>
    (\<forall>io2 ios2. consume_next io2 db2 = (True, db2) \<and> claimPendingMessages io2 ios2 db2 = (True, db2)) \<and>
    (\<forall>io2 auth2 p2. campaign_for io2 auth2 p2 db2 = Inr (bc_Org c, c2) \<longrightarrow>
       fst (StartCampaign io2 auth2 p2 db2) = Fail 400 ''Campaign cannot be started in current state'' \<and>
       fst (RetryFailed io2 auth2 p2 db2) =
         Fail 400 ''Can only retry failed messages on completed, paused, or failed campaigns'')"
proof -
  let ?rs = "recipients_in db i ''pending''"
  let ?jobs = "map (recipient_job (bc_Org c) i) ?rs"
  let ?db2 = "consume_run ios (length ?rs) db1"
  have p: "distinct (map bc_ID (campaigns db))" "campaign_of db i = Some c"
    using assms(3,4) by (auto simp: installed_def)
  note d = start_done [OF assms(1,2) p]
  let ?f = "\<lambda>r. r\<lparr>bc_Status := ''processing'', bc_StartedAt := Some (cp_now io 0)\<rparr>"
  have "campaign_of db1 i = Some (?f c)"
    using campaign_of_upd [of ?f db1 i "campaigns db"] p(2) by (simp add: d(5) campaign_of_def)
  then have h: "refused_run i (bc_Org c) tp (?f c) db1"
    using assms(3) by (simp add: refused_run_def installed_def d(5) account_named_def)
  have str: "stream db1 = ?jobs"
    using assms(3) by (simp add: d(5) installed_def)
  have out: "all_out (bc_Org c) ?jobs db1"
    using assms(6) by (simp add: all_out_def d(5))
  obtain c2 where r: "refused_run i (bc_Org c) tp c2 ?db2" "stream ?db2 = []" "sends ?db2 = sends db1"
    "rview ?db2 = fold (\<lambda>job. mark (rj_RecipientID job) ''failed'') ?jobs (rview db1)"
    "bc_FailedCount c2 = bc_FailedCount c + int (length ?rs)"
    using refused_jobs [of ios, OF assms(5) h str jobs_of out] by auto
  have ids: "rj_RecipientID ` set ?jobs = br_ID ` set ?rs"
    by (simp add: image_image recipient_job_def)
  have "recipients_in ?db2 i ''pending'' = []"
    unfolding recipients_in_view r(4)
  proof clarify
    fix r assume a: "(r, i, ''pending'') \<in> set (fold (\<lambda>job. mark (rj_RecipientID job) ''failed'') ?jobs (rview db1))"
    have v: "rview db1 = rview db"
      by (simp add: rview_def d(5))
    from fold_failed_pending [OF a] ids show False
      by (auto simp: v) (auto simp: rview_def recipients_in_def)
  qed
  moreover have "consume_next io2 ?db2 = (True, ?db2)" "claimPendingMessages io2 ios2 ?db2 = (True, ?db2)" for io2 ios2
    using r(1,2) by (simp_all add: consume_next_def claimPendingMessages_def refused_run_def)
  moreover have "fst (StartCampaign io2 auth2 p2 ?db2) = Fail 400 ''Campaign cannot be started in current state''"
    "fst (RetryFailed io2 auth2 p2 ?db2) =
       Fail 400 ''Can only retry failed messages on completed, paused, or failed campaigns''"
    if "campaign_for io2 auth2 p2 ?db2 = Inr (bc_Org c, c2)" for io2 auth2 p2
    using that r(1) by (simp_all add: StartCampaign_def RetryFailed_def refused_run_def)
  ultimately show ?thesis
    using r d(5) by (intro exI [of _ c2]) (simp add: Let_def refused_run_def)
qed

definition out_person :: "string \<Rightarrow> string \<Rightarrow> person" where
  "out_person i ph = \<lparr>p_ID = i, p_Org = ''o1'', p_Phone = ph, p_Name = ''Ann'', p_Deleted = False, p_OptOut = True\<rparr>"

definition out_db :: camp_db where
  "out_db = (demo_db ''draft'')\<lparr>people := [out_person ''p1'' ''2126'', out_person ''p2'' ''2127'']\<rparr>"

theorem refused_campaign_never_completes_witness:
  "\<exists>db1 c2. StartCampaign demo_io (Some (''o1'', ''u1'')) ''c1'' out_db = (Done ''Campaign started'', db1) \<and>
     campaign_of (consume_run (\<lambda>_. demo_io) 2 db1) ''c1'' = Some c2 \<and> bc_Status c2 = ''processing'' \<and> bc_FailedCount c2 = 2"
proof -
  obtain db1 where d: "StartCampaign demo_io (Some (''o1'', ''u1'')) ''c1'' out_db = (Done ''Campaign started'', db1)"
    by (simp add: StartCampaign_def campaign_for_def campaign_by_def recipients_in_def send_guard_def template_by_def
      header_variable_def EnqueueRecipients_def demo_defs uuid_Nil_def Let_def out_db_def)
  have n: "recipients_in out_db ''c1'' ''pending'' = [demo_recipient ''r1'' ''2126'', demo_recipient ''r2'' ''2127'']"
    by (simp add: recipients_in_def demo_defs out_db_def)
  have inst: "installed (demo_campaign ''draft'') demo_template out_db"
    by (simp add: installed_def demo_defs campaign_of_def account_named_def out_db_def)
  have out: "all_out (bc_Org (demo_campaign ''draft'')) (map (recipient_job (bc_Org (demo_campaign ''draft'')) ''c1'')
      (recipients_in out_db ''c1'' ''pending'')) out_db"
    unfolding n by (simp add: all_out_def spellings_def out_db_def out_person_def recipient_job_def demo_defs normalize_phone_def)
  have "cp_uuid demo_io ''c1'' = Some ''c1''" "bc_ID (demo_campaign ''draft'') = ''c1''" "bc_FailedCount (demo_campaign ''draft'') = 0"
    "quiet demo_io \<and> cp_fold demo_io (tp_Category demo_template) ''MARKETING''"
    using demo_quiet by (simp_all add: demo_defs)
  note w = refused_campaign_never_completes [OF d this(1) inst this(2) this(4) out, unfolded this(3) n]
  show ?thesis
    using w d by (auto simp: Let_def numeral_2_eq_2)
qed

section \<open>Jobs nobody acknowledges\<close>

lemma contact_found:
  assumes "contact_healthy io"
  obtains p created tbl' where "GetOrCreateContact io org ph n tbl = (Some (p, created), tbl')"
proof -
  have "fst (GetOrCreateContact io org ph n tbl) \<noteq> None"
    using assms by (auto simp: GetOrCreateContact_def contact_healthy_def Let_def case_prod_beta split: option.split)
  then show thesis
    using that by (cases "GetOrCreateContact io org ph n tbl") (auto simp: prod_eq_iff)
qed

text \<open>A job whose campaign is running and has lost its template.\<close>

definition orphaned :: "RecipientJob \<Rightarrow> camp_db \<Rightarrow> bool" where
  "orphaned job db \<longleftrightarrow>
     (\<exists>c. campaign_of db (rj_CampaignID job) = Some c \<and> bc_Status c \<noteq> ''paused'' \<and> bc_Status c \<noteq> ''cancelled'' \<and>
        account_named db (rj_OrganizationID job) (bc_WhatsAppAccount c) \<noteq> None \<and>
        find (\<lambda>t. tp_ID t = bc_TemplateID c) (templates db) = None)"

lemma orphaned_job:
  assumes "quiet io" "orphaned job db"
  obtains tbl where "HandleRecipientJob io job db = (JobPanic, db\<lparr>people := tbl\<rparr>)"
proof -
  obtain c y where c: "campaign_of db (rj_CampaignID job) = Some c" "bc_Status c \<noteq> ''paused''" "bc_Status c \<noteq> ''cancelled''"
    "account_named db (rj_OrganizationID job) (bc_WhatsAppAccount c) = Some y"
    "find (\<lambda>t. tp_ID t = bc_TemplateID c) (templates db) = None"
    using assms(2) by (auto simp: orphaned_def)
  obtain p created tbl where g: "GetOrCreateContact (cp_contact io) (rj_OrganizationID job) (rj_PhoneNumber job)
      (rj_RecipientName job) (people db) = (Some (p, created), tbl)"
    using assms(1) contact_found [of "cp_contact io"] unfolding quiet_def by blast
  have "\<not> cp_err io n" for n
    using assms(1) by (simp add: quiet_def)
  then have "HandleRecipientJob io job db = (JobPanic, db\<lparr>people := tbl\<rparr>)"
    using c(2-4) unfolding HandleRecipientJob_def Let_def g by (simp add: c deliver_job_def)
  then show thesis by (rule that)
qed

text \<open>
  A deleted template kills every worker: the worker follows a template that is gone (a soft-deleted row
  is not preloaded) through a nil pointer and dies, its job stays unacknowledged, and each worker that is
  started afterwards claims that job first and dies as well, however often: nothing is ever sent
  again, for any campaign, the recipient stays pending and the stream is not read.
\<close>
theorem deleted_template_kills_workers:
  assumes "\<And>k. quiet (ios k)" "\<And>job. cp_idle io job" "\<not> cp_err io ''pending''" "unacked db = job # rest" "orphaned job db"
  shows "let db' = ((\<lambda>d. snd (claimPendingMessages io ios d)) ^^ n) db in
    fst (claimPendingMessages io ios db') = False \<and> sends db' = sends db \<and> stream db' = stream db \<and>
    recipients db' = recipients db \<and> unacked db' = unacked db"
proof -
  have dies: "\<exists>tbl. claimPendingMessages io ios d = (False, d\<lparr>people := tbl\<rparr>)"
    if "unacked d = job # rest" "orphaned job d" for d
  proof -
    note orphan = orphaned_job [OF assms(1) that(2)]
    obtain tbl where "HandleRecipientJob (ios 0) job d = (JobPanic, d\<lparr>people := tbl\<rparr>)"
      by (rule orphan)
    then have "processMessage (ios 0) job d = (False, d\<lparr>people := tbl\<rparr>)"
      by (simp add: processMessage_def)
    moreover have "\<not> cp_err (ios 0) ''claim''"
      using assms(1) [of 0] by (simp add: quiet_def)
    ultimately show ?thesis
      using that(1) assms(2,3) by (intro exI [of _ tbl]) (simp add: claimPendingMessages_def)
  qed
  have keep: "\<exists>tbl. ((\<lambda>d. snd (claimPendingMessages io ios d)) ^^ n) db = db\<lparr>people := tbl\<rparr>"
  proof (induction n)
    case 0
    show ?case by (intro exI [of _ "people db"]) simp
  next
    case (Suc n)
    then obtain tbl where t: "((\<lambda>d. snd (claimPendingMessages io ios d)) ^^ n) db = db\<lparr>people := tbl\<rparr>"
      by blast
    have "orphaned job (db\<lparr>people := tbl\<rparr>)"
      using assms(5) by (simp add: orphaned_def campaign_of_def account_named_def)
    with dies [of "db\<lparr>people := tbl\<rparr>"] assms(4) t show ?case
      by auto
  qed
  then obtain tbl where t: "((\<lambda>d. snd (claimPendingMessages io ios d)) ^^ n) db = db\<lparr>people := tbl\<rparr>"
    by blast
  have "orphaned job (db\<lparr>people := tbl\<rparr>)"
    using assms(5) by (simp add: orphaned_def campaign_of_def account_named_def)
  with dies [of "db\<lparr>people := tbl\<rparr>"] assms(4) t show ?thesis
    by (auto simp: Let_def)
qed

theorem deleted_template_kills_workers_witness:
  "fst (claimPendingMessages demo_io (\<lambda>_. demo_io)
     (((\<lambda>d. snd (claimPendingMessages demo_io (\<lambda>_. demo_io) d)) ^^ 3)
       ((demo_db ''processing'')\<lparr>templates := [], unacked := [demo_job ''r1'' ''2126'']\<rparr>))) = False"
proof -
  let ?db = "(demo_db ''processing'')\<lparr>templates := [], unacked := [demo_job ''r1'' ''2126'']\<rparr>"
  have "unacked ?db = demo_job ''r1'' ''2126'' # []" "orphaned (demo_job ''r1'' ''2126'') ?db"
    by (simp_all add: orphaned_def campaign_of_def account_named_def demo_job_def recipient_job_def demo_defs)
  then show ?thesis
    using deleted_template_kills_workers [of "\<lambda>_. demo_io" demo_io ?db "demo_job ''r1'' ''2126''" "[]" 3] demo_quiet
    by (simp add: Let_def demo_io_def)
qed

text \<open>
  Jobs of deleted campaigns block the recovery of others: a job whose campaign row is gone fails each
  time it is handled and is never acknowledged. When a hundred of them head the list of unacknowledged
  jobs that are idle, a starting worker gets no further: no job behind them is ever claimed, at
  whatever number of restarts and with whatever failures.
\<close>
theorem poisoned_jobs_block_recovery:
  assumes "list_all (\<lambda>job. campaign_of db (rj_CampaignID job) = None) (take 100 (filter (cp_idle io) (unacked db)))"
  shows "((\<lambda>d. snd (claimPendingMessages io ios d)) ^^ n) db = db"
proof -
  have "claim_loop is jobs db = (True, db)"
    if "list_all (\<lambda>job. campaign_of db (rj_CampaignID job) = None) jobs" for "is" jobs
    using that
  proof (induction jobs arbitrary: "is")
    case (Cons job jobs)
    then have "processMessage (is 0) job db = (True, db)"
      by (simp add: processMessage_def HandleRecipientJob_def)
    with Cons show ?case by simp
  qed simp
  with assms have "snd (claimPendingMessages io ios db) = db"
    by (simp add: claimPendingMessages_def)
  then show ?thesis
    by (induction n) simp_all
qed

theorem poisoned_jobs_block_recovery_witness:
  "snd (claimPendingMessages demo_io (\<lambda>_. demo_io)
     ((demo_db ''processing'')\<lparr>unacked := replicate 100 ((demo_job ''r9'' ''2129'')\<lparr>rj_CampaignID := ''gone''\<rparr>) @ [demo_job ''r1'' ''2126'']\<rparr>)) =
   (demo_db ''processing'')\<lparr>unacked := replicate 100 ((demo_job ''r9'' ''2129'')\<lparr>rj_CampaignID := ''gone''\<rparr>) @ [demo_job ''r1'' ''2126'']\<rparr>"
proof -
  let ?gone = "(demo_job ''r9'' ''2129'')\<lparr>rj_CampaignID := ''gone''\<rparr>"
  let ?db = "(demo_db ''processing'')\<lparr>unacked := replicate 100 ?gone @ [demo_job ''r1'' ''2126'']\<rparr>"
  have "cp_idle demo_io = (\<lambda>_. True)"
    by (simp add: demo_io_def)
  then have "take 100 (filter (cp_idle demo_io) (unacked ?db)) = replicate 100 ?gone"
    by simp
  moreover have "campaign_of ?db ''gone'' = None"
    by (simp add: campaign_of_def demo_defs)
  ultimately have "list_all (\<lambda>job. campaign_of ?db (rj_CampaignID job) = None) (take 100 (filter (cp_idle demo_io) (unacked ?db)))"
    by (simp only: list_all_iff) simp
  from poisoned_jobs_block_recovery [OF this, of 1 "\<lambda>_. demo_io"] show ?thesis
    by simp
qed

section \<open>Variables without a value\<close>

lemma worker_body_keys: "fst ` set (worker_body_params rt body tparams) \<subseteq> set (ExtParamNames body)"
proof -
  let ?names = "ExtParamNames body"
  let ?key = "\<lambda>i. if i < length ?names then ?names ! i else Itoa (int i + 1)"
  have keys: "fst ` set (fold (\<lambda>(i, val) m. AList.update (key i) val m) ps m) = fst ` set m \<union> (\<lambda>(i, v). key i) ` set ps"
    for key :: "nat \<Rightarrow> string" and ps :: "(nat \<times> string) list" and m
    by (induction ps arbitrary: m) (simp_all add: dom_update case_prod_beta)
  have "length (ResolveParams rt body tparams) \<le> length ?names"
    by (simp add: ResolveParams_def Let_def)
  then have "(\<lambda>(i, v). ?key i) ` set (enumerate 0 (ResolveParams rt body tparams)) \<subseteq> set ?names"
    by (auto simp: in_set_enumerate_eq)
  then show ?thesis
    by (simp add: worker_body_params_def Let_def keys)
qed

text \<open>
  A missing header variable slips through the checks before sending: for a template whose text header
  has one variable, a recipient that has a value for it in neither map is not counted as incomplete
  (the absent value is formatted as \<open><nil>\<close>, which is not blank), and the worker then
  builds a request whose header parameter is the empty text, the request the check is there to stop.
\<close>
theorem missing_header_slips_through:
  assumes "tp_HeaderType tp = ''TEXT''" "cp_fold io ''TEXT'' ''TEXT''" "cp_up io ''TEXT'' = ''TEXT''"
    and "ExtParamNames (tp_HeaderContent tp) = [name]" "strings_Contains (tp_HeaderContent tp) ''{{''"
    and "name \<notin> fst ` set (jsonb (br_HeaderParams rc))" "name \<notin> fst ` set (jsonb (br_TemplateParams rc))"
    and "name \<notin> set (ExtParamNames (tp_BodyContent tp))"
  shows "header_variable io tp = name \<and>
    incomplete (cp_rt io) tp names name rc = incomplete (cp_rt io) tp names [] rc \<and>
    (\<exists>req rest. template_request io account tp (recipient_job org i rc) mediaID mediaName = Inr req \<and>
       ts_Components req =
         [(''type'', StrV ''header''), (''parameters'', ArrV [text_param (Atoi name = None) name []])] # rest)"
proof -
  have none: "map_of (jsonb (br_HeaderParams rc)) name = None" "map_of (jsonb (br_TemplateParams rc)) name = None"
    using assms(6,7) by (simp_all add: map_of_eq_None_iff)
  then have nil: "obj_get (jsonb (br_HeaderParams rc)) name = NilV" "obj_get (jsonb (br_TemplateParams rc)) name = NilV"
    by (simp_all add: obj_get_def)
  have "TrimSpace ''<nil>'' \<noteq> []"
    by code_simp
  then have inc: "incomplete (cp_rt io) tp names name rc = incomplete (cp_rt io) tp names [] rc"
    by (simp add: incomplete_def nil Sprint_v_def)
  let ?job = "recipient_job org i rc"
  have hp: "worker_header_params (cp_rt io) tp (rj_HeaderParams ?job) (rj_TemplateParams ?job) = []"
    by (simp add: worker_header_params_def assms(1,4) recipient_job_def none)
  let ?body = "worker_body_params (cp_rt io) (tp_BodyContent tp) (jsonb (rj_TemplateParams ?job))"
  have "map_of ?body name = None"
    using worker_body_keys [of "cp_rt io" "tp_BodyContent tp" "jsonb (rj_TemplateParams ?job)"] assms(8)
    by (auto simp: map_of_eq_None_iff)
  then have "HeaderTextParamsComponent (tp_HeaderContent tp) [] ?body =
      Inr (Some [(''type'', StrV ''header''), (''parameters'', ArrV [text_param (Atoi name = None) name []])])"
    by (simp add: HeaderTextParamsComponent_def assms(4,5) param_at_def Let_def)
  then have "\<exists>req rest. template_request io account tp ?job mediaID mediaName = Inr req \<and>
       ts_Components req =
         [(''type'', StrV ''header''), (''parameters'', ArrV [text_param (Atoi name = None) name []])] # rest"
    unfolding template_request_def hp BuildTemplateComponents_def assms(1,3) Let_def by simp
  with inc assms(1,2,4) show ?thesis
    by (simp add: header_variable_def)
qed

theorem missing_header_slips_through_witness:
  "\<exists>req rest. template_request demo_io ''main'' (demo_template\<lparr>tp_HeaderType := ''TEXT'', tp_HeaderContent := ''Hi {{name}}''\<rparr>)
       (recipient_job ''o1'' ''c1'' (demo_recipient ''r1'' ''2126'')) [] [] = Inr req \<and>
     ts_Components req = [(''type'', StrV ''header''), (''parameters'', ArrV [text_param True ''name'' []])] # rest"
proof -
  let ?tp = "demo_template\<lparr>tp_HeaderType := ''TEXT'', tp_HeaderContent := ''Hi {{name}}''\<rparr>"
  have "ExtParamNames ''Hi {{name}}'' = [''name'']" "strings_Contains ''Hi {{name}}'' ''{{''" "Atoi ''name'' = None"
    by code_simp+
  then show ?thesis
    using missing_header_slips_through [of ?tp demo_io "''name''" "demo_recipient ''r1'' ''2126''" "[]" "''main''" "''o1''" "''c1''" "[]" "[]"]
    by (simp add: demo_defs)
qed

end
