(* ===== verification/Campaign_Reports.thy ===== *)
theory Campaign_Reports
  imports Campaign_Properties
begin

text \<open>
  Delivery reports (\<open>updateMessageStatus\<close>): the status of a message is the furthest one reported, in whatever
  order and however often the reports come, and the counters of a campaign are not as robust.
\<close>

section \<open>One report\<close>

definition known_statuses :: "string set" where
  "known_statuses = {''sent'', ''delivered'', ''read'', ''failed''}"

definition progress :: "string \<Rightarrow> string \<Rightarrow> string" where
  "progress s new =
     (if statusPriority new \<le> statusPriority s \<and> new \<noteq> ''failed'' \<or> new \<notin> known_statuses then s else new)"

fun apply_reports :: "(nat \<Rightarrow> camp_io) \<Rightarrow> (string \<times> string \<times> WebhookStatusError list) list \<Rightarrow> camp_db \<Rightarrow> camp_db" where
  "apply_reports ios [] db = db"
| "apply_reports ios ((w, st, errors) # rs) db =
     apply_reports (\<lambda>k. ios (Suc k)) rs (updateMessageStatus (ios 0) w st errors db)"

lemma find_update_by:
  "(\<And>x. P (g x) = P x) \<Longrightarrow> find P (update_by key k g xs) = map_option (\<lambda>x. if key x = k then g x else x) (find P xs)"
  by (induction xs) auto

lemma increment_tables [simp]:
  "msgs (incrementCampaignStat io j st db) = msgs db" "recipients (incrementCampaignStat io j st db) = recipients db"
  by (simp_all add: incrementCampaignStat_def split: option.split)

lemma report_messages:
  assumes "\<not> cp_err io ''find_message''" "\<not> cp_err io ''update_message''"
  shows "msgs (updateMessageStatus io w st errors db) =
    (case find (\<lambda>m. gm_WAID m = w) (msgs db) of
       None \<Rightarrow> msgs db
     | Some m \<Rightarrow>
         if statusPriority st \<le> statusPriority (gm_Status m) \<and> st \<noteq> ''failed'' \<or> st \<notin> known_statuses then msgs db
         else update_by gm_ID (gm_ID m)
                (\<lambda>x. x\<lparr>gm_Status := st, gm_Error := (case report_error st errors of Some e \<Rightarrow> e | None \<Rightarrow> gm_Error x)\<rparr>) (msgs db))"
  using assms by (simp add: updateMessageStatus_def Let_def known_statuses_def split: option.split)

lemma report_status:
  assumes "\<not> cp_err io ''find_message''" "\<not> cp_err io ''update_message''" "distinct (map gm_ID (msgs db))"
    and "find (\<lambda>m. gm_WAID m = w) (msgs db) = Some m"
  shows "\<exists>m'. find (\<lambda>m. gm_WAID m = w) (msgs (updateMessageStatus io w2 st errors db)) = Some m' \<and>
      gm_Status m' = (if w2 = w then progress (gm_Status m) st else gm_Status m) \<and> gm_Metadata m' = gm_Metadata m"
    and "map gm_ID (msgs (updateMessageStatus io w2 st errors db)) = map gm_ID (msgs db)"
proof -
  let ?g = "\<lambda>x. x\<lparr>gm_Status := st, gm_Error := (case report_error st errors of Some e \<Rightarrow> e | None \<Rightarrow> gm_Error x)\<rparr>"
  note r = report_messages [OF assms(1,2), of w2 st errors db]
  have upd: "find (\<lambda>m. gm_WAID m = w) (update_by gm_ID k ?g (msgs db)) = Some (if gm_ID m = k then ?g m else m)" for k
    by (subst find_update_by) (simp_all add: assms(4))
  have m: "m \<in> set (msgs db)" "gm_WAID m = w"
    using assms(4) by (auto simp: find_Some_iff)
  show "\<exists>m'. find (\<lambda>m. gm_WAID m = w) (msgs (updateMessageStatus io w2 st errors db)) = Some m' \<and>
      gm_Status m' = (if w2 = w then progress (gm_Status m) st else gm_Status m) \<and> gm_Metadata m' = gm_Metadata m"
  proof (cases "find (\<lambda>m. gm_WAID m = w2) (msgs db)")
    case (Some m2)
    then have "m2 \<in> set (msgs db)" "gm_WAID m2 = w2"
      by (auto simp: find_Some_iff)
    then have "w2 \<noteq> w \<Longrightarrow> gm_ID m \<noteq> gm_ID m2" "w2 = w \<Longrightarrow> m2 = m"
      using m assms(3,4) Some by (auto simp: distinct_map inj_on_def)
    then show ?thesis
      using Some assms(4) by (auto simp: r upd progress_def)
  qed (use assms(4) r in \<open>auto\<close>)
  show "map gm_ID (msgs (updateMessageStatus io w2 st errors db)) = map gm_ID (msgs db)"
    by (simp add: r map_update_by split: option.split)
qed

section \<open>Many reports\<close>

definition healthy_reports :: "(nat \<Rightarrow> camp_io) \<Rightarrow> bool" where
  "healthy_reports ios \<longleftrightarrow> (\<forall>k. \<not> cp_err (ios k) ''find_message'' \<and> \<not> cp_err (ios k) ''update_message'')"

lemma reports_fold:
  assumes "healthy_reports ios" "distinct (map gm_ID (msgs db))" "find (\<lambda>m. gm_WAID m = w) (msgs db) = Some m"
  shows "\<exists>m'. find (\<lambda>m. gm_WAID m = w) (msgs (apply_reports ios rs db)) = Some m' \<and>
    gm_Status m' = foldl progress (gm_Status m) (map (\<lambda>(w2, st, e). st) (filter (\<lambda>(w2, st, e). w2 = w) rs))"
  using assms
proof (induction rs arbitrary: ios db m)
  case (Cons r rs)
  obtain w2 st errors where r: "r = (w2, st, errors)"
    by (cases r) auto
  let ?db = "updateMessageStatus (ios 0) w2 st errors db"
  have ok: "\<not> cp_err (ios 0) ''find_message''" "\<not> cp_err (ios 0) ''update_message''" "healthy_reports (\<lambda>k. ios (Suc k))"
    using Cons.prems(1) by (simp_all add: healthy_reports_def)
  note s = report_status [OF ok(1,2) Cons.prems(2,3), of w2 st errors]
  obtain m' where m': "find (\<lambda>m. gm_WAID m = w) (msgs ?db) = Some m'"
    "gm_Status m' = (if w2 = w then progress (gm_Status m) st else gm_Status m)"
    using s(1) by blast
  have "distinct (map gm_ID (msgs ?db))"
    using s(2) Cons.prems(2) by simp
  from Cons.IH [OF ok(3) this m'(1)] show ?case
    by (cases "w2 = w") (simp_all add: r m'(2))
qed simp

lemma priority_inj:
  "s \<in> insert ''pending'' known_statuses \<Longrightarrow> t \<in> insert ''pending'' known_statuses \<Longrightarrow> statusPriority s = statusPriority t \<Longrightarrow> s = t"
  by (auto simp: known_statuses_def statusPriority_def)

lemma progress_known:
  assumes "s \<in> insert ''pending'' known_statuses"
  shows "progress s t \<in> insert ''pending'' known_statuses"
    "statusPriority (progress s t) = (if t \<in> known_statuses then max (statusPriority s) (statusPriority t) else statusPriority s)"
proof -
  show "progress s t \<in> insert ''pending'' known_statuses"
    using assms by (simp add: progress_def)
  have "statusPriority s \<le> 4" "statusPriority ''failed'' = 4"
    by (simp_all add: statusPriority_def)
  then show "statusPriority (progress s t) = (if t \<in> known_statuses then max (statusPriority s) (statusPriority t) else statusPriority s)"
    by (auto simp: progress_def)
qed

lemma foldl_progress:
  assumes "s \<in> insert ''pending'' known_statuses"
  shows "foldl progress s ts \<in> insert ''pending'' known_statuses \<and>
    statusPriority (foldl progress s ts) = Max (statusPriority ` insert s (set ts \<inter> known_statuses))"
  using assms
proof (induction ts arbitrary: s)
  case (Cons t ts)
  have "Max (statusPriority ` insert (progress s t) (set ts \<inter> known_statuses)) =
      Max (statusPriority ` insert s (set (t # ts) \<inter> known_statuses))"
  proof (cases "set ts \<inter> known_statuses = {}")
    case True
    then show ?thesis
      using progress_known(2) [OF Cons.prems, of t] by (cases "t \<in> known_statuses") (simp_all add: Int_insert_left max.commute)
  next
    case False
    then show ?thesis
      using progress_known(2) [OF Cons.prems, of t]
      by (cases "t \<in> known_statuses") (simp_all add: Int_insert_left Max.insert_not_elem max.assoc)
  qed
  with Cons.IH [OF progress_known(1) [OF Cons.prems, of t]] show ?case
    by simp
qed simp

text \<open>
  C32. The status of a message does not depend on the order of its reports, as long as neither the lookup
  of a message nor the update of its row fails for any report (the code drops a report when one of
  them does; updates of recipients and counters may fail): Meta's delivery reports may come in any
  order, be repeated, be mixed with reports on other messages and carry statuses the program does not
  know; two runs with the same set of reports leave the message (whose status was pending or one of
  the reported kinds) with the same status, the one with the highest priority among its status and
  the reported ones (pending, sent, delivered, read, failed).
\<close>
theorem status_order_irrelevant:
  assumes "healthy_reports ios" "healthy_reports ios2" "distinct (map gm_ID (msgs db))"
    and "find (\<lambda>m. gm_WAID m = w) (msgs db) = Some m" "gm_Status m \<in> insert ''pending'' known_statuses" "set rs = set rs2"
  shows "\<exists>m1 m2. find (\<lambda>m. gm_WAID m = w) (msgs (apply_reports ios rs db)) = Some m1 \<and>
    find (\<lambda>m. gm_WAID m = w) (msgs (apply_reports ios2 rs2 db)) = Some m2 \<and> gm_Status m2 = gm_Status m1 \<and>
    gm_Status m1 \<in> insert ''pending'' known_statuses \<and>
    statusPriority (gm_Status m1) =
      Max (statusPriority ` insert (gm_Status m) ({st. \<exists>e. (w, st, e) \<in> set rs} \<inter> known_statuses))"
proof -
  let ?sts = "\<lambda>rs. map (\<lambda>(w2, st, e). st) (filter (\<lambda>(w2, st, e). w2 = w) rs)"
  have set: "set (?sts rs) = {st. \<exists>e. (w, st, e) \<in> set rs}" for rs :: "(string \<times> string \<times> WebhookStatusError list) list"
    by force
  obtain m1 m2 where m: "find (\<lambda>m. gm_WAID m = w) (msgs (apply_reports ios rs db)) = Some m1"
    "gm_Status m1 = foldl progress (gm_Status m) (?sts rs)"
    "find (\<lambda>m. gm_WAID m = w) (msgs (apply_reports ios2 rs2 db)) = Some m2"
    "gm_Status m2 = foldl progress (gm_Status m) (?sts rs2)"
    using reports_fold [OF assms(1,3,4)] reports_fold [OF assms(2,3,4)] by blast
  note f = foldl_progress [OF assms(5), of "?sts rs", unfolded set] foldl_progress [OF assms(5), of "?sts rs2", unfolded set]
  have "gm_Status m2 = gm_Status m1"
    using f assms(6) by (intro priority_inj) (simp_all only: m)
  with m(1,3) f(1) [folded m(2)] show ?thesis
    by blast
qed

definition demo_message :: bulk_message where
  "demo_message = \<lparr>gm_ID = ''m1'', gm_Org = ''o1'', gm_WhatsAppAccount = ''main'', gm_Contact = ''p1'', gm_WAID = ''w1'',
     gm_Status = ''sent'', gm_Error = [], gm_Content = [], gm_TemplateName = ''sale'', gm_TemplateParams = None,
     gm_Metadata = Some [(''campaign_id'', StrV ''c1'')], gm_MediaURL = [], gm_MediaMimeType = []\<rparr>"

theorem status_order_irrelevant_witness:
  "\<exists>m1 m2. find (\<lambda>m. gm_WAID m = ''w1'') (msgs (apply_reports (\<lambda>_. demo_io)
       [(''w1'', ''read'', []), (''w1'', ''delivered'', [])] ((demo_db ''completed'')\<lparr>msgs := [demo_message]\<rparr>))) = Some m1 \<and>
     find (\<lambda>m. gm_WAID m = ''w1'') (msgs (apply_reports (\<lambda>_. demo_io)
       [(''w1'', ''delivered'', []), (''w1'', ''read'', []), (''w1'', ''delivered'', [])]
       ((demo_db ''completed'')\<lparr>msgs := [demo_message]\<rparr>))) = Some m2 \<and> gm_Status m1 = gm_Status m2"
proof -
  have ok: "healthy_reports (\<lambda>_. demo_io)"
    by (simp add: healthy_reports_def demo_io_def)
  have "set [(''w1'', ''read'', []), (''w1'', ''delivered'', [])] =
      set [(''w1'', ''delivered'', []), (''w1'', ''read'', []), (''w1'', ''delivered'', [] :: WebhookStatusError list)]"
    by auto
  from status_order_irrelevant [OF ok ok _ _ _ this, of "(demo_db ''completed'')\<lparr>msgs := [demo_message]\<rparr>" "''w1''" demo_message]
  show ?thesis
    by (simp add: demo_message_def known_statuses_def) metis
qed

section \<open>Counting\<close>

lemma failed_report_step:
  assumes "quiet io" "cp_uuid io j = Some i" "find (\<lambda>m. gm_WAID m = w) (msgs db) = Some m"
    and "message_campaign m = Some j" "j \<noteq> []" "campaign_of db i = Some c"
  shows "campaign_of (updateMessageStatus io w ''failed'' errors db) i = Some (bump Failed c)"
    "msgs (updateMessageStatus io w ''failed'' errors db) = update_by gm_ID (gm_ID m)
       (\<lambda>x. x\<lparr>gm_Status := ''failed'', gm_Error := (case errors of [] \<Rightarrow> gm_Error x | e # _ \<Rightarrow> error_text e)\<rparr>) (msgs db)"
proof -
  have err: "cp_err io = (\<lambda>_. False)"
    using assms(1) by (simp add: quiet_def)
  have "campaigns (updateMessageStatus io w ''failed'' errors db) = update_by bc_ID i (bump Failed) (campaigns db)"
    using assms(2-5) by (simp add: updateMessageStatus_def err Let_def incrementCampaignStat_def)
  then show "campaign_of (updateMessageStatus io w ''failed'' errors db) i = Some (bump Failed c)"
    using campaign_of_upd [of "bump Failed"] assms(6) by (simp add: campaign_of_def)
  show "msgs (updateMessageStatus io w ''failed'' errors db) = update_by gm_ID (gm_ID m)
       (\<lambda>x. x\<lparr>gm_Status := ''failed'', gm_Error := (case errors of [] \<Rightarrow> gm_Error x | e # _ \<Rightarrow> error_text e)\<rparr>) (msgs db)"
    using report_messages [of io w "''failed''" errors db] assms(3)
    by (simp add: err known_statuses_def report_error_def split: list.split)
qed

text \<open>
  A failure that is reported again is counted again: every repetition of the same failed report (Meta
  delivers webhooks at least once) adds one to the campaign's failed count, although the message rows are
  the same after the first of them, so that the count leaves the number of failed messages behind.
\<close>
theorem repeated_failure_counts_again:
  assumes "\<And>k. quiet (ios k)" "\<And>k. cp_uuid (ios k) j = Some i" "find (\<lambda>m. gm_WAID m = w) (msgs db) = Some m"
    and "message_campaign m = Some j" "j \<noteq> []" "campaign_of db i = Some c" "distinct (map gm_ID (msgs db))"
  shows "(\<exists>c2. campaign_of (apply_reports ios (replicate (Suc n) (w, ''failed'', errors)) db) i = Some c2 \<and>
      bc_FailedCount c2 = bc_FailedCount c + int (Suc n)) \<and>
    msgs (apply_reports ios (replicate (Suc n) (w, ''failed'', errors)) db) =
      msgs (updateMessageStatus (ios 0) w ''failed'' errors db)"
  using assms
proof (induction n arbitrary: ios db m c)
  case 0
  show ?case
    using failed_report_step(1) [OF 0(1) 0(2) 0(3-6)] by (simp add: bump_def)
next
  case (Suc n)
  let ?db = "updateMessageStatus (ios 0) w ''failed'' errors db"
  let ?g = "\<lambda>x. x\<lparr>gm_Status := ''failed'', gm_Error := (case errors of [] \<Rightarrow> gm_Error x | e # _ \<Rightarrow> error_text e)\<rparr>"
  note s = failed_report_step [of "ios 0", OF Suc.prems(1) Suc.prems(2) Suc.prems(3-6), of errors]
  have f: "find (\<lambda>m. gm_WAID m = w) (msgs ?db) = Some (?g m)"
    unfolding s(2) by (subst find_update_by) (simp_all add: Suc.prems(3))
  have mc: "message_campaign (?g m) = Some j"
    using Suc.prems(4) by (simp add: message_campaign_def)
  have dist: "distinct (map gm_ID (msgs ?db))"
    unfolding s(2) using Suc.prems(7) by (simp add: map_update_by)
  have again: "msgs (updateMessageStatus (ios 1) w ''failed'' errors ?db) = msgs ?db"
    using failed_report_step(2) [of "ios 1", OF Suc.prems(1) Suc.prems(2) f mc Suc.prems(5) s(1), of errors]
    unfolding s(2) by (simp add: update_by_def split: list.split)
  from Suc.IH [of "\<lambda>k. ios (Suc k)", OF Suc.prems(1) Suc.prems(2) f mc Suc.prems(5) s(1) dist] again
  show ?case
    by (auto simp: bump_def)
qed

theorem repeated_failure_counts_again_witness:
  "\<exists>c2. campaign_of (apply_reports (\<lambda>_. demo_io) (replicate (Suc 2) (''w1'', ''failed'', []))
     ((demo_db ''completed'')\<lparr>msgs := [demo_message]\<rparr>)) ''c1'' = Some c2 \<and> bc_FailedCount c2 = 3"
proof -
  let ?db = "(demo_db ''completed'')\<lparr>msgs := [demo_message]\<rparr>"
  have "campaign_of ?db ''c1'' = Some (demo_campaign ''completed'')" "cp_uuid demo_io ''c1'' = Some ''c1''"
    "message_campaign demo_message = Some ''c1''" "find (\<lambda>m. gm_WAID m = ''w1'') (msgs ?db) = Some demo_message"
    "bc_FailedCount (demo_campaign ''completed'') = 0"
    by (simp_all add: campaign_of_def demo_defs demo_message_def message_campaign_def obj_get_def)
  then show ?thesis
    using repeated_failure_counts_again [of "\<lambda>_. demo_io" "''c1''" "''c1''" "''w1''" ?db demo_message "demo_campaign ''completed''" 2 "[]"]
      demo_quiet by auto
qed

end
