(* ===== verification/Access_Rows.thy ===== *)
theory Access_Rows
  imports Agent_Rows
begin

text \<open>
  The tables and surroundings of authentication and authorisation: users, organisations, memberships,
  roles with their permissions, API keys (\<open>models/models.go\<close>, \<open>models/roles.go\<close>), the part of Redis
  that holds cached permissions and refresh-token identifiers, and the claims of a token
  (\<open>middleware/middleware.go\<close>).

  Users and memberships keep their soft-deleted rows (\<open>CreateUser\<close> restores them); of every other
  table only the rows that are not deleted are held. Instants are seconds, the resolution of a token's
  dates; one handler runs at one instant \<open>ax_now\<close>. \<open>ax_err\<close> says, by a label, which database or Redis
  call fails. The libraries are arguments: \<open>ax_sign\<close> and \<open>ax_parse\<close> are the JWT library with the
  server's secret, \<open>ax_claims\<close> what the library returns with an error as well, \<open>ax_hash\<close> and
  \<open>ax_check\<close> are bcrypt, \<open>ax_uuid\<close> is \<open>uuid.Parse\<close>, \<open>ax_mail\<close> says which addresses \<open>net/mail\<close> accepts.

  A handler is a state transformer that answers with a refusal (HTTP status and message) or a value;
  \<open>bindE\<close> chains them, a refusal ends the handler.
\<close>

section \<open>Rows\<close>

record ax_user =
  xu_ID :: string
  xu_Org :: string
  xu_Email :: string
  xu_Hash :: string
  xu_FullName :: string
  xu_RoleID :: "string option"
  xu_IsActive :: bool
  xu_IsSuperAdmin :: bool
  xu_Deleted :: bool

record membership =
  mb_User :: string
  mb_Org :: string
  mb_RoleID :: "string option"
  mb_IsDefault :: bool
  mb_Deleted :: bool

record role_row =
  ro_ID :: string
  ro_Org :: string
  ro_Name :: string
  ro_Description :: string
  ro_IsSystem :: bool
  ro_IsDefault :: bool

record permission =
  pm_ID :: string
  pm_Resource :: string
  pm_Action :: string

record api_key =
  ak_ID :: string
  ak_Org :: string
  ak_User :: string
  ak_Name :: string
  ak_Prefix :: string
  ak_Hash :: string
  ak_ExpiresAt :: "int option"
  ak_IsActive :: bool

record UserPermissions =
  up_RoleID :: string
  up_RoleName :: string
  up_IsSystem :: bool
  up_IsSuperAdmin :: bool
  up_Permissions :: "string list"

record JWTClaims =
  cl_UserID :: string
  cl_Org :: string
  cl_Email :: string
  cl_RoleID :: "string option"
  cl_IsSuperAdmin :: bool
  cl_ID :: string
  cl_Subject :: string
  cl_ExpiresAt :: int
  cl_IssuedAt :: int

datatype redis_value =
    CachedPerms UserPermissions
  | CachedKeys "string list"
  | Plain string

record ax_db =
  xusers :: "ax_user list"
  xorgs :: "string list"
  xmembers :: "membership list"
  xroles :: "role_row list"
  xperms :: "permission list"
  xrole_perms :: "(string \<times> string) list"
  xkeys :: "api_key list"
  xredis :: "string \<Rightarrow> (redis_value \<times> int) option"

record ax_io =
  ax_now :: int
  ax_err :: "string \<Rightarrow> bool"
  ax_new :: "nat \<Rightarrow> string"
  ax_uuid :: "string \<Rightarrow> string option"
  ax_hash :: "string \<Rightarrow> string option"
  ax_check :: "string \<Rightarrow> string \<Rightarrow> bool"
  ax_mail :: "string \<Rightarrow> bool"
  ax_date :: "string \<Rightarrow> int option"
  ax_sign :: "JWTClaims \<Rightarrow> string option"
  ax_parse :: "int \<Rightarrow> string \<Rightarrow> JWTClaims option"
  ax_claims :: "string \<Rightarrow> JWTClaims option"
  ax_rand :: "string option"
  ax_AccessExpiryMins :: int
  ax_RefreshExpiryDays :: int

text \<open>What the middleware leaves in the request context, with the organisation header.\<close>

record ax_ctx =
  cx_UserID :: "string option"
  cx_Org :: "string option"
  cx_IsSuperAdmin :: bool
  cx_OrgHeader :: string

section \<open>Handlers\<close>

type_synonym refusal = "nat \<times> string"
type_synonym 'a handler = "ax_db \<Rightarrow> (refusal + 'a) \<times> ax_db"

definition ok :: "'a \<Rightarrow> 'a handler" where
  "ok x db = (Inr x, db)"

definition deny :: "nat \<Rightarrow> string \<Rightarrow> 'a handler" where
  "deny status message db = (Inl (status, message), db)"

definition bindE :: "'a handler \<Rightarrow> ('a \<Rightarrow> 'b handler) \<Rightarrow> 'b handler" where
  "bindE m f db = (case m db of (Inl e, db') \<Rightarrow> (Inl e, db') | (Inr x, db') \<Rightarrow> f x db')"

definition require :: "bool \<Rightarrow> nat \<Rightarrow> string \<Rightarrow> unit handler" where
  "require b status message = (if b then ok () else deny status message)"

definition query :: "(ax_db \<Rightarrow> 'a) \<Rightarrow> 'a handler" where
  "query f db = (Inr (f db), db)"

definition change :: "(ax_db \<Rightarrow> ax_db) \<Rightarrow> unit handler" where
  "change f db = (Inr (), f db)"

text \<open>A query whose missing row ends the handler.\<close>

definition fetch :: "(ax_db \<Rightarrow> 'a option) \<Rightarrow> nat \<Rightarrow> string \<Rightarrow> 'a handler" where
  "fetch f status message db = (case f db of None \<Rightarrow> (Inl (status, message), db) | Some x \<Rightarrow> (Inr x, db))"

text \<open>An option that ends the handler when it is \<open>None\<close>.\<close>

definition need :: "'a option \<Rightarrow> nat \<Rightarrow> string \<Rightarrow> 'a handler" where
  "need x status message = (case x of None \<Rightarrow> deny status message | Some y \<Rightarrow> ok y)"

section \<open>Lookups\<close>

definition live_user :: "string \<Rightarrow> ax_db \<Rightarrow> ax_user option" where
  "live_user i db = find (\<lambda>u. xu_ID u = i \<and> \<not> xu_Deleted u) (xusers db)"

definition user_by_email :: "string \<Rightarrow> ax_db \<Rightarrow> ax_user option" where
  "user_by_email e db = find (\<lambda>u. xu_Email u = e \<and> \<not> xu_Deleted u) (xusers db)"

definition live_member :: "string \<Rightarrow> string \<Rightarrow> ax_db \<Rightarrow> membership option" where
  "live_member u o' db = find (\<lambda>m. mb_User m = u \<and> mb_Org m = o' \<and> \<not> mb_Deleted m) (xmembers db)"

definition role_by_id :: "string \<Rightarrow> ax_db \<Rightarrow> role_row option" where
  "role_by_id i db = find (\<lambda>r. ro_ID r = i) (xroles db)"

definition role_of_org :: "string \<Rightarrow> string \<Rightarrow> ax_db \<Rightarrow> role_row option" where
  "role_of_org i o' db = find (\<lambda>r. ro_ID r = i \<and> ro_Org r = o') (xroles db)"

definition default_role :: "string \<Rightarrow> ax_db \<Rightarrow> role_row option" where
  "default_role o' db = find (\<lambda>r. ro_Org r = o' \<and> ro_IsDefault r) (xroles db)"

definition try_find :: "ax_io \<Rightarrow> string \<Rightarrow> (ax_db \<Rightarrow> 'a option) \<Rightarrow> ax_db \<Rightarrow> 'a option" where
  "try_find io label f db = (if ax_err io label then None else f db)"

text \<open>An update of the row that \<open>First\<close> found.\<close>

fun update_first :: "('a \<Rightarrow> bool) \<Rightarrow> ('a \<Rightarrow> 'a) \<Rightarrow> 'a list \<Rightarrow> 'a list" where
  "update_first P f [] = []"
| "update_first P f (x # xs) = (if P x then f x # xs else x # update_first P f xs)"

section \<open>Redis\<close>

definition redis_get :: "ax_io \<Rightarrow> string \<Rightarrow> ax_db \<Rightarrow> redis_value option" where
  "redis_get io k db =
     (if ax_err io ''redis_get'' then None
      else (case xredis db k of Some (v, e) \<Rightarrow> (if ax_now io < e then Some v else None) | None \<Rightarrow> None))"

definition redis_set :: "ax_io \<Rightarrow> string \<Rightarrow> redis_value \<Rightarrow> int \<Rightarrow> ax_db \<Rightarrow> ax_db" where
  "redis_set io k v ttl db =
     (if ax_err io ''redis_set'' then db
      else db\<lparr>xredis := (xredis db)(k \<mapsto> (v, ax_now io + ttl))\<rparr>)"

text \<open>\<open>DEL\<close>: the number of keys removed, or an error.\<close>

definition redis_del :: "ax_io \<Rightarrow> string \<Rightarrow> ax_db \<Rightarrow> nat option \<times> ax_db" where
  "redis_del io k db =
     (if ax_err io ''redis_del'' then (None, db)
      else (Some (case xredis db k of Some (v, e) \<Rightarrow> (if ax_now io < e then 1 else 0) | None \<Rightarrow> 0),
            db\<lparr>xredis := (xredis db)(k := None)\<rparr>))"

definition deleteKeysByPrefix :: "ax_io \<Rightarrow> string \<Rightarrow> ax_db \<Rightarrow> ax_db" where
  "deleteKeysByPrefix io p db =
     (if ax_err io ''redis_scan'' then db
      else db\<lparr>xredis := (\<lambda>k. if prefix p k then None else xredis db k)\<rparr>)"

section \<open>Reasoning about handlers\<close>

lemma handler_simps [simp]:
  "ok x db = (Inr x, db)" "deny c m db = (Inl (c, m), db)" "query f db = (Inr (f db), db)"
  "change h db = (Inr (), h db)" "require True c m = ok ()" "require False c m = deny c m"
  "need None c m = deny c m" "need (Some x) c m = ok x"
  by (simp_all add: ok_def deny_def query_def change_def require_def need_def)

lemma bindE_simps [simp]:
  "bindE (ok x) f = f x" "bindE (deny c m) f = deny c m" "bindE (query g) f db = f (g db) db"
  "bindE (change w) h db = h () (w db)"
  by (simp_all add: bindE_def fun_eq_iff deny_def)

definition keeps :: "(ax_db \<Rightarrow> bool) \<Rightarrow> 'a handler \<Rightarrow> bool" where
  "keeps P m \<longleftrightarrow> (\<forall>db. P db \<longrightarrow> P (snd (m db)))"

named_theorems keeping

lemma keepsI: "(\<And>db. P db \<Longrightarrow> P (snd (m db))) \<Longrightarrow> keeps P m"
  by (simp add: keeps_def)

lemma keepsD: "keeps P m \<Longrightarrow> P db \<Longrightarrow> P (snd (m db))"
  by (simp add: keeps_def)

lemma keeps_bind [keeping]: "keeps P m \<Longrightarrow> (\<And>x. keeps P (f x)) \<Longrightarrow> keeps P (bindE m f)"
  unfolding keeps_def bindE_def by (fastforce split: sum.splits prod.splits)

lemma keeps_basic [keeping]:
  "keeps P (ok x)" "keeps P (deny c m)" "keeps P (query f)" "keeps P (require b c m)"
  "keeps P (need y c m)"
  by (simp_all add: keeps_def require_def need_def split: option.split)

lemma keeps_fetch [keeping]: "keeps P (fetch f c m)"
  by (simp add: keeps_def fetch_def split: option.split)

lemma keeps_change [keeping]: "(\<And>db. P db \<Longrightarrow> P (f db)) \<Longrightarrow> keeps P (change f)"
  by (simp add: keeps_def)

lemma keeps_if [keeping]: "(b \<Longrightarrow> keeps P m) \<Longrightarrow> (\<not> b \<Longrightarrow> keeps P n) \<Longrightarrow> keeps P (if b then m else n)"
  by simp

lemma keeps_option [keeping]:
  "(y = None \<Longrightarrow> keeps P m) \<Longrightarrow> (\<And>x. y = Some x \<Longrightarrow> keeps P (n x)) \<Longrightarrow> keeps P (case y of None \<Rightarrow> m | Some x \<Rightarrow> n x)"
  by (cases y) simp_all

lemma keeps_prod [keeping]: "(\<And>x y. p = (x, y) \<Longrightarrow> keeps P (f x y)) \<Longrightarrow> keeps P (case p of (x, y) \<Rightarrow> f x y)"
  by (cases p) simp

text \<open>With a fact on the value that the handler gives.\<close>

definition yields :: "(ax_db \<Rightarrow> bool) \<Rightarrow> 'a handler \<Rightarrow> ('a \<Rightarrow> bool) \<Rightarrow> bool" where
  "yields P m Q \<longleftrightarrow> (\<forall>db. P db \<longrightarrow> P (snd (m db)) \<and> (\<forall>x. fst (m db) = Inr x \<longrightarrow> Q x))"

lemma yields_keeps: "yields P m Q \<Longrightarrow> keeps P m"
  by (simp add: yields_def keeps_def)

lemma keeps_yields: "keeps P m \<Longrightarrow> yields P m (\<lambda>_. True)"
  by (simp add: yields_def keeps_def)

lemma yields_bind: "yields P m Q \<Longrightarrow> (\<And>x. Q x \<Longrightarrow> yields P (f x) R) \<Longrightarrow> yields P (bindE m f) R"
  unfolding yields_def bindE_def by (fastforce split: sum.splits prod.splits)

lemma yields_pass: "keeps P m \<Longrightarrow> (\<And>x. yields P (f x) R) \<Longrightarrow> yields P (bindE m f) R"
  by (rule yields_bind [OF keeps_yields])

lemma yields_ok: "Q x \<Longrightarrow> yields P (ok x) Q"
  by (simp add: yields_def)

lemma yields_require: "(b \<Longrightarrow> Q ()) \<Longrightarrow> yields P (require b c m) Q"
  by (simp add: yields_def require_def)

lemma yields_fetch: "(\<And>db x. P db \<Longrightarrow> f db = Some x \<Longrightarrow> Q x) \<Longrightarrow> yields P (fetch f c m) Q"
  by (auto simp: yields_def fetch_def split: option.split)

lemma yields_query: "(\<And>db. P db \<Longrightarrow> Q (f db)) \<Longrightarrow> yields P (query f) Q"
  by (simp add: yields_def)

lemma keeps_after: "yields P m Q \<Longrightarrow> (\<And>x. Q x \<Longrightarrow> keeps P (f x)) \<Longrightarrow> keeps P (bindE m f)"
  by (metis keeps_yields yields_bind yields_keeps)

text \<open>What a chain of handlers that ended well went through.\<close>

lemma bindE_ok:
  "bindE m f db = (Inr y, db') \<longleftrightarrow> (\<exists>x db1. m db = (Inr x, db1) \<and> f x db1 = (Inr y, db'))"
  by (auto simp: bindE_def split: sum.splits prod.splits)

lemma require_ok: "require b c m db = (Inr y, db') \<longleftrightarrow> b \<and> db' = db"
  by (auto simp: require_def)

lemma fetch_ok: "fetch f c m db = (Inr x, db') \<longleftrightarrow> f db = Some x \<and> db' = db"
  by (auto simp: fetch_def split: option.splits)

lemma need_ok: "need y c m db = (Inr x, db') \<longleftrightarrow> y = Some x \<and> db' = db"
  by (auto simp: need_def split: option.splits)

lemma try_find_Some: "try_find io l f db = Some x \<longleftrightarrow> \<not> ax_err io l \<and> f db = Some x"
  by (simp add: try_find_def)

lemmas chain = bindE_ok require_ok fetch_ok need_ok try_find_Some

end
