(* ===== verification/Permissions.thy ===== *)
theory Permissions
  imports Access_Rows
begin

text \<open>
  The permission cache of \<open>handlers/cache.go\<close>, the organisation of a request (\<open>getOrgID\<close> of
  \<open>handlers/app.go\<close>) and the permission check with which handlers begin (\<open>requireAuth\<close>).
\<close>

section \<open>Permissions of a user\<close>

definition userPermissionsCacheTTL :: int where
  "userPermissionsCacheTTL = 600"

definition rolePermissionsCacheTTL :: int where
  "rolePermissionsCacheTTL = 600"

definition user_key :: "string \<Rightarrow> string" where
  "user_key u = ''permissions:user:'' @ u"

definition perm_key :: "string \<Rightarrow> string option \<Rightarrow> string" where
  "perm_key u o' = (case o' of None \<Rightarrow> user_key u | Some i \<Rightarrow> user_key u @ '':'' @ i)"

definition role_key :: "string \<Rightarrow> string" where
  "role_key r = ''permissions:role:'' @ r"

definition perm_string :: "permission \<Rightarrow> string" where
  "perm_string p = pm_Resource p @ '':'' @ pm_Action p"

definition loadRolePermissions :: "string \<Rightarrow> ax_db \<Rightarrow> permission list" where
  "loadRolePermissions r db =
     filter (\<lambda>p. (r, pm_ID p) \<in> set (xrole_perms db)) (xperms db)"

text \<open>The role that counts in an organisation: that of the membership, else the user's own.\<close>

definition role_in :: "ax_io \<Rightarrow> ax_user \<Rightarrow> string option \<Rightarrow> ax_db \<Rightarrow> string option" where
  "role_in io user orgID db =
     (case orgID of
        None \<Rightarrow> xu_RoleID user
      | Some o' \<Rightarrow>
          (case try_find io ''membership'' (live_member (xu_ID user) o') db of
             None \<Rightarrow> xu_RoleID user
           | Some m \<Rightarrow> (case mb_RoleID m of None \<Rightarrow> xu_RoleID user | Some r \<Rightarrow> Some r)))"

definition stored_permissions :: "ax_io \<Rightarrow> string \<Rightarrow> string option \<Rightarrow> ax_db \<Rightarrow> UserPermissions option" where
  "stored_permissions io userID orgID db =
     (case try_find io ''user'' (live_user userID) db of
        None \<Rightarrow> None
      | Some user \<Rightarrow>
     (case role_in io user orgID db of
        None \<Rightarrow> None
      | Some roleID \<Rightarrow>
     (case try_find io ''role'' (role_by_id roleID) db of
        None \<Rightarrow> None
      | Some role \<Rightarrow>
          if ax_err io ''role_permissions'' then None
          else Some \<lparr>up_RoleID = ro_ID role, up_RoleName = ro_Name role, up_IsSystem = ro_IsSystem role,
                     up_IsSuperAdmin = xu_IsSuperAdmin user,
                     up_Permissions = map perm_string (loadRolePermissions roleID db)\<rparr>)))"

definition org_arg :: "string list \<Rightarrow> string option" where
  "org_arg orgIDs = (case orgIDs of [] \<Rightarrow> None | o' # _ \<Rightarrow> (if o' = uuid_Nil then None else Some o'))"

definition getUserPermissionsCached ::
    "ax_io \<Rightarrow> string \<Rightarrow> string list \<Rightarrow> ax_db \<Rightarrow> UserPermissions option \<times> ax_db" where
  "getUserPermissionsCached io userID orgIDs db =
     (let key = perm_key userID (org_arg orgIDs) in
      case redis_get io key db of
        Some (CachedPerms perms) \<Rightarrow> (Some perms, db)
      | _ \<Rightarrow>
          (case stored_permissions io userID (org_arg orgIDs) db of
             None \<Rightarrow> (None, db)
           | Some perms \<Rightarrow> (Some perms, redis_set io key (CachedPerms perms) userPermissionsCacheTTL db)))"

definition allows :: "UserPermissions \<Rightarrow> string \<Rightarrow> string \<Rightarrow> bool" where
  "allows perms resource action \<longleftrightarrow>
     up_IsSuperAdmin perms \<or> resource @ '':'' @ action \<in> set (up_Permissions perms)"

definition HasPermission ::
    "ax_io \<Rightarrow> string \<Rightarrow> string \<Rightarrow> string \<Rightarrow> string list \<Rightarrow> bool handler" where
  "HasPermission io userID resource action orgIDs db =
     (case getUserPermissionsCached io userID orgIDs db of
        (None, db') \<Rightarrow> (Inr False, db')
      | (Some perms, db') \<Rightarrow> (Inr (allows perms resource action), db'))"

definition HasAnyPermission :: "ax_io \<Rightarrow> string \<Rightarrow> string list \<Rightarrow> bool handler" where
  "HasAnyPermission io userID permissions db =
     (case getUserPermissionsCached io userID [] db of
        (None, db') \<Rightarrow> (Inr False, db')
      | (Some perms, db') \<Rightarrow>
          (Inr (up_IsSuperAdmin perms \<or> list_ex (\<lambda>p. p \<in> set (up_Permissions perms)) permissions), db'))"

definition IsSuperAdmin :: "ax_io \<Rightarrow> string \<Rightarrow> bool handler" where
  "IsSuperAdmin io userID db =
     (case getUserPermissionsCached io userID [] db of
        (None, db') \<Rightarrow> (Inr False, db')
      | (Some perms, db') \<Rightarrow> (Inr (up_IsSuperAdmin perms), db'))"

definition GetRolePermissionsCached :: "ax_io \<Rightarrow> string \<Rightarrow> ax_db \<Rightarrow> string list option \<times> ax_db" where
  "GetRolePermissionsCached io roleID db =
     (case redis_get io (role_key roleID) db of
        Some (CachedKeys perms) \<Rightarrow> (Some perms, db)
      | _ \<Rightarrow>
          (case try_find io ''role'' (role_by_id roleID) db of
             None \<Rightarrow> (None, db)
           | Some role \<Rightarrow>
               if ax_err io ''role_permissions'' then (None, db)
               else (let perms = map perm_string (loadRolePermissions roleID db) in
                     (Some perms, redis_set io (role_key roleID) (CachedKeys perms) rolePermissionsCacheTTL db))))"

section \<open>Invalidation\<close>

definition InvalidateUserPermissionsCache :: "ax_io \<Rightarrow> string \<Rightarrow> ax_db \<Rightarrow> ax_db" where
  "InvalidateUserPermissionsCache io userID db =
     deleteKeysByPrefix io (user_key userID @ '':'') (snd (redis_del io (user_key userID) db))"

definition users_with_role :: "ax_io \<Rightarrow> string \<Rightarrow> ax_db \<Rightarrow> string list" where
  "users_with_role io roleID db =
     remdups
       ((if ax_err io ''role_users'' then []
         else map xu_ID (filter (\<lambda>u. xu_RoleID u = Some roleID \<and> \<not> xu_Deleted u) (xusers db))) @
        (if ax_err io ''role_members'' then []
         else map mb_User (filter (\<lambda>m. mb_RoleID m = Some roleID \<and> \<not> mb_Deleted m) (xmembers db))))"

definition InvalidateRolePermissionsCache :: "ax_io \<Rightarrow> string \<Rightarrow> ax_db \<Rightarrow> ax_db" where
  "InvalidateRolePermissionsCache io roleID db =
     (let db1 = snd (redis_del io (role_key roleID) db) in
      fold (InvalidateUserPermissionsCache io) (users_with_role io roleID db1) db1)"

definition InvalidateOrgPermissionsCache :: "ax_io \<Rightarrow> string \<Rightarrow> ax_db \<Rightarrow> ax_db" where
  "InvalidateOrgPermissionsCache io orgID db =
     (if ax_err io ''org_roles'' then db
      else fold (InvalidateRolePermissionsCache io)
             (map ro_ID (filter (\<lambda>r. ro_Org r = orgID) (xroles db))) db)"

section \<open>The organisation and the user of a request\<close>

definition getOrgID :: "ax_io \<Rightarrow> ax_ctx \<Rightarrow> string handler" where
  "getOrgID io ctx =
     (case cx_Org ctx of
        None \<Rightarrow> deny 401 ''Unauthorized''
      | Some defaultOrgID \<Rightarrow>
          (let userID = (case cx_UserID ctx of None \<Rightarrow> uuid_Nil | Some u \<Rightarrow> u) in
           case (if cx_OrgHeader ctx = [] then None else ax_uuid io (cx_OrgHeader ctx)) of
             None \<Rightarrow> ok defaultOrgID
           | Some parsed \<Rightarrow>
               if parsed = defaultOrgID then ok defaultOrgID
               else
                 bindE (IsSuperAdmin io userID) (\<lambda>super.
                 bindE (query (\<lambda>db.
                     if super then \<not> ax_err io ''orgs'' \<and> parsed \<in> set (xorgs db)
                     else try_find io ''member_count'' (live_member userID parsed) db \<noteq> None)) (\<lambda>found.
                 ok (if found then parsed else defaultOrgID)))))"

definition getOrgAndUserID :: "ax_io \<Rightarrow> ax_ctx \<Rightarrow> (string \<times> string) handler" where
  "getOrgAndUserID io ctx =
     bindE (getOrgID io ctx) (\<lambda>orgID.
     bindE (need (cx_UserID ctx) 401 ''Unauthorized'') (\<lambda>userID.
     ok (orgID, userID)))"

definition requireAuth :: "ax_io \<Rightarrow> ax_ctx \<Rightarrow> string \<Rightarrow> string \<Rightarrow> (string \<times> string) handler" where
  "requireAuth io ctx resource action =
     bindE (getOrgAndUserID io ctx) (\<lambda>(orgID, userID).
     bindE (HasPermission io userID resource action [orgID]) (\<lambda>allowed.
     bindE (require allowed 403 ''Insufficient permissions'') (\<lambda>_.
     ok (orgID, userID))))"

definition requirePermission :: "ax_io \<Rightarrow> ax_ctx \<Rightarrow> string \<Rightarrow> string \<Rightarrow> string \<Rightarrow> unit handler" where
  "requirePermission io ctx userID resource action db =
     (case getOrgID io ctx db of
        (Inl e, db') \<Rightarrow> (Inl (403, ''Insufficient permissions''), db')
      | (Inr orgID, db') \<Rightarrow>
          bindE (HasPermission io userID resource action [orgID]) (\<lambda>allowed.
            require allowed 403 ''Insufficient permissions'') db')"

section \<open>Facts\<close>

text \<open>Everything but the cache.\<close>

definition tables :: "ax_db \<Rightarrow> ax_db" where
  "tables db = db\<lparr>xredis := (\<lambda>k. None)\<rparr>"

lemma tables_redis [simp]: "tables (db\<lparr>xredis := m\<rparr>) = tables db"
  by (simp add: tables_def)

lemma tables_set [simp]: "tables (redis_set io k v t db) = tables db"
  by (simp add: redis_set_def)

lemma tables_del [simp]: "tables (snd (redis_del io k db)) = tables db"
  by (simp add: redis_del_def)

lemma tables_prefix [simp]: "tables (deleteKeysByPrefix io p db) = tables db"
  by (simp add: deleteKeysByPrefix_def)

lemma tables_permissions [simp]: "tables (snd (getUserPermissionsCached io u os db)) = tables db"
  by (simp add: getUserPermissionsCached_def Let_def split: option.split redis_value.split)

lemma tables_role_cached [simp]: "tables (snd (GetRolePermissionsCached io r db)) = tables db"
  by (simp add: GetRolePermissionsCached_def Let_def split: option.split redis_value.split)

lemma tables_invalidate_user [simp]: "tables (InvalidateUserPermissionsCache io u db) = tables db"
  by (simp add: InvalidateUserPermissionsCache_def)

lemma tables_invalidate_role [simp]: "tables (InvalidateRolePermissionsCache io r db) = tables db"
proof -
  have "tables (fold (InvalidateUserPermissionsCache io) us d) = tables d" for us d
    by (induction us arbitrary: d) simp_all
  then show ?thesis
    by (simp add: InvalidateRolePermissionsCache_def Let_def)
qed

lemma table_selectors:
  assumes "tables db = tables db'"
  shows "xusers db = xusers db'" "xorgs db = xorgs db'" "xmembers db = xmembers db'"
    "xroles db = xroles db'" "xperms db = xperms db'" "xrole_perms db = xrole_perms db'"
    "xkeys db = xkeys db'"
  using assms by (cases db; cases db'; simp add: tables_def)+

text \<open>The checks read and write nothing but the cache.\<close>

definition reads :: "'a handler \<Rightarrow> bool" where
  "reads m \<longleftrightarrow> (\<forall>db. tables (snd (m db)) = tables db)"

lemma reads_keeps: "reads m \<longleftrightarrow> (\<forall>t. keeps (\<lambda>d. tables d = t) m)"
  by (auto simp: reads_def keeps_def)

lemma reads_bind: "reads m \<Longrightarrow> (\<And>x. reads (f x)) \<Longrightarrow> reads (bindE m f)"
  unfolding reads_keeps by (simp add: keeps_bind)

lemma reads_basic:
  "reads (ok x)" "reads (deny c m)" "reads (query f)" "reads (require b c m)" "reads (need y c m)"
  "reads (fetch g c m)"
  by (simp_all add: reads_def require_def need_def fetch_def split: option.split)

lemma tables_permissions_eq: "getUserPermissionsCached io u os db = (p, db') \<Longrightarrow> tables db' = tables db"
  using tables_permissions [of io u os db] by simp

lemma reads_checks:
  "reads (HasPermission io u r a os)" "reads (IsSuperAdmin io u)" "reads (HasAnyPermission io u ps)"
  by (auto simp: reads_def HasPermission_def IsSuperAdmin_def HasAnyPermission_def
      split: prod.split option.split dest: tables_permissions_eq)

lemma reads_org: "reads (getOrgID io ctx)"
  unfolding getOrgID_def Let_def
  by (auto split: option.split intro!: reads_bind reads_basic reads_checks)

lemma reads_auth:
  "reads (getOrgAndUserID io ctx)" "reads (requireAuth io ctx r a)"
  unfolding getOrgAndUserID_def requireAuth_def
  by (auto split: prod.split intro!: reads_bind reads_basic reads_checks reads_org)

lemma reads_tables: "reads m \<Longrightarrow> m db = (x, db') \<Longrightarrow> tables db' = tables db"
  unfolding reads_def by (metis snd_conv)

end
