(* ===== verification/Roles.thy ===== *)
theory Roles
  imports Permissions
begin

text \<open>
  \<open>handlers/roles.go\<close>: creating, updating and deleting roles. The audit log is not modelled; an answer
  carries the role, not its rendering.
\<close>

section \<open>Requests\<close>

record RoleRequest =
  rr_Name :: string
  rr_Description :: string
  rr_IsDefault :: bool
  rr_Permissions :: "string list"

definition splitPermissionKey :: "string \<Rightarrow> (string \<times> string) option" where
  "splitPermissionKey key =
     (if CHR '':'' \<in> set key
      then Some (takeWhile (\<lambda>c. c \<noteq> CHR '':'') key, tl (dropWhile (\<lambda>c. c \<noteq> CHR '':'') key))
      else None)"

definition getPermissionsByKeys :: "ax_io \<Rightarrow> string list \<Rightarrow> ax_db \<Rightarrow> permission list option" where
  "getPermissionsByKeys io keys db =
     (let conditions = List.map_filter splitPermissionKey (filter (\<lambda>k. k \<noteq> []) keys) in
      if conditions = [] then Some []
      else if ax_err io ''permissions'' then None
      else Some (filter (\<lambda>p. (pm_Resource p, pm_Action p) \<in> set conditions) (xperms db)))"

section \<open>Writes\<close>

definition insert_role :: "role_row \<Rightarrow> permission list \<Rightarrow> ax_db \<Rightarrow> ax_db" where
  "insert_role role perms db =
     db\<lparr>xroles := xroles db @ [role],
        xrole_perms := xrole_perms db @ map (\<lambda>p. (ro_ID role, pm_ID p)) perms\<rparr>"

text \<open>\<open>Association("Permissions").Replace(permissions)\<close>\<close>

definition replace_permissions :: "string \<Rightarrow> permission list \<Rightarrow> ax_db \<Rightarrow> ax_db" where
  "replace_permissions i perms db =
     db\<lparr>xrole_perms := filter (\<lambda>(r, p). r \<noteq> i) (xrole_perms db) @ map (\<lambda>p. (i, pm_ID p)) perms\<rparr>"

definition save_role :: "role_row \<Rightarrow> ax_db \<Rightarrow> ax_db" where
  "save_role role db = db\<lparr>xroles := update_by ro_ID (ro_ID role) (\<lambda>_. role) (xroles db)\<rparr>"

text \<open>Every other default of the organisation is unset.\<close>

definition unset_defaults :: "string \<Rightarrow> string \<Rightarrow> ax_db \<Rightarrow> ax_db" where
  "unset_defaults orgID except db =
     db\<lparr>xroles := map (\<lambda>r. if ro_Org r = orgID \<and> ro_IsDefault r \<and> ro_ID r \<noteq> except
                            then r\<lparr>ro_IsDefault := False\<rparr> else r) (xroles db)\<rparr>"

section \<open>Handlers\<close>

definition CreateRole :: "ax_io \<Rightarrow> ax_ctx \<Rightarrow> RoleRequest option \<Rightarrow> role_row handler" where
  "CreateRole io ctx body =
     bindE (getOrgAndUserID io ctx) (\<lambda>(orgID, userID).
     bindE (need body 400 ''Invalid request body'') (\<lambda>req.
     bindE (require (rr_Name req \<noteq> []) 400 ''Name is required'') (\<lambda>_.
     bindE (query (try_find io ''role_name''
              (\<lambda>db. find (\<lambda>r. ro_Org r = orgID \<and> ro_Name r = rr_Name req) (xroles db)))) (\<lambda>existing.
     bindE (require (existing = None) 409 ''Role with this name already exists'') (\<lambda>_.
     bindE (fetch (getPermissionsByKeys io (rr_Permissions req)) 500 ''Failed to create role'') (\<lambda>permissions.
     (let role = \<lparr>ro_ID = ax_new io 0, ro_Org = orgID, ro_Name = rr_Name req,
                  ro_Description = rr_Description req, ro_IsSystem = False, ro_IsDefault = rr_IsDefault req\<rparr> in
      bindE (require (\<not> ax_err io ''save_role'') 500 ''Failed to create role'') (\<lambda>_.
      bindE (change (\<lambda>db. insert_role role permissions
               (if rr_IsDefault req then unset_defaults orgID (ro_ID role) db else db))) (\<lambda>_.
      ok role)))))))))"

text \<open>The permissions of the request, when it names any, replace those of the role.\<close>

definition update_permissions :: "ax_io \<Rightarrow> bool \<Rightarrow> string \<Rightarrow> string list \<Rightarrow> unit handler" where
  "update_permissions io wanted i keys =
     (if wanted \<and> keys \<noteq> [] then
        bindE (fetch (getPermissionsByKeys io keys) 500 ''Failed to update role'') (\<lambda>permissions.
        bindE (require (\<not> ax_err io ''replace_permissions'') 500 ''Failed to update role'') (\<lambda>_.
        change (replace_permissions i permissions)))
      else ok ())"

definition update_system_role :: "ax_io \<Rightarrow> ax_ctx \<Rightarrow> role_row \<Rightarrow> RoleRequest \<Rightarrow> role_row handler" where
  "update_system_role io ctx role req =
     (let role' = (if rr_Description req \<noteq> [] then role\<lparr>ro_Description := rr_Description req\<rparr> else role) in
      bindE (update_permissions io (cx_IsSuperAdmin ctx) (ro_ID role) (rr_Permissions req)) (\<lambda>_.
      bindE (require (\<not> ax_err io ''save_role'') 500 ''Failed to update role'') (\<lambda>_.
      bindE (change (\<lambda>db. InvalidateRolePermissionsCache io (ro_ID role) (save_role role' db))) (\<lambda>_.
      ok role'))))"

definition update_custom_role ::
    "ax_io \<Rightarrow> string \<Rightarrow> role_row \<Rightarrow> RoleRequest \<Rightarrow> role_row handler" where
  "update_custom_role io orgID role req =
     bindE (query (try_find io ''role_name''
              (\<lambda>db. find (\<lambda>r. ro_Org r = orgID \<and> ro_Name r = rr_Name req \<and> ro_ID r \<noteq> ro_ID role) (xroles db)))) (\<lambda>existing.
     bindE (require (rr_Name req = [] \<or> existing = None) 409 ''Role with this name already exists'') (\<lambda>_.
     (let role1 = (if rr_Name req \<noteq> [] then role\<lparr>ro_Name := rr_Name req\<rparr> else role);
          role2 = (if rr_Description req \<noteq> [] then role1\<lparr>ro_Description := rr_Description req\<rparr> else role1);
          role3 = role2\<lparr>ro_IsDefault := rr_IsDefault req\<rparr> in
      bindE (update_permissions io True (ro_ID role) (rr_Permissions req)) (\<lambda>_.
      bindE (require (\<not> ax_err io ''save_role'') 500 ''Failed to update role'') (\<lambda>_.
      bindE (change (\<lambda>db. InvalidateRolePermissionsCache io (ro_ID role)
               (save_role role3
                  (if rr_IsDefault req \<and> \<not> ro_IsDefault role then unset_defaults orgID (ro_ID role) db else db)))) (\<lambda>_.
      ok role3))))))"

definition UpdateRole :: "ax_io \<Rightarrow> ax_ctx \<Rightarrow> string \<Rightarrow> RoleRequest option \<Rightarrow> role_row handler" where
  "UpdateRole io ctx pathID body =
     bindE (getOrgAndUserID io ctx) (\<lambda>(orgID, userID).
     bindE (need (ax_uuid io pathID) 400 ''Invalid role ID'') (\<lambda>i.
     bindE (fetch (try_find io ''role'' (role_of_org i orgID)) 404 ''Role not found'') (\<lambda>role.
     bindE (require (\<not> ax_err io ''role_permissions'') 500 ''Failed to update role'') (\<lambda>_.
     bindE (need body 400 ''Invalid request body'') (\<lambda>req.
     if ro_IsSystem role then update_system_role io ctx role req
     else update_custom_role io orgID role req)))))"

definition DeleteRole :: "ax_io \<Rightarrow> ax_ctx \<Rightarrow> string \<Rightarrow> string handler" where
  "DeleteRole io ctx pathID =
     bindE (getOrgAndUserID io ctx) (\<lambda>(orgID, userID).
     bindE (need (ax_uuid io pathID) 400 ''Invalid role ID'') (\<lambda>i.
     bindE (fetch (try_find io ''role'' (role_of_org i orgID)) 404 ''Role not found'') (\<lambda>role.
     bindE (require (\<not> ro_IsSystem role) 400 ''Cannot delete system roles'') (\<lambda>_.
     bindE (query (\<lambda>db. if ax_err io ''count_users'' then 0
              else length (filter (\<lambda>u. xu_RoleID u = Some i \<and> \<not> xu_Deleted u) (xusers db)))) (\<lambda>userCount.
     bindE (require (userCount = 0) 400 ''Cannot delete role with assigned users'') (\<lambda>_.
     bindE (require (\<not> ax_err io ''delete_role'') 500 ''Failed to delete role'') (\<lambda>_.
     bindE (change (\<lambda>db. db\<lparr>xroles := filter (\<lambda>r. ro_ID r \<noteq> i) (xroles db)\<rparr>)) (\<lambda>_.
     ok ''Role deleted successfully''))))))))"

section \<open>What the roles handlers leave alone\<close>

text \<open>Users, memberships and API keys.\<close>

definition identities :: "ax_db \<Rightarrow> ax_user list \<times> membership list \<times> api_key list" where
  "identities db = (xusers db, xmembers db, xkeys db)"

lemma identities_redis [simp]: "identities (db\<lparr>xredis := m\<rparr>) = identities db"
  by (simp add: identities_def)

lemma identities_tables:
  assumes "tables db = tables db'"
  shows "identities db = identities db'"
  using table_selectors [OF assms] by (simp only: identities_def)

lemma identities_invalidate [simp]:
  "identities (InvalidateRolePermissionsCache io r db) = identities db"
  "identities (InvalidateUserPermissionsCache io u db) = identities db"
  by (rule identities_tables, simp)+

lemma identities_writes [simp]:
  "identities (insert_role r ps db) = identities db" "identities (replace_permissions i ps db) = identities db"
  "identities (save_role r db) = identities db" "identities (unset_defaults o' i db) = identities db"
  by (simp_all add: identities_def insert_role_def replace_permissions_def save_role_def unset_defaults_def)

lemma reads_identities: "reads m \<Longrightarrow> keeps (\<lambda>d. identities d = t) m"
  unfolding reads_def keeps_def using identities_tables by metis

lemma identities_roles [simp]: "identities (db\<lparr>xroles := rs\<rparr>) = identities db"
  by (simp add: identities_def)

lemma update_permissions_identities: "keeps (\<lambda>d. identities d = t) (update_permissions io b i ks)"
  unfolding update_permissions_def by (intro keeping) simp

lemma roles_keep_identities:
  "keeps (\<lambda>d. identities d = t) (CreateRole io ctx body)"
  "keeps (\<lambda>d. identities d = t) (UpdateRole io ctx p body)"
  "keeps (\<lambda>d. identities d = t) (DeleteRole io ctx p)"
  unfolding CreateRole_def UpdateRole_def DeleteRole_def update_system_role_def update_custom_role_def Let_def
  by (intro keeping reads_identities [OF reads_auth(1)] update_permissions_identities; simp)+

end
