(* ===== verification/Auth.thy ===== *)
theory Auth
  imports Roles
begin

text \<open>
  Authentication: the middleware (\<open>middleware/middleware.go\<close>, \<open>middleware/csrf.go\<close> and the path table
  of \<open>cmd/whatomate/main.go\<close>), the token handlers (\<open>handlers/auth.go\<close>), the cookies they set
  (\<open>handlers/cookies.go\<close>), the websocket token check (\<open>handlers/websocket.go\<close>) and API keys
  (\<open>handlers/apikeys.go\<close>). The asynchronous update of a key's last use is not modelled.
\<close>

section \<open>Requests\<close>

record http_in =
  hi_Method :: string
  hi_Path :: string
  hi_Authorization :: string
  hi_APIKey :: string
  hi_OrgHeader :: string
  hi_CSRFHeader :: string
  hi_Cookies :: "(string \<times> string) list"

definition cookie_of :: "string \<Rightarrow> http_in \<Rightarrow> string" where
  "cookie_of name req = (case map_of (hi_Cookies req) name of None \<Rightarrow> [] | Some v \<Rightarrow> v)"

definition CSRFProtection :: "http_in \<Rightarrow> refusal + unit" where
  "CSRFProtection req =
     (if hi_Method req \<notin> {''POST'', ''PUT'', ''DELETE'', ''PATCH''} then Inr ()
      else if hi_Authorization req \<noteq> [] \<or> hi_APIKey req \<noteq> [] then Inr ()
      else if cookie_of ''whm_access'' req = [] then Inr ()
      else (let csrfCookie = cookie_of ''whm_csrf'' req; csrfHeader = hi_CSRFHeader req in
            if csrfCookie = [] \<or> csrfHeader = [] \<or> csrfCookie \<noteq> csrfHeader
            then Inl (403, ''CSRF token mismatch'') else Inr ()))"

section \<open>API keys and tokens\<close>

definition key_context :: "http_in \<Rightarrow> api_key \<Rightarrow> ax_user \<Rightarrow> ax_ctx" where
  "key_context req k user =
     \<lparr>cx_UserID = Some (ak_User k), cx_Org = Some (ak_Org k), cx_IsSuperAdmin = xu_IsSuperAdmin user,
      cx_OrgHeader = hi_OrgHeader req\<rparr>"

fun match_key :: "ax_io \<Rightarrow> http_in \<Rightarrow> string \<Rightarrow> ax_db \<Rightarrow> api_key list \<Rightarrow> ax_ctx option" where
  "match_key io req key db [] = None"
| "match_key io req key db (k # ks) =
     (if ax_check io (ak_Hash k) key then
        (case ak_ExpiresAt k of
           Some e \<Rightarrow> (if e < ax_now io then None
                      else (case live_user (ak_User k) db of
                              Some user \<Rightarrow> Some (key_context req k user)
                            | None \<Rightarrow> match_key io req key db ks))
         | None \<Rightarrow> (case live_user (ak_User k) db of
                      Some user \<Rightarrow> Some (key_context req k user)
                    | None \<Rightarrow> match_key io req key db ks))
      else match_key io req key db ks)"

definition validateAPIKey :: "ax_io \<Rightarrow> http_in \<Rightarrow> string \<Rightarrow> ax_db \<Rightarrow> ax_ctx option" where
  "validateAPIKey io req key db =
     (if length key \<noteq> 36 \<or> take 4 key \<noteq> ''whm_'' then None
      else if ax_err io ''api_keys'' then None
      else
        (let newPrefix = take 16 (drop 4 key); oldPrefix = take 8 (drop 4 key) in
         match_key io req key db
           (filter (\<lambda>k. (ak_Prefix k = newPrefix \<or> ak_Prefix k = oldPrefix) \<and> ak_IsActive k) (xkeys db))))"

text \<open>\<open>strings.Split(authHeader, " ")\<close> has two parts, the first one \<open>Bearer\<close>.\<close>

definition bearer_token :: "string \<Rightarrow> string option" where
  "bearer_token h =
     (if prefix ''Bearer '' h \<and> CHR '' '' \<notin> set (drop 7 h) then Some (drop 7 h) else None)"

definition claims_context :: "http_in \<Rightarrow> JWTClaims \<Rightarrow> ax_ctx" where
  "claims_context req c =
     \<lparr>cx_UserID = Some (cl_UserID c), cx_Org = Some (cl_Org c), cx_IsSuperAdmin = cl_IsSuperAdmin c,
      cx_OrgHeader = hi_OrgHeader req\<rparr>"

definition AuthWithDB :: "ax_io \<Rightarrow> http_in \<Rightarrow> ax_db \<Rightarrow> refusal + ax_ctx" where
  "AuthWithDB io req db =
     (if hi_APIKey req \<noteq> [] then
        (case validateAPIKey io req (hi_APIKey req) db of
           Some ctx \<Rightarrow> Inr ctx
         | None \<Rightarrow> Inl (401, ''Invalid API key''))
      else
        (case (if hi_Authorization req \<noteq> [] then bearer_token (hi_Authorization req)
               else Some (cookie_of ''whm_access'' req)) of
           None \<Rightarrow> Inl (401, ''Invalid authorization header format'')
         | Some tokenString \<Rightarrow>
             if tokenString = [] then Inl (401, ''Missing authorization'')
             else (case ax_parse io (ax_now io) tokenString of
                     None \<Rightarrow> Inl (401, ''Invalid or expired token'')
                   | Some claims \<Rightarrow> Inr (claims_context req claims))))"

text \<open>The paths that are served without authentication, and the ones that need it.\<close>

definition public_path :: "string \<Rightarrow> bool" where
  "public_path path \<longleftrightarrow>
     path \<in> {''/health'', ''/ready'', ''/api/auth/login'', ''/api/auth/register'', ''/api/auth/refresh'',
             ''/api/auth/logout'', ''/api/webhook'', ''/ws'', ''/api/ameex/webhook'',
             ''/api/instagram/webhook''} \<or>
     prefix ''/media/flow/'' path \<or> prefix ''/api/auth/sso'' path \<or> prefix ''/api/custom-actions/redirect'' path"

text \<open>The middleware chain in front of every handler: \<open>None\<close> is a request without identity.\<close>

definition before :: "ax_io \<Rightarrow> http_in \<Rightarrow> ax_db \<Rightarrow> refusal + ax_ctx option" where
  "before io req db =
     (case CSRFProtection req of
        Inl e \<Rightarrow> Inl e
      | Inr _ \<Rightarrow>
          if hi_Method req = ''OPTIONS'' \<or> public_path (hi_Path req) then Inr None
          else if 4 < length (hi_Path req) \<and> prefix ''/api'' (hi_Path req) then
            (case AuthWithDB io req db of Inl e \<Rightarrow> Inl e | Inr ctx \<Rightarrow> Inr (Some ctx))
          else Inr None)"

section \<open>Issuing tokens\<close>

definition access_claims :: "ax_io \<Rightarrow> ax_user \<Rightarrow> JWTClaims" where
  "access_claims io user =
     \<lparr>cl_UserID = xu_ID user, cl_Org = xu_Org user, cl_Email = xu_Email user, cl_RoleID = xu_RoleID user,
      cl_IsSuperAdmin = xu_IsSuperAdmin user, cl_ID = [], cl_Subject = [],
      cl_ExpiresAt = ax_now io + 60 * ax_AccessExpiryMins io, cl_IssuedAt = ax_now io\<rparr>"

definition generateAccessToken :: "ax_io \<Rightarrow> ax_user \<Rightarrow> string option" where
  "generateAccessToken io user = ax_sign io (access_claims io user)"

definition refresh_seconds :: "ax_io \<Rightarrow> int" where
  "refresh_seconds io = 86400 * ax_RefreshExpiryDays io"

definition refresh_claims :: "ax_io \<Rightarrow> string \<Rightarrow> ax_user \<Rightarrow> JWTClaims" where
  "refresh_claims io jti user =
     (access_claims io user)\<lparr>cl_ID := jti, cl_ExpiresAt := ax_now io + refresh_seconds io\<rparr>"

definition refreshTokenKey :: "string \<Rightarrow> string" where
  "refreshTokenKey jti = ''refresh:'' @ jti"

definition generateRefreshToken :: "ax_io \<Rightarrow> string \<Rightarrow> ax_user \<Rightarrow> string handler" where
  "generateRefreshToken io jti user =
     bindE (need (ax_sign io (refresh_claims io jti user)) 500 ''Failed to generate token'') (\<lambda>signed.
     bindE (change (redis_set io (refreshTokenKey jti) (Plain (xu_ID user)) (refresh_seconds io))) (\<lambda>_.
     ok signed))"

record auth_session =
  as_Access :: string
  as_Refresh :: string
  as_User :: ax_user

definition issue_tokens :: "ax_io \<Rightarrow> string \<Rightarrow> ax_user \<Rightarrow> auth_session handler" where
  "issue_tokens io jti user =
     bindE (need (generateAccessToken io user) 500 ''Failed to generate token'') (\<lambda>accessToken.
     bindE (generateRefreshToken io jti user) (\<lambda>refreshToken.
     ok \<lparr>as_Access = accessToken, as_Refresh = refreshToken, as_User = user\<rparr>))"

record http_cookie =
  hc_Name :: string
  hc_Value :: string
  hc_Path :: string
  hc_MaxAge :: int
  hc_HTTPOnly :: bool

definition setAuthCookies :: "ax_io \<Rightarrow> string \<Rightarrow> string \<Rightarrow> auth_session \<Rightarrow> http_cookie list" where
  "setAuthCookies io bp csrfToken s =
     [\<lparr>hc_Name = ''whm_access'', hc_Value = as_Access s, hc_Path = bp @ ''/api'',
       hc_MaxAge = 60 * ax_AccessExpiryMins io, hc_HTTPOnly = True\<rparr>,
      \<lparr>hc_Name = ''whm_refresh'', hc_Value = as_Refresh s, hc_Path = bp @ ''/api/auth/refresh'',
       hc_MaxAge = 86400 * ax_RefreshExpiryDays io, hc_HTTPOnly = True\<rparr>,
      \<lparr>hc_Name = ''whm_csrf'', hc_Value = csrfToken, hc_Path = bp @ ''/'',
       hc_MaxAge = 86400 * ax_RefreshExpiryDays io, hc_HTTPOnly = False\<rparr>]"

section \<open>Token handlers\<close>

definition Login :: "ax_io \<Rightarrow> (string \<times> string) option \<Rightarrow> auth_session handler" where
  "Login io body =
     bindE (need body 400 ''Invalid request body'') (\<lambda>(email, password).
     bindE (fetch (try_find io ''user'' (user_by_email email)) 401 ''Invalid credentials'') (\<lambda>user.
     bindE (change (\<lambda>db. case xu_RoleID user of
              None \<Rightarrow> db
            | Some r \<Rightarrow> (if role_by_id r db = None then db else snd (GetRolePermissionsCached io r db)))) (\<lambda>_.
     bindE (require (xu_IsActive user) 401 ''Account is disabled'') (\<lambda>_.
     bindE (require (ax_check io (xu_Hash user) password) 401 ''Invalid credentials'') (\<lambda>_.
     issue_tokens io (ax_new io 0) user)))))"

record RegisterRequest =
  rg_Email :: string
  rg_Password :: string
  rg_FullName :: string
  rg_OrganizationID :: string

definition registration_role :: "ax_io \<Rightarrow> string \<Rightarrow> ax_db \<Rightarrow> role_row option" where
  "registration_role io orgID db =
     (case try_find io ''default_role'' (default_role orgID) db of
        Some r \<Rightarrow> Some r
      | None \<Rightarrow> try_find io ''agent_role''
          (\<lambda>d. find (\<lambda>r. ro_Org r = orgID \<and> ro_Name r = ''agent'' \<and> ro_IsSystem r) (xroles d)) db)"

definition add_member :: "membership \<Rightarrow> ax_db \<Rightarrow> ax_db" where
  "add_member m db = db\<lparr>xmembers := xmembers db @ [m]\<rparr>"

definition add_user :: "ax_user \<Rightarrow> ax_db \<Rightarrow> ax_db" where
  "add_user u db = db\<lparr>xusers := xusers db @ [u]\<rparr>"

text \<open>An account with this address exists: its owner, known by the password, joins the organisation.\<close>

definition join_org :: "ax_io \<Rightarrow> RegisterRequest \<Rightarrow> role_row \<Rightarrow> ax_user \<Rightarrow> auth_session handler" where
  "join_org io req role user =
     bindE (require (ax_check io (xu_Hash user) (rg_Password req)) 409
       ''An account with this email already exists. Please sign in and ask your organization admin to add you.'') (\<lambda>_.
     bindE (require (xu_IsActive user) 401 ''Account is disabled'') (\<lambda>_.
     bindE (query (try_find io ''member_count'' (live_member (xu_ID user) (rg_OrganizationID req)))) (\<lambda>member.
     bindE (require (member = None) 409 ''You are already a member of this organization'') (\<lambda>_.
     bindE (query (\<lambda>db. live_member (xu_ID user) (rg_OrganizationID req) db \<noteq> None)) (\<lambda>duplicate.
     bindE (require (\<not> duplicate \<and> \<not> ax_err io ''create_member'') 500 ''Failed to join organization'') (\<lambda>_.
     bindE (change (add_member \<lparr>mb_User = xu_ID user, mb_Org = rg_OrganizationID req,
              mb_RoleID = Some (ro_ID role), mb_IsDefault = False, mb_Deleted = False\<rparr>)) (\<lambda>_.
     issue_tokens io (ax_new io 0)
       (user\<lparr>xu_Org := rg_OrganizationID req, xu_RoleID := Some (ro_ID role)\<rparr>))))))))"

text \<open>The index on live memberships is unique; the address is unique among all rows, soft-deleted ones included.\<close>

definition new_account :: "ax_io \<Rightarrow> RegisterRequest \<Rightarrow> role_row \<Rightarrow> auth_session handler" where
  "new_account io req role =
     bindE (need (ax_hash io (rg_Password req)) 500 ''Failed to create account'') (\<lambda>hashed.
     (let user = \<lparr>xu_ID = ax_new io 1, xu_Org = rg_OrganizationID req, xu_Email = rg_Email req,
                  xu_Hash = hashed, xu_FullName = rg_FullName req, xu_RoleID = Some (ro_ID role),
                  xu_IsActive = True, xu_IsSuperAdmin = False, xu_Deleted = False\<rparr> in
      bindE (query (\<lambda>db. rg_Email req \<in> xu_Email ` set (xusers db))) (\<lambda>taken.
      bindE (require (\<not> taken \<and> \<not> ax_err io ''create_user'' \<and> \<not> ax_err io ''create_member'')
               500 ''Failed to create account'') (\<lambda>_.
      bindE (change (\<lambda>db. add_member \<lparr>mb_User = xu_ID user, mb_Org = rg_OrganizationID req,
               mb_RoleID = Some (ro_ID role), mb_IsDefault = True, mb_Deleted = False\<rparr> (add_user user db))) (\<lambda>_.
      issue_tokens io (ax_new io 0) user)))))"

definition Register :: "ax_io \<Rightarrow> RegisterRequest option \<Rightarrow> auth_session handler" where
  "Register io body =
     bindE (need body 400 ''Invalid request body'') (\<lambda>req.
     bindE (require (rg_OrganizationID req \<noteq> uuid_Nil) 400 ''organization_id is required'') (\<lambda>_.
     bindE (query (\<lambda>db. \<not> ax_err io ''org'' \<and> rg_OrganizationID req \<in> set (xorgs db))) (\<lambda>found.
     bindE (require found 404 ''Organization not found'') (\<lambda>_.
     bindE (fetch (registration_role io (rg_OrganizationID req)) 500 ''Failed to find default role'') (\<lambda>role.
     bindE (query (try_find io ''user'' (user_by_email (rg_Email req)))) (\<lambda>existing.
     case existing of
       Some user \<Rightarrow> join_org io req role user
     | None \<Rightarrow> new_account io req role))))))"

text \<open>The token of a request to the refresh and logout endpoints: the cookie, else the body.\<close>

definition presented_token :: "http_in \<Rightarrow> string \<Rightarrow> string" where
  "presented_token req bodyToken =
     (if cookie_of ''whm_refresh'' req \<noteq> [] then cookie_of ''whm_refresh'' req else bodyToken)"

definition consume_jti :: "ax_io \<Rightarrow> string \<Rightarrow> unit handler" where
  "consume_jti io jti db =
     (if jti = [] then (Inr (), db)
      else (case redis_del io (refreshTokenKey jti) db of
              (None, db') \<Rightarrow> (Inl (401, ''Refresh token has been revoked''), db')
            | (Some n, db') \<Rightarrow>
                if n = 0 then (Inl (401, ''Refresh token has been revoked''), db') else (Inr (), db')))"

definition RefreshToken :: "ax_io \<Rightarrow> http_in \<Rightarrow> string \<Rightarrow> auth_session handler" where
  "RefreshToken io req bodyToken =
     (let tok = presented_token req bodyToken in
      bindE (require (tok \<noteq> []) 401 ''Missing refresh token'') (\<lambda>_.
      bindE (need (ax_parse io (ax_now io) tok) 401 ''Invalid refresh token'') (\<lambda>claims.
      bindE (consume_jti io (cl_ID claims)) (\<lambda>_.
      bindE (fetch (try_find io ''user'' (live_user (cl_UserID claims))) 401 ''User not found'') (\<lambda>user.
      bindE (require (xu_IsActive user) 401 ''Account is disabled'') (\<lambda>_.
      issue_tokens io (ax_new io 0) user))))))"

definition Logout :: "ax_io \<Rightarrow> http_in \<Rightarrow> string \<Rightarrow> string handler" where
  "Logout io req bodyToken =
     (let tok = presented_token req bodyToken in
      bindE (change (\<lambda>db.
        if tok = [] then db
        else (case ax_claims io tok of
                None \<Rightarrow> db
              | Some c \<Rightarrow> (if cl_ID c = [] then db else snd (redis_del io (refreshTokenKey (cl_ID c)) db))))) (\<lambda>_.
      ok ''logged_out''))"

definition SwitchOrg :: "ax_io \<Rightarrow> ax_ctx \<Rightarrow> string option \<Rightarrow> auth_session handler" where
  "SwitchOrg io ctx body =
     bindE (need (cx_UserID ctx) 401 ''Unauthorized'') (\<lambda>userID.
     bindE (need body 400 ''Invalid request body'') (\<lambda>orgID.
     bindE (require (orgID \<noteq> uuid_Nil) 400 ''organization_id is required'') (\<lambda>_.
     bindE (query (\<lambda>db. \<not> ax_err io ''org'' \<and> orgID \<in> set (xorgs db))) (\<lambda>found.
     bindE (require found 404 ''Organization not found'') (\<lambda>_.
     bindE (fetch (try_find io ''user'' (live_user userID)) 404 ''User not found'') (\<lambda>user.
     bindE (if xu_IsSuperAdmin user then ok (xu_RoleID user)
            else bindE (fetch (try_find io ''membership'' (live_member userID orgID)) 403
                   ''You are not a member of this organization'') (\<lambda>m.
                 ok (case mb_RoleID m of Some r \<Rightarrow> Some r | None \<Rightarrow> xu_RoleID user))) (\<lambda>roleID.
     bindE (change (\<lambda>db. case roleID of
              None \<Rightarrow> db
            | Some r \<Rightarrow> (if try_find io ''role'' (role_by_id r) db = None then db
                         else snd (GetRolePermissionsCached io r db)))) (\<lambda>_.
     issue_tokens io (ax_new io 0) (user\<lparr>xu_Org := orgID, xu_RoleID := roleID\<rparr>)))))))))"

definition ws_claims :: "ax_io \<Rightarrow> string \<Rightarrow> string \<Rightarrow> JWTClaims" where
  "ws_claims io userID orgID =
     \<lparr>cl_UserID = userID, cl_Org = orgID, cl_Email = [], cl_RoleID = None, cl_IsSuperAdmin = False,
      cl_ID = [], cl_Subject = ''ws'', cl_ExpiresAt = ax_now io + 30, cl_IssuedAt = ax_now io\<rparr>"

definition GetWSToken :: "ax_io \<Rightarrow> ax_ctx \<Rightarrow> string handler" where
  "GetWSToken io ctx =
     bindE (need (cx_UserID ctx) 401 ''Unauthorized'') (\<lambda>userID.
     bindE (need (cx_Org ctx) 401 ''Unauthorized'') (\<lambda>orgID.
     need (ax_sign io (ws_claims io userID orgID)) 500 ''Failed to generate token''))"

definition validateWSToken :: "ax_io \<Rightarrow> string \<Rightarrow> (string \<times> string) option" where
  "validateWSToken io tok = map_option (\<lambda>c. (cl_UserID c, cl_Org c)) (ax_parse io (ax_now io) tok)"

section \<open>API key handlers\<close>

definition generateAPIKey :: "ax_io \<Rightarrow> string option" where
  "generateAPIKey io = map_option (\<lambda>h. ''whm_'' @ h) (ax_rand io)"

definition CreateAPIKey :: "ax_io \<Rightarrow> ax_ctx \<Rightarrow> (string \<times> string option) option \<Rightarrow> (api_key \<times> string) handler" where
  "CreateAPIKey io ctx body =
     bindE (requireAuth io ctx ''api_keys'' ''write'') (\<lambda>(orgID, userID).
     bindE (need body 400 ''Invalid request body'') (\<lambda>(name, expires).
     bindE (require (name \<noteq> []) 400 ''Name is required'') (\<lambda>_.
     bindE (case expires of
              None \<Rightarrow> ok None
            | Some e \<Rightarrow> (if e = [] then ok None
                         else bindE (need (ax_date io e) 400 ''Invalid expires_at format. Use RFC3339 format'')
                                (\<lambda>t. ok (Some t)))) (\<lambda>expiresAt.
     bindE (need (generateAPIKey io) 500 ''Failed to generate API key'') (\<lambda>fullKey.
     bindE (need (ax_hash io fullKey) 500 ''Failed to create API key'') (\<lambda>hashed.
     (let k = \<lparr>ak_ID = ax_new io 0, ak_Org = orgID, ak_User = userID, ak_Name = name,
               ak_Prefix = take 16 (drop 4 fullKey), ak_Hash = hashed, ak_ExpiresAt = expiresAt,
               ak_IsActive = True\<rparr> in
      bindE (require (\<not> ax_err io ''create_key'') 500 ''Failed to create API key'') (\<lambda>_.
      bindE (change (\<lambda>db. db\<lparr>xkeys := xkeys db @ [k]\<rparr>)) (\<lambda>_.
      ok (k, fullKey))))))))))"

definition key_of_org :: "string \<Rightarrow> string \<Rightarrow> ax_db \<Rightarrow> api_key option" where
  "key_of_org i orgID db = find (\<lambda>k. ak_ID k = i \<and> ak_Org k = orgID) (xkeys db)"

definition UpdateAPIKey :: "ax_io \<Rightarrow> ax_ctx \<Rightarrow> string \<Rightarrow> bool option option \<Rightarrow> api_key handler" where
  "UpdateAPIKey io ctx pathID body =
     bindE (requireAuth io ctx ''api_keys'' ''write'') (\<lambda>(orgID, userID).
     bindE (need (ax_uuid io pathID) 400 ''Invalid API key ID'') (\<lambda>i.
     bindE (fetch (try_find io ''key'' (key_of_org i orgID)) 404 ''API key not found'') (\<lambda>k.
     bindE (need body 400 ''Invalid request body'') (\<lambda>isActive.
     (let k' = (case isActive of None \<Rightarrow> k | Some b \<Rightarrow> k\<lparr>ak_IsActive := b\<rparr>) in
      bindE (require (\<not> ax_err io ''save_key'') 500 ''Failed to update API key'') (\<lambda>_.
      bindE (change (\<lambda>db. db\<lparr>xkeys := update_by ak_ID i (\<lambda>_. k') (xkeys db)\<rparr>)) (\<lambda>_.
      ok k')))))))"

definition DeleteAPIKey :: "ax_io \<Rightarrow> ax_ctx \<Rightarrow> string \<Rightarrow> string handler" where
  "DeleteAPIKey io ctx pathID =
     bindE (requireAuth io ctx ''api_keys'' ''delete'') (\<lambda>(orgID, userID).
     bindE (need (ax_uuid io pathID) 400 ''Invalid API key ID'') (\<lambda>i.
     bindE (require (\<not> ax_err io ''delete_key'') 500 ''Failed to delete API key'') (\<lambda>_.
     bindE (fetch (key_of_org i orgID) 404 ''API key not found'') (\<lambda>k.
     bindE (change (\<lambda>db. db\<lparr>xkeys := filter (\<lambda>k. \<not> (ak_ID k = i \<and> ak_Org k = orgID)) (xkeys db)\<rparr>)) (\<lambda>_.
     ok ''API key deleted successfully'')))))"

end
