(* ===== verification/Users.thy ===== *)
theory Users
  imports Auth
begin

text \<open>
  The operations that change accounts and memberships: \<open>handlers/users.go\<close> (create, update, delete,
  change of password) and the member operations of \<open>handlers/organization.go\<close>. Answers carry the user;
  audit entries are not modelled.
\<close>

section \<open>Requests\<close>

record UserRequest =
  uq_Email :: string
  uq_Password :: string
  uq_FullName :: string
  uq_RoleID :: "string option"
  uq_IsActive :: "bool option"
  uq_IsSuperAdmin :: "bool option"

definition save_user :: "ax_user \<Rightarrow> ax_db \<Rightarrow> ax_db" where
  "save_user u db = db\<lparr>xusers := update_by xu_ID (xu_ID u) (\<lambda>_. u) (xusers db)\<rparr>"

text \<open>\<open>Model(&UserOrganization{}).Where(user, org).Update("role_id", r)\<close>: live rows only.\<close>

definition set_member_role :: "string \<Rightarrow> string \<Rightarrow> string option \<Rightarrow> ax_db \<Rightarrow> ax_db" where
  "set_member_role u o' r db =
     db\<lparr>xmembers := map (\<lambda>m. if mb_User m = u \<and> mb_Org m = o' \<and> \<not> mb_Deleted m
                            then m\<lparr>mb_RoleID := r\<rparr> else m) (xmembers db)\<rparr>"

definition remove_member :: "string \<Rightarrow> string \<Rightarrow> ax_db \<Rightarrow> ax_db" where
  "remove_member u o' db =
     db\<lparr>xmembers := map (\<lambda>m. if mb_User m = u \<and> mb_Org m = o' then m\<lparr>mb_Deleted := True\<rparr> else m) (xmembers db)\<rparr>"

section \<open>Creating a user\<close>

text \<open>The role of the request must belong to the organisation; without one it is the default role.\<close>

definition requested_role :: "ax_io \<Rightarrow> string option \<Rightarrow> string \<Rightarrow> string option handler" where
  "requested_role io wanted orgID =
     (case wanted of
        Some r \<Rightarrow> bindE (fetch (try_find io ''role'' (role_of_org r orgID)) 400 ''Invalid role'') (\<lambda>_. ok (Some r))
      | None \<Rightarrow> query (\<lambda>db. map_option ro_ID (try_find io ''default_role'' (default_role orgID) db)))"

text \<open>Only a super admin may ask for the super admin flag.\<close>

definition requested_super :: "ax_io \<Rightarrow> string \<Rightarrow> bool option \<Rightarrow> bool handler" where
  "requested_super io userID flag =
     (if flag = Some True then
        bindE (IsSuperAdmin io userID) (\<lambda>super.
        bindE (require super 403 ''Only super admins can create super admins'') (\<lambda>_. ok True))
      else ok False)"

text \<open>A soft-deleted row with the address is restored, and so is its membership.\<close>

definition restore_member :: "ax_io \<Rightarrow> string \<Rightarrow> string \<Rightarrow> string option \<Rightarrow> ax_db \<Rightarrow> ax_db" where
  "restore_member io u orgID r db =
     (case try_find io ''old_member'' (\<lambda>d. find (\<lambda>m. mb_User m = u \<and> mb_Org m = orgID) (xmembers d)) db of
        Some m \<Rightarrow>
          (if ax_err io ''save_member'' \<or> (mb_Deleted m \<and> live_member u orgID db \<noteq> None) then db
           else db\<lparr>xmembers := update_first (\<lambda>x. mb_User x = u \<and> mb_Org x = orgID)
                      (\<lambda>x. x\<lparr>mb_Deleted := False, mb_RoleID := r, mb_IsDefault := True\<rparr>) (xmembers db)\<rparr>)
      | None \<Rightarrow>
          (if ax_err io ''create_member'' then db
           else add_member \<lparr>mb_User = u, mb_Org = orgID, mb_RoleID = r, mb_IsDefault = True, mb_Deleted = False\<rparr> db))"

definition restore_user ::
    "ax_io \<Rightarrow> string \<Rightarrow> UserRequest \<Rightarrow> string option \<Rightarrow> string \<Rightarrow> bool \<Rightarrow> ax_user \<Rightarrow> ax_user handler" where
  "restore_user io orgID req roleID hashed super old =
     (let u = old\<lparr>xu_Deleted := False, xu_Org := orgID, xu_Hash := hashed, xu_FullName := uq_FullName req,
                  xu_RoleID := roleID, xu_IsActive := True, xu_IsSuperAdmin := super\<rparr> in
      bindE (require (\<not> ax_err io ''restore_user'') 500 ''Failed to create user'') (\<lambda>_.
      bindE (change (\<lambda>db. restore_member io (xu_ID u) orgID roleID (save_user u db))) (\<lambda>_.
      ok u)))"

definition store_user :: "ax_io \<Rightarrow> string \<Rightarrow> UserRequest \<Rightarrow> string option \<Rightarrow> string \<Rightarrow> bool \<Rightarrow> ax_user handler" where
  "store_user io orgID req roleID hashed super =
     bindE (query (try_find io ''deleted_user''
              (\<lambda>db. find (\<lambda>u. xu_Email u = uq_Email req \<and> xu_Deleted u) (xusers db)))) (\<lambda>softDeleted.
     case softDeleted of
       Some old \<Rightarrow> restore_user io orgID req roleID hashed super old
     | None \<Rightarrow>
         (let u = \<lparr>xu_ID = ax_new io 0, xu_Org = orgID, xu_Email = uq_Email req, xu_Hash = hashed,
                   xu_FullName = uq_FullName req, xu_RoleID = roleID, xu_IsActive = True,
                   xu_IsSuperAdmin = super, xu_Deleted = False\<rparr> in
          bindE (query (\<lambda>db. uq_Email req \<in> xu_Email ` set (xusers db))) (\<lambda>taken.
          bindE (require (\<not> taken \<and> \<not> ax_err io ''create_user'') 500 ''Failed to create user'') (\<lambda>_.
          bindE (change (\<lambda>db.
            (let db1 = add_user u db in
             if ax_err io ''create_member'' then db1
             else add_member \<lparr>mb_User = xu_ID u, mb_Org = orgID, mb_RoleID = roleID, mb_IsDefault = True,
                              mb_Deleted = False\<rparr> db1))) (\<lambda>_.
          ok u)))))"

definition CreateUser :: "ax_io \<Rightarrow> ax_ctx \<Rightarrow> UserRequest option \<Rightarrow> ax_user handler" where
  "CreateUser io ctx body =
     bindE (requireAuth io ctx ''users'' ''write'') (\<lambda>(orgID, userID).
     bindE (need body 400 ''Invalid request body'') (\<lambda>req.
     bindE (require (uq_Email req \<noteq> [] \<and> uq_Password req \<noteq> [] \<and> uq_FullName req \<noteq> []) 400
              ''Email, password, and full_name are required'') (\<lambda>_.
     bindE (require (ax_mail io (uq_Email req)) 400 ''Invalid email format'') (\<lambda>_.
     bindE (requested_role io (uq_RoleID req) orgID) (\<lambda>roleID.
     bindE (query (try_find io ''user'' (user_by_email (uq_Email req)))) (\<lambda>existing.
     bindE (require (existing = None) 409 ''Email already exists'') (\<lambda>_.
     bindE (need (ax_hash io (uq_Password req)) 500 ''Failed to create user'') (\<lambda>hashed.
     bindE (requested_super io userID (uq_IsSuperAdmin req)) (\<lambda>super.
     store_user io orgID req roleID hashed super)))))))))"

section \<open>Updating a user\<close>

text \<open>The user, if a live member of the organisation.\<close>

definition user_in_org :: "string \<Rightarrow> string \<Rightarrow> ax_db \<Rightarrow> ax_user option" where
  "user_in_org i orgID db =
     (case live_member i orgID db of None \<Rightarrow> None | Some _ \<Rightarrow> live_user i db)"

definition update_member ::
    "ax_io \<Rightarrow> string \<Rightarrow> ax_user \<Rightarrow> UserRequest \<Rightarrow> ax_user handler" where
  "update_member io orgID user req =
     bindE (need (uq_RoleID req) 400 ''Only role can be updated for organization members'') (\<lambda>r.
     bindE (fetch (try_find io ''role'' (role_of_org r orgID)) 400 ''Invalid role'') (\<lambda>_.
     bindE (require (\<not> ax_err io ''save_member'') 500 ''Failed to update member role'') (\<lambda>_.
     bindE (change (\<lambda>db. InvalidateUserPermissionsCache io (xu_ID user)
              (set_member_role (xu_ID user) orgID (Some r) db))) (\<lambda>_.
     ok (user\<lparr>xu_RoleID := Some r\<rparr>)))))"

definition update_email :: "ax_io \<Rightarrow> UserRequest \<Rightarrow> ax_user \<Rightarrow> ax_user handler" where
  "update_email io req user =
     (if uq_Email req = [] then ok user
      else
        bindE (require (ax_mail io (uq_Email req)) 400 ''Invalid email format'') (\<lambda>_.
        bindE (query (try_find io ''email''
                 (\<lambda>db. find (\<lambda>u. xu_Email u = uq_Email req \<and> xu_ID u \<noteq> xu_ID user \<and> \<not> xu_Deleted u) (xusers db)))) (\<lambda>existing.
        bindE (require (existing = None) 409 ''Email already exists'') (\<lambda>_.
        ok (user\<lparr>xu_Email := uq_Email req\<rparr>)))))"

definition update_password :: "ax_io \<Rightarrow> UserRequest \<Rightarrow> ax_user \<Rightarrow> ax_user handler" where
  "update_password io req user =
     (if uq_Password req = [] then ok user
      else bindE (need (ax_hash io (uq_Password req)) 500 ''Failed to update user'') (\<lambda>h.
           ok (user\<lparr>xu_Hash := h\<rparr>)))"

definition update_role :: "ax_io \<Rightarrow> string \<Rightarrow> bool \<Rightarrow> UserRequest \<Rightarrow> ax_user \<Rightarrow> ax_user handler" where
  "update_role io orgID self req user =
     (case uq_RoleID req of
        None \<Rightarrow> ok user
      | Some r \<Rightarrow>
          bindE (fetch (try_find io ''role'' (role_of_org r orgID)) 400 ''Invalid role'') (\<lambda>newRole.
          bindE (query (\<lambda>db. case xu_RoleID user of None \<Rightarrow> None | Some i \<Rightarrow> role_by_id i db)) (\<lambda>oldRole.
          bindE (require (\<not> (self \<and> map_option ro_Name oldRole = Some ''admin'' \<and> ro_Name newRole \<noteq> ''admin''))
                   400 ''Cannot demote yourself'') (\<lambda>_.
          ok (user\<lparr>xu_RoleID := Some r\<rparr>)))))"

definition update_active :: "bool \<Rightarrow> UserRequest \<Rightarrow> ax_user \<Rightarrow> ax_user handler" where
  "update_active self req user =
     (case uq_IsActive req of
        None \<Rightarrow> ok user
      | Some b \<Rightarrow>
          bindE (require (\<not> (self \<and> \<not> b)) 400 ''Cannot deactivate yourself'') (\<lambda>_.
          ok (user\<lparr>xu_IsActive := b\<rparr>)))"

definition update_super :: "ax_io \<Rightarrow> string \<Rightarrow> UserRequest \<Rightarrow> ax_user \<Rightarrow> ax_user handler" where
  "update_super io currentUserID req user =
     (case uq_IsSuperAdmin req of
        None \<Rightarrow> ok user
      | Some b \<Rightarrow>
          bindE (IsSuperAdmin io currentUserID) (\<lambda>super.
          bindE (require super 403 ''Only super admins can modify super admin status'') (\<lambda>_.
          bindE (require (\<not> (currentUserID = xu_ID user \<and> \<not> b \<and> xu_IsSuperAdmin user)) 400
                   ''Cannot remove your own super admin status'') (\<lambda>_.
          ok (user\<lparr>xu_IsSuperAdmin := b\<rparr>)))))"

definition update_native ::
    "ax_io \<Rightarrow> string \<Rightarrow> string \<Rightarrow> ax_user \<Rightarrow> UserRequest \<Rightarrow> ax_user handler" where
  "update_native io orgID currentUserID user req =
     (let self = (currentUserID = xu_ID user) in
      bindE (update_email io req user) (\<lambda>u1.
      (let u2 = (if uq_FullName req \<noteq> [] then u1\<lparr>xu_FullName := uq_FullName req\<rparr> else u1) in
       bindE (update_password io req u2) (\<lambda>u3.
       bindE (update_role io orgID self req u3) (\<lambda>u4.
       bindE (update_active self req u4) (\<lambda>u5.
       bindE (update_super io currentUserID req u5) (\<lambda>u6.
       bindE (require (\<not> ax_err io ''save_user'') 500 ''Failed to update user'') (\<lambda>_.
       bindE (change (\<lambda>db.
         (let db1 = save_user u6 db in
          if uq_RoleID req \<noteq> None \<and> xu_RoleID user \<noteq> uq_RoleID req then
            InvalidateUserPermissionsCache io (xu_ID user)
              (if ax_err io ''save_member'' then db1
               else set_member_role (xu_ID user) orgID (xu_RoleID u6) db1)
          else db1))) (\<lambda>_.
       ok u6)))))))))"

definition UpdateUser :: "ax_io \<Rightarrow> ax_ctx \<Rightarrow> string \<Rightarrow> UserRequest option \<Rightarrow> ax_user handler" where
  "UpdateUser io ctx pathID body =
     bindE (getOrgID io ctx) (\<lambda>orgID.
     (let currentUserID = (case cx_UserID ctx of None \<Rightarrow> uuid_Nil | Some u \<Rightarrow> u) in
      bindE (need (ax_uuid io pathID) 400 ''Invalid user ID'') (\<lambda>i.
      bindE (if currentUserID = i then ok True else HasPermission io currentUserID ''users'' ''write'' [orgID]) (\<lambda>allowed.
      bindE (require allowed 403 ''Insufficient permissions'') (\<lambda>_.
      bindE (fetch (try_find io ''user'' (user_in_org i orgID)) 404 ''User not found'') (\<lambda>user.
      bindE (need body 400 ''Invalid request body'') (\<lambda>req.
      bindE (if uq_RoleID req = None then ok True else HasPermission io currentUserID ''users'' ''write'' [orgID]) (\<lambda>may.
      bindE (require may 403 ''Insufficient permissions to change roles'') (\<lambda>_.
      if xu_Org user \<noteq> orgID then update_member io orgID user req
      else update_native io orgID currentUserID user req)))))))))"

section \<open>Deleting a user\<close>

text \<open>The account is the only one with the organisation's system role \<open>admin\<close>.\<close>

definition last_admin :: "ax_io \<Rightarrow> string \<Rightarrow> string \<Rightarrow> ax_db \<Rightarrow> bool" where
  "last_admin io i orgID db =
     (case try_find io ''membership'' (live_member i orgID) db of
        None \<Rightarrow> False
      | Some m \<Rightarrow>
          (case (case mb_RoleID m of None \<Rightarrow> None | Some r \<Rightarrow> role_by_id r db) of
             None \<Rightarrow> False
           | Some role \<Rightarrow>
               ro_Name role = ''admin'' \<and>
               (case try_find io ''admin_role''
                   (\<lambda>d. find (\<lambda>r. ro_Org r = orgID \<and> ro_Name r = ''admin'' \<and> ro_IsSystem r) (xroles d)) db of
                  None \<Rightarrow> False
                | Some adminRole \<Rightarrow>
                    (if ax_err io ''count_admins'' then 0
                     else length (filter (\<lambda>x. mb_Org x = orgID \<and> mb_RoleID x = Some (ro_ID adminRole) \<and> \<not> mb_Deleted x)
                            (xmembers db))) \<le> 1)))"

definition delete_account :: "ax_io \<Rightarrow> string \<Rightarrow> ax_db \<Rightarrow> ax_db" where
  "delete_account io i db =
     (let db1 = db\<lparr>xusers := map (\<lambda>u. if xu_ID u = i then u\<lparr>xu_Deleted := True\<rparr> else u) (xusers db)\<rparr> in
      if ax_err io ''delete_members'' then db1
      else db1\<lparr>xmembers := map (\<lambda>m. if mb_User m = i then m\<lparr>mb_Deleted := True\<rparr> else m) (xmembers db1)\<rparr>)"

definition DeleteUser :: "ax_io \<Rightarrow> ax_ctx \<Rightarrow> string \<Rightarrow> string handler" where
  "DeleteUser io ctx pathID =
     bindE (getOrgID io ctx) (\<lambda>orgID.
     (let currentUserID = (case cx_UserID ctx of None \<Rightarrow> uuid_Nil | Some u \<Rightarrow> u) in
      bindE (HasPermission io currentUserID ''users'' ''delete'' [orgID]) (\<lambda>allowed.
      bindE (require allowed 403 ''Insufficient permissions'') (\<lambda>_.
      bindE (need (ax_uuid io pathID) 400 ''Invalid user ID'') (\<lambda>i.
      bindE (require (currentUserID \<noteq> i) 400 ''Cannot delete yourself'') (\<lambda>_.
      bindE (fetch (try_find io ''user'' (user_in_org i orgID)) 404 ''User not found'') (\<lambda>user.
      if xu_Org user \<noteq> orgID then
        bindE (require (\<not> ax_err io ''delete_member'') 500 ''Failed to remove member'') (\<lambda>_.
        bindE (change (\<lambda>db. InvalidateUserPermissionsCache io i (remove_member i orgID db))) (\<lambda>_.
        ok ''Member removed from organization''))
      else
        bindE (query (last_admin io i orgID)) (\<lambda>last.
        bindE (require (\<not> last) 400 ''Cannot delete the last admin'') (\<lambda>_.
        bindE (require (\<not> ax_err io ''delete_user'') 500 ''Failed to delete user'') (\<lambda>_.
        bindE (change (delete_account io i)) (\<lambda>_.
        ok ''User deleted successfully'')))))))))))"

section \<open>The own password\<close>

definition ChangePassword :: "ax_io \<Rightarrow> ax_ctx \<Rightarrow> (string \<times> string) option \<Rightarrow> string handler" where
  "ChangePassword io ctx body =
     bindE (need (cx_UserID ctx) 401 ''Unauthorized'') (\<lambda>userID.
     bindE (fetch (try_find io ''user'' (live_user userID)) 404 ''User not found'') (\<lambda>user.
     bindE (need body 400 ''Invalid request body'') (\<lambda>(current, new).
     bindE (require (current \<noteq> [] \<and> new \<noteq> []) 400 ''Current password and new password are required'') (\<lambda>_.
     bindE (require (6 \<le> length new) 400 ''New password must be at least 6 characters'') (\<lambda>_.
     bindE (require (ax_check io (xu_Hash user) current) 400 ''Current password is incorrect'') (\<lambda>_.
     bindE (need (ax_hash io new) 500 ''Failed to change password'') (\<lambda>hashed.
     bindE (require (\<not> ax_err io ''save_user'') 500 ''Failed to change password'') (\<lambda>_.
     bindE (change (save_user (user\<lparr>xu_Hash := hashed\<rparr>))) (\<lambda>_.
     ok ''Password changed successfully'')))))))))"

section \<open>Members of an organisation\<close>

record AddMemberRequest =
  am_UserID :: string
  am_Email :: string
  am_RoleID :: "string option"

definition AddOrganizationMember :: "ax_io \<Rightarrow> ax_ctx \<Rightarrow> AddMemberRequest option \<Rightarrow> string handler" where
  "AddOrganizationMember io ctx body =
     bindE (requireAuth io ctx ''organizations'' ''assign'') (\<lambda>(orgID, userID).
     bindE (need body 400 ''Invalid request body'') (\<lambda>req.
     bindE (if am_UserID req \<noteq> uuid_Nil then
              fetch (try_find io ''user'' (live_user (am_UserID req))) 404 ''User not found''
            else if am_Email req \<noteq> [] then
              fetch (try_find io ''user'' (user_by_email (am_Email req))) 404 ''No user found with this email''
            else deny 400 ''user_id or email is required'') (\<lambda>target.
     bindE (query (try_find io ''member_count'' (live_member (xu_ID target) orgID))) (\<lambda>member.
     bindE (require (member = None) 409 ''User is already a member of this organization'') (\<lambda>_.
     bindE (requested_role io (am_RoleID req) orgID) (\<lambda>roleID.
     bindE (query (\<lambda>db. live_member (xu_ID target) orgID db \<noteq> None)) (\<lambda>duplicate.
     bindE (require (\<not> duplicate \<and> \<not> ax_err io ''create_member'') 500 ''Failed to add member'') (\<lambda>_.
     bindE (change (add_member \<lparr>mb_User = xu_ID target, mb_Org = orgID, mb_RoleID = roleID,
              mb_IsDefault = False, mb_Deleted = False\<rparr>)) (\<lambda>_.
     ok ''Member added successfully'')))))))))"

definition RemoveOrganizationMember :: "ax_io \<Rightarrow> ax_ctx \<Rightarrow> string \<Rightarrow> string handler" where
  "RemoveOrganizationMember io ctx pathID =
     bindE (requireAuth io ctx ''organizations'' ''assign'') (\<lambda>(orgID, userID).
     bindE (need (ax_uuid io pathID) 400 ''Invalid member ID'') (\<lambda>target.
     bindE (require (target \<noteq> userID) 400 ''Cannot remove yourself from the organization'') (\<lambda>_.
     bindE (require (\<not> ax_err io ''delete_member'') 500 ''Failed to remove member'') (\<lambda>_.
     bindE (fetch (live_member target orgID) 404 ''Member not found in this organization'') (\<lambda>_.
     bindE (change (\<lambda>db. InvalidateUserPermissionsCache io target (remove_member target orgID db))) (\<lambda>_.
     ok ''Member removed successfully''))))))"

definition UpdateOrganizationMemberRole :: "ax_io \<Rightarrow> ax_ctx \<Rightarrow> string \<Rightarrow> string option \<Rightarrow> string handler" where
  "UpdateOrganizationMemberRole io ctx pathID body =
     bindE (requireAuth io ctx ''organizations'' ''assign'') (\<lambda>(orgID, userID).
     bindE (need (ax_uuid io pathID) 400 ''Invalid member ID'') (\<lambda>target.
     bindE (need body 400 ''Invalid request body'') (\<lambda>roleID.
     bindE (require (roleID \<noteq> uuid_Nil) 400 ''role_id is required'') (\<lambda>_.
     bindE (fetch (try_find io ''role'' (role_of_org roleID orgID)) 400 ''Invalid role'') (\<lambda>_.
     bindE (require (\<not> ax_err io ''save_member'') 500 ''Failed to update member role'') (\<lambda>_.
     bindE (fetch (live_member target orgID) 404 ''Member not found in this organization'') (\<lambda>_.
     bindE (change (\<lambda>db. InvalidateUserPermissionsCache io target
              (set_member_role target orgID (Some roleID) db))) (\<lambda>_.
     ok ''Member role updated successfully''))))))))"

end
