(* ===== verification/Access_Steps.thy ===== *)
theory Access_Steps
  imports Users
begin

text \<open>
  Requests as operations of a state machine: every handler that changes accounts, roles, memberships,
  API keys or tokens, with the caller's context, and the checks that fill the cache. A run is a list
  of operations, each with its own surroundings (time, failures, fresh identifiers). Two invariants of
  all runs are here: what nobody but a super admin can change, and what becomes of a consumed
  refresh token.
\<close>

section \<open>Operations\<close>

datatype ax_op =
    OpCheck ax_ctx string string
  | OpLogin "(string \<times> string) option"
  | OpRegister "RegisterRequest option"
  | OpRefresh http_in string
  | OpLogout http_in string
  | OpSwitch ax_ctx "string option"
  | OpCreateRole ax_ctx "RoleRequest option"
  | OpUpdateRole ax_ctx string "RoleRequest option"
  | OpDeleteRole ax_ctx string
  | OpCreateUser ax_ctx "UserRequest option"
  | OpUpdateUser ax_ctx string "UserRequest option"
  | OpDeleteUser ax_ctx string
  | OpPassword ax_ctx "(string \<times> string) option"
  | OpAddMember ax_ctx "AddMemberRequest option"
  | OpRemoveMember ax_ctx string
  | OpMemberRole ax_ctx string "string option"
  | OpCreateKey ax_ctx "(string \<times> string option) option"
  | OpUpdateKey ax_ctx string "bool option option"
  | OpDeleteKey ax_ctx string

text \<open>Whose identity an operation carries; \<open>None\<close> for the public endpoints.\<close>

fun op_context :: "ax_op \<Rightarrow> ax_ctx option" where
  "op_context (OpCheck ctx r a) = Some ctx"
| "op_context (OpSwitch ctx b) = Some ctx"
| "op_context (OpCreateRole ctx b) = Some ctx"
| "op_context (OpUpdateRole ctx p b) = Some ctx"
| "op_context (OpDeleteRole ctx p) = Some ctx"
| "op_context (OpCreateUser ctx b) = Some ctx"
| "op_context (OpUpdateUser ctx p b) = Some ctx"
| "op_context (OpDeleteUser ctx p) = Some ctx"
| "op_context (OpPassword ctx b) = Some ctx"
| "op_context (OpAddMember ctx b) = Some ctx"
| "op_context (OpRemoveMember ctx p) = Some ctx"
| "op_context (OpMemberRole ctx p b) = Some ctx"
| "op_context (OpCreateKey ctx b) = Some ctx"
| "op_context (OpUpdateKey ctx p b) = Some ctx"
| "op_context (OpDeleteKey ctx p) = Some ctx"
| "op_context _ = None"

definition forget :: "'a handler \<Rightarrow> unit handler" where
  "forget m = bindE m (\<lambda>_. ok ())"

fun handle :: "ax_io \<Rightarrow> ax_op \<Rightarrow> unit handler" where
  "handle io (OpCheck ctx r a) = forget (requireAuth io ctx r a)"
| "handle io (OpLogin b) = forget (Login io b)"
| "handle io (OpRegister b) = forget (Register io b)"
| "handle io (OpRefresh req t) = forget (RefreshToken io req t)"
| "handle io (OpLogout req t) = forget (Logout io req t)"
| "handle io (OpSwitch ctx b) = forget (SwitchOrg io ctx b)"
| "handle io (OpCreateRole ctx b) = forget (CreateRole io ctx b)"
| "handle io (OpUpdateRole ctx p b) = forget (UpdateRole io ctx p b)"
| "handle io (OpDeleteRole ctx p) = forget (DeleteRole io ctx p)"
| "handle io (OpCreateUser ctx b) = forget (CreateUser io ctx b)"
| "handle io (OpUpdateUser ctx p b) = forget (UpdateUser io ctx p b)"
| "handle io (OpDeleteUser ctx p) = forget (DeleteUser io ctx p)"
| "handle io (OpPassword ctx b) = forget (ChangePassword io ctx b)"
| "handle io (OpAddMember ctx b) = forget (AddOrganizationMember io ctx b)"
| "handle io (OpRemoveMember ctx p) = forget (RemoveOrganizationMember io ctx p)"
| "handle io (OpMemberRole ctx p b) = forget (UpdateOrganizationMemberRole io ctx p b)"
| "handle io (OpCreateKey ctx b) = forget (CreateAPIKey io ctx b)"
| "handle io (OpUpdateKey ctx p b) = forget (UpdateAPIKey io ctx p b)"
| "handle io (OpDeleteKey ctx p) = forget (DeleteAPIKey io ctx p)"

definition ax_run :: "(ax_io \<times> ax_op) list \<Rightarrow> ax_db \<Rightarrow> ax_db" where
  "ax_run = fold (\<lambda>(io, op) db. snd (handle io op db))"

lemma ax_run_simps [simp]:
  "ax_run [] db = db" "ax_run ((io, op) # steps) db = ax_run steps (snd (handle io op db))"
  by (simp_all add: ax_run_def)

lemma ax_run_invariant:
  assumes "\<And>io op. (io, op) \<in> set steps \<Longrightarrow> keeps P (handle io op)" and "P db"
  shows "P (ax_run steps db)"
  using assms
proof (induction steps arbitrary: db)
  case (Cons s steps)
  obtain io op where s: "s = (io, op)" by fastforce
  with Cons.prems have "P (snd (handle io op db))"
    by (simp add: keepsD)
  with Cons s show ?case
    by simp
qed simp

lemma keeps_forget [keeping]: "keeps P m \<Longrightarrow> keeps P (forget m)"
  unfolding forget_def by (intro keeping)

section \<open>A generic step lemma\<close>

text \<open>
  A property survives every operation if it survives the writes the handlers are made of. The locale
  collects these writes once; an invariant is an interpretation of it. \<open>allowed\<close> says which contexts
  may act, \<open>fresh\<close> which surroundings are considered.
\<close>

locale access_invariant =
  fixes P :: "ax_db \<Rightarrow> bool"
    and vet :: "ax_user \<Rightarrow> bool"
    and usable :: "ax_io \<Rightarrow> bool"
    and acts :: "string \<Rightarrow> bool"
  assumes set_perms: "\<And>io u o' p db. usable io \<Longrightarrow> P db \<Longrightarrow> stored_permissions io u o' db = Some p \<Longrightarrow>
        P (redis_set io (perm_key u o') (CachedPerms p) userPermissionsCacheTTL db)"
    and set_keys: "\<And>io r ks db. usable io \<Longrightarrow> P db \<Longrightarrow>
        P (redis_set io (role_key r) (CachedKeys ks) rolePermissionsCacheTTL db)"
    and set_refresh: "\<And>io u t db. usable io \<Longrightarrow> P db \<Longrightarrow>
        P (redis_set io (refreshTokenKey (ax_new io 0)) (Plain u) t db)"
    and del_keys: "\<And>g db. P db \<Longrightarrow> P (db\<lparr>xredis := (\<lambda>k. if g k then None else xredis db k)\<rparr>)"
    and roles: "\<And>rs db. P db \<Longrightarrow> P (db\<lparr>xroles := rs\<rparr>)"
    and role_perms: "\<And>rp db. P db \<Longrightarrow> P (db\<lparr>xrole_perms := rp\<rparr>)"
    and members: "\<And>ms db. P db \<Longrightarrow> P (db\<lparr>xmembers := ms\<rparr>)"
    and keys: "\<And>aks db. P db \<Longrightarrow> P (db\<lparr>xkeys := aks\<rparr>)"
    and found: "\<And>i u db. P db \<Longrightarrow> live_user i db = Some u \<Longrightarrow> vet u"
    and vetted: "\<And>u v. vet u \<Longrightarrow> xu_ID v = xu_ID u \<Longrightarrow> xu_IsSuperAdmin v = xu_IsSuperAdmin u \<Longrightarrow> vet v"
    and ordinary: "\<And>u. \<not> xu_IsSuperAdmin u \<Longrightarrow> vet u"
    and new_user: "\<And>u db. P db \<Longrightarrow> vet u \<Longrightarrow> P (add_user u db)"
    and put_user: "\<And>u db. P db \<Longrightarrow> vet u \<Longrightarrow> P (save_user u db)"
    and delete_users: "\<And>i db. P db \<Longrightarrow>
        P (db\<lparr>xusers := map (\<lambda>u. if xu_ID u = i then u\<lparr>xu_Deleted := True\<rparr> else u) (xusers db)\<rparr>)"
    and not_super: "\<And>io u db db' v. usable io \<Longrightarrow> acts u \<Longrightarrow> P db \<Longrightarrow>
        IsSuperAdmin io u db = (Inr True, db') \<Longrightarrow> vet v"
begin

lemma perms_kept: "usable io \<Longrightarrow> P db \<Longrightarrow> P (snd (getUserPermissionsCached io u os db))"
  by (auto simp: getUserPermissionsCached_def Let_def split: option.split redis_value.split intro: set_perms)

lemma role_perms_kept: "usable io \<Longrightarrow> P db \<Longrightarrow> P (snd (GetRolePermissionsCached io r db))"
  by (auto simp: GetRolePermissionsCached_def Let_def split: option.split redis_value.split intro: set_keys)

lemma del_kept: "P db \<Longrightarrow> P (snd (redis_del io k db))"
  using del_keys [of db "\<lambda>x. x = k"] by (auto simp: redis_del_def fun_upd_def)

lemma prefix_kept: "P db \<Longrightarrow> P (deleteKeysByPrefix io pre db)"
  using del_keys [of db "prefix pre"] by (simp add: deleteKeysByPrefix_def)

lemma invalidate_user_kept: "P db \<Longrightarrow> P (InvalidateUserPermissionsCache io u db)"
  by (simp add: InvalidateUserPermissionsCache_def prefix_kept del_kept)

lemma invalidate_role_kept: "P db \<Longrightarrow> P (InvalidateRolePermissionsCache io r db)"
proof -
  assume "P db"
  have "P d \<Longrightarrow> P (fold (InvalidateUserPermissionsCache io) us d)" for us d
    by (induction us arbitrary: d) (simp_all add: invalidate_user_kept)
  with \<open>P db\<close> show ?thesis
    by (simp add: InvalidateRolePermissionsCache_def Let_def del_kept)
qed

lemma writes_kept:
  "P db \<Longrightarrow> P (save_role r db)" "P db \<Longrightarrow> P (unset_defaults o' i db)"
  "P db \<Longrightarrow> P (replace_permissions i ps db)" "P db \<Longrightarrow> P (add_member m db)"
  "P db \<Longrightarrow> P (set_member_role u o' ri db)" "P db \<Longrightarrow> P (remove_member u o' db)"
  by (simp_all add: save_role_def unset_defaults_def replace_permissions_def add_member_def
      set_member_role_def remove_member_def roles role_perms members)

lemma insert_role_kept: "P db \<Longrightarrow> P (insert_role r ps db)"
  using role_perms [OF roles] by (simp add: insert_role_def)

lemma checks_keep:
  "usable io \<Longrightarrow> keeps P (HasPermission io u r a os)"
  "usable io \<Longrightarrow> keeps P (IsSuperAdmin io u)"
  using perms_kept [of io _ u os] perms_kept [of io _ u "[]"]
  by (auto simp: keeps_def HasPermission_def IsSuperAdmin_def split: prod.split option.split) (metis snd_conv)+

lemma org_keeps: "usable io \<Longrightarrow> keeps P (getOrgID io ctx)"
  unfolding getOrgID_def Let_def by (intro keeping checks_keep)

lemma auth_keeps:
  "usable io \<Longrightarrow> keeps P (getOrgAndUserID io ctx)" "usable io \<Longrightarrow> keeps P (requireAuth io ctx r a)"
  unfolding getOrgAndUserID_def requireAuth_def by (intro keeping checks_keep org_keeps; assumption)+

lemma issue_keeps: "usable io \<Longrightarrow> keeps P (issue_tokens io (ax_new io 0) u)"
  unfolding issue_tokens_def generateRefreshToken_def by (intro keeping set_refresh)

lemma consume_keeps: "keeps P (consume_jti io jti)"
  using del_kept [of _ io "refreshTokenKey jti"]
  by (auto simp: keeps_def consume_jti_def split: prod.split option.split if_splits) (metis snd_conv)+

end

section \<open>Every operation\<close>

definition actor :: "ax_ctx \<Rightarrow> string" where
  "actor ctx = (case cx_UserID ctx of None \<Rightarrow> uuid_Nil | Some u \<Rightarrow> u)"

definition op_actor :: "ax_op \<Rightarrow> string option" where
  "op_actor op = map_option actor (op_context op)"

context access_invariant
begin

lemma role_handlers_keep:
  assumes "usable io"
  shows "keeps P (CreateRole io ctx b)" "keeps P (UpdateRole io ctx p b)" "keeps P (DeleteRole io ctx p)"
proof -
  note rules = keeping auth_keeps [OF assms]
  have up: "keeps P (update_permissions io w i ks)" for w i ks
    unfolding update_permissions_def by (intro keeping writes_kept)
  show "keeps P (CreateRole io ctx b)"
    unfolding CreateRole_def Let_def by (intro rules insert_role_kept) (simp add: writes_kept)
  show "keeps P (UpdateRole io ctx p b)"
    unfolding UpdateRole_def update_system_role_def update_custom_role_def Let_def
    by (intro rules up invalidate_role_kept writes_kept) (simp_all add: writes_kept)
  show "keeps P (DeleteRole io ctx p)"
    unfolding DeleteRole_def by (intro rules roles)
qed

lemma token_handlers_keep:
  assumes "usable io"
  shows "keeps P (Login io lb)" "keeps P (Register io rb)" "keeps P (RefreshToken io req t)"
    "keeps P (Logout io req t)" "keeps P (SwitchOrg io ctx sb)"
proof -
  note rules = keeping issue_keeps [OF assms] consume_keeps
  show "keeps P (Login io lb)"
    unfolding Login_def using assms by (intro rules) (simp add: role_perms_kept split: option.split)
  show "keeps P (RefreshToken io req t)"
    unfolding RefreshToken_def Let_def by (intro rules)
  show "keeps P (Logout io req t)"
    unfolding Logout_def Let_def by (intro rules) (simp add: del_kept split: option.split)
  show "keeps P (SwitchOrg io ctx sb)"
    unfolding SwitchOrg_def using assms by (intro rules) (simp_all add: role_perms_kept split: option.split)
  show "keeps P (Register io rb)"
    unfolding Register_def join_org_def new_account_def Let_def
    by (intro rules writes_kept new_user ordinary) simp_all
qed

lemma key_handlers_keep:
  assumes "usable io"
  shows "keeps P (CreateAPIKey io ctx cb)" "keeps P (UpdateAPIKey io ctx p ub)" "keeps P (DeleteAPIKey io ctx p)"
proof -
  note rules = keeping auth_keeps [OF assms] keys
  show "keeps P (CreateAPIKey io ctx cb)"
    unfolding CreateAPIKey_def Let_def by (intro rules)
  show "keeps P (UpdateAPIKey io ctx p ub)"
    unfolding UpdateAPIKey_def Let_def by (intro rules)
  show "keeps P (DeleteAPIKey io ctx p)"
    unfolding DeleteAPIKey_def by (intro rules)
qed

lemma member_handlers_keep:
  assumes "usable io"
  shows "keeps P (AddOrganizationMember io ctx ab)" "keeps P (RemoveOrganizationMember io ctx p)"
    "keeps P (UpdateOrganizationMemberRole io ctx p mb)"
proof -
  note rules = keeping auth_keeps [OF assms] invalidate_user_kept writes_kept
  show "keeps P (AddOrganizationMember io ctx ab)"
    unfolding AddOrganizationMember_def requested_role_def by (intro rules)
  show "keeps P (RemoveOrganizationMember io ctx p)"
    unfolding RemoveOrganizationMember_def by (intro rules)
  show "keeps P (UpdateOrganizationMemberRole io ctx p mb)"
    unfolding UpdateOrganizationMemberRole_def by (intro rules)
qed

lemma fetch_user:
  assumes "\<And>u. vet u \<Longrightarrow> keeps P (f u)"
  shows "keeps P (bindE (fetch (try_find io l (live_user i)) c m) f)"
    "keeps P (bindE (fetch (try_find io l (user_in_org i o')) c m) f)"
proof -
  show "keeps P (bindE (fetch (try_find io l (live_user i)) c m) f)"
    by (rule keeps_after [OF yields_fetch [of P _ vet] assms])
      (auto simp: try_find_def intro: found split: if_splits)
  show "keeps P (bindE (fetch (try_find io l (user_in_org i o')) c m) f)"
    by (rule keeps_after [OF yields_fetch [of P _ vet] assms])
      (auto simp: try_find_def user_in_org_def intro: found split: if_splits option.splits)
qed

lemma password_keeps: "keeps P (ChangePassword io ctx pb)"
  unfolding ChangePassword_def
  by (rule keeps_bind [OF keeps_basic(5)], rule fetch_user, intro keeping put_user)
    (auto intro: vetted)

lemma auth_actor: "yields P (requireAuth io ctx r a) (\<lambda>(o', u). u = actor ctx)" if "usable io"
proof -
  have "keeps P (requireAuth io ctx r a)"
    by (rule auth_keeps(2) [OF that])
  moreover have "u = actor ctx" if "requireAuth io ctx r a db = (Inr (o', u), db')" for db o' u db'
    using that by (auto simp: requireAuth_def getOrgAndUserID_def bindE_ok need_ok actor_def)
  ultimately show ?thesis
    unfolding yields_def keeps_def by (metis (mono_tags, lifting) case_prodI2 prod.collapse)
qed

lemma requested_super_vets:
  assumes "usable io" "acts u"
  shows "yields P (requested_super io u flag) (\<lambda>b. b \<longrightarrow> (\<forall>v. vet v))"
proof -
  have "keeps P (requested_super io u flag)"
    unfolding requested_super_def by (intro keeping checks_keep assms)
  moreover have "vet v" if "requested_super io u flag db = (Inr True, db')" "P db" for db db' v
    using that assms not_super
    by (fastforce simp: requested_super_def bindE_ok require_ok split: if_splits)
  ultimately show ?thesis
    unfolding yields_def keeps_def by (metis prod.collapse)
qed

lemma create_user_keeps:
  assumes "usable io" "acts (actor ctx)"
  shows "keeps P (CreateUser io ctx b)"
proof -
  have restore: "P db \<Longrightarrow> P (restore_member io u o' r db)" for u o' r db
    by (auto simp: restore_member_def writes_kept members split: option.split)
  have role: "keeps P (requested_role io w o')" for w o'
    unfolding requested_role_def by (intro keeping)
  have store: "keeps P (store_user io o' req r h super)" if "super \<longrightarrow> (\<forall>v. vet v)" for o' req r h super
    unfolding store_user_def restore_user_def Let_def using that
    by (intro keeping restore put_user) (auto intro!: writes_kept new_user intro: ordinary)
  show ?thesis
    unfolding CreateUser_def
    apply (rule keeps_after [OF auth_actor [OF assms(1)]])
    apply (clarsimp simp only: case_prod_conv split: prod.splits)
    apply (intro keeps_after [OF requested_super_vets [OF assms] store] keeping role)
    apply assumption
    done
qed

lemma update_user_keeps:
  assumes "usable io" "acts (actor ctx)"
  shows "keeps P (UpdateUser io ctx p b)"
proof -
  have steps:
    "vet u \<Longrightarrow> yields P (update_email io req u) vet"
    "vet u \<Longrightarrow> yields P (update_password io req u) vet"
    "vet u \<Longrightarrow> yields P (update_role io o' self req u) vet"
    "vet u \<Longrightarrow> yields P (update_active self req u) vet" for u req o' self
    unfolding update_email_def update_password_def update_role_def update_active_def
    by (auto intro!: yields_pass keeping yields_ok split: option.split intro: vetted)
  have super: "yields P (update_super io (actor ctx) req u) vet" if "vet u" for u req
  proof -
    have "keeps P (update_super io (actor ctx) req u)"
      unfolding update_super_def by (intro keeping checks_keep assms)
    moreover have "vet v" if "update_super io (actor ctx) req u db = (Inr v, db')" "P db" for db db' v
      using that \<open>vet u\<close> not_super [OF assms]
      by (auto simp: update_super_def bindE_ok require_ok split: option.splits)
    ultimately show ?thesis
      unfolding yields_def keeps_def by (metis prod.collapse)
  qed
  have native: "keeps P (update_native io o' (actor ctx) u req)" if "vet u" for o' u req
    unfolding update_native_def Let_def
    apply (rule keeps_after [OF steps(1) [OF that]])
    apply (rule keeps_after [OF steps(2)], force intro: vetted)
    apply (rule keeps_after [OF steps(3)], assumption)
    apply (rule keeps_after [OF steps(4)], assumption)
    apply (rule keeps_after [OF super], assumption)
    apply (intro keeping)
    apply (auto intro!: invalidate_user_kept writes_kept put_user)
    done
  have member: "keeps P (update_member io o' u req)" for o' u req
    unfolding update_member_def by (intro keeping invalidate_user_kept writes_kept)
  show ?thesis
    unfolding UpdateUser_def Let_def actor_def [symmetric]
    by (intro fetch_user keeping org_keeps checks_keep assms member native)
qed

lemma delete_user_keeps:
  assumes "usable io"
  shows "keeps P (DeleteUser io ctx p)"
proof -
  have "P db \<Longrightarrow> P (delete_account io i db)" for i db
    using members [OF delete_users [of db i]] delete_users [of db i]
    by (simp add: delete_account_def Let_def)
  then show ?thesis
    unfolding DeleteUser_def Let_def
    by (intro keeping org_keeps checks_keep assms invalidate_user_kept writes_kept)
qed

text \<open>Every operation keeps the invariant.\<close>

lemma step_keeps:
  assumes "usable io" "\<And>u. op_actor op = Some u \<Longrightarrow> acts u"
  shows "keeps P (handle io op)"
  using assms
  by (cases op)
    (auto simp: op_actor_def intro!: keeps_forget auth_keeps role_handlers_keep token_handlers_keep
      key_handlers_keep member_handlers_keep password_keeps create_user_keeps update_user_keeps delete_user_keeps)

lemma run_keeps:
  assumes "P db" "\<And>io op. (io, op) \<in> set steps \<Longrightarrow> usable io"
    and "\<And>io op u. (io, op) \<in> set steps \<Longrightarrow> op_actor op = Some u \<Longrightarrow> acts u"
  shows "P (ax_run steps db)"
  by (rule ax_run_invariant [OF step_keeps assms(1)]) (use assms in blast)+

end

end
