(* ===== verification/Access_Demo.thy ===== *)
theory Access_Demo
  imports Access_Steps
begin

text \<open>
  A small instance for the witnesses: two organisations; \<open>ann\<close> is an agent and \<open>root\<close> a super admin
  of the first one, \<open>max\<close> its administrator, \<open>bob\<close> is an administrator at home in the second and a
  plain member of the first. The library parameters are concrete functions.
\<close>

definition demo_claims :: "string \<Rightarrow> string \<Rightarrow> JWTClaims" where
  "demo_claims u jti =
     \<lparr>cl_UserID = u, cl_Org = ''o1'', cl_Email = [], cl_RoleID = None, cl_IsSuperAdmin = False, cl_ID = jti,
      cl_Subject = [], cl_ExpiresAt = 5000, cl_IssuedAt = 0\<rparr>"

definition demo_parse :: "int \<Rightarrow> string \<Rightarrow> JWTClaims option" where
  "demo_parse now tok =
     (if 5000 \<le> now then None
      else if tok = ''refresh-ann'' then Some (demo_claims ''ann'' ''j1'')
      else if tok = ''access-ann'' then Some (demo_claims ''ann'' [])
      else None)"

definition demo_at :: "int \<Rightarrow> ax_io" where
  "demo_at t =
     \<lparr>ax_now = t, ax_err = (\<lambda>_. False), ax_new = (\<lambda>n. if n = 0 then ''n0'' else ''n1''), ax_uuid = Some,
      ax_hash = (\<lambda>p. Some (CHR ''#'' # p)), ax_check = (\<lambda>h p. h = CHR ''#'' # p), ax_mail = (\<lambda>_. True),
      ax_date = (\<lambda>_. None), ax_sign = (\<lambda>c. Some (cl_UserID c @ ''/'' @ cl_ID c)), ax_parse = demo_parse,
      ax_claims = demo_parse 0, ax_rand = Some ''key'', ax_AccessExpiryMins = 15, ax_RefreshExpiryDays = 7\<rparr>"

definition demo_user :: "string \<Rightarrow> string \<Rightarrow> string \<Rightarrow> bool \<Rightarrow> ax_user" where
  "demo_user i o' r super =
     \<lparr>xu_ID = i, xu_Org = o', xu_Email = i @ ''@x'', xu_Hash = ''#pw'', xu_FullName = i, xu_RoleID = Some r,
      xu_IsActive = True, xu_IsSuperAdmin = super, xu_Deleted = False\<rparr>"

definition demo_member :: "string \<Rightarrow> string \<Rightarrow> string \<Rightarrow> membership" where
  "demo_member u o' r =
     \<lparr>mb_User = u, mb_Org = o', mb_RoleID = Some r, mb_IsDefault = True, mb_Deleted = False\<rparr>"

definition demo_role :: "string \<Rightarrow> string \<Rightarrow> string \<Rightarrow> bool \<Rightarrow> role_row" where
  "demo_role i o' name def =
     \<lparr>ro_ID = i, ro_Org = o', ro_Name = name, ro_Description = [], ro_IsSystem = False, ro_IsDefault = def\<rparr>"

definition demo_ax :: ax_db where
  "demo_ax =
     \<lparr>xusers = [demo_user ''ann'' ''o1'' ''r2'' False, demo_user ''root'' ''o1'' ''r1'' True,
                demo_user ''max'' ''o1'' ''r1'' False, demo_user ''bob'' ''o2'' ''r3'' False],
      xorgs = [''o1'', ''o2''],
      xmembers = [demo_member ''ann'' ''o1'' ''r2'', demo_member ''root'' ''o1'' ''r1'',
                  demo_member ''max'' ''o1'' ''r1'', demo_member ''bob'' ''o2'' ''r3'',
                  demo_member ''bob'' ''o1'' ''r2''],
      xroles = [demo_role ''r1'' ''o1'' ''boss'' False, demo_role ''r2'' ''o1'' ''agent'' True,
                demo_role ''r3'' ''o2'' ''boss'' False],
      xperms = [\<lparr>pm_ID = ''p1'', pm_Resource = ''users'', pm_Action = ''write''\<rparr>,
                \<lparr>pm_ID = ''p2'', pm_Resource = ''organizations'', pm_Action = ''assign''\<rparr>],
      xrole_perms = [(''r1'', ''p1''), (''r1'', ''p2''), (''r3'', ''p1'')],
      xkeys = [], xredis = (\<lambda>k. None)\<rparr>"

definition demo_ctx :: "string \<Rightarrow> ax_ctx" where
  "demo_ctx u = \<lparr>cx_UserID = Some u, cx_Org = Some ''o1'', cx_IsSuperAdmin = False, cx_OrgHeader = []\<rparr>"

definition demo_request :: "string \<Rightarrow> string \<Rightarrow> (string \<times> string) list \<Rightarrow> http_in" where
  "demo_request m path cookies =
     \<lparr>hi_Method = m, hi_Path = path, hi_Authorization = [], hi_APIKey = [], hi_OrgHeader = [],
      hi_CSRFHeader = ''c'', hi_Cookies = cookies\<rparr>"

lemmas demo_ax_defs = demo_claims_def demo_parse_def demo_at_def demo_user_def demo_member_def demo_role_def
  demo_ax_def demo_ctx_def demo_request_def

lemma demo_healthy: "ax_err (demo_at t) l = False"
  by (simp add: demo_at_def)

end
