(* ===== verification/Access_Properties.thy ===== *)
theory Access_Properties
  imports Access_Demo
begin

text \<open>
  Three invariants of every run of account, role, member and token operations, as interpretations of
  \<open>access_invariant\<close>: the super admins are a closed group, a consumed refresh token stays consumed, and
  no cached permission outlives ten minutes.
\<close>

section \<open>Super admins\<close>

text \<open>All live super admins are in the group \<open>S\<close>, and so are all users cached as super admins.\<close>

definition supers :: "string set \<Rightarrow> ax_db \<Rightarrow> bool" where
  "supers S db \<longleftrightarrow>
     (\<forall>u \<in> set (xusers db). xu_IsSuperAdmin u \<and> \<not> xu_Deleted u \<longrightarrow> xu_ID u \<in> S) \<and>
     (\<forall>k p e. xredis db k = Some (CachedPerms p, e) \<longrightarrow> up_IsSuperAdmin p \<longrightarrow>
        (\<exists>u \<in> S. \<exists>o'. k = perm_key u o'))"

definition plain_id :: "string \<Rightarrow> bool" where
  "plain_id u \<longleftrightarrow> CHR '':'' \<notin> set u"

lemma key_strings: "perm_key u o' \<noteq> refreshTokenKey j" "perm_key u o' \<noteq> role_key r" "role_key r \<noteq> refreshTokenKey j"
  by (simp_all add: perm_key_def user_key_def role_key_def refreshTokenKey_def split: option.split)

lemma perm_key_user:
  assumes "perm_key u o' = perm_key v None" "plain_id v"
  shows "u = v"
  using assms by (auto simp: perm_key_def user_key_def plain_id_def split: option.splits)

lemma perm_key_inj:
  assumes "perm_key u o1 = perm_key v o2" "plain_id u" "plain_id v"
  shows "u = v \<and> o1 = o2"
proof (cases o1)
  case None
  with assms show ?thesis
    by (cases o2) (auto simp: perm_key_def user_key_def plain_id_def)
next
  case (Some a)
  show ?thesis
  proof (cases o2)
    case None
    with Some assms show ?thesis
      by (auto simp: perm_key_def user_key_def plain_id_def)
  next
    case (Some b)
    with \<open>o1 = Some a\<close> assms(1) have eq: "u @ CHR '':'' # a = v @ CHR '':'' # b"
      by (simp add: perm_key_def user_key_def)
    have "takeWhile (\<lambda>c. c \<noteq> CHR '':'') (u @ CHR '':'' # a) = u"
      "takeWhile (\<lambda>c. c \<noteq> CHR '':'') (v @ CHR '':'' # b) = v"
      using assms(2,3) by (subst takeWhile_append2; auto simp: plain_id_def)+
    with eq have "u = v" by metis
    with eq Some \<open>o1 = Some a\<close> show ?thesis by simp
  qed
qed

lemma find_user: "live_user i db = Some u \<Longrightarrow> u \<in> set (xusers db) \<and> xu_ID u = i \<and> \<not> xu_Deleted u"
  unfolding live_user_def by (auto simp: find_Some_iff)

lemma stored_super:
  assumes "stored_permissions io u o' db = Some p" "up_IsSuperAdmin p"
  obtains v where "v \<in> set (xusers db)" "xu_ID v = u" "\<not> xu_Deleted v" "xu_IsSuperAdmin v"
proof -
  from assms obtain v where "live_user u db = Some v" "xu_IsSuperAdmin v"
    by (auto simp: stored_permissions_def try_find_def split: option.splits if_splits)
  with find_user that show thesis by blast
qed

lemma super_check:
  assumes "supers S db" "IsSuperAdmin io u db = (Inr True, db')" "plain_id u"
  shows "u \<in> S"
proof -
  have stored: "u \<in> S" if "stored_permissions io u None db = Some p" "up_IsSuperAdmin p" for p
    using stored_super [OF that] assms(1) by (metis supers_def)
  show ?thesis
  proof (cases "redis_get io (perm_key u None) db")
    case (Some v)
    show ?thesis
    proof (cases v)
      case (CachedPerms p)
      with Some assms(2) have "up_IsSuperAdmin p"
        by (simp add: IsSuperAdmin_def getUserPermissionsCached_def org_arg_def)
      moreover from Some CachedPerms obtain e where "xredis db (perm_key u None) = Some (CachedPerms p, e)"
        by (auto simp: redis_get_def split: if_splits option.splits)
      ultimately obtain w o' where "w \<in> S" "perm_key u None = perm_key w o'"
        using assms(1) unfolding supers_def by blast
      with perm_key_user [of w o' u] assms(3) show ?thesis by simp
    qed (use Some assms(2) stored in \<open>auto simp: IsSuperAdmin_def getUserPermissionsCached_def org_arg_def Let_def
          split: option.splits\<close>)
  qed (use assms(2) stored in \<open>auto simp: IsSuperAdmin_def getUserPermissionsCached_def org_arg_def Let_def
        split: option.splits\<close>)
qed

lemma supers_put:
  assumes "supers S db" "xu_IsSuperAdmin u \<longrightarrow> xu_ID u \<in> S"
  shows "supers S (save_user u db)" "supers S (add_user u db)"
  using assms by (auto simp: supers_def save_user_def add_user_def update_by_def)

interpretation closed_group:
  access_invariant "supers S" "\<lambda>u. xu_IsSuperAdmin u \<longrightarrow> xu_ID u \<in> S" "\<lambda>_. True" "\<lambda>u. plain_id u \<and> u \<notin> S" for S
proof (unfold_locales, goal_cases)
  case (1 io u o' p db)
  then show ?case
    by (auto simp: supers_def redis_set_def elim: stored_super)
next
  case (2 io r ks db)
  then show ?case
    by (auto simp: supers_def redis_set_def)
next
  case (3 io u t db)
  then show ?case
    by (auto simp: supers_def redis_set_def)
next
  case (9 i u db)
  then show ?case
    using find_user by (metis supers_def)
next
  case (12 u db)
  then show ?case by (rule supers_put)
next
  case (13 u db)
  then show ?case by (rule supers_put)
next
  case (15 io u db db' v)
  then show ?case
    using super_check by blast
qed (auto simp: supers_def)

text \<open>
  C4. Nobody outside the group of super admins can create a super admin: after any sequence of
  registrations, logins, refreshes, organisation switches and role, user, member, password and API-key
  operations, in which whoever acts with an identity is not in the group, every live super admin is
  still in the group. Public endpoints are in the sequence as well.
\<close>
theorem super_admins_closed:
  assumes "supers S db"
    and "\<And>io op u. (io, op) \<in> set steps \<Longrightarrow> op_actor op = Some u \<Longrightarrow> plain_id u \<and> u \<notin> S"
    and "u \<in> set (xusers (ax_run steps db))" "xu_IsSuperAdmin u" "\<not> xu_Deleted u"
  shows "xu_ID u \<in> S"
proof -
  have "supers S (ax_run steps db)"
    using assms(1,2) by (intro closed_group.run_keeps) auto
  with assms(3-5) show ?thesis
    by (auto simp: supers_def)
qed

text \<open>An administrator's attempt to create a super admin ends with a refusal.\<close>

definition demo_super_request :: UserRequest where
  "demo_super_request = \<lparr>uq_Email = ''e'', uq_Password = ''p'', uq_FullName = ''n'', uq_RoleID = None,
     uq_IsActive = None, uq_IsSuperAdmin = Some True\<rparr>"

definition demo_steps :: "(ax_io \<times> ax_op) list" where
  "demo_steps = [(demo_at 1, OpCreateUser (demo_ctx ''max'') (Some demo_super_request))]"

lemma demo_supers: "supers {''root''} demo_ax"
  by (simp add: supers_def demo_ax_def demo_user_def)

lemma super_admins_closed_witness:
  "fst (CreateUser (demo_at 1) (demo_ctx ''max'') (Some demo_super_request) demo_ax)
     = Inl (403, ''Only super admins can create super admins'') \<and>
   xu_ID ` set (filter (\<lambda>u. xu_IsSuperAdmin u \<and> \<not> xu_Deleted u) (xusers (ax_run demo_steps demo_ax))) \<subseteq> {''root''}"
proof
  show "fst (CreateUser (demo_at 1) (demo_ctx ''max'') (Some demo_super_request) demo_ax)
     = Inl (403, ''Only super admins can create super admins'')"
    by code_simp
  have acts: "plain_id u \<and> u \<notin> {''root''}" if "(io, op) \<in> set demo_steps" "op_actor op = Some u" for io op u
    using that by (auto simp: demo_steps_def op_actor_def actor_def demo_ctx_def plain_id_def)
  have "xu_ID u \<in> {''root''}"
    if "u \<in> set (xusers (ax_run demo_steps demo_ax))" "xu_IsSuperAdmin u" "\<not> xu_Deleted u" for u
    by (rule super_admins_closed [OF demo_supers _ that]) (use acts in blast)
  then show "xu_ID ` set (filter (\<lambda>u. xu_IsSuperAdmin u \<and> \<not> xu_Deleted u) (xusers (ax_run demo_steps demo_ax))) \<subseteq> {''root''}"
    by auto
qed

section \<open>Refresh tokens\<close>

interpretation consumed:
  access_invariant "\<lambda>db. xredis db (refreshTokenKey jti) = None" "\<lambda>_. True" "\<lambda>io. ax_new io 0 \<noteq> jti" "\<lambda>_. True" for jti
  by unfold_locales
    (auto simp: redis_set_def key_strings key_strings [symmetric] add_user_def save_user_def refreshTokenKey_def
      perm_key_def user_key_def role_key_def split: option.splits)

lemma consume_ok:
  assumes "consume_jti io jti db = (Inr (), db1)" "jti \<noteq> []"
  shows "xredis db1 (refreshTokenKey jti) = None"
  using assms by (auto simp: consume_jti_def redis_del_def split: if_splits prod.splits option.splits)

text \<open>
  C9. A refresh token with an identifier works once: after it was exchanged for a new session, no
  sequence of operations makes it work again, at any later time, even if the deletion is answered by an
  error or the cookie is replayed with another header. The only assumption is that fresh
  identifiers do not repeat the old one.
\<close>
theorem refresh_token_single_use:
  assumes "ax_parse io (ax_now io) (presented_token req body) = Some c" "cl_ID c = jti" "jti \<noteq> []"
    and "RefreshToken io req body db = (Inr s, db1)"
    and "ax_new io 0 \<noteq> jti" "\<And>io' op. (io', op) \<in> set steps \<Longrightarrow> ax_new io' 0 \<noteq> jti"
    and "ax_parse io2 (ax_now io2) (presented_token req2 body2) = Some c2" "cl_ID c2 = jti"
    and "presented_token req2 body2 \<noteq> []"
  shows "fst (RefreshToken io2 req2 body2 (ax_run steps db1)) = Inl (401, ''Refresh token has been revoked'')"
proof -
  obtain db2 where c: "consume_jti io jti db = (Inr (), db2)"
    and later: "xredis db2 (refreshTokenKey jti) = None \<Longrightarrow> xredis db1 (refreshTokenKey jti) = None"
  proof -
    from assms(4) obtain db2 u where c: "consume_jti io jti db = (Inr (), db2)"
      and i: "issue_tokens io (ax_new io 0) u db2 = (Inr s, db1)"
      using assms(1,2) by (auto simp: RefreshToken_def Let_def bindE_ok require_ok need_ok fetch_ok)
    with keepsD [OF consumed.issue_keeps [OF assms(5)]] show thesis
      by (intro that [OF c]) (metis snd_conv)
  qed
  have "xredis db1 (refreshTokenKey jti) = None"
    by (rule later, rule consume_ok [OF c assms(3)])
  then have "xredis (ax_run steps db1) (refreshTokenKey jti) = None"
    using assms(6) by (rule consumed.run_keeps) auto
  with assms(3,7,8,9) show ?thesis
    by (simp add: RefreshToken_def Let_def bindE_def consume_jti_def redis_del_def)
qed

definition demo_session_db :: ax_db where
  "demo_session_db = demo_ax\<lparr>xredis := [refreshTokenKey ''j1'' \<mapsto> (Plain ''ann'', 5000)]\<rparr>"

lemma refresh_token_single_use_witness:
  "\<exists>s db1. RefreshToken (demo_at 1) (demo_request ''POST'' ''/api/auth/refresh'' []) ''refresh-ann'' demo_session_db = (Inr s, db1) \<and>
     fst (RefreshToken (demo_at 3) (demo_request ''POST'' ''/api/auth/refresh'' []) ''refresh-ann''
       (ax_run [(demo_at 2, OpLogin (Some (''ann@x'', ''pw'')))] db1)) = Inl (401, ''Refresh token has been revoked'')"
proof -
  let ?r = "RefreshToken (demo_at 1) (demo_request ''POST'' ''/api/auth/refresh'' []) ''refresh-ann'' demo_session_db"
  have "\<not> Option.is_none (case fst ?r of Inl e \<Rightarrow> None | Inr s \<Rightarrow> Some s)"
    by code_simp
  then obtain s where "fst ?r = Inr s"
    by (auto split: sum.splits)
  then have r: "?r = (Inr s, snd ?r)"
    by (metis prod.collapse)
  have "fst (RefreshToken (demo_at 3) (demo_request ''POST'' ''/api/auth/refresh'' []) ''refresh-ann''
       (ax_run [(demo_at 2, OpLogin (Some (''ann@x'', ''pw'')))] (snd ?r))) = Inl (401, ''Refresh token has been revoked'')"
    by (rule refresh_token_single_use [where c = "demo_claims ''ann'' ''j1''" and ?c2.0 = "demo_claims ''ann'' ''j1''"
          and jti = "''j1''", OF _ _ _ r])
      (auto simp: demo_ax_defs presented_token_def cookie_of_def)
  with r show ?thesis by blast
qed

section \<open>The age of cached permissions\<close>

definition cached_until :: "int \<Rightarrow> ax_db \<Rightarrow> bool" where
  "cached_until t db \<longleftrightarrow> (\<forall>k p e. xredis db k = Some (CachedPerms p, e) \<longrightarrow> e \<le> t + userPermissionsCacheTTL)"

interpretation ageing:
  access_invariant "cached_until t" "\<lambda>_. True" "\<lambda>io. ax_now io \<le> t" "\<lambda>_. True" for t
  by unfold_locales (auto simp: cached_until_def redis_set_def add_user_def save_user_def)

text \<open>
  C36. Whatever was changed, and by whatever handler, however many of them forgot to invalidate the
  cache: ten minutes after the last operation every permission check is answered from the tables.
\<close>
theorem permissions_current_after_ttl:
  assumes "cached_until t db" "\<And>io op. (io, op) \<in> set steps \<Longrightarrow> ax_now io \<le> t"
    and "t + 600 \<le> ax_now io"
  shows "fst (HasPermission io u r a [o'] (ax_run steps db)) =
    Inr (case stored_permissions io u (org_arg [o']) (ax_run steps db) of None \<Rightarrow> False | Some p \<Rightarrow> allows p r a)"
proof -
  have "cached_until t (ax_run steps db)"
    using assms(1,2) by (rule ageing.run_keeps) auto
  with assms(3) have "redis_get io k (ax_run steps db) \<noteq> Some (CachedPerms p)" for k p
    by (fastforce simp: cached_until_def redis_get_def userPermissionsCacheTTL_def split: if_splits option.splits)
  then show ?thesis
    by (auto simp: HasPermission_def getUserPermissionsCached_def Let_def split: option.splits redis_value.splits)
qed

lemma permissions_current_after_ttl_witness:
  "fst (HasPermission (demo_at 700) ''ann'' ''users'' ''write'' [''o1'']
     (ax_run [(demo_at 100, OpDeleteRole (demo_ctx ''max'') ''r1'')] demo_ax)) = Inr False"
proof -
  let ?d = "ax_run [(demo_at 100, OpDeleteRole (demo_ctx ''max'') ''r1'')] demo_ax"
  have "fst (HasPermission (demo_at 700) ''ann'' ''users'' ''write'' [''o1''] ?d) =
    Inr (case stored_permissions (demo_at 700) ''ann'' (org_arg [''o1'']) ?d of None \<Rightarrow> False | Some p \<Rightarrow> allows p ''users'' ''write'')"
    by (rule permissions_current_after_ttl [of 100]) (auto simp: cached_until_def demo_ax_defs)
  also have "(case stored_permissions (demo_at 700) ''ann'' (org_arg [''o1'']) ?d of None \<Rightarrow> False | Some p \<Rightarrow> allows p ''users'' ''write'') = False"
    by code_simp
  finally show ?thesis .
qed

end
