(* ===== verification/Access_Cache.thy ===== *)
theory Access_Cache
  imports Access_Properties
begin

text \<open>
  What a permission check promises, as a specification on the tables alone (\<open>may\<close>), and the cache as an
  implementation of it: when the cache is coherent with the tables a check gives the specified answer,
  and the operations that change roles and memberships leave it coherent. (\<open>DeleteRole\<close>, the deletion
  of an account and a change of the super admin flag do not invalidate anything; for these only the
  ten-minute bound holds.)
\<close>

section \<open>Specification\<close>

definition effective_role :: "ax_user \<Rightarrow> string option \<Rightarrow> ax_db \<Rightarrow> string option" where
  "effective_role user orgID db =
     (case orgID of
        None \<Rightarrow> xu_RoleID user
      | Some o' \<Rightarrow>
          (case live_member (xu_ID user) o' db of
             Some m \<Rightarrow> (case mb_RoleID m of None \<Rightarrow> xu_RoleID user | Some r \<Rightarrow> Some r)
           | None \<Rightarrow> xu_RoleID user))"

definition true_permissions :: "string \<Rightarrow> string option \<Rightarrow> ax_db \<Rightarrow> UserPermissions option" where
  "true_permissions userID orgID db =
     (case live_user userID db of
        None \<Rightarrow> None
      | Some user \<Rightarrow>
          (case effective_role user orgID db of
             None \<Rightarrow> None
           | Some r \<Rightarrow>
               (case role_by_id r db of
                  None \<Rightarrow> None
                | Some role \<Rightarrow>
                    Some \<lparr>up_RoleID = ro_ID role, up_RoleName = ro_Name role, up_IsSystem = ro_IsSystem role,
                          up_IsSuperAdmin = xu_IsSuperAdmin user,
                          up_Permissions = map perm_string (loadRolePermissions r db)\<rparr>)))"

text \<open>May the user do this in the organisation?\<close>

definition may :: "string \<Rightarrow> string \<Rightarrow> string \<Rightarrow> string \<Rightarrow> ax_db \<Rightarrow> bool" where
  "may userID resource action orgID db =
     (case true_permissions userID (org_arg [orgID]) db of
        None \<Rightarrow> False
      | Some p \<Rightarrow> allows p resource action)"

definition coherent :: "ax_db \<Rightarrow> bool" where
  "coherent db \<longleftrightarrow>
     (\<forall>u o' p e. plain_id u \<longrightarrow> xredis db (perm_key u o') = Some (CachedPerms p, e) \<longrightarrow>
        true_permissions u o' db = Some p)"

definition healthy_io :: "ax_io \<Rightarrow> bool" where
  "healthy_io io \<longleftrightarrow> (\<forall>l. \<not> ax_err io l)"

section \<open>A coherent cache gives the specified answers\<close>

lemma stored_true: "healthy_io io \<Longrightarrow> stored_permissions io u o' db = true_permissions u o' db"
  by (simp add: stored_permissions_def true_permissions_def role_in_def effective_role_def try_find_def
      healthy_io_def split: option.split)

lemma true_permissions_tables:
  assumes "tables db = tables db'"
  shows "true_permissions u o' db = true_permissions u o' db'"
  using table_selectors [OF assms]
  by (simp add: true_permissions_def effective_role_def live_user_def live_member_def role_by_id_def
      loadRolePermissions_def cong: option.case_cong)

lemma check_answers:
  assumes "coherent db" "healthy_io io" "plain_id u"
  shows "fst (HasPermission io u r a [o'] db) = Inr (may u r a o' db)"
proof -
  let ?k = "perm_key u (org_arg [o'])"
  have "fst (getUserPermissionsCached io u [o'] db) = true_permissions u (org_arg [o']) db"
  proof (cases "redis_get io ?k db")
    case None
    then show ?thesis
      by (simp add: getUserPermissionsCached_def stored_true assms(2) Let_def split: option.split)
  next
    case (Some v)
    show ?thesis
    proof (cases v)
      case (CachedPerms p)
      with Some obtain e where "xredis db ?k = Some (CachedPerms p, e)"
        by (auto simp: redis_get_def split: if_splits option.splits)
      with assms have "true_permissions u (org_arg [o']) db = Some p"
        unfolding coherent_def by blast
      with Some CachedPerms show ?thesis
        by (simp add: getUserPermissionsCached_def)
    qed (use Some in \<open>simp_all add: getUserPermissionsCached_def stored_true assms(2) Let_def split: option.split\<close>)
  qed
  then show ?thesis
    by (auto simp: HasPermission_def may_def split: prod.split option.split)
qed

section \<open>Invalidation restores coherence\<close>

lemma redis_invalidate:
  assumes "healthy_io io" "plain_id u" "plain_id v"
  shows "xredis (InvalidateUserPermissionsCache io u db) (perm_key v o') =
    (if u = v then None else xredis db (perm_key v o'))"
proof -
  have 1: "perm_key v o' = user_key u \<longleftrightarrow> u = v \<and> o' = None"
    using perm_key_inj [of v o' u None] assms by (auto simp: perm_key_def)
  have 2: "prefix (user_key u @ '':'') (perm_key v o') \<longleftrightarrow> u = v \<and> o' \<noteq> None"
  proof
    assume "prefix (user_key u @ '':'') (perm_key v o')"
    then obtain x where "perm_key v o' = perm_key u (Some x)"
      by (auto simp: prefix_def perm_key_def [of u])
    with perm_key_inj [of v o' u "Some x"] assms show "u = v \<and> o' \<noteq> None" by simp
  qed (auto simp: perm_key_def prefix_def)
  show ?thesis
    using assms(1) 1 2
    by (auto simp: InvalidateUserPermissionsCache_def deleteKeysByPrefix_def redis_del_def healthy_io_def)
qed

lemma redis_invalidate_all:
  assumes "healthy_io io" "\<forall>u \<in> set us. plain_id u" "plain_id v"
  shows "xredis (fold (InvalidateUserPermissionsCache io) us db) (perm_key v o') =
    (if v \<in> set us then None else xredis db (perm_key v o'))"
  using assms(2) by (induction us arbitrary: db) (auto simp: redis_invalidate assms(1,3))

lemma tables_invalidate_all: "tables (fold (InvalidateUserPermissionsCache io) us db) = tables db"
  by (induction us arbitrary: db) simp_all

text \<open>After a change that concerns the users \<open>us\<close> only, dropping their entries is enough.\<close>

lemma coherent_after:
  assumes "coherent db" "healthy_io io" "\<forall>u \<in> set us. plain_id u"
    and "\<And>u o'. plain_id u \<Longrightarrow> xredis db2 (perm_key u o') = xredis db (perm_key u o')"
    and "\<And>u o' p. plain_id u \<Longrightarrow> u \<notin> set us \<Longrightarrow> true_permissions u o' db = Some p \<Longrightarrow>
        true_permissions u o' db2 = Some p"
  shows "coherent (fold (InvalidateUserPermissionsCache io) us db2)"
  unfolding coherent_def
proof (intro allI impI)
  fix u o' p e
  assume pl: "plain_id u"
    and "xredis (fold (InvalidateUserPermissionsCache io) us db2) (perm_key u o') = Some (CachedPerms p, e)"
  then have nu: "u \<notin> set us" and r: "xredis db (perm_key u o') = Some (CachedPerms p, e)"
    using redis_invalidate_all [OF assms(2,3) pl, of db2 o'] assms(4) by (auto split: if_splits)
  with assms(1) pl have "true_permissions u o' db = Some p"
    unfolding coherent_def by blast
  with assms(5) pl nu have "true_permissions u o' db2 = Some p" by blast
  then show "true_permissions u o' (fold (InvalidateUserPermissionsCache io) us db2) = Some p"
    using true_permissions_tables [OF tables_invalidate_all] by metis
qed

text \<open>The invariant: a coherent cache, and identifiers that are uuids.\<close>

definition cache_inv :: "ax_db \<Rightarrow> bool" where
  "cache_inv db \<longleftrightarrow> coherent db \<and> (\<forall>u \<in> set (xusers db). plain_id (xu_ID u)) \<and>
     (\<forall>m \<in> set (xmembers db). plain_id (mb_User m))"

lemma coherent_set:
  assumes "cache_inv db" "healthy_io io" "stored_permissions io u o1 db = Some p"
  shows "coherent (redis_set io (perm_key u o1) (CachedPerms p) t db)"
  unfolding coherent_def
proof (intro allI impI)
  fix v o' q e
  assume pl: "plain_id v"
    and "xredis (redis_set io (perm_key u o1) (CachedPerms p) t db) (perm_key v o') = Some (CachedPerms q, e)"
  then have "xredis db (perm_key v o') = Some (CachedPerms q, e) \<or> (perm_key v o' = perm_key u o1 \<and> q = p)"
    by (auto simp: redis_set_def split: if_splits)
  moreover have "true_permissions v o' db = Some q" if "perm_key v o' = perm_key u o1" "q = p"
  proof -
    obtain x where "live_user u db = Some x"
      using assms(3) by (auto simp: stored_permissions_def try_find_def split: option.splits if_splits)
    with find_user assms(1) have "plain_id u"
      unfolding cache_inv_def by metis
    with perm_key_inj [OF that(1) pl] that(2) assms(3) stored_true [OF assms(2)] show ?thesis by simp
  qed
  ultimately have "true_permissions v o' db = Some q"
    using assms(1) pl by (auto simp: coherent_def cache_inv_def)
  then show "true_permissions v o' (redis_set io (perm_key u o1) (CachedPerms p) t db) = Some q"
    using true_permissions_tables [OF tables_set] by metis
qed

lemma reads_cache_inv:
  assumes "cache_inv db" "healthy_io io"
  shows "cache_inv (snd (getUserPermissionsCached io u os db))"
proof -
  have "coherent (snd (getUserPermissionsCached io u os db))"
    using assms coherent_set [OF assms]
    by (auto simp: getUserPermissionsCached_def Let_def cache_inv_def split: option.split redis_value.split)
  with assms(1) table_selectors [OF tables_permissions] show ?thesis
    by (simp add: cache_inv_def)
qed

lemma checks_cache_inv:
  assumes "healthy_io io"
  shows "keeps cache_inv (HasPermission io u r a os)" "keeps cache_inv (IsSuperAdmin io u)"
  using reads_cache_inv [OF _ assms, of _ u os] reads_cache_inv [OF _ assms, of _ u "[]"]
  by (auto simp: keeps_def HasPermission_def IsSuperAdmin_def split: prod.split option.split) (metis snd_conv)+

lemma auth_cache_inv:
  assumes "healthy_io io"
  shows "keeps cache_inv (getOrgID io ctx)" "keeps cache_inv (getOrgAndUserID io ctx)"
    "keeps cache_inv (requireAuth io ctx r a)"
proof -
  show "keeps cache_inv (getOrgID io ctx)"
    unfolding getOrgID_def Let_def by (intro keeping checks_cache_inv assms)
  then show "keeps cache_inv (getOrgAndUserID io ctx)"
    unfolding getOrgAndUserID_def by (intro keeping)
  then show "keeps cache_inv (requireAuth io ctx r a)"
    unfolding requireAuth_def by (intro keeping checks_cache_inv assms)
qed

section \<open>A change of a role\<close>

text \<open>The rows of every other role are the same, up to the default flag.\<close>

definition same_role :: "role_row \<Rightarrow> role_row \<Rightarrow> bool" where
  "same_role r s \<longleftrightarrow> ro_ID s = ro_ID r \<and> ro_Name s = ro_Name r \<and> ro_IsSystem s = ro_IsSystem r"

definition others_same :: "string \<Rightarrow> ax_db \<Rightarrow> ax_db \<Rightarrow> bool" where
  "others_same i db db' \<longleftrightarrow>
     xusers db' = xusers db \<and> xmembers db' = xmembers db \<and>
     (\<forall>u o'. plain_id u \<longrightarrow> xredis db' (perm_key u o') = xredis db (perm_key u o')) \<and>
     (\<forall>r. r \<noteq> i \<longrightarrow> rel_option same_role (role_by_id r db) (role_by_id r db') \<and>
        loadRolePermissions r db' = loadRolePermissions r db)"

lemma effective_role_cong:
  "xmembers db2 = xmembers db \<Longrightarrow> effective_role x o' db2 = effective_role x o' db"
  by (simp add: effective_role_def live_member_def cong: option.case_cong)

lemma in_users_with_role:
  "healthy_io io \<Longrightarrow> u \<in> set (users_with_role io i db) \<longleftrightarrow>
    (\<exists>x \<in> set (xusers db). xu_ID x = u \<and> xu_RoleID x = Some i \<and> \<not> xu_Deleted x) \<or>
    (\<exists>m \<in> set (xmembers db). mb_User m = u \<and> mb_RoleID m = Some i \<and> \<not> mb_Deleted m)"
  by (auto simp: users_with_role_def healthy_io_def)

lemma invalidate_role_inv:
  assumes "cache_inv db" "healthy_io io" "others_same i db db2"
  shows "cache_inv (InvalidateRolePermissionsCache io i db2)"
proof -
  let ?d = "snd (redis_del io (role_key i) db2)" and ?us = "users_with_role io i (snd (redis_del io (role_key i) db2))"
  have same: "xusers db2 = xusers db" "xmembers db2 = xmembers db"
    using assms(3) by (auto simp: others_same_def)
  have t: "tables ?d = tables db2" by simp
  note sel = table_selectors [OF t]
  have pl: "\<forall>u \<in> set ?us. plain_id u"
    using assms(1) sel same by (auto simp: users_with_role_def cache_inv_def split: if_splits)
  have mem: "u \<in> set ?us" if "live_user u db = Some x" "effective_role x o' db = Some i" for u x o'
  proof -
    from find_user [OF that(1)] have x: "x \<in> set (xusers db)" "xu_ID x = u" "\<not> xu_Deleted x" by auto
    have "xu_RoleID x = Some i \<or> (\<exists>m \<in> set (xmembers db). mb_User m = u \<and> mb_RoleID m = Some i \<and> \<not> mb_Deleted m)"
      using that(2) x(2)
      by (auto simp: effective_role_def live_member_def find_Some_iff split: option.splits)
    with x assms(2) sel same show ?thesis
      by (auto simp: in_users_with_role)
  qed
  have "coherent (fold (InvalidateUserPermissionsCache io) ?us ?d)"
  proof (rule coherent_after [OF _ assms(2) pl])
    show "coherent db" using assms(1) by (simp add: cache_inv_def)
  next
    fix u o' assume "plain_id u"
    moreover have "role_key i \<noteq> perm_key u o'" by (metis key_strings(2))
    ultimately show "xredis ?d (perm_key u o') = xredis db (perm_key u o')"
      using assms(3) by (auto simp: redis_del_def others_same_def)
  next
    fix u o' p assume pu: "plain_id u" and nu: "u \<notin> set ?us" and tp: "true_permissions u o' db = Some p"
    then obtain x r role where x: "live_user u db = Some x" "effective_role x o' db = Some r" "role_by_id r db = Some role"
      by (auto simp: true_permissions_def split: option.splits)
    with mem nu have "r \<noteq> i" by blast
    with assms(3) have "rel_option same_role (role_by_id r db) (role_by_id r db2)"
      "loadRolePermissions r db2 = loadRolePermissions r db"
      by (simp_all add: others_same_def)
    with x(3) obtain role' where r': "role_by_id r db2 = Some role'" "same_role role role'"
      "loadRolePermissions r db2 = loadRolePermissions r db"
      by (cases "role_by_id r db2") auto
    have "live_user u db2 = Some x" "effective_role x o' db2 = Some r"
      using x same by (simp_all add: live_user_def effective_role_cong [of db2 db])
    with r' x tp have "true_permissions u o' db2 = Some p"
      by (auto simp: true_permissions_def same_role_def)
    then show "true_permissions u o' ?d = Some p"
      using true_permissions_tables [OF t] by simp
  qed
  moreover have "tables (fold (InvalidateUserPermissionsCache io) ?us ?d) = tables db2"
    by (simp add: tables_invalidate_all)
  note table_selectors [OF this]
  ultimately show ?thesis
    using assms(1) same by (simp add: InvalidateRolePermissionsCache_def Let_def cache_inv_def)
qed

lemma others_same_refl: "others_same i db db"
  by (auto simp: others_same_def same_role_def intro: option.rel_refl)

lemma others_same_trans:
  assumes "others_same i db db1" "others_same i db1 db2"
  shows "others_same i db db2"
proof -
  have "rel_option same_role (role_by_id r db) (role_by_id r db2)" if "r \<noteq> i" for r
  proof -
    have "rel_option same_role (role_by_id r db) (role_by_id r db1)"
      "rel_option same_role (role_by_id r db1) (role_by_id r db2)"
      using assms that by (auto simp: others_same_def)
    then show ?thesis
      by (cases "role_by_id r db"; cases "role_by_id r db1"; cases "role_by_id r db2") (auto simp: same_role_def)
  qed
  with assms show ?thesis
    by (simp add: others_same_def)
qed

lemma others_same_save: "ro_ID r = i \<Longrightarrow> others_same i db (save_role r db)"
proof -
  assume i: "ro_ID r = i"
  have "find (\<lambda>s. ro_ID s = j) (update_by ro_ID i (\<lambda>_. r) rs) = find (\<lambda>s. ro_ID s = j) rs" if "j \<noteq> i" for j rs
    using that i by (induction rs) auto
  with i show ?thesis
    by (auto simp: others_same_def save_role_def role_by_id_def loadRolePermissions_def same_role_def
        intro: option.rel_refl)
qed

lemma others_same_unset: "others_same i db (unset_defaults o' j db)"
proof -
  have "rel_option same_role (find (\<lambda>s. ro_ID s = k) rs)
      (find (\<lambda>s. ro_ID s = k) (map (\<lambda>r. if ro_Org r = o' \<and> ro_IsDefault r \<and> ro_ID r \<noteq> j
                            then r\<lparr>ro_IsDefault := False\<rparr> else r) rs))" for k rs
    by (induction rs) (auto simp: same_role_def)
  then show ?thesis
    by (auto simp: others_same_def unset_defaults_def role_by_id_def loadRolePermissions_def)
qed

lemma others_same_replace: "others_same i db (replace_permissions i ps db)"
proof -
  have "(r, x) \<in> set (xrole_perms (replace_permissions i ps db)) \<longleftrightarrow> (r, x) \<in> set (xrole_perms db)" if "r \<noteq> i" for r x
    using that by (auto simp: replace_permissions_def)
  then show ?thesis
    by (auto simp: others_same_def replace_permissions_def role_by_id_def loadRolePermissions_def same_role_def
        intro!: option.rel_refl filter_cong)
qed

lemma update_permissions_same:
  "update_permissions io w i ks db = (Inr (), db') \<Longrightarrow> others_same i db db'"
  by (auto simp: update_permissions_def bindE_ok require_ok fetch_ok others_same_refl others_same_replace
      split: if_splits)

lemma update_system_shape:
  assumes "update_system_role io ctx old req d = (Inr role, db')"
  obtains d1 r where "others_same (ro_ID old) d d1" "ro_ID r = ro_ID old"
    "db' = InvalidateRolePermissionsCache io (ro_ID old) (save_role r d1)"
proof -
  let ?r = "if rr_Description req \<noteq> [] then old\<lparr>ro_Description := rr_Description req\<rparr> else old"
  from assms obtain d1 where up: "update_permissions io (cx_IsSuperAdmin ctx) (ro_ID old) (rr_Permissions req) d = (Inr (), d1)"
    and db': "db' = InvalidateRolePermissionsCache io (ro_ID old) (save_role ?r d1)"
    by (auto simp: update_system_role_def Let_def chain)
  then show thesis
    using that [OF update_permissions_same [OF up] _ db'] by simp
qed

lemma update_custom_shape:
  assumes "update_custom_role io o' old req d = (Inr role, db')"
  obtains d1 d2 r where "others_same (ro_ID old) d d1" "ro_ID r = ro_ID old"
    "d2 = d1 \<or> d2 = unset_defaults o' (ro_ID old) d1"
    "db' = InvalidateRolePermissionsCache io (ro_ID old) (save_role r d2)"
proof -
  let ?r1 = "if rr_Name req \<noteq> [] then old\<lparr>ro_Name := rr_Name req\<rparr> else old"
  let ?r = "(if rr_Description req \<noteq> [] then ?r1\<lparr>ro_Description := rr_Description req\<rparr> else ?r1)
      \<lparr>ro_IsDefault := rr_IsDefault req\<rparr>"
  let ?u = "\<lambda>d. if rr_IsDefault req \<and> \<not> ro_IsDefault old then unset_defaults o' (ro_ID old) d else d"
  from assms obtain d1 where up: "update_permissions io True (ro_ID old) (rr_Permissions req) d = (Inr (), d1)"
    and db': "db' = InvalidateRolePermissionsCache io (ro_ID old) (save_role ?r (?u d1))"
    by (auto simp: update_custom_role_def Let_def chain)
  then show thesis
    using that [OF update_permissions_same [OF up] _ _ db'] by simp
qed

lemma update_role_inv:
  assumes "cache_inv db" "healthy_io io" "UpdateRole io ctx p body db = (Inr role, db')"
  shows "cache_inv db'"
proof -
  from assms(3) obtain d i old req where d: "cache_inv d" and old: "ro_ID old = i"
    and upd: "(if ro_IsSystem old then update_system_role io ctx old req
               else update_custom_role io (ro_Org old) old req) d = (Inr role, db')"
  proof -
    from assms(3) obtain o' u d0 i old req where
      a: "getOrgAndUserID io ctx db = (Inr (o', u), d0)" and f: "role_of_org i o' d0 = Some old" and
      upd: "(if ro_IsSystem old then update_system_role io ctx old req
               else update_custom_role io o' old req) d0 = (Inr role, db')"
      by (auto simp: UpdateRole_def chain)
    have "cache_inv d0"
      using keepsD [OF auth_cache_inv(2) [OF assms(2)] assms(1)] a by (metis snd_conv)
    moreover from f have "ro_ID old = i" "ro_Org old = o'"
      by (auto simp: role_of_org_def find_Some_iff)
    ultimately show thesis
      using upd by (intro that [of d0 old i req]) (simp_all split: if_splits)
  qed
  have "\<exists>d2. others_same i d d2 \<and> db' = InvalidateRolePermissionsCache io i d2"
  proof (cases "ro_IsSystem old")
    case True
    with upd have "update_system_role io ctx old req d = (Inr role, db')" by simp
    then show ?thesis
      using old by (elim update_system_shape) (metis others_same_trans others_same_save)
  next
    case False
    with upd have "update_custom_role io (ro_Org old) old req d = (Inr role, db')" by simp
    then show ?thesis
      using old by (elim update_custom_shape) (metis others_same_trans others_same_save others_same_unset)
  qed
  with invalidate_role_inv [OF d assms(2)] show ?thesis by blast
qed

text \<open>
  C7. A successful change of a role takes effect at once, when no database or Redis call fails in it or in
  the check: if the cache agreed with the tables before \<open>UpdateRole\<close>, then the permission check that
  follows, of any user (whose identifier contains no colon) in any organisation, is answered exactly
  as the tables now say, although answers were cached before. When a Redis call fails this need not
  hold: a failed deletion is ignored, and the stale answers stay until they expire.
\<close>
theorem role_update_takes_effect:
  assumes "cache_inv db" "healthy_io io" "UpdateRole io ctx p body db = (Inr role, db')"
    and "healthy_io io2" "plain_id u"
  shows "fst (HasPermission io2 u r a [o'] db') = Inr (may u r a o' db')"
  using update_role_inv [OF assms(1-3)] check_answers [OF _ assms(4,5)] by (simp add: cache_inv_def)

lemma demo_cache_inv: "cache_inv demo_ax"
  by (simp add: cache_inv_def coherent_def demo_ax_def demo_user_def demo_member_def plain_id_def)

definition demo_role_request :: RoleRequest where
  "demo_role_request = \<lparr>rr_Name = [], rr_Description = [], rr_IsDefault = True, rr_Permissions = [''users:write'']\<rparr>"

text \<open>\<open>ann\<close>'s check was answered (and cached) before her role was given the permission.\<close>

lemma role_update_takes_effect_witness:
  "\<exists>d role d2. HasPermission (demo_at 1) ''ann'' ''users'' ''write'' [''o1''] demo_ax = (Inr False, d) \<and>
     UpdateRole (demo_at 2) (demo_ctx ''ann'') ''r2'' (Some demo_role_request) d = (Inr role, d2) \<and>
     fst (HasPermission (demo_at 3) ''ann'' ''users'' ''write'' [''o1''] d2) = Inr True"
proof -
  have h: "healthy_io (demo_at t)" for t
    by (simp add: healthy_io_def demo_healthy)
  let ?h = "HasPermission (demo_at 1) ''ann'' ''users'' ''write'' [''o1''] demo_ax"
  let ?u = "UpdateRole (demo_at 2) (demo_ctx ''ann'') ''r2'' (Some demo_role_request) (snd ?h)"
  have 1: "fst ?h = Inr False" by code_simp
  have "fst ?u = Inr (demo_role ''r2'' ''o1'' ''agent'' True)" by code_simp
  then have 2: "?u = (Inr (demo_role ''r2'' ''o1'' ''agent'' True), snd ?u)" by (metis prod.collapse)
  have inv: "cache_inv (snd ?h)"
    by (rule keepsD [OF checks_cache_inv(1) [OF h] demo_cache_inv])
  have "fst (HasPermission (demo_at 3) ''ann'' ''users'' ''write'' [''o1''] (snd ?u)) = Inr (may ''ann'' ''users'' ''write'' ''o1'' (snd ?u))"
    by (rule role_update_takes_effect [OF inv h 2 h]) (simp add: plain_id_def)
  moreover have "may ''ann'' ''users'' ''write'' ''o1'' (snd ?u)" by code_simp
  ultimately have 3: "fst (HasPermission (demo_at 3) ''ann'' ''users'' ''write'' [''o1''] (snd ?u)) = Inr True"
    by simp
  have "?h = (Inr False, snd ?h)"
    using 1 by (metis prod.collapse)
  with 2 3 show ?thesis
    by (intro exI conjI)
qed

end
