(* ===== verification/Access_Weaknesses.thy ===== *)
theory Access_Weaknesses
  imports Access_Cache
begin

text \<open>
  What the guards of the access handlers do hold off, and what they let through: the roles handlers check
  no permission, a user administrator may set a super admin's password, a former member keeps the rights
  of the home role, and signing out ends less than it says.
\<close>

section \<open>Guards that hold\<close>

text \<open>
  C10. No request reaches a protected handler without a live credential: past the middleware, a request
  for an \<open>/api\<close> path that is not public acts with the identity of the valid, unexpired token in its
  header or cookie, or of an active, unexpired API key whose hash matches the key it presents and whose
  owner is not deleted.
\<close>
theorem protected_paths_need_credentials:
  assumes "before io req db = Inr res" "prefix ''/api/'' (hi_Path req)" "\<not> public_path (hi_Path req)"
    and "hi_Method req \<noteq> ''OPTIONS''"
  shows "\<exists>ctx. res = Some ctx \<and>
    ((\<exists>tok c. tok \<noteq> [] \<and> (hi_Authorization req = ''Bearer '' @ tok \<or> cookie_of ''whm_access'' req = tok) \<and>
        ax_parse io (ax_now io) tok = Some c \<and> ctx = claims_context req c) \<or>
     (\<exists>k u. k \<in> set (xkeys db) \<and> ak_IsActive k \<and> ax_check io (ak_Hash k) (hi_APIKey req) \<and>
        (\<forall>e. ak_ExpiresAt k = Some e \<longrightarrow> ax_now io \<le> e) \<and>
        live_user (ak_User k) db = Some u \<and> ctx = key_context req k u))"
proof -
  have key: "\<exists>k u. k \<in> set ks \<and> ax_check io (ak_Hash k) key \<and>
        (\<forall>e. ak_ExpiresAt k = Some e \<longrightarrow> ax_now io \<le> e) \<and>
        live_user (ak_User k) db = Some u \<and> ctx = key_context req k u"
    if "match_key io req key db ks = Some ctx" for key ks ctx
    using that by (induction ks) (auto split: if_splits option.splits)
  have len: "4 < length (hi_Path req)" "prefix ''/api'' (hi_Path req)"
    using assms(2) by (auto simp: prefix_def)
  have some: "res = Some ctx \<and>
    ((\<exists>tok c. tok \<noteq> [] \<and> (hi_Authorization req = ''Bearer '' @ tok \<or> cookie_of ''whm_access'' req = tok) \<and>
        ax_parse io (ax_now io) tok = Some c \<and> ctx = claims_context req c) \<or>
     (\<exists>k u. k \<in> set (xkeys db) \<and> ak_IsActive k \<and> ax_check io (ak_Hash k) (hi_APIKey req) \<and>
        (\<forall>e. ak_ExpiresAt k = Some e \<longrightarrow> ax_now io \<le> e) \<and>
        live_user (ak_User k) db = Some u \<and> ctx = key_context req k u))"
    if "AuthWithDB io req db = Inr ctx" "res = Some ctx" for ctx
  proof (cases "hi_APIKey req = []")
    case True
    with that obtain tok c where "tok \<noteq> []" "ax_parse io (ax_now io) tok = Some c" "ctx = claims_context req c"
        "bearer_token (hi_Authorization req) = Some tok \<or> cookie_of ''whm_access'' req = tok"
      by (auto simp: AuthWithDB_def split: if_splits option.splits)
    moreover have "h = ''Bearer '' @ tok" if "bearer_token h = Some tok" for h
      using that by (auto simp: bearer_token_def prefix_def split: if_splits)
    ultimately show ?thesis using that(2) by blast
  next
    case False
    with that(1) have "validateAPIKey io req (hi_APIKey req) db = Some ctx"
      by (simp add: AuthWithDB_def split: option.splits)
    then obtain ks where "match_key io req (hi_APIKey req) db ks = Some ctx"
        and "set ks \<subseteq> {k \<in> set (xkeys db). ak_IsActive k}"
      by (fastforce simp: validateAPIKey_def Let_def simp del: match_key.simps split: if_splits)
    with key [OF this(1)] that(2) show ?thesis by blast
  qed
  from assms len obtain ctx where c: "AuthWithDB io req db = Inr ctx" "res = Some ctx"
    by (auto simp: before_def split: sum.splits if_splits)
  show ?thesis
    by (rule exI [of _ ctx], rule some [OF c])
qed

text \<open>
  C37. A page of another site cannot act through a signed-in browser: a changing request that is let
  through on the strength of the access cookie alone carries the value of the CSRF cookie, which only
  a page of the own site can read, in its header.
\<close>
theorem cookie_requests_carry_csrf:
  assumes "before io req db = Inr (Some ctx)"
    and "hi_Method req \<in> {''POST'', ''PUT'', ''DELETE'', ''PATCH''}"
    and "hi_Authorization req = []" "hi_APIKey req = []"
  shows "hi_CSRFHeader req = cookie_of ''whm_csrf'' req \<and> hi_CSRFHeader req \<noteq> []"
proof -
  have "cookie_of ''whm_access'' req \<noteq> []"
    using assms by (auto simp: before_def AuthWithDB_def split: sum.splits if_splits)
  with assms show ?thesis
    by (auto simp: before_def CSRFProtection_def Let_def split: sum.splits if_splits)
qed

section \<open>Roles without a permission check\<close>

lemma split_key:
  "CHR '':'' \<notin> set r \<Longrightarrow> splitPermissionKey (r @ '':'' @ a) = Some (r, a)"
  by (simp add: splitPermissionKey_def takeWhile_append dropWhile_append2)

lemma all_keys:
  assumes "p \<in> set (xperms db)" "CHR '':'' \<notin> set (pm_Resource p)" "healthy_io io"
    and "getPermissionsByKeys io (map perm_string (xperms db)) db = Some ps"
  shows "p \<in> set ps"
proof -
  let ?ks = "filter (\<lambda>k. k \<noteq> []) (map perm_string (xperms db))"
  have "perm_string p \<in> set ?ks"
    using assms(1) by (simp add: perm_string_def)
  moreover have "splitPermissionKey (perm_string p) = Some (pm_Resource p, pm_Action p)"
    using split_key [OF assms(2)] by (simp add: perm_string_def)
  ultimately have "(pm_Resource p, pm_Action p) \<in> set (List.map_filter splitPermissionKey ?ks)"
    by (force simp: List.map_filter_def)
  with assms show ?thesis
    by (auto simp: getPermissionsByKeys_def Let_def healthy_io_def split: if_splits)
qed

definition plain_ctx :: "string \<Rightarrow> string \<Rightarrow> ax_ctx \<Rightarrow> bool" where
  "plain_ctx u o' ctx \<longleftrightarrow> cx_UserID ctx = Some u \<and> cx_Org ctx = Some o' \<and> cx_OrgHeader ctx = []"

lemma plain_auth: "plain_ctx u o' ctx \<Longrightarrow> getOrgAndUserID io ctx = ok (o', u)"
  by (rule ext) (simp add: plain_ctx_def getOrgAndUserID_def getOrgID_def)

lemma issue_ok:
  assumes "\<And>c. ax_sign io c \<noteq> None"
  shows "\<exists>s. issue_tokens io j u db = (Inr s, redis_set io (refreshTokenKey j) (Plain (xu_ID u)) (refresh_seconds io) db)
    \<and> as_User s = u \<and> ax_sign io (access_claims io u) = Some (as_Access s)"
proof -
  obtain a r where "ax_sign io (access_claims io u) = Some a" "ax_sign io (refresh_claims io j u) = Some r"
    using assms by fastforce
  then show ?thesis
    by (auto simp: issue_tokens_def generateAccessToken_def generateRefreshToken_def bindE_def)
qed

lemma tables_issue: "tables (redis_set io k v t db) = tables db"
  by simp

lemma find_map_None: "(\<And>x. x \<in> set xs \<Longrightarrow> \<not> P (f x)) \<Longrightarrow> find P (map f xs) = None"
  by (induction xs) simp_all

text \<open>The role that an attacker creates: all permissions, and the default of the organisation.\<close>

definition full_role :: "string \<Rightarrow> ax_db \<Rightarrow> RoleRequest" where
  "full_role name db =
     \<lparr>rr_Name = name, rr_Description = [], rr_IsDefault = True, rr_Permissions = map perm_string (xperms db)\<rparr>"

lemma create_full_role:
  assumes "healthy_io io" "plain_ctx u o' ctx" "name \<noteq> []"
    and "\<forall>r \<in> set (xroles db). ro_Org r = o' \<longrightarrow> ro_Name r \<noteq> name"
  obtains role ps where "CreateRole io ctx (Some (full_role name db)) db = (Inr role, insert_role role ps (unset_defaults o' (ax_new io 0) db))"
    "ro_ID role = ax_new io 0" "ro_Org role = o'" "ro_IsDefault role"
    "\<forall>p \<in> set (xperms db). CHR '':'' \<notin> set (pm_Resource p) \<longrightarrow> p \<in> set ps"
proof -
  have "getPermissionsByKeys io (map perm_string (xperms db)) db \<noteq> None"
    using assms(1) by (simp add: getPermissionsByKeys_def Let_def healthy_io_def)
  then obtain ps where ps: "getPermissionsByKeys io (map perm_string (xperms db)) db = Some ps"
    by blast
  have none: "find (\<lambda>r. ro_Org r = o' \<and> ro_Name r = name) (xroles db) = None"
    using assms(4) by (auto simp: find_None_iff)
  let ?r = "\<lparr>ro_ID = ax_new io 0, ro_Org = o', ro_Name = name, ro_Description = [], ro_IsSystem = False, ro_IsDefault = True\<rparr>"
  have "CreateRole io ctx (Some (full_role name db)) db = (Inr ?r, insert_role ?r ps (unset_defaults o' (ax_new io 0) db))"
    using assms(1,3) ps none plain_auth [OF assms(2), of io]
    by (simp add: CreateRole_def full_role_def bindE_def [of "fetch _ _ _"] fetch_def try_find_def healthy_io_def Let_def)
  then show thesis
    using all_keys [OF _ _ assms(1) ps] by (intro that [of ?r ps]) simp_all
qed

text \<open>Whoever registers in the organisation afterwards gets the role that is the default now.\<close>

lemma register_default:
  assumes "healthy_io io" "\<And>c. ax_sign io c \<noteq> None" "ax_hash io (rg_Password reg) \<noteq> None"
    and "rg_OrganizationID reg = o'" "o' \<noteq> uuid_Nil" "o' \<in> set (xorgs db)"
    and "rg_Email reg \<notin> xu_Email ` set (xusers db)" "default_role o' db = Some role"
    and "ax_new io 1 \<notin> xu_ID ` set (xusers db)" "ax_new io 1 \<notin> mb_User ` set (xmembers db)"
  obtains s db2 where "Register io (Some reg) db = (Inr s, db2)"
    "live_user (ax_new io 1) db2 = Some (as_User s)" "xu_RoleID (as_User s) = Some (ro_ID role)"
    "live_member (ax_new io 1) o' db2 = Some \<lparr>mb_User = ax_new io 1, mb_Org = o', mb_RoleID = Some (ro_ID role),
       mb_IsDefault = True, mb_Deleted = False\<rparr>"
    "xroles db2 = xroles db" "xperms db2 = xperms db" "xrole_perms db2 = xrole_perms db"
    "xredis db2 = xredis (redis_set io (refreshTokenKey (ax_new io 0)) (Plain (ax_new io 1)) (refresh_seconds io) db)"
proof -
  obtain h where h: "ax_hash io (rg_Password reg) = Some h"
    using assms(3) by blast
  let ?u = "\<lparr>xu_ID = ax_new io 1, xu_Org = o', xu_Email = rg_Email reg, xu_Hash = h, xu_FullName = rg_FullName reg,
      xu_RoleID = Some (ro_ID role), xu_IsActive = True, xu_IsSuperAdmin = False, xu_Deleted = False\<rparr>"
  let ?m = "\<lparr>mb_User = ax_new io 1, mb_Org = o', mb_RoleID = Some (ro_ID role), mb_IsDefault = True, mb_Deleted = False\<rparr>"
  let ?d = "add_member ?m (add_user ?u db)"
  obtain s where s: "issue_tokens io (ax_new io 0) ?u ?d =
      (Inr s, redis_set io (refreshTokenKey (ax_new io 0)) (Plain (ax_new io 1)) (refresh_seconds io) ?d)" "as_User s = ?u"
    using issue_ok [OF assms(2), where j = "ax_new io 0" and u = ?u and db = ?d] by auto
  have "find (\<lambda>u. xu_Email u = rg_Email reg \<and> \<not> xu_Deleted u) (xusers db) = None"
    using assms(7) by (auto simp: find_None_iff image_iff)
  then have r: "Register io (Some reg) db =
      (Inr s, redis_set io (refreshTokenKey (ax_new io 0)) (Plain (ax_new io 1)) (refresh_seconds io) ?d)"
    using assms(1,4-8) h s(1)
    by (simp add: Register_def new_account_def registration_role_def bindE_def [of "fetch _ _ _"] fetch_def
        try_find_def healthy_io_def user_by_email_def Let_def)
  have "find (\<lambda>u. xu_ID u = ax_new io 1 \<and> \<not> xu_Deleted u) (xusers db) = None"
    "find (\<lambda>m. mb_User m = ax_new io 1 \<and> mb_Org m = o' \<and> \<not> mb_Deleted m) (xmembers db) = None"
    using assms(9,10) by (auto simp: find_None_iff image_iff)
  then show thesis
    using assms(1) s(2)
    by (intro that [OF r])
      (simp_all add: redis_set_def live_user_def live_member_def add_user_def add_member_def find_append
        healthy_io_def)
qed

text \<open>
  C11. Any signed-in member of an organisation, with no permission at all, can make an account with every
  permission: \<open>CreateRole\<close> checks none, so the member creates a default role with all permissions and
  registers a new account in the organisation, whose permission checks all succeed.
\<close>
theorem any_member_mints_admin:
  assumes "healthy_io io" "healthy_io io2" "healthy_io io3"
    and "plain_ctx u o' ctx" "name \<noteq> []" "\<forall>r \<in> set (xroles db). ro_Org r = o' \<longrightarrow> ro_Name r \<noteq> name"
    and "ax_new io 0 \<notin> ro_ID ` set (xroles db)"
    and "\<And>c. ax_sign io2 c \<noteq> None" "ax_hash io2 (rg_Password reg) \<noteq> None"
    and "rg_OrganizationID reg = o'" "o' \<noteq> uuid_Nil" "o' \<in> set (xorgs db)"
    and "rg_Email reg \<notin> xu_Email ` set (xusers db)"
    and "ax_new io2 1 \<notin> xu_ID ` set (xusers db)" "ax_new io2 1 \<notin> mb_User ` set (xmembers db)"
    and "xredis db (perm_key (ax_new io2 1) (Some o')) = None"
    and "p \<in> set (xperms db)" "CHR '':'' \<notin> set (pm_Resource p)"
  shows "\<exists>role db1 s db2. CreateRole io ctx (Some (full_role name db)) db = (Inr role, db1) \<and>
    Register io2 (Some reg) db1 = (Inr s, db2) \<and>
    fst (HasPermission io3 (ax_new io2 1) (pm_Resource p) (pm_Action p) [o'] db2) = Inr True"
proof -
  obtain role ps where c: "CreateRole io ctx (Some (full_role name db)) db =
      (Inr role, insert_role role ps (unset_defaults o' (ax_new io 0) db))"
    and role: "ro_ID role = ax_new io 0" "ro_Org role = o'" "ro_IsDefault role"
    and all: "\<forall>p \<in> set (xperms db). CHR '':'' \<notin> set (pm_Resource p) \<longrightarrow> p \<in> set ps"
    by (rule create_full_role [OF assms(1,4,5,6)])
  with assms(17,18) have ps: "p \<in> set ps"
    by blast
  let ?d = "insert_role role ps (unset_defaults o' (ax_new io 0) db)"
  let ?f = "\<lambda>r. if ro_Org r = o' \<and> ro_IsDefault r \<and> ro_ID r \<noteq> ax_new io 0 then r\<lparr>ro_IsDefault := False\<rparr> else r"
  have ne: "ro_ID r \<noteq> ax_new io 0" if "r \<in> set (xroles db)" for r
    using assms(7) imageI [OF that, of ro_ID] by metis
  have "find (\<lambda>r. ro_Org r = o' \<and> ro_IsDefault r) (map ?f (xroles db)) = None"
    by (rule find_map_None) (simp add: ne)
  then have dr: "default_role o' ?d = Some role"
    using role by (simp add: default_role_def insert_role_def unset_defaults_def find_append)
  have "find (\<lambda>r. ro_ID r = ax_new io 0) (map ?f (xroles db)) = None"
    by (rule find_map_None) (simp add: ne)
  then have rid: "role_by_id (ax_new io 0) ?d = Some role"
    using role by (simp add: role_by_id_def insert_role_def unset_defaults_def find_append)
  have d: "xusers ?d = xusers db" "xmembers ?d = xmembers db" "xorgs ?d = xorgs db" "xredis ?d = xredis db"
    "xperms ?d = xperms db" "(ax_new io 0, pm_ID p) \<in> set (xrole_perms ?d)"
    using ps role(1) by (simp_all add: insert_role_def unset_defaults_def)
  obtain s db2 where r: "Register io2 (Some reg) ?d = (Inr s, db2)"
    and u: "live_user (ax_new io2 1) db2 = Some (as_User s)" "xu_RoleID (as_User s) = Some (ro_ID role)"
    and m: "live_member (ax_new io2 1) o' db2 = Some \<lparr>mb_User = ax_new io2 1, mb_Org = o',
        mb_RoleID = Some (ro_ID role), mb_IsDefault = True, mb_Deleted = False\<rparr>"
    and t: "xroles db2 = xroles ?d" "xperms db2 = xperms ?d" "xrole_perms db2 = xrole_perms ?d"
    and x: "xredis db2 = xredis (redis_set io2 (refreshTokenKey (ax_new io2 0)) (Plain (ax_new io2 1)) (refresh_seconds io2) ?d)"
    by (rule register_default [OF assms(2,8,9,10,11) _ _ dr]) (use assms(12-15) d in simp_all)
  have n: "xredis db2 (perm_key (ax_new io2 1) (Some o')) = None"
    using assms(16) d(4) x key_strings(1) [of "ax_new io2 1" "Some o'"]
    by (simp add: redis_set_def del: d)
  have id: "xu_ID (as_User s) = ax_new io2 1"
    using find_user [OF u(1)] by simp
  have "pm_Resource p @ '':'' @ pm_Action p \<in> perm_string ` set (loadRolePermissions (ax_new io 0) db2)"
    using assms(17) d(5,6) t by (force simp: loadRolePermissions_def perm_string_def)
  then have "true_permissions (ax_new io2 1) (Some o') db2 \<noteq> None \<and>
      (\<forall>q. true_permissions (ax_new io2 1) (Some o') db2 = Some q \<longrightarrow> allows q (pm_Resource p) (pm_Action p))"
    using u m id role(1) rid t(1)
    by (simp add: true_permissions_def effective_role_def role_by_id_def allows_def)
  then have "fst (HasPermission io3 (ax_new io2 1) (pm_Resource p) (pm_Action p) [o'] db2) = Inr True"
    using assms(3,11) n
    by (auto simp: HasPermission_def getUserPermissionsCached_def org_arg_def redis_get_def stored_true Let_def
        split: option.splits)
  with c r show ?thesis by blast
qed

section \<open>The password of a super admin\<close>

lemma find_unique:
  "x \<in> set xs \<Longrightarrow> P x \<Longrightarrow> (\<And>y. y \<in> set xs \<Longrightarrow> P y \<Longrightarrow> y = x) \<Longrightarrow> find P xs = Some x"
proof (cases "find P xs")
  case None
  moreover assume "x \<in> set xs" "P x"
  ultimately show ?thesis by (simp add: find_None_iff)
next
  case (Some y)
  then have "y \<in> set xs" "P y" by (auto simp: find_Some_iff)
  moreover assume "\<And>y. y \<in> set xs \<Longrightarrow> P y \<Longrightarrow> y = x"
  ultimately show ?thesis using Some by simp
qed

text \<open>Only the password is named.\<close>

definition password_request :: "string \<Rightarrow> UserRequest" where
  "password_request pw = \<lparr>uq_Email = [], uq_Password = pw, uq_FullName = [], uq_RoleID = None, uq_IsActive = None,
     uq_IsSuperAdmin = None\<rparr>"

lemma check_result:
  assumes "cache_inv db" "healthy_io io" "plain_id u"
  obtains d where "HasPermission io u r a [o'] db = (Inr (may u r a o' db), d)" "tables d = tables db" "cache_inv d"
proof -
  obtain x d where xd: "HasPermission io u r a [o'] db = (x, d)" by fastforce
  moreover have "x = Inr (may u r a o' db)"
    using check_answers [OF _ assms(2,3), of db r a o'] assms(1) xd by (simp add: cache_inv_def)
  moreover have "tables d = tables db"
    using reads_tables [OF reads_checks(1) xd] .
  moreover have "cache_inv d"
    using keepsD [OF checks_cache_inv(1) [OF assms(2)] assms(1), of u r a "[o']"] xd by simp
  ultimately show thesis using that by simp
qed

text \<open>
  C12. Whoever may write users in an organisation becomes a super admin if a super admin's home is
  there: \<open>UpdateUser\<close> guards the super admin flag but not a super admin's password, so the caller sets it
  and \<open>Login\<close> then issues an access token whose claims say super admin.
\<close>
theorem user_admin_becomes_super_admin:
  assumes "cache_inv db" "healthy_io io" "healthy_io io2"
    and "plain_ctx u o' ctx" "plain_id u" "u \<noteq> t" "may u ''users'' ''write'' o' db"
    and "ax_uuid io t = Some t" "live_user t db = Some v" "live_member t o' db \<noteq> None"
    and "xu_Org v = o'" "xu_IsActive v" "xu_IsSuperAdmin v"
    and "\<forall>w \<in> set (xusers db). (xu_Email w = xu_Email v \<or> xu_ID w = t) \<longrightarrow> w = v"
    and "pw \<noteq> []" "ax_hash io pw = Some h" "ax_check io2 h pw" "\<And>c. ax_sign io2 c \<noteq> None"
  shows "\<exists>v' db1 s db2 c. UpdateUser io ctx t (Some (password_request pw)) db = (Inr v', db1) \<and>
    Login io2 (Some (xu_Email v, pw)) db1 = (Inr s, db2) \<and>
    ax_sign io2 c = Some (as_Access s) \<and> cl_UserID c = t \<and> cl_IsSuperAdmin c"
proof -
  let ?v = "v\<lparr>xu_Hash := h\<rparr>"
  obtain d where d: "HasPermission io u ''users'' ''write'' [o'] db = (Inr True, d)" "tables d = tables db"
    using check_result [OF assms(1,2,5), of "''users''" "''write''" o'] assms(7) by auto
  note sel = table_selectors [OF d(2)]
  have org: "getOrgID io ctx db = (Inr o', db)"
    using assms(4) by (simp add: plain_ctx_def getOrgID_def)
  have "user_in_org t o' d = Some v"
    using assms(9,10) sel by (simp add: user_in_org_def live_user_def live_member_def split: option.split)
  moreover have id: "xu_ID v = t"
    using find_user [OF assms(9)] by simp
  ultimately have upd: "UpdateUser io ctx t (Some (password_request pw)) db = (Inr ?v, save_user ?v d)"
    using assms(2,4,6,8,11,15,16) org d(1)
    by (simp add: UpdateUser_def bindE_def fetch_def try_find_def healthy_io_def plain_ctx_def password_request_def
        update_native_def update_email_def update_password_def update_role_def update_active_def
        update_super_def Let_def)
  let ?d = "save_user ?v d"
  have us: "xusers ?d = update_by xu_ID t (\<lambda>_. ?v) (xusers db)"
    using sel id by (simp add: save_user_def)
  have em: "user_by_email (xu_Email v) ?d = Some ?v"
    unfolding user_by_email_def us
  proof (rule find_unique)
    show "?v \<in> set (update_by xu_ID t (\<lambda>_. ?v) (xusers db))"
      using find_user [OF assms(9)] by (force simp: set_update_by)
  next
    fix w assume "w \<in> set (update_by xu_ID t (\<lambda>_. ?v) (xusers db))" "xu_Email w = xu_Email v \<and> \<not> xu_Deleted w"
    then show "w = ?v"
      using assms(14) id by (auto simp: set_update_by split: if_splits)
  qed (use find_user [OF assms(9)] in simp)
  let ?e = "case xu_RoleID v of None \<Rightarrow> ?d
            | Some r \<Rightarrow> (if role_by_id r ?d = None then ?d else snd (GetRolePermissionsCached io2 r ?d))"
  obtain s db2 where s: "issue_tokens io2 (ax_new io2 0) ?v ?e = (Inr s, db2)"
    "ax_sign io2 (access_claims io2 ?v) = Some (as_Access s)"
    using issue_ok [OF assms(18), where j = "ax_new io2 0" and u = ?v and db = ?e] by blast
  have login: "Login io2 (Some (xu_Email v, pw)) ?d = (Inr s, db2)"
    using em assms(3,12,17) s(1)
    by (simp add: Login_def bindE_def [of "fetch _ _ _"] fetch_def try_find_def healthy_io_def)
  have c: "cl_UserID (access_claims io2 ?v) = t" "cl_IsSuperAdmin (access_claims io2 ?v)"
    using id assms(13) by (simp_all add: access_claims_def)
  show ?thesis
    by (rule exI [of _ ?v], rule exI [of _ ?d], rule exI [of _ s], rule exI [of _ db2],
        rule exI [of _ "access_claims io2 ?v"], intro conjI upd login s(2) c)
qed

section \<open>Former members\<close>

lemma remove_member_shape:
  assumes "RemoveOrganizationMember io ctx t db = (Inr x, db')" "plain_ctx u o' ctx" "ax_uuid io t = Some t"
  obtains d where "tables d = tables db" "db' = InvalidateUserPermissionsCache io t (remove_member t o' d)"
    "\<And>P. keeps P (requireAuth io ctx ''organizations'' ''assign'') \<Longrightarrow> P db \<Longrightarrow> P d"
proof -
  from assms(1,3) obtain org us d where a: "requireAuth io ctx ''organizations'' ''assign'' db = (Inr (org, us), d)"
    and db': "db' = InvalidateUserPermissionsCache io t (remove_member t org d)"
    by (auto simp: RemoveOrganizationMember_def chain)
  from a assms(2) have "org = o'"
    by (auto simp: requireAuth_def plain_auth bindE_ok require_ok)
  moreover have "P d" if "keeps P (requireAuth io ctx ''organizations'' ''assign'')" "P db" for P
    using keepsD [OF that] a by simp
  ultimately show thesis
    using that [OF reads_tables [OF reads_auth(2) a]] db' by blast
qed

lemma remove_member_inv:
  assumes "cache_inv db" "healthy_io io" "plain_id t"
  shows "cache_inv (InvalidateUserPermissionsCache io t (remove_member t o' db))"
proof -
  let ?d = "remove_member t o' db"
  have same: "xusers ?d = xusers db" "xroles ?d = xroles db" "xperms ?d = xperms db"
    "xrole_perms ?d = xrole_perms db" "xredis ?d = xredis db"
    by (simp_all add: remove_member_def)
  have other: "live_member v org ?d = live_member v org db" if "v \<noteq> t" for v org
  proof -
    have "find (\<lambda>m. mb_User m = v \<and> mb_Org m = org \<and> \<not> mb_Deleted m)
        (map (\<lambda>m. if mb_User m = t \<and> mb_Org m = o' then m\<lparr>mb_Deleted := True\<rparr> else m) ms)
      = find (\<lambda>m. mb_User m = v \<and> mb_Org m = org \<and> \<not> mb_Deleted m) ms" for ms
      using that by (induction ms) auto
    then show ?thesis
      by (simp add: live_member_def remove_member_def)
  qed
  have "true_permissions v o1 ?d = true_permissions v o1 db" if "v \<noteq> t" for v o1
  proof -
    have "effective_role y o1 ?d = effective_role y o1 db" if "live_user v db = Some y" for y
      using find_user [OF that] other [OF \<open>v \<noteq> t\<close>] by (simp add: effective_role_def cong: option.case_cong)
    moreover have "live_user v ?d = live_user v db" "role_by_id r ?d = role_by_id r db"
      "loadRolePermissions r ?d = loadRolePermissions r db" for r
      by (simp_all add: live_user_def role_by_id_def loadRolePermissions_def same)
    ultimately show ?thesis
      by (simp add: true_permissions_def split: option.split)
  qed
  then have "coherent (fold (InvalidateUserPermissionsCache io) [t] ?d)"
    using assms by (intro coherent_after [of db]) (auto simp: cache_inv_def same)
  moreover have "set (xmembers ?d) \<subseteq> (\<lambda>m. m) ` set (xmembers db) \<union> (\<lambda>m. m\<lparr>mb_Deleted := True\<rparr>) ` set (xmembers db)"
    by (auto simp: remove_member_def)
  then have "\<forall>m \<in> set (xmembers ?d). plain_id (mb_User m)"
    using assms(1) by (force simp: cache_inv_def)
  ultimately show ?thesis
    using assms(1) same table_selectors [OF tables_invalidate_user [of io t ?d]] by (simp add: cache_inv_def)
qed

text \<open>
  C13. Removing a member does not end the member's rights in the organisation: a token or an API key
  issued there still names the organisation, and once the membership is gone the check falls back to
  the role of the user's own organisation. Whoever may do something at home may do it there as well.
\<close>
theorem removed_member_keeps_home_rights:
  assumes "cache_inv db" "healthy_io io" "healthy_io io2"
    and "plain_ctx u o' ctx" "ax_uuid io t = Some t" "plain_id t" "o' \<noteq> uuid_Nil"
    and "RemoveOrganizationMember io ctx t db = (Inr x, db')"
    and "plain_ctx t o' ctx2"
    and "true_permissions t None db = Some home" "allows home r a"
  shows "fst (requireAuth io2 ctx2 r a db') = Inr (o', t)"
proof -
  obtain d where d: "tables d = tables db" and db': "db' = InvalidateUserPermissionsCache io t (remove_member t o' d)"
    and "\<And>P. keeps P (requireAuth io ctx ''organizations'' ''assign'') \<Longrightarrow> P db \<Longrightarrow> P d"
    using remove_member_shape [OF assms(8,4,5)] by blast
  then have inv: "cache_inv db'"
    using remove_member_inv [OF _ assms(2,6)] auth_cache_inv(3) [OF assms(2)] assms(1) by blast
  note sel = table_selectors [OF d] table_selectors [OF tables_invalidate_user [of io t "remove_member t o' d"]]
  have "find (\<lambda>m. mb_User m = t \<and> mb_Org m = o' \<and> \<not> mb_Deleted m)
      (map (\<lambda>m. if mb_User m = t \<and> mb_Org m = o' then m\<lparr>mb_Deleted := True\<rparr> else m) ms) = None" for ms
    by (rule find_map_None) auto
  then have gone: "live_member t o' db' = None"
    using sel by (simp add: db' live_member_def remove_member_def)
  have "live_user t db' = live_user t db" "\<And>r. role_by_id r db' = role_by_id r db"
    "\<And>r. loadRolePermissions r db' = loadRolePermissions r db"
    using sel by (simp_all add: db' live_user_def role_by_id_def loadRolePermissions_def remove_member_def)
  then have "true_permissions t (Some o') db' = Some home"
    using assms(10) gone find_user [of t db]
    by (auto simp: true_permissions_def effective_role_def split: option.splits)
  then have "may t r a o' db'"
    using assms(7,11) by (simp add: may_def org_arg_def)
  moreover obtain e where "HasPermission io2 t r a [o'] db' = (Inr (may t r a o' db'), e)"
    by (rule check_result [OF inv assms(3,6)])
  ultimately show ?thesis
    by (simp add: requireAuth_def plain_auth [OF assms(9)] bindE_def [of "HasPermission _ _ _ _ _"])
qed

section \<open>Signing out\<close>

text \<open>
  Signing out in the browser revokes nothing: the refresh cookie is scoped to the refresh endpoint, so a
  browser that sends a cookie only below its path does not send it to the logout endpoint, the body
  is empty, and \<open>Logout\<close> leaves the state as it was. The refresh token stays good for its whole life.
\<close>
theorem browser_logout_revokes_nothing:
  assumes "\<And>c path. sent c path \<Longrightarrow> prefix (hc_Path c) path"
    and "hi_Cookies req = map (\<lambda>c. (hc_Name c, hc_Value c))
      (filter (\<lambda>c. sent c (bp @ ''/api/auth/logout'')) (setAuthCookies io bp csrf s))"
  shows "Logout io2 req [] db = (Inr ''logged_out'', db)"
proof -
  have "\<not> sent \<lparr>hc_Name = ''whm_refresh'', hc_Value = as_Refresh s, hc_Path = bp @ ''/api/auth/refresh'',
      hc_MaxAge = 86400 * ax_RefreshExpiryDays io, hc_HTTPOnly = True\<rparr> (bp @ ''/api/auth/logout'')"
    using assms(1) by (fastforce simp: prefix_def)
  then have "cookie_of ''whm_refresh'' req = []"
    by (simp add: cookie_of_def assms(2) setAuthCookies_def)
  then show ?thesis
    by (simp add: Logout_def presented_token_def)
qed

text \<open>
  Even a logout that does revoke the refresh token does not end the session: an access token carries
  no identifier, and \<open>RefreshToken\<close> takes any valid token, so the access token of the session is
  exchanged after the logout for a new pair, with a new refresh token.
\<close>
theorem access_token_survives_logout:
  assumes "healthy_io io2" "ax_parse io2 (ax_now io2) tok = Some c" "cl_ID c = []" "tok \<noteq> []"
    and "presented_token req2 body2 = tok"
    and "live_user (cl_UserID c) db = Some u" "xu_IsActive u" "\<And>cl. ax_sign io2 cl \<noteq> None"
    and "Logout io req body db = (x, db1)"
  shows "\<exists>s db2. RefreshToken io2 req2 body2 db1 = (Inr s, db2) \<and> as_User s = u \<and>
    xredis db2 (refreshTokenKey (ax_new io2 0)) = Some (Plain (cl_UserID c), ax_now io2 + refresh_seconds io2)"
proof -
  have t: "tables db1 = tables db"
    using assms(9) by (auto simp: Logout_def Let_def split: option.splits)
  have "live_user (cl_UserID c) db1 = Some u"
    using assms(6) table_selectors(1) [OF t] by (simp add: live_user_def)
  moreover obtain s where "issue_tokens io2 (ax_new io2 0) u db1 =
      (Inr s, redis_set io2 (refreshTokenKey (ax_new io2 0)) (Plain (xu_ID u)) (refresh_seconds io2) db1)" "as_User s = u"
    using issue_ok [OF assms(8), where j = "ax_new io2 0" and u = u and db = db1] by blast
  moreover have "xu_ID u = cl_UserID c"
    using find_user [OF assms(6)] by simp
  ultimately show ?thesis
    using assms(1-5,7)
    by (simp add: RefreshToken_def Let_def bindE_def fetch_def try_find_def healthy_io_def consume_jti_def
        redis_set_def)
qed

text \<open>Every valid token passes the middleware, a refresh token or a websocket token as well.\<close>

lemma any_token_is_access_token:
  assumes "ax_parse io (ax_now io) tok = Some c" "tok \<noteq> []" "CHR '' '' \<notin> set tok"
    and "hi_APIKey req = []" "hi_Authorization req = ''Bearer '' @ tok"
  shows "AuthWithDB io req db = Inr (claims_context req c)"
  using assms by (simp add: AuthWithDB_def bearer_token_def)

text \<open>A key of a deactivated account is accepted.\<close>

lemma inactive_user_key:
  assumes "ax_check io (ak_Hash k) key" "ak_ExpiresAt k = None" "live_user (ak_User k) db = Some u"
    and "\<not> xu_IsActive u"
  shows "match_key io req key db (k # ks) = Some (key_context req k u)"
  using assms by simp

text \<open>
  When the membership cannot be read, the role of the user's own organisation is used, and cached for
  ten minutes.
\<close>

lemma failed_membership_read:
  assumes "ax_err io ''membership''" "live_user u db = Some x"
  shows "stored_permissions io u (Some o') db = stored_permissions io u None db"
  using assms by (simp add: stored_permissions_def try_find_def role_in_def)

section \<open>Witnesses\<close>

lemma demo_healthy_io: "healthy_io (demo_at t)"
  by (simp add: healthy_io_def demo_healthy)

lemma protected_paths_need_credentials_witness:
  "\<exists>ctx c. before (demo_at 1) (demo_request ''GET'' ''/api/users'' [(''whm_access'', ''access-ann'')]) demo_ax = Inr (Some ctx) \<and>
    ax_parse (demo_at 1) 1 ''access-ann'' = Some c \<and>
    ctx = claims_context (demo_request ''GET'' ''/api/users'' [(''whm_access'', ''access-ann'')]) c"
proof -
  let ?req = "demo_request ''GET'' ''/api/users'' [(''whm_access'', ''access-ann'')]"
  have b: "before (demo_at 1) ?req demo_ax = Inr (Some (claims_context ?req (demo_claims ''ann'' [])))"
    by (simp add: before_def CSRFProtection_def AuthWithDB_def public_path_def cookie_of_def demo_ax_defs)
  have "prefix ''/api/'' (hi_Path ?req)" "\<not> public_path (hi_Path ?req)" "hi_Method ?req \<noteq> ''OPTIONS''"
    by (simp_all add: public_path_def demo_request_def)
  from protected_paths_need_credentials [OF b this] b show ?thesis
    by (auto simp: demo_request_def cookie_of_def) (auto simp: demo_ax_defs)
qed

lemma cookie_requests_carry_csrf_witness:
  "before (demo_at 1) (demo_request ''POST'' ''/api/users'' [(''whm_access'', ''access-ann''), (''whm_csrf'', ''d'')]) demo_ax
     = Inl (403, ''CSRF token mismatch'') \<and>
   hi_CSRFHeader (demo_request ''POST'' ''/api/users'' [(''whm_access'', ''access-ann''), (''whm_csrf'', ''c'')]) = ''c''"
proof
  show "before (demo_at 1) (demo_request ''POST'' ''/api/users'' [(''whm_access'', ''access-ann''), (''whm_csrf'', ''d'')]) demo_ax
     = Inl (403, ''CSRF token mismatch'')"
    by (simp add: before_def CSRFProtection_def cookie_of_def demo_request_def)
  let ?req = "demo_request ''POST'' ''/api/users'' [(''whm_access'', ''access-ann''), (''whm_csrf'', ''c'')]"
  have "before (demo_at 1) ?req demo_ax = Inr (Some (claims_context ?req (demo_claims ''ann'' [])))"
    by (simp add: before_def CSRFProtection_def AuthWithDB_def public_path_def cookie_of_def demo_ax_defs)
  then have "hi_CSRFHeader ?req = cookie_of ''whm_csrf'' ?req \<and> hi_CSRFHeader ?req \<noteq> []"
    by (rule cookie_requests_carry_csrf) (simp_all add: demo_request_def)
  then show "hi_CSRFHeader ?req = ''c''"
    by (simp add: cookie_of_def demo_request_def)
qed

definition demo_registration :: RegisterRequest where
  "demo_registration = \<lparr>rg_Email = ''new@x'', rg_Password = ''p'', rg_FullName = ''n'', rg_OrganizationID = ''o1''\<rparr>"

lemma any_member_mints_admin_witness:
  "\<exists>role db1 s db2. CreateRole (demo_at 1) (demo_ctx ''ann'') (Some (full_role ''x'' demo_ax)) demo_ax = (Inr role, db1) \<and>
    Register (demo_at 2) (Some demo_registration) db1 = (Inr s, db2) \<and>
    fst (HasPermission (demo_at 3) ''n1'' ''users'' ''write'' [''o1''] db2) = Inr True"
proof -
  let ?p = "\<lparr>pm_ID = ''p1'', pm_Resource = ''users'', pm_Action = ''write''\<rparr>"
  have "\<exists>role db1 s db2. CreateRole (demo_at 1) (demo_ctx ''ann'') (Some (full_role ''x'' demo_ax)) demo_ax = (Inr role, db1) \<and>
    Register (demo_at 2) (Some demo_registration) db1 = (Inr s, db2) \<and>
    fst (HasPermission (demo_at 3) (ax_new (demo_at 2) 1) (pm_Resource ?p) (pm_Action ?p) [''o1''] db2) = Inr True"
    by (rule any_member_mints_admin [where u = "''ann''", OF demo_healthy_io demo_healthy_io demo_healthy_io])
      (simp_all add: plain_ctx_def demo_ax_defs demo_registration_def uuid_Nil_def)
  then show ?thesis
    by (simp add: demo_at_def)
qed

lemma user_admin_becomes_super_admin_witness:
  "\<exists>v' db1 s db2 c. UpdateUser (demo_at 1) (demo_ctx ''max'') ''root'' (Some (password_request ''new'')) demo_ax = (Inr v', db1) \<and>
    Login (demo_at 2) (Some (''root@x'', ''new'')) db1 = (Inr s, db2) \<and>
    ax_sign (demo_at 2) c = Some (as_Access s) \<and> cl_UserID c = ''root'' \<and> cl_IsSuperAdmin c"
proof -
  have "may ''max'' ''users'' ''write'' ''o1'' demo_ax" by code_simp
  note t = user_admin_becomes_super_admin [where u = "''max''" and v = "demo_user ''root'' ''o1'' ''r1'' True"
      and h = "''#new''" and o' = "''o1''", OF demo_cache_inv demo_healthy_io demo_healthy_io _ _ _ this]
  have "\<exists>v' db1 s db2 c. UpdateUser (demo_at 1) (demo_ctx ''max'') ''root'' (Some (password_request ''new'')) demo_ax = (Inr v', db1) \<and>
    Login (demo_at 2) (Some (xu_Email (demo_user ''root'' ''o1'' ''r1'' True), ''new'')) db1 = (Inr s, db2) \<and>
    ax_sign (demo_at 2) c = Some (as_Access s) \<and> cl_UserID c = ''root'' \<and> cl_IsSuperAdmin c"
    by (rule t) (simp_all add: plain_ctx_def plain_id_def live_user_def live_member_def demo_ax_defs)
  then show ?thesis
    by (simp add: demo_user_def)
qed

lemma removed_member_keeps_home_rights_witness:
  "\<exists>db'. RemoveOrganizationMember (demo_at 1) (demo_ctx ''max'') ''bob'' demo_ax = (Inr ''Member removed successfully'', db') \<and>
    live_member ''bob'' ''o1'' db' = None \<and>
    fst (requireAuth (demo_at 2) (demo_ctx ''bob'') ''users'' ''write'' db') = Inr (''o1'', ''bob'')"
proof -
  let ?r = "RemoveOrganizationMember (demo_at 1) (demo_ctx ''max'') ''bob'' demo_ax"
  have "fst ?r = Inr ''Member removed successfully''" by code_simp
  then have r: "?r = (Inr ''Member removed successfully'', snd ?r)" by (metis prod.collapse)
  have home: "true_permissions ''bob'' None demo_ax =
      Some \<lparr>up_RoleID = ''r3'', up_RoleName = ''boss'', up_IsSystem = False, up_IsSuperAdmin = False,
            up_Permissions = [''users:write'']\<rparr>"
    by code_simp
  have "fst (requireAuth (demo_at 2) (demo_ctx ''bob'') ''users'' ''write'' (snd ?r)) = Inr (''o1'', ''bob'')"
    by (rule removed_member_keeps_home_rights [OF demo_cache_inv demo_healthy_io demo_healthy_io _ _ _ _ r _ home,
          where u = "''max''"])
      (simp_all add: plain_ctx_def plain_id_def demo_ctx_def demo_at_def uuid_Nil_def allows_def)
  moreover have "Option.is_none (live_member ''bob'' ''o1'' (snd ?r))" by code_simp
  ultimately show ?thesis
    using r by (metis is_none_code(2) not_None_eq)
qed

lemma browser_logout_revokes_nothing_witness:
  "\<exists>s db. Login (demo_at 1) (Some (''ann@x'', ''pw'')) demo_ax = (Inr s, db) \<and>
     Logout (demo_at 2) (demo_request ''POST'' ''/api/auth/logout''
        (map (\<lambda>c. (hc_Name c, hc_Value c)) (filter (\<lambda>c. prefix (hc_Path c) ([] @ ''/api/auth/logout''))
           (setAuthCookies (demo_at 1) [] ''c'' s)))) [] db = (Inr ''logged_out'', db)"
proof -
  let ?l = "Login (demo_at 1) (Some (''ann@x'', ''pw'')) demo_ax"
  have "\<not> Option.is_none (case fst ?l of Inl e \<Rightarrow> None | Inr s \<Rightarrow> Some s)"
    by code_simp
  then obtain s where "fst ?l = Inr s"
    by (auto split: sum.splits)
  then have l: "?l = (Inr s, snd ?l)"
    by (metis prod.collapse)
  show ?thesis
    by (rule exI [of _ s], rule exI [of _ "snd ?l"], intro conjI l,
        rule browser_logout_revokes_nothing [where sent = "\<lambda>c path. prefix (hc_Path c) path" and bp = "[]"])
      (simp_all add: demo_request_def)
qed

lemma access_token_survives_logout_witness:
  "\<exists>s db2. RefreshToken (demo_at 2) (demo_request ''POST'' ''/api/auth/refresh'' []) ''access-ann''
      (snd (Logout (demo_at 1) (demo_request ''POST'' ''/api/auth/logout'' []) ''refresh-ann'' demo_session_db)) = (Inr s, db2) \<and>
     xu_ID (as_User s) = ''ann''"
proof -
  let ?l = "Logout (demo_at 1) (demo_request ''POST'' ''/api/auth/logout'' []) ''refresh-ann'' demo_session_db"
  have l: "?l = (fst ?l, snd ?l)" by simp
  have p: "ax_parse (demo_at 2) (ax_now (demo_at 2)) ''access-ann'' = Some (demo_claims ''ann'' [])"
    by (simp add: demo_at_def demo_parse_def)
  from access_token_survives_logout [OF demo_healthy_io p _ _ _ _ _ _ l,
      of "demo_request ''POST'' ''/api/auth/refresh'' []" "''access-ann''" "demo_user ''ann'' ''o1'' ''r2'' False"]
  show ?thesis
    by (auto simp: presented_token_def cookie_of_def live_user_def demo_session_db_def demo_ax_defs)
qed

end
