(* ===== verification/Calls.thy ===== *)
theory Calls
  imports Assignment Hub
begin

text \<open>
  Calls that are handed to people (\<open>internal/calling/transfer.go\<close>, \<open>session.go\<close>, the handlers of
  \<open>call_transfers.go\<close> and the call webhook of \<open>call_webhook.go\<close>), as threads over a shared manager.

  Session objects live in a heap (\<open>mg_sessions\<close>, a pointer is a position); \<open>mg_live\<close> is the manager's
  map from call ids to objects, so a goroutine may hold an object that is no longer in the map.
  Contexts and channels are numbers with a state. A goroutine or an HTTP handler that waits, or that
  lets go of the session lock between a decision and what it does next, is a thread (\<open>call_thread\<close>);
  a step runs one thread up to its next such point, and any thread may be next. \<open>ConnectAgentToTransfer\<close>
  and \<open>EndTransfer\<close> look a session up by its transfer, which may change before they lock it, so lookup
  and decision are two steps there; a lookup by call or call log, whose key never changes, is part of
  the step that follows, and so is what \<open>HoldCall\<close> and \<open>ResumeCall\<close> do after releasing the lock.
  The callers of \<open>cleanupSession\<close> do not look at the session again, so what they still do (cancel their
  own context, mark and report the end of the call) is part of the step that starts the cleanup. Timers may fire at
  any moment, so no timeout value is used. \<open>ci_branch\<close> is the choice of a \<open>select\<close> among the cases that
  are ready. Audio (tracks, players, sequence numbers, recording) is present as whether the resource
  exists; the HTTP callbacks of a transfer are not modelled.
\<close>

section \<open>State\<close>

record call_log_row =
  cg_ID :: string
  cg_WhatsAppCallID :: string
  cg_Org :: string
  cg_Direction :: string
  cg_Status :: string
  cg_AgentID :: "string option"
  cg_DisconnectedBy :: string

record CallSession =
  cs_ID :: string
  cs_OrganizationID :: string
  cs_AccountName :: string
  cs_CallerPhone :: string
  cs_ContactID :: string
  cs_CallLogID :: string
  cs_Status :: string
  cs_Direction :: string
  cs_AudioTrack :: bool
  cs_WAAudioTrack :: bool
  cs_StickyAgentID :: "string option"
  cs_TransferID :: string
  cs_TransferStatus :: string
  cs_AgentPC :: bool
  cs_Bridge :: bool
  cs_HoldPlayer :: bool
  cs_TransferCancel :: "nat option"
  cs_TransferAccepted :: "nat option"
  cs_TransferDone :: "nat option"

datatype ctx_state = CtxLive | CtxCanceled | CtxDeadlineExceeded

text \<open>What browsers and callers of the API get to see.\<close>

datatype call_event =
    EvIncoming string "string option"
  | EvAnswered string
  | EvRing string string
  | EvOffer string string
  | EvRingTeam string "string list"
  | EvRingAll string
  | EvReassigned string string
  | EvTaken string string
  | EvCompleted string int int
  | EvNoAnswer string
  | EvAbandoned string
  | EvHold string
  | EvResumed string
  | EvTerminate string
  | EvCallEnded string string
  | EvReply string nat

datatype call_thread =
    ThAssigned nat string "string option" nat nat
  | ThStartRotation nat string string
  | ThRotation nat string string "string list" nat
  | ThRinging nat string string "string list" nat string "nat option"
  | ThBroadcast nat string nat "nat option"
  | ThWaiter nat string nat
  | ThNoAnswer nat string "nat option"
  | ThAgentTransfer nat string "string option" "string option"
  | ThAccept string string "string option"
  | ThAccepted string string "string option"
  | ThFound nat string string
  | ThSetup nat string string
  | ThCompleting nat string string
  | ThRecord nat string string
  | ThEndFound nat string "string option"
  | ThEnd nat string "nat option" "string option"
  | ThHangup nat string
  | ThCleanup nat

record Manager =
  mg_sessions :: "CallSession list"
  mg_live :: "(string \<times> nat) list"
  mg_db :: agent_db
  mg_logs :: "call_log_row list"
  mg_ctxs :: "ctx_state list"
  mg_closed :: "nat list"
  mg_chans :: nat
  mg_done :: "(nat \<times> string) list"
  mg_events :: "call_event list"
  mg_threads :: "call_thread list"

record call_io =
  ci_now :: int
  ci_err :: "string \<Rightarrow> bool"
  ci_new :: string
  ci_branch :: nat
  ci_webrtc :: bool
  ci_enabled :: bool
  ci_uuid :: "string \<Rightarrow> string option"
  ci_agents :: agent_io
  ci_hub :: hub

text \<open>\<open>int(d.Seconds())\<close> cuts off towards zero.\<close>

definition whole_seconds :: "int \<Rightarrow> int" where
  "whole_seconds d = (if d \<ge> 0 then d div 1000000000 else - ((- d) div 1000000000))"

definition durationSince :: "int option \<Rightarrow> int \<Rightarrow> int" where
  "durationSince from now = (case from of None \<Rightarrow> 0 | Some t \<Rightarrow> whole_seconds (now - t))"

section \<open>Access to the state\<close>

definition sess :: "Manager \<Rightarrow> nat \<Rightarrow> CallSession" where
  "sess st i = mg_sessions st ! i"

definition set_session :: "nat \<Rightarrow> (CallSession \<Rightarrow> CallSession) \<Rightarrow> Manager \<Rightarrow> Manager" where
  "set_session i f st = st\<lparr>mg_sessions := (mg_sessions st)[i := f (sess st i)]\<rparr>"

definition emit_ev :: "call_event list \<Rightarrow> Manager \<Rightarrow> Manager" where
  "emit_ev es st = st\<lparr>mg_events := mg_events st @ es\<rparr>"

definition spawn :: "call_thread list \<Rightarrow> Manager \<Rightarrow> Manager" where
  "spawn ts st = st\<lparr>mg_threads := mg_threads st @ ts\<rparr>"

definition set_row :: "call_io \<Rightarrow> string \<Rightarrow> string \<Rightarrow> (call_transfer \<Rightarrow> call_transfer) \<Rightarrow> Manager \<Rightarrow> Manager" where
  "set_row io label tid f st =
     (if ci_err io label then st
      else st\<lparr>mg_db := (mg_db st)\<lparr>call_transfers := update_by ct_ID tid f (call_transfers (mg_db st))\<rparr>\<rparr>)"

definition set_log :: "call_io \<Rightarrow> string \<Rightarrow> string \<Rightarrow> (call_log_row \<Rightarrow> call_log_row) \<Rightarrow> Manager \<Rightarrow> Manager" where
  "set_log io label logID f st =
     (if ci_err io label then st else st\<lparr>mg_logs := update_by cg_ID logID f (mg_logs st)\<rparr>)"

definition add_row :: "call_transfer \<Rightarrow> Manager \<Rightarrow> Manager" where
  "add_row t st = st\<lparr>mg_db := (mg_db st)\<lparr>call_transfers := call_transfers (mg_db st) @ [t]\<rparr>\<rparr>"

definition row_of :: "string \<Rightarrow> Manager \<Rightarrow> call_transfer option" where
  "row_of tid st = find (\<lambda>t. ct_ID t = tid) (call_transfers (mg_db st))"

definition ctx_of :: "Manager \<Rightarrow> nat \<Rightarrow> ctx_state" where
  "ctx_of st c = (if c < length (mg_ctxs st) then mg_ctxs st ! c else CtxCanceled)"

definition new_ctx :: "Manager \<Rightarrow> Manager" where
  "new_ctx st = st\<lparr>mg_ctxs := mg_ctxs st @ [CtxLive]\<rparr>"

definition finish_ctx :: "ctx_state \<Rightarrow> nat option \<Rightarrow> Manager \<Rightarrow> Manager" where
  "finish_ctx how c st =
     (case c of
        None \<Rightarrow> st
      | Some k \<Rightarrow> (if ctx_of st k = CtxLive then st\<lparr>mg_ctxs := (mg_ctxs st)[k := how]\<rparr> else st))"

definition new_chan :: "Manager \<Rightarrow> Manager" where
  "new_chan st = st\<lparr>mg_chans := Suc (mg_chans st)\<rparr>"

definition safeClose :: "nat option \<Rightarrow> Manager \<Rightarrow> Manager" where
  "safeClose ch st =
     (case ch of
        None \<Rightarrow> st
      | Some k \<Rightarrow> (if k \<in> set (mg_closed st) then st else st\<lparr>mg_closed := k # mg_closed st\<rparr>))"

definition closed_chan :: "nat option \<Rightarrow> Manager \<Rightarrow> bool" where
  "closed_chan ch st = (case ch of None \<Rightarrow> False | Some k \<Rightarrow> k \<in> set (mg_closed st))"

definition GetSession :: "string \<Rightarrow> Manager \<Rightarrow> nat option" where
  "GetSession callID st = map_of (mg_live st) callID"

definition GetSessionByCallLogID :: "string \<Rightarrow> Manager \<Rightarrow> nat option" where
  "GetSessionByCallLogID logID st =
     map_option snd (find (\<lambda>(_, i). cs_CallLogID (sess st i) = logID) (mg_live st))"

definition findSessionByTransferID :: "string \<Rightarrow> Manager \<Rightarrow> nat option" where
  "findSessionByTransferID tid st =
     map_option snd (find (\<lambda>(_, i). cs_TransferID (sess st i) = tid) (mg_live st))"

section \<open>The life of a session\<close>

text \<open>
  Two lock regions: the first takes the call out of the map, the second reads the object again, in which
  \<open>InitiateAgentTransfer\<close> may have begun a transfer meanwhile.
\<close>

definition cleanupSession :: "string \<Rightarrow> Manager \<Rightarrow> Manager" where
  "cleanupSession callID st =
     (case GetSession callID st of
        None \<Rightarrow> st
      | Some i \<Rightarrow>
          if cs_TransferStatus (sess st i) = ''waiting'' then st
          else spawn [ThCleanup i] (st\<lparr>mg_live := filter (\<lambda>(c, _). c \<noteq> callID) (mg_live st)\<rparr>))"

definition cleanup_rest :: "call_io \<Rightarrow> nat \<Rightarrow> Manager \<Rightarrow> Manager" where
  "cleanup_rest io i st =
     (let s = sess st i; tid = cs_TransferID s;
          abandoned = (tid \<noteq> uuid_Nil \<and> cs_TransferStatus s = ''waiting'');
          st1 = set_session i (\<lambda>s. s\<lparr>cs_TransferStatus := (if abandoned then ''abandoned'' else cs_TransferStatus s),
                  cs_Bridge := False, cs_HoldPlayer := False, cs_TransferCancel := None,
                  cs_AgentPC := False, cs_TransferDone := None\<rparr>) st;
          st2 = (case cs_TransferDone s of
                   None \<Rightarrow> st1 | Some ch \<Rightarrow> st1\<lparr>mg_done := mg_done st1 @ [(ch, [])]\<rparr>);
          st3 = (if abandoned
                 then emit_ev [EvAbandoned tid]
                        (set_log io ''log_cleanup'' (cs_CallLogID s) (\<lambda>l. l\<lparr>cg_DisconnectedBy := ''client''\<rparr>)
                          (set_row io ''row_cleanup'' tid
                            (\<lambda>t. if ct_Status t = ''waiting''
                                 then t\<lparr>ct_Status := ''abandoned'', ct_CompletedAt := Some (ci_now io)\<rparr> else t) st2))
                 else st2)
      in finish_ctx CtxCanceled (cs_TransferCancel s) st3)"

definition EndCall :: "string \<Rightarrow> Manager \<Rightarrow> Manager" where
  "EndCall callID st = cleanupSession callID st"

definition fresh_session ::
    "string \<Rightarrow> string \<Rightarrow> string \<Rightarrow> string \<Rightarrow> string \<Rightarrow> string \<Rightarrow> string option \<Rightarrow> CallSession" where
  "fresh_session callID org account phone contact logID sticky =
     \<lparr>cs_ID = callID, cs_OrganizationID = org, cs_AccountName = account, cs_CallerPhone = phone,
      cs_ContactID = contact, cs_CallLogID = logID, cs_Status = ''ringing'', cs_Direction = [],
      cs_AudioTrack = False, cs_WAAudioTrack = False, cs_StickyAgentID = sticky,
      cs_TransferID = uuid_Nil, cs_TransferStatus = [], cs_AgentPC = False, cs_Bridge = False,
      cs_HoldPlayer = False, cs_TransferCancel = None, cs_TransferAccepted = None, cs_TransferDone = None\<rparr>"

definition HandleIncomingCall :: "CallSession \<Rightarrow> Manager \<Rightarrow> Manager" where
  "HandleIncomingCall s st =
     st\<lparr>mg_sessions := mg_sessions st @ [s],
        mg_live := (cs_ID s, length (mg_sessions st)) # filter (\<lambda>(c, _). c \<noteq> cs_ID s) (mg_live st)\<rparr>"

definition signal_or_cleanup :: "nat \<Rightarrow> string \<Rightarrow> (Manager \<Rightarrow> Manager) \<Rightarrow> Manager \<Rightarrow> Manager" where
  "signal_or_cleanup i oc otherwise st =
     (let ch = cs_TransferDone (sess st i); st1 = set_session i (\<lambda>s. s\<lparr>cs_TransferDone := None\<rparr>) st in
      case ch of
        Some k \<Rightarrow> st1\<lparr>mg_done := mg_done st1 @ [(k, oc)]\<rparr>
      | None \<Rightarrow> cleanupSession (cs_ID (sess st1 i)) (otherwise st1))"

section \<open>Starting a transfer\<close>

definition new_row :: "call_io \<Rightarrow> CallSession \<Rightarrow> string \<Rightarrow> string option \<Rightarrow> string option \<Rightarrow> string option \<Rightarrow> call_transfer" where
  "new_row io s account team agent initiator =
     \<lparr>ct_ID = ci_new io, ct_Org = cs_OrganizationID s, ct_CallLogID = cs_CallLogID s,
      ct_WhatsAppCallID = cs_ID s, ct_CallerPhone = cs_CallerPhone s, ct_ContactID = cs_ContactID s,
      ct_WhatsAppAccount = account, ct_Status = ''waiting'', ct_TeamID = team, ct_AgentID = agent,
      ct_InitiatingAgentID = initiator, ct_TransferredAt = ci_now io, ct_ConnectedAt = None,
      ct_CompletedAt = None, ct_HoldDuration = 0, ct_TalkDuration = 0, ct_TriedAgentIDs = []\<rparr>"

definition assigned_agent :: "call_io \<Rightarrow> CallSession \<Rightarrow> agent_db \<Rightarrow> string option" where
  "assigned_agent io s db =
     (case cs_StickyAgentID s of
        Some a \<Rightarrow> Some a
      | None \<Rightarrow>
          if cs_ContactID s = uuid_Nil \<or> ci_err io ''contact'' then None
          else
            (case find (\<lambda>c. c_ID c = cs_ContactID s) (contacts db) of
               None \<Rightarrow> None
             | Some c \<Rightarrow>
                 (case c_AssignedUserID c of
                    None \<Rightarrow> None
                  | Some u \<Rightarrow>
                      if \<not> ci_err io ''agent'' \<and> list_ex (\<lambda>x. u_ID x = u \<and> u_IsAvailable x) (users db)
                      then Some u else None)))"

text \<open>A context with its own timeout, which the session can cancel, and the goroutine that waits for it.\<close>

definition wait_with_timeout :: "nat \<Rightarrow> string \<Rightarrow> Manager \<Rightarrow> Manager" where
  "wait_with_timeout i tid st =
     (let c = length (mg_ctxs st) in
      spawn [ThWaiter i tid c] (set_session i (\<lambda>s. s\<lparr>cs_TransferCancel := Some c\<rparr>) (new_ctx st)))"

definition fresh_accepted :: "nat \<Rightarrow> Manager \<Rightarrow> Manager" where
  "fresh_accepted i st =
     set_session i (\<lambda>s. s\<lparr>cs_TransferAccepted := Some (mg_chans st)\<rparr>) (new_chan st)"

definition initiateTransfer :: "call_io \<Rightarrow> nat \<Rightarrow> string \<Rightarrow> string \<Rightarrow> Manager \<Rightarrow> Manager" where
  "initiateTransfer io i waAccount teamTarget st =
     (let s = sess st i;
          st1 = set_session i (\<lambda>s. s\<lparr>cs_HoldPlayer := True\<rparr>) st;
          team = (if teamTarget = [] then None else ci_uuid io teamTarget)
      in if ci_err io ''create_transfer'' then st1
         else
           (let tid = ci_new io;
                st2 = set_log io ''log_transferring'' (cs_CallLogID s) (\<lambda>l. l\<lparr>cg_Status := ''transferring''\<rparr>)
                        (add_row (new_row io s waAccount team None None) st1);
                st3 = set_session i (\<lambda>s. s\<lparr>cs_TransferID := tid, cs_TransferStatus := ''waiting''\<rparr>) st2
            in case assigned_agent io s (mg_db st3) of
                 Some a \<Rightarrow>
                   (let c = length (mg_ctxs st3);
                        st4 = fresh_accepted i (set_session i (\<lambda>s. s\<lparr>cs_TransferCancel := Some c\<rparr>) (new_ctx st3))
                    in spawn [ThAssigned i tid team (mg_chans st3) c] (emit_ev [EvRing tid a] st4))
               | None \<Rightarrow>
                   (case team of
                      Some t \<Rightarrow> spawn [ThStartRotation i tid t] (fresh_accepted i st3)
                    | None \<Rightarrow> emit_ev [EvRingAll tid] (wait_with_timeout i tid st3))))"

definition hold_track :: "CallSession \<Rightarrow> bool" where
  "hold_track s = (if cs_Direction s = ''outgoing'' then cs_WAAudioTrack s else cs_AudioTrack s)"

text \<open>The second half begins once the old bridge has stopped.\<close>

definition InitiateAgentTransfer ::
    "string \<Rightarrow> string \<Rightarrow> string option \<Rightarrow> string option \<Rightarrow> Manager \<Rightarrow> string + Manager" where
  "InitiateAgentTransfer callLogID agent team target st =
     (case GetSessionByCallLogID callLogID st of
        None \<Rightarrow> Inl ''no active session for call log''
      | Some i \<Rightarrow>
          if cs_TransferStatus (sess st i) = ''waiting'' then Inl ''call is already being transferred''
          else if \<not> hold_track (sess st i) then Inl ''no caller audio track available for hold music''
          else Inr (spawn [ThAgentTransfer i agent team target]
                 (set_session i (\<lambda>s. s\<lparr>cs_HoldPlayer := True, cs_Bridge := False, cs_AgentPC := False,
                    cs_TransferID := uuid_Nil, cs_TransferStatus := ''waiting''\<rparr>) st)))"

definition agent_transfer_created ::
    "call_io \<Rightarrow> nat \<Rightarrow> string \<Rightarrow> string option \<Rightarrow> string option \<Rightarrow> Manager \<Rightarrow> Manager" where
  "agent_transfer_created io i agent team target st =
     (let s = sess st i in
      if ci_err io ''create_transfer'' then emit_ev [EvReply agent 500] st
      else
        (let tid = ci_new io;
             st1 = set_log io ''log_transferring'' (cs_CallLogID s) (\<lambda>l. l\<lparr>cg_Status := ''transferring''\<rparr>)
                     (add_row (new_row io s (cs_AccountName s) team target (Some agent)) st);
             st2 = set_session i (\<lambda>s. s\<lparr>cs_TransferID := tid\<rparr>) st1
         in emit_ev [EvReply agent 200]
              (case target of
                 Some a \<Rightarrow> emit_ev [EvRing tid a] (wait_with_timeout i tid st2)
               | None \<Rightarrow>
                   (case team of
                      Some t \<Rightarrow> spawn [ThStartRotation i tid t] (fresh_accepted i st2)
                    | None \<Rightarrow> emit_ev [EvRingAll tid] (wait_with_timeout i tid st2)))))"

section \<open>Nobody answers\<close>

definition handleTransferNoAnswer :: "nat \<Rightarrow> string \<Rightarrow> nat option \<Rightarrow> Manager \<Rightarrow> Manager" where
  "handleTransferNoAnswer i tid deadline st =
     (if cs_TransferStatus (sess st i) \<noteq> ''waiting'' then finish_ctx CtxCanceled deadline st
      else spawn [ThNoAnswer i tid deadline] (set_session i (\<lambda>s. s\<lparr>cs_TransferStatus := ''no_answer''\<rparr>) st))"

definition no_answer_rest :: "call_io \<Rightarrow> nat \<Rightarrow> string \<Rightarrow> nat option \<Rightarrow> Manager \<Rightarrow> Manager" where
  "no_answer_rest io i tid deadline st =
     (let st1 = set_row io ''row_no_answer'' tid
                  (\<lambda>t. t\<lparr>ct_Status := ''no_answer'', ct_CompletedAt := Some (ci_now io)\<rparr>) st;
          st2 = set_log io ''log_system'' (cs_CallLogID (sess st i)) (\<lambda>l. l\<lparr>cg_DisconnectedBy := ''system''\<rparr>) st1
      in finish_ctx CtxCanceled deadline
           (signal_or_cleanup i ''no_answer'' (\<lambda>x. x) (emit_ev [EvNoAnswer tid] st2)))"

section \<open>The rotation over a team\<close>

definition start_rotation :: "call_io \<Rightarrow> nat \<Rightarrow> string \<Rightarrow> string \<Rightarrow> Manager \<Rightarrow> Manager" where
  "start_rotation io i tid team st =
     (let st1 = st\<lparr>mg_db := snd (GetTeamConfig (ci_agents io) team (mg_db st))\<rparr>; c = length (mg_ctxs st1) in
      spawn [ThRotation i tid team [] c]
        (set_session i (\<lambda>s. s\<lparr>cs_TransferCancel := Some c\<rparr>) (new_ctx st1)))"

definition rotation_fallback :: "call_io \<Rightarrow> nat \<Rightarrow> string \<Rightarrow> string \<Rightarrow> string list \<Rightarrow> nat \<Rightarrow> Manager \<Rightarrow> Manager" where
  "rotation_fallback io i tid team tried deadline st =
     (let org = cs_OrganizationID (sess st i) in
      if cs_TransferStatus (sess st i) \<noteq> ''waiting'' then finish_ctx CtxCanceled (Some deadline) st
      else
        (let (available, db') = GetAvailableAgents (ci_agents io) team tried (mg_db st);
             st1 = st\<lparr>mg_db := db'\<rparr>;
             remaining = FilterOnlineUsers org available (ci_hub io)
         in if remaining = [] then handleTransferNoAnswer i tid (Some deadline) st1
            else spawn [ThBroadcast i tid deadline (cs_TransferAccepted (sess st1 i))]
                   (emit_ev [EvRingTeam tid remaining]
                     (set_row io ''row_clear'' tid (\<lambda>t. t\<lparr>ct_AgentID := None\<rparr>) st1))))"

definition rotation_head :: "call_io \<Rightarrow> nat \<Rightarrow> string \<Rightarrow> string \<Rightarrow> string list \<Rightarrow> nat \<Rightarrow> Manager \<Rightarrow> Manager" where
  "rotation_head io i tid team tried deadline st =
     (let org = cs_OrganizationID (sess st i) in
      if ctx_of st deadline \<noteq> CtxLive then rotation_fallback io i tid team tried deadline st
      else if cs_TransferStatus (sess st i) \<noteq> ''waiting'' then finish_ctx CtxCanceled (Some deadline) st
      else
        (case AssignToTeam (ci_agents io) team org tried CallLoadCounter (mg_db st) of
           (None, db') \<Rightarrow> rotation_fallback io i tid team tried deadline (st\<lparr>mg_db := db'\<rparr>)
         | (Some a, db') \<Rightarrow>
             (let st1 = st\<lparr>mg_db := db'\<rparr>; tried' = tried @ [a] in
              if \<not> IsUserOnline org a (ci_hub io) then spawn [ThRotation i tid team tried' deadline] st1
              else spawn [ThRinging i tid team tried' deadline a (cs_TransferAccepted (sess st1 i))]
                     (emit_ev [EvOffer tid a]
                       (set_row io ''row_agent'' tid
                         (\<lambda>t. t\<lparr>ct_AgentID := Some a, ct_TriedAgentIDs := tried'\<rparr>) st1)))))"

definition ringing ::
    "call_io \<Rightarrow> nat \<Rightarrow> string \<Rightarrow> string \<Rightarrow> string list \<Rightarrow> nat \<Rightarrow> string \<Rightarrow> nat option \<Rightarrow> Manager \<Rightarrow> Manager" where
  "ringing io i tid team tried deadline a accepted st =
     (if ci_branch io = 1 \<and> closed_chan accepted st then finish_ctx CtxCanceled (Some deadline) st
      else
        (let st1 = set_row io ''row_clear'' tid (\<lambda>t. t\<lparr>ct_AgentID := None\<rparr>) (emit_ev [EvReassigned tid a] st) in
         if ci_branch io = 2 \<and> ctx_of st deadline \<noteq> CtxLive then rotation_fallback io i tid team tried deadline st1
         else spawn [ThRotation i tid team tried deadline] st1))"

definition broadcast_wait :: "call_io \<Rightarrow> nat \<Rightarrow> string \<Rightarrow> nat \<Rightarrow> nat option \<Rightarrow> Manager \<Rightarrow> Manager" where
  "broadcast_wait io i tid deadline accepted st =
     (if closed_chan accepted st \<and> (ci_branch io = 1 \<or> ctx_of st deadline = CtxLive)
      then finish_ctx CtxCanceled (Some deadline) st
      else if ctx_of st deadline = CtxDeadlineExceeded then handleTransferNoAnswer i tid (Some deadline) st
      else if ctx_of st deadline = CtxCanceled then st
      else spawn [ThBroadcast i tid deadline accepted] st)"

definition waitForTransferTimeout :: "nat \<Rightarrow> string \<Rightarrow> nat \<Rightarrow> Manager \<Rightarrow> Manager" where
  "waitForTransferTimeout i tid c st =
     (if ctx_of st c = CtxLive then spawn [ThWaiter i tid c] st
      else if ctx_of st c = CtxDeadlineExceeded then handleTransferNoAnswer i tid None st
      else st)"

text \<open>The goroutine that rings one agent first.\<close>

definition assigned_wait :: "call_io \<Rightarrow> nat \<Rightarrow> string \<Rightarrow> string option \<Rightarrow> nat \<Rightarrow> nat \<Rightarrow> Manager \<Rightarrow> Manager" where
  "assigned_wait io i tid team accepted c st =
     (if accepted \<in> set (mg_closed st) \<and> (ci_branch io = 1 \<or> ctx_of st c = CtxLive)
      then finish_ctx CtxCanceled (Some c) st
      else if ctx_of st c = CtxLive then spawn [ThAssigned i tid team accepted c] st
      else if cs_TransferStatus (sess st i) = ''connected'' then st
      else
        (case team of
           Some t \<Rightarrow> spawn [ThStartRotation i tid t] (fresh_accepted i st)
         | None \<Rightarrow> fresh_accepted i (emit_ev [EvRingAll tid] (wait_with_timeout i tid st))))"

section \<open>An agent accepts\<close>

definition revert_claim :: "call_io \<Rightarrow> string \<Rightarrow> string \<Rightarrow> Manager \<Rightarrow> Manager" where
  "revert_claim io tid agent st =
     emit_ev [EvReply agent 500]
       (set_row io ''row_revert'' tid
         (\<lambda>t. if ct_Status t = ''connected'' then t\<lparr>ct_Status := ''waiting''\<rparr> else t) st)"

text \<open>
  The session is looked up first; its status is read and set under its own lock, later. An error goes
  back to the handler, which reverts its claim of the row.
\<close>

definition ConnectAgentToTransfer :: "call_io \<Rightarrow> string \<Rightarrow> string \<Rightarrow> Manager \<Rightarrow> Manager" where
  "ConnectAgentToTransfer io tid agent st =
     (case findSessionByTransferID tid st of
        None \<Rightarrow> revert_claim io tid agent st
      | Some i \<Rightarrow> spawn [ThFound i tid agent] st)"

definition claim_session :: "call_io \<Rightarrow> nat \<Rightarrow> string \<Rightarrow> string \<Rightarrow> Manager \<Rightarrow> Manager" where
  "claim_session io i tid agent st =
     (if cs_TransferStatus (sess st i) \<noteq> ''waiting'' then revert_claim io tid agent st
      else spawn [ThSetup i tid agent]
             (emit_ev [EvTaken tid agent]
               (safeClose (cs_TransferAccepted (sess st i))
                 (set_session i (\<lambda>s. s\<lparr>cs_TransferStatus := ''connected''\<rparr>) st))))"

definition agent_setup :: "call_io \<Rightarrow> nat \<Rightarrow> string \<Rightarrow> string \<Rightarrow> Manager \<Rightarrow> Manager" where
  "agent_setup io i tid agent st =
     (if \<not> ci_webrtc io then revert_claim io tid agent st
      else emit_ev [EvReply agent 200]
             (spawn [ThCompleting i tid agent] (set_session i (\<lambda>s. s\<lparr>cs_AgentPC := True\<rparr>) st)))"

text \<open>\<open>byAgent\<close>: the call log that the hangup request marks once \<open>EndTransfer\<close> is back.\<close>

definition mark_agent_hangup :: "call_io \<Rightarrow> string option \<Rightarrow> Manager \<Rightarrow> Manager" where
  "mark_agent_hangup io logID st =
     (case logID of None \<Rightarrow> st
      | Some l \<Rightarrow> set_log io ''log_hangup'' l (\<lambda>l. l\<lparr>cg_DisconnectedBy := ''agent''\<rparr>) st)"

definition EndTransfer :: "call_io \<Rightarrow> string \<Rightarrow> string option \<Rightarrow> Manager \<Rightarrow> Manager" where
  "EndTransfer io tid byAgent st =
     (case findSessionByTransferID tid st of
        None \<Rightarrow> mark_agent_hangup io byAgent st
      | Some i \<Rightarrow> spawn [ThEndFound i tid byAgent] st)"

definition end_session :: "call_io \<Rightarrow> nat \<Rightarrow> string \<Rightarrow> string option \<Rightarrow> Manager \<Rightarrow> Manager" where
  "end_session io i tid byAgent st =
     (let s = sess st i in
      if cs_TransferStatus s = ''completed'' then mark_agent_hangup io byAgent st
      else spawn [ThEnd i tid (cs_TransferCancel s) byAgent]
             (set_session i (\<lambda>s. s\<lparr>cs_TransferStatus := ''completed'', cs_Bridge := False,
                cs_HoldPlayer := False, cs_TransferCancel := None, cs_AgentPC := False\<rparr>) st))"

definition completeTransferConnection :: "call_io \<Rightarrow> nat \<Rightarrow> string \<Rightarrow> string \<Rightarrow> Manager \<Rightarrow> Manager" where
  "completeTransferConnection io i tid agent st =
     (if ci_branch io = 1 then EndTransfer io tid None st
      else spawn [ThRecord i tid agent]
             (set_session i (\<lambda>s. s\<lparr>cs_TransferStatus := ''connected'', cs_Bridge := True\<rparr>)
               (finish_ctx CtxCanceled (cs_TransferCancel (sess st i))
                 (set_session i (\<lambda>s. s\<lparr>cs_HoldPlayer := False\<rparr>) st))))"

definition record_connection :: "call_io \<Rightarrow> nat \<Rightarrow> string \<Rightarrow> string \<Rightarrow> Manager \<Rightarrow> Manager" where
  "record_connection io i tid agent st =
     set_log io ''log_agent'' (cs_CallLogID (sess st i)) (\<lambda>l. l\<lparr>cg_AgentID := Some agent\<rparr>)
       (set_row io ''row_connected'' tid
         (\<lambda>t. t\<lparr>ct_Status := ''connected'', ct_AgentID := Some agent, ct_ConnectedAt := Some (ci_now io)\<rparr>) st)"

section \<open>The end of a transfer\<close>

definition end_rest :: "call_io \<Rightarrow> nat \<Rightarrow> string \<Rightarrow> nat option \<Rightarrow> string option \<Rightarrow> Manager \<Rightarrow> Manager" where
  "end_rest io i tid cancel byAgent st =
     (let st1 = finish_ctx CtxCanceled cancel st; now = ci_now io in
      mark_agent_hangup io byAgent
        (case (if ci_err io ''find_transfer'' then None else row_of tid st1) of
           None \<Rightarrow> st1
         | Some t \<Rightarrow>
             (let talk = durationSince (ct_ConnectedAt t) now;
                  hold = (case ct_ConnectedAt t of
                            Some c \<Rightarrow> whole_seconds (c - ct_TransferredAt t)
                          | None \<Rightarrow> whole_seconds (now - ct_TransferredAt t));
                  st2 = set_row io ''row_completed'' tid
                          (\<lambda>t. t\<lparr>ct_Status := ''completed'', ct_CompletedAt := Some now,
                                 ct_HoldDuration := hold, ct_TalkDuration := talk\<rparr>) st1
              in signal_or_cleanup i ''completed''
                   (if ci_err io ''account'' then \<lambda>x. x else emit_ev [EvTerminate (cs_ID (sess st i))])
                   (emit_ev [EvCompleted tid hold talk] st2))))"

definition HandleCallerHangupDuringTransfer :: "nat \<Rightarrow> Manager \<Rightarrow> Manager" where
  "HandleCallerHangupDuringTransfer i st =
     (let s = sess st i in
      if cs_TransferID s = uuid_Nil \<or> cs_TransferStatus s \<noteq> ''waiting'' then st
      else spawn [ThHangup i (cs_TransferID s)] st)"

definition hangup_rest :: "call_io \<Rightarrow> nat \<Rightarrow> string \<Rightarrow> Manager \<Rightarrow> Manager" where
  "hangup_rest io i tid st =
     (let st1 = set_log io ''log_client'' (cs_CallLogID (sess st i)) (\<lambda>l. l\<lparr>cg_DisconnectedBy := ''client''\<rparr>)
                  (set_row io ''row_abandoned'' tid
                    (\<lambda>t. t\<lparr>ct_Status := ''abandoned'', ct_CompletedAt := Some (ci_now io)\<rparr>) st);
          st2 = set_session i (\<lambda>s. s\<lparr>cs_TransferStatus := ''abandoned''\<rparr>) st1;
          st3 = safeClose (cs_TransferAccepted (sess st2 i))
                  (finish_ctx CtxCanceled (cs_TransferCancel (sess st2 i)) st2)
      in signal_or_cleanup i ''abandoned'' (\<lambda>x. x) (emit_ev [EvAbandoned tid] st3))"

definition HandleCallEvent :: "call_io \<Rightarrow> string \<Rightarrow> string \<Rightarrow> Manager \<Rightarrow> Manager" where
  "HandleCallEvent io callID event st =
     (case GetSession callID st of
        None \<Rightarrow> st
      | Some i \<Rightarrow>
          if event \<in> {''in_call'', ''connect''} then set_session i (\<lambda>s. s\<lparr>cs_Status := ''answered''\<rparr>) st
          else if event \<in> {''ended'', ''terminate'', ''missed'', ''unanswered''} then
            (if cs_TransferStatus (sess st i) = ''waiting'' then HandleCallerHangupDuringTransfer i st
             else if cs_TransferStatus (sess st i) = ''connected'' then EndTransfer io (cs_TransferID (sess st i)) None st
             else cleanupSession callID (set_session i (\<lambda>s. s\<lparr>cs_Status := ''completed''\<rparr>) st))
          else st)"

section \<open>Hold and resume\<close>

definition HoldCall :: "string \<Rightarrow> Manager \<Rightarrow> string + Manager" where
  "HoldCall callLogID st =
     (case GetSessionByCallLogID callLogID st of
        None \<Rightarrow> Inl ''no active session for call log''
      | Some i \<Rightarrow>
          if cs_HoldPlayer (sess st i) then Inl ''call is already on hold''
          else if \<not> cs_Bridge (sess st i) then Inl ''no active audio bridge''
          else if \<not> hold_track (sess st i) then Inl ''no caller audio track available for hold music''
          else Inr (emit_ev [EvHold callLogID]
                 (set_session i (\<lambda>s. s\<lparr>cs_Bridge := False, cs_HoldPlayer := True\<rparr>) st)))"

definition ResumeCall :: "string \<Rightarrow> Manager \<Rightarrow> string + Manager" where
  "ResumeCall callLogID st =
     (case GetSessionByCallLogID callLogID st of
        None \<Rightarrow> Inl ''no active session for call log''
      | Some i \<Rightarrow>
          if \<not> cs_HoldPlayer (sess st i) then Inl ''call is not on hold''
          else Inr (emit_ev [EvResumed callLogID]
                 (set_session i (\<lambda>s. s\<lparr>cs_HoldPlayer := False, cs_Bridge := True\<rparr>) st)))"

end
