(* ===== verification/Call_Steps.thy ===== *)
theory Call_Steps
  imports Calls
begin

text \<open>
  The requests and webhooks that reach the call manager (\<open>handlers/call_transfers.go\<close>,
  \<open>handlers/call_webhook.go\<close>), and the steps of the whole: a request comes in, a deadline passes, or
  a thread runs to its next waiting point. \<open>call_run\<close> is any interleaving of them.
\<close>

section \<open>Requests\<close>

definition team_member :: "string \<Rightarrow> string \<Rightarrow> Manager \<Rightarrow> bool" where
  "team_member team user st \<longleftrightarrow>
     list_ex (\<lambda>m. m_TeamID m = team \<and> m_UserID m = user) (members (mg_db st))"

text \<open>
  The checks of \<open>ConnectCallTransfer\<close> on the row it has read; \<open>offer\<close> is the \<open>sdp_offer\<close> of the body,
  \<open>None\<close> a body that cannot be decoded.
\<close>

definition ConnectCallTransfer :: "string \<Rightarrow> string \<Rightarrow> bool \<Rightarrow> string \<Rightarrow> string option \<Rightarrow> Manager \<Rightarrow> Manager" where
  "ConnectCallTransfer org user super tid offer st =
     (case find (\<lambda>t. ct_ID t = tid \<and> ct_Org t = org) (call_transfers (mg_db st)) of
        None \<Rightarrow> emit_ev [EvReply user 404] st
      | Some t \<Rightarrow>
          if ct_Status t \<noteq> ''waiting'' then emit_ev [EvReply user 409] st
          else if ct_AgentID t \<noteq> None \<and> ct_AgentID t \<noteq> Some user \<and> ct_TeamID t = None
            then emit_ev [EvReply user 403] st
          else if \<not> super \<and> (case ct_TeamID t of None \<Rightarrow> False | Some team \<Rightarrow> \<not> team_member team user st)
            then emit_ev [EvReply user 403] st
          else spawn [ThAccept tid user offer] st)"

text \<open>The claim of the row, one conditional \<open>UPDATE\<close>.\<close>

definition claim_row :: "call_io \<Rightarrow> string \<Rightarrow> string \<Rightarrow> string option \<Rightarrow> Manager \<Rightarrow> Manager" where
  "claim_row io tid user offer st =
     (if ci_err io ''claim'' \<or> \<not> list_ex (\<lambda>t. ct_ID t = tid \<and> ct_Status t = ''waiting'') (call_transfers (mg_db st))
      then emit_ev [EvReply user 409] st
      else spawn [ThAccepted tid user offer]
             (st\<lparr>mg_db := (mg_db st)\<lparr>call_transfers :=
                update_by ct_ID tid (\<lambda>t. if ct_Status t = ''waiting'' then t\<lparr>ct_Status := ''connected''\<rparr> else t)
                  (call_transfers (mg_db st))\<rparr>\<rparr>))"

definition after_claim :: "call_io \<Rightarrow> string \<Rightarrow> string \<Rightarrow> string option \<Rightarrow> Manager \<Rightarrow> Manager" where
  "after_claim io tid user offer st =
     (case offer of
        None \<Rightarrow> emit_ev [EvReply user 400] st
      | Some sdp \<Rightarrow>
          if sdp = [] then emit_ev [EvReply user 400] st else ConnectAgentToTransfer io tid user st)"

definition HangupCallTransfer :: "call_io \<Rightarrow> string \<Rightarrow> string \<Rightarrow> string \<Rightarrow> Manager \<Rightarrow> Manager" where
  "HangupCallTransfer io org user tid st =
     (case find (\<lambda>t. ct_ID t = tid \<and> ct_Org t = org) (call_transfers (mg_db st)) of
        None \<Rightarrow> emit_ev [EvReply user 404] st
      | Some t \<Rightarrow> emit_ev [EvReply user 200] (EndTransfer io tid (Some (ct_CallLogID t)) st))"

text \<open>The team must belong to the organisation of the caller and the agent to the team.\<close>

definition request_agent_transfer ::
    "call_io \<Rightarrow> string \<Rightarrow> string \<Rightarrow> string \<Rightarrow> string \<Rightarrow> string \<Rightarrow> Manager \<Rightarrow> Manager" where
  "request_agent_transfer io org user callLog team agent st =
     (if callLog = [] \<or> team = [] then emit_ev [EvReply user 400] st
      else
        (case (ci_uuid io callLog, ci_uuid io team) of
           (Some logID, Some teamID) \<Rightarrow>
             if \<not> list_ex (\<lambda>t. tm_ID t = teamID \<and> tm_Org t = org) (teams (mg_db st))
               then emit_ev [EvReply user 404] st
             else
               (case (if agent = [] then Some None else map_option Some (ci_uuid io agent)) of
                  None \<Rightarrow> emit_ev [EvReply user 400] st
                | Some target \<Rightarrow>
                    if (case target of None \<Rightarrow> False | Some a \<Rightarrow> \<not> team_member teamID a st)
                      then emit_ev [EvReply user 400] st
                    else (case InitiateAgentTransfer logID user (Some teamID) target st of
                            Inl e \<Rightarrow> emit_ev [EvReply user 500] st
                          | Inr st' \<Rightarrow> st'))
         | _ \<Rightarrow> emit_ev [EvReply user 400] st))"

definition hold_request :: "string \<Rightarrow> string \<Rightarrow> Manager \<Rightarrow> Manager" where
  "hold_request user logID st =
     (case HoldCall logID st of
        Inl e \<Rightarrow> emit_ev [EvReply user 400] st
      | Inr st' \<Rightarrow> emit_ev [EvReply user 200] st')"

definition resume_request :: "string \<Rightarrow> string \<Rightarrow> Manager \<Rightarrow> Manager" where
  "resume_request user logID st =
     (case ResumeCall logID st of
        Inl e \<Rightarrow> emit_ev [EvReply user 400] st
      | Inr st' \<Rightarrow> emit_ev [EvReply user 200] st')"

section \<open>The call webhook\<close>

text \<open>An event of a call that the customer started; the log row exists or is created.\<close>

record call_event_in =
  ce_ID :: string
  ce_Event :: string
  ce_SDP :: string
  ce_Org :: string
  ce_Account :: string
  ce_From :: string
  ce_Contact :: string
  ce_Sticky :: "string option"
  ce_HasError :: bool

definition getOrCreateCallLog :: "call_io \<Rightarrow> call_event_in \<Rightarrow> Manager \<Rightarrow> call_log_row option \<times> Manager" where
  "getOrCreateCallLog io ce st =
     (case find (\<lambda>l. cg_WhatsAppCallID l = ce_ID ce \<and> cg_Org l = ce_Org ce) (mg_logs st) of
        Some l \<Rightarrow> (Some l, st)
      | None \<Rightarrow>
          if ci_err io ''create_log'' then (None, st)
          else
            (let l = \<lparr>cg_ID = ci_new io, cg_WhatsAppCallID = ce_ID ce, cg_Org = ce_Org ce,
                      cg_Direction = ''incoming'', cg_Status = ''ringing'', cg_AgentID = None, cg_DisconnectedBy = []\<rparr>
             in (Some l, st\<lparr>mg_logs := mg_logs st @ [l]\<rparr>)))"

definition final_status :: "call_log_row \<Rightarrow> string" where
  "final_status l =
     (if cg_Direction l = ''incoming'' \<and> cg_AgentID l = None \<and> cg_Status l \<noteq> ''transferring''
      then ''missed'' else ''completed'')"

definition processCallWebhook :: "call_io \<Rightarrow> call_event_in \<Rightarrow> Manager \<Rightarrow> Manager" where
  "processCallWebhook io ce st =
     (if ce_From ce = [] then st
      else
        (case getOrCreateCallLog io ce st of
           (None, st1) \<Rightarrow> st1
         | (Some l, st1) \<Rightarrow>
             (let st2 =
                (if ce_Event ce = ''ringing'' then emit_ev [EvIncoming (ce_ID ce) (ce_Sticky ce)] st1
                 else if ce_Event ce = ''connect'' then
                   (let st3 = set_log io ''log_answered'' (cg_ID l) (\<lambda>l. l\<lparr>cg_Status := ''answered''\<rparr>) st1 in
                    emit_ev [EvAnswered (ce_ID ce)]
                     (if \<not> ci_enabled io \<or> ce_SDP ce = [] then st3
                      else case GetSession (ce_ID ce) st3 of
                            None \<Rightarrow> HandleIncomingCall
                              (fresh_session (ce_ID ce) (ce_Org ce) (ce_Account ce) (ce_From ce) (ce_Contact ce)
                                 (cg_ID l) (ce_Sticky ce)) st3
                          | Some i \<Rightarrow> HandleCallEvent io (ce_ID ce) (ce_Event ce) st3))
                 else if ce_Event ce = ''in_call'' then
                   (let st3 = set_log io ''log_answered'' (cg_ID l) (\<lambda>l. l\<lparr>cg_Status := ''answered''\<rparr>) st1
                    in emit_ev [EvAnswered (ce_ID ce)]
                         (if ci_enabled io then HandleCallEvent io (ce_ID ce) (ce_Event ce) st3 else st3))
                 else if ce_Event ce \<in> {''ended'', ''terminate''} then
                   emit_ev [EvCallEnded (ce_ID ce) (final_status l)]
                     (EndCall (ce_ID ce)
                       (set_log io ''log_ended'' (cg_ID l)
                         (\<lambda>r. r\<lparr>cg_Status := final_status l,
                                cg_DisconnectedBy := (if cg_DisconnectedBy l = [] then ''client'' else cg_DisconnectedBy r)\<rparr>) st1))
                 else if ce_Event ce \<in> {''missed'', ''unanswered''} then
                   emit_ev [EvCallEnded (ce_ID ce) ''missed'']
                     (set_log io ''log_missed'' (cg_ID l)
                       (\<lambda>l. l\<lparr>cg_Status := ''missed'', cg_DisconnectedBy := ''client''\<rparr>) st1)
                 else st1)
              in if ce_HasError ce \<and> \<not> ci_err io ''log_failed''
                 then st2\<lparr>mg_logs := map (\<lambda>r. if cg_WhatsAppCallID r = ce_ID ce \<and> cg_Org r = ce_Org ce
                                            then r\<lparr>cg_Status := ''failed'', cg_DisconnectedBy := ''system''\<rparr> else r)
                                      (mg_logs st2)\<rparr>
                 else st2)))"

section \<open>Threads\<close>

fun run_thread :: "call_io \<Rightarrow> call_thread \<Rightarrow> Manager \<Rightarrow> Manager" where
  "run_thread io (ThAssigned i tid team acc c) st = assigned_wait io i tid team acc c st"
| "run_thread io (ThStartRotation i tid team) st = start_rotation io i tid team st"
| "run_thread io (ThRotation i tid team tried d) st = rotation_head io i tid team tried d st"
| "run_thread io (ThRinging i tid team tried d a acc) st = ringing io i tid team tried d a acc st"
| "run_thread io (ThBroadcast i tid d acc) st = broadcast_wait io i tid d acc st"
| "run_thread io (ThWaiter i tid c) st = waitForTransferTimeout i tid c st"
| "run_thread io (ThNoAnswer i tid d) st = no_answer_rest io i tid d st"
| "run_thread io (ThAgentTransfer i agent team target) st = agent_transfer_created io i agent team target st"
| "run_thread io (ThAccept tid user offer) st = claim_row io tid user offer st"
| "run_thread io (ThAccepted tid user offer) st = after_claim io tid user offer st"
| "run_thread io (ThFound i tid agent) st = claim_session io i tid agent st"
| "run_thread io (ThSetup i tid agent) st = agent_setup io i tid agent st"
| "run_thread io (ThCompleting i tid agent) st = completeTransferConnection io i tid agent st"
| "run_thread io (ThRecord i tid agent) st = record_connection io i tid agent st"
| "run_thread io (ThEndFound i tid byAgent) st = end_session io i tid byAgent st"
| "run_thread io (ThEnd i tid cancel byAgent) st = end_rest io i tid cancel byAgent st"
| "run_thread io (ThHangup i tid) st = hangup_rest io i tid st"
| "run_thread io (ThCleanup i) st = cleanup_rest io i st"

definition take_thread :: "nat \<Rightarrow> Manager \<Rightarrow> Manager" where
  "take_thread n st = st\<lparr>mg_threads := take n (mg_threads st) @ drop (Suc n) (mg_threads st)\<rparr>"

datatype call_op =
    OpWebhook call_event_in
  | OpMedia string
  | OpCallerLost string
  | OpTransfer string string bool
  | OpConnect string string bool string "string option"
  | OpHangup string string string
  | OpAgentTransfer string string string string string
  | OpHold string string
  | OpResume string string
  | OpAgentLost string
  | OpDeadline nat
  | OpRun nat

text \<open>
  \<open>OpMedia\<close>: the caller's audio connection stands (\<open>negotiateWebRTC\<close>); \<open>OpCallerLost\<close>: it broke off.
  \<open>OpTransfer\<close> is a transfer node of the voice menu, with its outcome channel when the menu goes on
  afterwards. \<open>OpAgentLost\<close>: the agent's connection failed.
\<close>

fun call_step :: "call_io \<Rightarrow> call_op \<Rightarrow> Manager \<Rightarrow> Manager" where
  "call_step io (OpWebhook ce) st = processCallWebhook io ce st"
| "call_step io (OpMedia callID) st =
     (case GetSession callID st of
        None \<Rightarrow> st
      | Some i \<Rightarrow>
          (let st1 = set_session i (\<lambda>s. s\<lparr>cs_AudioTrack := True, cs_Status := ''answered''\<rparr>) st in
           if cs_StickyAgentID (sess st i) \<noteq> None then initiateTransfer io i (cs_AccountName (sess st i)) [] st1
           else st1))"
| "call_step io (OpCallerLost callID) st = EndCall callID st"
| "call_step io (OpTransfer callID team goesOn) st =
     (case GetSession callID st of
        None \<Rightarrow> st
      | Some i \<Rightarrow>
          initiateTransfer io i (cs_AccountName (sess st i)) team
            (if goesOn
             then set_session i (\<lambda>s. s\<lparr>cs_TransferDone := Some (mg_chans st)\<rparr>) (new_chan st)
             else st))"
| "call_step io (OpConnect org user super tid offer) st = ConnectCallTransfer org user super tid offer st"
| "call_step io (OpHangup org user tid) st = HangupCallTransfer io org user tid st"
| "call_step io (OpAgentTransfer org user callLog team agent) st =
     request_agent_transfer io org user callLog team agent st"
| "call_step io (OpHold user logID) st = hold_request user logID st"
| "call_step io (OpResume user logID) st = resume_request user logID st"
| "call_step io (OpAgentLost tid) st = EndTransfer io tid None st"
| "call_step io (OpDeadline c) st = finish_ctx CtxDeadlineExceeded (Some c) st"
| "call_step io (OpRun n) st =
     (if n < length (mg_threads st) then run_thread io (mg_threads st ! n) (take_thread n st) else st)"

definition call_run :: "(call_io \<times> call_op) list \<Rightarrow> Manager \<Rightarrow> Manager" where
  "call_run ops st = fold (\<lambda>(io, op). call_step io op) ops st"

end
