(* ===== verification/Call_Facts.thy ===== *)
theory Call_Facts
  imports Call_Steps
begin

text \<open>
  What a step of the call manager can change. The invariants of \<open>Call_Reach\<close> look at the state through
  two relations, \<open>ask_view\<close> (who is asked) and \<open>claim_view\<close> (who takes a transfer); the locale
  \<open>call_view\<close> holds their laws and shows once that most steps respect both.
\<close>

section \<open>What is looked at\<close>

definition row_ids :: "Manager \<Rightarrow> string set" where
  "row_ids st = ct_ID ` set (call_transfers (mg_db st))"

definition open_rows :: "Manager \<Rightarrow> string set" where
  "open_rows st = ct_ID ` {t \<in> set (call_transfers (mg_db st)). ct_Status t = ''waiting''}"

definition takes :: "Manager \<Rightarrow> string list" where
  "takes st = concat (map (\<lambda>e. case e of EvTaken tid a \<Rightarrow> [tid] | _ \<Rightarrow> []) (mg_events st))"

definition offers :: "string \<Rightarrow> Manager \<Rightarrow> string list" where
  "offers tid st = concat (map (\<lambda>e. case e of EvOffer t a \<Rightarrow> (if t = tid then [a] else []) | _ \<Rightarrow> []) (mg_events st))"

text \<open>The threads that ask the agents of a team, or will, and whom they have asked.\<close>

fun asks :: "call_thread \<Rightarrow> string option" where
  "asks (ThAssigned i tid team acc c) = Some tid"
| "asks (ThStartRotation i tid team) = Some tid"
| "asks (ThRotation i tid team tried d) = Some tid"
| "asks (ThRinging i tid team tried d a acc) = Some tid"
| "asks _ = None"

fun asked :: "call_thread \<Rightarrow> string list" where
  "asked (ThRotation i tid team tried d) = tried"
| "asked (ThRinging i tid team tried d a acc) = tried"
| "asked _ = []"

text \<open>The requests that hold the claim of a row.\<close>

fun holds :: "call_thread \<Rightarrow> string option" where
  "holds (ThAccepted tid user offer) = Some tid"
| "holds (ThFound i tid user) = Some tid"
| "holds _ = None"

fun quiet_event :: "call_event \<Rightarrow> bool" where
  "quiet_event (EvTaken tid a) = False"
| "quiet_event (EvOffer tid a) = False"
| "quiet_event _ = True"

text \<open>The parts of the state that a primitive leaves alone.\<close>

lemma emit_fields [simp]:
  "mg_sessions (emit_ev es s) = mg_sessions s" "mg_live (emit_ev es s) = mg_live s" "mg_ctxs (emit_ev es s) = mg_ctxs s"
  "mg_closed (emit_ev es s) = mg_closed s" "mg_db (emit_ev es s) = mg_db s" "mg_done (emit_ev es s) = mg_done s"
  "mg_chans (emit_ev es s) = mg_chans s" "mg_threads (emit_ev es s) = mg_threads s" "sess (emit_ev es s) = sess s"
  by (simp_all add: emit_ev_def sess_def fun_eq_iff)

lemma row_fields [simp]:
  "mg_sessions (set_row io l tid f s) = mg_sessions s" "mg_live (set_row io l tid f s) = mg_live s"
  "mg_ctxs (set_row io l tid f s) = mg_ctxs s" "mg_closed (set_row io l tid f s) = mg_closed s"
  "mg_done (set_row io l tid f s) = mg_done s" "mg_threads (set_row io l tid f s) = mg_threads s"
  "mg_events (set_row io l tid f s) = mg_events s" "sess (set_row io l tid f s) = sess s"
  by (simp_all add: set_row_def sess_def fun_eq_iff)

lemma log_fields [simp]:
  "mg_sessions (set_log io l k g s) = mg_sessions s" "mg_live (set_log io l k g s) = mg_live s"
  "mg_ctxs (set_log io l k g s) = mg_ctxs s" "mg_closed (set_log io l k g s) = mg_closed s"
  "mg_db (set_log io l k g s) = mg_db s" "mg_done (set_log io l k g s) = mg_done s"
  "mg_threads (set_log io l k g s) = mg_threads s" "mg_events (set_log io l k g s) = mg_events s"
  "sess (set_log io l k g s) = sess s"
  by (simp_all add: set_log_def sess_def fun_eq_iff)

lemma finish_fields [simp]:
  "mg_sessions (finish_ctx h c s) = mg_sessions s" "mg_live (finish_ctx h c s) = mg_live s"
  "mg_db (finish_ctx h c s) = mg_db s" "mg_done (finish_ctx h c s) = mg_done s" "mg_closed (finish_ctx h c s) = mg_closed s"
  "mg_threads (finish_ctx h c s) = mg_threads s" "mg_events (finish_ctx h c s) = mg_events s" "sess (finish_ctx h c s) = sess s"
  by (simp_all add: finish_ctx_def sess_def fun_eq_iff split: option.split)

lemma session_fields [simp]:
  "mg_live (set_session i f s) = mg_live s" "mg_ctxs (set_session i f s) = mg_ctxs s" "mg_closed (set_session i f s) = mg_closed s"
  "mg_db (set_session i f s) = mg_db s" "mg_done (set_session i f s) = mg_done s" "mg_threads (set_session i f s) = mg_threads s"
  "mg_events (set_session i f s) = mg_events s" "length (mg_sessions (set_session i f s)) = length (mg_sessions s)"
  by (simp_all add: set_session_def)

lemma sess_set_session [simp]:
  "sess (set_session i f st) j = (if j = i \<and> i < length (mg_sessions st) then f (sess st i) else sess st j)"
  by (cases "i < length (mg_sessions st)") (auto simp: set_session_def sess_def nth_list_update list_update_beyond)

lemma waiting_fields [simp]:
  "ctx_of (emit_ev es s) = ctx_of s" "ctx_of (set_row io l tid f s) = ctx_of s" "ctx_of (s\<lparr>mg_db := d\<rparr>) = ctx_of s"
  "closed_chan ch (emit_ev es s) = closed_chan ch s" "closed_chan ch (set_row io l tid f s) = closed_chan ch s"
  "closed_chan ch (s\<lparr>mg_db := d\<rparr>) = closed_chan ch s" "sess (s\<lparr>mg_db := d\<rparr>) = sess s"
  "ctx_of (take_thread n s) = ctx_of s" "closed_chan ch (take_thread n s) = closed_chan ch s"
  "sess (take_thread n s) = sess s" "mg_sessions (take_thread n s) = mg_sessions s" "mg_db (take_thread n s) = mg_db s"
  by (simp_all add: take_thread_def ctx_of_def closed_chan_def sess_def fun_eq_iff cong: option.case_cong)

text \<open>A change of a row that does not open it.\<close>

definition mild :: "(call_transfer \<Rightarrow> call_transfer) \<Rightarrow> bool" where
  "mild f \<longleftrightarrow> (\<forall>x. ct_ID (f x) = ct_ID x \<and> (ct_Status (f x) = ''waiting'' \<longrightarrow> ct_Status x = ''waiting''))"

lemma row_ids_update:
  assumes "\<And>x. ct_ID (f x) = ct_ID x"
  shows "row_ids (set_row io l tid f s) = row_ids s"
  using assms image_image [of ct_ID "\<lambda>r. if ct_ID r = tid then f r else r" "set (call_transfers (mg_db s))"]
  by (simp add: set_row_def row_ids_def set_update_by if_distrib [of ct_ID] cong: if_cong)

lemma open_rows_update: "mild f \<Longrightarrow> open_rows (set_row io l tid f s) \<subseteq> open_rows s"
  by (auto simp: set_row_def open_rows_def set_update_by mild_def split: if_splits)

lemma update_by_elem: "t \<in> set (update_by key k f xs) \<Longrightarrow> \<exists>x \<in> set xs. t = (if key x = k then f x else x)"
  unfolding set_update_by by blast

lemma row_changed:
  assumes "r \<in> set (call_transfers (mg_db (set_row io l tid f s)))" "ct_ID r = tid" "\<not> ci_err io l"
    and "\<And>x. ct_ID (f x) = ct_ID x"
  obtains x where "x \<in> set (call_transfers (mg_db s))" "ct_ID x = tid" "r = f x"
proof -
  obtain x where "x \<in> set (call_transfers (mg_db s))" "r = (if ct_ID x = tid then f x else x)"
    using assms(1,3) update_by_elem [of r ct_ID tid f] by (auto simp: set_row_def)
  with assms(2,4) that show thesis
    by (cases "ct_ID x = tid") simp_all
qed

lemma find_set: "find P xs = Some x \<Longrightarrow> x \<in> set xs \<and> P x"
  by (induction xs) (auto split: if_splits)

lemma GetTeamConfig_calls: "call_transfers (snd (GetTeamConfig io t db)) = call_transfers db"
  by (auto simp: GetTeamConfig_def Let_def split: option.splits)

lemma GetAvailableAgents_calls: "GetAvailableAgents io t ex db = (r, db') \<Longrightarrow> call_transfers db' = call_transfers db"
  using GetTeamConfig_calls [of io t db] by (auto simp: GetAvailableAgents_def split: prod.splits option.splits)

lemma AssignToTeam_calls: "AssignToTeam io t o' ex lc db = (r, db') \<Longrightarrow> call_transfers db' = call_transfers db"
  using GetTeamConfig_calls [of io t db]
  by (auto simp: AssignToTeam_def assignRoundRobin_def Let_def split: prod.splits option.splits if_splits list.splits)

section \<open>The laws of a view\<close>

named_theorems viewing

locale call_view =
  fixes view :: "Manager \<Rightarrow> Manager \<Rightarrow> bool"
  assumes frame: "call_transfers (mg_db s') = call_transfers (mg_db s) \<Longrightarrow> mg_threads s' = mg_threads s \<Longrightarrow>
      mg_events s' = mg_events s \<Longrightarrow> view s s'"
    and trans: "view a b \<Longrightarrow> view b c \<Longrightarrow> view a c"
    and row_step: "mild f \<Longrightarrow> view s (set_row io l tid f s)"
    and new_row_step: "ct_ID r \<notin> row_ids s \<Longrightarrow> view s (add_row r s)"
    and emit_step: "quiet_event e \<Longrightarrow> view s (emit_ev [e] s)"
    and spawn_step: "asks t = None \<Longrightarrow> holds t = None \<Longrightarrow> view s (spawn [t] s)"
begin

lemma refl [viewing]: "view st st"
  by (rule frame) simp_all

lemma if_view [viewing]: "view st a \<Longrightarrow> view st b \<Longrightarrow> view st (if P then a else b)"
  by simp

lemma option_view [viewing]:
  "view st a \<Longrightarrow> (\<And>y. view st (f y)) \<Longrightarrow> view st (case x of None \<Rightarrow> a | Some y \<Rightarrow> f y)"
  by (cases x) simp_all

lemma then_frame:
  "view st s \<Longrightarrow> call_transfers (mg_db s') = call_transfers (mg_db s) \<Longrightarrow> mg_threads s' = mg_threads s \<Longrightarrow>
     mg_events s' = mg_events s \<Longrightarrow> view st s'"
  using trans frame by blast

lemma basic [viewing]:
  assumes "view st s"
  shows "view st (set_session i f s)" "view st (set_log io l k g s)" "view st (finish_ctx how c s)"
    "view st (new_ctx s)" "view st (new_chan s)" "view st (safeClose ch s)"
    "view st (s\<lparr>mg_done := dn\<rparr>)" "view st (s\<lparr>mg_logs := lg\<rparr>)" "view st (s\<lparr>mg_live := lv\<rparr>)"
    "view st (HandleIncomingCall x s)"
  by (rule then_frame [OF assms]; simp add: set_session_def set_log_def finish_ctx_def new_ctx_def new_chan_def
      safeClose_def HandleIncomingCall_def split: option.split)+

lemma db_view [viewing]: "view st s \<Longrightarrow> call_transfers d = call_transfers (mg_db s) \<Longrightarrow> view st (s\<lparr>mg_db := d\<rparr>)"
  by (rule then_frame) simp_all

lemma row_view [viewing]:
  "view st s \<Longrightarrow> (\<And>x. ct_ID (f x) = ct_ID x) \<Longrightarrow>
     (\<And>x. ct_Status (f x) = ''waiting'' \<Longrightarrow> ct_Status x = ''waiting'') \<Longrightarrow> view st (set_row io l tid f s)"
  by (rule trans, assumption, rule row_step) (simp add: mild_def)

lemma emit_view [viewing]: "view st s \<Longrightarrow> quiet_event e \<Longrightarrow> view st (emit_ev [e] s)"
  using trans emit_step by blast

lemma spawn_view [viewing]: "view st s \<Longrightarrow> asks t = None \<Longrightarrow> holds t = None \<Longrightarrow> view st (spawn [t] s)"
  using trans spawn_step by blast


text \<open>The operations that respect every view.\<close>

lemma cleanup_view [viewing]: "view st s \<Longrightarrow> view st (cleanupSession c s)"
  unfolding cleanupSession_def by (intro viewing) simp_all

lemma cleanup_rest_view [viewing]: "view st s \<Longrightarrow> view st (cleanup_rest io i s)"
  unfolding cleanup_rest_def Let_def by (intro viewing; simp split: if_splits)

lemma signal_view [viewing]:
  "view st s \<Longrightarrow> (\<And>x. view st x \<Longrightarrow> view st (g x)) \<Longrightarrow> view st (signal_or_cleanup i oc g s)"
  unfolding signal_or_cleanup_def Let_def by (simp add: viewing split: option.split)

lemma no_answer_view [viewing]: "view st s \<Longrightarrow> view st (handleTransferNoAnswer i tid d s)"
  unfolding handleTransferNoAnswer_def by (intro viewing) simp_all

lemma no_answer_rest_view [viewing]: "view st s \<Longrightarrow> view st (no_answer_rest io i tid d s)"
  unfolding no_answer_rest_def Let_def by (intro viewing) simp_all

lemma fallback_view [viewing]: "view st s \<Longrightarrow> view st (rotation_fallback io i tid team tried d s)"
  unfolding rotation_fallback_def Let_def
  by (cases "GetAvailableAgents (ci_agents io) team tried (mg_db s)")
    (simp only: prod.case, intro viewing; simp add: GetAvailableAgents_calls)

lemma wait_views [viewing]:
  assumes "view st s"
  shows "view st (broadcast_wait io i tid d acc s)" "view st (waitForTransferTimeout i tid c s)"
    "view st (wait_with_timeout i tid s)" "view st (fresh_accepted i s)"
  unfolding broadcast_wait_def waitForTransferTimeout_def wait_with_timeout_def fresh_accepted_def Let_def
  by (intro viewing assms; simp)+

lemma end_views [viewing]:
  assumes "view st s"
  shows "view st (mark_agent_hangup io l s)" "view st (EndTransfer io tid l s)" "view st (end_session io i tid l s)"
  unfolding mark_agent_hangup_def EndTransfer_def end_session_def Let_def
  by (intro viewing assms; simp)+

lemma connect_views [viewing]:
  assumes "view st s"
  shows "view st (completeTransferConnection io i tid agent s)" "view st (record_connection io i tid agent s)"
  unfolding completeTransferConnection_def record_connection_def by (intro viewing assms; simp)+

lemma end_rest_view [viewing]: "view st s \<Longrightarrow> view st (end_rest io i tid c l s)"
  unfolding end_rest_def Let_def by (intro viewing; (cases "ci_err io ''account''")?; simp add: viewing)

lemma hangup_views [viewing]:
  assumes "view st s"
  shows "view st (HandleCallerHangupDuringTransfer i s)" "view st (hangup_rest io i tid s)"
    "view st (HandleCallEvent io c e s)"
  unfolding HandleCallEvent_def HandleCallerHangupDuringTransfer_def hangup_rest_def Let_def
  by (intro viewing assms; simp)+

lemma request_views [viewing]:
  assumes "view st s"
  shows "view st (HangupCallTransfer io org user tid s)" "view st (ConnectCallTransfer org user super tid offer s)"
    "view st (hold_request user l s)" "view st (resume_request user l s)"
    "view st (request_agent_transfer io org user callLog team agent s)"
  unfolding HangupCallTransfer_def ConnectCallTransfer_def hold_request_def resume_request_def HoldCall_def
    ResumeCall_def request_agent_transfer_def InitiateAgentTransfer_def
  using assms by (auto split: option.split intro!: viewing)

lemma call_log_view: "view st s \<Longrightarrow> getOrCreateCallLog io ce s = (l, s') \<Longrightarrow> view st s'"
  by (auto simp: getOrCreateCallLog_def Let_def split: option.splits if_splits intro: viewing)

lemma webhook_view [viewing]:
  assumes "view st s"
  shows "view st (processCallWebhook io ce s)"
proof (cases "getOrCreateCallLog io ce s")
  case (Pair l s1)
  have "view st s1"
    using call_log_view [OF assms Pair] .
  then show ?thesis
    using assms unfolding processCallWebhook_def Pair Let_def EndCall_def
    by (auto split: option.split intro!: viewing)
qed

end

section \<open>The two views\<close>

definition asking :: "Manager \<Rightarrow> call_thread list" where
  "asking st = filter (\<lambda>t. asks t \<noteq> None) (mg_threads st)"

definition holding :: "Manager \<Rightarrow> call_thread list" where
  "holding st = filter (\<lambda>t. holds t \<noteq> None) (mg_threads st)"

definition ask_view :: "Manager \<Rightarrow> Manager \<Rightarrow> bool" where
  "ask_view st st' \<longleftrightarrow> row_ids st \<subseteq> row_ids st' \<and> asking st' = asking st \<and> (\<forall>tid. offers tid st' = offers tid st)"

definition claim_view :: "Manager \<Rightarrow> Manager \<Rightarrow> bool" where
  "claim_view st st' \<longleftrightarrow> row_ids st \<subseteq> row_ids st' \<and> open_rows st' \<subseteq> open_rows st \<union> - row_ids st \<and>
     holding st' = holding st \<and> takes st' = takes st"

lemma seen_after_row [simp]:
  "asking (set_row io l tid f s) = asking s" "holding (set_row io l tid f s) = holding s"
  "takes (set_row io l tid f s) = takes s" "offers u (set_row io l tid f s) = offers u s"
  by (simp_all add: set_row_def asking_def holding_def takes_def offers_def)

lemma seen_after_add [simp]:
  "asking (add_row r s) = asking s" "holding (add_row r s) = holding s"
  "takes (add_row r s) = takes s" "offers u (add_row r s) = offers u s" "row_ids (add_row r s) = insert (ct_ID r) (row_ids s)"
  "open_rows (add_row r s) = open_rows s \<union> (if ct_Status r = ''waiting'' then {ct_ID r} else {})"
  by (auto simp: add_row_def asking_def holding_def takes_def offers_def row_ids_def open_rows_def)

lemma seen_after_spawn [simp]:
  "row_ids (spawn ts s) = row_ids s" "open_rows (spawn ts s) = open_rows s" "takes (spawn ts s) = takes s"
  "offers u (spawn ts s) = offers u s" "asking (spawn ts s) = asking s @ filter (\<lambda>t. asks t \<noteq> None) ts"
  "holding (spawn ts s) = holding s @ filter (\<lambda>t. holds t \<noteq> None) ts" "mg_threads (spawn ts s) = mg_threads s @ ts"
  by (simp_all add: spawn_def asking_def holding_def takes_def offers_def row_ids_def open_rows_def)

lemma seen_after_emit [simp]:
  "row_ids (emit_ev es s) = row_ids s" "open_rows (emit_ev es s) = open_rows s"
  "asking (emit_ev es s) = asking s" "holding (emit_ev es s) = holding s"
  by (simp_all add: emit_ev_def asking_def holding_def row_ids_def open_rows_def)

lemma events_after_emit:
  "takes (emit_ev [e] s) = takes s @ (case e of EvTaken tid a \<Rightarrow> [tid] | _ \<Rightarrow> [])"
  "offers u (emit_ev [e] s) = offers u s @ (case e of EvOffer t a \<Rightarrow> (if t = u then [a] else []) | _ \<Rightarrow> [])"
  by (simp_all add: emit_ev_def takes_def offers_def)

lemma seen_by_frame:
  assumes "call_transfers (mg_db s') = call_transfers (mg_db s)" "mg_threads s' = mg_threads s" "mg_events s' = mg_events s"
  shows "row_ids s' = row_ids s" "open_rows s' = open_rows s" "asking s' = asking s" "holding s' = holding s"
    "takes s' = takes s" "offers u s' = offers u s"
  using assms by (simp_all add: row_ids_def open_rows_def asking_def holding_def takes_def offers_def)

lemma mild_ids: "mild f \<Longrightarrow> row_ids (set_row io l tid f s) = row_ids s"
  by (rule row_ids_update) (simp add: mild_def)

interpretation asks: call_view ask_view
proof
  show "ask_view s s'" if "call_transfers (mg_db s') = call_transfers (mg_db s)" "mg_threads s' = mg_threads s"
    "mg_events s' = mg_events s" for s s'
    using seen_by_frame [OF that] by (simp add: ask_view_def)
  show "ask_view a c" if "ask_view a b" "ask_view b c" for a b c
    using that by (auto simp: ask_view_def)
  show "ask_view s (emit_ev [e] s)" if "quiet_event e" for e s
    using that by (cases e) (simp_all add: ask_view_def events_after_emit)
qed (auto simp: ask_view_def mild_ids)

interpretation claims: call_view claim_view
proof
  show "claim_view s s'" if "call_transfers (mg_db s') = call_transfers (mg_db s)" "mg_threads s' = mg_threads s"
    "mg_events s' = mg_events s" for s s'
    using seen_by_frame [OF that] by (simp add: claim_view_def)
  show "claim_view a c" if "claim_view a b" "claim_view b c" for a b c
    using that unfolding claim_view_def by (elim conjE) (intro conjI; auto)
  show "claim_view s (emit_ev [e] s)" if "quiet_event e" for e s
    using that by (cases e) (simp_all add: claim_view_def events_after_emit)
  show "claim_view s (set_row io l tid f s)" if "mild f" for f s io l tid
    using that open_rows_update [OF that, of io l tid s] by (auto simp: claim_view_def mild_ids)
  show "claim_view s (add_row r s)" if "ct_ID r \<notin> row_ids s" for r s
    using that by (auto simp: claim_view_def)
qed (auto simp: claim_view_def)

section \<open>What each view also allows\<close>

text \<open>Accepting changes nothing for those who ask.\<close>

lemma ask_view_row: "ask_view st s \<Longrightarrow> (\<And>x. ct_ID (f x) = ct_ID x) \<Longrightarrow> ask_view st (set_row io l tid f s)"
  by (simp add: ask_view_def row_ids_update)

lemma ask_view_spawn: "ask_view st s \<Longrightarrow> asks t = None \<Longrightarrow> ask_view st (spawn [t] s)"
  by (simp add: ask_view_def)

lemma ask_view_taken: "ask_view st s \<Longrightarrow> ask_view st (emit_ev [EvTaken tid a] s)"
  by (simp add: ask_view_def events_after_emit)

lemma ask_view_revert: "ask_view st s \<Longrightarrow> ask_view st (revert_claim io tid a s)"
  unfolding revert_claim_def by (intro asks.emit_view ask_view_row) simp_all

lemma ask_view_accept:
  assumes "ask_view st s"
  shows "ask_view st (claim_row io tid user offer s)" "ask_view st (after_claim io tid user offer s)"
    "ask_view st (claim_session io i tid user s)" "ask_view st (agent_setup io i tid user s)"
proof -
  have "claim_row io tid user offer s =
    (if ci_err io ''claim'' \<or> \<not> list_ex (\<lambda>t. ct_ID t = tid \<and> ct_Status t = ''waiting'') (call_transfers (mg_db s))
     then emit_ev [EvReply user 409] s
     else spawn [ThAccepted tid user offer]
       (set_row (io\<lparr>ci_err := \<lambda>_. False\<rparr>) [] tid (\<lambda>t. if ct_Status t = ''waiting'' then t\<lparr>ct_Status := ''connected''\<rparr> else t) s))"
    by (simp add: claim_row_def set_row_def)
  then show "ask_view st (claim_row io tid user offer s)"
    using assms by (simp only:) (intro asks.if_view asks.emit_view ask_view_spawn ask_view_row; simp)
qed (use assms in \<open>auto simp: after_claim_def ConnectAgentToTransfer_def claim_session_def agent_setup_def
      split: option.split intro!: viewing ask_view_spawn ask_view_taken ask_view_revert\<close>)

text \<open>Asking changes nothing for those who accept.\<close>

lemma claim_view_spawn: "claim_view st s \<Longrightarrow> holds t = None \<Longrightarrow> claim_view st (spawn [t] s)"
  by (simp add: claim_view_def)

lemma claim_view_offer: "claim_view st s \<Longrightarrow> claim_view st (emit_ev [EvOffer tid a] s)"
  by (simp add: claim_view_def events_after_emit)

lemma claim_view_new:
  "claim_view st s \<Longrightarrow> ct_ID r \<notin> row_ids s \<Longrightarrow> claim_view st (add_row r s)"
  using claims.trans claims.new_row_step by blast

lemma new_row_ID [simp]: "ct_ID (new_row io s a team ag ini) = ci_new io"
  by (simp add: new_row_def)

lemma row_ids_session [simp]: "row_ids (set_session i f s) = row_ids s" "row_ids (new_chan s) = row_ids s"
  by (simp_all add: row_ids_def set_session_def new_chan_def)

lemmas claim_viewing = viewing claim_view_spawn claim_view_offer claim_view_new

lemma claim_view_initiate:
  "claim_view st s \<Longrightarrow> ci_new io \<notin> row_ids s \<Longrightarrow> claim_view st (initiateTransfer io i account team s)"
  unfolding initiateTransfer_def Let_def by (intro claim_viewing) simp_all

lemma claim_view_agent_transfer:
  "claim_view st s \<Longrightarrow> ci_new io \<notin> row_ids s \<Longrightarrow> claim_view st (agent_transfer_created io i agent team target s)"
  unfolding agent_transfer_created_def Let_def by (intro claim_viewing) simp_all

lemma claim_view_rotation:
  assumes "claim_view st s"
  shows "claim_view st (start_rotation io i tid team s)" "claim_view st (rotation_head io i tid team tried d s)"
    "claim_view st (ringing io i tid team tried d a acc s)" "claim_view st (assigned_wait io i tid team' k c s)"
proof -
  show "claim_view st (rotation_head io i tid team tried d s)"
    unfolding rotation_head_def Let_def
    by (cases "AssignToTeam (ci_agents io) team (cs_OrganizationID (sess s i)) tried CallLoadCounter (mg_db s)")
      (simp only: prod.case, intro claim_viewing assms; simp add: AssignToTeam_calls)
qed (unfold start_rotation_def ringing_def assigned_wait_def Let_def, (intro claim_viewing assms; simp add: GetTeamConfig_calls)+)

lemma claim_view_setup: "claim_view st s \<Longrightarrow> ci_webrtc io \<Longrightarrow> claim_view st (agent_setup io i tid user s)"
  unfolding agent_setup_def by (simp del: not_None_eq) (intro claim_viewing; simp)

end
