(* ===== verification/Call_Reach.thy ===== *)
theory Call_Reach
  imports Call_Facts
begin

text \<open>
  The two invariants of the call manager, kept by every step: \<open>ask_inv\<close> (one thread at a time asks the
  agents of a team for a transfer, and knows whom it has asked) and \<open>claim_inv\<close> (a row in state
  \<open>waiting\<close> is claimed by nobody, any other by at most one request). \<open>call_reach\<close>: the states that
  interleavings of requests, webhooks, deadlines and threads reach.
\<close>

section \<open>Invariants\<close>

definition pending :: "string \<Rightarrow> Manager \<Rightarrow> nat" where
  "pending tid st = length (filter (\<lambda>t. asks t = Some tid) (asking st))"

definition held :: "string \<Rightarrow> Manager \<Rightarrow> nat" where
  "held tid st = length (filter (\<lambda>t. holds t = Some tid) (holding st)) + length (filter (\<lambda>u. u = tid) (takes st))"

definition ask_inv :: "Manager \<Rightarrow> bool" where
  "ask_inv st \<longleftrightarrow>
     (\<forall>tid. distinct (offers tid st) \<and> pending tid st \<le> 1 \<and>
        (offers tid st \<noteq> [] \<or> pending tid st \<noteq> 0 \<longrightarrow> tid \<in> row_ids st)) \<and>
     (\<forall>t tid. t \<in> set (asking st) \<longrightarrow> asks t = Some tid \<longrightarrow> set (offers tid st) \<subseteq> set (asked t))"

definition claim_inv :: "Manager \<Rightarrow> bool" where
  "claim_inv st \<longleftrightarrow>
     (\<forall>tid. held tid st \<le> 1 \<and> (tid \<in> open_rows st \<longrightarrow> held tid st = 0) \<and> (held tid st \<noteq> 0 \<longrightarrow> tid \<in> row_ids st))"

text \<open>Nobody asks for the transfer now, and those who were asked are listed; nobody holds its row.\<close>

definition unasked :: "string \<Rightarrow> string list \<Rightarrow> Manager \<Rightarrow> bool" where
  "unasked tid tried st \<longleftrightarrow>
     ask_inv st \<and> pending tid st = 0 \<and> tid \<in> row_ids st \<and> set (offers tid st) \<subseteq> set tried"

definition unclaimed :: "string \<Rightarrow> Manager \<Rightarrow> bool" where
  "unclaimed tid st \<longleftrightarrow> claim_inv st \<and> held tid st = 0 \<and> tid \<in> row_ids st"

lemma ask_inv_view:
  assumes "ask_inv st" "ask_view st s"
  shows "ask_inv s"
proof -
  have "pending tid s = pending tid st" for tid
    using assms(2) by (simp add: ask_view_def pending_def)
  with assms show ?thesis
    unfolding ask_inv_def ask_view_def by auto
qed

lemma unasked_view: "unasked tid tried st \<Longrightarrow> ask_view st s \<Longrightarrow> unasked tid tried s"
  using ask_inv_view [of st s] by (auto simp: unasked_def ask_view_def pending_def)

lemma claim_inv_view:
  assumes "claim_inv st" "claim_view st s"
  shows "claim_inv s"
proof -
  have "held tid s = held tid st" for tid
    using assms(2) by (simp add: claim_view_def held_def)
  with assms show ?thesis
    unfolding claim_inv_def claim_view_def by (metis ComplD UnE subsetD)
qed

section \<open>Asking\<close>

lemma unasked_spawn:
  assumes "unasked tid tried st" "asks t = Some tid" "set tried \<subseteq> set (asked t)"
  shows "ask_inv (spawn [t] st)"
  using assms by (auto simp: unasked_def ask_inv_def pending_def)

lemma unasked_more: "unasked tid tried st \<Longrightarrow> unasked tid (tried @ [a]) st"
  by (auto simp: unasked_def)

lemma unasked_offer:
  assumes "unasked tid tried st" "a \<notin> set tried"
  shows "unasked tid (tried @ [a]) (emit_ev [EvOffer tid a] st)"
proof -
  let ?e = "emit_ev [EvOffer tid a] st"
  have p: "pending u ?e = pending u st" for u
    by (simp add: pending_def)
  have "asks t \<noteq> Some tid" if "t \<in> set (asking st)" for t
    using assms(1) that by (auto simp: unasked_def pending_def filter_empty_conv)
  then show ?thesis
    using assms by (auto simp: unasked_def ask_inv_def p events_after_emit)
qed

lemma unasked_new:
  assumes "ask_inv st" "ct_ID r \<notin> row_ids st"
  shows "unasked (ct_ID r) [] (add_row r st)"
proof -
  have "pending u (add_row r st) = pending u st" for u
    by (simp add: pending_def)
  moreover have "offers (ct_ID r) st = []" "pending (ct_ID r) st = 0"
    using assms by (auto simp: ask_inv_def)
  ultimately show ?thesis
    using ask_inv_view [OF assms(1) asks.new_row_step [OF assms(2)]] by (simp add: unasked_def)
qed

lemma ask_cases:
  "ask_inv a \<Longrightarrow> ask_inv b \<Longrightarrow> ask_inv (if P then a else b)"
  "ask_inv a \<Longrightarrow> (\<And>y. ask_inv (f y)) \<Longrightarrow> ask_inv (case x of None \<Rightarrow> a | Some y \<Rightarrow> f y)"
  by (simp_all split: option.split)

lemma unasked_inv: "unasked tid tried st \<Longrightarrow> ask_inv st"
  by (simp add: unasked_def)

lemma ask_inv_start_rotation: "unasked tid [] st \<Longrightarrow> ask_inv (start_rotation io i tid team st)"
  unfolding start_rotation_def Let_def
  by (rule unasked_spawn, erule unasked_view) (intro viewing | simp add: GetTeamConfig_calls)+

lemma ask_inv_head:
  assumes "unasked tid tried st"
  shows "ask_inv (rotation_head io i tid team tried d st)"
proof -
  have stop: "ask_inv s" if "ask_view st s" for s
    using ask_inv_view [OF unasked_inv [OF assms] that] .
  obtain r db' where a: "AssignToTeam (ci_agents io) team (cs_OrganizationID (sess st i)) tried CallLoadCounter
      (mg_db st) = (r, db')"
    by fastforce
  have ready: "unasked tid tried (st\<lparr>mg_db := db'\<rparr>)"
    by (rule unasked_view [OF assms]) (intro viewing, simp add: AssignToTeam_calls [OF a])
  show ?thesis
  proof (cases "ctx_of st d = CtxLive \<and> cs_TransferStatus (sess st i) = ''waiting'' \<and> r \<noteq> None")
    case True
    then obtain u where r: "r = Some u" by blast
    have new: "u \<notin> set tried"
      using team_choice.chosen_ok [OF a [unfolded r]] by simp
    have more: "ask_inv (spawn [ThRotation i tid team (tried @ [u]) d] (st\<lparr>mg_db := db'\<rparr>))"
      by (rule unasked_spawn [OF unasked_more [OF ready, of u]]) auto
    have row: "unasked tid tried (set_row io ''row_agent'' tid
        (\<lambda>t. t\<lparr>ct_AgentID := Some u, ct_TriedAgentIDs := tried @ [u]\<rparr>) (st\<lparr>mg_db := db'\<rparr>))"
      by (rule unasked_view [OF ready]) (intro viewing; simp)
    have ring: "ask_inv (spawn [ThRinging i tid team (tried @ [u]) d u (cs_TransferAccepted (sess (st\<lparr>mg_db := db'\<rparr>) i))]
        (emit_ev [EvOffer tid u] (set_row io ''row_agent'' tid
          (\<lambda>t. t\<lparr>ct_AgentID := Some u, ct_TriedAgentIDs := tried @ [u]\<rparr>) (st\<lparr>mg_db := db'\<rparr>))))"
      by (rule unasked_spawn [OF unasked_offer [OF row new]]) simp_all
    show ?thesis
      unfolding rotation_head_def Let_def a r using True more ring by simp
  next
    case False
    then show ?thesis
      unfolding rotation_head_def Let_def a
      by (auto split: option.split intro!: stop viewing simp: AssignToTeam_calls [OF a])
  qed
qed

lemma ask_inv_ringing:
  assumes "unasked tid tried st"
  shows "ask_inv (ringing io i tid team tried d a acc st)"
proof -
  have stop: "ask_inv s" if "ask_view st s" for s
    using ask_inv_view [OF unasked_inv [OF assms] that] .
  have go: "ask_inv (spawn [ThRotation i tid team tried d] s)" if "ask_view st s" for s
    by (rule unasked_spawn [OF unasked_view [OF assms that]]) simp_all
  show ?thesis
    unfolding ringing_def Let_def by (auto intro!: stop go viewing)
qed

lemma ask_inv_assigned:
  assumes "unasked tid [] st"
  shows "ask_inv (assigned_wait io i tid team acc c st)"
proof -
  have stop: "ask_inv s" if "ask_view st s" for s
    using ask_inv_view [OF unasked_inv [OF assms] that] .
  have go: "ask_inv (spawn [t] s)" if "asks t = Some tid" "ask_view st s" for t s
    by (rule unasked_spawn [OF unasked_view [OF assms that(2)] that(1)]) simp_all
  show ?thesis
    unfolding assigned_wait_def
    by (intro ask_cases) ((rule go, rule asks.simps, intro viewing) | (rule stop, intro viewing; simp))+
qed

text \<open>A new transfer, and the thread that works for it.\<close>

lemma ask_inv_new:
  assumes "ask_inv st" "ct_ID r \<notin> row_ids st" "ask_view st s" "row_ids s = row_ids st" "ask_view (add_row r s) s'"
  shows "ask_inv s'" "asks t = Some (ct_ID r) \<Longrightarrow> ask_inv (spawn [t] s')"
proof -
  have "unasked (ct_ID r) [] s'"
    using assms by (intro unasked_view [OF unasked_new assms(5)] ask_inv_view [OF assms(1,3)]) simp_all
  then show "ask_inv s'" "asks t = Some (ct_ID r) \<Longrightarrow> ask_inv (spawn [t] s')"
    by (auto intro: unasked_inv unasked_spawn)
qed

lemma ask_inv_initiate:
  assumes "ask_inv st" "ci_new io \<notin> row_ids st"
  shows "ask_inv (initiateTransfer io i account team st)"
proof -
  let ?st1 = "set_session i (\<lambda>s. s\<lparr>cs_HoldPlayer := True\<rparr>) st"
  let ?row = "new_row io (sess st i) account (if team = [] then None else ci_uuid io team) None None"
  have v: "ask_view st ?st1"
    by (intro viewing)
  have fresh: "ct_ID ?row \<notin> row_ids st"
    using assms(2) by simp
  note new = ask_inv_new [OF assms(1) fresh v row_ids_session(1), unfolded new_row_ID]
  show ?thesis
    unfolding initiateTransfer_def Let_def
    by (intro ask_cases ask_inv_view [OF assms(1) v])
      ((rule new(2), intro viewing; (rule asks.simps | simp)) | (rule new(1), intro viewing; simp))+
qed

lemma ask_inv_agent_transfer:
  assumes "ask_inv st" "ci_new io \<notin> row_ids st"
  shows "ask_inv (agent_transfer_created io i agent team target st)"
proof -
  let ?row = "new_row io (sess st i) (cs_AccountName (sess st i)) team target (Some agent)"
  have fresh: "ct_ID ?row \<notin> row_ids st"
    using assms(2) by simp
  note new = ask_inv_new [OF assms(1) fresh asks.refl HOL.refl, unfolded new_row_ID]
  have quiet: "ask_inv (emit_ev [EvReply agent c] s)" if "ask_inv s" for c s
    by (rule ask_inv_view [OF that]) (intro viewing; simp)
  show ?thesis
    unfolding agent_transfer_created_def Let_def
    by (intro ask_cases quiet assms(1))
      ((rule new(2), intro viewing; (rule asks.simps | simp)) | (rule new(1), intro viewing; simp))+
qed

section \<open>Claiming\<close>

lemma unclaimed_view:
  assumes "unclaimed tid st" "claim_view st s"
  shows "unclaimed tid s" "tid \<notin> open_rows st \<Longrightarrow> tid \<notin> open_rows s"
  using assms claim_inv_view [OF _ assms(2)] by (auto simp: unclaimed_def claim_view_def held_def)

lemma unclaimed_hold:
  assumes "unclaimed tid st" "tid \<notin> open_rows st" "holds t = Some tid"
  shows "claim_inv (spawn [t] st)"
proof -
  have "held u (spawn [t] st) = held u st + (if u = tid then 1 else 0)" for u
    using assms(3) by (simp add: held_def)
  with assms show ?thesis
    by (auto simp: unclaimed_def claim_inv_def)
qed

lemma unclaimed_take:
  assumes "unclaimed tid st" "tid \<notin> open_rows st"
  shows "claim_inv (emit_ev [EvTaken tid a] st)"
proof -
  have "held u (emit_ev [EvTaken tid a] st) = held u st + (if u = tid then 1 else 0)" for u
    by (simp add: held_def events_after_emit)
  with assms show ?thesis
    by (auto simp: unclaimed_def claim_inv_def)
qed

lemma unclaimed_inv: "unclaimed tid st \<Longrightarrow> claim_inv st"
  by (simp add: unclaimed_def)

text \<open>The row goes back to \<open>waiting\<close> when its only claim is given up.\<close>

lemma unclaimed_revert:
  assumes "unclaimed tid st"
  shows "claim_inv (revert_claim io tid a st)"
proof -
  define s where "s = set_row io ''row_revert'' tid
    (\<lambda>t. if ct_Status t = ''connected'' then t\<lparr>ct_Status := ''waiting''\<rparr> else t) st"
  have "row_ids s = row_ids st"
    unfolding s_def by (rule row_ids_update) simp
  moreover have "open_rows s \<subseteq> insert tid (open_rows st)"
    by (auto simp: s_def set_row_def open_rows_def set_update_by split: if_splits)
  moreover have "held u s = held u st" for u
    by (simp add: s_def held_def)
  ultimately have "claim_inv s"
    using assms unfolding unclaimed_def claim_inv_def by (metis insertE subsetD)
  then show ?thesis
    unfolding revert_claim_def s_def [symmetric] by (rule claim_inv_view) (intro viewing; simp)
qed

lemma row_not_open:
  assumes "\<not> ci_err io l" "\<And>x. ct_ID (f x) = ct_ID x" "\<And>x. ct_Status (f x) \<noteq> ''waiting''"
  shows "tid \<notin> open_rows (set_row io l tid f s)"
proof
  assume "tid \<in> open_rows (set_row io l tid f s)"
  then obtain r where r: "r \<in> set (call_transfers (mg_db (set_row io l tid f s)))" "ct_ID r = tid" "ct_Status r = ''waiting''"
    by (auto simp: open_rows_def)
  from r(1,2) assms(1,2) show False
    by (rule row_changed) (use r(3) assms(3) in simp)
qed

lemma claim_inv_claim_row:
  assumes "claim_inv st"
  shows "claim_inv (claim_row io tid user offer st)"
proof (cases "ci_err io ''claim'' \<or> tid \<notin> open_rows st")
  case True
  then have "claim_row io tid user offer st = emit_ev [EvReply user 409] st"
    by (auto simp: claim_row_def open_rows_def list_ex_iff)
  then show ?thesis
    using assms by (simp add: claim_inv_view [OF _ claims.emit_step])
next
  case False
  let ?f = "\<lambda>t. if ct_Status t = ''waiting'' then t\<lparr>ct_Status := ''connected''\<rparr> else t"
  define s where "s = set_row (io\<lparr>ci_err := \<lambda>_. False\<rparr>) [] tid ?f st"
  have step: "claim_row io tid user offer st = spawn [ThAccepted tid user offer] s"
    using False by (auto simp: claim_row_def s_def set_row_def open_rows_def list_ex_iff)
  have "claim_view st s"
    unfolding s_def by (rule claims.row_step) (simp add: mild_def)
  moreover have "tid \<in> row_ids st"
    using False by (auto simp: open_rows_def row_ids_def)
  then have "unclaimed tid st"
    using assms False by (simp add: unclaimed_def claim_inv_def)
  ultimately have "unclaimed tid s"
    by (rule unclaimed_view(1) [rotated])
  moreover have "tid \<notin> open_rows s"
    unfolding s_def by (rule row_not_open) simp_all
  ultimately show ?thesis
    unfolding step by (rule unclaimed_hold) simp
qed

lemma claim_inv_after_claim:
  assumes "unclaimed tid st" "tid \<notin> open_rows st"
  shows "claim_inv (after_claim io tid user offer st)"
proof -
  have "claim_inv (emit_ev [EvReply user 400] st)"
    by (rule claim_inv_view [OF unclaimed_inv [OF assms(1)]]) (intro viewing; simp)
  moreover have "claim_inv (spawn [ThFound i tid user] st)" for i
    using assms by (rule unclaimed_hold) simp
  ultimately show ?thesis
    unfolding after_claim_def ConnectAgentToTransfer_def
    using unclaimed_revert [OF assms(1)] by (simp split: option.split)
qed

lemma claim_inv_claim_session:
  assumes "unclaimed tid st" "tid \<notin> open_rows st"
  shows "claim_inv (claim_session io i tid user st)"
proof -
  define s where "s = safeClose (cs_TransferAccepted (sess st i)) (set_session i (\<lambda>s. s\<lparr>cs_TransferStatus := ''connected''\<rparr>) st)"
  have "claim_view st s"
    unfolding s_def by (intro viewing)
  note s = unclaimed_view [OF assms(1) this]
  have "claim_inv (emit_ev [EvTaken tid user] s)"
    by (rule unclaimed_take [OF s(1) s(2) [OF assms(2)]])
  then have "claim_inv (spawn [ThSetup i tid user] (emit_ev [EvTaken tid user] s))"
    by (rule claim_inv_view) (intro viewing; simp)
  with unclaimed_revert [OF assms(1)] show ?thesis
    unfolding claim_session_def s_def by simp
qed

section \<open>Every step\<close>

lemma split_nth: "n < length xs \<Longrightarrow> filter P xs = filter P (take n xs) @ (if P (xs ! n) then [xs ! n] else []) @ filter P (drop (Suc n) xs)"
proof -
  assume "n < length xs"
  then have "filter P xs = filter P (take n xs @ xs ! n # drop (Suc n) xs)"
    by (simp only: id_take_nth_drop [symmetric])
  then show ?thesis
    by simp
qed

lemma taken_thread:
  "row_ids (take_thread n st) = row_ids st" "open_rows (take_thread n st) = open_rows st"
  "takes (take_thread n st) = takes st" "offers u (take_thread n st) = offers u st"
  "asking (take_thread n st) = filter (\<lambda>t. asks t \<noteq> None) (take n (mg_threads st)) @ filter (\<lambda>t. asks t \<noteq> None) (drop (Suc n) (mg_threads st))"
  "holding (take_thread n st) = filter (\<lambda>t. holds t \<noteq> None) (take n (mg_threads st)) @ filter (\<lambda>t. holds t \<noteq> None) (drop (Suc n) (mg_threads st))"
  by (simp_all add: take_thread_def row_ids_def open_rows_def takes_def offers_def asking_def holding_def)

lemma ask_inv_taken:
  assumes "ask_inv st" "n < length (mg_threads st)"
  shows "ask_inv (take_thread n st)"
    "asks (mg_threads st ! n) = Some tid \<Longrightarrow> unasked tid (asked (mg_threads st ! n)) (take_thread n st)"
proof -
  let ?t = "mg_threads st ! n"
  have a: "asking st = filter (\<lambda>t. asks t \<noteq> None) (take n (mg_threads st)) @
      (if asks ?t \<noteq> None then [?t] else []) @ filter (\<lambda>t. asks t \<noteq> None) (drop (Suc n) (mg_threads st))"
    unfolding asking_def by (rule split_nth [OF assms(2)])
  have p: "pending u st = pending u (take_thread n st) + (if asks ?t = Some u then 1 else 0)" for u
    unfolding pending_def taken_thread(5) a by auto
  have sub: "set (asking (take_thread n st)) \<subseteq> set (asking st)"
    unfolding taken_thread(5) a by auto
  have "pending u (take_thread n st) \<le> pending u st" for u
    by (simp add: p)
  with assms(1) sub show inv: "ask_inv (take_thread n st)"
    unfolding ask_inv_def taken_thread(1,4) by (metis le_trans le_zero_eq subsetD)
  assume t: "asks ?t = Some tid"
  then have "?t \<in> set (asking st)"
    unfolding a by simp
  with assms(1) t have "set (offers tid st) \<subseteq> set (asked ?t)" "tid \<in> row_ids st" "pending tid (take_thread n st) = 0"
    using p [of tid] unfolding ask_inv_def by (auto dest: spec [of _ tid])
  with inv show "unasked tid (asked ?t) (take_thread n st)"
    by (simp add: unasked_def taken_thread)
qed

lemma claim_inv_taken:
  assumes "claim_inv st" "n < length (mg_threads st)"
  shows "claim_inv (take_thread n st)"
    "holds (mg_threads st ! n) = Some tid \<Longrightarrow> unclaimed tid (take_thread n st) \<and> tid \<notin> open_rows (take_thread n st)"
proof -
  let ?t = "mg_threads st ! n"
  have a: "holding st = filter (\<lambda>t. holds t \<noteq> None) (take n (mg_threads st)) @
      (if holds ?t \<noteq> None then [?t] else []) @ filter (\<lambda>t. holds t \<noteq> None) (drop (Suc n) (mg_threads st))"
    unfolding holding_def by (rule split_nth [OF assms(2)])
  have h: "held u st = held u (take_thread n st) + (if holds ?t = Some u then 1 else 0)" for u
    unfolding held_def taken_thread a by auto
  have one: "held u st \<le> 1" "u \<in> open_rows st \<Longrightarrow> held u st = 0" "held u st \<noteq> 0 \<Longrightarrow> u \<in> row_ids st" for u
    using assms(1) unfolding claim_inv_def by blast+
  show inv: "claim_inv (take_thread n st)"
    unfolding claim_inv_def taken_thread using one h by (metis add_eq_0_iff_both_eq_0 add_leD1)
  assume t: "holds ?t = Some tid"
  then have "held tid st = 1" "held tid (take_thread n st) = 0"
    using h [of tid] one(1) [of tid] by auto
  then show "unclaimed tid (take_thread n st) \<and> tid \<notin> open_rows (take_thread n st)"
    using inv one(2,3) [of tid] by (auto simp: unclaimed_def taken_thread)
qed

lemma ask_step:
  assumes "ask_inv st" "ci_new io \<notin> row_ids st"
  shows "ask_inv (call_step io op st)"
proof (cases op)
  case (OpTransfer callID team goesOn)
  have "ask_inv (initiateTransfer io i a team s)" if "ask_view st s" "row_ids s = row_ids st" for i a s
    by (rule ask_inv_initiate) (use assms that ask_inv_view in auto)
  then show ?thesis
    unfolding OpTransfer using assms(1) by (simp add: asks.basic asks.refl split: option.split)
next
  case (OpMedia callID)
  have "ask_inv s" "ask_inv (initiateTransfer io i a [] s)" if "ask_view st s" "row_ids s = row_ids st" for i a s
    using assms that ask_inv_view ask_inv_initiate by auto
  then show ?thesis
    unfolding OpMedia using assms(1) by (simp add: Let_def asks.basic asks.refl split: option.split)
next
  case (OpRun n)
  show ?thesis
  proof (cases "n < length (mg_threads st)")
    case True
    define t where "t = mg_threads st ! n"
    define s where "s = take_thread n st"
    note taken = ask_inv_taken [OF assms(1) True, folded s_def t_def]
    have fresh: "ci_new io \<notin> row_ids s"
      using assms(2) by (simp add: s_def taken_thread)
    have view: "ask_inv x" if "ask_view s x" for x
      by (rule ask_inv_view [OF taken(1) that])
    have "ask_inv (run_thread io t s)"
    proof (cases "asks t")
      case (Some tid)
      then have "unasked tid (asked t) s"
        by (rule taken(2))
      with Some show ?thesis
        by (cases t) (simp_all add: ask_inv_start_rotation ask_inv_head ask_inv_ringing ask_inv_assigned)
    next
      case None
      have "ask_inv (agent_transfer_created io i a team target s)" for i a team target
        by (rule ask_inv_agent_transfer [OF taken(1) fresh])
      with None show ?thesis
        by (cases t) (simp_all add: view viewing ask_view_accept)
    qed
    then show ?thesis
      unfolding OpRun using True by (simp add: s_def t_def)
  next
    case False
    with assms(1) OpRun show ?thesis by simp
  qed
qed (auto simp: EndCall_def intro!: ask_inv_view [OF assms(1)] viewing)

lemma claim_step:
  assumes "claim_inv st" "ci_new io \<notin> row_ids st" "ci_webrtc io"
  shows "claim_inv (call_step io op st)"
proof (cases op)
  case (OpRun n)
  show ?thesis
  proof (cases "n < length (mg_threads st)")
    case True
    define t where "t = mg_threads st ! n"
    define s where "s = take_thread n st"
    note taken = claim_inv_taken [OF assms(1) True, folded s_def t_def]
    have fresh: "ci_new io \<notin> row_ids s"
      using assms(2) by (simp add: s_def taken_thread)
    have view: "claim_inv x" if "claim_view s x" for x
      by (rule claim_inv_view [OF taken(1) that])
    have "claim_inv (run_thread io t s)"
    proof (cases t)
      case (ThAccept tid user offer)
      then show ?thesis using claim_inv_claim_row [OF taken(1)] by simp
    next
      case (ThAccepted tid user offer)
      then show ?thesis using claim_inv_after_claim taken(2) by simp
    next
      case (ThFound i tid user)
      then show ?thesis using claim_inv_claim_session taken(2) by simp
    qed (auto intro!: view viewing claim_view_agent_transfer claim_view_rotation claim_view_setup fresh assms(3))
    then show ?thesis
      unfolding OpRun using True by (simp add: s_def t_def)
  next
    case False
    with assms(1) OpRun show ?thesis by simp
  qed
qed (auto simp: EndCall_def Let_def split: option.split
    intro!: claim_inv_view [OF assms(1)] viewing claim_view_initiate simp: assms(2))

text \<open>
  The states that are reached: any rows and sessions to begin with, no thread, nothing sent. New rows
  have new ids. With \<open>sound\<close> no agent's audio setup fails.
\<close>

inductive call_reach :: "bool \<Rightarrow> Manager \<Rightarrow> bool" for sound where
  idle: "mg_threads st = [] \<Longrightarrow> mg_events st = [] \<Longrightarrow> call_reach sound st"
| step: "call_reach sound st \<Longrightarrow> ci_new io \<notin> row_ids st \<Longrightarrow> sound \<longrightarrow> ci_webrtc io \<Longrightarrow>
    call_reach sound (call_step io op st)"

lemma idle_invariants:
  assumes "mg_threads st = []" "mg_events st = []"
  shows "ask_inv st" "claim_inv st"
proof -
  have "asking st = []" "holding st = []" "takes st = []" "offers tid st = []" for tid
    using assms by (simp_all add: asking_def holding_def takes_def offers_def)
  then show "ask_inv st" "claim_inv st"
    by (simp_all add: ask_inv_def claim_inv_def pending_def held_def)
qed

lemma reach_asks: "call_reach sound st \<Longrightarrow> ask_inv st"
  by (induction rule: call_reach.induct) (simp_all add: idle_invariants ask_step)

lemma reach_claims: "call_reach True st \<Longrightarrow> claim_inv st"
  by (induction rule: call_reach.induct) (simp_all add: idle_invariants claim_step)

end
