(* ===== verification/Call_Properties.thy ===== *)
theory Call_Properties
  imports Call_Reach
begin

text \<open>
  What the transfer of calls guarantees: one agent per transfer, each agent asked once, nobody waits
  beyond the deadline; and what callers meet when a step in between fails.
\<close>

section \<open>Schedules\<close>

text \<open>One thread and what becomes of it: each run leaves its continuation at the end of the list.\<close>

fun follow :: "call_io list \<Rightarrow> nat \<Rightarrow> Manager \<Rightarrow> Manager" where
  "follow [] n st = st"
| "follow (io # ios) n st =
     (let st' = call_step io (OpRun n) st in follow ios (length (mg_threads st') - 1) st')"

lemma run_last: "call_step io (OpRun (length (mg_threads s))) (spawn [t] s) = run_thread io t s"
  by (simp add: take_thread_def) (simp add: spawn_def)

lemma follow_spawned:
  "follow (io # ios) (length (mg_threads (spawn [t] s)) - 1) (spawn [t] s) =
     follow ios (length (mg_threads (run_thread io t s)) - 1) (run_thread io t s)"
  using run_last [of io s t] by (simp add: Let_def del: call_step.simps)

section \<open>One agent\<close>

text \<open>
  C14. A transfer goes to one agent: whatever requests, webhooks, deadlines and threads interleave, as
  long as no agent's audio setup fails, at most one agent is announced as the one who took it, and a
  transfer whose row still waits has been taken by nobody.
\<close>
theorem transfer_taken_once:
  assumes "call_reach True st"
  shows "distinct (takes st) \<and> set (takes st) \<inter> open_rows st = {}"
proof -
  have inv: "held u st \<le> 1" "u \<in> open_rows st \<Longrightarrow> held u st = 0" for u
    using reach_claims [OF assms] unfolding claim_inv_def by blast+
  have one: "length (filter (\<lambda>x. x = u) xs) \<le> 1 \<Longrightarrow> xs = ys @ u # zs \<Longrightarrow> u \<notin> set ys \<and> u \<notin> set zs" for xs ys zs and u :: string
    by (auto simp: in_set_conv_decomp)
  have "length (filter (\<lambda>x. x = u) (takes st)) \<le> 1" for u
    using inv(1) [of u] by (simp add: held_def)
  then have "distinct (takes st)"
    using one by (metis not_distinct_decomp in_set_conv_decomp append.assoc append_Cons)
  moreover have "tid \<notin> set (takes st)" if "tid \<in> open_rows st" for tid
    using inv(2) [OF that] by (auto simp: held_def filter_empty_conv)
  ultimately show ?thesis by blast
qed

text \<open>
  C15. The rotation over a team asks each agent at most once for a transfer: in every state that any
  interleaving reaches, failures included, the agents to whom the rotation has offered one transfer
  are pairwise different, and at most one thread rotates for it.
\<close>
theorem rotation_asks_once:
  assumes "call_reach sound st"
  shows "distinct (offers tid st) \<and> length (filter (\<lambda>t. asks t = Some tid) (mg_threads st)) \<le> 1"
proof -
  have "filter (\<lambda>t. asks t = Some tid) (mg_threads st) = filter (\<lambda>t. asks t = Some tid) (asking st)"
    unfolding asking_def filter_filter by (rule filter_cong) auto
  then show ?thesis
    using reach_asks [OF assms] by (simp add: ask_inv_def pending_def)
qed

section \<open>Nobody waits for ever\<close>

definition released :: "nat \<Rightarrow> string \<Rightarrow> CallSession \<Rightarrow> Manager \<Rightarrow> bool" where
  "released i tid s st \<longleftrightarrow> cs_TransferStatus (sess st i) = ''no_answer'' \<and>
     (\<forall>r \<in> set (call_transfers (mg_db st)). ct_ID r = tid \<longrightarrow> ct_Status r = ''no_answer'') \<and>
     (case cs_TransferDone s of
        None \<Rightarrow> GetSession (cs_ID s) st \<noteq> Some i
      | Some ch \<Rightarrow> (ch, ''no_answer'') \<in> set (mg_done st))"

lemma sess_frame [simp]: "sess (y\<lparr>mg_live := lv\<rparr>) = sess y" "sess (y\<lparr>mg_done := dn\<rparr>) = sess y" "sess (spawn ts y) = sess y"
  by (simp_all add: sess_def spawn_def fun_eq_iff)

lemma cleanup_status:
  "cs_TransferStatus (sess (cleanupSession c s) i) = cs_TransferStatus (sess s i)" "mg_db (cleanupSession c s) = mg_db s"
  by (simp_all add: cleanupSession_def spawn_def sess_def split: option.split)

lemma cleanup_removes:
  assumes "cs_TransferStatus (sess s i) \<noteq> ''waiting''"
  shows "GetSession c (cleanupSession c s) \<noteq> Some i"
proof (cases "GetSession c s")
  case None
  then show ?thesis by (simp add: cleanupSession_def)
next
  case (Some j)
  have "map_of (filter (\<lambda>(k, _). k \<noteq> c) xs) c = None" for xs :: "(string \<times> nat) list"
    by (auto simp: map_of_eq_None_iff)
  with Some assms show ?thesis
    by (auto simp: cleanupSession_def spawn_def GetSession_def split: option.split)
qed

lemma no_answer_releases:
  assumes "i < length (mg_sessions st)" "cs_TransferStatus (sess st i) = ''no_answer''" "\<not> ci_err io ''row_no_answer''"
  shows "released i tid (sess st i) (no_answer_rest io i tid d st)"
proof -
  define s where "s = emit_ev [EvNoAnswer tid] (set_log io ''log_system'' (cs_CallLogID (sess st i))
    (\<lambda>l. l\<lparr>cg_DisconnectedBy := ''system''\<rparr>) (set_row io ''row_no_answer'' tid
      (\<lambda>t. t\<lparr>ct_Status := ''no_answer'', ct_CompletedAt := Some (ci_now io)\<rparr>) st))"
  have s: "sess s = sess st" "mg_sessions s = mg_sessions st"
    by (simp_all add: s_def)
  have rows: "\<forall>r \<in> set (call_transfers (mg_db s)). ct_ID r = tid \<longrightarrow> ct_Status r = ''no_answer''"
    unfolding s_def emit_fields log_fields
  proof (intro ballI impI)
    fix r
    assume "r \<in> set (call_transfers (mg_db (set_row io ''row_no_answer'' tid
        (\<lambda>t. t\<lparr>ct_Status := ''no_answer'', ct_CompletedAt := Some (ci_now io)\<rparr>) st)))" "ct_ID r = tid"
    then show "ct_Status r = ''no_answer''"
      using assms(3) by (rule row_changed) simp_all
  qed
  have eq: "no_answer_rest io i tid d st = finish_ctx CtxCanceled d (signal_or_cleanup i ''no_answer'' (\<lambda>x. x) s)"
    by (simp add: no_answer_rest_def s_def Let_def)
  show ?thesis
  proof (cases "cs_TransferDone (sess st i)")
    case (Some ch)
    have "sess (y\<lparr>mg_done := dn\<rparr>) = sess y" for y dn
      by (simp add: sess_def fun_eq_iff)
    with Some show ?thesis
      using assms(1,2) rows unfolding eq released_def by (simp add: signal_or_cleanup_def Let_def s)
  next
    case None
    define x where "x = set_session i (\<lambda>s. s\<lparr>cs_TransferDone := None\<rparr>) s"
    have x: "sess x i = sess st i" "mg_db x = mg_db s"
      using assms(1) None by (simp_all add: x_def s)
    have "signal_or_cleanup i ''no_answer'' (\<lambda>x. x) s = cleanupSession (cs_ID (sess x i)) x"
      using None by (simp add: signal_or_cleanup_def Let_def s x_def)
    moreover have "released i tid (sess st i) (cleanupSession (cs_ID (sess st i)) x)"
      using assms(2) rows None x by (simp add: released_def cleanup_status cleanup_removes)
    ultimately show ?thesis
      unfolding eq x(1) by (simp add: released_def GetSession_def cong: option.case_cong)
  qed
qed

text \<open>The context under which a thread waits.\<close>

fun deadline :: "call_thread \<Rightarrow> nat option" where
  "deadline (ThAssigned i tid team acc c) = Some c"
| "deadline (ThRotation i tid team tried c) = Some c"
| "deadline (ThRinging i tid team tried c a acc) = Some c"
| "deadline (ThBroadcast i tid c acc) = Some c"
| "deadline (ThWaiter i tid c) = Some c"
| "deadline _ = None"

definition expire :: "call_io \<Rightarrow> call_thread \<Rightarrow> Manager \<Rightarrow> Manager" where
  "expire io t st = (case deadline t of None \<Rightarrow> st | Some c \<Rightarrow> call_step io (OpDeadline c) st)"

text \<open>One thread and what becomes of it, run by run; before each run the deadline it has then passes.\<close>

fun late_runs :: "call_io list \<Rightarrow> nat \<Rightarrow> Manager \<Rightarrow> Manager" where
  "late_runs [] n st = st"
| "late_runs (io # ios) n st =
     (let st' = call_step io (OpRun n) (expire io (mg_threads st ! n) st)
      in late_runs ios (length (mg_threads st') - 1) st')"

lemma expire_eq: "expire io t st = finish_ctx CtxDeadlineExceeded (deadline t) st"
  by (cases "deadline t") (simp_all add: expire_def finish_ctx_def)

lemma late_runs_thread:
  assumes "n < length (mg_threads st)"
  shows "late_runs (io # ios) n st =
    (let st' = run_thread io (mg_threads st ! n) (expire io (mg_threads st ! n) (take_thread n st))
     in late_runs ios (length (mg_threads st') - 1) st')"
proof -
  have "take_thread n (finish_ctx h c st) = finish_ctx h c (take_thread n st)" for h c
    by (cases c) (simp_all add: take_thread_def finish_ctx_def ctx_of_def)
  with assms show ?thesis
    by (simp add: expire_eq Let_def)
qed

lemma late_runs_spawned:
  "late_runs (io # ios) (length (mg_threads (spawn [t] s)) - 1) (spawn [t] s) =
     (let st' = run_thread io t (expire io t s) in late_runs ios (length (mg_threads st') - 1) st')"
proof -
  have "take_thread (length (mg_threads s)) (spawn [t] s) = s"
    by (simp add: take_thread_def) (simp add: spawn_def)
  then show ?thesis
    by (subst late_runs_thread) simp_all
qed

lemma expire_fields:
  "mg_sessions (expire io t s) = mg_sessions s" "sess (expire io t s) = sess s" "mg_closed (expire io t s) = mg_closed s"
  "mg_chans (expire io t s) = mg_chans s" "closed_chan ch (expire io t s) = closed_chan ch s" "mg_db (expire io t s) = mg_db s"
  "deadline t = Some c \<Longrightarrow> ctx_of s c \<noteq> CtxCanceled \<Longrightarrow> ctx_of (expire io t s) c = CtxDeadlineExceeded"
  unfolding expire_eq
  by (simp_all add: closed_chan_def finish_ctx_def sess_def fun_eq_iff split: option.split)
    (cases "ctx_of s c"; auto simp: ctx_of_def split: if_splits)

text \<open>Session \<open>i\<close> is the one the caller had, and waits.\<close>

definition waiting_as :: "nat \<Rightarrow> CallSession \<Rightarrow> Manager \<Rightarrow> bool" where
  "waiting_as i x s \<longleftrightarrow> i < length (mg_sessions s) \<and> cs_TransferStatus (sess s i) = ''waiting'' \<and>
     cs_ID (sess s i) = cs_ID x \<and> cs_TransferDone (sess s i) = cs_TransferDone x"

lemma waiting_frame:
  "mg_sessions s' = mg_sessions s \<Longrightarrow> waiting_as i x s' = waiting_as i x s"
  by (simp add: waiting_as_def sess_def)

text \<open>Within the late runs \<open>ios\<close> of the last thread the caller is let go.\<close>

definition frees :: "nat \<Rightarrow> string \<Rightarrow> CallSession \<Rightarrow> call_io list \<Rightarrow> Manager \<Rightarrow> bool" where
  "frees i tid x ios s \<longleftrightarrow>
     (\<exists>k \<le> length ios. released i tid x (late_runs (take k ios) (length (mg_threads s) - 1) s))"

lemma released_cong:
  "released i tid y s \<Longrightarrow> cs_TransferDone y = cs_TransferDone x \<Longrightarrow> cs_ID y = cs_ID x \<Longrightarrow> released i tid x s"
  by (cases "cs_TransferDone x") (simp_all add: released_def)

lemma frees_now: "released i tid x s \<Longrightarrow> frees i tid x ios s"
  unfolding frees_def by (rule exI [of _ 0]) simp

lemma frees_run:
  assumes "frees i tid x ios (run_thread io t (expire io t s))"
  shows "frees i tid x (io # ios) (spawn [t] s)"
proof -
  let ?s = "run_thread io t (expire io t s)"
  obtain k where "k \<le> length ios" "released i tid x (late_runs (take k ios) (length (mg_threads ?s) - 1) ?s)"
    using assms by (auto simp: frees_def)
  then have "Suc k \<le> length (io # ios) \<and> released i tid x
      (late_runs (take (Suc k) (io # ios)) (length (mg_threads (spawn [t] s)) - 1) (spawn [t] s))"
    unfolding take_Suc_Cons late_runs_spawned by (simp add: Let_def)
  then show ?thesis
    unfolding frees_def by blast
qed

lemma frees_more: "frees i tid x ios s \<Longrightarrow> frees i tid x (ios @ rest) s"
  unfolding frees_def by (metis le_add1 le_trans length_append take_append append_Nil2 diff_is_0_eq' take0)

lemma frees_no_answer:
  assumes "waiting_as i x s" "\<not> ci_err io ''row_no_answer''"
  shows "frees i tid x (io # ios) (handleTransferNoAnswer i tid d s)"
proof -
  let ?s = "expire io (ThNoAnswer i tid d) (set_session i (\<lambda>s. s\<lparr>cs_TransferStatus := ''no_answer''\<rparr>) s)"
  have s: "sess ?s i = (sess s i)\<lparr>cs_TransferStatus := ''no_answer''\<rparr>" "i < length (mg_sessions ?s)"
    using assms(1) by (simp_all add: waiting_as_def expire_fields)
  then have "released i tid (sess ?s i) (no_answer_rest io i tid d ?s)"
    using assms(2) by (intro no_answer_releases) simp_all
  moreover have "cs_TransferDone (sess ?s i) = cs_TransferDone x" "cs_ID (sess ?s i) = cs_ID x"
    using assms(1) unfolding s(1) by (simp_all add: waiting_as_def)
  ultimately have "released i tid x (no_answer_rest io i tid d ?s)"
    using released_cong by blast
  then show ?thesis
    using assms(1) unfolding handleTransferNoAnswer_def waiting_as_def
    by (simp add: frees_run [OF frees_now])
qed

lemma frees_broadcast:
  assumes "waiting_as i x s" "ctx_of s d \<noteq> CtxCanceled" "\<not> closed_chan acc s" "\<not> ci_err io2 ''row_no_answer''"
  shows "frees i tid x (io1 # io2 # ios) (spawn [ThBroadcast i tid d acc] s)"
proof -
  let ?s = "expire io1 (ThBroadcast i tid d acc) s"
  have "run_thread io1 (ThBroadcast i tid d acc) ?s = handleTransferNoAnswer i tid (Some d) ?s"
    using assms(2,3) by (simp add: broadcast_wait_def expire_fields)
  moreover have "waiting_as i x ?s"
    using assms(1) waiting_frame expire_fields(1) by metis
  ultimately show ?thesis
    using frees_no_answer [of i x ?s io2] assms(4) by (intro frees_run) simp
qed

lemma frees_waiter:
  assumes "waiting_as i x s" "ctx_of s c \<noteq> CtxCanceled" "\<not> ci_err io2 ''row_no_answer''"
  shows "frees i tid x (io1 # io2 # ios) (spawn [ThWaiter i tid c] s)"
proof -
  let ?s = "expire io1 (ThWaiter i tid c) s"
  have "run_thread io1 (ThWaiter i tid c) ?s = handleTransferNoAnswer i tid None ?s"
    using assms(2) by (simp add: waitForTransferTimeout_def expire_fields)
  moreover have "waiting_as i x ?s"
    using assms(1) waiting_frame expire_fields(1) by metis
  ultimately show ?thesis
    using frees_no_answer [of i x ?s io2] assms(3) by (intro frees_run) simp
qed

lemma frees_fallback:
  assumes "waiting_as i x s" "ctx_of s d \<noteq> CtxCanceled" "\<not> closed_chan (cs_TransferAccepted (sess s i)) s"
    and "\<not> ci_err io1 ''row_no_answer''" "\<not> ci_err io2 ''row_no_answer''"
  shows "frees i tid x (io1 # io2 # ios) (rotation_fallback io i tid team tried d s)"
proof -
  obtain av db' where a: "GetAvailableAgents (ci_agents io) team tried (mg_db s) = (av, db')"
    by fastforce
  define s1 where "s1 = s\<lparr>mg_db := db'\<rparr>"
  have s1: "waiting_as i x s1" "sess s1 = sess s"
    using assms(1) waiting_frame [of s1 s] by (simp_all add: s1_def)
  have none: "frees i tid x (io1 # io2 # ios) (handleTransferNoAnswer i tid (Some d) s1)"
    by (rule frees_no_answer [OF s1(1) assms(4)])
  define s2 where "s2 = emit_ev [EvRingTeam tid (FilterOnlineUsers (cs_OrganizationID (sess s i)) av (ci_hub io))]
    (set_row io ''row_clear'' tid (\<lambda>t. t\<lparr>ct_AgentID := None\<rparr>) s1)"
  have "waiting_as i x s2"
    using s1(1) waiting_frame [of s2 s1] by (simp add: s2_def)
  then have "frees i tid x (io1 # io2 # ios) (spawn [ThBroadcast i tid d (cs_TransferAccepted (sess s1 i))] s2)"
    by (rule frees_broadcast) (use assms(2,3,5) in \<open>simp_all add: s2_def s1_def\<close>)
  with none show ?thesis
    using assms(1) unfolding rotation_fallback_def Let_def a s2_def s1_def waiting_as_def by simp
qed

lemma frees_rotation:
  assumes "waiting_as i x s" "ctx_of s d \<noteq> CtxCanceled" "\<not> closed_chan (cs_TransferAccepted (sess s i)) s"
    and "\<not> ci_err io2 ''row_no_answer''" "\<not> ci_err io3 ''row_no_answer''"
  shows "frees i tid x (io1 # io2 # io3 # ios) (spawn [ThRotation i tid team tried d] s)"
proof -
  let ?s = "expire io1 (ThRotation i tid team tried d) s"
  have late: "ctx_of ?s d = CtxDeadlineExceeded"
    using assms(2) by (simp add: expire_fields)
  then have "run_thread io1 (ThRotation i tid team tried d) ?s = rotation_fallback io1 i tid team tried d ?s"
    by (simp add: rotation_head_def Let_def)
  moreover have "waiting_as i x ?s"
    using assms(1) waiting_frame expire_fields(1) by metis
  then have "frees i tid x (io2 # io3 # ios) (rotation_fallback io1 i tid team tried d ?s)"
    by (rule frees_fallback) (use assms(3-5) late in \<open>simp_all add: expire_fields\<close>)
  ultimately show ?thesis
    by (intro frees_run) simp
qed

lemma frees_ringing:
  assumes "waiting_as i x s" "ctx_of s d \<noteq> CtxCanceled" "\<not> closed_chan (cs_TransferAccepted (sess s i)) s"
    and "\<not> closed_chan acc s" "\<forall>io \<in> {io2, io3, io4}. \<not> ci_err io ''row_no_answer''"
  shows "frees i tid x (io1 # io2 # io3 # io4 # ios) (spawn [ThRinging i tid team tried d a acc] s)"
proof -
  let ?s = "expire io1 (ThRinging i tid team tried d a acc) s"
  define v where "v = set_row io1 ''row_clear'' tid (\<lambda>t. t\<lparr>ct_AgentID := None\<rparr>) (emit_ev [EvReassigned tid a] ?s)"
  have v: "ctx_of v d = CtxDeadlineExceeded" "\<not> closed_chan (cs_TransferAccepted (sess v i)) v" "mg_sessions v = mg_sessions s"
    using assms(2,3) by (simp_all add: v_def expire_fields)
  then have w: "waiting_as i x v"
    using assms(1) waiting_frame by metis
  have "frees i tid x (io2 # io3 # io4 # ios) (rotation_fallback io1 i tid team tried d v)"
    "frees i tid x (io2 # io3 # io4 # ios) (spawn [ThRotation i tid team tried d] v)"
    using w v assms(5) by (auto intro!: frees_fallback frees_rotation)
  moreover have "run_thread io1 (ThRinging i tid team tried d a acc) ?s =
      (if ci_branch io1 = 2 then rotation_fallback io1 i tid team tried d v else spawn [ThRotation i tid team tried d] v)"
    using assms(2,4) by (simp add: ringing_def Let_def v_def expire_fields)
  ultimately show ?thesis
    by (intro frees_run) simp
qed

text \<open>A rotation or a waiter that begins has a context of its own.\<close>

lemma new_ctx_fields [simp]:
  "mg_sessions (new_ctx s) = mg_sessions s" "sess (new_ctx s) = sess s" "closed_chan ch (new_ctx s) = closed_chan ch s"
  "closed_chan ch (set_session i f s) = closed_chan ch s" "ctx_of (set_session i f s) = ctx_of s"
  "ctx_of (new_ctx s) (length (mg_ctxs s)) = CtxLive"
  by (simp_all add: new_ctx_def set_session_def ctx_of_def closed_chan_def sess_def fun_eq_iff cong: option.case_cong)

lemma frees_start:
  assumes "waiting_as i x s" "\<not> closed_chan (cs_TransferAccepted (sess s i)) s"
    and "\<not> ci_err io3 ''row_no_answer''" "\<not> ci_err io4 ''row_no_answer''"
  shows "frees i tid x (io1 # io2 # io3 # io4 # ios) (spawn [ThStartRotation i tid team] s)"
proof -
  define s1 where "s1 = s\<lparr>mg_db := snd (GetTeamConfig (ci_agents io1) team (mg_db s))\<rparr>"
  define s2 where "s2 = set_session i (\<lambda>s. s\<lparr>cs_TransferCancel := Some (length (mg_ctxs s1))\<rparr>) (new_ctx s1)"
  have s1: "sess s1 = sess s" "length (mg_sessions s1) = length (mg_sessions s)" "closed_chan ch s1 = closed_chan ch s" for ch
    by (simp_all add: s1_def)
  have "waiting_as i x s2" "ctx_of s2 (length (mg_ctxs s1)) \<noteq> CtxCanceled" "\<not> closed_chan (cs_TransferAccepted (sess s2 i)) s2"
    using assms(1,2) by (simp_all add: waiting_as_def s2_def s1)
  then have "frees i tid x (io2 # io3 # io4 # ios) (spawn [ThRotation i tid team [] (length (mg_ctxs s1))] s2)"
    by (intro frees_rotation assms(3,4))
  then show ?thesis
    by (intro frees_run) (simp add: expire_def start_rotation_def Let_def s1_def [symmetric] s2_def)
qed

lemma fresh_accepted_fields:
  "i < length (mg_sessions s) \<Longrightarrow> sess (fresh_accepted i s) i = (sess s i)\<lparr>cs_TransferAccepted := Some (mg_chans s)\<rparr>"
  "length (mg_sessions (fresh_accepted i s)) = length (mg_sessions s)" "mg_closed (fresh_accepted i s) = mg_closed s"
  "ctx_of (fresh_accepted i s) = ctx_of s" "fresh_accepted i (spawn ts s) = spawn ts (fresh_accepted i s)"
  by (simp_all add: fresh_accepted_def new_chan_def set_session_def sess_def ctx_of_def spawn_def fun_eq_iff)

lemma frees_assigned:
  assumes "waiting_as i x s" "ctx_of s c \<noteq> CtxCanceled" "\<not> closed_chan (Some acc) s" "\<forall>k \<in> set (mg_closed s). k < mg_chans s"
    and "\<forall>io \<in> {io2, io3, io4, io5}. \<not> ci_err io ''row_no_answer''"
  shows "frees i tid x [io1, io2, io3, io4, io5] (spawn [ThAssigned i tid team acc c] s)"
proof -
  let ?s = "expire io1 (ThAssigned i tid team acc c) s"
  have w: "waiting_as i x ?s"
    using assms(1) waiting_frame expire_fields(1) by metis
  have run: "run_thread io1 (ThAssigned i tid team acc c) ?s =
      (case team of
         Some t \<Rightarrow> spawn [ThStartRotation i tid t] (fresh_accepted i ?s)
       | None \<Rightarrow> fresh_accepted i (emit_ev [EvRingAll tid] (wait_with_timeout i tid ?s)))"
    using assms(1,2,3) by (simp add: assigned_wait_def expire_fields closed_chan_def waiting_as_def)
  have "frees i tid x [io2, io3, io4, io5] (run_thread io1 (ThAssigned i tid team acc c) ?s)"
  proof (cases team)
    case (Some t)
    have "waiting_as i x (fresh_accepted i ?s)" "\<not> closed_chan (cs_TransferAccepted (sess (fresh_accepted i ?s) i)) (fresh_accepted i ?s)"
      using w assms(4) by (auto simp: waiting_as_def fresh_accepted_fields closed_chan_def expire_fields)
    then show ?thesis
      unfolding run unfolding Some using assms(5) by (auto intro: frees_start)
  next
    case None
    define y where "y = set_session i (\<lambda>s. s\<lparr>cs_TransferCancel := Some (length (mg_ctxs ?s))\<rparr>) (new_ctx ?s)"
    define z where "z = fresh_accepted i (emit_ev [EvRingAll tid] y)"
    have "waiting_as i x y" "ctx_of y (length (mg_ctxs ?s)) = CtxLive"
      using w unfolding waiting_as_def y_def by simp_all
    then have z: "waiting_as i x z" "ctx_of z (length (mg_ctxs ?s)) \<noteq> CtxCanceled"
      unfolding waiting_as_def z_def by (simp_all add: fresh_accepted_fields)
    have "emit_ev es (spawn ts q) = spawn ts (emit_ev es q)" for es ts q
      by (simp add: emit_ev_def spawn_def)
    then have "run_thread io1 (ThAssigned i tid team acc c) ?s = spawn [ThWaiter i tid (length (mg_ctxs ?s))] z"
      unfolding run unfolding None by (simp add: wait_with_timeout_def Let_def fresh_accepted_fields y_def z_def None)
    then show ?thesis
      using frees_waiter [OF z] assms(5) by simp
  qed
  then show ?thesis
    by (rule frees_run)
qed

text \<open>The threads that wait for an agent, or are about to ask one: session, transfer and channel.\<close>

fun waits_for :: "call_thread \<Rightarrow> (nat \<times> string \<times> nat option) option" where
  "waits_for (ThAssigned i tid team acc c) = Some (i, tid, Some acc)"
| "waits_for (ThStartRotation i tid team) = Some (i, tid, None)"
| "waits_for (ThRotation i tid team tried c) = Some (i, tid, None)"
| "waits_for (ThRinging i tid team tried c a acc) = Some (i, tid, acc)"
| "waits_for (ThBroadcast i tid c acc) = Some (i, tid, acc)"
| "waits_for (ThWaiter i tid c) = Some (i, tid, None)"
| "waits_for _ = None"

lemma waiting_frees:
  assumes "waits_for t = Some (i, tid, acc)" "waiting_as i x s" "\<forall>c. deadline t = Some c \<longrightarrow> ctx_of s c = CtxLive"
    and "\<not> closed_chan acc s" "\<not> closed_chan (cs_TransferAccepted (sess s i)) s" "\<forall>k \<in> set (mg_closed s). k < mg_chans s"
    and "length ios = 5" "\<forall>io \<in> set ios. \<not> ci_err io ''row_no_answer''"
  shows "frees i tid x ios (spawn [t] s)"
proof -
  obtain a b e f g where ios: "ios = [a, b, e, f, g]"
    using assms(7) by (auto simp: length_Suc_conv eval_nat_numeral)
  show ?thesis
    using assms unfolding ios
    by (cases t) (auto intro!: frees_assigned frees_start frees_rotation frees_ringing frees_broadcast frees_waiter)
qed

text \<open>
  C16. Nobody waits for ever: consider a thread that waits for an agent to accept a transfer, whichever
  of its stages it is in (ringing the assigned agent, about to rotate over the team, rotating, ringing
  one of the team, ringing the rest of the team, waiting after a broadcast to the organisation), before
  its deadline and while its session is waiting. If nobody accepts (the channels stay open, and none is closed before it is made), the
  thread runs without anything else in between, each deadline it gets passes (a fallback brings a
  deadline of its own) and the update that closes the row does not fail, then after at most five runs,
  whatever the choice among its ready cases, whoever is online and whatever else fails, the caller is
  released: the session says \<open>no_answer\<close>, so does the transfer's row, and either the voice menu is told
  or the call is gone from the manager.
\<close>
theorem waiting_caller_released:
  assumes "n < length (mg_threads st)" "waits_for (mg_threads st ! n) = Some (i, tid, acc)"
    and "i < length (mg_sessions st)" "cs_TransferStatus (sess st i) = ''waiting''"
    and "\<forall>c. deadline (mg_threads st ! n) = Some c \<longrightarrow> ctx_of st c = CtxLive"
    and "\<not> closed_chan acc st" "\<not> closed_chan (cs_TransferAccepted (sess st i)) st"
    and "\<forall>k \<in> set (mg_closed st). k < mg_chans st"
    and "length ios = 5" "\<forall>io \<in> set ios. \<not> ci_err io ''row_no_answer''"
  shows "\<exists>k \<le> 5. released i tid (sess st i) (late_runs (take k ios) n st)"
proof -
  define t where "t = mg_threads st ! n"
  define u where "u = take_thread n st"
  have u: "mg_closed u = mg_closed st" "mg_chans u = mg_chans st"
    by (simp_all add: u_def take_thread_def)
  have "frees i tid (sess st i) ios (spawn [t] u)"
    by (rule waiting_frees) (use assms u in \<open>simp_all add: t_def u_def waiting_as_def\<close>)
  then obtain k where k: "k \<le> 5" "released i tid (sess st i) (late_runs (take k ios) (length (mg_threads (spawn [t] u)) - 1) (spawn [t] u))"
    using assms(9) by (auto simp: frees_def)
  have "k \<noteq> 0"
  proof
    assume "k = 0"
    with k(2) assms(4) show False by (simp add: released_def u_def)
  qed
  then obtain io rest where "take k ios = io # rest"
    using assms(9) by (cases ios; cases k) auto
  then show ?thesis
    using k late_runs_thread [OF assms(1)] late_runs_spawned [of io rest t u]
    by (intro exI [of _ k]) (simp add: t_def u_def del: late_runs.simps)
qed

section \<open>What goes wrong in between\<close>

lemma reverted_rows:
  assumes "\<forall>r \<in> R. ct_ID r = tid \<longrightarrow> ct_Status r = ''connected''"
  shows "\<forall>r \<in> (\<lambda>r. if ct_ID r = tid
      then (if ct_Status r = ''connected'' then r\<lparr>ct_Status := ''waiting''\<rparr> else r) else r) ` R.
    ct_ID r = tid \<longrightarrow> ct_Status r = ''waiting''"
proof (intro ballI impI, elim imageE)
  fix r x
  assume "r = (if ct_ID x = tid then (if ct_Status x = ''connected'' then x\<lparr>ct_Status := ''waiting''\<rparr> else x) else x)"
    "x \<in> R" "ct_ID r = tid"
  with assms show "ct_Status r = ''waiting''"
    by (cases "ct_ID x = tid") simp_all
qed

lemma rows_twice:
  assumes "\<forall>r \<in> set rs. ct_ID r = tid \<longrightarrow> ct_Status r = ''waiting''"
  shows "update_by ct_ID tid (\<lambda>t. if ct_Status t = ''connected'' then t\<lparr>ct_Status := ''waiting''\<rparr> else t)
    (update_by ct_ID tid (\<lambda>t. if ct_Status t = ''waiting'' then t\<lparr>ct_Status := ''connected''\<rparr> else t) rs) = rs"
  using assms unfolding update_by_def map_map by (intro map_idI) simp

text \<open>
  C17. An audio setup that fails strands the caller: the row goes back to \<open>waiting\<close>, but the session
  stays \<open>connected\<close>. From then on an accept that passes the checks, by whichever agent, is answered with
  an error and changes nothing, and the deadline does not release the caller either.
\<close>
theorem failed_setup_strands_caller:
  assumes "n < length (mg_threads st)" "mg_threads st ! n = ThSetup i tid agent" "\<not> ci_webrtc io"
    and "findSessionByTransferID tid st = Some i" "cs_TransferStatus (sess st i) = ''connected''"
    and "tid \<in> row_ids st" "\<forall>r \<in> set (call_transfers (mg_db st)). ct_ID r = tid \<longrightarrow> ct_Status r = ''connected''"
    and "\<forall>x \<in> {io, io1, io2, io3, io4}. ci_err x = (\<lambda>_. False)"
  defines "st1 \<equiv> call_step io (OpRun n) st"
  assumes "ConnectCallTransfer org user super tid (Some sdp) st1 = spawn [ThAccept tid user (Some sdp)] st1" "sdp \<noteq> []"
  shows "tid \<in> open_rows st1 \<and> cs_TransferStatus (sess st1 i) = ''connected'' \<and>
    follow [io2, io3, io4] (length (mg_threads st1)) (call_step io1 (OpConnect org user super tid (Some sdp)) st1) =
      emit_ev [EvReply user 500] st1 \<and>
    handleTransferNoAnswer i tid d st1 = finish_ctx CtxCanceled d st1"
proof -
  define u where "u = take_thread n st"
  have st1: "st1 = revert_claim io tid agent u"
    using assms(1-3) by (simp add: st1_def u_def agent_setup_def)
  have u: "mg_live u = mg_live st" "mg_sessions u = mg_sessions st"
    by (simp_all add: u_def take_thread_def)
  have sess: "sess st1 = sess st"
    by (simp add: st1 revert_claim_def u_def)
  have live: "mg_live st1 = mg_live st"
    by (simp add: st1 revert_claim_def u)
  have rows: "call_transfers (mg_db st1) = update_by ct_ID tid
      (\<lambda>t. if ct_Status t = ''connected'' then t\<lparr>ct_Status := ''waiting''\<rparr> else t) (call_transfers (mg_db st))"
    using assms(8) by (simp add: st1 revert_claim_def set_row_def u_def)
  have waits: "\<forall>r \<in> set (call_transfers (mg_db st1)). ct_ID r = tid \<longrightarrow> ct_Status r = ''waiting''"
    using assms(7) unfolding rows set_update_by by (rule reverted_rows)
  have "row_ids st1 = row_ids st"
    unfolding st1 revert_claim_def by (simp add: row_ids_update) (simp add: row_ids_def u_def)
  with assms(6) have "\<exists>r \<in> set (call_transfers (mg_db st1)). ct_ID r = tid"
    by (metis imageE row_ids_def)
  with waits have opn: "tid \<in> open_rows st1" and ex: "list_ex (\<lambda>t. ct_ID t = tid \<and> ct_Status t = ''waiting'') (call_transfers (mg_db st1))"
    by (auto simp: open_rows_def list_ex_iff)
  define s2 where "s2 = st1\<lparr>mg_db := (mg_db st1)\<lparr>call_transfers := update_by ct_ID tid
    (\<lambda>t. if ct_Status t = ''waiting'' then t\<lparr>ct_Status := ''connected''\<rparr> else t) (call_transfers (mg_db st1))\<rparr>\<rparr>"
  have two: "claim_row io2 tid user (Some sdp) st1 = spawn [ThAccepted tid user (Some sdp)] s2"
    using assms(8) ex by (simp add: claim_row_def s2_def)
  have s2: "sess s2 = sess st" "mg_live s2 = mg_live st"
    by (simp_all add: s2_def sess live)
  then have "findSessionByTransferID tid s2 = Some i"
    using assms(4) by (simp add: findSessionByTransferID_def)
  then have three: "after_claim io3 tid user (Some sdp) s2 = spawn [ThFound i tid user] s2"
    using assms(11) by (simp add: after_claim_def ConnectAgentToTransfer_def)
  have "claim_session io4 i tid user s2 = revert_claim io4 tid user s2"
    using assms(5) s2 by (simp add: claim_session_def)
  also have "\<dots> = emit_ev [EvReply user 500] st1"
    using rows_twice [OF waits] assms(8) by (simp add: revert_claim_def set_row_def s2_def)
  finally have four: "claim_session io4 i tid user s2 = emit_ev [EvReply user 500] st1" .
  have "follow [io2, io3, io4] (length (mg_threads st1)) (spawn [ThAccept tid user (Some sdp)] st1) =
      emit_ev [EvReply user 500] st1"
    using follow_spawned [of io2 "[io3, io4]" "ThAccept tid user (Some sdp)" st1]
      follow_spawned [of io3 "[io4]" "ThAccepted tid user (Some sdp)" s2]
      follow_spawned [of io4 "[]" "ThFound i tid user" s2]
    by (simp add: two three four del: follow.simps(2))
  with opn sess assms(5,10) show ?thesis
    by (simp add: handleTransferNoAnswer_def del: follow.simps)
qed

text \<open>
  C19. The end of a call goes unnoticed while it waits for an agent: neither the webhooks that report it
  nor the loss of the caller's connection touch the session, the transfer's row, a deadline or any
  thread, so the agents are rung on.
\<close>
theorem caller_hangup_unnoticed:
  assumes "GetSession (ce_ID ce) st = Some i" "cs_TransferStatus (sess st i) = ''waiting''"
    and "ce_Event ce \<in> {''ended'', ''terminate'', ''missed'', ''unanswered''}"
  shows "(let st' = call_step io (OpWebhook ce) st in
      mg_sessions st' = mg_sessions st \<and> mg_live st' = mg_live st \<and> mg_db st' = mg_db st \<and>
      mg_ctxs st' = mg_ctxs st \<and> mg_closed st' = mg_closed st \<and> mg_threads st' = mg_threads st) \<and>
    call_step io (OpCallerLost (ce_ID ce)) st = st"
proof -
  obtain l s where l: "getOrCreateCallLog io ce st = (l, s)" by fastforce
  have s: "mg_sessions s = mg_sessions st" "mg_live s = mg_live st" "mg_db s = mg_db st" "mg_ctxs s = mg_ctxs st"
    "mg_closed s = mg_closed st" "mg_threads s = mg_threads st"
    using l by (auto simp: getOrCreateCallLog_def Let_def split: option.splits if_splits)
  have skip: "cleanupSession (ce_ID ce) x = x" if "mg_sessions x = mg_sessions st" "mg_live x = mg_live st" for x
    using assms(1,2) that by (simp add: cleanupSession_def GetSession_def sess_def)
  have "let st' = call_step io (OpWebhook ce) st in
      mg_sessions st' = mg_sessions st \<and> mg_live st' = mg_live st \<and> mg_db st' = mg_db st \<and>
      mg_ctxs st' = mg_ctxs st \<and> mg_closed st' = mg_closed st \<and> mg_threads st' = mg_threads st"
    using assms(3) by (auto simp: Let_def processCallWebhook_def l EndCall_def skip s split: option.split)
  then show ?thesis
    by (simp add: EndCall_def skip)
qed

text \<open>
  C18. A malformed accept takes the transfer away from everybody: the row is claimed before the body is
  read, so a request without a usable \<open>sdp_offer\<close> is refused but leaves the row \<open>connected\<close>. The caller
  goes on waiting, and every later accept, by whichever agent, is told that the transfer is gone.
\<close>
theorem bad_accept_takes_transfer:
  fixes io io2 :: call_io
  assumes "tid \<in> open_rows st" "\<not> ci_err io1 ''claim''" "offer = None \<or> offer = Some []"
    and "ConnectCallTransfer org user super tid offer st = spawn [ThAccept tid user offer] st"
  defines "st1 \<equiv> follow [io1, io2] (length (mg_threads st)) (call_step io (OpConnect org user super tid offer) st)"
  shows "sess st1 = sess st \<and> mg_threads st1 = mg_threads st \<and> mg_events st1 = mg_events st @ [EvReply user 400] \<and>
    ConnectCallTransfer org' user' super' tid offer' st1 \<in> {emit_ev [EvReply user' 404] st1, emit_ev [EvReply user' 409] st1}"
proof -
  let ?f = "\<lambda>t. if ct_Status t = ''waiting'' then t\<lparr>ct_Status := ''connected''\<rparr> else t"
  define s where "s = st\<lparr>mg_db := (mg_db st)\<lparr>call_transfers := update_by ct_ID tid ?f (call_transfers (mg_db st))\<rparr>\<rparr>"
  have "list_ex (\<lambda>t. ct_ID t = tid \<and> ct_Status t = ''waiting'') (call_transfers (mg_db st))"
    using assms(1) by (auto simp: open_rows_def list_ex_iff)
  then have one: "claim_row io1 tid user offer st = spawn [ThAccepted tid user offer] s"
    using assms(2) by (simp add: claim_row_def s_def)
  have two: "after_claim io2 tid user offer s = emit_ev [EvReply user 400] s"
    using assms(3) by (auto simp: after_claim_def)
  have st1: "st1 = emit_ev [EvReply user 400] s"
    using follow_spawned [of io1 "[io2]" "ThAccept tid user offer" st]
      follow_spawned [of io2 "[]" "ThAccepted tid user offer" s]
    by (simp add: st1_def assms(4) one two del: follow.simps(2))
  have "ct_Status t \<noteq> ''waiting''" if t: "t \<in> set (call_transfers (mg_db st1))" "ct_ID t = tid" for t
  proof -
    obtain x where "t = (if ct_ID x = tid then ?f x else x)"
      using t(1) update_by_elem [of t ct_ID tid ?f] by (auto simp: st1 s_def simp del: if_split_eq2)
    with t(2) show ?thesis
      by (cases "ct_ID x = tid") simp_all
  qed
  then have "ConnectCallTransfer org' user' super' tid offer' st1 \<in> {emit_ev [EvReply user' 404] st1, emit_ev [EvReply user' 409] st1}"
    by (auto simp: ConnectCallTransfer_def dest!: find_set split: option.split)
  then show ?thesis
    by (simp add: st1 s_def) (simp add: emit_ev_def)
qed

section \<open>Witnesses\<close>

text \<open>A call to the team of the sample tables, with both of its agents signed in.\<close>

definition demo_tabs :: hub where
  "demo_tabs = registerClient \<lparr>ws_id = 2, ws_org = ''org'', ws_user = ''bob''\<rparr>
     (registerClient \<lparr>ws_id = 1, ws_org = ''org'', ws_user = ''ann''\<rparr> NewHub)"

definition demo_call_io :: "nat \<Rightarrow> bool \<Rightarrow> string \<Rightarrow> call_io" where
  "demo_call_io branch audio new = \<lparr>ci_now = 50, ci_err = (\<lambda>_. False), ci_new = new, ci_branch = branch,
     ci_webrtc = audio, ci_enabled = True, ci_uuid = Some, ci_agents = sample_io 10, ci_hub = demo_tabs\<rparr>"

definition demo_call :: "string \<Rightarrow> call_event_in" where
  "demo_call event = \<lparr>ce_ID = ''call'', ce_Event = event, ce_SDP = ''v=0'', ce_Org = ''org'', ce_Account = ''shop'',
     ce_From = ''212600000000'', ce_Contact = ''c1'', ce_Sticky = None, ce_HasError = False\<rparr>"

definition demo_idle :: Manager where
  "demo_idle = \<lparr>mg_sessions = [], mg_live = [], mg_db = sample_db, mg_logs = [], mg_ctxs = [], mg_closed = [],
     mg_chans = 0, mg_done = [], mg_events = [], mg_threads = []\<rparr>"

definition demo_ringing :: "(call_io \<times> call_op) list" where
  "demo_ringing = [(demo_call_io 0 True ''log'', OpWebhook (demo_call ''connect'')),
     (demo_call_io 0 True ''x'', OpMedia ''call''), (demo_call_io 0 True ''t1'', OpTransfer ''call'' ''sales'' False),
     (demo_call_io 0 True ''x'', OpRun 0), (demo_call_io 0 True ''x'', OpRun 0)]"

text \<open>The first agent does not answer, the second accepts.\<close>

definition demo_taken :: "(call_io \<times> call_op) list" where
  "demo_taken = demo_ringing @ [(demo_call_io 0 True ''x'', OpRun 0), (demo_call_io 0 True ''x'', OpRun 0),
     (demo_call_io 0 True ''x'', OpConnect ''org'' ''bob'' False ''t1'' (Some ''v=0'')),
     (demo_call_io 0 True ''x'', OpRun 1), (demo_call_io 0 True ''x'', OpRun 1), (demo_call_io 0 True ''x'', OpRun 1)]"

fun fresh_run :: "(call_io \<times> call_op) list \<Rightarrow> Manager \<Rightarrow> bool" where
  "fresh_run [] st = True"
| "fresh_run ((io, op) # ops) st = (ci_new io \<notin> row_ids st \<and> ci_webrtc io \<and> fresh_run ops (call_step io op st))"

lemma reach_run: "call_reach sound st \<Longrightarrow> fresh_run ops st \<Longrightarrow> call_reach sound (call_run ops st)"
proof (induction ops arbitrary: st)
  case (Cons p ops)
  obtain io op where p: "p = (io, op)" by fastforce
  have "call_reach sound (call_step io op st)"
    using Cons.prems p by (intro call_reach.step) simp_all
  with Cons p show ?case
    by (simp add: call_run_def)
qed (simp add: call_run_def)

lemma demo_reached: "call_reach sound (call_run demo_taken demo_idle)"
proof (rule reach_run)
  show "call_reach sound demo_idle"
    by (rule call_reach.idle) (simp_all add: demo_idle_def)
  show "fresh_run demo_taken demo_idle"
    by code_simp
qed

theorem transfer_taken_once_witness:
  "takes (call_run demo_taken demo_idle) = [''t1''] \<and> distinct (takes (call_run demo_taken demo_idle))"
proof -
  have "takes (call_run demo_taken demo_idle) = [''t1'']"
    by code_simp
  with transfer_taken_once [OF demo_reached] show ?thesis by blast
qed

theorem rotation_asks_once_witness:
  "offers ''t1'' (call_run demo_taken demo_idle) = [''ann'', ''bob''] \<and>
   distinct (offers ''t1'' (call_run demo_taken demo_idle))"
proof -
  have "offers ''t1'' (call_run demo_taken demo_idle) = [''ann'', ''bob'']"
    by code_simp
  with rotation_asks_once [OF demo_reached] show ?thesis by blast
qed

lemma connect_passes:
  assumes "case find (\<lambda>t. ct_ID t = tid \<and> ct_Org t = org) (call_transfers (mg_db st)) of
      None \<Rightarrow> False
    | Some t \<Rightarrow> ct_Status t = ''waiting'' \<and> ct_AgentID t \<in> {None, Some user} \<and>
        (case ct_TeamID t of None \<Rightarrow> True | Some team \<Rightarrow> team_member team user st)"
  shows "ConnectCallTransfer org user super tid offer st = spawn [ThAccept tid user offer] st"
  using assms by (auto simp: ConnectCallTransfer_def split: option.splits)

lemma demo_ringing_state:
  "mg_threads (call_run demo_ringing demo_idle) = [ThRinging 0 ''t1'' ''sales'' [''ann''] 0 ''ann'' (Some 0)]"
  "mg_ctxs (call_run demo_ringing demo_idle) = [CtxLive]" "mg_closed (call_run demo_ringing demo_idle) = []"
  "length (mg_sessions (call_run demo_ringing demo_idle)) = 1"
  "cs_TransferStatus (sess (call_run demo_ringing demo_idle) 0) = ''waiting''"
  "cs_TransferAccepted (sess (call_run demo_ringing demo_idle) 0) = Some 0"
  "GetSession ''call'' (call_run demo_ringing demo_idle) = Some 0"
  by code_simp+

theorem waiting_caller_released_witness:
  "\<exists>k. k \<le> 5 \<and> released 0 ''t1'' (sess (call_run demo_ringing demo_idle) 0)
     (late_runs (take k (replicate 5 (demo_call_io 0 True ''x''))) 0 (call_run demo_ringing demo_idle))"
  using waiting_caller_released [of 0 "call_run demo_ringing demo_idle" 0 "''t1''" "Some 0"
      "replicate 5 (demo_call_io 0 True ''x'')"]
  by (simp add: demo_ringing_state ctx_of_def closed_chan_def) (simp add: demo_call_io_def)

lemma demo_taken_state:
  "mg_threads (call_run demo_taken demo_idle) =
     [ThRinging 0 ''t1'' ''sales'' [''ann'', ''bob''] 0 ''bob'' (Some 0), ThSetup 0 ''t1'' ''bob'']"
  "findSessionByTransferID ''t1'' (call_run demo_taken demo_idle) = Some 0"
  "cs_TransferStatus (sess (call_run demo_taken demo_idle) 0) = ''connected''"
  "map ct_ID (call_transfers (mg_db (call_run demo_taken demo_idle))) = [''t1'']"
  "map ct_Status (call_transfers (mg_db (call_run demo_taken demo_idle))) = [''connected'']"
  by code_simp+

theorem failed_setup_strands_caller_witness:
  "let st1 = call_step (demo_call_io 0 False ''x'') (OpRun 1) (call_run demo_taken demo_idle); io = demo_call_io 0 True ''x''
   in ''t1'' \<in> open_rows st1 \<and>
     follow [io, io, io] (length (mg_threads st1)) (call_step io (OpConnect ''org'' ''bob'' False ''t1'' (Some ''v=0'')) st1) =
       emit_ev [EvReply ''bob'' 500] st1 \<and>
     handleTransferNoAnswer 0 ''t1'' (Some 0) st1 = finish_ctx CtxCanceled (Some 0) st1"
proof -
  define st1 where "st1 = call_step (demo_call_io 0 False ''x'') (OpRun 1) (call_run demo_taken demo_idle)"
  have rows: "''t1'' \<in> row_ids (call_run demo_taken demo_idle)"
    "\<forall>r \<in> set (call_transfers (mg_db (call_run demo_taken demo_idle))). ct_ID r = ''t1'' \<longrightarrow> ct_Status r = ''connected''"
    using demo_taken_state(4,5) by (auto simp: row_ids_def)
  have passes: "ConnectCallTransfer ''org'' ''bob'' False ''t1'' (Some ''v=0'') st1 =
      spawn [ThAccept ''t1'' ''bob'' (Some ''v=0'')] st1"
    by (rule connect_passes, unfold st1_def) code_simp
  show ?thesis
    unfolding Let_def
    using failed_setup_strands_caller [of 1 "call_run demo_taken demo_idle" 0 "''t1''" "''bob''" "demo_call_io 0 False ''x''"
        "demo_call_io 0 True ''x''" "demo_call_io 0 True ''x''" "demo_call_io 0 True ''x''" "demo_call_io 0 True ''x''"
        "''org''" "''bob''" False "''v=0''" "Some 0"] demo_taken_state rows passes
    by (simp add: demo_call_io_def st1_def del: follow.simps call_step.simps)
qed

theorem caller_hangup_unnoticed_witness:
  "let st = call_run demo_ringing demo_idle; st' = call_step (demo_call_io 0 True ''x'') (OpWebhook (demo_call ''ended'')) st
   in mg_sessions st' = mg_sessions st \<and> mg_live st' = mg_live st \<and> mg_threads st' = mg_threads st \<and>
     call_step (demo_call_io 0 True ''x'') (OpCallerLost ''call'') st = st"
  using caller_hangup_unnoticed [of "demo_call ''ended''" "call_run demo_ringing demo_idle" 0 "demo_call_io 0 True ''x''"]
    demo_ringing_state(5,7)
  by (simp add: Let_def demo_call_def del: call_step.simps)

theorem bad_accept_takes_transfer_witness:
  "let st = call_run demo_ringing demo_idle; io = demo_call_io 0 True ''x'';
     st1 = follow [io, io] (length (mg_threads st)) (call_step io (OpConnect ''org'' ''ann'' False ''t1'' (Some [])) st)
   in sess st1 = sess st \<and> mg_events st1 = mg_events st @ [EvReply ''ann'' 400] \<and>
     ConnectCallTransfer ''org'' ''bob'' False ''t1'' (Some ''v=0'') st1 \<in> {emit_ev [EvReply ''bob'' 404] st1, emit_ev [EvReply ''bob'' 409] st1}"
proof -
  have "''t1'' \<in> open_rows (call_run demo_ringing demo_idle)"
    by code_simp
  moreover have "ConnectCallTransfer ''org'' ''ann'' False ''t1'' (Some []) (call_run demo_ringing demo_idle) =
      spawn [ThAccept ''t1'' ''ann'' (Some [])] (call_run demo_ringing demo_idle)"
    by (rule connect_passes) code_simp
  ultimately show ?thesis
    unfolding Let_def
    using bad_accept_takes_transfer [of "''t1''" "call_run demo_ringing demo_idle" "demo_call_io 0 True ''x''" "Some []"
        "''org''" "''ann''" False "demo_call_io 0 True ''x''" "demo_call_io 0 True ''x''" "''org''" "''bob''" False "Some ''v=0''"]
    by (simp add: demo_call_io_def del: follow.simps call_step.simps)
qed

end
