(* ===== verification/Spec2Isabelle.thy ===== *)
theory Spec2Isabelle
  imports Chat_Dialogue Flow_Migration IVR_Facts Inbound SLA_Properties Crypto Hub Campaign_Invariant Campaign_Faults Campaign_Reports Access_Weaknesses Call_Properties
begin

text \<open>
  A verification library for the conversation core of the WhatsApp platform (Go, module
  \<open>whatomate\<close>).

  \<^bold>\<open>The program.\<close> An inbound WhatsApp message reaches \<open>processIncomingMessageFull\<close>
  (\<open>internal/handlers/chatbot_processor.go\<close>). It finds the contact's session, checks for a human
  transfer, opening hours, keyword rules and flow triggers, and hands a running flow to
  \<open>runChatGraph\<close> (\<open>chatbot_graph_runner.go\<close>). That engine walks a flow graph
  (\<open>internal/flowgraph\<close>), renders texts with the template engine (\<open>template_engine.go\<close>), keeps its
  variables in the session row and sends through the WhatsApp client. Older flows are turned into
  graphs by \<open>chatbot_flow_migration.go\<close>. Phone calls walk the same kind of graph in the IVR engine
  (\<open>internal/calling/ivr.go\<close>), whose menus are validated by \<open>ivr_flows.go\<close>. A conversation is handed
  to people as an agent transfer (\<open>agent_transfers.go\<close>): it waits in a queue, is assigned by a team's
  strategy (\<open>internal/assignment\<close>), and is watched by the SLA processor (\<open>sla_processor.go\<close>). A phone call
  is handed over as a call transfer (\<open>internal/calling/transfer.go\<close>, \<open>handlers/call_transfers.go\<close>): goroutines
  ring the agents of a team one after another while requests, webhooks and timeouts come in. Browsers
  learn of all this through the websocket hub (\<open>internal/websocket\<close>). Secrets in rows are encrypted
  field by field (\<open>internal/crypto\<close>). Bulk campaigns (\<open>handlers/campaigns.go\<close>) put one job per recipient
  into a Redis stream (\<open>internal/queue\<close>); workers (\<open>internal/worker\<close>) take the jobs, find the contact
  (\<open>internal/contactutil\<close>), build the components of a template message (\<open>pkg/whatsapp/message.go\<close>) and
  send it, and Meta's delivery reports (\<open>handlers/webhook.go\<close>) update messages, recipients and counters.
  People sign in (\<open>handlers/auth.go\<close>) and every other request passes the middleware
  (\<open>internal/middleware\<close>, \<open>cmd/whatomate/main.go\<close>), which finds out who asks; the handlers then ask the
  permission cache (\<open>handlers/cache.go\<close>, \<open>app.go\<close>) whether that person may, and administrators change
  roles (\<open>roles.go\<close>), users (\<open>users.go\<close>), members (\<open>organization.go\<close>) and API keys (\<open>apikeys.go\<close>).

  \<^bold>\<open>Conventions.\<close> A definition has the name of the Go function it translates; helpers that
  translate a loop body, a query or a branch have names in lower case. Dynamic Go values
  (\<open>any\<close>, decoded JSON) are the datatype \<open>any\<close>; maps are association lists; errors and panics are
  values. Go's standard library is modelled where the code uses it (strings, number formatting,
  base64). What the program only calls (WhatsApp delivery, HTTP, the language model, regexp and
  expression engines, uuid, AES-GCM, the clock) is a parameter: the records \<open>go_rt\<close>, \<open>chat_env\<close>,
  \<open>inbound_env\<close>, the IVR surroundings, \<open>agent_io\<close> and \<open>aead\<close>. Answers may depend on everything that
  happened before (the trace), so no determinism is assumed. Tables are lists of the rows that are
  not soft-deleted, in an arbitrary order. Durations and instants are integers in nanoseconds
  without an upper bound.

  \<^bold>\<open>Theories.\<close>
  \<^item> \<open>Go_Prelude\<close>: Go values, strings, integers, the shared lemmas and collections.
  \<^item> \<open>Flow_Graph\<close>: \<open>flowgraph.go\<close>; the interface \<open>flow_router\<close> of the engines and its
    interpretation on \<open>Node\<close>, \<open>ResolveEdge\<close> and closed graphs.
  \<^item> \<open>Template_Engine\<close>, \<open>Template_Facts\<close>: \<open>template_engine.go\<close>; termination, the one way it does not
    terminate, and equivalence of nested lookup with a reference.
  \<^item> \<open>Template_Params\<close>: \<open>templateutil.go\<close>, the parameters of message templates.
  \<^item> \<open>Schedules\<close>: timing nodes and business hours.
  \<^item> \<open>Chat_State\<close>, \<open>Chat_Nodes\<close>, \<open>Chat_Runner\<close>: the session, the node executors and the loop of
    \<open>chatbot_graph_runner.go\<close>.
  \<^item> \<open>Chat_Facts\<close>, \<open>Chat_Properties\<close>, \<open>Chat_Dialogue\<close>: what holds of all executors, of whole runs
    (every run is recorded exactly once, a closed graph never gets lost, flows of other accounts are
    not entered), and of prompts, buttons and bounds.
  \<^item> \<open>Flow_Migration\<close>: \<open>stepsToGraph\<close> and the backfill; migrated graphs are accepted by the engine and
    closed, and the backfill is idempotent.
  \<^item> \<open>IVR\<close>, \<open>IVR_Facts\<close>: voice menus and their validation; validated menus never get lost, the call log
    is complete, key input is bounded, and a cycle without input never ends.
  \<^item> \<open>Agent_Rows\<close>, \<open>Assignment\<close>: rows of the hand-over tables and \<open>AssignToTeam\<close> with its interface
    \<open>agent_choice\<close>; round robin serves every eligible agent before repeating one.
  \<^item> \<open>Transfers\<close>, \<open>SLA\<close>: every handler that writes a transfer, among them the takeover by an agent who
    sends a message (\<open>ensureAgentTakeoverTransfer\<close> of \<open>contacts.go\<close>), and one tick of the SLA processor.
    A count that fails is read as zero, as in the code.
  \<^item> \<open>Transfer_Facts\<close>, \<open>Transfer_Properties\<close>, \<open>SLA_Properties\<close>: the step relation \<open>transfer_step\<close>, the
    invariant of the transfer table, the interface \<open>row_loop\<close> that turns the processor's loops into
    one pass, permissions of picking and assigning, fairness of load balancing. \<open>transfer_step\<close> is
    restricted to steps whose count of active transfers does not fail where that is needed.
  \<^item> \<open>Calls\<close>, \<open>Call_Steps\<close>: the call manager with its sessions, contexts and channels; goroutines and
    handlers as threads that run to the next point where they wait or let go of a lock, in any order.
  \<^item> \<open>Call_Facts\<close>, \<open>Call_Reach\<close>: the interface \<open>call_view\<close>, under which most operations are shown once to
    respect two views of the state (who is asked, who claims), and the invariants of both in every
    interleaving. \<open>Call_Properties\<close>: one agent takes a transfer, the rotation asks each agent once, a
    caller whom nobody answers is released once the deadlines of the waiting thread have passed; a
    failed audio setup, a malformed accept and a caller who hangs up are not recovered from.
  \<^item> \<open>Inbound\<close>: the pipeline of the inbound processor.
  \<^item> \<open>Crypto\<close>: field encryption over an abstract authenticated cipher, with base64 defined.
  \<^item> \<open>Hub\<close>: the connection registry as a refinement of a set, and isolation of broadcasts.
  \<^item> \<open>Message_Components\<close>: the components of template messages; positional parameters reach their slots.
  \<^item> \<open>Contacts\<close>: finding or creating the contact of a number, with every query and update failing or not.
  \<^item> \<open>Campaigns\<close>, \<open>Campaign_API\<close>: rows, worker and queue; the REST operations and delivery reports.
  \<^item> \<open>Campaign_Facts\<close>: the step relation \<open>camp_step\<close> (one call, job, worker start or report, with any
    failures) and what each operation leaves alone. \<open>Campaign_Runs\<close>: runs of a worker on a healthy system.
  \<^item> \<open>Campaign_Properties\<close>, \<open>Campaign_Invariant\<close>, \<open>Campaign_Reports\<close>, \<open>Campaign_Faults\<close>: cancelled campaigns
    stay silent, started ones reach everyone, completed ones have nobody left, statuses are typed, the
    order of reports does not matter; and the ways in which campaigns send twice, never end or block
    the workers.
  \<^item> \<open>Access_Rows\<close>: users, memberships, roles, permissions, API keys, the part of Redis with cached
    permissions and refresh-token identifiers, token claims, and handlers as chains of steps that may
    refuse, with the rules that carry an invariant through a chain. JWT, bcrypt, mail syntax, random
    numbers and the clock are fields of \<open>ax_io\<close>, as are the failures of each database or Redis call.
  \<^item> \<open>Permissions\<close>, \<open>Roles\<close>, \<open>Auth\<close>, \<open>Users\<close>: the permission cache and its invalidation, the
    organisation of a request, the handlers for roles, the middleware, login, registration, refresh,
    logout, change of organisation, websocket tokens, API keys, users and members.
  \<^item> \<open>Access_Steps\<close>: the requests as a datatype, their handling one after another (\<open>ax_run\<close>), and the
    interface \<open>access_invariant\<close>, under which a property kept by each handler is kept by every run.
    \<open>Access_Demo\<close>: the tables the witnesses evaluate on.
  \<^item> \<open>Access_Properties\<close>: nobody outside the group of super admins enters it, a refresh token is used once,
    a cached permission is stale for ten minutes at most. \<open>Access_Cache\<close>: the permissions a user really
    has, agreement of the cache with them, and that a change of a role takes effect at once.
    \<open>Access_Weaknesses\<close>: what the middleware keeps out, and the ways around the guards.
  \<^item> This theory: the inbound processor working on the transfer table, and an agent who takes over.

  \<^bold>\<open>Bounds.\<close> The chat loop has the code's own bound of 100 iterations. Loops that may not end in the
  code (template loops, the IVR node loop) are partial functions whose value \<open>None\<close> is not
  returning; no fuel is used. Termination is proved where it holds and its failure where it does not.

  \<^bold>\<open>Not modelled.\<close> Media transport (WebRTC, RTP, recording), outgoing calls, SQL and gorm beyond the rows above, the
  HTTP server, single sign-on, the audit log, the rate limiter, the HTTP calls of the WhatsApp client, the
  upload of campaign media, analytics, import and export, catalogues, and the frontend. Agent transfers
  and campaigns take the permission check as a parameter; the access theories model it. Outside the
  call manager a handler runs as a whole: an interleaving inside one (a cancel between a worker's look at the status and its send, an
  invalidation between reading permissions and caching them) is not covered, and the asynchronous
  update of \<open>last_used_at\<close> is left out. The re-engagement nudge, the list of transfers and the building
  of AI prompts are left out as well, of \<open>SendMessage\<close> everything but the takeover, and a failing query of
  \<open>ChatLoadCounter\<close> or \<open>CallLoadCounter\<close>, which the code reads as empty loads.
\<close>

section \<open>The inbound processor on the transfer table\<close>

text \<open>
  The handler reads the transfer table and the settings cache, and its requests for a human are the
  calls of \<open>agent_transfers.go\<close>. The table is only read before the first stage, and every stage that
  requests a transfer is the last one to act, so the calls are applied to the table after the run.
\<close>

definition request_human :: "agent_io \<Rightarrow> inbound_msg \<Rightarrow> contact_row \<Rightarrow> event \<Rightarrow> agent_db \<Rightarrow> agent_db" where
  "request_human io msg contact e =
     (case e of
        TransferFromKeyword \<Rightarrow> createTransferFromKeyword io (im_Org msg) (im_Account msg) contact
      | TransferToQueue \<Rightarrow> createTransferToQueue io (im_Org msg) (im_Account msg) contact ''flow''
      | TransferChatbotDisabled \<Rightarrow> createTransferToQueue io (im_Org msg) (im_Account msg) contact ''chatbot_disabled''
      | TransferToTeam team notes \<Rightarrow> createTransferToTeam io (im_Org msg) (im_Account msg) contact team notes ''flow''
      | _ \<Rightarrow> (\<lambda>db. db))"

definition on_tables :: "agent_io \<Rightarrow> inbound_msg \<Rightarrow> contact_row \<Rightarrow> agent_db \<Rightarrow> inbound_env \<Rightarrow> inbound_env" where
  "on_tables io msg contact db env =
     env\<lparr>in_transferred := (\<lambda>_. hasActiveAgentTransfer io db (im_Org msg) (c_ID contact)),
         in_settings := (\<lambda>_. case io_settings io (im_Org msg) (im_Account msg) of
                               None \<Rightarrow> Inl ''record not found'' | Some s \<Rightarrow> Inr s)\<rparr>"

definition handle_message ::
    "agent_io \<Rightarrow> inbound_env \<Rightarrow> contact_row \<Rightarrow> inbound_msg \<Rightarrow> chatNodeCtx \<times> agent_db \<Rightarrow> (chatNodeCtx \<times> agent_db) option" where
  "handle_message io env contact msg = (\<lambda>(st, db).
     let db1 = ClearContactChatbotTracking (c_ID contact) db in
     case processInbound (on_tables io msg contact db1 env) msg st of
       None \<Rightarrow> None
     | Some st' \<Rightarrow> Some (st', fold (request_human io msg contact) (drop (length (trace st)) (trace st')) db1))"

lemma on_tables_reads [simp]:
  "getOrCreateSession (on_tables io msg contact db env) m mins st = getOrCreateSession env m mins st"
  "matchKeywordRules (on_tables io msg contact db env) body tr = matchKeywordRules env body tr"
  "in_chat (on_tables io msg contact db env) = in_chat env"
  "in_transferred (on_tables io msg contact db env) tr = hasActiveAgentTransfer io db (im_Org msg) (c_ID contact)"
  "in_settings (on_tables io msg contact db env) tr =
     (case io_settings io (im_Org msg) (im_Account msg) of None \<Rightarrow> Inl ''record not found'' | Some s \<Rightarrow> Inr s)"
  by (simp_all add: on_tables_def getOrCreateSession_def matchKeywordRules_def split: sum.split)

lemma hasActive_tracking [simp]:
  "hasActiveAgentTransfer io (ClearContactChatbotTracking i db) orgID c = hasActiveAgentTransfer io db orgID c"
  by (simp add: hasActiveAgentTransfer_def)

lemma session_trace:
  "getOrCreateSession env msg mins st = (isNew, st2) \<Longrightarrow>
     \<exists>e. trace st2 = trace st @ [ReadClock, e] \<and> request_human io msg2 contact e = (\<lambda>db. db)"
  by (auto simp: getOrCreateSession_def Let_def emit_def request_human_def split: option.splits)

lemma keyword_transfer_row:
  assumes "\<not> hasActiveAgentTransfer io db orgID (c_ID contact)" "io_settings io orgID account = Some settings"
    and "\<not> bh_Enabled settings" "\<not> io_err io ''create_transfer''"
  shows "\<exists>t. transfers (createTransferFromKeyword io orgID account contact db) = transfers db @ [t] \<and>
    active t \<and> t_ID t = io_new io \<and> t_Org t = orgID \<and> t_Contact t = c_ID contact"
proof -
  let ?t0 = "new_transfer io orgID account contact ''keyword'' (same_agent io (Some settings) contact db) None None []"
  obtain ok db' where s: "saveAndFinalizeTransfer io ?t0 orgID contact (Some settings) True db = (ok, db')"
    by fastforce
  with assms(4) have ok: "ok"
    by (auto simp: saveAndFinalizeTransfer_def Let_def)
  have "createTransferFromKeyword io orgID account contact db = db'"
    using assms s by (simp add: createTransferFromKeyword_def out_of_hours_def)
  with saveAndFinalize_transfers [OF s] ok show ?thesis
    using stored_new_row [of io orgID account contact "''keyword''" "same_agent io (Some settings) contact db" None None "[]" "Some settings"]
    by (auto simp: who_def)
qed

lemma resume_ends_transfer:
  assumes "transfers_ok db" "ResumeFromTransfer io (Some (orgID, userID)) pathID db = (Reply_ok m, db')"
    and "io_uuid io pathID = Some (t_ID t)" "t \<in> set (transfers db)" "active t"
  shows "\<not> list_ex (active_for (t_Org t) (t_Contact t)) (transfers db')"
proof -
  obtain u where u: "find_transfer io (t_ID t) orgID db = Some u" "active u"
    and db': "transfers db' = update_by t_ID (t_ID u)
      (\<lambda>_. u\<lparr>t_Status := TransferStatusResumed, t_ResumedAt := Some (io_now io 1), t_ResumedBy := Some userID\<rparr>) (transfers db)"
    using assms(2,3) by (auto simp: ResumeFromTransfer_def Let_def split: option.splits if_splits)
  have "u = t"
    using find_transfer_in [OF u(1)] assms(1,4) by (auto simp: transfers_ok_def rows_ok_def dest: distinct_key_inj)
  have "r = t" if "r \<in> set (transfers db)" "active r" "who r = who t" for r
    using assms(1,4,5) that
    by (intro distinct_key_inj [of who "filter active (transfers db)"]) (auto simp: transfers_ok_def one_active_def)
  then show ?thesis
    using db' \<open>u = t\<close> by (auto simp: active_for_def list_ex_iff set_update_by active_def who_def)
qed

lemma silent_while_active:
  assumes "t \<in> set (transfers db)" "active_for (im_Org msg) (c_ID contact) t" "\<not> count_fails io (c_ID contact)"
  shows "handle_message io env contact msg (st, db) = Some (st, ClearContactChatbotTracking (c_ID contact) db)"
proof -
  have "hasActiveAgentTransfer io db (im_Org msg) (c_ID contact)"
    using assms by (auto simp: hasActiveAgentTransfer_def list_ex_iff)
  then show ?thesis
    by (simp add: handle_message_def processInbound_def)
qed

lemma same_row_later:
  assumes "(transfer_step counted)\<^sup>*\<^sup>* db db'" "rows_ok db" "t \<in> set (transfers db)"
    and "r \<in> set (transfers db')" "t_ID r = t_ID t" "active r"
  shows "active_for (t_Org t) (t_Contact t) r"
proof -
  obtain r' where "r' \<in> set (transfers db')" "same_transfer t r'"
    using transfer_steps_evolve [OF assms(1)] assms(2,3) by (auto simp: evolves_def)
  moreover from this have "r' = r"
    using transfer_steps_evolve [OF assms(1)] assms(2,4,5)
    by (intro distinct_key_inj [of t_ID "transfers db'"]) (auto simp: evolves_def rows_ok_def same_transfer_def)
  ultimately show ?thesis
    using assms(6) by (simp add: same_transfer_def who_def active_for_def)
qed

text \<open>
  C3. From the customer's request for a human to the end of the hand-over, on the transfer table the
  handlers maintain. A message with a transfer keyword (chatbot enabled, no opening hours, no
  transfer yet; neither the counts of active transfers, now and before, nor the insertion fail)
  leaves the contact with exactly one active transfer. At any time after that, whatever messages,
  handlers and ticks came in between and whatever failed in them, as long as that transfer is still
  active every further message of the customer is met with silence, whatever it says and whatever
  rules and flows exist, unless its own count fails: nothing is sent, the session is not touched and
  no transfer is created. And whenever an agent resumes that transfer, and no count failed in
  between, the contact has no active transfer left, so the chatbot is in charge again.
\<close>
theorem handover_until_resumed:
  assumes "transfer_reach True db" "io_new io \<notin> t_ID ` set (transfers db)" "counts io" "\<not> io_err io ''create_transfer''"
    and "\<not> hasActiveAgentTransfer io db (im_Org msg) (c_ID contact)"
    and "io_settings io (im_Org msg) (im_Account msg) = Some settings" "set_IsEnabled settings" "\<not> bh_Enabled settings"
    and "im_Text msg \<noteq> []" "getOrCreateSession env msg (SessionTimeoutMins settings) st = (isNew, st2)"
    and "matchKeywordRules env (im_Text msg) (trace st2 @ [LogIncoming (im_Text msg) ''keyword_check'']) = Some kw"
    and "kr_ResponseType kw = ''transfer''"
  shows "\<exists>st' db'. handle_message io env contact msg (st, db) = Some (st', db') \<and>
    length (filter (active_for (im_Org msg) (c_ID contact)) (transfers db')) = 1 \<and>
    (\<forall>counted db2 io2 env2 msg2 st3. (transfer_step counted)\<^sup>*\<^sup>* db' db2 \<and>
       (\<exists>t \<in> set (transfers db2). t_ID t = io_new io \<and> active t) \<and>
       im_Org msg2 = im_Org msg \<and> \<not> count_fails io2 (c_ID contact) \<longrightarrow>
       handle_message io2 env2 contact msg2 (st3, db2) = Some (st3, ClearContactChatbotTracking (c_ID contact) db2)) \<and>
    (\<forall>io3 userID pathID m db2 db3. (transfer_step True)\<^sup>*\<^sup>* db' db2 \<and> io_uuid io3 pathID = Some (io_new io) \<and>
       ResumeFromTransfer io3 (Some (im_Org msg, userID)) pathID db2 = (Reply_ok m, db3) \<longrightarrow>
       \<not> list_ex (active_for (im_Org msg) (c_ID contact)) (transfers db3))"
proof -
  define db1 where "db1 = ClearContactChatbotTracking (c_ID contact) db"
  define db' where "db' = createTransferFromKeyword io (im_Org msg) (im_Account msg) contact db1"
  have fresh: "io_new io \<notin> t_ID ` set (transfers db1)" "\<not> hasActiveAgentTransfer io db1 (im_Org msg) (c_ID contact)"
    using assms(2,5) by (simp_all add: db1_def)
  then obtain t where t: "transfers db' = transfers db1 @ [t]" "active t" "t_ID t = io_new io"
      "t_Org t = im_Org msg" "t_Contact t = c_ID contact"
    using keyword_transfer_row assms(4,6,8) unfolding db'_def by blast
  have "transfer_reach True db1"
    by (rule reach_next [OF assms(1) step_other]) (simp add: db1_def)
  then have reach: "transfer_reach True db'"
    unfolding db'_def using reach_next step_keyword fresh(1) assms(3) by metis
  note ok = transfer_reach_ok [OF reach]
  obtain st' where run: "processInbound (on_tables io msg contact db1 env) msg st = Some st'"
    "trace st' = trace st2 @ [LogIncoming (im_Text msg) ''keyword_check''] @
      (if kr_Body kw \<noteq> [] then [Outgoing (OutText (kr_Body kw))] else []) @ [TransferFromKeyword]"
    using assms(5-) by (simp add: processInbound_def check_hours_def stage_text_def stage_keyword_transfer_def Let_def emit_def
        sendAndSaveTextMessage_def SendOutgoing_def db1_def)
  obtain e where e: "trace st2 = trace st @ [ReadClock, e]" "request_human io msg contact e = (\<lambda>db. db)"
    using session_trace [OF assms(10)] by blast
  have first: "handle_message io env contact msg (st, db) = Some (st', db')"
    using run e by (simp add: handle_message_def Let_def db1_def [symmetric])
      (auto simp: request_human_def db'_def)
  have here: "active_for (im_Org msg) (c_ID contact) t"
    using t by (simp add: active_for_def)
  then have one: "length (filter (active_for (im_Org msg) (c_ID contact)) (transfers db')) = 1"
    using at_most_one_active [of "transfers db'" "im_Org msg" "c_ID contact"] ok t(1)
    by (simp add: transfers_ok_def one_active_def)
  have in_db': "t \<in> set (transfers db')" "rows_ok db'"
    using t(1) ok by (simp_all add: transfers_ok_def)
  have silent: "handle_message io2 env2 contact msg2 (st3, db2) = Some (st3, ClearContactChatbotTracking (c_ID contact) db2)"
    if "(transfer_step counted)\<^sup>*\<^sup>* db' db2" "r \<in> set (transfers db2)" "t_ID r = io_new io" "active r"
      "im_Org msg2 = im_Org msg" "\<not> count_fails io2 (c_ID contact)" for counted db2 io2 env2 msg2 st3 r
    using same_row_later [OF that(1) in_db'(2,1) that(2) _ that(4)] that t by (intro silent_while_active [OF that(2)]) simp_all
  have "\<not> list_ex (active_for (im_Org msg) (c_ID contact)) (transfers db3)"
    if r: "(transfer_step True)\<^sup>*\<^sup>* db' db2" "io_uuid io3 pathID = Some (io_new io)"
      "ResumeFromTransfer io3 (Some (im_Org msg, userID)) pathID db2 = (Reply_ok m, db3)"
    for io3 userID pathID m db2 db3
  proof -
    obtain u where "find_transfer io3 (io_new io) (im_Org msg) db2 = Some u" "active u"
      using r(2,3) by (auto simp: ResumeFromTransfer_def Let_def split: option.splits if_splits)
    then have u: "u \<in> set (transfers db2)" "t_ID u = io_new io" "active u"
      using find_transfer_in by blast+
    have "active_for (im_Org msg) (c_ID contact) u"
      using same_row_later [OF r(1) in_db'(2,1) u(1) _ u(3)] u t by simp
    then show ?thesis
      using resume_ends_transfer [OF transfer_reach_ok [OF transfer_reach_steps [OF r(1) reach]] r(3), of u] r(2) u
      by (simp add: active_for_def)
  qed
  with first one silent show ?thesis by blast
qed

theorem handover_until_resumed_witness:
  "\<exists>st' db'. handle_message (sample_io 10) (sample_inbound sample_settings) sample_contact sample_msg (inbound [], sample_db) =
       Some (st', db') \<and>
     length (filter (active_for (im_Org sample_msg) (c_ID sample_contact)) (transfers db')) = 1"
proof -
  obtain isNew st2 where g: "getOrCreateSession (sample_inbound sample_settings) sample_msg 30 (inbound []) = (isNew, st2)"
    by fastforce
  have reach: "transfer_reach True sample_db"
    by (rule reach_empty) (simp add: sample_db_def)
  have body_text: "im_Text sample_msg = ''a human please''" and mins: "SessionTimeoutMins sample_settings = 30"
    by (simp_all add: sample_msg_def sample_settings_def)
  have k: "matchKeywordRules (sample_inbound sample_settings) (im_Text sample_msg)
         (trace st2 @ [LogIncoming (im_Text sample_msg) ''keyword_check'']) =
       Some \<lparr>kr_Body = ''one moment'', kr_Buttons = [], kr_ResponseType = ''transfer''\<rparr>"
    using keyword_sample g by (simp add: body_text)
  have "\<not> hasActiveAgentTransfer (sample_io 10) sample_db (im_Org sample_msg) (c_ID sample_contact)"
    by (simp add: hasActiveAgentTransfer_def sample_db_def)
  from handover_until_resumed [OF reach _ sample_counts _ this _ _ _ _ _ k, of sample_settings "inbound []" isNew] show ?thesis
    by (auto simp: g mins body_text) (auto simp: sample_io_def sample_settings_def sample_db_def)
qed

section \<open>An agent joins\<close>

text \<open>
  C30. An agent who writes to a customer takes the conversation over, and the SLA processor never gives
  it back to the chatbot. In any table that handlers, messages and ticks have made, whatever failed in
  them: when the check finds no active transfer of the customer (it also finds none when its count
  fails) and the insertion does not fail, \<open>ensureAgentTakeoverTransfer\<close> gives the agent an active
  transfer. However often the processor then ticks, with whatever settings and failures and nothing
  else in between, this row stays exactly as it was created, and the chatbot answers every message of
  the customer with silence, unless the count of that message fails.
\<close>
theorem takeover_outlasts_processor:
  assumes "transfer_reach counted db" "io_new io \<notin> t_ID ` set (transfers db)"
    and "\<not> hasActiveAgentTransfer io db orgID (c_ID contact)" "\<not> io_err io ''create_transfer''"
  shows "\<exists>t. t_ID t = io_new io \<and> t_AgentID t = Some agentID \<and> active_for orgID (c_ID contact) t \<and>
    (\<forall>ticks db2. db2 = fold (\<lambda>(io2, rows). processStaleTransfers io2 rows) ticks
         (ensureAgentTakeoverTransfer io orgID contact accountName agentID db) \<longrightarrow>
       t \<in> set (transfers db2) \<and>
       (\<forall>io3 env msg st. im_Org msg = orgID \<and> \<not> count_fails io3 (c_ID contact) \<longrightarrow>
          handle_message io3 env contact msg (st, db2) = Some (st, ClearContactChatbotTracking (c_ID contact) db2)))"
proof -
  let ?t = "new_transfer io orgID accountName contact ''manual'' (Some agentID) None None []"
  let ?db' = "ensureAgentTakeoverTransfer io orgID contact accountName agentID db"
  have row: "t_ID ?t = io_new io" "t_AgentID ?t = Some agentID" "active_for orgID (c_ID contact) ?t" "no_deadlines ?t"
    by (simp_all add: new_transfer_def active_for_def active_def no_deadlines_def no_sla_def)
  have "?t \<in> set (transfers ?db')"
    using assms(3,4) by (simp add: ensureAgentTakeoverTransfer_def)
  moreover have "rows_ok ?db'"
    using transfer_reach_rows [OF reach_next [OF transfer_reach_any [OF assms(1)] step_takeover [OF assms(2)]]] by simp
  ultimately have stays: "?t \<in> set (transfers (fold (\<lambda>(io2, rows). processStaleTransfers io2 rows) ticks ?db'))" for ticks
    using ticks_leave_no_deadlines row(4) by blast
  show ?thesis
    using row(1-3) stays silent_while_active [OF stays] by (intro exI [of _ ?t]) (simp del: in_set_conv_nth)
qed

theorem takeover_outlasts_processor_witness:
  "\<exists>t \<in> set (transfers (processStaleTransfers (sample_io (hours_ns 100)) (Inr [sample_settings])
     (ensureAgentTakeoverTransfer (sample_io 10) ''org'' sample_contact ''shop'' ''ann'' sample_db))). t_AgentID t = Some ''ann''"
proof -
  have reach: "transfer_reach True sample_db"
    by (rule reach_empty) (simp add: sample_db_def)
  obtain t where t: "t_AgentID t = Some ''ann''"
    "\<And>ticks. t \<in> set (transfers (fold (\<lambda>(io2, rows). processStaleTransfers io2 rows) ticks
       (ensureAgentTakeoverTransfer (sample_io 10) ''org'' sample_contact ''shop'' ''ann'' sample_db)))"
    using takeover_outlasts_processor [OF reach, of "sample_io 10" "''org''" sample_contact "''ann''" "''shop''"]
    by (auto simp: sample_io_def sample_db_def hasActiveAgentTransfer_def)
  from t(2) [of "[(sample_io (hours_ns 100), Inr [sample_settings])]"] t(1) show ?thesis
    by auto
qed

end
